(* ===== verification/Prelude.thy ===== *)
theory Prelude
  imports Complex_Main
begin

text \<open>
  Shared vocabulary of the development.

  A relational table is a list of rows; the ORM's \<open>db.get\<close> is a look-up by primary
  key (\<open>tget\<close>), an attribute assignment on a loaded object followed by a flush is a
  row replacement (\<open>tset\<close>), \<open>db.add\<close> appends.  \<open>scalar\<close> is the three-valued
  outcome of SQLAlchemy's \<open>scalar_one_or_none\<close>.  Fallible code returns a sum whose
  left injection is the raised exception; \<open>rbind\<close> sequences it.
  \<open>reach\<close> and the locale \<open>invariant_system\<close> carry every reachability argument.
\<close>

named_theorems table_simps "look-up and update of tables of rows"

type_synonym uid = nat
type_synonym instant = int

section \<open>Exceptions as values\<close>

abbreviation rbind :: "'e + 'a \<Rightarrow> ('a \<Rightarrow> 'e + 'b) \<Rightarrow> 'e + 'b" where
  "rbind m f \<equiv> (case m of Inl e \<Rightarrow> Inl e | Inr x \<Rightarrow> f x)"

lemma rbind_eq_Inr:
  "rbind m f = Inr y \<longleftrightarrow> (\<exists>x. m = Inr x \<and> f x = Inr y)"
  by (cases m) auto

lemma rbind_eq_Inl:
  "rbind m f = Inl e \<longleftrightarrow> m = Inl e \<or> (\<exists>x. m = Inr x \<and> f x = Inl e)"
  by (cases m) auto

lemma rbind_assoc: "rbind (rbind m f) g = rbind m (\<lambda>x. rbind (f x) g)"
  by (cases m) auto

fun is_ok :: "'e + 'a \<Rightarrow> bool" where
  "is_ok (Inl e) = False"
| "is_ok (Inr x) = True"

lemma is_ok_ex: "is_ok r \<longleftrightarrow> (\<exists>x. r = Inr x)"
  by (cases r) auto

fun map_err :: "('e \<Rightarrow> 'f) \<Rightarrow> 'e + 'a \<Rightarrow> 'f + 'a" where
  "map_err h (Inl e) = Inl (h e)"
| "map_err h (Inr x) = Inr x"

lemma map_err_eq_Inr: "map_err h r = Inr x \<longleftrightarrow> r = Inr x"
  by (cases r) auto

lemma map_err_eq_Inl: "map_err h r = Inl e \<longleftrightarrow> (\<exists>e'. r = Inl e' \<and> e = h e')"
  by (cases r) auto

lemmas res_simps = rbind_eq_Inr rbind_eq_Inl map_err_eq_Inr map_err_eq_Inl

section \<open>Query results\<close>

datatype 'a scalar = NoRow | OneRow 'a | ManyRows

fun scalar_of :: "'a list \<Rightarrow> 'a scalar" where
  "scalar_of [] = NoRow"
| "scalar_of [x] = OneRow x"
| "scalar_of (x # y # zs) = ManyRows"

lemma scalar_of_NoRow: "scalar_of xs = NoRow \<longleftrightarrow> xs = []"
  by (cases xs rule: scalar_of.cases) auto

lemma scalar_of_OneRow: "scalar_of xs = OneRow x \<longleftrightarrow> xs = [x]"
  by (cases xs rule: scalar_of.cases) auto

lemma scalar_of_ManyRows: "scalar_of xs = ManyRows \<longleftrightarrow> 2 \<le> length xs"
  by (cases xs rule: scalar_of.cases) auto

lemma scalar_of_filter: "scalar_of (filter P xs) = OneRow x \<Longrightarrow> x \<in> set xs \<and> P x"
  unfolding scalar_of_OneRow by (auto dest!: arg_cong [where f = set])

section \<open>Tables\<close>

definition tget :: "('r \<Rightarrow> 'k) \<Rightarrow> 'r list \<Rightarrow> 'k \<Rightarrow> 'r option" where
  "tget key tbl k = find (\<lambda>r. key r = k) tbl"

definition tset :: "('r \<Rightarrow> 'k) \<Rightarrow> 'r \<Rightarrow> 'r list \<Rightarrow> 'r list" where
  "tset key r tbl = map (\<lambda>x. if key x = key r then r else x) tbl"

definition tdel :: "('r \<Rightarrow> 'k) \<Rightarrow> 'k \<Rightarrow> 'r list \<Rightarrow> 'r list" where
  "tdel key k tbl = filter (\<lambda>x. key x \<noteq> k) tbl"

definition tmod :: "('r \<Rightarrow> 'k) \<Rightarrow> 'k \<Rightarrow> ('r \<Rightarrow> 'r) \<Rightarrow> 'r list \<Rightarrow> 'r list" where
  "tmod key k f tbl = map (\<lambda>x. if key x = k then f x else x) tbl"

definition keys :: "('r \<Rightarrow> 'k) \<Rightarrow> 'r list \<Rightarrow> 'k set" where
  "keys key tbl = key ` set tbl"

lemma tget_Nil [table_simps]: "tget key [] k = None"
  by (simp add: tget_def)

lemma tget_Cons [table_simps]:
  "tget key (r # tbl) k = (if key r = k then Some r else tget key tbl k)"
  by (simp add: tget_def)

lemma tset_Nil [table_simps]: "tset key r [] = []"
  by (simp add: tset_def)

lemma tset_Cons [table_simps]:
  "tset key r (x # tbl) = (if key x = key r then r else x) # tset key r tbl"
  by (simp add: tset_def)

lemma tget_SomeD: "tget key tbl k = Some r \<Longrightarrow> r \<in> set tbl \<and> key r = k"
  by (induction tbl) (auto simp: table_simps split: if_splits)

lemma tget_key: "tget key tbl k = Some r \<Longrightarrow> key r = k"
  by (drule tget_SomeD, simp)

lemma tget_in: "tget key tbl k = Some r \<Longrightarrow> r \<in> set tbl"
  by (drule tget_SomeD, simp)

lemma tget_None_iff: "tget key tbl k = None \<longleftrightarrow> k \<notin> keys key tbl"
  by (induction tbl) (auto simp: table_simps keys_def)

lemma tget_Some_iff_keys: "(\<exists>r. tget key tbl k = Some r) \<longleftrightarrow> k \<in> keys key tbl"
  using tget_None_iff [of key tbl k] by (cases "tget key tbl k") auto

lemma tget_append [table_simps]:
  "tget key (xs @ ys) k = (case tget key xs k of None \<Rightarrow> tget key ys k | Some r \<Rightarrow> Some r)"
  by (induction xs) (auto simp: table_simps)

lemma tget_tset [table_simps]:
  "tget key (tset key r tbl) k =
     (if k = key r then map_option (\<lambda>_. r) (tget key tbl k) else tget key tbl k)"
  by (induction tbl) (auto simp: table_simps)

lemma map_key_tset [simp]: "map key (tset key r tbl) = map key tbl"
  by (auto simp: tset_def)

lemma keys_tset [simp]: "keys key (tset key r tbl) = keys key tbl"
  by (metis keys_def map_key_tset list.set_map)

lemma keys_Nil [simp]: "keys key [] = {}"
  by (simp add: keys_def)

lemma keys_append [simp]: "keys key (xs @ ys) = keys key xs \<union> keys key ys"
  by (auto simp: keys_def)

lemma keys_Cons [simp]: "keys key (x # xs) = insert (key x) (keys key xs)"
  by (auto simp: keys_def)

lemma tset_tset [simp]: "key r' = key r \<Longrightarrow> tset key r' (tset key r tbl) = tset key r' tbl"
  by (auto simp: tset_def)

lemma length_tset [simp]: "length (tset key r tbl) = length tbl"
  by (simp add: tset_def)

lemma tset_absent: "key r \<notin> keys key tbl \<Longrightarrow> tset key r tbl = tbl"
  by (induction tbl) (auto simp: tset_def keys_def)

lemma in_tset: "x \<in> set (tset key r tbl) \<Longrightarrow> x = r \<or> x \<in> set tbl \<and> key x \<noteq> key r"
  by (auto simp: tset_def split: if_splits)

lemma tget_distinct:
  "distinct (map key tbl) \<Longrightarrow> r \<in> set tbl \<Longrightarrow> tget key tbl (key r) = Some r"
  by (induction tbl) (auto simp: table_simps)

lemma tget_tdel [table_simps]:
  "tget key (tdel key k tbl) k' = (if k' = k then None else tget key tbl k')"
  by (induction tbl) (auto simp: table_simps tdel_def)

lemma distinct_map_filter_key: "distinct (map key tbl) \<Longrightarrow> distinct (map key (filter P tbl))"
  by (induction tbl) auto

lemma tget_tmod:
  "(\<And>r. key (f r) = key r) \<Longrightarrow>
   tget key (tmod key k f tbl) k' = (if k' = k then map_option f (tget key tbl k') else tget key tbl k')"
  by (induction tbl) (auto simp: table_simps tmod_def)

lemma tget_map: "(\<And>r. key (f r) = key r) \<Longrightarrow> tget key (map f tbl) k = map_option f (tget key tbl k)"
  by (induction tbl) (auto simp: table_simps)

lemma map_tmod: "(\<And>r. g (f r) = g r) \<Longrightarrow> map g (tmod key k f tbl) = map g tbl"
  by (simp add: tmod_def)

lemma keys_tmod: "(\<And>r. g (f r) = g r) \<Longrightarrow> keys g (tmod key k f tbl) = keys g tbl"
  by (simp only: keys_def list.set_map [symmetric] map_tmod)

lemma in_tmod: "x \<in> set (tmod key k f tbl) \<Longrightarrow>
    x \<in> set tbl \<and> key x \<noteq> k \<or> (\<exists>y\<in>set tbl. key y = k \<and> x = f y)"
  by (auto simp: tmod_def)

text \<open>Replacing one row changes an aggregate by the difference of that row's contribution.\<close>

lemma sum_list_tset:
  fixes f :: "'r \<Rightarrow> 'n::ab_group_add"
  assumes "distinct (map key tbl)" and "tget key tbl (key r) = Some old"
  shows "sum_list (map f (tset key r tbl)) = sum_list (map f tbl) + (f r - f old)"
  using assms
proof (induction tbl)
  case (Cons x tbl)
  show ?case
  proof (cases "key x = key r")
    case True
    then have "key r \<notin> keys key tbl" using Cons.prems by (auto simp: keys_def)
    then show ?thesis using True Cons.prems by (simp add: table_simps tset_absent)
  next
    case False
    then show ?thesis using Cons by (simp add: table_simps algebra_simps)
  qed
qed (simp add: table_simps)

lemma filter_tset_absent:
  assumes "\<not> P r" and "\<And>x. x \<in> set tbl \<Longrightarrow> key x = key r \<Longrightarrow> \<not> P x"
  shows "filter P (tset key r tbl) = filter P tbl"
  using assms by (induction tbl) (auto simp: table_simps)

section \<open>Aggregates\<close>

lemma sum_list_filter_split:
  fixes f :: "'a \<Rightarrow> 'n::comm_monoid_add"
  shows "sum_list (map f xs) = sum_list (map f (filter P xs)) + sum_list (map f (filter (\<lambda>x. \<not> P x) xs))"
  by (induction xs) (auto simp: algebra_simps)

lemma sum_list_map_0: "(\<And>x. x \<in> set xs \<Longrightarrow> f x = 0) \<Longrightarrow> sum_list (map f xs) = (0::'n::monoid_add)"
  by (induction xs) auto

lemma sum_list_pos_member:
  fixes f :: "'a \<Rightarrow> 'n::ordered_comm_monoid_add"
  assumes "\<And>x. x \<in> set xs \<Longrightarrow> 0 \<le> f x"
  shows "0 \<le> sum_list (map f xs)"
  using assms by (induction xs) (auto simp: add_nonneg_nonneg)

section \<open>Decimal rendering\<close>

fun nat_string :: "nat \<Rightarrow> string" where
  "nat_string n = (if n < 10 then [char_of (48 + n)] else nat_string (n div 10) @ [char_of (48 + n mod 10)])"

declare nat_string.simps [simp del]

definition int_string :: "int \<Rightarrow> string" where
  "int_string i = (if i < 0 then CHR ''-'' # nat_string (nat (- i)) else nat_string (nat i))"

section \<open>Reachability\<close>

inductive reach :: "('s \<Rightarrow> bool) \<Rightarrow> ('s \<Rightarrow> 's \<Rightarrow> bool) \<Rightarrow> 's \<Rightarrow> bool"
  for init :: "'s \<Rightarrow> bool" and step :: "'s \<Rightarrow> 's \<Rightarrow> bool" where
  reach_init: "init s \<Longrightarrow> reach init step s"
| reach_step: "reach init step s \<Longrightarrow> step s t \<Longrightarrow> reach init step t"

locale invariant_system =
  fixes init :: "'s \<Rightarrow> bool" and step :: "'s \<Rightarrow> 's \<Rightarrow> bool" and inv :: "'s \<Rightarrow> bool"
  assumes init_inv: "init s \<Longrightarrow> inv s"
    and step_inv: "inv s \<Longrightarrow> step s t \<Longrightarrow> inv t"
begin

lemma reach_inv: "reach init step s \<Longrightarrow> inv s"
  by (induction rule: reach.induct) (auto intro: init_inv step_inv)

lemma rtranclp_inv: "step\<^sup>*\<^sup>* s t \<Longrightarrow> inv s \<Longrightarrow> inv t"
  by (induction rule: rtranclp_induct) (auto intro: step_inv)

end

end
