(* ===== verification/Decimal_Arith.thy ===== *)
theory Decimal_Arith
  imports Prelude "HOL-Library.Log_Nat"
begin

text \<open>
  Python's \<open>decimal\<close> arithmetic in the default context (28 significant digits,
  round-half-even), with values as exact rationals: every operation is the exact
  result rounded to the context's precision.  The same rounding function at base 2
  and precision 53 is the arithmetic of Python's \<open>float\<close>.  \<open>quantize_cents\<close> is
  \<open>value.quantize(Decimal("0.01"), rounding=ROUND_HALF_UP)\<close>, which raises when the
  result needs more than 28 digits.  \<open>dpow_int\<close> follows the integer power of
  CPython's \<open>_decimal\<close> (libmpdec): an inverse and square-and-multiply in a working
  precision, then one final rounding.
  The last section is the storage of a \<open>Numeric(p,2)\<close> column.
\<close>

datatype decimal_exn = InvalidOperation | DivisionByZero

section \<open>Rounding\<close>

definition round_half_even :: "rat \<Rightarrow> int" where
  "round_half_even x =
     (let f = \<lfloor>x\<rfloor>; d = x - of_int f
      in if d < 1 / 2 then f else if 1 / 2 < d then f + 1 else if even f then f else f + 1)"

definition round_half_up :: "rat \<Rightarrow> int" where
  "round_half_up x = (if 0 \<le> x then \<lfloor>x + 1 / 2\<rfloor> else - \<lfloor>1 / 2 - x\<rfloor>)"

lemma round_half_even_of_int [simp]: "round_half_even (of_int m) = m"
  by (simp add: round_half_even_def)

lemma round_half_up_of_int [simp]: "round_half_up (of_int m) = m"
proof -
  have "\<lfloor>of_int m + 1 / 2 :: rat\<rfloor> = m" by (rule floor_unique) auto
  moreover have "\<lfloor>1 / 2 - of_int m :: rat\<rfloor> = - m" by (rule floor_unique) auto
  ultimately show ?thesis by (simp add: round_half_up_def)
qed

lemma round_half_even_error: "\<bar>of_int (round_half_even x) - x\<bar> \<le> 1 / 2"
proof -
  have "of_int \<lfloor>x\<rfloor> \<le> x" "x < of_int \<lfloor>x\<rfloor> + 1" by linarith+
  then show ?thesis by (auto simp: round_half_even_def Let_def abs_le_iff)
qed

lemma round_half_up_error: "\<bar>of_int (round_half_up x) - x\<bar> \<le> 1 / 2"
proof (cases "0 \<le> x")
  case True
  then have "round_half_up x = \<lfloor>x + 1 / 2\<rfloor>" by (simp add: round_half_up_def)
  then show ?thesis by linarith
next
  case False
  then have "round_half_up x = - \<lfloor>1 / 2 - x\<rfloor>" by (simp add: round_half_up_def)
  moreover have "of_int \<lfloor>1 / 2 - x\<rfloor> \<le> 1 / 2 - x" "1 / 2 - x < of_int \<lfloor>1 / 2 - x\<rfloor> + 1"
    by linarith+
  ultimately show ?thesis by (simp only: of_int_minus)
qed

lemma round_half_up_nonneg: "0 \<le> x \<Longrightarrow> 0 \<le> round_half_up x"
  by (simp add: round_half_up_def)

lemma round_half_up_mono: "x \<le> y \<Longrightarrow> round_half_up x \<le> round_half_up y"
proof -
  assume xy: "x \<le> y"
  consider "0 \<le> x" | "x < 0" "0 \<le> y" | "y < 0" by linarith
  then show ?thesis
  proof cases
    case 1
    then show ?thesis using xy by (auto simp: round_half_up_def intro: floor_mono)
  next
    case 2
    have "0 \<le> \<lfloor>1 / 2 - x\<rfloor>" "0 \<le> \<lfloor>y + 1 / 2\<rfloor>" using 2 by (simp_all add: le_floor_iff)
    then have "- \<lfloor>1 / 2 - x\<rfloor> \<le> \<lfloor>y + 1 / 2\<rfloor>" by linarith
    then show ?thesis using 2 by (simp add: round_half_up_def)
  next
    case 3
    have "\<lfloor>1 / 2 - y\<rfloor> \<le> \<lfloor>1 / 2 - x\<rfloor>" using xy by (intro floor_mono) simp
    then show ?thesis using 3 xy by (simp add: round_half_up_def)
  qed
qed

section \<open>Rounding to a number of significant digits\<close>

function int_digits :: "int \<Rightarrow> int \<Rightarrow> nat" where
  "int_digits b n = (if b \<le> 1 \<or> n \<le> 0 then 0 else Suc (int_digits b (n div b)))"
  by pat_completeness auto
termination
proof (relation "measure (\<lambda>(b, n). nat n)")
  fix b n :: int assume "\<not> (b \<le> 1 \<or> n \<le> 0)"
  then show "((b, n div b), (b, n)) \<in> measure (\<lambda>(b, n). nat n)"
    using int_div_less_self [of n b] by simp
qed simp

declare int_digits.simps [simp del]

lemma int_digits_floorlog: "1 < b \<Longrightarrow> int_digits (int b) n = floorlog b (nat n)"
proof (induction "int b" n rule: int_digits.induct)
  case (1 n)
  show ?case
  proof (cases "0 < n")
    case True
    then have "int_digits (int b) (n div int b) = floorlog b (nat (n div int b))" using 1 by simp
    moreover have "nat (n div int b) = nat n div b" using True by (simp add: nat_div_distrib)
    moreover have "floorlog b (nat n) = floorlog b (nat n div b) + 1"
      using True 1 compute_floorlog [of b "nat n"] by simp
    ultimately show ?thesis using True 1 by (simp add: int_digits.simps)
  qed (simp add: int_digits.simps floorlog_def)
qed

definition sig_scale :: "nat \<Rightarrow> nat \<Rightarrow> rat \<Rightarrow> int" where
  "sig_scale b p x =
     (case quotient_of \<bar>x\<bar> of (n, d) \<Rightarrow>
        let k = int p - (int (int_digits (int b) n) - int (int_digits (int b) d))
        in if \<bar>x\<bar> * of_nat b powi k < of_nat b ^ p then k else k - 1)"

definition round_at :: "nat \<Rightarrow> int \<Rightarrow> rat \<Rightarrow> rat" where
  "round_at b k x = of_int (round_half_even (x * of_nat b powi k)) * of_nat b powi (- k)"

definition round_sig :: "nat \<Rightarrow> nat \<Rightarrow> rat \<Rightarrow> rat" where
  "round_sig b p x = (if x = 0 then 0 else round_at b (sig_scale b p x) x)"

lemma floorlog_rat_bounds:
  assumes "1 < b" "0 < n"
  shows "(of_nat b :: rat) powi (int (floorlog b (nat n)) - 1) \<le> of_int n"
    and "of_int n < (of_nat b :: rat) powi int (floorlog b (nat n))"
proof -
  let ?f = "floorlog b (nat n)"
  have pos: "0 < ?f" and f: "b ^ (?f - 1) \<le> nat n" "nat n < b ^ ?f"
    using floorlog_bounds [of "nat n" b] assms by (auto simp: floorlog_def)
  have "of_nat (b ^ (?f - 1)) \<le> (of_nat (nat n) :: rat)" using f(1) by (simp only: of_nat_le_iff)
  moreover have "int ?f - 1 = int (?f - 1)" using pos by simp
  ultimately show "(of_nat b :: rat) powi (int ?f - 1) \<le> of_int n"
    using assms by (simp only: power_int_of_nat) simp
  have "(of_nat (nat n) :: rat) < of_nat (b ^ ?f)" using f(2) by (simp only: of_nat_less_iff)
  then show "of_int n < (of_nat b :: rat) powi int ?f" using assms by simp
qed

text \<open>The first guess of \<open>sig_scale\<close>, from the digit counts of numerator and denominator, is
  off by at most one.\<close>

lemma sig_guess_bounds:
  assumes b: "1 < b" and n: "0 < n" and d: "0 < d"
    and k: "k = p - (int (floorlog b (nat n)) - int (floorlog b (nat d)))"
  shows "(of_nat b :: rat) powi (p - 1) \<le> of_int n / of_int d * of_nat b powi k"
    and "of_int n / of_int d * (of_nat b :: rat) powi k < of_nat b powi (p + 1)"
proof -
  let ?B = "of_nat b :: rat"
  let ?fn = "int (floorlog b (nat n))" and ?fd = "int (floorlog b (nat d))"
  have B0: "0 < ?B" using b by simp
  have d': "0 < (of_int d :: rat)" using d by simp
  note N = floorlog_rat_bounds [OF b n] and D = floorlog_rat_bounds [OF b d]
  have "?B powi (?fn - 1) / ?B powi ?fd \<le> of_int n / of_int d"
    using N D d' B0 n by (intro frac_le) (auto simp del: power_int_of_nat)
  then have "?B powi (?fn - 1) / ?B powi ?fd * ?B powi k \<le> of_int n / of_int d * ?B powi k"
    by (rule mult_right_mono) (use B0 in simp)
  moreover have "?B powi (?fn - 1) / ?B powi ?fd * ?B powi k = ?B powi (?fn - 1 - ?fd + k)"
    using B0 by (simp add: power_int_add power_int_diff del: power_int_of_nat)
  ultimately show "?B powi (p - 1) \<le> of_int n / of_int d * ?B powi k" by (simp add: k)
  have "of_int n / of_int d < ?B powi ?fn / ?B powi (?fd - 1)"
    using N D d' B0 n by (intro frac_less) (auto simp del: power_int_of_nat)
  then have "of_int n / of_int d * ?B powi k < ?B powi ?fn / ?B powi (?fd - 1) * ?B powi k"
    by (rule mult_strict_right_mono) (use B0 in simp)
  moreover have "?B powi ?fn / ?B powi (?fd - 1) * ?B powi k = ?B powi (?fn - (?fd - 1) + k)"
    using B0 by (simp add: power_int_add power_int_diff del: power_int_of_nat)
  ultimately show "of_int n / of_int d * ?B powi k < ?B powi (p + 1)"
    by (simp add: k add.commute)
qed

lemma sig_scale_bounds:
  assumes b: "1 < b" and x: "x \<noteq> 0"
  shows "(of_nat b :: rat) powi (int p - 1) \<le> \<bar>x\<bar> * of_nat b powi sig_scale b p x"
    and "\<bar>x\<bar> * of_nat b powi sig_scale b p x < (of_nat b :: rat) powi int p"
proof -
  obtain n d where q: "quotient_of \<bar>x\<bar> = (n, d)" by (cases "quotient_of \<bar>x\<bar>")
  have d: "0 < d" using q by (rule quotient_of_denom_pos)
  have xeq: "\<bar>x\<bar> = of_int n / of_int d" using q by (rule quotient_of_div)
  have "0 < \<bar>x\<bar>" using x by simp
  then have n: "0 < n" using d by (simp add: xeq zero_less_divide_iff)
  let ?B = "of_nat b :: rat"
  have B0: "0 < ?B" using b by simp
  define k where "k = int p - (int (floorlog b (nat n)) - int (floorlog b (nat d)))"
  note G = sig_guess_bounds [OF b n d k_def, folded xeq]
  have sc: "sig_scale b p x = (if \<bar>x\<bar> * ?B powi k < ?B powi int p then k else k - 1)"
    by (simp add: sig_scale_def q Let_def k_def int_digits_floorlog [OF b])
  have k1: "\<bar>x\<bar> * ?B powi (k - 1) = \<bar>x\<bar> * ?B powi k / ?B" using B0 by (simp add: power_int_diff)
  have p1: "?B powi (int p - 1) = ?B powi int p / ?B" "?B powi (int p + 1) = ?B powi int p * ?B"
    using B0 by (simp_all add: power_int_diff power_int_add)
  show "?B powi (int p - 1) \<le> \<bar>x\<bar> * ?B powi sig_scale b p x"
    using G B0 by (simp only: sc k1 p1 split: if_split) (simp add: divide_right_mono)
  show "\<bar>x\<bar> * ?B powi sig_scale b p x < ?B powi int p"
    using G B0 by (simp only: sc k1 p1 split: if_split) (simp add: field_simps)
qed

text \<open>A value with at most \<open>p\<close> significant digits is unchanged.\<close>

lemma round_sig_exact:
  assumes b: "1 < b" and m: "\<bar>of_int m :: rat\<bar> < of_nat b ^ p"
    and x: "x = of_int m / of_nat b ^ j"
  shows "round_sig b p x = x"
proof (cases "x = 0")
  case False
  let ?B = "of_nat b :: rat" and ?k = "sig_scale b p x"
  have B1: "1 < ?B" and B0: "0 < ?B" using b by simp_all
  have xm: "\<bar>x\<bar> * ?B powi int j < ?B powi int p"
    using m B0 by (simp add: x)
  have "?B powi (int p - 1) \<le> \<bar>x\<bar> * ?B powi ?k" using sig_scale_bounds(1) [OF b False] .
  then have "?B powi int p \<le> \<bar>x\<bar> * ?B powi (?k + 1)"
    using B0 by (simp add: power_int_diff power_int_add field_simps)
  then have "\<bar>x\<bar> * ?B powi int j < \<bar>x\<bar> * ?B powi (?k + 1)" using xm by linarith
  then have "?B powi int j < ?B powi (?k + 1)" using False by simp
  then have jk: "int j \<le> ?k"
    using power_int_increasing [of "?k + 1" "int j" ?B] B1 by (cases "int j \<le> ?k") (auto simp del: power_int_of_nat)
  have "x * ?B powi ?k = of_int m * ?B powi (?k - int j)"
    using B0 by (simp add: x power_int_diff)
  also have "\<dots> = of_int (m * int b ^ nat (?k - int j))"
    using jk by (simp add: power_int_def)
  finally have "round_half_even (x * ?B powi ?k) = m * int b ^ nat (?k - int j)"
    by (simp only: round_half_even_of_int)
  moreover have "of_int (m * int b ^ nat (?k - int j)) * ?B powi (- ?k) = x"
  proof -
    have "of_int (m * int b ^ nat (?k - int j)) = of_int m * ?B powi (?k - int j)"
      using jk by (simp add: power_int_def)
    then show ?thesis using B0 by (simp add: x power_int_diff power_int_minus)
  qed
  ultimately show ?thesis using False by (simp add: round_sig_def round_at_def)
qed (simp add: round_sig_def)

text \<open>Rounding has a relative error of at most half a unit in the last place.\<close>

lemma round_sig_error:
  assumes b: "1 < b"
  shows "\<bar>round_sig b p x - x\<bar> \<le> \<bar>x\<bar> / (2 * (of_nat b :: rat) powi (int p - 1))"
proof (cases "x = 0")
  case False
  let ?B = "of_nat b :: rat"
  define u where "u = ?B powi sig_scale b p x"
  have u: "0 < u" and B: "0 < ?B powi (int p - 1)" using b by (simp_all add: u_def)
  have "round_sig b p x - x = (of_int (round_half_even (x * u)) - x * u) / u"
    using False u by (simp add: round_sig_def round_at_def u_def [symmetric] power_int_minus field_simps)
  then have "\<bar>round_sig b p x - x\<bar> \<le> 1 / 2 / u"
    using divide_right_mono [OF round_half_even_error [of "x * u"], of u] u by (simp only: abs_divide) simp
  moreover have "?B powi (int p - 1) \<le> \<bar>x\<bar> * u" unfolding u_def by (rule sig_scale_bounds [OF b False])
  then have "1 / 2 / u \<le> \<bar>x\<bar> / (2 * ?B powi (int p - 1))" using u B by (simp add: field_simps)
  ultimately show ?thesis by linarith
qed (simp add: round_sig_def)

section \<open>The arithmetic of the default decimal context\<close>

definition dec :: "rat \<Rightarrow> rat" where
  "dec x = round_sig 10 28 x"

definition dadd :: "rat \<Rightarrow> rat \<Rightarrow> rat" where
  "dadd x y = dec (x + y)"

definition dsub :: "rat \<Rightarrow> rat \<Rightarrow> rat" where
  "dsub x y = dec (x - y)"

definition dmul :: "rat \<Rightarrow> rat \<Rightarrow> rat" where
  "dmul x y = dec (x * y)"

definition ddiv :: "rat \<Rightarrow> rat \<Rightarrow> decimal_exn + rat" where
  "ddiv x y =
     (if y = 0 then Inl (if x = 0 then InvalidOperation else DivisionByZero) else Inr (dec (x / y)))"

definition quantize_cents :: "rat \<Rightarrow> decimal_exn + rat" where
  "quantize_cents x =
     (let c = round_half_up (x * 100)
      in if 10 ^ 28 \<le> \<bar>c\<bar> then Inl InvalidOperation else Inr (of_int c / 100))"

definition dpow_step :: "nat \<Rightarrow> rat \<Rightarrow> nat \<Rightarrow> rat \<Rightarrow> rat" where
  "dpow_step p b n r =
     (if even n then round_sig 10 p (r * r) else round_sig 10 p (round_sig 10 p (r * r) * b))"

fun dpow_uint :: "nat \<Rightarrow> rat \<Rightarrow> nat \<Rightarrow> rat" where
  "dpow_uint p b n =
     (if n = 0 then 1 else if n = 1 then b
      else dpow_step p b n (dpow_uint p b (n div 2)))"

declare dpow_uint.simps [simp del]

definition dpow_int :: "rat \<Rightarrow> int \<Rightarrow> decimal_exn + rat" where
  "dpow_int b e =
     (let p = 28 + int_digits 10 \<bar>e\<bar> + 4
      in if 0 \<le> e then Inr (dec (dpow_uint p b (nat e)))
         else if b = 0 then Inl InvalidOperation
         else Inr (dec (dpow_uint (p + 1) (round_sig 10 (p + 1) (1 / b)) (nat (- e)))))"

lemma dec_error: "\<bar>dec x - x\<bar> \<le> \<bar>x\<bar> / 10 ^ 27"
proof -
  have "(10::rat) powi 27 = 10 ^ 27" by (simp add: power_int_def)
  then have "\<bar>dec x - x\<bar> \<le> \<bar>x\<bar> / (2 * 10 ^ 27)"
    using round_sig_error [of 10 28 x] by (simp add: dec_def)
  also have "\<dots> \<le> \<bar>x\<bar> / 10 ^ 27" by (rule divide_left_mono) auto
  finally show ?thesis .
qed

section \<open>Amounts in whole cents\<close>

definition is_cents :: "rat \<Rightarrow> bool" where
  "is_cents x \<longleftrightarrow> (case quotient_of (x * 100) of (n, d) \<Rightarrow> d = 1)"

lemma is_cents_iff: "is_cents x \<longleftrightarrow> (\<exists>m. x = of_int m / 100)"
proof
  assume *: "is_cents x"
  obtain n d where q: "quotient_of (x * 100) = (n, d)" by (cases "quotient_of (x * 100)")
  then have "x * 100 = of_int n" using quotient_of_div [OF q] * by (simp add: is_cents_def)
  then show "\<exists>m. x = of_int m / 100" by (intro exI [of _ n]) simp
qed (auto simp: is_cents_def)

lemma is_cents_0 [simp]: "is_cents 0"
  by (auto simp: is_cents_iff intro: exI [of _ 0])

lemma is_cents_add [intro]: "is_cents x \<Longrightarrow> is_cents y \<Longrightarrow> is_cents (x + y)"
  unfolding is_cents_iff by (metis add_divide_distrib of_int_add)

lemma is_cents_diff [intro]: "is_cents x \<Longrightarrow> is_cents y \<Longrightarrow> is_cents (x - y)"
  unfolding is_cents_iff by (metis diff_divide_distrib of_int_diff)

lemma is_cents_minus [simp]: "is_cents (- x) = is_cents x"
  unfolding is_cents_iff by (metis minus_divide_left of_int_minus minus_equation_iff)

lemma dec_cents: "is_cents x \<Longrightarrow> \<bar>x\<bar> < 10 ^ 26 \<Longrightarrow> dec x = x"
proof -
  assume "is_cents x" and b: "\<bar>x\<bar> < 10 ^ 26"
  then obtain m where m: "x = of_int m / 100" by (auto simp: is_cents_iff)
  then have "\<bar>of_int m :: rat\<bar> < of_nat 10 ^ 28" using b by simp
  then show ?thesis unfolding dec_def using m by (intro round_sig_exact [where j = 2]) auto
qed

text \<open>Rounding never leaves the grid of cents: beyond 28 digits it only coarsens.\<close>

lemma dec_is_cents: "is_cents x \<Longrightarrow> is_cents (dec x)"
proof (cases "\<bar>x\<bar> < 10 ^ 26")
  case False
  let ?k = "sig_scale 10 28 x"
  have x: "x \<noteq> 0" using False by auto
  have "\<bar>x\<bar> * 10 powi ?k < 10 ^ 28" using sig_scale_bounds(2) [of 10 x 28] x by (simp add: power_int_def)
  moreover have "10 ^ 26 * 10 powi ?k \<le> \<bar>x\<bar> * (10::rat) powi ?k"
    using False by (intro mult_right_mono) auto
  ultimately have "10 ^ 26 * (10::rat) powi ?k < 10 ^ 28" by linarith
  then have "(10::rat) powi ?k < 10 powi 2" by (simp add: power_int_def)
  then have k: "?k < 2" using power_int_increasing [of 2 ?k "10::rat"] by (cases "?k < 2") auto
  obtain m where m: "dec x = of_int m * (10::rat) powi (- ?k)"
    using x by (auto simp: dec_def round_sig_def round_at_def)
  have "(10::rat) powi (- ?k) * 100 = 10 powi (2 - ?k)" by (simp add: power_int_diff power_int_minus divide_inverse)
  also have "\<dots> = of_int (10 ^ nat (2 - ?k))" using k by (simp add: power_int_def)
  finally have "dec x * 100 = of_int (m * 10 ^ nat (2 - ?k))" by (simp add: m mult.assoc)
  then show ?thesis unfolding is_cents_iff by (intro exI [of _ "m * 10 ^ nat (2 - ?k)"]) simp
qed (simp add: dec_cents)

lemma is_cents_sum_list: "(\<And>x. x \<in> set xs \<Longrightarrow> is_cents x) \<Longrightarrow> is_cents (sum_list xs)"
  by (induction xs) auto

lemma is_cents_min: "is_cents x \<Longrightarrow> is_cents y \<Longrightarrow> is_cents (min x y)"
  by (simp add: min_def)

lemma dadd_cents: "is_cents x \<Longrightarrow> is_cents y \<Longrightarrow> \<bar>x + y\<bar> < 10 ^ 26 \<Longrightarrow> dadd x y = x + y"
  by (simp add: dadd_def dec_cents is_cents_add)

lemma dsub_cents: "is_cents x \<Longrightarrow> is_cents y \<Longrightarrow> \<bar>x - y\<bar> < 10 ^ 26 \<Longrightarrow> dsub x y = x - y"
  by (simp add: dsub_def dec_cents is_cents_diff)

lemma quantize_cents_Inr:
  assumes "quantize_cents x = Inr y"
  shows "is_cents y" and "\<bar>y - x\<bar> \<le> 1 / 200" and "0 \<le> x \<Longrightarrow> 0 \<le> y"
proof -
  have y: "y = of_int (round_half_up (x * 100)) / 100"
    using assms by (simp add: quantize_cents_def Let_def split: if_splits)
  show "is_cents y" using y by (auto simp: is_cents_iff)
  show "\<bar>y - x\<bar> \<le> 1 / 200" using round_half_up_error [of "x * 100"] unfolding y by linarith
  show "0 \<le> x \<Longrightarrow> 0 \<le> y" using round_half_up_nonneg [of "x * 100"] by (simp add: y)
qed

lemma quantize_cents_id: "is_cents x \<Longrightarrow> \<bar>x\<bar> < 10 ^ 26 \<Longrightarrow> quantize_cents x = Inr x"
proof -
  assume "is_cents x" and b: "\<bar>x\<bar> < 10 ^ 26"
  then obtain m where m: "x = of_int m / 100" by (auto simp: is_cents_iff)
  then have "\<bar>of_int m :: rat\<bar> < 10 ^ 28" using b by simp
  then have "of_int \<bar>m\<bar> < (of_int (10 ^ 28) :: rat)" by simp
  then have "\<bar>m\<bar> < 10 ^ 28" by (simp only: of_int_less_iff)
  then show ?thesis by (simp add: quantize_cents_def m)
qed

section \<open>Storage in a \<open>Numeric(p,s)\<close> column\<close>

text \<open>PostgreSQL rounds a value to the column's scale, ties away from zero, and refuses it when
  the rounded value has more than \<open>p - s\<close> digits before the point.\<close>

definition pg_round :: "nat \<Rightarrow> rat \<Rightarrow> rat" where
  "pg_round s x = of_int (round_half_up (x * 10 ^ s)) / 10 ^ s"

definition pg_fits :: "nat \<Rightarrow> nat \<Rightarrow> rat \<Rightarrow> bool" where
  "pg_fits p s x \<longleftrightarrow> \<bar>pg_round s x\<bar> < 10 ^ (p - s)"

lemma pg_round_cents: "is_cents x \<Longrightarrow> pg_round 2 x = x"
  by (auto simp: is_cents_iff pg_round_def)

lemma is_cents_pg_round [simp]: "is_cents (pg_round 2 x)"
  by (auto simp: is_cents_iff pg_round_def)

lemma pg_fits_cents: "is_cents x \<Longrightarrow> pg_fits 18 2 x \<longleftrightarrow> \<bar>x\<bar> < 10 ^ 16"
  by (simp add: pg_fits_def pg_round_cents)

lemma pg_round_nonneg: "0 \<le> x \<Longrightarrow> 0 \<le> pg_round s x"
  using round_half_up_nonneg [of "x * 10 ^ s"] by (simp add: pg_round_def)

end
