(* ===== verification/MF_Model.thy ===== *)
theory MF_Model
  imports Decimal_Arith
begin

text \<open>
  The tenant schema of the microfinance service
  (\<open>src/microfinance/mf_app/models/tenant\<close>) and the exceptions its services raise.

  A model class is a \<open>record\<close> with the class's columns under a prefix; the tables of one
  institution's database are the fields of \<open>tenant_db\<close>, in insertion order.  Money columns
  are exact rationals; inside a request the loaded objects hold the unrounded values the
  code computed, and \<open>tenant_commit\<close> is where the \<open>Numeric\<close> columns round them.
  The surrogate ids of ledger entries and schedule lines, which no code reads, are left
  out; a schedule line is identified by its schedule and installment number.
\<close>

datatype ledger_direction = DEBIT | CREDIT

fun direction_value :: "ledger_direction \<Rightarrow> string" where
  "direction_value DEBIT = ''debit''"
| "direction_value CREDIT = ''credit''"

datatype kyc_status = KYC_PENDING | KYC_VERIFIED | KYC_REJECTED

datatype savings_account_status = SA_ACTIVE | SA_CLOSED

datatype loan_status =
  LN_DRAFT | LN_PENDING_APPROVAL | LN_APPROVED | LN_REJECTED | LN_ACTIVE | LN_CLOSED | LN_DEFAULTED

datatype amortization_method = DECLINING_BALANCE | FLAT

datatype repayment_line_status = RL_PENDING | RL_PAID

datatype staff_role = INSTITUTION_ADMIN | BRANCH_MANAGER | LOAN_OFFICER | TELLER

datatype date = Date (d_year: int) (d_month: int) (d_day: int)

type_synonym json = string

record branch =
  br_id :: uid
  br_name :: string
  br_code :: string

record agent =
  ag_id :: uid
  ag_branch_id :: "uid option"
  ag_full_name :: string
  ag_role :: staff_role

record customer =
  cu_id :: uid
  cu_branch_id :: uid
  cu_full_name :: string
  cu_phone :: "string option"
  cu_kyc_status :: kyc_status
  cu_identity_documents :: json

record institution_profile =
  ip_id :: uid
  ip_name :: string
  ip_currency :: string

record internal_account =
  ia_id :: uid
  ia_name :: string
  ia_normal_balance_side :: string
  ia_balance_cached :: rat

record savings_product =
  sp_id :: uid
  sp_name :: string
  sp_code :: string
  sp_annual_interest_rate :: rat
  sp_min_opening_balance :: rat

record savings_account =
  sa_id :: uid
  sa_customer_id :: uid
  sa_product_id :: uid
  sa_account_number :: string
  sa_status :: savings_account_status
  sa_balance_cached :: rat

record loan_product =
  lp_id :: uid
  lp_name :: string
  lp_code :: string
  lp_amortization_method :: amortization_method
  lp_periodic_interest_rate :: rat
  lp_min_principal :: rat
  lp_max_principal :: rat
  lp_min_term_months :: int
  lp_max_term_months :: int

record loan =
  ln_id :: uid
  ln_customer_id :: uid
  ln_product_id :: uid
  ln_principal :: rat
  ln_term_months :: int
  ln_status :: loan_status
  ln_approved_by_staff_id :: "uid option"
  ln_approved_at :: "instant option"
  ln_disbursed_at :: "instant option"
  ln_closed_at :: "instant option"
  ln_rejection_reason :: "string option"
  ln_outstanding_principal :: rat

record repayment_schedule =
  rs_id :: uid
  rs_loan_id :: uid
  rs_version :: int
  rs_is_active :: bool

record repayment_schedule_line =
  sl_schedule_id :: uid
  sl_installment_number :: int
  sl_due_date :: date
  sl_principal_due :: rat
  sl_interest_due :: rat
  sl_penalty_due :: rat
  sl_principal_paid :: rat
  sl_interest_paid :: rat
  sl_status :: repayment_line_status

record transaction =
  tx_id :: uid
  tx_type :: string
  tx_amount :: rat
  tx_description :: "string option"
  tx_idempotency_key :: string
  tx_created_at :: instant

record ledger_entry =
  le_transaction_id :: uid
  le_account_type :: string
  le_account_id :: uid
  le_direction :: ledger_direction
  le_amount :: rat

record tenant_db =
  t_profile :: "institution_profile list"
  t_branches :: "branch list"
  t_agents :: "agent list"
  t_customers :: "customer list"
  t_internal :: "internal_account list"
  t_savings_products :: "savings_product list"
  t_savings :: "savings_account list"
  t_loan_products :: "loan_product list"
  t_loans :: "loan list"
  t_schedules :: "repayment_schedule list"
  t_lines :: "repayment_schedule_line list"
  t_transactions :: "transaction list"
  t_entries :: "ledger_entry list"

abbreviation sl_key :: "repayment_schedule_line \<Rightarrow> uid \<times> int" where
  "sl_key l \<equiv> (sl_schedule_id l, sl_installment_number l)"

datatype mf_exn =
    MF_AssertionError
  | MF_ValueError
  | MF_RuntimeError
  | MF_AttributeError
  | MF_NoResultFound
  | MF_MultipleResultsFound
  | MF_IntegrityError
  | MF_DataError
  | MF_DecimalError decimal_exn
  | InsufficientFunds
  | AccountNotActive
  | CustomerNotVerified
  | BelowMinimumOpeningBalance
  | MissingIdempotencyKey
  | InvalidLoanAmount
  | InvalidLoanTerm
  | InvalidLoanState
  | Overpayment

section \<open>Flushing and committing\<close>

text \<open>The \<open>Numeric(18,2)\<close> columns of the schema, as one list.\<close>

definition money_columns :: "tenant_db \<Rightarrow> rat list" where
  "money_columns db =
     map ia_balance_cached (t_internal db) @ map sp_min_opening_balance (t_savings_products db) @
     map sa_balance_cached (t_savings db) @
     map lp_min_principal (t_loan_products db) @ map lp_max_principal (t_loan_products db) @
     map ln_principal (t_loans db) @ map ln_outstanding_principal (t_loans db) @
     map sl_principal_due (t_lines db) @ map sl_interest_due (t_lines db) @
     map sl_penalty_due (t_lines db) @ map sl_principal_paid (t_lines db) @
     map sl_interest_paid (t_lines db) @ map tx_amount (t_transactions db) @
     map le_amount (t_entries db)"

definition rates_fit :: "tenant_db \<Rightarrow> bool" where
  "rates_fit db \<longleftrightarrow>
     list_all (\<lambda>p. pg_fits 6 4 (sp_annual_interest_rate p)) (t_savings_products db) \<and>
     list_all (\<lambda>p. pg_fits 8 6 (lp_periodic_interest_rate p)) (t_loan_products db)"

text \<open>The \<open>Integer\<close> columns are four bytes wide.\<close>

definition int4 :: "int \<Rightarrow> bool" where
  "int4 i \<longleftrightarrow> - (2 ^ 31) \<le> i \<and> i < 2 ^ 31"

definition ints_fit :: "tenant_db \<Rightarrow> bool" where
  "ints_fit db \<longleftrightarrow>
     list_all (\<lambda>p. int4 (lp_min_term_months p) \<and> int4 (lp_max_term_months p)) (t_loan_products db) \<and>
     list_all (\<lambda>l. int4 (ln_term_months l)) (t_loans db) \<and>
     list_all (\<lambda>l. int4 (sl_installment_number l)) (t_lines db)"

definition db_fits :: "tenant_db \<Rightarrow> bool" where
  "db_fits db \<longleftrightarrow> list_all (pg_fits 18 2) (money_columns db) \<and> rates_fit db \<and> ints_fit db"

definition tenant_flush :: "tenant_db \<Rightarrow> mf_exn + tenant_db" where
  "tenant_flush db = (if db_fits db then Inr db else Inl MF_DataError)"

text \<open>What the columns hold once the transaction is committed.\<close>

definition stored :: "tenant_db \<Rightarrow> tenant_db" where
  "stored db = db
     \<lparr>t_internal := map (\<lambda>a. a\<lparr>ia_balance_cached := pg_round 2 (ia_balance_cached a)\<rparr>) (t_internal db),
      t_savings_products := map (\<lambda>p. p
          \<lparr>sp_annual_interest_rate := pg_round 4 (sp_annual_interest_rate p),
           sp_min_opening_balance := pg_round 2 (sp_min_opening_balance p)\<rparr>) (t_savings_products db),
      t_savings := map (\<lambda>a. a\<lparr>sa_balance_cached := pg_round 2 (sa_balance_cached a)\<rparr>) (t_savings db),
      t_loan_products := map (\<lambda>p. p
          \<lparr>lp_periodic_interest_rate := pg_round 6 (lp_periodic_interest_rate p),
           lp_min_principal := pg_round 2 (lp_min_principal p),
           lp_max_principal := pg_round 2 (lp_max_principal p)\<rparr>) (t_loan_products db),
      t_loans := map (\<lambda>l. l
          \<lparr>ln_principal := pg_round 2 (ln_principal l),
           ln_outstanding_principal := pg_round 2 (ln_outstanding_principal l)\<rparr>) (t_loans db),
      t_lines := map (\<lambda>l. l
          \<lparr>sl_principal_due := pg_round 2 (sl_principal_due l),
           sl_interest_due := pg_round 2 (sl_interest_due l),
           sl_penalty_due := pg_round 2 (sl_penalty_due l),
           sl_principal_paid := pg_round 2 (sl_principal_paid l),
           sl_interest_paid := pg_round 2 (sl_interest_paid l)\<rparr>) (t_lines db),
      t_transactions := map (\<lambda>t. t\<lparr>tx_amount := pg_round 2 (tx_amount t)\<rparr>) (t_transactions db),
      t_entries := map (\<lambda>e. e\<lparr>le_amount := pg_round 2 (le_amount e)\<rparr>) (t_entries db)\<rparr>"

definition tenant_commit :: "tenant_db \<Rightarrow> mf_exn + tenant_db" where
  "tenant_commit db = rbind (tenant_flush db) (\<lambda>db'. Inr (stored db'))"

section \<open>Whole cents\<close>

definition cents_db :: "tenant_db \<Rightarrow> bool" where
  "cents_db db \<longleftrightarrow> list_all is_cents (money_columns db)"

lemma cents_db_iff:
  "cents_db db \<longleftrightarrow>
     (\<forall>a\<in>set (t_internal db). is_cents (ia_balance_cached a)) \<and>
     (\<forall>p\<in>set (t_savings_products db). is_cents (sp_min_opening_balance p)) \<and>
     (\<forall>a\<in>set (t_savings db). is_cents (sa_balance_cached a)) \<and>
     (\<forall>p\<in>set (t_loan_products db). is_cents (lp_min_principal p) \<and> is_cents (lp_max_principal p)) \<and>
     (\<forall>l\<in>set (t_loans db). is_cents (ln_principal l) \<and> is_cents (ln_outstanding_principal l)) \<and>
     (\<forall>l\<in>set (t_lines db). is_cents (sl_principal_due l) \<and> is_cents (sl_interest_due l) \<and>
        is_cents (sl_penalty_due l) \<and> is_cents (sl_principal_paid l) \<and> is_cents (sl_interest_paid l)) \<and>
     (\<forall>t\<in>set (t_transactions db). is_cents (tx_amount t)) \<and>
     (\<forall>e\<in>set (t_entries db). is_cents (le_amount e))"
  by (auto simp: cents_db_def money_columns_def list_all_iff)

lemma cents_db_stored: "cents_db (stored db)"
  by (auto simp: cents_db_iff stored_def)

text \<open>On whole cents the commit changes no money column; only the products' rates may round.\<close>

lemma stored_cents:
  assumes "cents_db db"
  shows "t_internal (stored db) = t_internal db" "t_savings (stored db) = t_savings db"
    "t_loans (stored db) = t_loans db" "t_lines (stored db) = t_lines db"
    "t_transactions (stored db) = t_transactions db" "t_entries (stored db) = t_entries db"
  using assms by (auto simp: cents_db_iff stored_def pg_round_cents intro!: map_idI)

lemma stored_other [simp]:
  "t_profile (stored db) = t_profile db" "t_branches (stored db) = t_branches db"
  "t_agents (stored db) = t_agents db" "t_customers (stored db) = t_customers db"
  "t_schedules (stored db) = t_schedules db"
  by (simp_all add: stored_def)

lemma tenant_flush_iff: "tenant_flush db = Inr db' \<longleftrightarrow> db' = db \<and> db_fits db"
  by (auto simp: tenant_flush_def)

lemma tenant_commit_Inr: "tenant_commit db = Inr db' \<longleftrightarrow> db_fits db \<and> db' = stored db"
  by (auto simp: tenant_commit_def tenant_flush_def)

end
