(* ===== verification/MF_Ledger.thy ===== *)
theory MF_Ledger
  imports MF_Model
begin

text \<open>
  The double-entry ledger engine, \<open>src/microfinance/mf_app/services/ledger.py\<close>.

  \<open>post_transaction\<close> is the only operation that writes ledger entries and cached
  balances.  The theory states what a posting does on every branch, the well-formedness
  invariant \<open>ledger_inv\<close> (keys are keys, entries point at existing accounts, every
  cached balance is the signed sum of its entries, every transaction is balanced, the
  trial balance is zero) and that posting preserves it.
\<close>

section \<open>The engine\<close>

datatype account = AInternal internal_account | ASavings savings_account | ALoan loan

record ledger_line =
  ll_account_type :: string
  ll_account_id :: uid
  ll_direction :: ledger_direction
  ll_amount :: rat

definition mk_line :: "string \<Rightarrow> uid \<Rightarrow> ledger_direction \<Rightarrow> rat \<Rightarrow> ledger_line" where
  "mk_line ty aid dir amt =
     \<lparr>ll_account_type = ty, ll_account_id = aid, ll_direction = dir, ll_amount = amt\<rparr>"

definition get_account :: "tenant_db \<Rightarrow> string \<Rightarrow> uid \<Rightarrow> mf_exn + account" where
  "get_account db account_type account_id =
     (case (if account_type = ''internal_account'' then
              Inr (map_option AInternal (tget ia_id (t_internal db) account_id))
            else if account_type = ''savings_account'' then
              Inr (map_option ASavings (tget sa_id (t_savings db) account_id))
            else if account_type = ''loan'' then
              Inr (map_option ALoan (tget ln_id (t_loans db) account_id))
            else Inl MF_ValueError)
      of Inl e \<Rightarrow> Inl e
       | Inr None \<Rightarrow> Inl MF_ValueError
       | Inr (Some account) \<Rightarrow> Inr account)"

fun normal_side :: "account \<Rightarrow> string" where
  "normal_side (ASavings a) = ''credit''"
| "normal_side (ALoan l) = ''debit''"
| "normal_side (AInternal a) = ia_normal_balance_side a"

fun balance_of :: "account \<Rightarrow> rat" where
  "balance_of (AInternal a) = ia_balance_cached a"
| "balance_of (ASavings a) = sa_balance_cached a"
| "balance_of (ALoan l) = ln_outstanding_principal l"

fun set_balance :: "rat \<Rightarrow> account \<Rightarrow> account" where
  "set_balance v (AInternal a) = AInternal (a\<lparr>ia_balance_cached := v\<rparr>)"
| "set_balance v (ASavings a) = ASavings (a\<lparr>sa_balance_cached := v\<rparr>)"
| "set_balance v (ALoan l) = ALoan (l\<lparr>ln_outstanding_principal := v\<rparr>)"

fun put_account :: "account \<Rightarrow> tenant_db \<Rightarrow> tenant_db" where
  "put_account (AInternal a) db = db\<lparr>t_internal := tset ia_id a (t_internal db)\<rparr>"
| "put_account (ASavings a) db = db\<lparr>t_savings := tset sa_id a (t_savings db)\<rparr>"
| "put_account (ALoan l) db = db\<lparr>t_loans := tset ln_id l (t_loans db)\<rparr>"

definition signed :: "ledger_direction \<Rightarrow> string \<Rightarrow> rat \<Rightarrow> rat" where
  "signed dir side amount = (if direction_value dir = side then amount else - amount)"

definition post_line :: "uid \<Rightarrow> ledger_line \<Rightarrow> tenant_db \<Rightarrow> mf_exn + tenant_db" where
  "post_line txid line db =
     rbind (get_account db (ll_account_type line) (ll_account_id line)) (\<lambda>account.
       Inr (put_account
              (set_balance (balance_of account
                  + signed (ll_direction line) (normal_side account) (ll_amount line)) account)
              (db\<lparr>t_entries := t_entries db @
                   [\<lparr>le_transaction_id = txid, le_account_type = ll_account_type line,
                     le_account_id = ll_account_id line, le_direction = ll_direction line,
                     le_amount = ll_amount line\<rparr>]\<rparr>)))"

fun post_lines :: "uid \<Rightarrow> ledger_line list \<Rightarrow> tenant_db \<Rightarrow> mf_exn + tenant_db" where
  "post_lines txid [] db = Inr db"
| "post_lines txid (line # lines) db = rbind (post_line txid line db) (post_lines txid lines)"

definition side_total :: "ledger_direction \<Rightarrow> ledger_line list \<Rightarrow> rat" where
  "side_total dir lines = sum_list (map ll_amount (filter (\<lambda>l. ll_direction l = dir) lines))"

definition add_transaction :: "transaction \<Rightarrow> tenant_db \<Rightarrow> mf_exn + tenant_db" where
  "add_transaction t db =
     (if tx_id t \<in> keys tx_id (t_transactions db) \<or>
         tx_idempotency_key t \<in> keys tx_idempotency_key (t_transactions db)
      then Inl MF_IntegrityError
      else tenant_flush (db\<lparr>t_transactions := t_transactions db @ [t]\<rparr>))"

definition post_transaction ::
    "uid \<Rightarrow> instant \<Rightarrow> string \<Rightarrow> string \<Rightarrow> string option \<Rightarrow> ledger_line list \<Rightarrow> tenant_db
     \<Rightarrow> mf_exn + (tenant_db \<times> transaction)" where
  "post_transaction txid now ty idempotency_key description lines db =
     (case scalar_of (filter (\<lambda>t. tx_idempotency_key t = idempotency_key) (t_transactions db)) of
        ManyRows \<Rightarrow> Inl MF_MultipleResultsFound
      | OneRow existing \<Rightarrow> Inr (db, existing)
      | NoRow \<Rightarrow>
          let total_debits = side_total DEBIT lines; total_credits = side_total CREDIT lines
          in if total_debits \<noteq> total_credits then Inl MF_AssertionError
             else let t = \<lparr>tx_id = txid, tx_type = ty, tx_amount = total_debits,
                           tx_description = description, tx_idempotency_key = idempotency_key,
                           tx_created_at = now\<rparr>
                  in rbind (add_transaction t db) (\<lambda>db1.
                     rbind (post_lines txid lines db1) (\<lambda>db2.
                     rbind (tenant_flush db2) (\<lambda>db3. Inr (db3, t)))))"

definition entry_matches :: "string \<Rightarrow> uid \<Rightarrow> ledger_entry \<Rightarrow> bool" where
  "entry_matches account_type account_id e \<longleftrightarrow>
     le_account_type e = account_type \<and> le_account_id e = account_id"

definition ledger_sum :: "string \<Rightarrow> string \<Rightarrow> uid \<Rightarrow> ledger_entry list \<Rightarrow> rat" where
  "ledger_sum side account_type account_id es =
     sum_list (map (\<lambda>e. signed (le_direction e) side (le_amount e))
                   (filter (entry_matches account_type account_id) es))"

definition reconcile_balance :: "tenant_db \<Rightarrow> string \<Rightarrow> uid \<Rightarrow> mf_exn + rat" where
  "reconcile_balance db account_type account_id =
     rbind (get_account db account_type account_id) (\<lambda>account.
       Inr (ledger_sum (normal_side account) account_type account_id (t_entries db)))"

section \<open>Account look-up\<close>

lemma get_account_Inr:
  "get_account db ty i = Inr acc \<longleftrightarrow>
     (\<exists>a. ty = ''internal_account'' \<and> tget ia_id (t_internal db) i = Some a \<and> acc = AInternal a) \<or>
     (\<exists>a. ty = ''savings_account'' \<and> tget sa_id (t_savings db) i = Some a \<and> acc = ASavings a) \<or>
     (\<exists>l. ty = ''loan'' \<and> tget ln_id (t_loans db) i = Some l \<and> acc = ALoan l)"
  by (auto simp: get_account_def split: option.splits if_splits)

lemma get_account_cong:
  "t_internal db = t_internal db' \<Longrightarrow> t_savings db = t_savings db' \<Longrightarrow> t_loans db = t_loans db'
   \<Longrightarrow> get_account db ty i = get_account db' ty i"
  by (simp add: get_account_def)

lemma normal_side_set_balance [simp]: "normal_side (set_balance v acc) = normal_side acc"
  by (cases acc) auto

lemma balance_of_set_balance [simp]: "balance_of (set_balance v acc) = v"
  by (cases acc) auto

text \<open>After an account has been written back, a look-up sees the new object at its own key and
  every other account unchanged.\<close>

lemma get_account_put:
  assumes "get_account db ty i = Inr acc"
  shows "get_account (put_account (set_balance v acc) db) ty' i' =
           (if ty' = ty \<and> i' = i then Inr (set_balance v acc) else get_account db ty' i')"
proof -
  consider (internal) a where "ty = ''internal_account''" "tget ia_id (t_internal db) i = Some a" "acc = AInternal a"
    | (savings) a where "ty = ''savings_account''" "tget sa_id (t_savings db) i = Some a" "acc = ASavings a"
    | (loan) l where "ty = ''loan''" "tget ln_id (t_loans db) i = Some l" "acc = ALoan l"
    using assms by (auto simp: get_account_Inr)
  then show ?thesis
  proof cases
    case internal
    have "ia_id a = i" using internal(2) by (rule tget_key)
    then show ?thesis using internal by (simp add: get_account_def tget_tset)
  next
    case savings
    have "sa_id a = i" using savings(2) by (rule tget_key)
    then show ?thesis using savings by (simp add: get_account_def tget_tset)
  next
    case loan
    have "ln_id l = i" using loan(2) by (rule tget_key)
    then show ?thesis using loan by (simp add: get_account_def tget_tset)
  qed
qed

lemma put_account_frame [simp]:
  "t_profile (put_account acc db) = t_profile db" "t_branches (put_account acc db) = t_branches db"
  "t_agents (put_account acc db) = t_agents db" "t_customers (put_account acc db) = t_customers db"
  "t_savings_products (put_account acc db) = t_savings_products db"
  "t_loan_products (put_account acc db) = t_loan_products db"
  "t_schedules (put_account acc db) = t_schedules db" "t_lines (put_account acc db) = t_lines db"
  "t_transactions (put_account acc db) = t_transactions db"
  "t_entries (put_account acc db) = t_entries db"
  by (cases acc; simp)+

section \<open>Well-formedness of the books\<close>

definition tb_internal :: "internal_account \<Rightarrow> rat" where
  "tb_internal a =
     (if ia_normal_balance_side a = ''debit'' then ia_balance_cached a else - ia_balance_cached a)"

text \<open>Debit-side minus credit-side balances over all accounts.\<close>

definition tb_diff :: "tenant_db \<Rightarrow> rat" where
  "tb_diff db = sum_list (map tb_internal (t_internal db))
     + sum_list (map ln_outstanding_principal (t_loans db))
     - sum_list (map sa_balance_cached (t_savings db))"

definition debit_minus_credit :: "ledger_direction \<Rightarrow> rat \<Rightarrow> rat" where
  "debit_minus_credit dir amount = (case dir of DEBIT \<Rightarrow> amount | CREDIT \<Rightarrow> - amount)"

definition sides_ok :: "tenant_db \<Rightarrow> bool" where
  "sides_ok db \<longleftrightarrow> (\<forall>a\<in>set (t_internal db). ia_normal_balance_side a \<in> {''debit'', ''credit''})"

definition account_keys :: "tenant_db \<Rightarrow> bool" where
  "account_keys db \<longleftrightarrow> distinct (map ia_id (t_internal db)) \<and> distinct (map sa_id (t_savings db)) \<and>
     distinct (map ln_id (t_loans db))"

definition entries_ok :: "tenant_db \<Rightarrow> bool" where
  "entries_ok db \<longleftrightarrow> (\<forall>e\<in>set (t_entries db). is_ok (get_account db (le_account_type e) (le_account_id e)))"

definition cached_ok :: "tenant_db \<Rightarrow> bool" where
  "cached_ok db \<longleftrightarrow> (\<forall>ty i acc. get_account db ty i = Inr acc \<longrightarrow>
     balance_of acc = ledger_sum (normal_side acc) ty i (t_entries db))"

definition ledger_wf :: "tenant_db \<Rightarrow> bool" where
  "ledger_wf db \<longleftrightarrow> account_keys db \<and> sides_ok db \<and> entries_ok db \<and> cached_ok db"

definition entry_total :: "ledger_direction \<Rightarrow> uid \<Rightarrow> ledger_entry list \<Rightarrow> rat" where
  "entry_total dir txid es =
     sum_list (map le_amount (filter (\<lambda>e. le_transaction_id e = txid \<and> le_direction e = dir) es))"

text \<open>Every entry belongs to a transaction, and both sides of every transaction add up to its
  amount.\<close>

definition transactions_ok :: "tenant_db \<Rightarrow> bool" where
  "transactions_ok db \<longleftrightarrow>
     distinct (map tx_id (t_transactions db)) \<and>
     distinct (map tx_idempotency_key (t_transactions db)) \<and>
     (\<forall>e\<in>set (t_entries db). le_transaction_id e \<in> keys tx_id (t_transactions db)) \<and>
     (\<forall>t\<in>set (t_transactions db). \<forall>dir. entry_total dir (tx_id t) (t_entries db) = tx_amount t)"

definition ledger_inv :: "tenant_db \<Rightarrow> bool" where
  "ledger_inv db \<longleftrightarrow> ledger_wf db \<and> transactions_ok db \<and> tb_diff db = 0"

lemma ledger_sum_append [simp]:
  "ledger_sum side ty i (es @ fs) = ledger_sum side ty i es + ledger_sum side ty i fs"
  by (simp add: ledger_sum_def)

lemma ledger_sum_single:
  "ledger_sum side ty i [e] =
     (if entry_matches ty i e then signed (le_direction e) side (le_amount e) else 0)"
  by (simp add: ledger_sum_def)

lemma ledger_sum_Nil [simp]: "ledger_sum side ty i [] = 0"
  by (simp add: ledger_sum_def)

lemma ledger_sum_none:
  "(\<And>e. e \<in> set es \<Longrightarrow> \<not> entry_matches ty i e) \<Longrightarrow> ledger_sum side ty i es = 0"
  by (simp add: ledger_sum_def filter_False)

subsection \<open>One line\<close>

lemma post_line_Inr:
  assumes "post_line txid line db = Inr db'"
  obtains acc where "get_account db (ll_account_type line) (ll_account_id line) = Inr acc"
    and "db' = put_account (set_balance (balance_of acc
                 + signed (ll_direction line) (normal_side acc) (ll_amount line)) acc)
               (db\<lparr>t_entries := t_entries db @
                   [\<lparr>le_transaction_id = txid, le_account_type = ll_account_type line,
                     le_account_id = ll_account_id line, le_direction = ll_direction line,
                     le_amount = ll_amount line\<rparr>]\<rparr>)"
  using assms that by (auto simp: post_line_def rbind_eq_Inr)

text \<open>The trial balance moves by the debited amount, and by minus the credited one.\<close>

lemma tb_diff_put:
  assumes keys: "account_keys db" and sides: "sides_ok db"
    and acc: "get_account db ty i = Inr acc"
  shows "tb_diff (put_account (set_balance (balance_of acc + signed dir (normal_side acc) amt) acc) db)
         = tb_diff db + debit_minus_credit dir amt"
proof -
  have S: "signed dir ''credit'' amt = - debit_minus_credit dir amt"
    "signed dir ''debit'' amt = debit_minus_credit dir amt"
    by (cases dir; simp add: signed_def debit_minus_credit_def)+
  consider (internal) a where "tget ia_id (t_internal db) i = Some a" "acc = AInternal a"
    | (savings) a where "tget sa_id (t_savings db) i = Some a" "acc = ASavings a"
    | (loan) l where "tget ln_id (t_loans db) i = Some l" "acc = ALoan l"
    using acc by (auto simp: get_account_Inr)
  then show ?thesis
  proof cases
    case internal
    have "a \<in> set (t_internal db)" using internal(1) by (rule tget_in)
    then have side: "ia_normal_balance_side a = ''debit'' \<or> ia_normal_balance_side a = ''credit''"
      using sides by (auto simp: sides_ok_def)
    show ?thesis
      using side internal keys tget_key [OF internal(1)] S
      by (auto simp: tb_diff_def account_keys_def sum_list_tset [where old = a] tb_internal_def)
  next
    case savings
    then show ?thesis using keys tget_key [OF savings(1)] S
      by (simp add: tb_diff_def account_keys_def sum_list_tset [where old = a])
  next
    case loan
    then show ?thesis using keys tget_key [OF loan(1)] S
      by (simp add: tb_diff_def account_keys_def sum_list_tset [where old = l])
  qed
qed

lemma account_keys_put [simp]: "account_keys (put_account acc db) = account_keys db"
  by (cases acc) (simp_all add: account_keys_def)

lemma sides_ok_put:
  "sides_ok db \<Longrightarrow> get_account db ty i = Inr acc \<Longrightarrow> sides_ok (put_account (set_balance v acc) db)"
  unfolding sides_ok_def get_account_Inr
  by (elim disjE exE conjE) (auto dest!: in_tset tget_in simp del: insert_iff)

lemma post_line_step:
  assumes wf: "ledger_wf db" and post: "post_line txid line db = Inr db'"
  shows "ledger_wf db'"
    and "tb_diff db' = tb_diff db + debit_minus_credit (ll_direction line) (ll_amount line)"
proof -
  obtain acc where acc: "get_account db (ll_account_type line) (ll_account_id line) = Inr acc"
    and db': "db' = put_account (set_balance (balance_of acc
                 + signed (ll_direction line) (normal_side acc) (ll_amount line)) acc)
               (db\<lparr>t_entries := t_entries db @
                   [\<lparr>le_transaction_id = txid, le_account_type = ll_account_type line,
                     le_account_id = ll_account_id line, le_direction = ll_direction line,
                     le_amount = ll_amount line\<rparr>]\<rparr>)" (is "db' = put_account ?acc ?db1")
    using post by (rule post_line_Inr)
  have ga: "get_account ?db1 ty i = get_account db ty i" for ty i by (rule get_account_cong) simp_all
  have acc1: "get_account ?db1 (ll_account_type line) (ll_account_id line) = Inr acc"
    using acc by (simp only: ga)
  have ga': "get_account db' ty i = (if ty = ll_account_type line \<and> i = ll_account_id line
               then Inr ?acc else get_account db ty i)" for ty i
    unfolding db' by (simp only: get_account_put [OF acc1] ga)
  have keys1: "account_keys ?db1" and sides1: "sides_ok ?db1"
    using wf by (simp_all add: ledger_wf_def account_keys_def sides_ok_def)
  have es: "t_entries db' = t_entries ?db1" by (simp add: db')
  have "entries_ok db'" using wf by (auto simp: entries_ok_def ledger_wf_def es ga')
  moreover have "cached_ok db'"
    using wf acc by (auto simp: cached_ok_def ledger_wf_def es ga' ledger_sum_single entry_matches_def)
  moreover have "sides_ok db'" unfolding db' using sides1 acc1 by (rule sides_ok_put)
  ultimately show "ledger_wf db'" using keys1 by (simp add: ledger_wf_def db')
  have "tb_diff ?db1 = tb_diff db" by (simp add: tb_diff_def)
  then show "tb_diff db' = tb_diff db + debit_minus_credit (ll_direction line) (ll_amount line)"
    unfolding db' by (simp only: tb_diff_put [OF keys1 sides1 acc1])
qed

subsection \<open>All lines of a transaction\<close>

lemma post_lines_wf:
  assumes "ledger_wf db" and "post_lines txid lines db = Inr db'"
  shows "ledger_wf db' \<and> tb_diff db' = tb_diff db + (side_total DEBIT lines - side_total CREDIT lines)"
  using assms
proof (induction lines arbitrary: db)
  case Nil
  then show ?case by (simp add: side_total_def)
next
  case (Cons line lines)
  obtain db1 where db1: "post_line txid line db = Inr db1" "post_lines txid lines db1 = Inr db'"
    using Cons.prems by (auto simp: rbind_eq_Inr)
  note step = post_line_step [OF Cons.prems(1) db1(1)]
  show ?case using Cons.IH [OF step(1) db1(2)] step(2)
    by (cases "ll_direction line") (simp_all add: side_total_def debit_minus_credit_def)
qed

definition line_entry :: "uid \<Rightarrow> ledger_line \<Rightarrow> ledger_entry" where
  "line_entry txid line = \<lparr>le_transaction_id = txid, le_account_type = ll_account_type line,
     le_account_id = ll_account_id line, le_direction = ll_direction line, le_amount = ll_amount line\<rparr>"

lemma post_line_frame:
  assumes "post_line txid line db = Inr db'"
  shows "t_entries db' = t_entries db @ [line_entry txid line]"
    "t_transactions db' = t_transactions db" "t_lines db' = t_lines db"
    "t_schedules db' = t_schedules db" "t_customers db' = t_customers db"
    "t_savings_products db' = t_savings_products db" "t_loan_products db' = t_loan_products db"
    "t_branches db' = t_branches db" "t_agents db' = t_agents db" "t_profile db' = t_profile db"
  using assms by (auto elim!: post_line_Inr simp: line_entry_def)

lemma post_lines_frame:
  assumes "post_lines txid lines db = Inr db'"
  shows "t_entries db' = t_entries db @ map (line_entry txid) lines \<and>
    t_transactions db' = t_transactions db \<and> t_lines db' = t_lines db \<and>
    t_schedules db' = t_schedules db \<and> t_customers db' = t_customers db \<and>
    t_savings_products db' = t_savings_products db \<and> t_loan_products db' = t_loan_products db \<and>
    t_branches db' = t_branches db \<and> t_agents db' = t_agents db \<and> t_profile db' = t_profile db"
  using assms
proof (induction lines arbitrary: db)
  case (Cons line lines)
  obtain db1 where db1: "post_line txid line db = Inr db1" "post_lines txid lines db1 = Inr db'"
    using Cons.prems by (auto simp: rbind_eq_Inr)
  show ?case using Cons.IH [OF db1(2)] post_line_frame [OF db1(1)] by simp
qed simp

lemma entry_total_append [simp]:
  "entry_total dir i (es @ fs) = entry_total dir i es + entry_total dir i fs"
  by (simp add: entry_total_def)

lemma entry_total_lines:
  "entry_total dir i (map (line_entry txid) lines) = (if i = txid then side_total dir lines else 0)"
  by (induction lines) (auto simp: entry_total_def side_total_def line_entry_def)

lemma entry_total_none:
  "(\<And>e. e \<in> set es \<Longrightarrow> le_transaction_id e \<noteq> i) \<Longrightarrow> entry_total dir i es = 0"
  by (simp add: entry_total_def filter_False)

subsection \<open>Posting\<close>

text \<open>The two ways a posting can succeed: the idempotency key was already used, and nothing
  changes; or it is fresh, and the balanced lines are written under a new transaction.\<close>

lemma post_transaction_Inr:
  assumes "post_transaction txid now ty key desc lines db = Inr (db', t)"
  obtains (replay) "db' = db" "t \<in> set (t_transactions db)" "tx_idempotency_key t = key"
  | (posted) db1 where
      "key \<notin> keys tx_idempotency_key (t_transactions db)" "txid \<notin> keys tx_id (t_transactions db)"
      "side_total DEBIT lines = side_total CREDIT lines"
      "t = \<lparr>tx_id = txid, tx_type = ty, tx_amount = side_total DEBIT lines, tx_description = desc,
            tx_idempotency_key = key, tx_created_at = now\<rparr>"
      "db1 = db\<lparr>t_transactions := t_transactions db @ [t]\<rparr>"
      "post_lines txid lines db1 = Inr db'" "db_fits db'"
proof (cases "scalar_of (filter (\<lambda>t. tx_idempotency_key t = key) (t_transactions db))")
  case NoRow
  let ?t = "\<lparr>tx_id = txid, tx_type = ty, tx_amount = side_total DEBIT lines, tx_description = desc,
            tx_idempotency_key = key, tx_created_at = now\<rparr>"
  let ?db1 = "db\<lparr>t_transactions := t_transactions db @ [?t]\<rparr>"
  have bal: "side_total DEBIT lines = side_total CREDIT lines"
    using assms NoRow by (auto simp: post_transaction_def Let_def split: if_splits)
  then have run: "rbind (add_transaction ?t db) (\<lambda>db1. rbind (post_lines txid lines db1)
               (\<lambda>db2. rbind (tenant_flush db2) (\<lambda>db3. Inr (db3, ?t)))) = Inr (db', t)"
    using assms NoRow by (simp add: post_transaction_def Let_def bal [symmetric])
  then have "add_transaction ?t db = Inr ?db1" "post_lines txid lines ?db1 = Inr db'" "t = ?t" "db_fits db'"
    "key \<notin> keys tx_idempotency_key (t_transactions db)" "txid \<notin> keys tx_id (t_transactions db)"
    by (auto simp: rbind_eq_Inr add_transaction_def tenant_flush_iff split: if_splits)
  then show thesis using posted bal by blast
next
  case (OneRow e)
  then have "e \<in> set (filter (\<lambda>t. tx_idempotency_key t = key) (t_transactions db))"
    by (simp add: scalar_of_OneRow)
  then show thesis using assms OneRow replay by (simp add: post_transaction_def)
next
  case ManyRows
  then show thesis using assms by (simp add: post_transaction_def)
qed

text \<open>Posting keeps the books well-formed.\<close>

lemma post_transaction_inv:
  assumes inv: "ledger_inv db"
    and post: "post_transaction txid now ty key desc lines db = Inr (db', t)"
  shows "ledger_inv db'"
  using post
proof (cases rule: post_transaction_Inr)
  case replay
  then show ?thesis using inv by simp
next
  case (posted db1)
  note F = post_lines_frame [OF posted(6)]
  have wf1: "ledger_wf db1" and tb1: "tb_diff db1 = 0"
    using inv posted(5) get_account_cong [of db1 db]
    by (simp_all add: ledger_inv_def ledger_wf_def account_keys_def sides_ok_def entries_ok_def
        cached_ok_def tb_diff_def)
  note wf' = post_lines_wf [OF wf1 posted(6)]
  have es: "t_entries db' = t_entries db @ map (line_entry txid) lines"
    and ts: "t_transactions db' = t_transactions db @ [t]" using F by (simp_all add: posted(5))
  have old: "\<And>e. e \<in> set (t_entries db) \<Longrightarrow> le_transaction_id e \<in> keys tx_id (t_transactions db)"
    using inv by (auto simp: ledger_inv_def transactions_ok_def)
  have "entry_total dir txid (t_entries db) = 0" for dir
    using old posted(2) by (intro entry_total_none) auto
  moreover have "side_total dir lines = side_total DEBIT lines" for dir
    using posted(3) by (cases dir) auto
  moreover have "u \<in> set (t_transactions db) \<Longrightarrow> tx_id u \<noteq> txid" for u
    using posted(2) by (auto simp: keys_def)
  ultimately have "transactions_ok db'"
    using inv posted(1,2,4) old
    by (auto simp: transactions_ok_def ledger_inv_def es ts entry_total_lines keys_def line_entry_def)
  then show ?thesis using wf' tb1 posted(3) by (simp add: ledger_inv_def)
qed

subsection \<open>Effect on one account\<close>

lemma set_balance_same [simp]: "set_balance (balance_of acc) acc = acc"
  by (cases acc) auto

lemma set_balance_twice [simp]: "set_balance v (set_balance w acc) = set_balance v acc"
  by (cases acc) auto

lemma post_line_get_account:
  assumes "post_line txid line db = Inr db'"
  shows "get_account db' ty i =
     rbind (get_account db ty i) (\<lambda>acc. Inr (set_balance
       (balance_of acc + ledger_sum (normal_side acc) ty i [line_entry txid line]) acc))"
proof -
  obtain acc where acc: "get_account db (ll_account_type line) (ll_account_id line) = Inr acc"
    and db': "db' = put_account (set_balance (balance_of acc
                 + signed (ll_direction line) (normal_side acc) (ll_amount line)) acc)
               (db\<lparr>t_entries := t_entries db @ [line_entry txid line]\<rparr>)"
    using post_line_Inr [OF assms] by (metis line_entry_def)
  have ga: "get_account (db\<lparr>t_entries := es\<rparr>) ty i = get_account db ty i" for es ty i
    by (rule get_account_cong) simp_all
  show ?thesis using acc
    by (cases "get_account db ty i")
       (auto simp: db' get_account_put ga ledger_sum_single entry_matches_def line_entry_def)
qed

lemma post_lines_get_account:
  assumes "post_lines txid lines db = Inr db'"
  shows "get_account db' ty i =
     rbind (get_account db ty i) (\<lambda>acc. Inr (set_balance
       (balance_of acc + ledger_sum (normal_side acc) ty i (map (line_entry txid) lines)) acc))"
  using assms
proof (induction lines arbitrary: db)
  case Nil
  then show ?case by (cases "get_account db' ty i") auto
next
  case (Cons line lines)
  obtain db1 where db1: "post_line txid line db = Inr db1" "post_lines txid lines db1 = Inr db'"
    using Cons.prems by (auto simp: rbind_eq_Inr)
  have "ledger_sum s ty i (map (line_entry txid) (line # lines)) =
      ledger_sum s ty i [line_entry txid line] + ledger_sum s ty i (map (line_entry txid) lines)" for s
    by (simp add: ledger_sum_def)
  then show ?case using Cons.IH [OF db1(2)] post_line_get_account [OF db1(1), of ty i]
    by (cases "get_account db ty i") (simp_all add: add.assoc)
qed

text \<open>A posting fails in \<open>post_lines\<close> only for an account that does not exist.\<close>

lemma post_lines_ok:
  assumes "\<And>l. l \<in> set lines \<Longrightarrow> is_ok (get_account db (ll_account_type l) (ll_account_id l))"
  shows "\<exists>db'. post_lines txid lines db = Inr db'"
  using assms
proof (induction lines arbitrary: db)
  case (Cons line lines)
  obtain db1 where db1: "post_line txid line db = Inr db1"
    using Cons.prems [of line] by (auto simp: post_line_def is_ok_ex)
  have "is_ok (get_account db1 (ll_account_type l) (ll_account_id l))" if "l \<in> set lines" for l
    using Cons.prems [of l] that
    by (auto simp: post_line_get_account [OF db1] is_ok_ex)
  then show ?case using Cons.IH [of db1] db1 by simp
qed simp

text \<open>What a posting under a fresh key does.\<close>

lemma post_transaction_fresh:
  assumes "post_transaction txid now ty key desc lines db = Inr (db', t)"
    and "key \<notin> keys tx_idempotency_key (t_transactions db)"
  shows "side_total DEBIT lines = side_total CREDIT lines"
    and "tx_amount t = side_total DEBIT lines" and "tx_id t = txid" and "tx_idempotency_key t = key"
    and "t_transactions db' = t_transactions db @ [t]"
    and "t_entries db' = t_entries db @ map (line_entry txid) lines"
    and "get_account db' aty i = rbind (get_account db aty i) (\<lambda>acc. Inr (set_balance
       (balance_of acc + ledger_sum (normal_side acc) aty i (map (line_entry txid) lines)) acc))"
    and "t_customers db' = t_customers db" and "t_schedules db' = t_schedules db"
    and "t_lines db' = t_lines db"
proof -
  obtain db1 where posted:
    "side_total DEBIT lines = side_total CREDIT lines"
    "t = \<lparr>tx_id = txid, tx_type = ty, tx_amount = side_total DEBIT lines, tx_description = desc,
            tx_idempotency_key = key, tx_created_at = now\<rparr>"
    "db1 = db\<lparr>t_transactions := t_transactions db @ [t]\<rparr>" "post_lines txid lines db1 = Inr db'"
    using assms(1) by (cases rule: post_transaction_Inr) (use assms(2) in \<open>auto simp: keys_def\<close>)
  have "get_account db1 ty i = get_account db ty i" for ty i
    unfolding posted(3) by (rule get_account_cong) simp_all
  then show "get_account db' aty i = rbind (get_account db aty i) (\<lambda>acc. Inr (set_balance
       (balance_of acc + ledger_sum (normal_side acc) aty i (map (line_entry txid) lines)) acc))"
    using post_lines_get_account [OF posted(4)] by simp
  show "side_total DEBIT lines = side_total CREDIT lines" by (rule posted(1))
  show "t_transactions db' = t_transactions db @ [t]"
    and "t_entries db' = t_entries db @ map (line_entry txid) lines"
    and "t_customers db' = t_customers db" and "t_schedules db' = t_schedules db"
    and "t_lines db' = t_lines db"
    using post_lines_frame [OF posted(4)] by (simp_all add: posted(3))
  show "tx_amount t = side_total DEBIT lines" and "tx_id t = txid" and "tx_idempotency_key t = key"
    by (simp_all add: posted(2))
qed

lemma get_account_savings [simp]:
  "get_account db ''savings_account'' i = Inr (ASavings a) \<longleftrightarrow> tget sa_id (t_savings db) i = Some a"
  by (simp add: get_account_Inr)

lemma get_account_loan [simp]:
  "get_account db ''loan'' i = Inr (ALoan l) \<longleftrightarrow> tget ln_id (t_loans db) i = Some l"
  by (simp add: get_account_Inr)

lemma get_account_internal [simp]:
  "get_account db ''internal_account'' i = Inr (AInternal a) \<longleftrightarrow> tget ia_id (t_internal db) i = Some a"
  by (simp add: get_account_Inr)

lemma ledger_sum_Cons:
  "ledger_sum side ty i (e # es) =
     (if entry_matches ty i e then signed (le_direction e) side (le_amount e) else 0) + ledger_sum side ty i es"
  by (simp add: ledger_sum_def)

lemmas line_sum_simps = ledger_sum_Cons entry_matches_def line_entry_def mk_line_def signed_def

section \<open>Properties of the engine\<close>

text \<open>A small institution used by the witnesses: the two internal accounts of onboarding, a
  verified customer with a savings account, and an approved loan of 100 over three months.\<close>

definition demo_db :: tenant_db where
  "demo_db =
     \<lparr>t_profile = [\<lparr>ip_id = 1, ip_name = ''Coop'', ip_currency = ''XOF''\<rparr>],
      t_branches = [\<lparr>br_id = 1, br_name = ''HQ'', br_code = ''HQ''\<rparr>],
      t_agents = [],
      t_customers = [\<lparr>cu_id = 1, cu_branch_id = 1, cu_full_name = ''Ada'', cu_phone = None,
                      cu_kyc_status = KYC_VERIFIED, cu_identity_documents = ''{}''\<rparr>],
      t_internal = [\<lparr>ia_id = 1, ia_name = ''cash'', ia_normal_balance_side = ''debit'', ia_balance_cached = 0\<rparr>,
                    \<lparr>ia_id = 2, ia_name = ''interest_income'', ia_normal_balance_side = ''credit'', ia_balance_cached = 0\<rparr>],
      t_savings_products = [\<lparr>sp_id = 1, sp_name = ''Basic'', sp_code = ''B'', sp_annual_interest_rate = 0,
                             sp_min_opening_balance = 10\<rparr>],
      t_savings = [\<lparr>sa_id = 1, sa_customer_id = 1, sa_product_id = 1, sa_account_number = ''SA-1'',
                    sa_status = SA_ACTIVE, sa_balance_cached = 0\<rparr>],
      t_loan_products = [\<lparr>lp_id = 1, lp_name = ''Flat'', lp_code = ''F'', lp_amortization_method = FLAT,
                          lp_periodic_interest_rate = 1 / 50, lp_min_principal = 10, lp_max_principal = 1000,
                          lp_min_term_months = 1, lp_max_term_months = 12\<rparr>],
      t_loans = [\<lparr>ln_id = 1, ln_customer_id = 1, ln_product_id = 1, ln_principal = 100, ln_term_months = 3,
                  ln_status = LN_APPROVED, ln_approved_by_staff_id = Some 7, ln_approved_at = Some 5,
                  ln_disbursed_at = None, ln_closed_at = None, ln_rejection_reason = None,
                  ln_outstanding_principal = 0\<rparr>],
      t_schedules = [], t_lines = [], t_transactions = [], t_entries = []\<rparr>"

lemma demo_db_inv: "ledger_inv demo_db"
  by (auto simp: demo_db_def ledger_inv_def ledger_wf_def account_keys_def sides_ok_def entries_ok_def
      cached_ok_def transactions_ok_def tb_diff_def tb_internal_def get_account_Inr tget_Cons tget_Nil
      split: if_splits)

definition demo_lines :: "ledger_line list" where
  "demo_lines = [mk_line ''internal_account'' 1 DEBIT 40, mk_line ''savings_account'' 1 CREDIT 40]"


lemma demo_post:
  "is_ok (post_transaction 9 0 ''deposit'' ''k1'' None demo_lines demo_db)"
  by code_simp


text \<open>Replaying an idempotency key never posts twice: once a posting under a key has
  succeeded on consistent books, any later posting under the same key, whatever its lines,
  type and description, returns the stored transaction and leaves the database unchanged.\<close>

theorem post_transaction_replay:
  assumes "ledger_inv db"
    and "post_transaction txid now ty key desc lines db = Inr (db', t)"
  shows "post_transaction txid' now' ty' key desc' lines' db' = Inr (db', t)"
proof -
  have inv': "ledger_inv db'" using assms by (rule post_transaction_inv)
  have t: "t \<in> set (t_transactions db') \<and> tx_idempotency_key t = key"
    using assms(2) by (cases rule: post_transaction_Inr) (auto dest!: post_lines_frame)
  have "filter (\<lambda>u. tx_idempotency_key u = key) xs = [t]"
    if "distinct (map tx_idempotency_key xs)" "t \<in> set xs" for xs
    using that t by (induction xs) (auto simp: filter_empty_conv image_iff)
  then show ?thesis
    using inv' t by (simp add: post_transaction_def ledger_inv_def transactions_ok_def)
qed

theorem post_transaction_replay_witness:
  "\<exists>db' t. post_transaction 9 0 ''deposit'' ''k1'' None demo_lines demo_db = Inr (db', t) \<and>
     post_transaction 10 5 ''withdrawal'' ''k1'' None [] db' = Inr (db', t)"
  using post_transaction_replay [OF demo_db_inv, of 9 0 "''deposit''" "''k1''" None demo_lines _ _ 10 5]
    demo_post by (auto simp: is_ok_ex)

text \<open>An unbalanced set of lines is refused with an assertion failure, before anything is
  written, unless the key is a replay.\<close>

theorem post_transaction_unbalanced:
  assumes "key \<notin> keys tx_idempotency_key (t_transactions db)"
  shows "side_total DEBIT lines \<noteq> side_total CREDIT lines \<longleftrightarrow>
    post_transaction txid now ty key desc lines db = Inl MF_AssertionError"
proof -
  have "scalar_of (filter (\<lambda>t. tx_idempotency_key t = key) (t_transactions db)) = NoRow"
    using assms by (auto simp: scalar_of_NoRow filter_empty_conv keys_def)
  moreover have "get_account db0 s i \<noteq> Inl MF_AssertionError" for db0 s i
    by (auto simp: get_account_def split: option.splits)
  then have "post_lines txid lines db0 \<noteq> Inl MF_AssertionError" for db0
    by (induction lines arbitrary: db0) (auto simp: rbind_eq_Inl post_line_def)
  ultimately show ?thesis
    by (auto simp: post_transaction_def Let_def rbind_eq_Inl add_transaction_def tenant_flush_def
        split: if_splits)
qed

theorem post_transaction_unbalanced_witness:
  "post_transaction 9 0 ''deposit'' ''k1'' None [mk_line ''savings_account'' 1 CREDIT 40] demo_db
     = Inl MF_AssertionError"
proof -
  have "side_total DEBIT [mk_line ''savings_account'' 1 CREDIT 40]
      \<noteq> side_total CREDIT [mk_line ''savings_account'' 1 CREDIT 40]"
    by (simp add: side_total_def mk_line_def)
  moreover have "''k1'' \<notin> keys tx_idempotency_key (t_transactions demo_db)"
    by (simp add: demo_db_def)
  ultimately show ?thesis using post_transaction_unbalanced by blast
qed

end
