(* ===== verification/MF_Savings.thy ===== *)
theory MF_Savings
  imports MF_Ledger
begin

text \<open>
  Savings operations, \<open>src/microfinance/mf_app/services/savings.py\<close>: opening an account,
  deposit and withdrawal, each as the service function with its guards in the order of the code.
  A savings account passed in is the object the caller loaded.  The random account number and
  the fresh UUIDs are arguments.
\<close>

definition get_cash_account :: "tenant_db \<Rightarrow> mf_exn + internal_account" where
  "get_cash_account db =
     (case scalar_of (filter (\<lambda>a. ia_name a = ''cash'') (t_internal db)) of
        NoRow \<Rightarrow> Inl MF_RuntimeError
      | OneRow account \<Rightarrow> Inr account
      | ManyRows \<Rightarrow> Inl MF_MultipleResultsFound)"

definition deposit ::
    "uid \<Rightarrow> instant \<Rightarrow> savings_account \<Rightarrow> rat \<Rightarrow> string \<Rightarrow> string option \<Rightarrow> tenant_db
     \<Rightarrow> mf_exn + (tenant_db \<times> transaction)" where
  "deposit txid now account amount idempotency_key description db =
     (if sa_status account \<noteq> SA_ACTIVE then Inl AccountNotActive
      else rbind (get_cash_account db) (\<lambda>cash.
        post_transaction txid now ''deposit'' idempotency_key description
          [mk_line ''internal_account'' (ia_id cash) DEBIT amount,
           mk_line ''savings_account'' (sa_id account) CREDIT amount] db))"

definition withdraw ::
    "uid \<Rightarrow> instant \<Rightarrow> savings_account \<Rightarrow> rat \<Rightarrow> string \<Rightarrow> string option \<Rightarrow> tenant_db
     \<Rightarrow> mf_exn + (tenant_db \<times> transaction)" where
  "withdraw txid now account amount idempotency_key description db =
     (if sa_status account \<noteq> SA_ACTIVE then Inl AccountNotActive
      else if sa_balance_cached account < amount then Inl InsufficientFunds
      else rbind (get_cash_account db) (\<lambda>cash.
        post_transaction txid now ''withdrawal'' idempotency_key description
          [mk_line ''savings_account'' (sa_id account) DEBIT amount,
           mk_line ''internal_account'' (ia_id cash) CREDIT amount] db))"

definition add_savings_account :: "savings_account \<Rightarrow> tenant_db \<Rightarrow> mf_exn + tenant_db" where
  "add_savings_account a db =
     (if sa_id a \<in> keys sa_id (t_savings db) \<or>
         sa_account_number a \<in> keys sa_account_number (t_savings db)
      then Inl MF_IntegrityError
      else tenant_flush (db\<lparr>t_savings := t_savings db @ [a]\<rparr>))"

definition open_savings_account ::
    "uid \<Rightarrow> string \<Rightarrow> uid \<Rightarrow> instant \<Rightarrow> customer \<Rightarrow> savings_product \<Rightarrow> rat \<Rightarrow> string option \<Rightarrow> tenant_db
     \<Rightarrow> mf_exn + (tenant_db \<times> savings_account)" where
  "open_savings_account aid number txid now customer product opening_deposit idempotency_key db =
     (if cu_kyc_status customer \<noteq> KYC_VERIFIED then Inl CustomerNotVerified
      else if opening_deposit < sp_min_opening_balance product then Inl BelowMinimumOpeningBalance
      else
        let account = \<lparr>sa_id = aid, sa_customer_id = cu_id customer, sa_product_id = sp_id product,
              sa_account_number = number, sa_status = SA_ACTIVE, sa_balance_cached = 0\<rparr>
        in rbind (add_savings_account account db) (\<lambda>db1.
           if 0 < opening_deposit then
             (if idempotency_key = None \<or> idempotency_key = Some [] then Inl MissingIdempotencyKey
              else rbind (deposit txid now account opening_deposit (the idempotency_key)
                            (Some ''Opening deposit'') db1) (\<lambda>(db2, _). Inr (db2, account)))
           else Inr (db1, account)))"

section \<open>The books stay consistent\<close>

lemma ledger_wf_add_savings:
  assumes "ledger_inv db" and new: "sa_id a \<notin> keys sa_id (t_savings db)" and z: "sa_balance_cached a = 0"
  shows "ledger_inv (db\<lparr>t_savings := t_savings db @ [a]\<rparr>)" (is "ledger_inv ?db")
proof -
  have ga: "get_account ?db ty i = (if ty = ''savings_account'' \<and> i = sa_id a then Inr (ASavings a)
              else get_account db ty i)" for ty i
    using new by (auto simp: get_account_def tget_append tget_Cons tget_Nil tget_None_iff [symmetric]
        split: option.splits)
  have new': "get_account db ''savings_account'' (sa_id a) = Inl MF_ValueError"
    using new by (simp add: get_account_def tget_None_iff [symmetric])
  then have "\<not> entry_matches ''savings_account'' (sa_id a) e" if "e \<in> set (t_entries db)" for e
    using assms(1) that by (auto simp: ledger_inv_def ledger_wf_def entries_ok_def entry_matches_def)
  then have "ledger_sum s ''savings_account'' (sa_id a) (t_entries db) = 0" for s
    by (intro ledger_sum_none)
  then have "cached_ok ?db" using assms(1) z by (auto simp: ledger_inv_def ledger_wf_def cached_ok_def ga)
  moreover have "entries_ok ?db" using assms(1) by (auto simp: ledger_inv_def ledger_wf_def entries_ok_def ga)
  moreover have "account_keys ?db" using assms(1) new
    by (auto simp: ledger_inv_def ledger_wf_def account_keys_def keys_def)
  ultimately show ?thesis using assms(1) z
    by (simp add: ledger_inv_def ledger_wf_def sides_ok_def transactions_ok_def tb_diff_def)
qed

lemma deposit_inv:
  "ledger_inv db \<Longrightarrow> deposit txid now a amt key desc db = Inr (db', t) \<Longrightarrow> ledger_inv db'"
  by (auto simp: deposit_def rbind_eq_Inr intro: post_transaction_inv split: if_splits)

lemma withdraw_inv:
  "ledger_inv db \<Longrightarrow> withdraw txid now a amt key desc db = Inr (db', t) \<Longrightarrow> ledger_inv db'"
  by (auto simp: withdraw_def rbind_eq_Inr intro: post_transaction_inv split: if_splits)

lemma open_savings_account_inv:
  assumes "ledger_inv db" "open_savings_account aid num txid now c p amt key db = Inr (db', a)"
  shows "ledger_inv db'"
proof -
  let ?a = "\<lparr>sa_id = aid, sa_customer_id = cu_id c, sa_product_id = sp_id p,
              sa_account_number = num, sa_status = SA_ACTIVE, sa_balance_cached = 0\<rparr>"
  let ?db1 = "db\<lparr>t_savings := t_savings db @ [?a]\<rparr>"
  have new: "aid \<notin> keys sa_id (t_savings db)"
    and cont: "db' = ?db1 \<or> (\<exists>t. deposit txid now ?a amt (the key) (Some ''Opening deposit'') ?db1 = Inr (db', t))"
    using assms(2)
    by (auto simp: open_savings_account_def Let_def rbind_eq_Inr add_savings_account_def tenant_flush_iff
        split: if_splits prod.splits)
  have "ledger_inv ?db1" using assms(1) new by (intro ledger_wf_add_savings) simp_all
  then show ?thesis using cont by (auto intro: deposit_inv)
qed

section \<open>What an operation does to the accounts\<close>

lemma get_cash_account_Inr:
  "get_cash_account db = Inr cash \<Longrightarrow> cash \<in> set (t_internal db) \<and> ia_name cash = ''cash''"
  by (auto simp: get_cash_account_def dest: scalar_of_filter split: scalar.splits)

lemma get_cash_account_tget:
  "ledger_inv db \<Longrightarrow> get_cash_account db = Inr cash \<Longrightarrow> tget ia_id (t_internal db) (ia_id cash) = Some cash"
  by (auto simp: ledger_inv_def ledger_wf_def account_keys_def
      intro!: tget_distinct dest: get_cash_account_Inr)

text \<open>Both operations post one leg on the cash account and one on the savings account.\<close>

lemma savings_cash_posting:
  assumes inv: "ledger_inv db" and a: "tget sa_id (t_savings db) i = Some a"
    and key: "key \<notin> keys tx_idempotency_key (t_transactions db)"
    and cash: "get_cash_account db = Inr cash"
    and post: "post_transaction txid now ty key desc lines db = Inr (db', t)"
    and lines: "lines = [mk_line ''internal_account'' (ia_id cash) d1 amount, mk_line ''savings_account'' i d2 amount] \<or>
                lines = [mk_line ''savings_account'' i d2 amount, mk_line ''internal_account'' (ia_id cash) d1 amount]"
  shows "tget sa_id (t_savings db') i = Some (a\<lparr>sa_balance_cached := sa_balance_cached a + signed d2 ''credit'' amount\<rparr>)"
    and "tget ia_id (t_internal db') (ia_id cash) = Some (cash\<lparr>ia_balance_cached :=
          ia_balance_cached cash + signed d1 (ia_normal_balance_side cash) amount\<rparr>)"
    and "j \<noteq> i \<Longrightarrow> get_account db' ''savings_account'' j = get_account db ''savings_account'' j"
    and "get_account db' ''loan'' k = get_account db ''loan'' k"
proof -
  note E = post_transaction_fresh(7) [OF post key]
  have ga: "get_account db ''savings_account'' i = Inr (ASavings a)"
    "get_account db ''internal_account'' (ia_id cash) = Inr (AInternal cash)"
    using a get_cash_account_tget [OF inv cash] by simp_all
  have "get_account db' ''savings_account'' i
          = Inr (ASavings (a\<lparr>sa_balance_cached := sa_balance_cached a + signed d2 ''credit'' amount\<rparr>))"
    using lines by (elim disjE) (simp_all add: E ga line_sum_simps)
  then show "tget sa_id (t_savings db') i = Some (a\<lparr>sa_balance_cached := sa_balance_cached a + signed d2 ''credit'' amount\<rparr>)"
    by simp
  have "get_account db' ''internal_account'' (ia_id cash)
       = Inr (AInternal (cash\<lparr>ia_balance_cached :=
          ia_balance_cached cash + signed d1 (ia_normal_balance_side cash) amount\<rparr>))"
    using lines by (elim disjE) (simp_all add: E ga line_sum_simps)
  then show "tget ia_id (t_internal db') (ia_id cash) = Some (cash\<lparr>ia_balance_cached :=
          ia_balance_cached cash + signed d1 (ia_normal_balance_side cash) amount\<rparr>)" by simp
  show "get_account db' ''savings_account'' j = get_account db ''savings_account'' j" if "j \<noteq> i"
    using that lines by (cases "get_account db ''savings_account'' j") (auto simp: E line_sum_simps)
  show "get_account db' ''loan'' k = get_account db ''loan'' k"
    using lines by (cases "get_account db ''loan'' k") (auto simp: E line_sum_simps)
qed

text \<open>A deposit under a fresh key debits the cash account and credits the customer's account
  by the same amount, and touches no other savings account and no loan.\<close>

theorem deposit_effect:
  assumes inv: "ledger_inv db" and a: "tget sa_id (t_savings db) i = Some a"
    and key: "key \<notin> keys tx_idempotency_key (t_transactions db)"
    and dep: "deposit txid now a amount key desc db = Inr (db', t)"
  shows "sa_status a = SA_ACTIVE \<and> tx_amount t = amount \<and>
    tget sa_id (t_savings db') i = Some (a\<lparr>sa_balance_cached := sa_balance_cached a + amount\<rparr>) \<and>
    (\<forall>cash. get_cash_account db = Inr cash \<longrightarrow>
       tget ia_id (t_internal db') (ia_id cash) = Some (cash\<lparr>ia_balance_cached :=
          ia_balance_cached cash + signed DEBIT (ia_normal_balance_side cash) amount\<rparr>)) \<and>
    (\<forall>j. j \<noteq> i \<longrightarrow> get_account db' ''savings_account'' j = get_account db ''savings_account'' j) \<and>
    (\<forall>j. get_account db' ''loan'' j = get_account db ''loan'' j)"
proof -
  obtain cash where cash: "get_cash_account db = Inr cash" and act: "sa_status a = SA_ACTIVE"
    and post: "post_transaction txid now ''deposit'' key desc
          [mk_line ''internal_account'' (ia_id cash) DEBIT amount,
           mk_line ''savings_account'' i CREDIT amount] db = Inr (db', t)"
    using dep tget_key [OF a] by (auto simp: deposit_def rbind_eq_Inr split: if_splits)
  note E = savings_cash_posting [OF inv a key cash post disjI1 [OF refl]]
  have "tx_amount t = amount"
    using post_transaction_fresh(2) [OF post key] by (simp add: side_total_def mk_line_def)
  then show ?thesis using E act cash by (simp add: signed_def)
qed

theorem deposit_effect_witness:
  "\<exists>db' t. deposit 9 0 (hd (t_savings demo_db)) 40 ''k1'' None demo_db = Inr (db', t) \<and>
     tget sa_id (t_savings db') 1 = Some ((hd (t_savings demo_db))\<lparr>sa_balance_cached := 40\<rparr>)"
proof -
  have "is_ok (deposit 9 0 (hd (t_savings demo_db)) 40 ''k1'' None demo_db)" by code_simp
  then obtain r where r: "deposit 9 0 (hd (t_savings demo_db)) 40 ''k1'' None demo_db = Inr r"
    by (auto simp: is_ok_ex)
  moreover have "tget sa_id (t_savings demo_db) 1 = Some (hd (t_savings demo_db))"
    "''k1'' \<notin> keys tx_idempotency_key (t_transactions demo_db)"
    "sa_balance_cached (hd (t_savings demo_db)) = 0"
    by (simp_all add: demo_db_def tget_Cons)
  ultimately show ?thesis using deposit_effect [OF demo_db_inv, of 1] by (cases r) fastforce
qed



end
