(* ===== verification/MF_Amortization.thy ===== *)
theory MF_Amortization
  imports MF_Model
begin

text \<open>
  Repayment schedules, \<open>src/microfinance/mf_app/services/amortization.py\<close>: month
  arithmetic on calendar dates and the flat and declining-balance schedules, computed in the
  default decimal context with every rounding the code performs.  The loops are recursions
  over \<open>range(1, term_months + 1)\<close>.
\<close>

section \<open>Calendar\<close>

definition is_leap :: "int \<Rightarrow> bool" where
  "is_leap y \<longleftrightarrow> y mod 4 = 0 \<and> (y mod 100 \<noteq> 0 \<or> y mod 400 = 0)"

definition days_in_month :: "int \<Rightarrow> int \<Rightarrow> int" where
  "days_in_month y m =
     (if m = 2 then (if is_leap y then 29 else 28)
      else if m = 4 \<or> m = 6 \<or> m = 9 \<or> m = 11 then 30 else 31)"

definition valid_date :: "date \<Rightarrow> bool" where
  "valid_date d \<longleftrightarrow> 1 \<le> d_year d \<and> d_year d \<le> 9999 \<and> 1 \<le> d_month d \<and> d_month d \<le> 12 \<and>
     1 \<le> d_day d \<and> d_day d \<le> days_in_month (d_year d) (d_month d)"

definition mk_date :: "int \<Rightarrow> int \<Rightarrow> int \<Rightarrow> mf_exn + date" where
  "mk_date y m d = (if valid_date (Date y m d) then Inr (Date y m d) else Inl MF_ValueError)"

definition add_months :: "date \<Rightarrow> int \<Rightarrow> mf_exn + date" where
  "add_months base months =
     (let month_index = d_month base - 1 + months;
          year = d_year base + month_index div 12;
          month = month_index mod 12 + 1;
          day = min (d_day base) (days_in_month year month)
      in mk_date year month day)"

definition date_less :: "date \<Rightarrow> date \<Rightarrow> bool" where
  "date_less a b \<longleftrightarrow> d_year a < d_year b \<or> d_year a = d_year b \<and>
     (d_month a < d_month b \<or> d_month a = d_month b \<and> d_day a < d_day b)"

lemma days_in_month_bounds: "28 \<le> days_in_month y m" "days_in_month y m \<le> 31"
  by (simp_all add: days_in_month_def)

text \<open>The months since year zero of the result.\<close>

lemma add_months_Inr:
  assumes "add_months base n = Inr d"
  shows "valid_date d" and "12 * d_year d + d_month d = 12 * d_year base + d_month base + n"
    and "d_day d = min (d_day base) (days_in_month (d_year d) (d_month d))"
proof -
  let ?k = "d_month base - 1 + n"
  have d: "d = Date (d_year base + ?k div 12) (?k mod 12 + 1)
      (min (d_day base) (days_in_month (d_year base + ?k div 12) (?k mod 12 + 1)))"
    and v: "valid_date d"
    using assms by (auto simp: add_months_def mk_date_def Let_def split: if_splits)
  show "valid_date d" by (rule v)
  show "12 * d_year d + d_month d = 12 * d_year base + d_month base + n"
    using mult_div_mod_eq [of 12 ?k] by (simp add: d algebra_simps)
  show "d_day d = min (d_day base) (days_in_month (d_year d) (d_month d))" by (simp add: d)
qed

text \<open>Adding months fails only by leaving the range of representable years.\<close>

lemma add_months_ok:
  assumes "valid_date base"
  shows "is_ok (add_months base n) \<longleftrightarrow>
    1 \<le> d_year base + (d_month base - 1 + n) div 12 \<and> d_year base + (d_month base - 1 + n) div 12 \<le> 9999"
proof -
  let ?k = "d_month base - 1 + n"
  have "0 \<le> ?k mod 12" "?k mod 12 < 12" by simp_all
  moreover have "1 \<le> min (d_day base) (days_in_month y m)" for y m
    using assms days_in_month_bounds [of y m] by (auto simp: valid_date_def)
  ultimately show ?thesis
    by (auto simp: add_months_def mk_date_def Let_def valid_date_def)
qed

lemma add_months_less:
  assumes "add_months base m = Inr d" "add_months base n = Inr e" "m < n"
  shows "date_less d e"
  using add_months_Inr [OF assms(1)] add_months_Inr [OF assms(2)] assms(3)
  by (auto simp: date_less_def valid_date_def)

section \<open>Schedules\<close>

record schedule_line =
  s_installment_number :: int
  s_due_date :: date
  s_principal_due :: rat
  s_interest_due :: rat

definition round_money :: "rat \<Rightarrow> mf_exn + rat" where
  "round_money value = map_err MF_DecimalError (quantize_cents value)"

definition div_money :: "rat \<Rightarrow> rat \<Rightarrow> mf_exn + rat" where
  "div_money x y = map_err MF_DecimalError (ddiv x y)"

fun flat_loop ::
    "rat \<Rightarrow> int \<Rightarrow> date \<Rightarrow> rat \<Rightarrow> rat \<Rightarrow> rat \<Rightarrow> int list \<Rightarrow> mf_exn + schedule_line list" where
  "flat_loop princ term_months start_date principal_per_period interest_per_period allocated [] = Inr []"
| "flat_loop princ term_months start_date principal_per_period interest_per_period allocated (i # is) =
     rbind (add_months start_date i) (\<lambda>due.
     rbind (flat_loop princ term_months start_date principal_per_period interest_per_period
              (if i = term_months then allocated else dadd allocated principal_per_period) is)
       (\<lambda>lines. Inr (\<lparr>s_installment_number = i, s_due_date = due,
                     s_principal_due = (if i = term_months then dsub princ allocated else principal_per_period),
                     s_interest_due = interest_per_period\<rparr> # lines)))"

definition flat_schedule :: "rat \<Rightarrow> rat \<Rightarrow> int \<Rightarrow> date \<Rightarrow> mf_exn + schedule_line list" where
  "flat_schedule princ periodic_rate term_months start_date =
     rbind (div_money princ (of_int term_months)) (\<lambda>q.
     rbind (round_money q) (\<lambda>principal_per_period.
     rbind (round_money (dmul princ periodic_rate)) (\<lambda>interest_per_period.
       flat_loop princ term_months start_date principal_per_period interest_per_period 0 [1..term_months])))"

fun declining_loop ::
    "rat \<Rightarrow> int \<Rightarrow> date \<Rightarrow> rat \<Rightarrow> rat \<Rightarrow> int list \<Rightarrow> mf_exn + schedule_line list" where
  "declining_loop periodic_rate term_months start_date installment remaining [] = Inr []"
| "declining_loop periodic_rate term_months start_date installment remaining (i # is) =
     rbind (round_money (dmul remaining periodic_rate)) (\<lambda>interest_due.
     rbind (if i = term_months then Inr remaining else round_money (dsub installment interest_due)) (\<lambda>principal_due.
     rbind (add_months start_date i) (\<lambda>due.
     rbind (declining_loop periodic_rate term_months start_date installment (dsub remaining principal_due) is)
       (\<lambda>lines. Inr (\<lparr>s_installment_number = i, s_due_date = due, s_principal_due = principal_due,
                     s_interest_due = interest_due\<rparr> # lines)))))"

definition declining_installment :: "rat \<Rightarrow> rat \<Rightarrow> int \<Rightarrow> mf_exn + rat" where
  "declining_installment princ periodic_rate term_months =
     (if periodic_rate = 0 then
        rbind (div_money princ (of_int term_months)) round_money
      else
        rbind (map_err MF_DecimalError (dpow_int (dadd 1 periodic_rate) (- term_months))) (\<lambda>p.
        rbind (div_money (dmul princ periodic_rate) (dsub 1 p)) round_money))"

definition declining_balance_schedule :: "rat \<Rightarrow> rat \<Rightarrow> int \<Rightarrow> date \<Rightarrow> mf_exn + schedule_line list" where
  "declining_balance_schedule princ periodic_rate term_months start_date =
     rbind (declining_installment princ periodic_rate term_months) (\<lambda>installment.
       declining_loop periodic_rate term_months start_date installment princ [1..term_months])"

definition generate_repayment_schedule ::
    "rat \<Rightarrow> rat \<Rightarrow> int \<Rightarrow> amortization_method \<Rightarrow> date \<Rightarrow> mf_exn + schedule_line list" where
  "generate_repayment_schedule princ periodic_rate term_months method start_date =
     (if method = FLAT then flat_schedule princ periodic_rate term_months start_date
      else declining_balance_schedule princ periodic_rate term_months start_date)"

section \<open>Shape of a schedule\<close>

lemma round_money_Inr: "round_money x = Inr y \<longleftrightarrow> quantize_cents x = Inr y"
  by (simp add: round_money_def map_err_eq_Inr)

definition line_shape :: "date \<Rightarrow> int list \<Rightarrow> schedule_line list \<Rightarrow> bool" where
  "line_shape start is lines \<longleftrightarrow> map s_installment_number lines = is \<and>
     (\<forall>l\<in>set lines. add_months start (s_installment_number l) = Inr (s_due_date l))"

lemma flat_loop_shape:
  "flat_loop P n start ppp ip a is = Inr lines \<Longrightarrow> line_shape start is lines"
  by (induction "is" arbitrary: a lines)
     (auto simp: line_shape_def rbind_eq_Inr Let_def split: if_splits)

lemma declining_loop_shape:
  "declining_loop r n start inst rem is = Inr lines \<Longrightarrow> line_shape start is lines"
  by (induction "is" arbitrary: rem lines) (auto simp: line_shape_def rbind_eq_Inr)

lemma generate_shape:
  "generate_repayment_schedule P r n m start = Inr lines \<Longrightarrow> line_shape start [1..n] lines"
  by (auto simp: generate_repayment_schedule_def flat_schedule_def declining_balance_schedule_def
      rbind_eq_Inr dest: flat_loop_shape declining_loop_shape split: if_splits)

section \<open>The last installment absorbs the remainder\<close>

lemma flat_loop_sum:
  assumes "flat_loop P n start ppp ip a [i..n] = Inr lines" "i \<le> n"
    and "is_cents P" "is_cents ppp" "is_cents a"
    and "\<bar>P\<bar> + \<bar>a\<bar> + of_int (n - i) * \<bar>ppp\<bar> < 10 ^ 26"
  shows "sum_list (map s_principal_due lines) = P - a"
  using assms
proof (induction "nat (n - i)" arbitrary: i a lines)
  case 0
  then have "i = n" by simp
  then have "map s_principal_due lines = [dsub P a]"
    using "0.prems"(1) by (auto simp: rbind_eq_Inr)
  then show ?case using "0.prems"(3,5,6) \<open>i = n\<close> dsub_cents [of P a] by simp
next
  case (Suc k)
  then have lt: "i < n" by simp
  then have "[i..n] = i # [i + 1..n]" by (simp add: upto.simps [of i])
  then obtain rest where rest: "flat_loop P n start ppp ip (dadd a ppp) [i + 1..n] = Inr rest"
    and lines: "map s_principal_due lines = ppp # map s_principal_due rest"
    using Suc.prems(1) lt by (auto simp: rbind_eq_Inr)
  have "1 * \<bar>ppp\<bar> \<le> of_int (n - i) * \<bar>ppp\<bar>" using lt by (intro mult_right_mono) auto
  then have "\<bar>a + ppp\<bar> < 10 ^ 26" using Suc.prems(6) by linarith
  then have da: "dadd a ppp = a + ppp" using Suc.prems by (intro dadd_cents) auto
  have "\<bar>P\<bar> + \<bar>a + ppp\<bar> + of_int (n - (i + 1)) * \<bar>ppp\<bar> \<le> \<bar>P\<bar> + \<bar>a\<bar> + of_int (n - i) * \<bar>ppp\<bar>"
    by (simp add: algebra_simps abs_triangle_ineq)
  then have "sum_list (map s_principal_due rest) = P - (a + ppp)"
    using Suc.hyps(2) Suc.prems lt rest da by (intro Suc.hyps(1) [of "i + 1"]) (auto intro: is_cents_add)
  then show ?case by (simp add: lines)
qed

lemma declining_loop_sum:
  assumes "declining_loop r n start inst rem [i..n] = Inr lines" "i \<le> n"
    and "is_cents rem" and "\<And>l. l \<in> set lines \<Longrightarrow> \<bar>s_principal_due l\<bar> \<le> B"
    and "\<bar>rem\<bar> + of_int (n - i + 1) * B < 10 ^ 26"
  shows "sum_list (map s_principal_due lines) = rem"
  using assms
proof (induction "nat (n - i)" arbitrary: i rem lines)
  case 0
  then have "i = n" by simp
  then show ?case using "0.prems"(1) by (auto simp: rbind_eq_Inr)
next
  case (Suc k)
  then have lt: "i < n" by simp
  then have "[i..n] = i # [i + 1..n]" by (simp add: upto.simps [of i])
  then obtain l rest x where q: "round_money x = Inr (s_principal_due l)"
      and rest: "declining_loop r n start inst (dsub rem (s_principal_due l)) [i + 1..n] = Inr rest"
      and lines: "lines = l # rest"
    using Suc.prems(1) lt by (fastforce simp: rbind_eq_Inr)
  let ?p = "s_principal_due l"
  have p: "is_cents ?p" "\<bar>?p\<bar> \<le> B"
    using q quantize_cents_Inr(1) Suc.prems(4) [of l] by (auto simp: round_money_Inr lines)
  have "0 \<le> of_int (n - i) * B" using lt p(2) by (intro mult_nonneg_nonneg) auto
  then have "\<bar>rem - ?p\<bar> < 10 ^ 26" and bound: "\<bar>rem - ?p\<bar> + of_int (n - (i + 1) + 1) * B < 10 ^ 26"
    using Suc.prems(5) p(2) by (simp_all add: algebra_simps)
  then have ds: "dsub rem ?p = rem - ?p" using Suc.prems(3) p(1) by (intro dsub_cents)
  have "sum_list (map s_principal_due rest) = rem - ?p"
    using Suc.hyps(2) Suc.prems lt rest [unfolded ds] p(1) bound
    by (intro Suc.hyps(1) [of "i + 1"]) (auto simp: lines)
  then show ?case by (simp add: lines)
qed

section \<open>Properties\<close>

text \<open>The flat slice is the exact quotient up to half a cent and the context's rounding.\<close>

lemma flat_slice:
  assumes "div_money P (of_int n) = Inr q" "round_money q = Inr ppp" "1 \<le> n" "\<bar>P\<bar> < 10 ^ 16"
  shows "is_cents ppp" and "\<bar>ppp - P / of_int n\<bar> \<le> 1 / 100"
proof -
  have q: "q = dec (P / of_int n)" using assms by (simp add: div_money_def ddiv_def split: if_splits)
  have "1 * \<bar>P / of_int n\<bar> \<le> \<bar>of_int n\<bar> * \<bar>P / of_int n\<bar>"
    using assms(3) by (intro mult_right_mono) auto
  then have "\<bar>P / of_int n\<bar> \<le> \<bar>P\<bar>" using assms(3) by (simp add: abs_divide)
  then have "\<bar>q - P / of_int n\<bar> \<le> 1 / 200"
    using dec_error [of "P / of_int n"] assms(4) by (simp add: q)
  moreover have Q: "quantize_cents q = Inr ppp" using assms(2) by (simp add: round_money_Inr)
  ultimately show "\<bar>ppp - P / of_int n\<bar> \<le> 1 / 100" using quantize_cents_Inr(2) [OF Q] by linarith
  show "is_cents ppp" using Q by (rule quantize_cents_Inr)
qed

lemma flat_slice_bound:
  fixes P ppp :: rat
  assumes "\<bar>ppp - P / of_int n\<bar> \<le> 1 / 100" "1 \<le> n" "\<bar>P\<bar> < 10 ^ 16" "n < 2 ^ 31"
  shows "\<bar>P\<bar> + of_int (n - 1) * \<bar>ppp\<bar> < 10 ^ 26"
proof -
  have n: "1 \<le> (of_int n :: rat)" "(of_int n :: rat) \<le> 2 ^ 31" using assms(2,4) by simp_all
  have "\<bar>ppp\<bar> \<le> \<bar>P / of_int n\<bar> + 1 / 100" using assms(1) by linarith
  then have "of_int (n - 1) * \<bar>ppp\<bar> \<le> of_int n * (\<bar>P / of_int n\<bar> + 1 / 100)"
    using n by (intro mult_mono) auto
  also have "\<dots> = \<bar>P\<bar> + of_int n / 100" using n by (simp add: abs_divide field_simps)
  finally show ?thesis using assms(3) n by simp
qed

text \<open>The principal of a schedule adds up, provided its lines have a sane magnitude.\<close>

lemma schedule_sum:
  assumes "generate_repayment_schedule P r n m start = Inr lines"
    and "is_cents P" "\<bar>P\<bar> < 10 ^ 16" "1 \<le> n" "n < 2 ^ 31"
    and "m = FLAT \<or> (\<forall>l\<in>set lines. \<bar>s_principal_due l\<bar> \<le> 2 * 10 ^ 16)"
  shows "sum_list (map s_principal_due lines) = P"
proof (cases "m = FLAT")
  case True
  then obtain q ppp ip where q: "div_money P (of_int n) = Inr q" "round_money q = Inr ppp"
    and run: "flat_loop P n start ppp ip 0 [1..n] = Inr lines"
    using assms(1) by (auto simp: generate_repayment_schedule_def flat_schedule_def rbind_eq_Inr)
  note S = flat_slice [OF q assms(4,3)]
  show ?thesis using flat_loop_sum [OF run assms(4,2) S(1)] flat_slice_bound [OF S(2) assms(4,3,5)]
    by simp
next
  case False
  then obtain inst where run: "declining_loop r n start inst P [1..n] = Inr lines"
    using assms(1)
    by (auto simp: generate_repayment_schedule_def declining_balance_schedule_def rbind_eq_Inr)
  have "(of_int n :: rat) \<le> 2 ^ 31" using assms(5) by simp
  then show ?thesis using assms False
    by (intro declining_loop_sum [OF run, where B = "2 * 10 ^ 16"]) auto
qed

text \<open>C26: The principal due over all installments of a generated schedule adds up to exactly the
  loan's principal, for both methods and in spite of the rounding of every installment; there is
  one line per month, numbered from one, whose due date is the start date moved by that many
  months.  For a declining balance this holds for every schedule whose amounts fit their
  columns.\<close>

theorem schedule_total:
  assumes "generate_repayment_schedule P r n m start = Inr lines"
    and "is_cents P" "\<bar>P\<bar> < 10 ^ 16" "1 \<le> n" "n < 2 ^ 31"
    and "m = FLAT \<or> (\<forall>l\<in>set lines. \<bar>s_principal_due l\<bar> \<le> 2 * 10 ^ 16)"
  shows "sum_list (map s_principal_due lines) = P \<and>
    map s_installment_number lines = [1..n] \<and>
    (\<forall>l\<in>set lines. add_months start (s_installment_number l) = Inr (s_due_date l))"
  using schedule_sum [OF assms] generate_shape [OF assms(1)] by (simp add: line_shape_def)

lemma demo_flat: "is_ok (generate_repayment_schedule 100 (1 / 50) 3 FLAT (Date 2024 1 31))"
  by code_simp

theorem schedule_total_witness:
  "\<exists>lines. generate_repayment_schedule 100 (1 / 50) 3 FLAT (Date 2024 1 31) = Inr lines \<and>
     sum_list (map s_principal_due lines) = 100"
  using schedule_total [of 100 "1 / 50" 3 FLAT "Date 2024 1 31"] demo_flat
  by (auto simp: is_ok_ex is_cents_iff intro: exI [of _ 10000])

lemma flat_loop_lines:
  assumes "flat_loop P n start ppp ip a [i..n] = Inr lines"
  shows "(\<forall>l\<in>set lines. s_interest_due l = ip) \<and> (\<forall>l\<in>set (butlast lines). s_principal_due l = ppp)"
  using assms
proof (induction "nat (n + 1 - i)" arbitrary: i a lines)
  case (Suc k)
  then have "[i..n] = i # [i + 1..n]" by (simp add: upto.simps [of i])
  then obtain a' l rest where "flat_loop P n start ppp ip a' [i + 1..n] = Inr rest"
    and lines: "lines = l # rest" "s_interest_due l = ip" "i < n \<longrightarrow> s_principal_due l = ppp"
    using Suc.prems by (auto simp: rbind_eq_Inr Let_def split: if_splits)
  moreover from this have "rest = [] \<or> i < n"
    using flat_loop_shape [of P n start ppp ip a' "[i + 1..n]" rest] Suc.hyps(2)
    by (cases "i < n") (auto simp: line_shape_def)
  ultimately show ?case using Suc.hyps(1) [of "i + 1" a' rest] Suc.hyps(2) by auto
qed simp

text \<open>A flat schedule charges the same interest in every period; every installment but the
  last repays the exact share of the principal up to one cent, and the last one deviates from
  that share by at most one cent per preceding installment.\<close>

theorem flat_schedule_even:
  assumes "flat_schedule P r n start = Inr lines"
    and "is_cents P" "\<bar>P\<bar> < 10 ^ 16" "1 \<le> n" "n < 2 ^ 31"
  shows "(\<exists>ip. \<forall>l\<in>set lines. s_interest_due l = ip) \<and>
    (\<forall>l\<in>set (butlast lines). \<bar>s_principal_due l - P / of_int n\<bar> \<le> 1 / 100) \<and>
    \<bar>s_principal_due (last lines) - P / of_int n\<bar> \<le> of_int (n - 1) / 100"
proof -
  obtain q ppp ip where q: "div_money P (of_int n) = Inr q" "round_money q = Inr ppp"
    and run: "flat_loop P n start ppp ip 0 [1..n] = Inr lines"
    using assms(1) by (auto simp: flat_schedule_def rbind_eq_Inr)
  note S = flat_slice [OF q assms(4,3)]
  have sum: "sum_list (map s_principal_due lines) = P"
    using flat_loop_sum [OF run assms(4,2) S(1)] flat_slice_bound [OF S(2) assms(4,3,5)] by simp
  note L = flat_loop_lines [OF run]
  have len: "length lines = nat n"
    using flat_loop_shape [OF run] by (auto simp: line_shape_def dest: arg_cong [where f = length])
  then have ne: "lines \<noteq> []" using assms(4) by auto
  have "map s_principal_due (butlast lines) = replicate (nat n - 1) ppp"
    using L len by (intro replicate_eqI) auto
  then have "P = of_nat (nat n - 1) * ppp + s_principal_due (last lines)"
    using sum ne by (subst (asm) append_butlast_last_id [symmetric, of lines])
      (simp_all del: append_butlast_last_id add: sum_list_replicate)
  then have "s_principal_due (last lines) = P - of_int (n - 1) * ppp" using assms(4) by simp
  moreover define z where z: "z = P / of_int n"
  then have "P = of_int n * z" using assms(4) by simp
  ultimately have "s_principal_due (last lines) - P / of_int n = - (of_int (n - 1) * (ppp - P / of_int n))"
    by (simp add: z [symmetric] algebra_simps)
  then have "\<bar>s_principal_due (last lines) - P / of_int n\<bar> = of_int (n - 1) * \<bar>ppp - P / of_int n\<bar>"
    using assms(4) by (simp add: abs_mult)
  also have "\<dots> \<le> of_int (n - 1) * (1 / 100)" using S(2) assms(4) by (intro mult_left_mono) auto
  finally show ?thesis using L S(2) by auto
qed

theorem flat_schedule_even_witness:
  "\<exists>lines. flat_schedule 100 (1 / 50) 3 (Date 2024 1 31) = Inr lines \<and>
     \<bar>s_principal_due (last lines) - 100 / 3\<bar> \<le> 2 / 100"
  using flat_schedule_even [of 100 "1 / 50" 3 "Date 2024 1 31"] demo_flat
  by (auto simp: is_ok_ex is_cents_iff generate_repayment_schedule_def intro: exI [of _ 10000])

text \<open>The due dates of a schedule are valid calendar dates in strictly increasing order, on
  the day of the month the loan started or, where the month is shorter, on its last day.\<close>

theorem schedule_due_dates:
  assumes "generate_repayment_schedule P r n m start = Inr lines"
  shows "sorted_wrt date_less (map s_due_date lines) \<and>
    (\<forall>l\<in>set lines. valid_date (s_due_date l) \<and>
       d_day (s_due_date l) = min (d_day start) (days_in_month (d_year (s_due_date l)) (d_month (s_due_date l))))"
proof -
  note G = generate_shape [OF assms, unfolded line_shape_def]
  have "sorted_wrt (\<lambda>a b. s_installment_number a < s_installment_number b) lines"
    using G by (simp add: sorted_wrt_map [symmetric])
  then have "sorted_wrt (\<lambda>a b. date_less (s_due_date a) (s_due_date b)) lines"
    by (rule sorted_wrt_mono_rel [rotated]) (use G in \<open>blast intro: add_months_less\<close>)
  then show ?thesis using G by (auto simp: sorted_wrt_map dest: add_months_Inr)
qed

theorem schedule_due_dates_witness:
  "\<exists>lines. generate_repayment_schedule 100 (1 / 50) 3 FLAT (Date 2024 1 31) = Inr lines \<and>
     sorted_wrt date_less (map s_due_date lines)"
  using schedule_due_dates [of 100 "1 / 50" 3 FLAT "Date 2024 1 31"] demo_flat by (auto simp: is_ok_ex)

text \<open>The remainder that the last installment absorbs can be negative: two cents over four
  months at a flat rate end with an installment of minus one cent of principal.\<close>

theorem schedule_negative_last:
  "\<exists>lines. generate_repayment_schedule (2 / 100) (1 / 50) 4 FLAT (Date 2024 1 31) = Inr lines \<and>
      s_principal_due (last lines) = - (1 / 100)"
proof -
  have "(case generate_repayment_schedule (2 / 100) (1 / 50) 4 FLAT (Date 2024 1 31) of
           Inl e \<Rightarrow> False | Inr lines \<Rightarrow> s_principal_due (last lines) = - (1 / 100))"
    by code_simp
  then show ?thesis by (auto split: sum.splits)
qed

end
