(* ===== verification/MF_Loans.thy ===== *)
theory MF_Loans
  imports MF_Savings MF_Amortization
begin

text \<open>
  The loan life cycle, \<open>src/microfinance/mf_app/services/loans.py\<close>.  Every transition is
  one function that takes the loaded loan; changes of the loan after a ledger posting are made to
  the row the posting updated.

  The session does not flush before a query, so the query for the remaining installments at the
  end of \<open>repay_installment\<close> sees the marked line only when the posting flushed it, that is,
  when the idempotency key was fresh.
\<close>

section \<open>Operations\<close>

definition get_interest_income_account :: "tenant_db \<Rightarrow> mf_exn + internal_account" where
  "get_interest_income_account db =
     (case scalar_of (filter (\<lambda>a. ia_name a = ''interest_income'') (t_internal db)) of
        NoRow \<Rightarrow> Inl MF_RuntimeError
      | OneRow account \<Rightarrow> Inr account
      | ManyRows \<Rightarrow> Inl MF_MultipleResultsFound)"

definition create_loan ::
    "uid \<Rightarrow> customer \<Rightarrow> loan_product \<Rightarrow> rat \<Rightarrow> int \<Rightarrow> tenant_db \<Rightarrow> mf_exn + (tenant_db \<times> loan)" where
  "create_loan lid customer product princ term_months db =
     (if cu_kyc_status customer \<noteq> KYC_VERIFIED then Inl CustomerNotVerified
      else if \<not> (lp_min_principal product \<le> princ \<and> princ \<le> lp_max_principal product)
        then Inl InvalidLoanAmount
      else if \<not> (lp_min_term_months product \<le> term_months \<and> term_months \<le> lp_max_term_months product)
        then Inl InvalidLoanTerm
      else
        let loan = \<lparr>ln_id = lid, ln_customer_id = cu_id customer, ln_product_id = lp_id product,
              ln_principal = princ, ln_term_months = term_months, ln_status = LN_DRAFT,
              ln_approved_by_staff_id = None, ln_approved_at = None, ln_disbursed_at = None,
              ln_closed_at = None, ln_rejection_reason = None, ln_outstanding_principal = 0\<rparr>
        in if lid \<in> keys ln_id (t_loans db) then Inl MF_IntegrityError
           else rbind (tenant_flush (db\<lparr>t_loans := t_loans db @ [loan]\<rparr>)) (\<lambda>db'. Inr (db', loan)))"

definition require_status :: "loan \<Rightarrow> loan_status \<Rightarrow> mf_exn + unit" where
  "require_status loan expected = (if ln_status loan \<noteq> expected then Inl InvalidLoanState else Inr ())"

definition update_loan :: "uid \<Rightarrow> (loan \<Rightarrow> loan) \<Rightarrow> tenant_db \<Rightarrow> tenant_db" where
  "update_loan lid f db = db\<lparr>t_loans := tmod ln_id lid f (t_loans db)\<rparr>"

definition submit_for_approval :: "loan \<Rightarrow> tenant_db \<Rightarrow> mf_exn + tenant_db" where
  "submit_for_approval loan db =
     rbind (require_status loan LN_DRAFT) (\<lambda>_.
       tenant_flush (update_loan (ln_id loan) (\<lambda>l. l\<lparr>ln_status := LN_PENDING_APPROVAL\<rparr>) db))"

definition approve_loan :: "instant \<Rightarrow> uid \<Rightarrow> loan \<Rightarrow> tenant_db \<Rightarrow> mf_exn + tenant_db" where
  "approve_loan now staff_id loan db =
     rbind (require_status loan LN_PENDING_APPROVAL) (\<lambda>_.
       tenant_flush (update_loan (ln_id loan)
         (\<lambda>l. l\<lparr>ln_status := LN_APPROVED, ln_approved_by_staff_id := Some staff_id,
                ln_approved_at := Some now\<rparr>) db))"

definition reject_loan :: "uid \<Rightarrow> string \<Rightarrow> loan \<Rightarrow> tenant_db \<Rightarrow> mf_exn + tenant_db" where
  "reject_loan staff_id reason loan db =
     rbind (require_status loan LN_PENDING_APPROVAL) (\<lambda>_.
       tenant_flush (update_loan (ln_id loan)
         (\<lambda>l. l\<lparr>ln_status := LN_REJECTED, ln_approved_by_staff_id := Some staff_id,
                ln_rejection_reason := Some reason\<rparr>) db))"

definition persist_line :: "uid \<Rightarrow> schedule_line \<Rightarrow> repayment_schedule_line" where
  "persist_line schedule_id line =
     \<lparr>sl_schedule_id = schedule_id, sl_installment_number = s_installment_number line,
      sl_due_date = s_due_date line, sl_principal_due = s_principal_due line,
      sl_interest_due = s_interest_due line, sl_penalty_due = 0, sl_principal_paid = 0,
      sl_interest_paid = 0, sl_status = RL_PENDING\<rparr>"

definition disbursement_description :: "uid \<Rightarrow> string" where
  "disbursement_description lid = ''Disbursement of loan '' @ nat_string lid"

definition repayment_description :: "uid \<Rightarrow> int \<Rightarrow> string" where
  "repayment_description lid installment =
     ''Repayment of loan '' @ nat_string lid @ '' installment '' @ int_string installment"

definition disburse_loan ::
    "uid \<Rightarrow> uid \<Rightarrow> instant \<Rightarrow> date \<Rightarrow> loan \<Rightarrow> loan_product option \<Rightarrow> string \<Rightarrow> date option \<Rightarrow> tenant_db
     \<Rightarrow> mf_exn + tenant_db" where
  "disburse_loan sid txid now today loan product idempotency_key disbursement_date db =
     rbind (require_status loan LN_APPROVED) (\<lambda>_.
     case product of None \<Rightarrow> Inl MF_AttributeError | Some p \<Rightarrow>
     rbind (generate_repayment_schedule (ln_principal loan) (lp_periodic_interest_rate p)
              (ln_term_months loan) (lp_amortization_method p)
              (case disbursement_date of None \<Rightarrow> today | Some d \<Rightarrow> d)) (\<lambda>schedule_lines.
     if sid \<in> keys rs_id (t_schedules db) then Inl MF_IntegrityError else
     rbind (tenant_flush (db\<lparr>t_schedules := t_schedules db @
              [\<lparr>rs_id = sid, rs_loan_id = ln_id loan, rs_version = 1, rs_is_active = True\<rparr>]\<rparr>)) (\<lambda>db1.
     rbind (get_cash_account db1) (\<lambda>cash.
     rbind (post_transaction txid now ''disbursement'' idempotency_key
              (Some (disbursement_description (ln_id loan)))
              [mk_line ''loan'' (ln_id loan) DEBIT (ln_principal loan),
               mk_line ''internal_account'' (ia_id cash) CREDIT (ln_principal loan)]
              (db1\<lparr>t_lines := t_lines db1 @ map (persist_line sid) schedule_lines\<rparr>)) (\<lambda>(db2, _).
     tenant_flush (update_loan (ln_id loan)
       (\<lambda>l. l\<lparr>ln_status := LN_ACTIVE, ln_disbursed_at := Some now\<rparr>) db2))))))"

definition pending_lines :: "uid \<Rightarrow> repayment_schedule_line list \<Rightarrow> repayment_schedule_line list" where
  "pending_lines sid lines = filter (\<lambda>l. sl_schedule_id l = sid \<and> sl_status l = RL_PENDING) lines"

definition first_pending :: "uid \<Rightarrow> repayment_schedule_line list \<Rightarrow> repayment_schedule_line option" where
  "first_pending sid lines =
     (case sort_key sl_installment_number (pending_lines sid lines) of [] \<Rightarrow> None | l # _ \<Rightarrow> Some l)"

definition active_schedule :: "uid \<Rightarrow> tenant_db \<Rightarrow> mf_exn + repayment_schedule" where
  "active_schedule lid db =
     (case scalar_of (filter (\<lambda>s. rs_loan_id s = lid \<and> rs_is_active s) (t_schedules db)) of
        NoRow \<Rightarrow> Inl MF_NoResultFound
      | OneRow s \<Rightarrow> Inr s
      | ManyRows \<Rightarrow> Inl MF_MultipleResultsFound)"

text \<open>How a payment is split and what it does to the installment's line.\<close>

definition apply_payment :: "rat \<Rightarrow> repayment_schedule_line \<Rightarrow> repayment_schedule_line \<times> rat \<times> rat" where
  "apply_payment amount line =
     (let interest_remaining = sl_interest_due line - sl_interest_paid line;
          interest_portion = min amount interest_remaining;
          principal_portion = amount - interest_portion;
          line1 = line\<lparr>sl_interest_paid := sl_interest_paid line + interest_portion,
                       sl_principal_paid := sl_principal_paid line + principal_portion\<rparr>
      in (if sl_principal_paid line1 = sl_principal_due line1 \<and> sl_interest_paid line1 = sl_interest_due line1
          then line1\<lparr>sl_status := RL_PAID\<rparr> else line1, principal_portion, interest_portion))"

definition repayment_lines :: "uid \<Rightarrow> uid \<Rightarrow> uid \<Rightarrow> rat \<Rightarrow> rat \<Rightarrow> rat \<Rightarrow> ledger_line list" where
  "repayment_lines cash income lid amount principal_portion interest_portion =
     [mk_line ''internal_account'' cash DEBIT amount] @
     (if 0 < principal_portion then [mk_line ''loan'' lid CREDIT principal_portion] else []) @
     (if 0 < interest_portion then [mk_line ''internal_account'' income CREDIT interest_portion] else [])"

definition close_if_settled :: "instant \<Rightarrow> uid \<Rightarrow> bool \<Rightarrow> tenant_db \<Rightarrow> tenant_db" where
  "close_if_settled now lid settled db =
     (if settled then update_loan lid (\<lambda>l. l\<lparr>ln_status := LN_CLOSED, ln_closed_at := Some now\<rparr>) db else db)"

definition repay_installment ::
    "uid \<Rightarrow> instant \<Rightarrow> loan \<Rightarrow> rat \<Rightarrow> string \<Rightarrow> tenant_db
     \<Rightarrow> mf_exn + (tenant_db \<times> transaction \<times> repayment_schedule_line)" where
  "repay_installment txid now loan amount idempotency_key db =
     rbind (require_status loan LN_ACTIVE) (\<lambda>_.
     rbind (active_schedule (ln_id loan) db) (\<lambda>schedule.
     case first_pending (rs_id schedule) (t_lines db) of None \<Rightarrow> Inl InvalidLoanState | Some line \<Rightarrow>
     if (sl_interest_due line - sl_interest_paid line) + (sl_principal_due line - sl_principal_paid line) < amount
     then Inl Overpayment else
     case apply_payment amount line of (line', principal_portion, interest_portion) \<Rightarrow>
     rbind (get_cash_account db) (\<lambda>cash.
     rbind (get_interest_income_account db) (\<lambda>interest_income.
     rbind (post_transaction txid now ''repayment'' idempotency_key
              (Some (repayment_description (ln_id loan) (sl_installment_number line)))
              (repayment_lines (ia_id cash) (ia_id interest_income) (ln_id loan) amount
                 principal_portion interest_portion)
              (db\<lparr>t_lines := tset sl_key line' (t_lines db)\<rparr>)) (\<lambda>(db2, transaction).
     let flushed = (if idempotency_key \<in> keys tx_idempotency_key (t_transactions db)
                    then t_lines db else t_lines db2)
     in rbind (tenant_flush (close_if_settled now (ln_id loan)
                 (pending_lines (rs_id schedule) flushed = []) db2)) (\<lambda>db3.
        Inr (db3, transaction, line')))))))"

section \<open>The books stay consistent\<close>

lemma ledger_inv_cong:
  assumes "t_internal db = t_internal db'" "t_savings db = t_savings db'" "t_loans db = t_loans db'"
    "t_transactions db = t_transactions db'" "t_entries db = t_entries db'"
  shows "ledger_inv db = ledger_inv db'"
  using assms get_account_cong [OF assms(1-3)]
  by (simp add: ledger_inv_def ledger_wf_def account_keys_def sides_ok_def entries_ok_def cached_ok_def
      transactions_ok_def tb_diff_def)

text \<open>A change of a loan that leaves its balance alone does not touch the books.\<close>

lemma get_account_update_loan:
  assumes "\<And>l. ln_id (f l) = ln_id l"
  shows "get_account (update_loan lid f db) ty i =
    (if ty = ''loan'' \<and> i = lid then
       rbind (get_account db ty i) (\<lambda>acc. Inr (case acc of ALoan l \<Rightarrow> ALoan (f l) | _ \<Rightarrow> acc))
     else get_account db ty i)"
  using assms by (auto simp: get_account_def update_loan_def tget_tmod split: option.splits)

lemma ledger_inv_update_loan:
  assumes f: "\<And>l. ln_id (f l) = ln_id l" "\<And>l. ln_outstanding_principal (f l) = ln_outstanding_principal l"
    and inv: "ledger_inv db"
  shows "ledger_inv (update_loan lid f db)"
proof -
  note ga = get_account_update_loan [of f, OF f(1)]
  have "cached_ok (update_loan lid f db)"
    unfolding cached_ok_def
  proof (intro allI impI)
    fix ty i acc assume "get_account (update_loan lid f db) ty i = Inr acc"
    then obtain acc0 where acc0: "get_account db ty i = Inr acc0"
      "acc = acc0 \<or> acc = (case acc0 of ALoan l \<Rightarrow> ALoan (f l) | _ \<Rightarrow> acc0)"
      by (auto simp: ga rbind_eq_Inr split: if_splits)
    then have "balance_of acc = balance_of acc0 \<and> normal_side acc = normal_side acc0"
      using f(2) by (cases acc0) auto
    then show "balance_of acc = ledger_sum (normal_side acc) ty i (t_entries (update_loan lid f db))"
      using inv acc0 by (simp add: ledger_inv_def ledger_wf_def cached_ok_def update_loan_def)
  qed
  moreover have "is_ok (get_account (update_loan lid f db) ty i) = is_ok (get_account db ty i)" for ty i
    by (auto simp: ga is_ok_ex rbind_eq_Inr)
  ultimately show ?thesis using inv f
    by (simp add: ledger_inv_def ledger_wf_def account_keys_def sides_ok_def entries_ok_def
        transactions_ok_def tb_diff_def update_loan_def map_tmod)
qed

lemma create_loan_inv:
  assumes inv: "ledger_inv db" and "create_loan lid c p pr n db = Inr (db', l)"
  shows "ledger_inv db'"
proof -
  have new: "lid \<notin> keys ln_id (t_loans db)" and db': "db' = db\<lparr>t_loans := t_loans db @ [l]\<rparr>"
    and l: "ln_id l = lid" "ln_outstanding_principal l = 0"
    using assms(2) by (auto simp: create_loan_def Let_def rbind_eq_Inr tenant_flush_iff split: if_splits)
  have ga: "get_account db' ty i = (if ty = ''loan'' \<and> i = lid then Inr (ALoan l)
              else get_account db ty i)" for ty i
    using new l by (auto simp: db' get_account_def tget_append tget_Cons tget_Nil tget_None_iff [symmetric]
        split: option.splits)
  have "get_account db ''loan'' lid = Inl MF_ValueError"
    using new by (simp add: get_account_def tget_None_iff [symmetric])
  then have "\<not> entry_matches ''loan'' lid e" if "e \<in> set (t_entries db)" for e
    using inv that by (auto simp: ledger_inv_def ledger_wf_def entries_ok_def entry_matches_def)
  then have "ledger_sum s ''loan'' lid (t_entries db) = 0" for s by (intro ledger_sum_none)
  moreover have es: "t_entries db' = t_entries db" by (simp add: db')
  ultimately have "cached_ok db'" using inv l by (auto simp: ledger_inv_def ledger_wf_def cached_ok_def ga es)
  moreover have "entries_ok db'" using inv by (auto simp: ledger_inv_def ledger_wf_def entries_ok_def ga es)
  moreover have "account_keys db'" using inv new l
    by (auto simp: ledger_inv_def ledger_wf_def account_keys_def keys_def db')
  ultimately show ?thesis using inv l
    by (simp add: ledger_inv_def ledger_wf_def sides_ok_def transactions_ok_def tb_diff_def db')
qed

lemma submit_for_approval_inv:
  "ledger_inv db \<Longrightarrow> submit_for_approval l db = Inr db' \<Longrightarrow> ledger_inv db'"
  by (auto simp: submit_for_approval_def rbind_eq_Inr tenant_flush_iff intro!: ledger_inv_update_loan)

lemma approve_loan_inv:
  "ledger_inv db \<Longrightarrow> approve_loan now st l db = Inr db' \<Longrightarrow> ledger_inv db'"
  by (auto simp: approve_loan_def rbind_eq_Inr tenant_flush_iff intro!: ledger_inv_update_loan)

lemma reject_loan_inv:
  "ledger_inv db \<Longrightarrow> reject_loan st why l db = Inr db' \<Longrightarrow> ledger_inv db'"
  by (auto simp: reject_loan_def rbind_eq_Inr tenant_flush_iff intro!: ledger_inv_update_loan)

text \<open>What a successful disbursement has gone through.\<close>

lemma disburse_loan_Inr:
  assumes "disburse_loan sid txid now today loan product key ddate db = Inr db'"
  obtains p lines cash db2 t where "ln_status loan = LN_APPROVED" "product = Some p"
    "generate_repayment_schedule (ln_principal loan) (lp_periodic_interest_rate p) (ln_term_months loan)
       (lp_amortization_method p) (case ddate of None \<Rightarrow> today | Some d \<Rightarrow> d) = Inr lines"
    "sid \<notin> keys rs_id (t_schedules db)" "get_cash_account db = Inr cash"
    "post_transaction txid now ''disbursement'' key (Some (disbursement_description (ln_id loan)))
       [mk_line ''loan'' (ln_id loan) DEBIT (ln_principal loan),
        mk_line ''internal_account'' (ia_id cash) CREDIT (ln_principal loan)]
       (db\<lparr>t_schedules := t_schedules db @
             [\<lparr>rs_id = sid, rs_loan_id = ln_id loan, rs_version = 1, rs_is_active = True\<rparr>],
           t_lines := t_lines db @ map (persist_line sid) lines\<rparr>) = Inr (db2, t)"
    "db' = update_loan (ln_id loan) (\<lambda>l. l\<lparr>ln_status := LN_ACTIVE, ln_disbursed_at := Some now\<rparr>) db2"
    "db_fits db'"
proof -
  have cash: "get_cash_account (db\<lparr>t_schedules := x\<rparr>) = get_cash_account db" for x
    by (simp add: get_cash_account_def)
  show thesis
    using assms that
    by (cases product)
       (auto simp: disburse_loan_def rbind_eq_Inr require_status_def tenant_flush_iff cash split: if_splits)
qed

lemma disburse_loan_inv:
  assumes "ledger_inv db" "disburse_loan sid txid now today loan product key ddate db = Inr db'"
  shows "ledger_inv db'"
  using assms(2)
proof (cases rule: disburse_loan_Inr)
  case (1 p lines cash db2 t)
  have "ledger_inv (db\<lparr>t_schedules := x, t_lines := y\<rparr>)" for x y
    using assms(1) by (subst ledger_inv_cong [where db' = db]) simp_all
  then have "ledger_inv db2" by (rule post_transaction_inv) (rule 1(6))
  then show ?thesis unfolding 1(7) by (rule ledger_inv_update_loan [rotated 2]) simp_all
qed

text \<open>What a successful repayment has gone through.\<close>

lemma repay_installment_Inr:
  assumes "repay_installment txid now loan amount key db = Inr (db', t, line')"
  obtains schedule line pp ip cash income db2 where "ln_status loan = LN_ACTIVE"
    "active_schedule (ln_id loan) db = Inr schedule"
    "first_pending (rs_id schedule) (t_lines db) = Some line"
    "amount \<le> (sl_interest_due line - sl_interest_paid line) + (sl_principal_due line - sl_principal_paid line)"
    "apply_payment amount line = (line', pp, ip)"
    "get_cash_account db = Inr cash" "get_interest_income_account db = Inr income"
    "post_transaction txid now ''repayment'' key
       (Some (repayment_description (ln_id loan) (sl_installment_number line)))
       (repayment_lines (ia_id cash) (ia_id income) (ln_id loan) amount pp ip)
       (db\<lparr>t_lines := tset sl_key line' (t_lines db)\<rparr>) = Inr (db2, t)"
    "db' = close_if_settled now (ln_id loan) (pending_lines (rs_id schedule)
        (if key \<in> keys tx_idempotency_key (t_transactions db) then t_lines db else t_lines db2) = []) db2"
    "db_fits db'"
proof -
  obtain schedule line where *: "active_schedule (ln_id loan) db = Inr schedule"
    "first_pending (rs_id schedule) (t_lines db) = Some line"
    using assms by (auto simp: repay_installment_def rbind_eq_Inr split: option.splits)
  obtain l' pp ip where ap: "apply_payment amount line = (l', pp, ip)" by (cases "apply_payment amount line")
  show thesis
    using assms * that [OF _ *]
    by (auto simp: repay_installment_def rbind_eq_Inr require_status_def ap Let_def tenant_flush_iff not_less
        split: if_splits)
qed

lemma repay_installment_inv:
  assumes "ledger_inv db" "repay_installment txid now loan amount key db = Inr (db', t, line')"
  shows "ledger_inv db'"
  using assms(2)
proof (cases rule: repay_installment_Inr)
  case (1 schedule line pp ip cash income db2)
  have "ledger_inv (db\<lparr>t_lines := y\<rparr>)" for y
    using assms(1) by (subst ledger_inv_cong [where db' = db]) simp_all
  then have "ledger_inv db2" by (rule post_transaction_inv) (rule 1(8))
  then show ?thesis unfolding 1(9) close_if_settled_def
    by (auto intro!: ledger_inv_update_loan)
qed

section \<open>The schedule and the ledger in step\<close>

text \<open>The principal still unpaid according to a schedule.\<close>

definition unpaid_principal :: "uid \<Rightarrow> repayment_schedule_line list \<Rightarrow> rat" where
  "unpaid_principal sid lines =
     sum_list (map (\<lambda>l. if sl_schedule_id l = sid then sl_principal_due l - sl_principal_paid l else 0) lines)"

definition lines_ok :: "tenant_db \<Rightarrow> bool" where
  "lines_ok db \<longleftrightarrow> distinct (map sl_key (t_lines db)) \<and>
     (\<forall>l\<in>set (t_lines db). sl_status l = RL_PAID \<longrightarrow>
        sl_principal_paid l = sl_principal_due l \<and> sl_interest_paid l = sl_interest_due l)"

lemma first_pending_Some:
  assumes "first_pending sid lines = Some l"
  shows "l \<in> set lines" "sl_schedule_id l = sid" "sl_status l = RL_PENDING"
    and "l' \<in> set lines \<Longrightarrow> sl_schedule_id l' = sid \<Longrightarrow> sl_status l' = RL_PENDING \<Longrightarrow>
         sl_installment_number l \<le> sl_installment_number l'"
proof -
  obtain rest where S: "sort_key sl_installment_number (pending_lines sid lines) = l # rest"
    using assms by (auto simp: first_pending_def split: list.splits)
  have set: "set (l # rest) = set (pending_lines sid lines)" by (metis S set_sort)
  then have "l \<in> set (pending_lines sid lines)" by auto
  then show "l \<in> set lines" "sl_schedule_id l = sid" "sl_status l = RL_PENDING"
    by (auto simp: pending_lines_def)
  have "sorted (map sl_installment_number (l # rest))" by (metis S sorted_sort_key)
  moreover assume "l' \<in> set lines" "sl_schedule_id l' = sid" "sl_status l' = RL_PENDING"
  then have "l' \<in> set (l # rest)" unfolding set by (simp add: pending_lines_def)
  ultimately show "sl_installment_number l \<le> sl_installment_number l'" by auto
qed

lemma apply_payment_fields:
  assumes "apply_payment amount line = (line', pp, ip)"
  shows "sl_key line' = sl_key line" "sl_principal_due line' = sl_principal_due line"
    "sl_interest_due line' = sl_interest_due line"
    "sl_principal_paid line' = sl_principal_paid line + pp" "sl_interest_paid line' = sl_interest_paid line + ip"
    "amount = pp + ip" "ip = min amount (sl_interest_due line - sl_interest_paid line)"
    "sl_status line = RL_PENDING \<Longrightarrow> sl_status line' = RL_PAID \<longleftrightarrow>
       sl_principal_paid line' = sl_principal_due line \<and> sl_interest_paid line' = sl_interest_due line"
  using assms by (auto simp: apply_payment_def Let_def split: if_splits)

lemma unpaid_tset:
  assumes "distinct (map sl_key lines)" "line \<in> set lines" "sl_schedule_id line = sid"
    and "sl_key line' = sl_key line" "sl_principal_due line' = sl_principal_due line"
    and "sl_principal_paid line' = sl_principal_paid line + pp"
  shows "unpaid_principal sid (tset sl_key line' lines) = unpaid_principal sid lines - pp"
proof -
  have "tget sl_key lines (sl_key line') = Some line"
    using assms(1,2,4) tget_distinct [of sl_key lines line] by simp
  then show ?thesis using assms by (simp add: unpaid_principal_def sum_list_tset)
qed

lemma lines_ok_payment:
  assumes "lines_ok db" "apply_payment amount line = (line', pp, ip)" "sl_status line = RL_PENDING"
  shows "lines_ok (db\<lparr>t_lines := tset sl_key line' (t_lines db)\<rparr>)"
proof -
  note A = apply_payment_fields(2,3,8) [OF assms(2)]
  have "sl_principal_paid l = sl_principal_due l \<and> sl_interest_paid l = sl_interest_due l"
    if "l \<in> set (tset sl_key line' (t_lines db))" "sl_status l = RL_PAID" for l
    using in_tset [OF that(1)] that(2) A assms(1,3) by (auto simp: lines_ok_def)
  then show ?thesis using assms(1) by (simp add: lines_ok_def)
qed

text \<open>A repayment that the ledger accepts splits into two non-negative portions.\<close>

lemma repayment_lines_balanced:
  assumes "side_total DEBIT (repayment_lines c i lid amount pp ip)
             = side_total CREDIT (repayment_lines c i lid amount pp ip)"
    and "amount = pp + ip" "0 < amount"
  shows "0 \<le> pp" "0 \<le> ip"
  using assms by (auto simp: repayment_lines_def side_total_def mk_line_def split: if_splits)

lemma repayment_lines_loan:
  assumes "0 \<le> pp" "0 \<le> ip"
  shows "ledger_sum ''debit'' ''loan'' lid (map (line_entry txid) (repayment_lines c i lid amount pp ip)) = - pp"
    and "j \<noteq> lid \<Longrightarrow> ledger_sum ''debit'' ''loan'' j (map (line_entry txid) (repayment_lines c i lid amount pp ip)) = 0"
  using assms by (auto simp: repayment_lines_def line_sum_simps)

lemma close_if_settled_frame [simp]:
  "t_lines (close_if_settled now lid b db) = t_lines db"
  "t_schedules (close_if_settled now lid b db) = t_schedules db"
  "t_transactions (close_if_settled now lid b db) = t_transactions db"
  "t_entries (close_if_settled now lid b db) = t_entries db"
  "t_internal (close_if_settled now lid b db) = t_internal db"
  "t_savings (close_if_settled now lid b db) = t_savings db"
  by (simp_all add: close_if_settled_def update_loan_def)

lemma tget_close_if_settled:
  "tget ln_id (t_loans (close_if_settled now lid b db)) j =
     (if b \<and> j = lid then map_option (\<lambda>l. l\<lparr>ln_status := LN_CLOSED, ln_closed_at := Some now\<rparr>) (tget ln_id (t_loans db) j)
      else tget ln_id (t_loans db) j)"
  by (auto simp: close_if_settled_def update_loan_def tget_tmod)

lemma unpaid_all_paid:
  assumes "pending_lines sid lines = []"
    and "\<And>l. l \<in> set lines \<Longrightarrow> sl_status l = RL_PAID \<Longrightarrow> sl_principal_paid l = sl_principal_due l"
  shows "unpaid_principal sid lines = 0"
proof -
  have "sl_status l = RL_PAID" if "l \<in> set lines" "sl_schedule_id l = sid" for l
    using assms(1) that by (cases "sl_status l") (auto simp: pending_lines_def filter_empty_conv)
  then show ?thesis unfolding unpaid_principal_def using assms(2) by (intro sum_list_map_0) simp
qed

text \<open>The ledger side of a repayment under a fresh key.\<close>

lemma repay_fresh:
  assumes loan: "tget ln_id (t_loans db) lid = Some loan"
    and key: "key \<notin> keys tx_idempotency_key (t_transactions db)" and pos: "0 < amount"
    and run: "repay_installment txid now loan amount key db = Inr (db', t, line')"
  obtains s line pp ip where "active_schedule lid db = Inr s"
    "first_pending (rs_id s) (t_lines db) = Some line" "apply_payment amount line = (line', pp, ip)"
    "0 \<le> pp" "0 \<le> ip" "t_lines db' = tset sl_key line' (t_lines db)" "t_schedules db' = t_schedules db"
    "tget ln_id (t_loans db') lid = Some (if pending_lines (rs_id s) (t_lines db') = []
       then loan\<lparr>ln_outstanding_principal := ln_outstanding_principal loan - pp,
                 ln_status := LN_CLOSED, ln_closed_at := Some now\<rparr>
       else loan\<lparr>ln_outstanding_principal := ln_outstanding_principal loan - pp\<rparr>)"
    "\<And>j. j \<noteq> lid \<Longrightarrow> tget ln_id (t_loans db') j = tget ln_id (t_loans db) j"
proof -
  have lid: "ln_id loan = lid" using loan by (rule tget_key)
  from run show thesis
  proof (cases rule: repay_installment_Inr)
    case (1 s line pp ip cash income db2)
    let ?db1 = "db\<lparr>t_lines := tset sl_key line' (t_lines db)\<rparr>"
    have key1: "key \<notin> keys tx_idempotency_key (t_transactions ?db1)" using key by simp
    note E = post_transaction_fresh [OF 1(8) key1]
    note P = repayment_lines_balanced [OF E(1) apply_payment_fields(6) [OF 1(5)] pos]
    have ga: "get_account ?db1 ty j = get_account db ty j" for ty j
      by (rule get_account_cong) simp_all
    have gl: "get_account db ''loan'' lid = Inr (ALoan loan)" using loan by simp
    have "get_account db2 ''loan'' lid = Inr (ALoan (loan\<lparr>ln_outstanding_principal := ln_outstanding_principal loan - pp\<rparr>))"
      by (simp add: E(7) ga gl lid repayment_lines_loan(1) [OF P] del: get_account_loan)
    then have l2: "tget ln_id (t_loans db2) lid = Some (loan\<lparr>ln_outstanding_principal := ln_outstanding_principal loan - pp\<rparr>)"
      by simp
    have other: "tget ln_id (t_loans db2) j = tget ln_id (t_loans db) j" if "j \<noteq> lid" for j
      using E(7) [of "''loan''" j] repayment_lines_loan(2) [OF P, of j] that
      by (auto simp: ga lid get_account_def split: option.splits)
    have lines: "t_lines db' = tset sl_key line' (t_lines db)" "t_schedules db' = t_schedules db"
      using E(9,10) by (simp_all add: 1(9))
    show thesis
      by (rule that [OF 1(2)[unfolded lid] 1(3) 1(5) P lines])
         (use l2 other key lid E(10) in \<open>simp_all add: 1(9) tget_close_if_settled\<close>)
  qed
qed

section \<open>Properties\<close>

text \<open>C11: With a fresh idempotency key a repayment is applied to the oldest pending installment,
  interest before principal; the loan's ledger balance falls by exactly the principal the schedule
  records as paid, so that a loan whose outstanding principal equals the unpaid principal of its
  schedule stays that way, and a loan that the repayment closes owes nothing.\<close>

theorem repay_in_step:
  assumes "lines_ok db" and loan: "tget ln_id (t_loans db) lid = Some loan"
    and s: "active_schedule lid db = Inr s"
    and step: "ln_outstanding_principal loan = unpaid_principal (rs_id s) (t_lines db)"
    and key: "key \<notin> keys tx_idempotency_key (t_transactions db)" and pos: "0 < amount"
    and run: "repay_installment txid now loan amount key db = Inr (db', t, line')"
  shows "lines_ok db' \<and> (\<exists>loan' line. tget ln_id (t_loans db') lid = Some loan' \<and>
    first_pending (rs_id s) (t_lines db) = Some line \<and>
    sl_interest_paid line' - sl_interest_paid line = min amount (sl_interest_due line - sl_interest_paid line) \<and>
    ln_outstanding_principal loan' = ln_outstanding_principal loan - (sl_principal_paid line' - sl_principal_paid line) \<and>
    ln_outstanding_principal loan' = unpaid_principal (rs_id s) (t_lines db') \<and>
    (ln_status loan' = LN_CLOSED \<longrightarrow> ln_outstanding_principal loan' = 0))"
proof -
  obtain s' line pp ip where R0: "active_schedule lid db = Inr s'"
    "first_pending (rs_id s') (t_lines db) = Some line"
    "apply_payment amount line = (line', pp, ip)" "t_lines db' = tset sl_key line' (t_lines db)"
    "tget ln_id (t_loans db') lid = Some (if pending_lines (rs_id s') (t_lines db') = []
       then loan\<lparr>ln_outstanding_principal := ln_outstanding_principal loan - pp,
                 ln_status := LN_CLOSED, ln_closed_at := Some now\<rparr>
       else loan\<lparr>ln_outstanding_principal := ln_outstanding_principal loan - pp\<rparr>)"
    by (rule repay_fresh [OF loan key pos run])
  have "s' = s" using R0(1) s by simp
  note R = R0(2-5) [unfolded this]
  have active: "ln_status loan = LN_ACTIVE" using run by (cases rule: repay_installment_Inr)
  note F = first_pending_Some(1-3) [OF R(1)] and A = apply_payment_fields [OF R(2)]
  have "distinct (map sl_key (t_lines db))" using assms(1) by (simp add: lines_ok_def)
  then have unpaid: "unpaid_principal (rs_id s) (t_lines db') = unpaid_principal (rs_id s) (t_lines db) - pp"
    unfolding R(3) using F(1,2) A(1,2,4) by (rule unpaid_tset)
  have ok': "lines_ok db'"
    using lines_ok_payment [OF assms(1) R(2) F(3)] R(3) by (simp add: lines_ok_def)
  then have "pending_lines (rs_id s) (t_lines db') = [] \<Longrightarrow> unpaid_principal (rs_id s) (t_lines db') = 0"
    by (intro unpaid_all_paid) (auto simp: lines_ok_def)
  then show ?thesis using ok' R(1,4) A(4,5,7) unpaid step active by (auto split: if_splits)
qed

text \<open>A loan of 100 in two installments of 50 plus 1 of interest, just disbursed.\<close>

definition demo_line :: "int \<Rightarrow> repayment_schedule_line" where
  "demo_line n = \<lparr>sl_schedule_id = 1, sl_installment_number = n, sl_due_date = Date 2024 n 1,
     sl_principal_due = 50, sl_interest_due = 1, sl_penalty_due = 0, sl_principal_paid = 0,
     sl_interest_paid = 0, sl_status = RL_PENDING\<rparr>"

definition demo_active_db :: tenant_db where
  "demo_active_db = demo_db
     \<lparr>t_loans := [(hd (t_loans demo_db))\<lparr>ln_status := LN_ACTIVE, ln_outstanding_principal := 100\<rparr>],
      t_schedules := [\<lparr>rs_id = 1, rs_loan_id = 1, rs_version = 1, rs_is_active = True\<rparr>],
      t_lines := [demo_line 1, demo_line 2]\<rparr>"

abbreviation demo_loan :: loan where
  "demo_loan \<equiv> hd (t_loans demo_active_db)"

lemma demo_active_facts:
  "lines_ok demo_active_db" "tget ln_id (t_loans demo_active_db) 1 = Some demo_loan"
  "active_schedule 1 demo_active_db = Inr \<lparr>rs_id = 1, rs_loan_id = 1, rs_version = 1, rs_is_active = True\<rparr>"
  "ln_outstanding_principal demo_loan = unpaid_principal 1 (t_lines demo_active_db)"
  "''k1'' \<notin> keys tx_idempotency_key (t_transactions demo_active_db)"
  by (simp_all add: demo_active_db_def demo_db_def demo_line_def lines_ok_def table_simps active_schedule_def
      unpaid_principal_def)

theorem repay_in_step_witness:
  "\<exists>db' t line' loan'. repay_installment 9 0 demo_loan 51 ''k1'' demo_active_db = Inr (db', t, line') \<and>
     tget ln_id (t_loans db') 1 = Some loan' \<and>
     ln_outstanding_principal loan' = unpaid_principal 1 (t_lines db')"
proof -
  have "is_ok (repay_installment 9 0 demo_loan 51 ''k1'' demo_active_db)" by code_simp
  then obtain db' t line' where r: "repay_installment 9 0 demo_loan 51 ''k1'' demo_active_db = Inr (db', t, line')"
    by (auto simp: is_ok_ex)
  show ?thesis using repay_in_step [OF demo_active_facts(1-3) _ demo_active_facts(5) _ r] r
      demo_active_facts(4) by auto
qed

text \<open>Replaying the key of an earlier transaction still credits the schedule: the repayment
  returns the old transaction and posts nothing, the loan's balance is unchanged, yet the oldest
  pending installment is marked with the amount, so the schedule drifts from the ledger by the
  principal portion; and the loan is never closed by such a call.\<close>

theorem repay_replay_drift:
  assumes "lines_ok db" and loan: "tget ln_id (t_loans db) lid = Some loan"
    and key: "key \<in> keys tx_idempotency_key (t_transactions db)"
    and run: "repay_installment txid now loan amount key db = Inr (db', t, line')"
  shows "t \<in> set (t_transactions db) \<and> t_entries db' = t_entries db \<and> t_transactions db' = t_transactions db \<and>
    tget ln_id (t_loans db') lid = Some loan \<and>
    (\<exists>s line. active_schedule lid db = Inr s \<and> first_pending (rs_id s) (t_lines db) = Some line \<and>
       unpaid_principal (rs_id s) (t_lines db')
         = unpaid_principal (rs_id s) (t_lines db) - (amount - min amount (sl_interest_due line - sl_interest_paid line)))"
proof -
  have lid: "ln_id loan = lid" using loan by (rule tget_key)
  from run show ?thesis
  proof (cases rule: repay_installment_Inr)
    case (1 s line pp ip cash income db2)
    have db2: "db2 = db\<lparr>t_lines := tset sl_key line' (t_lines db)\<rparr>" and t: "t \<in> set (t_transactions db)"
      using 1(8) by (cases rule: post_transaction_Inr; use key in simp)+
    note F = first_pending_Some(1-3) [OF 1(3)] and A = apply_payment_fields [OF 1(5)]
    have "line \<in> set (pending_lines (rs_id s) (t_lines db))" using F by (simp add: pending_lines_def)
    then have db': "db' = db2" using 1(9) key by (auto simp: close_if_settled_def)
    have "distinct (map sl_key (t_lines db))" using assms(1) by (simp add: lines_ok_def)
    then have "unpaid_principal (rs_id s) (t_lines db') = unpaid_principal (rs_id s) (t_lines db) - pp"
      using F(1,2) A(1,2,4) by (simp add: db' db2 unpaid_tset)
    moreover have "pp = amount - min amount (sl_interest_due line - sl_interest_paid line)"
      using A(6,7) by simp
    ultimately show ?thesis using 1(2,3) t loan by (auto simp: lid db' db2)
  qed
qed

text \<open>The second installment settled by replaying the key of the first: the schedule has nothing
  pending, the ledger still holds half of the principal, the loan stays active, and every further
  repayment is refused.\<close>

theorem repay_replay_drift_witness:
  "\<exists>db1 t1 l1 db2 t2 l2. repay_installment 9 0 demo_loan 51 ''k1'' demo_active_db = Inr (db1, t1, l1) \<and>
     repay_installment 10 1 (hd (t_loans db1)) 51 ''k1'' db1 = Inr (db2, t2, l2) \<and>
     t_entries db2 = t_entries db1 \<and> unpaid_principal 1 (t_lines db2) = 0 \<and>
     ln_outstanding_principal (hd (t_loans db2)) = 50 \<and> ln_status (hd (t_loans db2)) = LN_ACTIVE \<and>
     repay_installment 11 2 (hd (t_loans db2)) 51 ''k2'' db2 = Inl InvalidLoanState"
proof -
  have ev: "case repay_installment 9 0 demo_loan 51 ''k1'' demo_active_db of Inl _ \<Rightarrow> False | Inr (db1, t1, l1) \<Rightarrow>
      list_all (\<lambda>l. sl_status l \<noteq> RL_PAID \<or> sl_principal_paid l = sl_principal_due l \<and> sl_interest_paid l = sl_interest_due l) (t_lines db1) \<and>
      map sl_key (t_lines db1) = [(1, 1), (1, 2)] \<and> map tx_idempotency_key (t_transactions db1) = [''k1''] \<and>
      map ln_id (t_loans db1) = [1] \<and>
      (case repay_installment 10 1 (hd (t_loans db1)) 51 ''k1'' db1 of Inl _ \<Rightarrow> False | Inr (db2, t2, l2) \<Rightarrow>
         unpaid_principal 1 (t_lines db2) = 0 \<and>
         ln_outstanding_principal (hd (t_loans db2)) = 50 \<and> ln_status (hd (t_loans db2)) = LN_ACTIVE \<and>
         (case repay_installment 11 2 (hd (t_loans db2)) 51 ''k2'' db2 of Inl e \<Rightarrow> e = InvalidLoanState | Inr _ \<Rightarrow> False))"
    by code_simp
  then obtain db1 t1 l1 db2 t2 l2 where r1: "repay_installment 9 0 demo_loan 51 ''k1'' demo_active_db = Inr (db1, t1, l1)"
    and r2: "repay_installment 10 1 (hd (t_loans db1)) 51 ''k1'' db1 = Inr (db2, t2, l2)"
    and d1: "list_all (\<lambda>l. sl_status l \<noteq> RL_PAID \<or> sl_principal_paid l = sl_principal_due l \<and> sl_interest_paid l = sl_interest_due l) (t_lines db1)"
      "map sl_key (t_lines db1) = [(1, 1), (1, 2)]" "map tx_idempotency_key (t_transactions db1) = [''k1'']"
      "map ln_id (t_loans db1) = [1]"
    and d2: "unpaid_principal 1 (t_lines db2) = 0" "ln_outstanding_principal (hd (t_loans db2)) = 50"
      "ln_status (hd (t_loans db2)) = LN_ACTIVE"
      "repay_installment 11 2 (hd (t_loans db2)) 51 ''k2'' db2 = Inl InvalidLoanState"
    by (auto split: sum.splits)
  have "lines_ok db1" using d1(1,2) by (auto simp: lines_ok_def list_all_iff)
  moreover have "tget ln_id (t_loans db1) 1 = Some (hd (t_loans db1))" using d1(4) by (auto simp: table_simps)
  moreover have "''k1'' \<in> keys tx_idempotency_key (t_transactions db1)"
    using d1(3) by (auto simp: keys_def)
  ultimately have "t_entries db2 = t_entries db1" using repay_replay_drift r2 by blast
  then show ?thesis using r1 r2 d2 by blast
qed

section \<open>Disbursement\<close>

definition undisbursed :: "loan \<Rightarrow> bool" where
  "undisbursed l \<longleftrightarrow> ln_status l \<noteq> LN_ACTIVE \<and> ln_status l \<noteq> LN_CLOSED"

text \<open>Schedule lines belong to schedules, schedules to loans, and a loan that was never disbursed has neither a
  schedule nor a balance.\<close>

definition schedules_ok :: "tenant_db \<Rightarrow> bool" where
  "schedules_ok db \<longleftrightarrow> distinct (map rs_id (t_schedules db)) \<and>
     (\<forall>l\<in>set (t_lines db). sl_schedule_id l \<in> keys rs_id (t_schedules db)) \<and>
     keys rs_loan_id (t_schedules db) \<subseteq> keys ln_id (t_loans db) \<and>
     (\<forall>i l. tget ln_id (t_loans db) i = Some l \<and> undisbursed l \<longrightarrow>
        ln_outstanding_principal l = 0 \<and> i \<notin> keys rs_loan_id (t_schedules db))"

lemma unpaid_append [simp]:
  "unpaid_principal sid (xs @ ys) = unpaid_principal sid xs + unpaid_principal sid ys"
  by (simp add: unpaid_principal_def)

lemma unpaid_persist: "unpaid_principal sid (map (persist_line sid) lines) = sum_list (map s_principal_due lines)"
  by (simp add: unpaid_principal_def persist_line_def comp_def)

lemma unpaid_none: "(\<And>l. l \<in> set lines \<Longrightarrow> sl_schedule_id l \<noteq> sid) \<Longrightarrow> unpaid_principal sid lines = 0"
  unfolding unpaid_principal_def by (intro sum_list_map_0) auto

lemma pg_fits_bound: "pg_fits 18 2 x \<Longrightarrow> \<bar>x\<bar> \<le> 2 * 10 ^ 16"
proof -
  assume fits: "pg_fits 18 2 x"
  define r where "r = (of_int (round_half_up (x * 100)) :: rat)"
  have "\<bar>r\<bar> < 10 ^ 18" using fits by (simp add: pg_fits_def pg_round_def r_def)
  moreover have "\<bar>r - x * 100\<bar> \<le> 1 / 2" unfolding r_def by (rule round_half_up_error)
  ultimately have "\<bar>x\<bar> * 100 \<le> 10 ^ 18 + 1 / 2" by linarith
  then show ?thesis by simp
qed

lemma db_fits_line: "db_fits db \<Longrightarrow> l \<in> set (t_lines db) \<Longrightarrow> \<bar>sl_principal_due l\<bar> \<le> 2 * 10 ^ 16"
  by (rule pg_fits_bound) (auto simp: db_fits_def money_columns_def list_all_iff)

lemma db_fits_loan:
  "db_fits db \<Longrightarrow> tget ln_id (t_loans db) i = Some l \<Longrightarrow> is_cents (ln_principal l) \<Longrightarrow> \<bar>ln_principal l\<bar> < 10 ^ 16"
  by (subst pg_fits_cents [symmetric])
     (auto simp: db_fits_def money_columns_def list_all_iff dest: tget_in)

text \<open>C31: Disbursing an approved loan under a fresh key makes it active with its principal as the
  ledger balance, takes the principal out of cash, and leaves it with exactly one active schedule,
  whose unpaid principal is that same balance.\<close>

theorem disburse_in_step:
  assumes inv: "ledger_inv db" and sok: "schedules_ok db" and loan: "tget ln_id (t_loans db) lid = Some loan"
    and cents: "is_cents (ln_principal loan)" and n: "1 \<le> ln_term_months loan" "ln_term_months loan < 2 ^ 31"
    and key: "key \<notin> keys tx_idempotency_key (t_transactions db)"
    and run: "disburse_loan sid txid now today loan product key ddate db = Inr db'"
  shows "\<exists>loan' s. tget ln_id (t_loans db') lid = Some loan' \<and> ln_status loan' = LN_ACTIVE \<and>
    ln_outstanding_principal loan' = ln_principal loan \<and> active_schedule lid db' = Inr s \<and>
    unpaid_principal (rs_id s) (t_lines db') = ln_outstanding_principal loan' \<and>
    (\<forall>cash. get_cash_account db = Inr cash \<longrightarrow>
       tget ia_id (t_internal db') (ia_id cash) = Some (cash\<lparr>ia_balance_cached :=
          ia_balance_cached cash + signed CREDIT (ia_normal_balance_side cash) (ln_principal loan)\<rparr>))"
  using run
proof (cases rule: disburse_loan_Inr)
  case (1 p lines cash db2 t)
  have lid: "ln_id loan = lid" using loan by (rule tget_key)
  let ?db1 = "db\<lparr>t_schedules := t_schedules db @
             [\<lparr>rs_id = sid, rs_loan_id = ln_id loan, rs_version = 1, rs_is_active = True\<rparr>],
           t_lines := t_lines db @ map (persist_line sid) lines\<rparr>"
  have key1: "key \<notin> keys tx_idempotency_key (t_transactions ?db1)" using key by simp
  note E = post_transaction_fresh [OF 1(6) key1]
  have ga: "get_account (db\<lparr>t_schedules := x, t_lines := y\<rparr>) ty j = get_account db ty j" for x y ty j
    by (rule get_account_cong) simp_all
  have und: "undisbursed loan" using 1(1) by (simp add: undisbursed_def)
  have zero: "ln_outstanding_principal loan = 0" and nosched: "s \<in> set (t_schedules db) \<Longrightarrow> rs_loan_id s \<noteq> lid" for s
    using sok loan und unfolding schedules_ok_def keys_def by blast+
  have gl: "get_account db ''loan'' lid = Inr (ALoan loan)"
    "get_account db ''internal_account'' (ia_id cash) = Inr (AInternal cash)"
    using loan get_cash_account_tget [OF inv 1(5)] by simp_all
  have "get_account db2 ''loan'' lid = Inr (ALoan (loan\<lparr>ln_outstanding_principal := ln_principal loan\<rparr>))"
    by (simp add: E(7) ga gl(1) lid zero line_sum_simps del: get_account_loan)
  then have l': "tget ln_id (t_loans db') lid = Some (loan\<lparr>ln_outstanding_principal := ln_principal loan,
       ln_status := LN_ACTIVE, ln_disbursed_at := Some now\<rparr>)"
    by (simp add: 1(7) update_loan_def tget_tmod lid)
  have "get_account db2 ''internal_account'' (ia_id cash) = Inr (AInternal (cash\<lparr>ia_balance_cached :=
          ia_balance_cached cash + signed CREDIT (ia_normal_balance_side cash) (ln_principal loan)\<rparr>))"
    by (simp add: E(7) ga gl(2) lid line_sum_simps del: get_account_internal)
  then have c': "tget ia_id (t_internal db') (ia_id cash) = Some (cash\<lparr>ia_balance_cached :=
          ia_balance_cached cash + signed CREDIT (ia_normal_balance_side cash) (ln_principal loan)\<rparr>)"
    by (simp add: 1(7) update_loan_def)
  have sch: "t_schedules db' = t_schedules ?db1" "t_lines db' = t_lines ?db1"
    using E(9,10) by (simp_all add: 1(7) update_loan_def)
  have act: "active_schedule lid db' = Inr \<lparr>rs_id = sid, rs_loan_id = lid, rs_version = 1, rs_is_active = True\<rparr>"
    using nosched by (auto simp: active_schedule_def sch lid filter_empty_conv)
  have "\<bar>s_principal_due l\<bar> \<le> 2 * 10 ^ 16" if "l \<in> set lines" for l
    using db_fits_line [OF 1(8), of "persist_line sid l"] that by (simp add: sch persist_line_def)
  then have "sum_list (map s_principal_due lines) = ln_principal loan"
    using db_fits_loan [OF 1(8) l'] cents n by (intro schedule_sum [OF 1(3)]) simp_all
  moreover have "unpaid_principal sid (t_lines db) = 0"
    using sok 1(4) by (intro unpaid_none) (auto simp: schedules_ok_def)
  ultimately have "unpaid_principal sid (t_lines db') = ln_principal loan"
    by (simp add: sch unpaid_persist)
  then show ?thesis using l' act c' 1(5) by auto
qed

text \<open>An approved loan of 100 repaid in one month.\<close>

definition demo_one_loan :: loan where
  "demo_one_loan = (hd (t_loans demo_db))\<lparr>ln_term_months := 1\<rparr>"

definition demo_one_db :: tenant_db where
  "demo_one_db = demo_db\<lparr>t_loans := [demo_one_loan]\<rparr>"

lemma demo_one_facts:
  "ledger_inv demo_one_db" "schedules_ok demo_one_db"
  "tget ln_id (t_loans demo_one_db) 1 = Some demo_one_loan" "is_cents (ln_principal demo_one_loan)"
  "ln_term_months demo_one_loan = 1" "''k1'' \<notin> keys tx_idempotency_key (t_transactions demo_one_db)"
proof -
  have eq: "demo_one_db = update_loan 1 (\<lambda>l. l\<lparr>ln_term_months := 1\<rparr>) demo_db"
    by (simp add: demo_one_db_def demo_one_loan_def demo_db_def update_loan_def tmod_def)
  show "ledger_inv demo_one_db"
    unfolding eq by (rule ledger_inv_update_loan [OF _ _ demo_db_inv]) simp_all
qed (auto simp: demo_one_db_def demo_one_loan_def demo_db_def schedules_ok_def table_simps is_cents_iff
      undisbursed_def intro: exI [of _ 10000])

theorem disburse_in_step_witness:
  "\<exists>db' loan'. disburse_loan 5 9 0 (Date 2024 1 31) demo_one_loan (Some (hd (t_loan_products demo_db)))
       ''k1'' None demo_one_db = Inr db' \<and>
     tget ln_id (t_loans db') 1 = Some loan' \<and> ln_outstanding_principal loan' = ln_principal demo_one_loan"
proof -
  have "is_ok (disburse_loan 5 9 0 (Date 2024 1 31) demo_one_loan (Some (hd (t_loan_products demo_db)))
       ''k1'' None demo_one_db)" by code_simp
  then obtain db' where r: "disburse_loan 5 9 0 (Date 2024 1 31) demo_one_loan (Some (hd (t_loan_products demo_db)))
       ''k1'' None demo_one_db = Inr db'" by (auto simp: is_ok_ex)
  show ?thesis using disburse_in_step [OF demo_one_facts(1-4) _ _ demo_one_facts(6) r] r demo_one_facts(5) by auto
qed

text \<open>Disbursing under a key that another transaction already used still activates the loan and
  installs its schedule, but moves no money: the ledger holds no entry for the disbursement.\<close>

theorem disburse_reused_key:
  assumes loan: "tget ln_id (t_loans db) lid = Some loan"
    and key: "key \<in> keys tx_idempotency_key (t_transactions db)"
    and run: "disburse_loan sid txid now today loan product key ddate db = Inr db'"
  shows "t_entries db' = t_entries db \<and> t_internal db' = t_internal db \<and>
    (\<exists>loan'. tget ln_id (t_loans db') lid = Some loan' \<and> ln_status loan' = LN_ACTIVE \<and>
       ln_outstanding_principal loan' = ln_outstanding_principal loan) \<and>
    length (t_schedules db') = Suc (length (t_schedules db))"
  using run
proof (cases rule: disburse_loan_Inr)
  case (1 p lines cash db2 t)
  from 1(6) show ?thesis
  proof (cases rule: post_transaction_Inr)
    case replay
    then show ?thesis using 1(7) loan tget_key [OF loan] by (simp add: update_loan_def tget_tmod)
  next
    case (posted db1)
    then show ?thesis using key by simp
  qed
qed

definition demo_used_db :: tenant_db where
  "demo_used_db = demo_one_db\<lparr>t_transactions := [\<lparr>tx_id = 3, tx_type = ''deposit'', tx_amount = 0,
     tx_description = None, tx_idempotency_key = ''k0'', tx_created_at = 0\<rparr>]\<rparr>"

theorem disburse_reused_key_witness:
  "\<exists>db'. disburse_loan 5 9 0 (Date 2024 1 31) demo_one_loan (Some (hd (t_loan_products demo_db)))
       ''k0'' None demo_used_db = Inr db' \<and> t_entries db' = [] \<and>
     (\<exists>loan'. tget ln_id (t_loans db') 1 = Some loan' \<and> ln_status loan' = LN_ACTIVE \<and>
        ln_outstanding_principal loan' = 0)"
proof -
  have "is_ok (disburse_loan 5 9 0 (Date 2024 1 31) demo_one_loan (Some (hd (t_loan_products demo_db)))
       ''k0'' None demo_used_db)" by code_simp
  then obtain db' where r: "disburse_loan 5 9 0 (Date 2024 1 31) demo_one_loan (Some (hd (t_loan_products demo_db)))
       ''k0'' None demo_used_db = Inr db'" by (auto simp: is_ok_ex)
  have "tget ln_id (t_loans demo_used_db) 1 = Some demo_one_loan"
    "''k0'' \<in> keys tx_idempotency_key (t_transactions demo_used_db)"
    "t_entries demo_used_db = []" "ln_outstanding_principal demo_one_loan = 0"
    by (simp_all add: demo_used_db_def demo_one_db_def demo_one_loan_def demo_db_def table_simps)
  then show ?thesis using disburse_reused_key [OF _ _ r] r by auto
qed

end
