(* ===== verification/Rbac_Spec.thy ===== *)
theory Rbac_Spec
  imports Prelude
begin

text \<open>
  The contract both deployables' permission checks fulfil: a finite table from action names to
  roles, a look-up that raises on an unknown action, and a guard that turns a denied permission
  into an HTTP 403.  The lemmas are proved once here and used by both interpretations.
\<close>

locale rbac_matrix =
  fixes table :: "(string \<times> 'role list) list"
    and has_permission :: "'role \<Rightarrow> string \<Rightarrow> 'exn + bool"
    and require_permission :: "'role \<Rightarrow> string \<Rightarrow> 'err + unit"
    and unknown :: 'exn and forbidden :: 'err and uncaught :: "'exn \<Rightarrow> 'err"
  assumes has_permission_known: "map_of table a = Some rs \<Longrightarrow> has_permission r a = Inr (r \<in> set rs)"
    and has_permission_unknown: "map_of table a = None \<Longrightarrow> has_permission r a = Inl unknown"
    and require_ok: "has_permission r a = Inr True \<Longrightarrow> require_permission r a = Inr ()"
    and require_denied: "has_permission r a = Inr False \<Longrightarrow> require_permission r a = Inl forbidden"
    and require_unknown: "has_permission r a = Inl e \<Longrightarrow> require_permission r a = Inl (uncaught e)"
begin

lemma require_iff:
  "require_permission r a = Inr u \<longleftrightarrow> (\<exists>rs. map_of table a = Some rs \<and> r \<in> set rs)"
proof (cases "map_of table a")
  case None
  then show ?thesis using require_unknown [OF has_permission_unknown [OF None]] by simp
next
  case (Some rs)
  then show ?thesis
    using has_permission_known [OF Some, of r] require_ok [of r a] require_denied [of r a]
    by (cases "r \<in> set rs") auto
qed

lemma require_total:
  "a \<in> fst ` set table \<Longrightarrow> require_permission r a \<in> {Inr (), Inl forbidden}"
proof -
  assume "a \<in> fst ` set table"
  then obtain rs where "map_of table a = Some rs" by (metis map_of_eq_None_iff not_None_eq)
  then show ?thesis
    using has_permission_known [of a rs r] require_ok [of r a] require_denied [of r a]
    by (cases "r \<in> set rs") auto
qed

end

end
