(* ===== verification/MF_Rbac.thy ===== *)
theory MF_Rbac
  imports MF_Model Rbac_Spec
begin

text \<open>
  Staff permissions, \<open>src/microfinance/mf_app/services/rbac.py\<close>.  HTTP endpoints end in
  a response or in an error; \<open>MF_Uncaught\<close> is an exception no handler turned into a
  status (a 500 response).
\<close>

datatype mf_http = MF_HTTP nat | MF_Uncaught mf_exn

definition all_staff_roles :: "staff_role list" where
  "all_staff_roles = [INSTITUTION_ADMIN, BRANCH_MANAGER, LOAN_OFFICER, TELLER]"

definition staff_permissions :: "(string \<times> staff_role list) list" where
  "staff_permissions =
     [(''branches:manage'', [INSTITUTION_ADMIN]),
      (''branches:read'', all_staff_roles),
      (''staff:manage'', [INSTITUTION_ADMIN]),
      (''staff:read'', [INSTITUTION_ADMIN, BRANCH_MANAGER]),
      (''customers:manage'', [INSTITUTION_ADMIN, BRANCH_MANAGER, LOAN_OFFICER]),
      (''customers:read'', all_staff_roles),
      (''savings_products:manage'', [INSTITUTION_ADMIN]),
      (''savings_products:read'', all_staff_roles),
      (''savings:transact'', [INSTITUTION_ADMIN, BRANCH_MANAGER, TELLER]),
      (''savings:read'', all_staff_roles),
      (''loan_products:manage'', [INSTITUTION_ADMIN]),
      (''loan_products:read'', all_staff_roles),
      (''loans:manage'', [INSTITUTION_ADMIN, BRANCH_MANAGER, LOAN_OFFICER]),
      (''loans:approve'', [INSTITUTION_ADMIN, BRANCH_MANAGER]),
      (''loans:disburse'', [INSTITUTION_ADMIN, BRANCH_MANAGER, TELLER]),
      (''loans:repay'', [INSTITUTION_ADMIN, BRANCH_MANAGER, TELLER]),
      (''loans:read'', all_staff_roles),
      (''reports:read'', [INSTITUTION_ADMIN, BRANCH_MANAGER])]"

definition has_staff_permission :: "staff_role \<Rightarrow> string \<Rightarrow> mf_exn + bool" where
  "has_staff_permission role action =
     (case map_of staff_permissions action of
        None \<Rightarrow> Inl MF_ValueError
      | Some allowed \<Rightarrow> Inr (List.member allowed role))"

definition require_staff_permission :: "staff_role \<Rightarrow> string \<Rightarrow> mf_http + unit" where
  "require_staff_permission role action =
     (case has_staff_permission role action of
        Inl e \<Rightarrow> Inl (MF_Uncaught e)
      | Inr ok \<Rightarrow> if \<not> ok then Inl (MF_HTTP 403) else Inr ())"

interpretation staff_rbac: rbac_matrix staff_permissions has_staff_permission require_staff_permission
  MF_ValueError "MF_HTTP 403" MF_Uncaught
  by unfold_locales (auto simp: has_staff_permission_def require_staff_permission_def)

lemma staff_allowed_iff:
  "require_staff_permission r a = Inr u \<longleftrightarrow> (\<exists>rs. map_of staff_permissions a = Some rs \<and> r \<in> set rs)"
  by (rule staff_rbac.require_iff)

lemma staff_permission_rows:
  shows "map_of staff_permissions ''loans:manage'' = Some [INSTITUTION_ADMIN, BRANCH_MANAGER, LOAN_OFFICER]"
    and "map_of staff_permissions ''loans:approve'' = Some [INSTITUTION_ADMIN, BRANCH_MANAGER]"
    and "map_of staff_permissions ''loans:disburse'' = Some [INSTITUTION_ADMIN, BRANCH_MANAGER, TELLER]"
    and "map_of staff_permissions ''loans:repay'' = Some [INSTITUTION_ADMIN, BRANCH_MANAGER, TELLER]"
    and "map_of staff_permissions ''savings:transact'' = Some [INSTITUTION_ADMIN, BRANCH_MANAGER, TELLER]"
    and "map_of staff_permissions ''customers:manage'' = Some [INSTITUTION_ADMIN, BRANCH_MANAGER, LOAN_OFFICER]"
    and "map_of staff_permissions ''branches:manage'' = Some [INSTITUTION_ADMIN]"
    and "map_of staff_permissions ''staff:manage'' = Some [INSTITUTION_ADMIN]"
    and "map_of staff_permissions ''savings_products:manage'' = Some [INSTITUTION_ADMIN]"
    and "map_of staff_permissions ''loan_products:manage'' = Some [INSTITUTION_ADMIN]"
  by code_simp+

lemma staff_denied_iff:
  "map_of staff_permissions a = Some rs \<Longrightarrow> require_staff_permission r a = Inl (MF_HTTP 403) \<longleftrightarrow> r \<notin> set rs"
  using staff_allowed_iff [of r a "()"] staff_rbac.require_total [of a r]
  by (metis Inl_Inr_False insert_iff map_of_eq_None_iff option.distinct(1) option.inject singletonD)

text \<open>Duties are segregated: a loan officer prepares loan files but neither approves nor
  disburses nor collects them; a teller handles cash but neither prepares nor approves credit;
  only an institution administrator manages staff, branches and products; and no action of the
  table is ever an unknown one.\<close>

theorem staff_segregation:
  "require_staff_permission LOAN_OFFICER ''loans:manage'' = Inr () \<and>
   (\<forall>a\<in>{''loans:approve'', ''loans:disburse'', ''loans:repay'', ''savings:transact''}.
      require_staff_permission LOAN_OFFICER a = Inl (MF_HTTP 403)) \<and>
   (\<forall>a\<in>{''loans:manage'', ''loans:approve'', ''customers:manage''}.
      require_staff_permission TELLER a = Inl (MF_HTTP 403)) \<and>
   (\<forall>a\<in>{''branches:manage'', ''staff:manage'', ''savings_products:manage'', ''loan_products:manage''}. \<forall>r.
      require_staff_permission r a = Inr () \<longleftrightarrow> r = INSTITUTION_ADMIN) \<and>
   (\<forall>a\<in>fst ` set staff_permissions. \<forall>r. require_staff_permission r a \<in> {Inr (), Inl (MF_HTTP 403)})"
proof (intro conjI)
  show "\<forall>a\<in>fst ` set staff_permissions. \<forall>r. require_staff_permission r a \<in> {Inr (), Inl (MF_HTTP 403)}"
    using staff_rbac.require_total by blast
qed (simp_all only: ball_simps staff_allowed_iff staff_denied_iff [OF staff_permission_rows(1)]
       staff_denied_iff [OF staff_permission_rows(2)] staff_denied_iff [OF staff_permission_rows(3)]
       staff_denied_iff [OF staff_permission_rows(4)] staff_denied_iff [OF staff_permission_rows(5)]
       staff_denied_iff [OF staff_permission_rows(6)] staff_permission_rows option.inject, simp_all)

theorem staff_segregation_witness:
  "require_staff_permission LOAN_OFFICER ''loans:approve'' = Inl (MF_HTTP 403)"
  by (rule bspec [OF conjunct1 [OF conjunct2 [OF staff_segregation]]]) simp

end
