(* ===== verification/MF_Reports.thy ===== *)
theory MF_Reports
  imports MF_Ledger
begin

text \<open>
  Accounting reports, \<open>src/microfinance/mf_app/services/reports.py\<close>: the trial balance
  and the loan portfolio, as read-only functions of the tenant database.
\<close>

record tb_line =
  tl_account_type :: string
  tl_account_id :: "uid option"
  tl_label :: string
  tl_normal_side :: string
  tl_balance :: rat

record trial_balance =
  tb_lines :: "tb_line list"
  tb_total_debit_side :: rat
  tb_total_credit_side :: rat
  tb_balanced :: bool

definition internal_line :: "internal_account \<Rightarrow> tb_line" where
  "internal_line a = \<lparr>tl_account_type = ''internal_account'', tl_account_id = Some (ia_id a),
     tl_label = ia_name a, tl_normal_side = ia_normal_balance_side a, tl_balance = ia_balance_cached a\<rparr>"

fun internal_totals :: "internal_account list \<Rightarrow> rat \<Rightarrow> rat \<Rightarrow> rat \<times> rat" where
  "internal_totals [] debit_total credit_total = (debit_total, credit_total)"
| "internal_totals (a # as) debit_total credit_total =
     (if ia_normal_balance_side a = ''debit''
      then internal_totals as (debit_total + ia_balance_cached a) credit_total
      else internal_totals as debit_total (credit_total + ia_balance_cached a))"

definition get_trial_balance :: "tenant_db \<Rightarrow> trial_balance" where
  "get_trial_balance db =
     (let savings_total = sum_list (map sa_balance_cached (t_savings db));
          loans_total = sum_list (map ln_outstanding_principal (t_loans db));
          (d, c) = internal_totals (t_internal db) 0 0;
          debit_total = d + loans_total; credit_total = c + savings_total
      in \<lparr>tb_lines = map internal_line (t_internal db) @
            [\<lparr>tl_account_type = ''savings_accounts_total'', tl_account_id = None,
              tl_label = ''Customer savings (liability)'', tl_normal_side = ''credit'', tl_balance = savings_total\<rparr>,
             \<lparr>tl_account_type = ''loans_total'', tl_account_id = None,
              tl_label = ''Loans outstanding (asset)'', tl_normal_side = ''debit'', tl_balance = loans_total\<rparr>],
          tb_total_debit_side = debit_total, tb_total_credit_side = credit_total,
          tb_balanced = (debit_total = credit_total)\<rparr>)"

record portfolio =
  pf_active_loan_count :: nat
  pf_total_principal_disbursed :: rat
  pf_total_outstanding_principal :: rat

definition get_loan_portfolio :: "tenant_db \<Rightarrow> portfolio" where
  "get_loan_portfolio db =
     (let loans = filter (\<lambda>l. ln_status l = LN_ACTIVE \<or> ln_status l = LN_CLOSED) (t_loans db);
          active_loans = filter (\<lambda>l. ln_status l = LN_ACTIVE) loans
      in \<lparr>pf_active_loan_count = length active_loans,
          pf_total_principal_disbursed = sum_list (map ln_principal loans),
          pf_total_outstanding_principal = sum_list (map ln_outstanding_principal active_loans)\<rparr>)"

lemma internal_totals_diff:
  "fst (internal_totals as d c) - snd (internal_totals as d c) = d - c + sum_list (map tb_internal as)"
  by (induction as d c rule: internal_totals.induct) (auto simp: tb_internal_def)

lemma trial_balance_diff:
  "tb_total_debit_side (get_trial_balance db) - tb_total_credit_side (get_trial_balance db) = tb_diff db"
  using internal_totals_diff [of "t_internal db" 0 0]
  by (auto simp: get_trial_balance_def tb_diff_def Let_def split: prod.splits)

lemma trial_balance_balanced: "tb_balanced (get_trial_balance db) \<longleftrightarrow> tb_diff db = 0"
proof -
  have "tb_balanced (get_trial_balance db) \<longleftrightarrow>
      tb_total_debit_side (get_trial_balance db) = tb_total_credit_side (get_trial_balance db)"
    by (simp add: get_trial_balance_def Let_def split: prod.splits)
  then show ?thesis using trial_balance_diff [of db] by auto
qed

text \<open>The reported totals are the sums of the reported lines by their normal side, so the
  report is a trial balance of what it lists; it is balanced exactly when debit-side and
  credit-side balances agree over all accounts, whatever the sides are called.\<close>

theorem trial_balance_report:
  "tb_total_debit_side (get_trial_balance db) =
     sum_list (map tl_balance (filter (\<lambda>l. tl_normal_side l = ''debit'') (tb_lines (get_trial_balance db)))) \<and>
   tb_total_credit_side (get_trial_balance db) =
     sum_list (map tl_balance (filter (\<lambda>l. tl_normal_side l \<noteq> ''debit'') (tb_lines (get_trial_balance db)))) \<and>
   (tb_balanced (get_trial_balance db) \<longleftrightarrow> tb_diff db = 0)"
proof -
  have I: "internal_totals as d c =
      (d + sum_list (map tl_balance (filter (\<lambda>l. tl_normal_side l = ''debit'') (map internal_line as))),
       c + sum_list (map tl_balance (filter (\<lambda>l. tl_normal_side l \<noteq> ''debit'') (map internal_line as))))" for as d c
    by (induction as d c rule: internal_totals.induct) (auto simp: internal_line_def)
  then show ?thesis using trial_balance_balanced [of db] by (simp add: get_trial_balance_def Let_def)
qed

end
