(* ===== verification/MF_Api.thy ===== *)
theory MF_Api
  imports MF_Loans MF_Rbac MF_Reports
begin

text \<open>
  The tenant-scoped HTTP endpoints of the microfinance service
  (\<open>src/microfinance/mf_app/api/v1/endpoints\<close> for branches, customers, savings, loans and
  reports, with the request schemas of \<open>src/microfinance/mf_app/schemas\<close>).

  An endpoint gets the role of the authenticated staff member, the parsed request, what the
  environment supplies (fresh ids, the clock, the random account number) and the committed
  tenant database.  A left result is the HTTP error and leaves the database as it was, because
  the request's session is closed without a commit.  \<open>tenant_step\<close> is one successful
  request; \<open>reach tenant_init tenant_step\<close> are the states an onboarded institution can
  get into by any sequence of requests.
\<close>

section \<open>Requests\<close>

record request_env =
  env_id :: uid
  env_txid :: uid
  env_number :: string
  env_now :: instant
  env_today :: date
  env_staff_id :: uid

datatype tenant_request =
    CreateBranch string string
  | CreateCustomer uid string "string option" json
  | UpdateKyc uid kyc_status
  | CreateSavingsProduct string string rat rat
  | OpenAccount uid uid rat "string option"
  | Deposit uid rat string "string option"
  | Withdraw uid rat string "string option"
  | CreateLoanProduct string string amortization_method rat rat rat int int
  | CreateLoan uid uid rat int
  | SubmitLoan uid
  | ApproveLoan uid
  | RejectLoan uid string
  | DisburseLoan uid string
  | RepayLoan uid rat string

definition len_between :: "nat \<Rightarrow> nat \<Rightarrow> string \<Rightarrow> bool" where
  "len_between lo hi s \<longleftrightarrow> lo \<le> length s \<and> length s \<le> hi"

definition opt_max :: "nat \<Rightarrow> string option \<Rightarrow> bool" where
  "opt_max hi s = (case s of None \<Rightarrow> True | Some x \<Rightarrow> length x \<le> hi)"

definition branch_create_ok :: "string \<Rightarrow> string \<Rightarrow> bool" where
  "branch_create_ok name code \<longleftrightarrow> len_between 2 200 name \<and> len_between 1 20 code"

definition customer_create_ok :: "string \<Rightarrow> string option \<Rightarrow> bool" where
  "customer_create_ok name phone \<longleftrightarrow> len_between 2 200 name \<and> opt_max 30 phone"

definition savings_product_create_ok :: "string \<Rightarrow> string \<Rightarrow> rat \<Rightarrow> rat \<Rightarrow> bool" where
  "savings_product_create_ok name code rate min_open \<longleftrightarrow>
     len_between 2 200 name \<and> len_between 1 30 code \<and> 0 \<le> rate \<and> rate \<le> 1 \<and> 0 \<le> min_open"

definition savings_account_open_ok :: "rat \<Rightarrow> string option \<Rightarrow> bool" where
  "savings_account_open_ok dep key \<longleftrightarrow> 0 \<le> dep \<and> opt_max 255 key"

definition savings_transaction_ok :: "rat \<Rightarrow> string \<Rightarrow> string option \<Rightarrow> bool" where
  "savings_transaction_ok amt key desc \<longleftrightarrow> 0 < amt \<and> len_between 1 255 key \<and> opt_max 500 desc"

definition loan_product_create_ok ::
    "string \<Rightarrow> string \<Rightarrow> rat \<Rightarrow> rat \<Rightarrow> rat \<Rightarrow> int \<Rightarrow> int \<Rightarrow> bool" where
  "loan_product_create_ok name code rate minp maxp mint maxt \<longleftrightarrow>
     len_between 2 200 name \<and> len_between 1 30 code \<and> 0 \<le> rate \<and> rate \<le> 1 \<and> 0 < minp \<and> 0 < maxp \<and>
     1 \<le> mint \<and> 1 \<le> maxt"

definition loan_create_ok :: "rat \<Rightarrow> int \<Rightarrow> bool" where
  "loan_create_ok pr n \<longleftrightarrow> 0 < pr \<and> 1 \<le> n"

definition loan_repay_ok :: "rat \<Rightarrow> string \<Rightarrow> bool" where
  "loan_repay_ok amt key \<longleftrightarrow> 0 < amt \<and> len_between 1 255 key"

lemmas schema_defs [simp] = branch_create_ok_def customer_create_ok_def savings_product_create_ok_def
  savings_account_open_ok_def savings_transaction_ok_def loan_product_create_ok_def loan_create_ok_def
  loan_repay_ok_def

fun valid_request :: "tenant_request \<Rightarrow> bool" where
  "valid_request (CreateBranch name code) = branch_create_ok name code"
| "valid_request (CreateCustomer b name phone docs) = customer_create_ok name phone"
| "valid_request (UpdateKyc c st) = True"
| "valid_request (CreateSavingsProduct name code rate min_open) =
     savings_product_create_ok name code rate min_open"
| "valid_request (OpenAccount c p dep key) = savings_account_open_ok dep key"
| "valid_request (Deposit a amt key desc) = savings_transaction_ok amt key desc"
| "valid_request (Withdraw a amt key desc) = savings_transaction_ok amt key desc"
| "valid_request (CreateLoanProduct name code m rate minp maxp mint maxt) =
     loan_product_create_ok name code rate minp maxp mint maxt"
| "valid_request (CreateLoan c p pr n) = loan_create_ok pr n"
| "valid_request (SubmitLoan l) = True"
| "valid_request (ApproveLoan l) = True"
| "valid_request (RejectLoan l why) = len_between 1 500 why"
| "valid_request (DisburseLoan l key) = len_between 1 255 key"
| "valid_request (RepayLoan l amt key) = loan_repay_ok amt key"

section \<open>Helpers\<close>

definition uncaught :: "mf_exn + 'a \<Rightarrow> mf_http + 'a" where
  "uncaught r = map_err MF_Uncaught r"

definition catching :: "mf_exn list \<Rightarrow> mf_exn + 'a \<Rightarrow> mf_http + 'a" where
  "catching errs r = map_err (\<lambda>e. if List.member errs e then MF_HTTP 409 else MF_Uncaught e) r"

definition found :: "'a option \<Rightarrow> mf_http + 'a" where
  "found x = (case x of None \<Rightarrow> Inl (MF_HTTP 404) | Some a \<Rightarrow> Inr a)"

definition commit_http :: "tenant_db \<Rightarrow> mf_http + tenant_db" where
  "commit_http db = uncaught (tenant_commit db)"

definition unique_code :: "('r \<Rightarrow> string) \<Rightarrow> string \<Rightarrow> 'r list \<Rightarrow> mf_http + unit" where
  "unique_code code c tbl =
     (case scalar_of (filter (\<lambda>p. code p = c) tbl) of
        NoRow \<Rightarrow> Inr ()
      | OneRow _ \<Rightarrow> Inl (MF_HTTP 409)
      | ManyRows \<Rightarrow> Inl (MF_Uncaught MF_MultipleResultsFound))"

definition fresh_id :: "('r \<Rightarrow> uid) \<Rightarrow> uid \<Rightarrow> 'r list \<Rightarrow> mf_http + unit" where
  "fresh_id key i tbl = (if i \<in> keys key tbl then Inl (MF_Uncaught MF_IntegrityError) else Inr ())"

section \<open>Branches and customers\<close>

definition create_branch :: "request_env \<Rightarrow> staff_role \<Rightarrow> string \<Rightarrow> string \<Rightarrow> tenant_db \<Rightarrow> mf_http + tenant_db" where
  "create_branch env role name code db =
     rbind (require_staff_permission role ''branches:manage'') (\<lambda>_.
     if env_id env \<in> keys br_id (t_branches db) \<or> code \<in> keys br_code (t_branches db)
     then Inl (MF_Uncaught MF_IntegrityError)
     else commit_http (db\<lparr>t_branches := t_branches db @
            [\<lparr>br_id = env_id env, br_name = name, br_code = code\<rparr>]\<rparr>))"

definition create_customer ::
    "request_env \<Rightarrow> staff_role \<Rightarrow> uid \<Rightarrow> string \<Rightarrow> string option \<Rightarrow> json \<Rightarrow> tenant_db \<Rightarrow> mf_http + tenant_db" where
  "create_customer env role branch_id full_name phone docs db =
     rbind (require_staff_permission role ''customers:manage'') (\<lambda>_.
     rbind (found (tget br_id (t_branches db) branch_id)) (\<lambda>_.
     rbind (fresh_id cu_id (env_id env) (t_customers db)) (\<lambda>_.
     commit_http (db\<lparr>t_customers := t_customers db @
       [\<lparr>cu_id = env_id env, cu_branch_id = branch_id, cu_full_name = full_name, cu_phone = phone,
         cu_kyc_status = KYC_PENDING, cu_identity_documents = docs\<rparr>]\<rparr>))))"

definition update_kyc_status ::
    "staff_role \<Rightarrow> uid \<Rightarrow> kyc_status \<Rightarrow> tenant_db \<Rightarrow> mf_http + tenant_db" where
  "update_kyc_status role customer_id kyc db =
     rbind (require_staff_permission role ''customers:manage'') (\<lambda>_.
     rbind (found (tget cu_id (t_customers db) customer_id)) (\<lambda>_.
     commit_http (db\<lparr>t_customers := tmod cu_id customer_id (\<lambda>c. c\<lparr>cu_kyc_status := kyc\<rparr>) (t_customers db)\<rparr>)))"

definition list_branches :: "staff_role \<Rightarrow> tenant_db \<Rightarrow> mf_http + branch list" where
  "list_branches role db = rbind (require_staff_permission role ''branches:read'') (\<lambda>_. Inr (t_branches db))"

definition list_customers :: "staff_role \<Rightarrow> tenant_db \<Rightarrow> mf_http + customer list" where
  "list_customers role db = rbind (require_staff_permission role ''customers:read'') (\<lambda>_. Inr (t_customers db))"

definition get_customer :: "staff_role \<Rightarrow> uid \<Rightarrow> tenant_db \<Rightarrow> mf_http + customer" where
  "get_customer role customer_id db =
     rbind (require_staff_permission role ''customers:read'') (\<lambda>_. found (tget cu_id (t_customers db) customer_id))"

section \<open>Savings\<close>

definition create_savings_product ::
    "request_env \<Rightarrow> staff_role \<Rightarrow> string \<Rightarrow> string \<Rightarrow> rat \<Rightarrow> rat \<Rightarrow> tenant_db \<Rightarrow> mf_http + tenant_db" where
  "create_savings_product env role name code rate min_open db =
     rbind (require_staff_permission role ''savings_products:manage'') (\<lambda>_.
     rbind (unique_code sp_code code (t_savings_products db)) (\<lambda>_.
     rbind (fresh_id sp_id (env_id env) (t_savings_products db)) (\<lambda>_.
     commit_http (db\<lparr>t_savings_products := t_savings_products db @
       [\<lparr>sp_id = env_id env, sp_name = name, sp_code = code, sp_annual_interest_rate = rate,
         sp_min_opening_balance = min_open\<rparr>]\<rparr>))))"

definition open_account ::
    "request_env \<Rightarrow> staff_role \<Rightarrow> uid \<Rightarrow> uid \<Rightarrow> rat \<Rightarrow> string option \<Rightarrow> tenant_db \<Rightarrow> mf_http + tenant_db" where
  "open_account env role customer_id product_id opening_deposit key db =
     rbind (require_staff_permission role ''savings:transact'') (\<lambda>_.
     rbind (found (tget cu_id (t_customers db) customer_id)) (\<lambda>customer.
     rbind (found (tget sp_id (t_savings_products db) product_id)) (\<lambda>product.
     rbind (catching [CustomerNotVerified, BelowMinimumOpeningBalance, MissingIdempotencyKey]
              (open_savings_account (env_id env) (env_number env) (env_txid env) (env_now env)
                 customer product opening_deposit key db)) (\<lambda>(db', _).
     commit_http db'))))"

definition deposit_endpoint ::
    "request_env \<Rightarrow> staff_role \<Rightarrow> uid \<Rightarrow> rat \<Rightarrow> string \<Rightarrow> string option \<Rightarrow> tenant_db \<Rightarrow> mf_http + tenant_db" where
  "deposit_endpoint env role account_id amount key desc db =
     rbind (require_staff_permission role ''savings:transact'') (\<lambda>_.
     rbind (found (tget sa_id (t_savings db) account_id)) (\<lambda>account.
     rbind (catching [AccountNotActive]
              (deposit (env_txid env) (env_now env) account amount key desc db)) (\<lambda>(db', _).
     commit_http db')))"

definition withdraw_endpoint ::
    "request_env \<Rightarrow> staff_role \<Rightarrow> uid \<Rightarrow> rat \<Rightarrow> string \<Rightarrow> string option \<Rightarrow> tenant_db \<Rightarrow> mf_http + tenant_db" where
  "withdraw_endpoint env role account_id amount key desc db =
     rbind (require_staff_permission role ''savings:transact'') (\<lambda>_.
     rbind (found (tget sa_id (t_savings db) account_id)) (\<lambda>account.
     rbind (catching [AccountNotActive, InsufficientFunds]
              (withdraw (env_txid env) (env_now env) account amount key desc db)) (\<lambda>(db', _).
     commit_http db')))"

definition list_savings_products :: "staff_role \<Rightarrow> tenant_db \<Rightarrow> mf_http + savings_product list" where
  "list_savings_products role db =
     rbind (require_staff_permission role ''savings_products:read'') (\<lambda>_. Inr (t_savings_products db))"

definition list_customer_accounts :: "staff_role \<Rightarrow> uid \<Rightarrow> tenant_db \<Rightarrow> mf_http + savings_account list" where
  "list_customer_accounts role customer_id db =
     rbind (require_staff_permission role ''savings:read'') (\<lambda>_.
     Inr (filter (\<lambda>a. sa_customer_id a = customer_id) (t_savings db)))"

definition get_account_endpoint :: "staff_role \<Rightarrow> uid \<Rightarrow> tenant_db \<Rightarrow> mf_http + savings_account" where
  "get_account_endpoint role account_id db =
     rbind (require_staff_permission role ''savings:read'') (\<lambda>_. found (tget sa_id (t_savings db) account_id))"

definition list_account_transactions ::
    "staff_role \<Rightarrow> uid \<Rightarrow> tenant_db \<Rightarrow> mf_http + transaction list" where
  "list_account_transactions role account_id db =
     rbind (require_staff_permission role ''savings:read'') (\<lambda>_.
     Inr (sort_key tx_created_at (filter (\<lambda>t.
            \<exists>e\<in>set (t_entries db). le_transaction_id e = tx_id t \<and>
               entry_matches ''savings_account'' account_id e) (t_transactions db))))"

section \<open>Loans\<close>

definition business_errors :: "mf_exn list" where
  "business_errors = [CustomerNotVerified, InvalidLoanAmount, InvalidLoanTerm, InvalidLoanState, Overpayment]"

definition create_loan_product ::
    "request_env \<Rightarrow> staff_role \<Rightarrow> string \<Rightarrow> string \<Rightarrow> amortization_method \<Rightarrow> rat \<Rightarrow> rat \<Rightarrow> rat \<Rightarrow> int \<Rightarrow> int
     \<Rightarrow> tenant_db \<Rightarrow> mf_http + tenant_db" where
  "create_loan_product env role name code m rate minp maxp mint maxt db =
     rbind (require_staff_permission role ''loan_products:manage'') (\<lambda>_.
     rbind (unique_code lp_code code (t_loan_products db)) (\<lambda>_.
     rbind (fresh_id lp_id (env_id env) (t_loan_products db)) (\<lambda>_.
     commit_http (db\<lparr>t_loan_products := t_loan_products db @
       [\<lparr>lp_id = env_id env, lp_name = name, lp_code = code, lp_amortization_method = m,
         lp_periodic_interest_rate = rate, lp_min_principal = minp, lp_max_principal = maxp,
         lp_min_term_months = mint, lp_max_term_months = maxt\<rparr>]\<rparr>))))"

definition list_loan_products :: "staff_role \<Rightarrow> tenant_db \<Rightarrow> mf_http + loan_product list" where
  "list_loan_products role db =
     rbind (require_staff_permission role ''loan_products:read'') (\<lambda>_. Inr (t_loan_products db))"

definition create_loan_application ::
    "request_env \<Rightarrow> staff_role \<Rightarrow> uid \<Rightarrow> uid \<Rightarrow> rat \<Rightarrow> int \<Rightarrow> tenant_db \<Rightarrow> mf_http + tenant_db" where
  "create_loan_application env role customer_id product_id princ term_months db =
     rbind (require_staff_permission role ''loans:manage'') (\<lambda>_.
     rbind (found (tget cu_id (t_customers db) customer_id)) (\<lambda>customer.
     rbind (found (tget lp_id (t_loan_products db) product_id)) (\<lambda>product.
     rbind (catching business_errors (create_loan (env_id env) customer product princ term_months db)) (\<lambda>(db', _).
     commit_http db'))))"

definition get_loan :: "staff_role \<Rightarrow> uid \<Rightarrow> tenant_db \<Rightarrow> mf_http + loan" where
  "get_loan role loan_id db =
     rbind (require_staff_permission role ''loans:read'') (\<lambda>_. found (tget ln_id (t_loans db) loan_id))"

definition submit_loan :: "staff_role \<Rightarrow> uid \<Rightarrow> tenant_db \<Rightarrow> mf_http + tenant_db" where
  "submit_loan role loan_id db =
     rbind (require_staff_permission role ''loans:manage'') (\<lambda>_.
     rbind (found (tget ln_id (t_loans db) loan_id)) (\<lambda>loan.
     rbind (catching business_errors (submit_for_approval loan db)) commit_http))"

definition approve_loan_endpoint :: "request_env \<Rightarrow> staff_role \<Rightarrow> uid \<Rightarrow> tenant_db \<Rightarrow> mf_http + tenant_db" where
  "approve_loan_endpoint env role loan_id db =
     rbind (require_staff_permission role ''loans:approve'') (\<lambda>_.
     rbind (found (tget ln_id (t_loans db) loan_id)) (\<lambda>loan.
     rbind (catching business_errors (approve_loan (env_now env) (env_staff_id env) loan db)) commit_http))"

definition reject_loan_endpoint ::
    "request_env \<Rightarrow> staff_role \<Rightarrow> uid \<Rightarrow> string \<Rightarrow> tenant_db \<Rightarrow> mf_http + tenant_db" where
  "reject_loan_endpoint env role loan_id reason db =
     rbind (require_staff_permission role ''loans:approve'') (\<lambda>_.
     rbind (found (tget ln_id (t_loans db) loan_id)) (\<lambda>loan.
     rbind (catching business_errors (reject_loan (env_staff_id env) reason loan db)) commit_http))"

definition disburse_loan_endpoint ::
    "request_env \<Rightarrow> staff_role \<Rightarrow> uid \<Rightarrow> string \<Rightarrow> tenant_db \<Rightarrow> mf_http + tenant_db" where
  "disburse_loan_endpoint env role loan_id key db =
     rbind (require_staff_permission role ''loans:disburse'') (\<lambda>_.
     rbind (found (tget ln_id (t_loans db) loan_id)) (\<lambda>loan.
     rbind (catching business_errors
              (disburse_loan (env_id env) (env_txid env) (env_now env) (env_today env) loan
                 (tget lp_id (t_loan_products db) (ln_product_id loan)) key None db)) commit_http))"

definition repay_loan_endpoint ::
    "request_env \<Rightarrow> staff_role \<Rightarrow> uid \<Rightarrow> rat \<Rightarrow> string \<Rightarrow> tenant_db \<Rightarrow> mf_http + tenant_db" where
  "repay_loan_endpoint env role loan_id amount key db =
     rbind (require_staff_permission role ''loans:repay'') (\<lambda>_.
     rbind (found (tget ln_id (t_loans db) loan_id)) (\<lambda>loan.
     rbind (catching business_errors
              (repay_installment (env_txid env) (env_now env) loan amount key db)) (\<lambda>(db', _).
     commit_http db')))"

definition get_loan_schedule ::
    "staff_role \<Rightarrow> uid \<Rightarrow> tenant_db \<Rightarrow> mf_http + repayment_schedule_line list" where
  "get_loan_schedule role loan_id db =
     rbind (require_staff_permission role ''loans:read'') (\<lambda>_.
     rbind (found (tget ln_id (t_loans db) loan_id)) (\<lambda>_.
     case scalar_of (filter (\<lambda>s. rs_loan_id s = loan_id \<and> rs_is_active s) (t_schedules db)) of
       NoRow \<Rightarrow> Inr []
     | OneRow s \<Rightarrow> Inr (sort_key sl_installment_number (filter (\<lambda>l. sl_schedule_id l = rs_id s) (t_lines db)))
     | ManyRows \<Rightarrow> Inl (MF_Uncaught MF_MultipleResultsFound)))"

section \<open>Reports\<close>

definition trial_balance_endpoint :: "staff_role \<Rightarrow> tenant_db \<Rightarrow> mf_http + trial_balance" where
  "trial_balance_endpoint role db =
     rbind (require_staff_permission role ''reports:read'') (\<lambda>_. Inr (get_trial_balance db))"

definition loan_portfolio_endpoint :: "staff_role \<Rightarrow> tenant_db \<Rightarrow> mf_http + portfolio" where
  "loan_portfolio_endpoint role db =
     rbind (require_staff_permission role ''reports:read'') (\<lambda>_. Inr (get_loan_portfolio db))"

section \<open>The service as a transition system\<close>

fun run_request :: "request_env \<Rightarrow> staff_role \<Rightarrow> tenant_request \<Rightarrow> tenant_db \<Rightarrow> mf_http + tenant_db" where
  "run_request env role (CreateBranch name code) db = create_branch env role name code db"
| "run_request env role (CreateCustomer b n ph docs) db = create_customer env role b n ph docs db"
| "run_request env role (UpdateKyc c st) db = update_kyc_status role c st db"
| "run_request env role (CreateSavingsProduct n c r m) db = create_savings_product env role n c r m db"
| "run_request env role (OpenAccount c p dep key) db = open_account env role c p dep key db"
| "run_request env role (Deposit a amt key desc) db = deposit_endpoint env role a amt key desc db"
| "run_request env role (Withdraw a amt key desc) db = withdraw_endpoint env role a amt key desc db"
| "run_request env role (CreateLoanProduct n c m r minp maxp mint maxt) db =
     create_loan_product env role n c m r minp maxp mint maxt db"
| "run_request env role (CreateLoan c p pr n) db = create_loan_application env role c p pr n db"
| "run_request env role (SubmitLoan l) db = submit_loan role l db"
| "run_request env role (ApproveLoan l) db = approve_loan_endpoint env role l db"
| "run_request env role (RejectLoan l why) db = reject_loan_endpoint env role l why db"
| "run_request env role (DisburseLoan l key) db = disburse_loan_endpoint env role l key db"
| "run_request env role (RepayLoan l amt key) db = repay_loan_endpoint env role l amt key db"

definition tenant_handler ::
    "request_env \<Rightarrow> staff_role \<Rightarrow> tenant_request \<Rightarrow> tenant_db \<Rightarrow> mf_http + tenant_db" where
  "tenant_handler env role req db =
     (if valid_request req then run_request env role req db else Inl (MF_HTTP 422))"

text \<open>What onboarding writes into the freshly migrated database of a new institution.\<close>

definition empty_tenant :: tenant_db where
  "empty_tenant = \<lparr>t_profile = [], t_branches = [], t_agents = [], t_customers = [], t_internal = [],
     t_savings_products = [], t_savings = [], t_loan_products = [], t_loans = [], t_schedules = [],
     t_lines = [], t_transactions = [], t_entries = []\<rparr>"

definition seed_tenant :: "uid \<Rightarrow> uid \<Rightarrow> uid \<Rightarrow> string \<Rightarrow> string \<Rightarrow> tenant_db \<Rightarrow> mf_exn + tenant_db" where
  "seed_tenant pid cash_id income_id name currency db =
     (if pid \<in> keys ip_id (t_profile db) \<or> cash_id \<in> keys ia_id (t_internal db) \<or>
         income_id \<in> keys ia_id (t_internal db) \<or> cash_id = income_id \<or>
         ''cash'' \<in> keys ia_name (t_internal db) \<or> ''interest_income'' \<in> keys ia_name (t_internal db)
      then Inl MF_IntegrityError
      else tenant_commit (db
        \<lparr>t_profile := t_profile db @ [\<lparr>ip_id = pid, ip_name = name, ip_currency = currency\<rparr>],
         t_internal := t_internal db @
           [\<lparr>ia_id = cash_id, ia_name = ''cash'', ia_normal_balance_side = ''debit'', ia_balance_cached = 0\<rparr>,
            \<lparr>ia_id = income_id, ia_name = ''interest_income'', ia_normal_balance_side = ''credit'',
             ia_balance_cached = 0\<rparr>]\<rparr>))"

definition tenant_init :: "tenant_db \<Rightarrow> bool" where
  "tenant_init db \<longleftrightarrow> (\<exists>pid c i name cur. seed_tenant pid c i name cur empty_tenant = Inr db)"

end
