(* ===== verification/Effects.thy ===== *)
theory Effects
  imports Prelude
begin

text \<open>
  Effects over an arbitrary state: a computation takes the state and returns an exception or a value
  together with the state it leaves, so what was done before an exception stays done.  The SDK, its
  command line and the microfinance control plane are written with it.
\<close>

type_synonym ('s, 'e, 'a) eff = "'s \<Rightarrow> ('e + 'a) \<times> 's"

abbreviation chain :: "('s, 'e, 'a) eff \<Rightarrow> ('a \<Rightarrow> ('s, 'e, 'b) eff) \<Rightarrow> ('s, 'e, 'b) eff" where
  "chain m f \<equiv> (\<lambda>s. case m s of (r, s') \<Rightarrow> (case r of Inl e \<Rightarrow> (Inl e, s') | Inr x \<Rightarrow> f x s'))"

definition give :: "'a \<Rightarrow> ('s, 'e, 'a) eff" where
  "give x s = (Inr x, s)"

definition throw :: "'e \<Rightarrow> ('s, 'e, 'a) eff" where
  "throw e s = (Inl e, s)"

definition check :: "bool \<Rightarrow> 'e \<Rightarrow> ('s, 'e, unit) eff" where
  "check b e s = (if b then Inr () else Inl e, s)"

definition reads :: "('s \<Rightarrow> 'a) \<Rightarrow> ('s, 'e, 'a) eff" where
  "reads f s = (Inr (f s), s)"

definition reads_exn :: "('s \<Rightarrow> 'e + 'a) \<Rightarrow> ('s, 'e, 'a) eff" where
  "reads_exn f s = (f s, s)"

definition lifted :: "'e + 'a \<Rightarrow> ('s, 'e, 'a) eff" where
  "lifted r s = (r, s)"

definition some_or :: "'e \<Rightarrow> 'a option \<Rightarrow> ('s, 'e, 'a) eff" where
  "some_or e x s = (case x of None \<Rightarrow> Inl e | Some y \<Rightarrow> Inr y, s)"

definition updates :: "('s \<Rightarrow> 's) \<Rightarrow> ('s, 'e, unit) eff" where
  "updates f s = (Inr (), f s)"

text \<open>Run a computation with other exceptions.\<close>

definition rethrow :: "('e \<Rightarrow> 'f) \<Rightarrow> ('s, 'e, 'a) eff \<Rightarrow> ('s, 'f, 'a) eff" where
  "rethrow h m s = (case m s of (r, s') \<Rightarrow> (map_err h r, s'))"

section \<open>Reasoning\<close>

named_theorems eff_simps "outcomes of the primitive effects"

lemma give_eq [eff_simps]: "give x s = (r, s') \<longleftrightarrow> r = Inr x \<and> s' = s"
  by (auto simp: give_def)

lemma throw_eq [eff_simps]: "throw e s = (r, s') \<longleftrightarrow> r = Inl e \<and> s' = s"
  by (auto simp: throw_def)

lemma check_eq [eff_simps]: "check b e s = (r, s') \<longleftrightarrow> r = (if b then Inr () else Inl e) \<and> s' = s"
  by (auto simp: check_def)

lemma reads_eq [eff_simps]: "reads f s = (r, s') \<longleftrightarrow> r = Inr (f s) \<and> s' = s"
  by (auto simp: reads_def)

lemma reads_exn_eq [eff_simps]: "reads_exn f s = (r, s') \<longleftrightarrow> r = f s \<and> s' = s"
  by (auto simp: reads_exn_def)

lemma lifted_eq [eff_simps]: "lifted q s = (r, s') \<longleftrightarrow> r = q \<and> s' = s"
  by (auto simp: lifted_def)

lemma some_or_eq [eff_simps]:
  "some_or e x s = (r, s') \<longleftrightarrow> r = (case x of None \<Rightarrow> Inl e | Some y \<Rightarrow> Inr y) \<and> s' = s"
  by (auto simp: some_or_def)

lemma updates_eq [eff_simps]: "updates f s = (r, s') \<longleftrightarrow> r = Inr () \<and> s' = f s"
  by (auto simp: updates_def)

text \<open>The two ways a sequence of effects can go.\<close>

lemma chain_cases:
  assumes "(case M of (a, v) \<Rightarrow> (case a of Inl e \<Rightarrow> (Inl e, v) | Inr x \<Rightarrow> f x v)) = (r, s')"
  obtains (raised) e where "M = (Inl e, s')" "r = Inl e"
  | (went) x v where "M = (Inr x, v)" "f x v = (r, s')"
  using assms by (auto split: prod.splits sum.splits)

lemma chain_okE:
  assumes "(case M of (a, v) \<Rightarrow> (case a of Inl e \<Rightarrow> (Inl e, v) | Inr x \<Rightarrow> f x v)) = (Inr y, s')"
  obtains x v where "M = (Inr x, v)" "f x v = (Inr y, s')"
  using assms by (auto split: prod.splits sum.splits)

section \<open>Contracts\<close>

text \<open>\<open>holds E P m Q\<close>: from a state in \<open>P\<close>, when \<open>m\<close> returns \<open>x\<close> the state is in \<open>Q x\<close>, and when it
  raises it is in \<open>E\<close>.\<close>

definition holds :: "('s \<Rightarrow> bool) \<Rightarrow> ('s \<Rightarrow> bool) \<Rightarrow> ('s, 'e, 'a) eff \<Rightarrow> ('a \<Rightarrow> 's \<Rightarrow> bool) \<Rightarrow> bool" where
  "holds E P m Q \<longleftrightarrow> (\<forall>s r s'. P s \<longrightarrow> m s = (r, s') \<longrightarrow> (case r of Inl e \<Rightarrow> E s' | Inr x \<Rightarrow> Q x s'))"

lemma holds_Inr: "holds E P m Q \<Longrightarrow> P s \<Longrightarrow> m s = (Inr x, s') \<Longrightarrow> Q x s'"
  unfolding holds_def by fastforce

lemma holds_Inl: "holds E P m Q \<Longrightarrow> P s \<Longrightarrow> m s = (Inl e, s') \<Longrightarrow> E s'"
  unfolding holds_def by fastforce

lemma holds_chain:
  assumes m: "holds E P m Q" and f: "\<And>x. holds E (Q x) (f x) R"
  shows "holds E P (chain m f) R"
  unfolding holds_def
proof (intro allI impI)
  fix s r s'
  assume p: "P s" and run: "chain m f s = (r, s')"
  from run show "case r of Inl e \<Rightarrow> E s' | Inr x \<Rightarrow> R x s'"
  proof (rule chain_cases)
    fix x v
    assume x: "m s = (Inr x, v)" "f x v = (r, s')"
    then have "Q x v" using holds_Inr [OF m p] by blast
    then show ?thesis using x(2) f unfolding holds_def by blast
  qed (use holds_Inl [OF m p] in simp)
qed

lemma holds_give: "(\<And>s. P s \<Longrightarrow> Q x s) \<Longrightarrow> holds E P (give x) Q"
  by (simp add: holds_def give_def)

lemma holds_throw: "(\<And>s. P s \<Longrightarrow> E s) \<Longrightarrow> holds E P (throw e) Q"
  by (simp add: holds_def throw_def)

lemma holds_check: "(\<And>s. P s \<Longrightarrow> E s) \<Longrightarrow> (\<And>s. P s \<Longrightarrow> b \<Longrightarrow> Q () s) \<Longrightarrow> holds E P (check b e) Q"
  by (auto simp: holds_def check_def)

lemma holds_reads: "(\<And>s. P s \<Longrightarrow> Q (f s) s) \<Longrightarrow> holds E P (reads f) Q"
  by (simp add: holds_def reads_def)

lemma holds_reads_exn:
  "(\<And>s. P s \<Longrightarrow> E s) \<Longrightarrow> (\<And>s x. P s \<Longrightarrow> f s = Inr x \<Longrightarrow> Q x s) \<Longrightarrow> holds E P (reads_exn f) Q"
  by (auto simp: holds_def reads_exn_def split: sum.splits)

lemma holds_lifted:
  "(\<And>s. P s \<Longrightarrow> E s) \<Longrightarrow> (\<And>s x. P s \<Longrightarrow> r = Inr x \<Longrightarrow> Q x s) \<Longrightarrow> holds E P (lifted r) Q"
  by (auto simp: holds_def lifted_def split: sum.splits)

lemma holds_some_or:
  "(\<And>s. P s \<Longrightarrow> E s) \<Longrightarrow> (\<And>s y. P s \<Longrightarrow> x = Some y \<Longrightarrow> Q y s) \<Longrightarrow> holds E P (some_or e x) Q"
  by (auto simp: holds_def some_or_def split: option.splits)

lemma holds_updates: "(\<And>s. P s \<Longrightarrow> Q () (f s)) \<Longrightarrow> holds E P (updates f) Q"
  by (simp add: holds_def updates_def)

lemma holds_rethrow: "holds E P m Q \<Longrightarrow> holds E P (rethrow h m) Q"
  unfolding holds_def rethrow_def by (auto simp: split_beta res_simps split: sum.splits) (metis prod.collapse)+

lemma holds_weaken:
  assumes "holds E P m Q" "\<And>s. P' s \<Longrightarrow> P s" "\<And>x s. Q x s \<Longrightarrow> Q' x s"
  shows "holds E P' m Q'"
  using assms unfolding holds_def by (fastforce split: sum.splits)

lemma holds_if: "(b \<Longrightarrow> holds E P m Q) \<Longrightarrow> (\<not> b \<Longrightarrow> holds E P n Q) \<Longrightarrow> holds E P (if b then m else n) Q"
  by simp

lemma holds_option:
  "(y = None \<Longrightarrow> holds E P m Q) \<Longrightarrow> (\<And>x. y = Some x \<Longrightarrow> holds E P (f x) Q) \<Longrightarrow> holds E P (case y of None \<Rightarrow> m | Some x \<Rightarrow> f x) Q"
  by (simp split: option.split)

text \<open>A fact of the precondition that does not depend on the state.\<close>

lemma holds_fact: "(\<And>s. P s \<Longrightarrow> B) \<Longrightarrow> (B \<Longrightarrow> holds E P m Q) \<Longrightarrow> holds E P m Q"
  unfolding holds_def by blast

section \<open>What an effect leaves alone\<close>

text \<open>An effect stays in a set of states when it never leaves it, whether it returns or raises.\<close>

definition stays :: "('s \<Rightarrow> bool) \<Rightarrow> ('s, 'e, 'a) eff \<Rightarrow> bool" where
  "stays I m \<longleftrightarrow> (\<forall>s. I s \<longrightarrow> I (snd (m s)))"

lemma stays_chain: "stays I m \<Longrightarrow> (\<And>x. stays I (f x)) \<Longrightarrow> stays I (chain m f)"
  by (force simp: stays_def split: prod.split sum.split)

lemma stays_basic: "stays I (give x)" "stays I (throw e)" "stays I (check b e)" "stays I (reads f)" "stays I (reads_exn g)"
    "stays I (lifted r)" "stays I (some_or e y)"
  by (simp_all add: stays_def give_def throw_def check_def reads_def reads_exn_def lifted_def some_or_def)

lemma stays_updates: "(\<And>s. I s \<Longrightarrow> I (f s)) \<Longrightarrow> stays I (updates f)"
  by (simp add: stays_def updates_def)

lemma stays_cases: "stays I m \<Longrightarrow> stays I n \<Longrightarrow> stays I (if b then m else n)"
    "stays I n \<Longrightarrow> (\<And>x. stays I (g x)) \<Longrightarrow> stays I (case y of None \<Rightarrow> n | Some x \<Rightarrow> g x)"
  by (simp_all split: option.split)

lemma stays_prod: "(\<And>a b. stays I (g a b)) \<Longrightarrow> stays I (case p of (a, b) \<Rightarrow> g a b)"
  by (simp split: prod.split)

lemma stays_holds: "stays I m \<Longrightarrow> holds I I m (\<lambda>_. I)"
  unfolding stays_def holds_def by (force split: sum.splits)

lemma holds_stays: "holds I I m (\<lambda>_. I) \<Longrightarrow> stays I m"
  unfolding holds_def stays_def by (metis (mono_tags, lifting) old.sum.simps(5,6) prod.collapse sum.exhaust)

lemmas stays_rules = stays_chain stays_basic stays_cases stays_prod

end
