(* ===== verification/Python_Text.thy ===== *)
theory Python_Text
  imports Prelude
begin

text \<open>
  What the program uses of Python's strings: \<open>split\<close>, \<open>strip\<close>, \<open>partition\<close>, \<open>int()\<close>, and the one
  regular expression both the control plane and the agent check identifiers with.
\<close>

section \<open>Splitting and stripping\<close>

fun split_on :: "char \<Rightarrow> string \<Rightarrow> string list" where
  "split_on c [] = [[]]"
| "split_on c (x # xs) = (if x = c then [] # split_on c xs
     else case split_on c xs of [] \<Rightarrow> [[x]] | y # ys \<Rightarrow> (x # y) # ys)"

definition is_space :: "char \<Rightarrow> bool" where
  "is_space c \<longleftrightarrow> (case of_char c :: nat of n \<Rightarrow> 9 \<le> n \<and> n \<le> 13 \<or> 28 \<le> n \<and> n \<le> 32 \<or> n = 133 \<or> n = 160)"

definition strip :: "string \<Rightarrow> string" where
  "strip s = rev (dropWhile is_space (rev (dropWhile is_space s)))"

definition partition_eq :: "string \<Rightarrow> string \<times> string" where
  "partition_eq s = (takeWhile (\<lambda>c. c \<noteq> CHR ''='') s, drop 1 (dropWhile (\<lambda>c. c \<noteq> CHR ''='') s))"

section \<open>Integers\<close>

definition digit_value :: "char \<Rightarrow> int option" where
  "digit_value c = (case of_char c :: nat of n \<Rightarrow> if 48 \<le> n \<and> n \<le> 57 then Some (int n - 48) else None)"

text \<open>\<open>int()\<close> of a string: a sign, then digits with single underscores between them.\<close>

fun digits_value :: "int \<Rightarrow> string \<Rightarrow> int option" where
  "digits_value acc [] = Some acc"
| "digits_value acc (c # cs) =
     (if c = CHR ''_'' then (case cs of [] \<Rightarrow> None | d # ds \<Rightarrow>
         (case digit_value d of None \<Rightarrow> None | Some v \<Rightarrow> digits_value (10 * acc + v) ds))
      else case digit_value c of None \<Rightarrow> None | Some v \<Rightarrow> digits_value (10 * acc + v) cs)"

definition unsigned_value :: "string \<Rightarrow> int option" where
  "unsigned_value s = (case s of [] \<Rightarrow> None
     | c # cs \<Rightarrow> (case digit_value c of None \<Rightarrow> None | Some v \<Rightarrow> digits_value v cs))"

definition python_int :: "string \<Rightarrow> int option" where
  "python_int s0 = (case strip s0 of
     [] \<Rightarrow> None
   | c # cs \<Rightarrow> if c = CHR ''-'' then map_option uminus (unsigned_value cs)
              else if c = CHR ''+'' then unsigned_value cs else unsigned_value (c # cs))"

definition is_digit :: "char \<Rightarrow> bool" where
  "is_digit c \<longleftrightarrow> (case of_char c :: nat of n \<Rightarrow> 48 \<le> n \<and> n \<le> 57)"

lemma is_digit_facts: "is_digit c \<Longrightarrow> \<not> is_space c \<and> c \<noteq> CHR ''-'' \<and> c \<noteq> CHR ''+'' \<and> c \<noteq> CHR ''_'' \<and> c \<noteq> CHR 0x22 \<and> c \<noteq> CHR 0x27"
  by (auto simp: is_digit_def is_space_def)

lemma digit_char:
  assumes "n < 10"
  shows "is_digit (char_of (48 + n))" "digit_value (char_of (48 + n)) = Some (int n)"
  using assms by (simp_all add: digit_value_def is_digit_def)

lemma nat_string_digits: "list_all is_digit (nat_string n)"
proof (induction n rule: nat_string.induct)
  case (1 n)
  then show ?case using digit_char(1) [of n] digit_char(1) [of "n mod 10"] by (subst nat_string.simps) simp
qed

lemma nat_string_nonempty [simp]: "nat_string n \<noteq> []"
  by (subst nat_string.simps) simp

lemma digits_value_nat_string: "digits_value acc (nat_string n @ rest) = digits_value (acc * 10 ^ length (nat_string n) + int n) rest"
proof (induction n arbitrary: acc rest rule: nat_string.induct)
  case (1 n)
  show ?case
  proof (cases "n < 10")
    case True
    then show ?thesis using digit_char [of n] is_digit_facts by (subst (1 2) nat_string.simps) (simp add: mult.commute)
  next
    case False
    have m: "n mod 10 < 10" by simp
    note digit_char [OF m]
    moreover have "int n = 10 * int (n div 10) + int (n mod 10)" by (simp add: of_nat_div of_nat_mod)
    ultimately show ?thesis using 1 False is_digit_facts by (subst (1 2) nat_string.simps) (simp add: algebra_simps)
  qed
qed

lemma unsigned_value_nat_string: "unsigned_value (nat_string n) = Some (int n)"
proof -
  obtain c cs where s: "nat_string n = c # cs" by (metis nat_string_nonempty neq_Nil_conv)
  then have "is_digit c" using nat_string_digits [of n] by simp
  then have c: "c \<noteq> CHR ''_''" by (simp add: is_digit_facts)
  have "digits_value 0 (nat_string n) = Some (int n)" using digits_value_nat_string [of 0 n "[]"] by simp
  then show ?thesis using s c by (simp add: unsigned_value_def split: option.splits)
qed

lemma strip_same: "s \<noteq> [] \<Longrightarrow> \<not> is_space (hd s) \<Longrightarrow> \<not> is_space (last s) \<Longrightarrow> strip s = s"
proof -
  assume "s \<noteq> []" "\<not> is_space (hd s)" "\<not> is_space (last s)"
  then have "dropWhile is_space s = s" "dropWhile is_space (rev s) = rev s" by (simp_all add: dropWhile_eq_self_iff hd_rev)
  then show "strip s = s" by (simp add: strip_def)
qed

lemma nat_string_ends: "\<not> is_space (hd (nat_string n))" "\<not> is_space (last (nat_string n))" "hd (nat_string n) \<noteq> CHR ''-''" "hd (nat_string n) \<noteq> CHR ''+''"
  using nat_string_digits [of n] by (auto simp: list_all_iff is_digit_facts)

text \<open>What \<open>str\<close> writes, \<open>int\<close> reads.\<close>

lemma python_int_int_string: "python_int (int_string i) = Some i"
proof (cases "i < 0")
  case True
  have "strip (int_string i) = int_string i"
    using True nat_string_ends [of "nat (- i)"] by (intro strip_same) (auto simp: int_string_def is_space_def)
  then show ?thesis using True by (simp add: python_int_def int_string_def unsigned_value_nat_string)
next
  case False
  have s: "strip (nat_string (nat i)) = nat_string (nat i)" by (intro strip_same nat_string_ends) simp
  obtain c cs where c: "nat_string (nat i) = c # cs" by (metis nat_string_nonempty neq_Nil_conv)
  then show ?thesis
    using False s nat_string_ends(3,4) [of "nat i"] unsigned_value_nat_string [of "nat i"] by (simp add: python_int_def int_string_def)
qed

section \<open>Identifiers\<close>

definition is_lower :: "char \<Rightarrow> bool" where
  "is_lower c = (case of_char c :: nat of n \<Rightarrow> 97 \<le> n \<and> n \<le> 122)"

definition is_word :: "char \<Rightarrow> bool" where
  "is_word c \<longleftrightarrow> is_lower c \<or> (case of_char c :: nat of n \<Rightarrow> 48 \<le> n \<and> n \<le> 57) \<or> c = CHR ''_''"

definition identifier_body :: "string \<Rightarrow> bool" where
  "identifier_body s = (case s of [] \<Rightarrow> False
     | c # cs \<Rightarrow> is_lower c \<and> 2 \<le> length cs \<and> length cs \<le> 62 \<and> list_all is_word cs)"

text \<open>The pattern's \<open>$\<close> also matches before a newline at the end.\<close>

definition is_valid_identifier :: "string \<Rightarrow> bool" where
  "is_valid_identifier name \<longleftrightarrow> identifier_body name \<or>
     name \<noteq> [] \<and> last name = CHR 0x0A \<and> identifier_body (butlast name)"

lemma identifier_body_chars: "identifier_body s \<Longrightarrow> list_all is_word s"
  by (cases s) (auto simp: identifier_body_def is_word_def)

lemma valid_identifier_chars: "is_valid_identifier s \<Longrightarrow> c \<in> set s \<Longrightarrow> is_word c \<or> c = CHR 0x0A"
  unfolding is_valid_identifier_def
  by (cases s rule: rev_cases) (auto dest!: identifier_body_chars simp: list_all_iff)

end
