(* ===== verification/SDK_Client.thy ===== *)
theory SDK_Client
  imports Effects Python_Text
begin

text \<open>
  The Python client of the platform's API, \<open>src/sdk/eminidatabase_sdk/client.py\<close>.

  The HTTP library is the parameter \<open>'s network\<close>: \<open>n_send\<close> carries one call to the server and returns
  its response, or nothing when the transport failed; \<open>n_clock\<close> is \<open>time.monotonic()\<close> in seconds and
  \<open>n_sleep\<close> is \<open>asyncio.sleep\<close>.  The state \<open>'s\<close> is everything outside of the client.  A JSON value is a
  \<open>jv\<close>, a Python dict its list of pairs.
\<close>

section \<open>JSON values\<close>

datatype jv = JNull | JBool bool | JInt int | JStr string | JList "jv list" | JObj "(string \<times> jv) list"

datatype sdk_exn =
    ApiError nat jv
  | TransportError
  | SDK_ValueError
  | SDK_AttributeError
  | SDK_KeyError
  | SDK_TypeError
  | SDK_TimeoutError

text \<open>\<open>data[name]\<close> and \<open>data.get(name, default)\<close>.\<close>

fun field :: "string \<Rightarrow> jv \<Rightarrow> sdk_exn + jv" where
  "field name (JObj ps) = (case map_of ps name of None \<Rightarrow> Inl SDK_KeyError | Some v \<Rightarrow> Inr v)"
| "field name _ = Inl SDK_TypeError"

fun field_or :: "string \<Rightarrow> jv \<Rightarrow> jv \<Rightarrow> sdk_exn + jv" where
  "field_or name (JObj ps) d = Inr (case map_of ps name of None \<Rightarrow> d | Some v \<Rightarrow> v)"
| "field_or name _ d = Inl SDK_AttributeError"

section \<open>Calls\<close>

record http_call =
  hc_base :: string
  hc_method :: string
  hc_path :: string
  hc_authorization :: "string option"
  hc_json :: "jv option"

record http_response =
  hr_status :: nat
  hr_text :: string
  hr_json :: "jv option"

record 's network =
  n_send :: "http_call \<Rightarrow> 's \<Rightarrow> http_response option \<times> 's"
  n_clock :: "'s \<Rightarrow> rat"
  n_sleep :: "rat \<Rightarrow> 's \<Rightarrow> 's"

record platform_client =
  pc_base_url :: string
  pc_token :: "string option"

type_synonym ('s, 'a) sdk = "('s, sdk_exn, 'a) eff"

definition rstrip_slash :: "string \<Rightarrow> string" where
  "rstrip_slash s = rev (dropWhile (\<lambda>c. c = CHR ''/'') (rev s))"

definition new_client :: "string \<Rightarrow> string option \<Rightarrow> platform_client" where
  "new_client base_url token = \<lparr>pc_base_url = rstrip_slash base_url, pc_token = token\<rparr>"

definition request_headers :: "platform_client \<Rightarrow> string option" where
  "request_headers c = (case pc_token c of
     None \<Rightarrow> None | Some t \<Rightarrow> if t = [] then None else Some (''Bearer '' @ t))"

definition response_value :: "http_response \<Rightarrow> sdk_exn + jv" where
  "response_value resp =
     (if hr_status resp \<ge> 400 then
        (case hr_json resp of
           None \<Rightarrow> Inl (ApiError (hr_status resp) (JStr (hr_text resp)))
         | Some v \<Rightarrow> rbind (field_or ''detail'' v (JStr (hr_text resp))) (\<lambda>d. Inl (ApiError (hr_status resp) d)))
      else if hr_status resp = 204 \<or> hr_text resp = [] then Inr JNull
      else (case hr_json resp of None \<Rightarrow> Inl SDK_ValueError | Some v \<Rightarrow> Inr v))"

definition send_request :: "'s network \<Rightarrow> platform_client \<Rightarrow> string \<Rightarrow> string \<Rightarrow> jv option \<Rightarrow> ('s, jv) sdk" where
  "send_request net c verb path body s =
     (case n_send net \<lparr>hc_base = pc_base_url c, hc_method = verb, hc_path = path,
                       hc_authorization = request_headers c, hc_json = body\<rparr> s of
        (None, s') \<Rightarrow> (Inl TransportError, s')
      | (Some resp, s') \<Rightarrow> (response_value resp, s'))"

definition obj :: "(string \<times> jv) list \<Rightarrow> jv option" where
  "obj ps = Some (JObj ps)"

section \<open>Accounts\<close>

definition sdk_register :: "'s network \<Rightarrow> platform_client \<Rightarrow> string \<Rightarrow> string \<Rightarrow> ('s, jv) sdk" where
  "sdk_register net c email password =
     send_request net c ''POST'' ''/auth/register'' (obj [(''email'', JStr email), (''password'', JStr password)])"

text \<open>\<open>login\<close> also stores the token in the client, which is returned with it; a
  token that is not a string is not kept.\<close>

definition sdk_login ::
    "'s network \<Rightarrow> platform_client \<Rightarrow> string \<Rightarrow> string \<Rightarrow> string option \<Rightarrow> ('s, jv \<times> platform_client) sdk" where
  "sdk_login net c email password otp_code =
     chain (send_request net c ''POST'' ''/auth/login''
        (obj ([(''email'', JStr email), (''password'', JStr password)] @
              (case otp_code of None \<Rightarrow> [] | Some otp \<Rightarrow> if otp = [] then [] else [(''otp_code'', JStr otp)])))) (\<lambda>data.
     chain (lifted (field ''access_token'' data)) (\<lambda>token.
     give (token, c\<lparr>pc_token := (case token of JStr t \<Rightarrow> Some t | _ \<Rightarrow> None)\<rparr>)))"

definition sdk_me :: "'s network \<Rightarrow> platform_client \<Rightarrow> ('s, jv) sdk" where
  "sdk_me net c = send_request net c ''GET'' ''/auth/me'' None"

section \<open>Organizations, projects and regions\<close>

definition org_path :: "string \<Rightarrow> string \<Rightarrow> string" where
  "org_path organization_id rest = ''/organizations/'' @ organization_id @ rest"

definition sdk_create_organization :: "'s network \<Rightarrow> platform_client \<Rightarrow> string \<Rightarrow> string \<Rightarrow> ('s, jv) sdk" where
  "sdk_create_organization net c name slug =
     send_request net c ''POST'' ''/organizations'' (obj [(''name'', JStr name), (''slug'', JStr slug)])"

definition sdk_list_organizations :: "'s network \<Rightarrow> platform_client \<Rightarrow> ('s, jv) sdk" where
  "sdk_list_organizations net c = send_request net c ''GET'' ''/organizations'' None"

definition sdk_get_organization :: "'s network \<Rightarrow> platform_client \<Rightarrow> string \<Rightarrow> ('s, jv) sdk" where
  "sdk_get_organization net c organization_id = send_request net c ''GET'' (org_path organization_id '''') None"

definition sdk_add_member :: "'s network \<Rightarrow> platform_client \<Rightarrow> string \<Rightarrow> string \<Rightarrow> string \<Rightarrow> ('s, jv) sdk" where
  "sdk_add_member net c organization_id email role =
     send_request net c ''POST'' (org_path organization_id ''/members'') (obj [(''email'', JStr email), (''role'', JStr role)])"

definition sdk_create_project :: "'s network \<Rightarrow> platform_client \<Rightarrow> string \<Rightarrow> string \<Rightarrow> string \<Rightarrow> ('s, jv) sdk" where
  "sdk_create_project net c organization_id name slug =
     send_request net c ''POST'' (org_path organization_id ''/projects'') (obj [(''name'', JStr name), (''slug'', JStr slug)])"

definition sdk_list_projects :: "'s network \<Rightarrow> platform_client \<Rightarrow> string \<Rightarrow> ('s, jv) sdk" where
  "sdk_list_projects net c organization_id = send_request net c ''GET'' (org_path organization_id ''/projects'') None"

definition sdk_get_project :: "'s network \<Rightarrow> platform_client \<Rightarrow> string \<Rightarrow> string \<Rightarrow> ('s, jv) sdk" where
  "sdk_get_project net c organization_id project_id =
     send_request net c ''GET'' (org_path organization_id (''/projects/'' @ project_id)) None"

definition sdk_list_regions :: "'s network \<Rightarrow> platform_client \<Rightarrow> ('s, jv) sdk" where
  "sdk_list_regions net c = send_request net c ''GET'' ''/regions'' None"

section \<open>Databases\<close>

definition db_path :: "string \<Rightarrow> string \<Rightarrow> string \<Rightarrow> string" where
  "db_path organization_id project_id database_id =
     (case ''/organizations/'' @ organization_id @ ''/projects/'' @ project_id @ ''/databases'' of base \<Rightarrow>
        if database_id \<noteq> [] then base @ ''/'' @ database_id else base)"

definition size_fields :: "int \<Rightarrow> int \<Rightarrow> int \<Rightarrow> (string \<times> jv) list" where
  "size_fields cpu_limit ram_limit_mb storage_limit_gb =
     [(''cpu_limit'', JInt cpu_limit), (''ram_limit_mb'', JInt ram_limit_mb), (''storage_limit_gb'', JInt storage_limit_gb)]"

definition sdk_create_database ::
    "'s network \<Rightarrow> platform_client \<Rightarrow> string \<Rightarrow> string \<Rightarrow> string \<Rightarrow> string \<Rightarrow> string \<Rightarrow> int \<Rightarrow> int \<Rightarrow> int \<Rightarrow> ('s, jv) sdk" where
  "sdk_create_database net c organization_id project_id name region_code isolation_level cpu_limit ram_limit_mb storage_limit_gb =
     send_request net c ''POST'' (db_path organization_id project_id '''')
       (obj ([(''name'', JStr name), (''region_code'', JStr region_code), (''isolation_level'', JStr isolation_level)] @
             size_fields cpu_limit ram_limit_mb storage_limit_gb))"

definition sdk_list_databases :: "'s network \<Rightarrow> platform_client \<Rightarrow> string \<Rightarrow> string \<Rightarrow> ('s, jv) sdk" where
  "sdk_list_databases net c organization_id project_id =
     send_request net c ''GET'' (db_path organization_id project_id '''') None"

definition sdk_get_database :: "'s network \<Rightarrow> platform_client \<Rightarrow> string \<Rightarrow> string \<Rightarrow> string \<Rightarrow> ('s, jv) sdk" where
  "sdk_get_database net c organization_id project_id database_id =
     send_request net c ''GET'' (db_path organization_id project_id database_id) None"

definition sdk_delete_database :: "'s network \<Rightarrow> platform_client \<Rightarrow> string \<Rightarrow> string \<Rightarrow> string \<Rightarrow> ('s, jv) sdk" where
  "sdk_delete_database net c organization_id project_id database_id =
     send_request net c ''DELETE'' (db_path organization_id project_id database_id) None"

definition sdk_suspend_database :: "'s network \<Rightarrow> platform_client \<Rightarrow> string \<Rightarrow> string \<Rightarrow> string \<Rightarrow> ('s, jv) sdk" where
  "sdk_suspend_database net c organization_id project_id database_id =
     send_request net c ''POST'' (db_path organization_id project_id database_id @ ''/suspend'') None"

definition sdk_resume_database :: "'s network \<Rightarrow> platform_client \<Rightarrow> string \<Rightarrow> string \<Rightarrow> string \<Rightarrow> ('s, jv) sdk" where
  "sdk_resume_database net c organization_id project_id database_id =
     send_request net c ''POST'' (db_path organization_id project_id database_id @ ''/resume'') None"

definition sdk_resize_database ::
    "'s network \<Rightarrow> platform_client \<Rightarrow> string \<Rightarrow> string \<Rightarrow> string \<Rightarrow> int \<Rightarrow> int \<Rightarrow> int \<Rightarrow> ('s, jv) sdk" where
  "sdk_resize_database net c organization_id project_id database_id cpu_limit ram_limit_mb storage_limit_gb =
     send_request net c ''POST'' (db_path organization_id project_id database_id @ ''/resize'')
       (obj (size_fields cpu_limit ram_limit_mb storage_limit_gb))"

definition sdk_get_connection :: "'s network \<Rightarrow> platform_client \<Rightarrow> string \<Rightarrow> string \<Rightarrow> string \<Rightarrow> ('s, jv) sdk" where
  "sdk_get_connection net c organization_id project_id database_id =
     send_request net c ''GET'' (db_path organization_id project_id database_id @ ''/connection'') None"

definition sdk_execute_sql ::
    "'s network \<Rightarrow> platform_client \<Rightarrow> string \<Rightarrow> string \<Rightarrow> string \<Rightarrow> string \<Rightarrow> string option \<Rightarrow> ('s, jv) sdk" where
  "sdk_execute_sql net c organization_id project_id database_id query role_id =
     send_request net c ''POST'' (db_path organization_id project_id database_id @ ''/sql/execute'')
       (obj ([(''query'', JStr query)] @
             (case role_id of None \<Rightarrow> [] | Some r \<Rightarrow> if r = [] then [] else [(''role_id'', JStr r)])))"

section \<open>Backups and webhooks\<close>

definition sdk_create_backup :: "'s network \<Rightarrow> platform_client \<Rightarrow> string \<Rightarrow> string \<Rightarrow> string \<Rightarrow> ('s, jv) sdk" where
  "sdk_create_backup net c organization_id project_id database_id =
     send_request net c ''POST'' (db_path organization_id project_id database_id @ ''/backups'') None"

definition sdk_list_backups :: "'s network \<Rightarrow> platform_client \<Rightarrow> string \<Rightarrow> string \<Rightarrow> string \<Rightarrow> ('s, jv) sdk" where
  "sdk_list_backups net c organization_id project_id database_id =
     send_request net c ''GET'' (db_path organization_id project_id database_id @ ''/backups'') None"

definition sdk_get_backup :: "'s network \<Rightarrow> platform_client \<Rightarrow> string \<Rightarrow> string \<Rightarrow> string \<Rightarrow> string \<Rightarrow> ('s, jv) sdk" where
  "sdk_get_backup net c organization_id project_id database_id backup_id =
     send_request net c ''GET'' (db_path organization_id project_id database_id @ ''/backups/'' @ backup_id) None"

definition sdk_restore_backup ::
    "'s network \<Rightarrow> platform_client \<Rightarrow> string \<Rightarrow> string \<Rightarrow> string \<Rightarrow> string \<Rightarrow> string \<Rightarrow> ('s, jv) sdk" where
  "sdk_restore_backup net c organization_id project_id database_id backup_id new_name =
     send_request net c ''POST'' (db_path organization_id project_id database_id @ ''/backups/'' @ backup_id @ ''/restore'')
       (obj [(''name'', JStr new_name)])"

definition sdk_create_webhook :: "'s network \<Rightarrow> platform_client \<Rightarrow> string \<Rightarrow> string \<Rightarrow> string list \<Rightarrow> ('s, jv) sdk" where
  "sdk_create_webhook net c organization_id url event_types =
     send_request net c ''POST'' (org_path organization_id ''/webhooks'')
       (obj [(''url'', JStr url), (''event_types'', JList (map JStr event_types))])"

definition sdk_list_webhooks :: "'s network \<Rightarrow> platform_client \<Rightarrow> string \<Rightarrow> ('s, jv) sdk" where
  "sdk_list_webhooks net c organization_id = send_request net c ''GET'' (org_path organization_id ''/webhooks'') None"

definition sdk_delete_webhook :: "'s network \<Rightarrow> platform_client \<Rightarrow> string \<Rightarrow> string \<Rightarrow> ('s, jv) sdk" where
  "sdk_delete_webhook net c organization_id webhook_id =
     send_request net c ''DELETE'' (org_path organization_id (''/webhooks/'' @ webhook_id)) None"

definition sdk_list_webhook_deliveries :: "'s network \<Rightarrow> platform_client \<Rightarrow> string \<Rightarrow> string \<Rightarrow> ('s, jv) sdk" where
  "sdk_list_webhook_deliveries net c organization_id webhook_id =
     send_request net c ''GET'' (org_path organization_id (''/webhooks/'' @ webhook_id @ ''/deliveries'')) None"

section \<open>Jobs\<close>

definition sdk_get_job :: "'s network \<Rightarrow> platform_client \<Rightarrow> string \<Rightarrow> ('s, jv) sdk" where
  "sdk_get_job net c job_id = send_request net c ''GET'' (''/jobs/'' @ job_id) None"

definition terminal_statuses :: "string list" where
  "terminal_statuses = [''succeeded'', ''failed'']"

text \<open>Membership in a set of strings raises on a value that cannot be hashed.\<close>

fun in_terminal :: "jv \<Rightarrow> sdk_exn + bool" where
  "in_terminal (JStr st) = Inr (List.member terminal_statuses st)"
| "in_terminal (JList _) = Inl SDK_TypeError"
| "in_terminal (JObj _) = Inl SDK_TypeError"
| "in_terminal _ = Inr False"

definition job_over :: "jv \<Rightarrow> sdk_exn + bool" where
  "job_over job = rbind (field ''status'' job) in_terminal"

text \<open>The polling loop; \<open>None\<close> is a loop that never ends.\<close>

partial_function (option) wait_loop ::
    "'s network \<Rightarrow> platform_client \<Rightarrow> string \<Rightarrow> rat \<Rightarrow> rat \<Rightarrow> rat \<Rightarrow> 's \<Rightarrow> ((sdk_exn + jv) \<times> 's) option" where
  "wait_loop net c job_id interval limit start s =
     (case sdk_get_job net c job_id s of (r, s') \<Rightarrow>
        (case r of
           Inl e \<Rightarrow> Some (Inl e, s')
         | Inr job \<Rightarrow>
             (case job_over job of
                Inl e \<Rightarrow> Some (Inl e, s')
              | Inr over \<Rightarrow>
                  if over then Some (Inr job, s')
                  else if n_clock net s' - start > limit then Some (Inl SDK_TimeoutError, s')
                  else wait_loop net c job_id interval limit start (n_sleep net interval s'))))"

definition sdk_wait_for_job ::
    "'s network \<Rightarrow> platform_client \<Rightarrow> string \<Rightarrow> rat \<Rightarrow> rat \<Rightarrow> 's \<Rightarrow> ((sdk_exn + jv) \<times> 's) option" where
  "sdk_wait_for_job net c job_id interval limit s = wait_loop net c job_id interval limit (n_clock net s) s"


section \<open>The loop ends\<close>

text \<open>Time does not run backwards while a call is under way, and a sleep lasts at least as long as asked.\<close>

definition fair_clock :: "'s network \<Rightarrow> bool" where
  "fair_clock net \<longleftrightarrow>
     (\<forall>call s. n_clock net s \<le> n_clock net (snd (n_send net call s))) \<and>
     (\<forall>d s. n_clock net s + d \<le> n_clock net (n_sleep net d s))"

lemma get_job_clock:
  assumes "fair_clock net" "sdk_get_job net c job_id s = (r, s')"
  shows "n_clock net s \<le> n_clock net s'"
proof -
  obtain resp v where send: "n_send net \<lparr>hc_base = pc_base_url c, hc_method = ''GET'', hc_path = ''/jobs/'' @ job_id,
      hc_authorization = request_headers c, hc_json = None\<rparr> s = (resp, v)" by force
  have "n_clock net s \<le> n_clock net v" using assms(1) send unfolding fair_clock_def by (metis snd_conv)
  then show ?thesis using assms(2) send
    by (auto simp: sdk_get_job_def send_request_def split: option.splits)
qed

text \<open>What a loop that ended can have ended with.\<close>

definition wait_outcome :: "'s network \<Rightarrow> rat \<Rightarrow> rat \<Rightarrow> (sdk_exn + jv) \<times> 's \<Rightarrow> bool" where
  "wait_outcome net start limit out \<longleftrightarrow> (case out of
     (Inr job, s) \<Rightarrow> (\<exists>st\<in>set terminal_statuses. field ''status'' job = Inr (JStr st))
   | (Inl e, s) \<Rightarrow> e = SDK_TimeoutError \<longrightarrow> limit < n_clock net s - start)"

lemma job_over_True: "job_over job = Inr True \<Longrightarrow> \<exists>st\<in>set terminal_statuses. field ''status'' job = Inr (JStr st)"
proof -
  assume "job_over job = Inr True"
  then obtain v where v: "field ''status'' job = Inr v" "in_terminal v = Inr True"
    by (auto simp: job_over_def rbind_eq_Inr)
  then show ?thesis by (cases v) auto
qed

lemma job_over_Inl: "job_over job = Inl e \<Longrightarrow> e \<noteq> SDK_TimeoutError"
proof -
  assume a: "job_over job = Inl e"
  have "field ''status'' job = Inl e \<Longrightarrow> e = SDK_KeyError \<or> e = SDK_TypeError"
    by (cases job) (auto split: option.splits)
  moreover have "in_terminal v = Inl e \<Longrightarrow> e = SDK_TypeError" for v by (cases v) auto
  ultimately show ?thesis using a by (auto simp: job_over_def rbind_eq_Inl)
qed

lemma get_job_error: "sdk_get_job net c job_id s = (Inl e, s') \<Longrightarrow> e \<noteq> SDK_TimeoutError"
proof -
  assume a: "sdk_get_job net c job_id s = (Inl e, s')"
  have "field_or n v d = Inl x \<Longrightarrow> x = SDK_AttributeError" for n v d x by (cases v) auto
  then have "response_value resp = Inl x \<Longrightarrow> x \<noteq> SDK_TimeoutError" for resp x
    by (auto simp: response_value_def res_simps split: if_splits option.splits)
  then show ?thesis using a by (auto simp: sdk_get_job_def send_request_def split: prod.splits option.splits)
qed

text \<open>Every poll that goes on takes at least \<open>interval\<close> from the time that is left.\<close>

lemma wait_loop_ends:
  assumes "fair_clock net" "0 < interval"
  shows "limit - (n_clock net s - start) < rat_of_nat n * interval \<Longrightarrow>
    \<exists>out. wait_loop net c job_id interval limit start s = Some out \<and> wait_outcome net start limit out"
proof (induction n arbitrary: s)
  case (0 s)
  obtain r v where g: "sdk_get_job net c job_id s = (r, v)" by force
  have late: "limit < n_clock net v - start" using 0 get_job_clock [OF assms(1) g] by simp
  show ?case
  proof (cases r)
    case (Inl e)
    then show ?thesis using g get_job_error [OF g [unfolded Inl]] by (subst wait_loop.simps) (auto simp: wait_outcome_def)
  next
    case (Inr job)
    then show ?thesis using g late job_over_True [of job] job_over_Inl [of job]
      by (subst wait_loop.simps) (auto simp: wait_outcome_def split: sum.splits)
  qed
next
  case (Suc n s)
  obtain r v where g: "sdk_get_job net c job_id s = (r, v)" by force
  have "n_clock net s + interval \<le> n_clock net (n_sleep net interval v)"
    using get_job_clock [OF assms(1) g] assms(1) unfolding fair_clock_def by (smt (verit) add_mono_thms_linordered_semiring(3) order_trans)
  then have later: "limit - (n_clock net (n_sleep net interval v) - start) < rat_of_nat n * interval"
    using Suc.prems by (simp add: algebra_simps)
  show ?case
  proof (cases r)
    case (Inl e)
    then show ?thesis using g get_job_error [OF g [unfolded Inl]] by (subst wait_loop.simps) (auto simp: wait_outcome_def)
  next
    case (Inr job)
    then show ?thesis using g Suc.IH [OF later] job_over_True [of job] job_over_Inl [of job]
      by (subst wait_loop.simps) (auto simp: wait_outcome_def split: sum.splits)
  qed
qed

lemma ex_less_of_nat_rat: "\<exists>n. (x::rat) < rat_of_nat n"
  by (rule reals_Archimedean2)

text \<open>C22: Waiting for a job ends, whatever the server answers, as long as the clock runs: with a job
  whose status is final, with the error of a request, or with a timeout that is raised only after the
  given time has passed.\<close>

theorem wait_for_job_ends:
  assumes "fair_clock net" "0 < interval"
  shows "\<exists>out. sdk_wait_for_job net c job_id interval limit s = Some out \<and> wait_outcome net (n_clock net s) limit out"
proof -
  obtain n where "limit / interval < rat_of_nat n" using ex_less_of_nat_rat by blast
  then have "limit < rat_of_nat n * interval" using assms(2) by (simp add: divide_less_eq)
  then show ?thesis
    unfolding sdk_wait_for_job_def by (intro wait_loop_ends [OF assms, where n = n]) simp
qed

text \<open>What every poll and every sleep keeps is kept by the whole wait.\<close>

definition kept_by_wait :: "('s \<Rightarrow> bool) \<Rightarrow> 's network \<Rightarrow> platform_client \<Rightarrow> 's \<Rightarrow> 's \<Rightarrow> bool" where
  "kept_by_wait I net c s s' \<longleftrightarrow>
     (\<forall>j. stays I (sdk_get_job net c j)) \<longrightarrow> (\<forall>d u. I u \<longrightarrow> I (n_sleep net d u)) \<longrightarrow> I s \<longrightarrow> I s'"

lemma wait_loop_keeps: "wait_loop net c j interval limit start s = Some out \<Longrightarrow> kept_by_wait I net c s (snd out)"
proof (erule wait_loop.raw_induct [rotated])
  fix loop net c j interval limit start s out
  assume again: "\<And>net c j interval limit start s out. loop net c j interval limit start s = Some out \<Longrightarrow> kept_by_wait I net c s (snd out)"
    and now: "(case sdk_get_job net c j s of (Inl e, s') \<Rightarrow> Some (Inl e, s')
      | (Inr job, s') \<Rightarrow> (case job_over job of Inl e \<Rightarrow> Some (Inl e, s')
          | Inr over \<Rightarrow> if over then Some (Inr job, s')
              else if limit < n_clock net s' - start then Some (Inl SDK_TimeoutError, s')
              else loop net c j interval limit start (n_sleep net interval s'))) = Some out"
  show "kept_by_wait I net c s (snd out)"
    unfolding kept_by_wait_def
  proof (intro impI)
    assume keeps: "\<forall>j. stays I (sdk_get_job net c j)" and sleep: "\<forall>d u. I u \<longrightarrow> I (n_sleep net d u)" and s: "I s"
    obtain r s1 where get: "sdk_get_job net c j s = (r, s1)" by (cases "sdk_get_job net c j s")
    have s1: "I s1" using keeps s get unfolding stays_def by (metis snd_conv)
    then have "I (snd out)" if "loop net c j interval limit start (n_sleep net interval s1) = Some out"
      using again [OF that] keeps sleep unfolding kept_by_wait_def by blast
    then show "I (snd out)"
      using now s1 unfolding get by (auto split: sum.splits if_splits)
  qed
qed

lemma wait_stays:
  assumes "sdk_wait_for_job net c j interval limit s = Some (r, s')"
    and "\<And>j. stays I (sdk_get_job net c j)" "\<And>d u. I u \<Longrightarrow> I (n_sleep net d u)" "I s"
  shows "I s'"
  using wait_loop_keeps [of net c j interval limit _ s "(r, s')" I] assms unfolding sdk_wait_for_job_def kept_by_wait_def by auto

text \<open>A server that answers the first request with a queued job and every other with a finished one,
  a second after it was asked.\<close>

definition two_polls :: "(nat \<times> rat) network" where
  "two_polls = \<lparr>n_send = (\<lambda>_ (k, t). (Some \<lparr>hr_status = 200, hr_text = ''{}'',
       hr_json = obj [(''status'', JStr (if k = 0 then ''queued'' else ''failed''))]\<rparr>, (k + 1, t + 1))),
     n_clock = snd, n_sleep = (\<lambda>d (k, t). (k, t + max d 0))\<rparr>"

theorem wait_for_job_ends_witness:
  "fair_clock two_polls \<and>
   (\<exists>out. sdk_wait_for_job two_polls (new_client ''http://x/'' None) ''7'' 1 120 (0, 0) = Some out \<and>
      wait_outcome two_polls 0 120 out)"
proof -
  have fair: "fair_clock two_polls"
    by (auto simp: fair_clock_def two_polls_def)
  then show ?thesis
    using wait_for_job_ends [OF fair, of 1 "new_client ''http://x/'' None" "''7''" 120 "(0, 0)"]
    by (simp add: two_polls_def)
qed

end
