(* ===== verification/MF_Control.thy ===== *)
theory MF_Control
  imports MF_Api Effects Python_Text SDK_Client
begin

text \<open>
  The microfinance service's own metadata (\<open>src/microfinance/mf_app/models\<close>: institutions, staff
  accounts, jobs and the platform account), its authentication (\<open>core/security.py\<close>,
  \<open>core/dependencies.py\<close>, \<open>endpoints/auth.py\<close>) and the endpoints that manage institutions and staff
  (\<open>endpoints/institutions.py\<close>, \<open>endpoints/staff.py\<close>, \<open>endpoints/jobs.py\<close>).

  A world holds the session's view of the control database, its committed rows, the institutions'
  own databases by connection URL (as committed there) and the state of everything outside,
  \<open>'s\<close>.  A UUID is a number, \<open>str\<close> of it its decimal digits.
\<close>

section \<open>The metadata\<close>

datatype institution_status = IN_PROVISIONING | IN_ACTIVE | IN_FAILED | IN_SUSPENDED

record institution =
  in_id :: uid
  in_name :: string
  in_slug :: string
  in_status :: institution_status
  in_cp_project_id :: "uid option"
  in_cp_database_id :: "uid option"
  in_db_host :: "string option"
  in_db_port :: "int option"
  in_db_name :: "string option"
  in_db_username :: "string option"
  in_encrypted_db_password :: "string option"
  in_failure_reason :: "string option"
  in_created_at :: instant

record staff_user =
  su_id :: uid
  su_institution_id :: uid
  su_email :: string
  su_password_hash :: string
  su_role :: staff_role
  su_tenant_agent_id :: "uid option"
  su_is_active :: bool
  su_created_at :: instant

datatype mf_job_status = MJ_QUEUED | MJ_RUNNING | MJ_SUCCEEDED | MJ_FAILED | MJ_RETRYING

record mf_job =
  mj_id :: uid
  mj_type :: string
  mj_status :: mf_job_status
  mj_institution_id :: "uid option"
  mj_payload :: "(string \<times> string) list"
  mj_result :: "(string \<times> string) list option"
  mj_error :: "string option"
  mj_attempts :: int
  mj_max_attempts :: int
  mj_next_run_at :: instant
  mj_started_at :: "instant option"
  mj_completed_at :: "instant option"
  mj_created_at :: instant

record platform_account =
  pa_id :: uid
  pa_cp_organization_id :: uid
  pa_cp_email :: string
  pa_encrypted_cp_password :: string
  pa_cached_access_token :: "string option"
  pa_token_expires_at :: "instant option"

record control_db =
  m_institutions :: "institution list"
  m_staff :: "staff_user list"
  m_jobs :: "mf_job list"
  m_accounts :: "platform_account list"

record 's mf_world =
  mw_db :: control_db
  mw_committed :: control_db
  mw_tenants :: "(string \<times> tenant_db) list"
  mw_next :: uid
  mw_outside :: 's

datatype control_exn =
    MC_HTTP nat
  | MC_Raised mf_exn
  | MC_Sdk sdk_exn
  | MC_InvalidToken
  | MC_RuntimeError
  | MC_KeyError
  | MC_ValueError
  | MC_AttributeError
  | MC_IntegrityError
  | MC_NoTenant

record staff_claims =
  st_sub :: "uid option"
  st_institution_id :: "uid option"
  st_role :: "string option"
  st_exp :: instant

text \<open>Argon2, PyJWT, Fernet, the random generator and alembic are parameters; \<open>me_decode\<close> returns the
  claims of a token whose signature and expiry hold.\<close>

record mf_env =
  me_now :: instant
  me_hash :: "string \<Rightarrow> string"
  me_verify :: "string \<Rightarrow> string \<Rightarrow> bool"
  me_encode :: "staff_claims \<Rightarrow> string"
  me_decode :: "instant \<Rightarrow> string \<Rightarrow> staff_claims option"
  me_token_minutes :: int
  me_operator_token_hash :: string
  me_random_password :: string
  me_random_token :: string
  me_encrypt :: "string \<Rightarrow> string"
  me_decrypt :: "string \<Rightarrow> string option"
  me_platform_api_url :: string
  me_migrate :: "string \<Rightarrow> nat"
  me_text :: "control_exn \<Rightarrow> string"

type_synonym ('s, 'a) mfm = "('s mf_world, control_exn, 'a) eff"

section \<open>The session\<close>

definition query_db :: "(control_db \<Rightarrow> 'a) \<Rightarrow> ('s, 'a) mfm" where
  "query_db f = reads (\<lambda>w. f (mw_db w))"

definition first_or_none :: "'a list \<Rightarrow> control_exn + 'a option" where
  "first_or_none xs = (case scalar_of xs of
     NoRow \<Rightarrow> Inr None | OneRow x \<Rightarrow> Inr (Some x) | ManyRows \<Rightarrow> Inl (MC_Raised MF_MultipleResultsFound))"

definition query_one :: "(control_db \<Rightarrow> 'a list) \<Rightarrow> ('s, 'a option) mfm" where
  "query_one f = reads_exn (\<lambda>w. first_or_none (f (mw_db w)))"

definition change_db :: "(control_db \<Rightarrow> control_db) \<Rightarrow> ('s, unit) mfm" where
  "change_db f = updates (\<lambda>w. w\<lparr>mw_db := f (mw_db w)\<rparr>)"

definition new_uuid :: "('s, uid) mfm" where
  "new_uuid w = (Inr (mw_next w), w\<lparr>mw_next := Suc (mw_next w)\<rparr>)"

definition commit_db :: "('s, unit) mfm" where
  "commit_db = updates (\<lambda>w. w\<lparr>mw_committed := mw_db w\<rparr>)"

text \<open>A request that raises leaves only what it committed.\<close>

definition request :: "('s, 'a) mfm \<Rightarrow> ('s, 'a) mfm" where
  "request m w = (case m w of (Inl e, w') \<Rightarrow> (Inl e, w'\<lparr>mw_db := mw_committed w'\<rparr>) | (Inr x, w') \<Rightarrow> (Inr x, w'))"

definition put_institution :: "institution \<Rightarrow> ('s, unit) mfm" where
  "put_institution i = change_db (\<lambda>db. db\<lparr>m_institutions := tset in_id i (m_institutions db)\<rparr>)"

fun status_value :: "institution_status \<Rightarrow> string" where
  "status_value IN_PROVISIONING = ''provisioning''"
| "status_value IN_ACTIVE = ''active''"
| "status_value IN_FAILED = ''failed''"
| "status_value IN_SUSPENDED = ''suspended''"

fun staff_role_value :: "staff_role \<Rightarrow> string" where
  "staff_role_value INSTITUTION_ADMIN = ''institution_admin''"
| "staff_role_value BRANCH_MANAGER = ''branch_manager''"
| "staff_role_value LOAN_OFFICER = ''loan_officer''"
| "staff_role_value TELLER = ''teller''"

section \<open>Tokens\<close>

definition create_staff_access_token :: "mf_env \<Rightarrow> uid \<Rightarrow> uid \<Rightarrow> string \<Rightarrow> string" where
  "create_staff_access_token env staff_user_id institution_id role =
     me_encode env \<lparr>st_sub = Some staff_user_id, st_institution_id = Some institution_id, st_role = Some role,
                    st_exp = me_now env + me_token_minutes env * 60000000\<rparr>"

definition decode_staff_access_token :: "mf_env \<Rightarrow> string \<Rightarrow> (uid \<times> uid \<times> string) option" where
  "decode_staff_access_token env token =
     (case me_decode env (me_now env) token of
        None \<Rightarrow> None
      | Some c \<Rightarrow> (case (st_sub c, st_institution_id c, st_role c) of
          (Some u, Some i, Some r) \<Rightarrow> Some (u, i, r) | _ \<Rightarrow> None))"

definition verify_operator_token :: "mf_env \<Rightarrow> string \<Rightarrow> bool" where
  "verify_operator_token env token \<longleftrightarrow>
     me_operator_token_hash env \<noteq> [] \<and> me_verify env (me_operator_token_hash env) token"

definition generate_operator_token :: "mf_env \<Rightarrow> string \<times> string" where
  "generate_operator_token env = (me_random_token env, me_hash env (me_random_token env))"

section \<open>Dependencies\<close>

definition require_mf_operator :: "mf_env \<Rightarrow> string option \<Rightarrow> ('s, unit) mfm" where
  "require_mf_operator env credentials =
     check (case credentials of None \<Rightarrow> False | Some t \<Rightarrow> verify_operator_token env t) (MC_HTTP 401)"

definition get_institution_by_slug :: "string \<Rightarrow> ('s, institution) mfm" where
  "get_institution_by_slug slug =
     chain (query_one (\<lambda>db. filter (\<lambda>i. in_slug i = slug) (m_institutions db))) (some_or (MC_HTTP 404))"

definition require_active_institution :: "string \<Rightarrow> ('s, institution) mfm" where
  "require_active_institution slug =
     chain (get_institution_by_slug slug) (\<lambda>institution.
     chain (check (in_status institution = IN_ACTIVE) (MC_HTTP 409)) (\<lambda>_.
     give institution))"

definition staff_of_token :: "mf_env \<Rightarrow> institution \<Rightarrow> string option \<Rightarrow> ('s, staff_user) mfm" where
  "staff_of_token env institution credentials =
     chain (some_or (MC_HTTP 401) credentials) (\<lambda>token.
     chain (some_or (MC_HTTP 401) (decode_staff_access_token env token)) (\<lambda>(staff_user_id, institution_id, _).
     chain (check (institution_id = in_id institution) (MC_HTTP 403)) (\<lambda>_.
     chain (query_db (\<lambda>db. tget su_id (m_staff db) staff_user_id)) (\<lambda>found.
     chain (some_or (MC_HTTP 401) found) (\<lambda>staff.
     chain (check (su_is_active staff) (MC_HTTP 401)) (\<lambda>_.
     give staff))))))"

definition get_current_staff_user :: "mf_env \<Rightarrow> string \<Rightarrow> string option \<Rightarrow> ('s, staff_user) mfm" where
  "get_current_staff_user env slug credentials =
     chain (get_institution_by_slug slug) (\<lambda>institution. staff_of_token env institution credentials)"

section \<open>The institution's database\<close>

definition shown :: "string option \<Rightarrow> string" where
  "shown x = (case x of None \<Rightarrow> ''None'' | Some s \<Rightarrow> s)"

definition decrypt_password :: "mf_env \<Rightarrow> string option \<Rightarrow> control_exn + string" where
  "decrypt_password env ciphertext = (case ciphertext of
     None \<Rightarrow> Inl MC_AttributeError
   | Some c \<Rightarrow> (case me_decrypt env c of None \<Rightarrow> Inl MC_InvalidToken | Some p \<Rightarrow> Inr p))"

definition tenant_database_url :: "mf_env \<Rightarrow> institution \<Rightarrow> control_exn + string" where
  "tenant_database_url env i =
     rbind (decrypt_password env (in_encrypted_db_password i)) (\<lambda>password.
     Inr (''postgresql+asyncpg://'' @ shown (in_db_username i) @ '':'' @ password @ ''@'' @ shown (in_db_host i) @ '':'' @
          shown (map_option int_string (in_db_port i)) @ ''/'' @ shown (in_db_name i)))"

text \<open>The session on the institution's database is opened from the URL; its first statement fails when
  no such database exists.\<close>

definition get_tenant_db :: "mf_env \<Rightarrow> string \<Rightarrow> ('s, string) mfm" where
  "get_tenant_db env slug =
     chain (require_active_institution slug) (\<lambda>institution. lifted (tenant_database_url env institution))"

definition in_tenant :: "string \<Rightarrow> (tenant_db \<Rightarrow> control_exn + 'a) \<Rightarrow> ('s, 'a) mfm" where
  "in_tenant url f = reads_exn (\<lambda>w. case map_of (mw_tenants w) url of None \<Rightarrow> Inl MC_NoTenant | Some t \<Rightarrow> f t)"

definition put_tenant :: "string \<Rightarrow> tenant_db \<Rightarrow> ('s, unit) mfm" where
  "put_tenant url t = updates (\<lambda>w. w\<lparr>mw_tenants := tset fst (url, t) (mw_tenants w)\<rparr>)"

fun http_of :: "mf_http \<Rightarrow> control_exn" where
  "http_of (MF_HTTP n) = MC_HTTP n"
| "http_of (MF_Uncaught e) = MC_Raised e"

text \<open>A request to one of the tenant endpoints: who asks, whether the institution is active, and then
  the endpoint on its database.\<close>

definition tenant_endpoint :: "mf_env \<Rightarrow> request_env \<Rightarrow> string \<Rightarrow> string option \<Rightarrow> tenant_request \<Rightarrow> ('s, unit) mfm" where
  "tenant_endpoint env renv slug credentials req = request (
     chain (get_current_staff_user env slug credentials) (\<lambda>staff.
     chain (get_tenant_db env slug) (\<lambda>url.
     chain (in_tenant url (\<lambda>t. map_err http_of (tenant_handler (renv\<lparr>env_staff_id := su_id staff\<rparr>) (su_role staff) req t))) (\<lambda>t.
     put_tenant url t))))"

text \<open>A request to one of the tenant's reading endpoints.\<close>

definition tenant_read :: "mf_env \<Rightarrow> string \<Rightarrow> string option \<Rightarrow> (staff_role \<Rightarrow> tenant_db \<Rightarrow> mf_http + 'a) \<Rightarrow> ('s, 'a) mfm" where
  "tenant_read env slug credentials endpoint = request (
     chain (get_current_staff_user env slug credentials) (\<lambda>staff.
     chain (get_tenant_db env slug) (\<lambda>url.
     in_tenant url (\<lambda>t. map_err http_of (endpoint (su_role staff) t)))))"

section \<open>Signing in\<close>

definition login :: "mf_env \<Rightarrow> string \<Rightarrow> string \<Rightarrow> string \<Rightarrow> ('s, string) mfm" where
  "login env slug email password = request (
     chain (get_institution_by_slug slug) (\<lambda>institution.
     chain (query_one (\<lambda>db. filter (\<lambda>s. su_institution_id s = in_id institution \<and> su_email s = email) (m_staff db))) (\<lambda>found.
     chain (some_or (MC_HTTP 401) found) (\<lambda>staff.
     chain (check (su_is_active staff \<and> me_verify env (su_password_hash staff) password) (MC_HTTP 401)) (\<lambda>_.
     give (create_staff_access_token env (su_id staff) (in_id institution) (staff_role_value (su_role staff))))))))"

definition me :: "mf_env \<Rightarrow> string \<Rightarrow> string option \<Rightarrow> ('s, staff_user) mfm" where
  "me env slug credentials = request (get_current_staff_user env slug credentials)"

section \<open>Jobs of the service\<close>

definition new_mf_job :: "uid \<Rightarrow> instant \<Rightarrow> string \<Rightarrow> (string \<times> string) list \<Rightarrow> uid option \<Rightarrow> mf_job" where
  "new_mf_job i now type payload institution_id =
     \<lparr>mj_id = i, mj_type = type, mj_status = MJ_QUEUED, mj_institution_id = institution_id, mj_payload = payload,
      mj_result = None, mj_error = None, mj_attempts = 0, mj_max_attempts = 5, mj_next_run_at = now,
      mj_started_at = None, mj_completed_at = None, mj_created_at = now\<rparr>"

definition enqueue :: "mf_env \<Rightarrow> string \<Rightarrow> (string \<times> string) list \<Rightarrow> uid option \<Rightarrow> ('s, mf_job) mfm" where
  "enqueue env type payload institution_id =
     chain new_uuid (\<lambda>i.
     case new_mf_job i (me_now env) type payload institution_id of job \<Rightarrow>
     chain (change_db (\<lambda>db. db\<lparr>m_jobs := m_jobs db @ [job]\<rparr>)) (\<lambda>_. give job))"

definition get_job :: "mf_env \<Rightarrow> string option \<Rightarrow> uid \<Rightarrow> ('s, mf_job) mfm" where
  "get_job env credentials job_id = request (
     chain (require_mf_operator env credentials) (\<lambda>_.
     chain (query_db (\<lambda>db. tget mj_id (m_jobs db) job_id)) (some_or (MC_HTTP 404))))"

section \<open>Institutions\<close>

definition slug_tail_char :: "char \<Rightarrow> bool" where
  "slug_tail_char c \<longleftrightarrow> is_lower c \<or> is_digit c \<or> c = CHR ''-''"

definition institution_create_ok :: "string \<Rightarrow> string \<Rightarrow> string \<Rightarrow> string \<Rightarrow> bool" where
  "institution_create_ok name slug region_code currency \<longleftrightarrow>
     len_between 2 200 name \<and>
     (case slug of [] \<Rightarrow> False | c # cs \<Rightarrow> is_lower c \<and> len_between 1 62 cs \<and> list_all slug_tail_char cs) \<and>
     len_between 2 50 region_code \<and> length currency = 3"

definition add_institution :: "mf_env \<Rightarrow> string \<Rightarrow> string \<Rightarrow> ('s, institution) mfm" where
  "add_institution env name slug =
     chain new_uuid (\<lambda>i.
     case \<lparr>in_id = i, in_name = name, in_slug = slug, in_status = IN_PROVISIONING, in_cp_project_id = None,
           in_cp_database_id = None, in_db_host = None, in_db_port = None, in_db_name = None, in_db_username = None,
           in_encrypted_db_password = None, in_failure_reason = None, in_created_at = me_now env\<rparr> of institution \<Rightarrow>
     chain (change_db (\<lambda>db. db\<lparr>m_institutions := m_institutions db @ [institution]\<rparr>)) (\<lambda>_.
     give institution))"

text \<open>\<open>(institution_id, email)\<close> is unique among the staff.\<close>

definition add_staff :: "mf_env \<Rightarrow> uid \<Rightarrow> string \<Rightarrow> string \<Rightarrow> staff_role \<Rightarrow> uid option \<Rightarrow> ('s, staff_user) mfm" where
  "add_staff env institution_id email password role agent_id =
     chain new_uuid (\<lambda>i.
     case \<lparr>su_id = i, su_institution_id = institution_id, su_email = email, su_password_hash = me_hash env password,
           su_role = role, su_tenant_agent_id = agent_id, su_is_active = True, su_created_at = me_now env\<rparr> of staff \<Rightarrow>
     chain (query_db (\<lambda>db. list_ex (\<lambda>s. su_institution_id s = institution_id \<and> su_email s = email) (m_staff db))) (\<lambda>taken.
     chain (check (\<not> taken) MC_IntegrityError) (\<lambda>_.
     chain (change_db (\<lambda>db. db\<lparr>m_staff := m_staff db @ [staff]\<rparr>)) (\<lambda>_.
     give staff))))"

definition create_institution ::
    "mf_env \<Rightarrow> string option \<Rightarrow> string \<Rightarrow> string \<Rightarrow> string \<Rightarrow> string \<Rightarrow> string \<Rightarrow> ('s, institution \<times> uid \<times> string) mfm" where
  "create_institution env credentials name slug region_code currency admin_email = request (
     chain (require_mf_operator env credentials) (\<lambda>_.
     chain (check (institution_create_ok name slug region_code currency) (MC_HTTP 422)) (\<lambda>_.
     chain (query_one (\<lambda>db. filter (\<lambda>i. in_slug i = slug) (m_institutions db))) (\<lambda>existing.
     chain (check (existing = None) (MC_HTTP 409)) (\<lambda>_.
     chain (add_institution env name slug) (\<lambda>institution.
     chain (add_staff env (in_id institution) admin_email (me_random_password env) INSTITUTION_ADMIN None) (\<lambda>_.
     chain (enqueue env ''onboard_institution''
              [(''institution_id'', nat_string (in_id institution)), (''region_code'', region_code), (''currency'', currency)]
              (Some (in_id institution))) (\<lambda>job.
     chain commit_db (\<lambda>_.
     give (institution, mj_id job, me_random_password env))))))))))"

definition list_institutions :: "mf_env \<Rightarrow> string option \<Rightarrow> ('s, institution list) mfm" where
  "list_institutions env credentials = request (
     chain (require_mf_operator env credentials) (\<lambda>_. query_db m_institutions))"

section \<open>Staff\<close>

definition staff_create_ok :: "string \<Rightarrow> string \<Rightarrow> bool" where
  "staff_create_ok full_name password \<longleftrightarrow> len_between 2 200 full_name \<and> len_between 8 200 password"

definition permitted :: "staff_role \<Rightarrow> string \<Rightarrow> ('s, unit) mfm" where
  "permitted role action = lifted (map_err http_of (require_staff_permission role action))"

text \<open>The agent row of the institution's own database.\<close>

definition add_agent :: "uid \<Rightarrow> uid option \<Rightarrow> string \<Rightarrow> staff_role \<Rightarrow> tenant_db \<Rightarrow> control_exn + tenant_db" where
  "add_agent i branch_id full_name role t =
     map_err MC_Raised (tenant_commit (t\<lparr>t_agents := t_agents t @
       [\<lparr>ag_id = i, ag_branch_id = branch_id, ag_full_name = full_name, ag_role = role\<rparr>]\<rparr>))"

definition branch_exists :: "string \<Rightarrow> uid option \<Rightarrow> ('s, bool) mfm" where
  "branch_exists url branch_id = (case branch_id of
     None \<Rightarrow> give True
   | Some b \<Rightarrow> in_tenant url (\<lambda>t. Inr (tget br_id (t_branches t) b \<noteq> None)))"

definition create_staff ::
    "mf_env \<Rightarrow> string \<Rightarrow> string option \<Rightarrow> string \<Rightarrow> string \<Rightarrow> string \<Rightarrow> staff_role \<Rightarrow> uid option \<Rightarrow> ('s, staff_user) mfm" where
  "create_staff env slug credentials full_name email password role branch_id = request (
     chain (require_active_institution slug) (\<lambda>institution.
     chain (get_current_staff_user env slug credentials) (\<lambda>staff.
     chain (get_tenant_db env slug) (\<lambda>url.
     chain (check (staff_create_ok full_name password) (MC_HTTP 422)) (\<lambda>_.
     chain (permitted (su_role staff) ''staff:manage'') (\<lambda>_.
     chain (check (\<not> (role = INSTITUTION_ADMIN \<and> branch_id \<noteq> None)) (MC_HTTP 400)) (\<lambda>_.
     chain (check (\<not> (role \<noteq> INSTITUTION_ADMIN \<and> branch_id = None)) (MC_HTTP 400)) (\<lambda>_.
     chain (branch_exists url branch_id) (\<lambda>ok.
     chain (check ok (MC_HTTP 404)) (\<lambda>_.
     chain (query_one (\<lambda>db. filter (\<lambda>s. su_institution_id s = in_id institution \<and> su_email s = email) (m_staff db))) (\<lambda>existing.
     chain (check (existing = None) (MC_HTTP 409)) (\<lambda>_.
     chain new_uuid (\<lambda>agent_id.
     chain (in_tenant url (add_agent agent_id branch_id full_name role)) (\<lambda>t.
     chain (put_tenant url t) (\<lambda>_.
     chain (add_staff env (in_id institution) email password role (Some agent_id)) (\<lambda>new_staff.
     chain commit_db (\<lambda>_.
     give new_staff)))))))))))))))))"

definition list_staff :: "mf_env \<Rightarrow> string \<Rightarrow> string option \<Rightarrow> ('s, staff_user list) mfm" where
  "list_staff env slug credentials = request (
     chain (require_active_institution slug) (\<lambda>institution.
     chain (get_current_staff_user env slug credentials) (\<lambda>staff.
     chain (permitted (su_role staff) ''staff:read'') (\<lambda>_.
     query_db (\<lambda>db. filter (\<lambda>s. su_institution_id s = in_id institution) (m_staff db))))))"

end
