(* ===== verification/Retry_Queue.thy ===== *)
theory Retry_Queue
  imports Prelude
begin

text \<open>
  The contract of a job table that serves as a queue: claiming hands out the oldest job that is
  due and counts the attempt, a failure puts the job back with a growing delay until its attempts
  are used up, a success finishes it.  Both deployables keep such a table; what follows from the
  contract (the attempt counter stays within its bound, and a worker that keeps polling brings
  every job to an end) is proved here once.
\<close>

datatype job_phase = Waiting | Active | Done | Dead

text \<open>The longest delay between two attempts, in microseconds.\<close>

definition max_delay :: int where
  "max_delay = 300 * 1000000"

locale retry_queue =
  fixes key :: "'j \<Rightarrow> uid" and phase :: "'j \<Rightarrow> job_phase"
    and attempts :: "'j \<Rightarrow> int" and max_attempts :: "'j \<Rightarrow> int"
    and next_run :: "'j \<Rightarrow> instant" and created :: "'j \<Rightarrow> instant"
    and claim :: "instant \<Rightarrow> 'j list \<Rightarrow> ('j \<times> 'j list) option"
    and succeed :: "instant \<Rightarrow> 'r \<Rightarrow> 'j \<Rightarrow> 'j"
    and fail :: "instant \<Rightarrow> string \<Rightarrow> 'j \<Rightarrow> 'j"
  assumes claim_None: "claim now q = None \<longleftrightarrow> (\<forall>j\<in>set q. \<not> (phase j = Waiting \<and> next_run j \<le> now))"
    and claim_Some: "claim now q = Some (j', q') \<Longrightarrow>
      \<exists>j\<in>set q. phase j = Waiting \<and> next_run j \<le> now \<and>
        (\<forall>k\<in>set q. phase k = Waiting \<and> next_run k \<le> now \<longrightarrow> created j \<le> created k) \<and>
        key j' = key j \<and> phase j' = Active \<and> attempts j' = attempts j + 1 \<and>
        max_attempts j' = max_attempts j \<and> created j' = created j \<and> q' = tset key j' q"
    and succeed_law: "key (succeed now r j) = key j \<and> phase (succeed now r j) = Done \<and>
      attempts (succeed now r j) = attempts j \<and> max_attempts (succeed now r j) = max_attempts j"
    and fail_law: "key (fail now e j) = key j \<and> attempts (fail now e j) = attempts j \<and>
      max_attempts (fail now e j) = max_attempts j \<and>
      phase (fail now e j) = (if attempts j \<ge> max_attempts j then Dead else Waiting)"
    and fail_delay: "attempts j < max_attempts j \<Longrightarrow> 1 \<le> attempts j \<Longrightarrow>
      next_run (fail now e j) \<le> now + max_delay"
begin

text \<open>One poll: claim a job, run its handler (\<open>Inr r\<close> when it returned, \<open>Inl e\<close> when it
  raised) and record the outcome.\<close>

definition poll :: "instant \<Rightarrow> (string + 'r) \<Rightarrow> 'j list \<Rightarrow> 'j list" where
  "poll now outcome q = (case claim now q of
     None \<Rightarrow> q
   | Some (j, q') \<Rightarrow> tset key (case outcome of Inl e \<Rightarrow> fail now e j | Inr r \<Rightarrow> succeed now r j) q')"

fun polls :: "(instant \<times> (string + 'r)) list \<Rightarrow> 'j list \<Rightarrow> 'j list" where
  "polls [] q = q"
| "polls ((now, outcome) # rs) q = polls rs (poll now outcome q)"

definition bounded :: "'j list \<Rightarrow> bool" where
  "bounded q \<longleftrightarrow> distinct (map key q) \<and>
     (\<forall>j\<in>set q. 0 \<le> attempts j \<and> attempts j \<le> max_attempts j \<and>
        (phase j = Waiting \<longrightarrow> attempts j < max_attempts j))"

definition remaining :: "'j \<Rightarrow> int" where
  "remaining j = (if phase j = Waiting then max_attempts j - attempts j else 0)"

definition work :: "'j list \<Rightarrow> int" where
  "work q = sum_list (map remaining q)"

definition record_outcome :: "instant \<Rightarrow> (string + 'r) \<Rightarrow> 'j \<Rightarrow> 'j" where
  "record_outcome now outcome j = (case outcome of Inl e \<Rightarrow> fail now e j | Inr r \<Rightarrow> succeed now r j)"

lemma outcome_law:
  "key (record_outcome now outcome j) = key j" "attempts (record_outcome now outcome j) = attempts j"
  "max_attempts (record_outcome now outcome j) = max_attempts j"
  "phase (record_outcome now outcome j) \<noteq> Active"
  "phase (record_outcome now outcome j) = Waiting \<Longrightarrow> attempts j < max_attempts j"
  using succeed_law fail_law
  by (auto simp: record_outcome_def split: sum.splits if_splits)

text \<open>A poll either finds nothing due, or replaces one waiting job, the oldest that is due, by its
  outcome after one more attempt.\<close>

lemma poll_cases:
  obtains (idle) "claim now q = None" "poll now outcome q = q"
  | (ran) j r where "j \<in> set q" "phase j = Waiting" "key r = key j"
      "poll now outcome q = tset key r q" "attempts r = attempts j + 1"
      "max_attempts r = max_attempts j" "phase r \<noteq> Active"
      "phase r = Waiting \<longrightarrow> attempts r < max_attempts r \<and> (0 \<le> attempts j \<longrightarrow> next_run r \<le> now + max_delay)"
proof (cases "claim now q")
  case None
  then show ?thesis using idle by (simp add: poll_def)
next
  case (Some p)
  obtain j' q' where p: "p = (j', q')" by (cases p)
  from claim_Some [OF Some [unfolded p]] obtain j where j: "j \<in> set q" "phase j = Waiting"
    "key j' = key j" "attempts j' = attempts j + 1" "max_attempts j' = max_attempts j" "q' = tset key j' q"
    by blast
  define r where "r = record_outcome now outcome j'"
  have r: "key r = key j" "attempts r = attempts j + 1" "max_attempts r = max_attempts j"
    "phase r \<noteq> Active" "phase r = Waiting \<longrightarrow> attempts r < max_attempts r"
    using outcome_law [of now outcome j'] j by (auto simp: r_def)
  have rnd: "poll now outcome q = tset key r q"
    using Some p j r by (simp add: poll_def r_def record_outcome_def [symmetric] tset_def)
  have "phase r = Waiting \<longrightarrow> 0 \<le> attempts j \<longrightarrow> next_run r \<le> now + max_delay"
  proof (intro impI)
    assume w: "phase r = Waiting" "0 \<le> attempts j"
    then obtain e where "outcome = Inl e"
      using succeed_law [of now _ j'] by (cases outcome) (auto simp: r_def record_outcome_def)
    then show "next_run r \<le> now + max_delay"
      using w r j fail_delay [of j' now e] by (simp add: r_def record_outcome_def)
  qed
  then show ?thesis using ran j r rnd by blast
qed

lemma bounded_tset:
  assumes "bounded q" "0 \<le> attempts r" "attempts r \<le> max_attempts r"
    "phase r = Waiting \<longrightarrow> attempts r < max_attempts r"
  shows "bounded (tset key r q)"
  using assms by (auto simp: bounded_def dest!: in_tset)

lemma bounded_poll: "bounded q \<Longrightarrow> bounded (poll now outcome q)"
proof (cases rule: poll_cases [of now q outcome])
  case (ran j r)
  assume b: "bounded q"
  then have "0 \<le> attempts j" "attempts j < max_attempts j" using ran by (auto simp: bounded_def)
  then show ?thesis using ran b bounded_tset by simp
qed simp

lemma bounded_polls: "bounded q \<Longrightarrow> bounded (polls rs q)"
  by (induction rs q rule: polls.induct) (auto simp: bounded_poll)

lemma work_nonneg: "bounded q \<Longrightarrow> 0 \<le> work q"
  unfolding work_def by (rule sum_list_pos_member) (auto simp: bounded_def remaining_def)

lemma work_zero:
  assumes "bounded q" "work q \<le> 0" "j \<in> set q"
  shows "phase j \<noteq> Waiting"
proof
  assume w: "phase j = Waiting"
  have "remaining j \<le> work q"
    unfolding work_def using assms(1,3)
    by (intro member_le_sum_list) (auto simp: bounded_def remaining_def)
  then show False using assms w by (auto simp: bounded_def remaining_def)
qed

text \<open>Every poll that finds a job uses up at least one of the attempts left.\<close>

lemma work_poll:
  assumes "bounded q" "claim now q \<noteq> None"
  shows "work (poll now outcome q) \<le> work q - 1"
proof (cases rule: poll_cases [of now q outcome])
  case idle
  then show ?thesis using assms by simp
next
  case (ran j r)
  have g: "tget key q (key r) = Some j"
    using ran assms tget_distinct [of key q j] by (simp add: bounded_def)
  have "remaining r \<le> remaining j - 1"
    using ran assms by (auto simp: remaining_def bounded_def)
  then show ?thesis
    using sum_list_tset [of key q r j remaining] g ran assms by (simp add: work_def bounded_def)
qed

definition all_due :: "instant \<Rightarrow> 'j list \<Rightarrow> bool" where
  "all_due now q \<longleftrightarrow> (\<forall>j\<in>set q. phase j = Waiting \<longrightarrow> next_run j \<le> now)"

fun spaced :: "instant \<Rightarrow> (instant \<times> (string + 'r)) list \<Rightarrow> bool" where
  "spaced t [] = True"
| "spaced t ((now, outcome) # rs) = (t \<le> now \<and> spaced (now + max_delay) rs)"

lemma all_due_poll:
  assumes "bounded q" "all_due now q" "now + max_delay \<le> later"
  shows "all_due later (poll now outcome q)"
proof -
  have d: "0 \<le> max_delay" by (simp add: max_delay_def)
  show ?thesis
  proof (cases rule: poll_cases [of now q outcome])
    case idle
    then show ?thesis using assms d by (force simp: all_due_def)
  next
    case (ran j r)
    then have "0 \<le> attempts j" using assms by (auto simp: bounded_def)
    then show ?thesis using assms d ran by (force simp: all_due_def dest!: in_tset)
  qed
qed

text \<open>Polls that leave the longest delay between them end with no job waiting, after at most as
  many polls as there were attempts left.\<close>

lemma polls_drain:
  "bounded q \<Longrightarrow> all_due t q \<Longrightarrow> spaced t rs \<Longrightarrow> work q \<le> int (length rs) \<Longrightarrow>
   \<forall>j\<in>set (polls rs q). phase j \<noteq> Waiting"
proof (induction rs arbitrary: q t)
  case Nil
  then show ?case using work_zero by auto
next
  case (Cons p rs)
  obtain now outcome where p: "p = (now, outcome)" by (cases p)
  have due: "all_due now q" using Cons.prems p by (force simp: all_due_def)
  have later: "all_due (now + max_delay) (poll now outcome q)"
    using all_due_poll Cons.prems(1) due by simp
  have w: "work (poll now outcome q) \<le> int (length rs)"
  proof (cases "claim now q = None")
    case True
    then have "\<forall>j\<in>set q. phase j \<noteq> Waiting" using claim_None due by (auto simp: all_due_def)
    then have "work q = 0" by (auto simp: work_def remaining_def intro!: sum_list_map_0)
    then show ?thesis using True by (simp add: poll_def)
  next
    case False
    then show ?thesis using work_poll [OF Cons.prems(1) False, of outcome] Cons.prems(4) by simp
  qed
  show ?case
    using Cons.IH [OF bounded_poll [OF Cons.prems(1)] later _ w] Cons.prems p by simp
qed

lemma polls_no_active:
  "\<forall>j\<in>set q. phase j \<noteq> Active \<Longrightarrow> \<forall>j\<in>set (polls rs q). phase j \<noteq> Active"
proof (induction rs q rule: polls.induct)
  case (2 now outcome rs q)
  have "\<forall>j\<in>set (poll now outcome q). phase j \<noteq> Active"
    using 2(2) by (cases rule: poll_cases [of now q outcome]) (auto dest!: in_tset)
  then show ?case using 2(1) by simp
qed simp

end

end
