(* ===== verification/MF_Onboarding.thy ===== *)
theory MF_Onboarding
  imports MF_Control Retry_Queue
begin

text \<open>
  The job queue of the microfinance service (\<open>src/microfinance/mf_app/services/jobs.py\<close>), its worker
  (\<open>worker.py\<close>) and the one job it runs: onboarding an institution (\<open>services/onboarding.py\<close>,
  \<open>platform_client.py\<close>, \<open>secrets.py\<close>, \<open>tenant_migrate.py\<close>), which creates a project and a database
  on the platform through the SDK, waits for them, applies the tenant schema and seeds it.
\<close>

section \<open>The job table\<close>

definition mf_backoff :: "int \<Rightarrow> int" where
  "mf_backoff attempts = min (5 * 2 ^ nat (attempts - 1)) 300"

definition mf_due :: "instant \<Rightarrow> mf_job \<Rightarrow> bool" where
  "mf_due now j \<longleftrightarrow> mj_status j \<in> {MJ_QUEUED, MJ_RETRYING} \<and> mj_next_run_at j \<le> now"

definition claim_mf_job :: "instant \<Rightarrow> mf_job list \<Rightarrow> (mf_job \<times> mf_job list) option" where
  "claim_mf_job now jobs =
     (case sort_key mj_created_at (filter (mf_due now) jobs) of
        [] \<Rightarrow> None
      | j # _ \<Rightarrow> (case j\<lparr>mj_status := MJ_RUNNING, mj_attempts := mj_attempts j + 1, mj_started_at := Some now\<rparr> of
                   j' \<Rightarrow> Some (j', tset mj_id j' jobs)))"

definition mf_succeeded :: "instant \<Rightarrow> (string \<times> string) list \<Rightarrow> mf_job \<Rightarrow> mf_job" where
  "mf_succeeded now result j =
     j\<lparr>mj_status := MJ_SUCCEEDED, mj_result := Some result, mj_completed_at := Some now, mj_error := None\<rparr>"

definition mf_failed_or_retry :: "instant \<Rightarrow> string \<Rightarrow> mf_job \<Rightarrow> mf_job" where
  "mf_failed_or_retry now error j =
     (if mj_attempts j \<ge> mj_max_attempts j
      then j\<lparr>mj_error := Some (take 2000 error), mj_status := MJ_FAILED, mj_completed_at := Some now\<rparr>
      else j\<lparr>mj_error := Some (take 2000 error), mj_status := MJ_RETRYING,
             mj_next_run_at := now + mf_backoff (mj_attempts j) * 1000000\<rparr>)"

section \<open>The platform account\<close>

definition get_platform_account :: "('s, platform_account) mfm" where
  "get_platform_account = chain (query_db m_accounts) (\<lambda>accounts.
     case accounts of [] \<Rightarrow> throw MC_RuntimeError | a # _ \<Rightarrow> give a)"

definition put_account :: "platform_account \<Rightarrow> ('s, unit) mfm" where
  "put_account a = change_db (\<lambda>db. db\<lparr>m_accounts := tset pa_id a (m_accounts db)\<rparr>)"

text \<open>A call of the SDK, on what is outside of the service.\<close>

definition on_platform :: "('s, sdk_exn, 'a) eff \<Rightarrow> ('s, 'a) mfm" where
  "on_platform m w = (case m (mw_outside w) of (r, s) \<Rightarrow> (map_err MC_Sdk r, w\<lparr>mw_outside := s\<rparr>))"

definition needs_login :: "mf_env \<Rightarrow> platform_account \<Rightarrow> bool" where
  "needs_login env a \<longleftrightarrow> pa_cached_access_token a = None \<or>
     (case pa_token_expires_at a of None \<Rightarrow> True | Some t \<Rightarrow> t - me_now env < 60000000)"

definition get_authenticated_client :: "mf_env \<Rightarrow> 's network \<Rightarrow> ('s, platform_client) mfm" where
  "get_authenticated_client env net =
     chain get_platform_account (\<lambda>a.
     if needs_login env a then
       chain (lifted (decrypt_password env (Some (pa_encrypted_cp_password a)))) (\<lambda>password.
       chain (on_platform (sdk_login net (new_client (me_platform_api_url env) None) (pa_cp_email a) password None)) (\<lambda>(_, client).
       chain (put_account (a\<lparr>pa_cached_access_token := pc_token client,
                            pa_token_expires_at := Some (me_now env + 25 * 60000000)\<rparr>)) (\<lambda>_.
       give client)))
     else give ((new_client (me_platform_api_url env) None)\<lparr>pc_token := pa_cached_access_token a\<rparr>))"

section \<open>Onboarding\<close>

definition payload_field :: "mf_job \<Rightarrow> string \<Rightarrow> ('s, string) mfm" where
  "payload_field job name = some_or MC_KeyError (map_of (mj_payload job) name)"

definition uid_of_text :: "string \<Rightarrow> uid option" where
  "uid_of_text s = (case unsigned_value s of None \<Rightarrow> None | Some i \<Rightarrow> Some (nat i))"

fun uid_of :: "jv \<Rightarrow> control_exn + uid" where
  "uid_of (JStr s) = (case uid_of_text s of None \<Rightarrow> Inl MC_ValueError | Some i \<Rightarrow> Inr i)"
| "uid_of _ = Inl MC_AttributeError"

text \<open>The platform's ids are strings; another JSON value in their place is an error.\<close>

fun text_of :: "jv \<Rightarrow> control_exn + string" where
  "text_of (JStr s) = Inr s"
| "text_of _ = Inl MC_ValueError"

fun int_of :: "jv \<Rightarrow> control_exn + int" where
  "int_of (JInt i) = Inr i"
| "int_of _ = Inl MC_ValueError"

definition json_field :: "string \<Rightarrow> jv \<Rightarrow> control_exn + jv" where
  "json_field name v = map_err MC_Sdk (field name v)"

definition json_text :: "string \<Rightarrow> jv \<Rightarrow> ('s, string) mfm" where
  "json_text name v = lifted (rbind (json_field name v) text_of)"

record onboarding =
  ob_institution :: institution
  ob_client :: platform_client
  ob_organization :: string
  ob_project :: jv
  ob_project_id :: string
  ob_result :: jv
  ob_job :: string
  ob_currency :: string

text \<open>Up to the wait.\<close>

definition onboard_start :: "mf_env \<Rightarrow> 's network \<Rightarrow> mf_job \<Rightarrow> ('s, onboarding) mfm" where
  "onboard_start env net job =
     chain (payload_field job ''institution_id'') (\<lambda>institution_id.
     chain (some_or MC_ValueError (uid_of_text institution_id)) (\<lambda>i.
     chain (query_db (\<lambda>db. tget in_id (m_institutions db) i)) (\<lambda>found.
     chain (some_or MC_RuntimeError found) (\<lambda>institution.
     chain (payload_field job ''region_code'') (\<lambda>region_code.
     chain (payload_field job ''currency'') (\<lambda>currency.
     chain (get_authenticated_client env net) (\<lambda>client.
     chain get_platform_account (\<lambda>account.
     case nat_string (pa_cp_organization_id account) of org \<Rightarrow>
     chain (on_platform (sdk_create_project net client org (in_name institution) (in_slug institution))) (\<lambda>project.
     chain (json_text ''id'' project) (\<lambda>project_id.
     chain (on_platform (sdk_create_database net client org project_id ''main'' region_code ''shared'' 1 1024 10)) (\<lambda>create_result.
     chain (json_text ''job_id'' create_result) (\<lambda>job_id.
     give \<lparr>ob_institution = institution, ob_client = client, ob_organization = org, ob_project = project,
           ob_project_id = project_id, ob_result = create_result, ob_job = job_id, ob_currency = currency\<rparr>))))))))))))"

definition run_tenant_migrations :: "mf_env \<Rightarrow> string \<Rightarrow> ('s, unit) mfm" where
  "run_tenant_migrations env url =
     (if me_migrate env url \<noteq> 0 then throw MC_RuntimeError
      else updates (\<lambda>w. case map_of (mw_tenants w) url of
        None \<Rightarrow> w\<lparr>mw_tenants := mw_tenants w @ [(url, empty_tenant)]\<rparr> | Some _ \<Rightarrow> w))"

definition seed :: "string \<Rightarrow> string \<Rightarrow> string \<Rightarrow> ('s, unit) mfm" where
  "seed url name currency =
     chain new_uuid (\<lambda>pid. chain new_uuid (\<lambda>cash. chain new_uuid (\<lambda>income.
     chain (in_tenant url (\<lambda>t. map_err MC_Raised (seed_tenant pid cash income name currency t))) (\<lambda>t.
     put_tenant url t))))"

text \<open>The assignments, in their order: what was assigned before one fails stays assigned.\<close>

definition assign :: "(institution \<Rightarrow> control_exn + institution) \<Rightarrow> institution \<Rightarrow> ('s, institution) mfm" where
  "assign f i = chain (lifted (f i)) (\<lambda>i'. chain (put_institution i') (\<lambda>_. give i'))"

definition assign_text :: "string \<Rightarrow> (string \<Rightarrow> institution \<Rightarrow> institution) \<Rightarrow> jv \<Rightarrow> institution \<Rightarrow> ('s, institution) mfm" where
  "assign_text name put v = assign (\<lambda>i. rbind (rbind (json_field name v) text_of) (\<lambda>x. Inr (put x i)))"

definition assign_connection :: "mf_env \<Rightarrow> jv \<Rightarrow> jv \<Rightarrow> jv \<Rightarrow> institution \<Rightarrow> ('s, institution) mfm" where
  "assign_connection env project database connection institution =
     chain (assign (\<lambda>i. rbind (rbind (json_field ''id'' project) uid_of) (\<lambda>x. Inr (i\<lparr>in_cp_project_id := Some x\<rparr>))) institution) (\<lambda>i.
     chain (assign (\<lambda>i. rbind (rbind (json_field ''id'' database) uid_of) (\<lambda>x. Inr (i\<lparr>in_cp_database_id := Some x\<rparr>))) i) (\<lambda>i.
     chain (assign_text ''host'' (\<lambda>x i. i\<lparr>in_db_host := Some x\<rparr>) connection i) (\<lambda>i.
     chain (assign (\<lambda>i. rbind (rbind (json_field ''port'' connection) int_of) (\<lambda>x. Inr (i\<lparr>in_db_port := Some x\<rparr>))) i) (\<lambda>i.
     chain (assign_text ''database'' (\<lambda>x i. i\<lparr>in_db_name := Some x\<rparr>) connection i) (\<lambda>i.
     chain (assign_text ''username'' (\<lambda>x i. i\<lparr>in_db_username := Some x\<rparr>) connection i) (\<lambda>i.
     assign_text ''password'' (\<lambda>x i. i\<lparr>in_encrypted_db_password := Some (me_encrypt env x)\<rparr>) connection i))))))"

definition onboard_finish :: "mf_env \<Rightarrow> 's network \<Rightarrow> onboarding \<Rightarrow> ('s, (string \<times> string) list) mfm" where
  "onboard_finish env net ob =
     chain (lifted (rbind (json_field ''database'' (ob_result ob)) (\<lambda>d. rbind (json_field ''id'' d) text_of))) (\<lambda>database_id.
     chain (on_platform (sdk_get_database net (ob_client ob) (ob_organization ob) (ob_project_id ob) database_id)) (\<lambda>database.
     chain (json_text ''id'' database) (\<lambda>read_id.
     chain (on_platform (sdk_get_connection net (ob_client ob) (ob_organization ob) (ob_project_id ob) read_id)) (\<lambda>connection.
     chain (assign_connection env (ob_project ob) database connection (ob_institution ob)) (\<lambda>institution.
     chain (lifted (tenant_database_url env institution)) (\<lambda>url.
     chain (run_tenant_migrations env url) (\<lambda>_.
     chain (seed url (in_name institution) (ob_currency ob)) (\<lambda>_.
     chain (put_institution (institution\<lparr>in_status := IN_ACTIVE\<rparr>)) (\<lambda>_.
     give [(''cp_project_id'', shown (map_option nat_string (in_cp_project_id institution)))])))))))))"

text \<open>The whole handler; \<open>None\<close> is a wait that never ends.\<close>

definition execute_onboard_institution ::
    "mf_env \<Rightarrow> 's network \<Rightarrow> mf_job \<Rightarrow> 's mf_world \<Rightarrow> ((control_exn + (string \<times> string) list) \<times> 's mf_world) option" where
  "execute_onboard_institution env net job w =
     (case onboard_start env net job w of
        (Inl e, w') \<Rightarrow> Some (Inl e, w')
      | (Inr ob, w') \<Rightarrow>
          (case sdk_wait_for_job net (ob_client ob) (ob_job ob) 1 120 (mw_outside w') of
             None \<Rightarrow> None
           | Some (r, s) \<Rightarrow>
               (case r of
                  Inl e \<Rightarrow> Some (Inl (MC_Sdk e), w'\<lparr>mw_outside := s\<rparr>)
                | Inr _ \<Rightarrow> Some (onboard_finish env net ob (w'\<lparr>mw_outside := s\<rparr>)))))"

section \<open>The worker\<close>

definition put_job :: "mf_job \<Rightarrow> control_db \<Rightarrow> control_db" where
  "put_job j db = db\<lparr>m_jobs := tset mj_id j (m_jobs db)\<rparr>"

definition mark_institution_failed :: "mf_job \<Rightarrow> control_db \<Rightarrow> control_db" where
  "mark_institution_failed job db =
     (case mj_institution_id job of
        None \<Rightarrow> db
      | Some i \<Rightarrow> (case tget in_id (m_institutions db) i of
          None \<Rightarrow> db
        | Some institution \<Rightarrow> db\<lparr>m_institutions := tset in_id
            (institution\<lparr>in_status := IN_FAILED, in_failure_reason := mj_error job\<rparr>) (m_institutions db)\<rparr>))"

definition run_handler ::
    "mf_env \<Rightarrow> 's network \<Rightarrow> mf_job \<Rightarrow> 's mf_world \<Rightarrow> ((control_exn + (string \<times> string) list) \<times> 's mf_world) option" where
  "run_handler env net job w =
     (if mj_type job = ''onboard_institution'' then execute_onboard_institution env net job w
      else Some (Inl MC_ValueError, w))"

text \<open>What is recorded of an attempt.\<close>

definition record_attempt :: "mf_env \<Rightarrow> mf_job \<Rightarrow> control_exn + (string \<times> string) list \<Rightarrow> control_db \<Rightarrow> control_db" where
  "record_attempt env job outcome db =
     (case outcome of
        Inr result \<Rightarrow> put_job (mf_succeeded (me_now env) result job) db
      | Inl e \<Rightarrow>
          (case mf_failed_or_retry (me_now env) (me_text env e) job of job' \<Rightarrow>
             (if mj_status job' = MJ_FAILED \<and> mj_type job' = ''onboard_institution'' then mark_institution_failed job' else id)
               (put_job job' db)))"

definition run_once :: "mf_env \<Rightarrow> 's network \<Rightarrow> 's mf_world \<Rightarrow> (bool \<times> 's mf_world) option" where
  "run_once env net w =
     (case claim_mf_job (me_now env) (m_jobs (mw_db w)) of
        None \<Rightarrow> Some (False, w\<lparr>mw_committed := mw_db w\<rparr>)
      | Some (job, jobs) \<Rightarrow>
          (case (mw_db w)\<lparr>m_jobs := jobs\<rparr> of claimed \<Rightarrow>
          (case run_handler env net job (w\<lparr>mw_db := claimed, mw_committed := claimed\<rparr>) of
             None \<Rightarrow> None
           | Some (outcome, w') \<Rightarrow>
               (case record_attempt env job outcome (mw_db w') of db \<Rightarrow>
                  Some (True, w'\<lparr>mw_db := db, mw_committed := db\<rparr>)))))"

end
