(* ===== verification/MF_Invariant.thy ===== *)
theory MF_Invariant
  imports MF_Api
begin

text \<open>
  What holds in every state an institution's database can reach: the books are consistent, the
  money columns hold whole cents, no savings account is overdrawn, the schedules are well-formed,
  and a loan's status only moves along the life cycle.  Each service operation preserves the
  invariant; \<open>tenant_sys\<close> is the interpretation of \<open>invariant_system\<close> from which the
  reachability properties follow.
\<close>

section \<open>Whole cents are preserved\<close>

lemma put_account_cents:
  assumes "cents_db db" "is_cents (balance_of acc)" and "get_account db ty i = Inr acc0" "acc = set_balance v acc0"
  shows "cents_db (put_account acc db)"
  using assms
  by (cases acc0) (auto simp: cents_db_iff get_account_Inr dest!: in_tset tget_in)

lemma get_account_cents: "cents_db db \<Longrightarrow> get_account db ty i = Inr acc \<Longrightarrow> is_cents (balance_of acc)"
  by (auto simp: cents_db_iff get_account_Inr dest!: tget_in)

lemma post_line_cents:
  assumes "cents_db db" "is_cents (ll_amount line)" "post_line txid line db = Inr db'"
  shows "cents_db db'"
proof -
  obtain acc where acc: "get_account db (ll_account_type line) (ll_account_id line) = Inr acc"
    and db': "db' = put_account (set_balance (balance_of acc
                 + signed (ll_direction line) (normal_side acc) (ll_amount line)) acc)
               (db\<lparr>t_entries := t_entries db @
                   [\<lparr>le_transaction_id = txid, le_account_type = ll_account_type line,
                     le_account_id = ll_account_id line, le_direction = ll_direction line,
                     le_amount = ll_amount line\<rparr>]\<rparr>)" (is "db' = put_account ?acc ?db1")
    using assms(3) by (rule post_line_Inr)
  have "cents_db ?db1" using assms(1,2) by (simp add: cents_db_iff)
  moreover have "get_account ?db1 (ll_account_type line) (ll_account_id line) = Inr acc"
    using acc by (subst get_account_cong [where db' = db]) simp_all
  moreover have "is_cents (balance_of ?acc)"
    using get_account_cents [OF assms(1) acc] assms(2) by (auto simp: signed_def)
  ultimately show ?thesis unfolding db' by (intro put_account_cents) auto
qed

lemma post_lines_cents:
  "cents_db db \<Longrightarrow> (\<And>l. l \<in> set lines \<Longrightarrow> is_cents (ll_amount l)) \<Longrightarrow> post_lines txid lines db = Inr db'
   \<Longrightarrow> cents_db db'"
  by (induction lines arbitrary: db) (auto simp: rbind_eq_Inr intro: post_line_cents)

lemma post_transaction_cents:
  assumes "cents_db db" "\<And>l. l \<in> set lines \<Longrightarrow> is_cents (ll_amount l)"
    and "post_transaction txid now ty key desc lines db = Inr (db', t)"
  shows "cents_db db'"
  using assms(3)
proof (cases rule: post_transaction_Inr)
  case (posted db1)
  have "is_cents (side_total DEBIT lines)"
    unfolding side_total_def using assms(2) by (intro is_cents_sum_list) auto
  then have "cents_db db1" using assms(1) by (simp add: posted(4,5) cents_db_iff)
  then show ?thesis using assms(2) posted(6) by (rule post_lines_cents)
qed (use assms(1) in simp)

lemma deposit_cents:
  "cents_db db \<Longrightarrow> is_cents amt \<Longrightarrow> deposit txid now a amt key desc db = Inr (db', t) \<Longrightarrow> cents_db db'"
  by (auto simp: deposit_def rbind_eq_Inr mk_line_def elim!: post_transaction_cents [rotated 2] split: if_splits)

lemma withdraw_cents:
  "cents_db db \<Longrightarrow> is_cents amt \<Longrightarrow> withdraw txid now a amt key desc db = Inr (db', t) \<Longrightarrow> cents_db db'"
  by (auto simp: withdraw_def rbind_eq_Inr mk_line_def elim!: post_transaction_cents [rotated 2] split: if_splits)

lemma open_savings_account_Inr:
  assumes "open_savings_account aid num txid now c p amt key db = Inr (db', a)"
  obtains a db1 where "a = \<lparr>sa_id = aid, sa_customer_id = cu_id c, sa_product_id = sp_id p,
              sa_account_number = num, sa_status = SA_ACTIVE, sa_balance_cached = 0\<rparr>"
    "db1 = db\<lparr>t_savings := t_savings db @ [a]\<rparr>" "aid \<notin> keys sa_id (t_savings db)"
    "cu_kyc_status c = KYC_VERIFIED"
    "db' = db1 \<or> 0 < amt \<and> (\<exists>t. deposit txid now a amt (the key) (Some ''Opening deposit'') db1 = Inr (db', t))"
  using assms that
  by (auto simp: open_savings_account_def Let_def rbind_eq_Inr add_savings_account_def tenant_flush_iff
      split: if_splits prod.splits)

lemma open_savings_account_cents:
  assumes "cents_db db" "is_cents amt" "open_savings_account aid num txid now c p amt key db = Inr (db', a)"
  shows "cents_db db'"
  using assms(3)
proof (cases rule: open_savings_account_Inr)
  case (1 a db1)
  have "cents_db db1" using assms(1) by (auto simp: 1(1,2) cents_db_iff)
  then show ?thesis using 1(5) assms(2) by (auto intro: deposit_cents)
qed

lemma flat_loop_cents:
  "flat_loop P n start ppp ip a is = Inr lines \<Longrightarrow> is_cents P \<Longrightarrow> is_cents ppp \<Longrightarrow> is_cents ip \<Longrightarrow> is_cents a
   \<Longrightarrow> l \<in> set lines \<Longrightarrow> is_cents (s_principal_due l) \<and> is_cents (s_interest_due l)"
proof (induction "is" arbitrary: a lines)
  case (Cons i "is")
  have "is_cents (if i = n then a else dadd a ppp)" "is_cents (dsub P a)"
    using Cons.prems by (auto simp: dadd_def dsub_def intro!: dec_is_cents)
  then show ?case using Cons by (auto simp: rbind_eq_Inr)
qed simp

lemma declining_loop_cents:
  "declining_loop r n start inst rem is = Inr lines \<Longrightarrow> is_cents rem
   \<Longrightarrow> l \<in> set lines \<Longrightarrow> is_cents (s_principal_due l) \<and> is_cents (s_interest_due l)"
proof (induction "is" arbitrary: rem lines)
  case (Cons i "is")
  obtain l0 rest x y where L: "lines = l0 # rest" "round_money x = Inr (s_interest_due l0)"
    "s_principal_due l0 = rem \<or> round_money y = Inr (s_principal_due l0)"
    "declining_loop r n start inst (dsub rem (s_principal_due l0)) is = Inr rest"
    using Cons.prems(1) by (cases "i = n") (fastforce simp: rbind_eq_Inr)+
  have c: "is_cents (s_principal_due l0) \<and> is_cents (s_interest_due l0)"
    using L(2,3) Cons.prems(2) quantize_cents_Inr(1) by (auto simp: round_money_Inr)
  then have "is_cents (dsub rem (s_principal_due l0))"
    using Cons.prems(2) by (auto simp: dsub_def intro!: dec_is_cents)
  then show ?case using Cons.IH [OF L(4)] c Cons.prems(3) by (auto simp: L(1))
qed simp

lemma schedule_cents:
  assumes "generate_repayment_schedule P r n m start = Inr lines" "is_cents P" "l \<in> set lines"
  shows "is_cents (s_principal_due l) \<and> is_cents (s_interest_due l)"
  using assms quantize_cents_Inr(1)
  by (auto simp: generate_repayment_schedule_def flat_schedule_def declining_balance_schedule_def
      rbind_eq_Inr round_money_Inr dest: flat_loop_cents declining_loop_cents split: if_splits)

lemma update_loan_cents:
  "cents_db db \<Longrightarrow> (\<And>l. ln_principal (f l) = ln_principal l) \<Longrightarrow>
   (\<And>l. ln_outstanding_principal (f l) = ln_outstanding_principal l) \<Longrightarrow> cents_db (update_loan lid f db)"
  by (auto simp: cents_db_iff update_loan_def dest!: in_tmod)

lemma disburse_loan_cents:
  assumes "cents_db db" "loan \<in> set (t_loans db)"
    and "disburse_loan sid txid now today loan product key ddate db = Inr db'"
  shows "cents_db db'"
  using assms(3)
proof (cases rule: disburse_loan_Inr)
  case (1 p lines cash db2 t)
  have P: "is_cents (ln_principal loan)" using assms(1,2) by (auto simp: cents_db_iff)
  have "cents_db (db\<lparr>t_schedules := x, t_lines := t_lines db @ map (persist_line sid) lines\<rparr>)" for x
    using assms(1) schedule_cents [OF 1(3) P] by (auto simp: cents_db_iff persist_line_def)
  then have "cents_db db2" using P by (rule_tac post_transaction_cents [OF _ _ 1(6)]) (auto simp: mk_line_def)
  then show ?thesis unfolding 1(7) by (rule update_loan_cents) simp_all
qed

lemma repay_installment_cents:
  assumes "cents_db db" "is_cents amount"
    and "repay_installment txid now loan amount key db = Inr (db', t, line')"
  shows "cents_db db'"
  using assms(3)
proof (cases rule: repay_installment_Inr)
  case (1 s line pp ip cash income db2)
  note A = apply_payment_fields [OF 1(5)]
  have L: "is_cents (sl_principal_due line)" "is_cents (sl_interest_due line)" "is_cents (sl_penalty_due line)"
    "is_cents (sl_principal_paid line)" "is_cents (sl_interest_paid line)"
    using first_pending_Some(1) [OF 1(3)] assms(1) by (auto simp: cents_db_iff)
  have pi: "is_cents pp" "is_cents ip"
  proof -
    show "is_cents ip" unfolding A(7) using L assms(2) by (intro is_cents_min) auto
    moreover have "pp = amount - ip" using A(6) by simp
    ultimately show "is_cents pp" using assms(2) by auto
  qed
  have pen: "sl_penalty_due line' = sl_penalty_due line"
    using 1(5) by (auto simp: apply_payment_def Let_def split: if_splits)
  have "cents_db (db\<lparr>t_lines := tset sl_key line' (t_lines db)\<rparr>)"
    using assms(1) L pi A(2-5) pen by (auto simp: cents_db_iff dest!: in_tset)
  then have "cents_db db2" using assms(2) pi
    by (rule_tac post_transaction_cents [OF _ _ 1(8)]) (auto simp: repayment_lines_def mk_line_def split: if_splits)
  then show ?thesis unfolding 1(9) close_if_settled_def by (auto intro: update_loan_cents)
qed

lemma create_loan_cents:
  "cents_db db \<Longrightarrow> is_cents pr \<Longrightarrow> create_loan lid c p pr n db = Inr (db', l) \<Longrightarrow> cents_db db'"
  by (auto simp: create_loan_def Let_def rbind_eq_Inr tenant_flush_iff cents_db_iff split: if_splits)

section \<open>The invariant\<close>

definition savings_nonneg :: "tenant_db \<Rightarrow> bool" where
  "savings_nonneg db \<longleftrightarrow> (\<forall>i a. tget sa_id (t_savings db) i = Some a \<longrightarrow> 0 \<le> sa_balance_cached a)"

definition loans_ok :: "tenant_db \<Rightarrow> bool" where
  "loans_ok db \<longleftrightarrow> (\<forall>i l. tget ln_id (t_loans db) i = Some l \<longrightarrow>
     0 < ln_principal l \<and> 1 \<le> ln_term_months l \<and> ln_term_months l < 2 ^ 31)"

definition tenant_inv :: "tenant_db \<Rightarrow> bool" where
  "tenant_inv db \<longleftrightarrow> ledger_inv db \<and> cents_db db \<and> savings_nonneg db \<and> lines_ok db \<and> schedules_ok db \<and> loans_ok db"

lemma keys_loans_cong:
  "(\<And>i. tget ln_id xs i = None \<longleftrightarrow> tget ln_id ys i = None) \<Longrightarrow> keys ln_id xs = keys ln_id ys"
  by (auto simp: tget_None_iff)

lemma schedules_ok_cong:
  assumes "t_lines db' = t_lines db" "t_schedules db' = t_schedules db"
    and "\<And>i. tget ln_id (t_loans db') i = tget ln_id (t_loans db) i"
  shows "schedules_ok db' = schedules_ok db"
  using assms keys_loans_cong [of "t_loans db'" "t_loans db"] by (simp add: schedules_ok_def)

text \<open>A posting changes nothing but the balance of an account, and leaves alone every account that
  its lines do not name.\<close>

lemma post_transaction_account:
  assumes "post_transaction txid now ty key desc lines db = Inr (db', t)"
  shows "get_account db aty i = Inr acc \<Longrightarrow> \<exists>v. get_account db' aty i = Inr (set_balance v acc)"
    and "(\<And>l. l \<in> set lines \<Longrightarrow> ll_account_type l \<noteq> aty \<or> ll_account_id l \<noteq> i) \<Longrightarrow>
         get_account db' aty i = get_account db aty i"
proof -
  have "db' = db \<or> get_account db' aty i = rbind (get_account db aty i) (\<lambda>acc. Inr (set_balance
      (balance_of acc + ledger_sum (normal_side acc) aty i (map (line_entry txid) lines)) acc))"
    using assms
  proof (cases rule: post_transaction_Inr)
    case (posted db1)
    have "get_account db1 aty i = get_account db aty i" unfolding posted(5) by (rule get_account_cong) simp_all
    then show ?thesis using post_lines_get_account [OF posted(6), of aty i] by simp
  qed simp
  note * = this
  show "\<exists>v. get_account db' aty i = Inr (set_balance v acc)" if "get_account db aty i = Inr acc"
    using * that by (auto intro: exI [of _ "balance_of acc"])
  assume "\<And>l. l \<in> set lines \<Longrightarrow> ll_account_type l \<noteq> aty \<or> ll_account_id l \<noteq> i"
  then have "ledger_sum s aty i (map (line_entry txid) lines) = 0" for s
    by (intro ledger_sum_none) (fastforce simp: entry_matches_def line_entry_def)
  then show "get_account db' aty i = get_account db aty i"
    using * by (cases "get_account db aty i") auto
qed

lemma post_transaction_used_key:
  assumes "post_transaction txid now ty key desc lines db = Inr (db', t)"
    and "key \<in> keys tx_idempotency_key (t_transactions db)"
  shows "db' = db"
  using assms(1) by (cases rule: post_transaction_Inr) (use assms(2) in simp_all)

lemma tget_savings_eq:
  "get_account db' ''savings_account'' i = get_account db ''savings_account'' i \<Longrightarrow>
   tget sa_id (t_savings db') i = tget sa_id (t_savings db) i"
  by (auto simp: get_account_def split: option.splits)

lemma tget_loans_eq:
  "get_account db' ''loan'' i = get_account db ''loan'' i \<Longrightarrow>
   tget ln_id (t_loans db') i = tget ln_id (t_loans db) i"
  by (auto simp: get_account_def split: option.splits)

lemma post_transaction_tables:
  assumes "post_transaction txid now ty key desc lines db = Inr (db', t)"
  shows "t_lines db' = t_lines db" "t_schedules db' = t_schedules db"
  using assms by (cases rule: post_transaction_Inr; auto dest!: post_lines_frame)+

subsection \<open>Savings operations\<close>

lemma cash_savings_tables:
  assumes "post_transaction txid now ty key desc lines db = Inr (db', t)"
    and "list_all (\<lambda>l. ll_account_type l \<noteq> ''loan'') lines"
  shows "lines_ok db' = lines_ok db" "schedules_ok db' = schedules_ok db" "loans_ok db' = loans_ok db"
proof -
  have "tget ln_id (t_loans db') j = tget ln_id (t_loans db) j" for j
    using assms(2) by (intro tget_loans_eq post_transaction_account(2) [OF assms(1)]) (auto simp: list_all_iff)
  then show "lines_ok db' = lines_ok db" "schedules_ok db' = schedules_ok db" "loans_ok db' = loans_ok db"
    using post_transaction_tables [OF assms(1)]
    by (simp_all add: lines_ok_def loans_ok_def schedules_ok_cong [of db' db])
qed

lemma deposit_tenant_inv:
  assumes inv: "tenant_inv db" and a: "tget sa_id (t_savings db) i = Some a" and amt: "is_cents amt" "0 < amt"
    and dep: "deposit txid now a amt key desc db = Inr (db', t)"
  shows "tenant_inv db'"
proof -
  have L: "ledger_inv db" using inv by (simp add: tenant_inv_def)
  obtain cash where cash: "get_cash_account db = Inr cash"
    and post: "post_transaction txid now ''deposit'' key desc
          [mk_line ''internal_account'' (ia_id cash) DEBIT amt, mk_line ''savings_account'' i CREDIT amt] db = Inr (db', t)"
    using dep tget_key [OF a] by (auto simp: deposit_def rbind_eq_Inr split: if_splits)
  have "savings_nonneg db'"
  proof (cases "key \<in> keys tx_idempotency_key (t_transactions db)")
    case True
    then show ?thesis using post_transaction_used_key [OF post] inv by (simp add: tenant_inv_def)
  next
    case False
    note E = savings_cash_posting [OF L a False cash post disjI1 [OF refl]]
    have "tget sa_id (t_savings db') j = (if j = i then Some (a\<lparr>sa_balance_cached := sa_balance_cached a + amt\<rparr>)
        else tget sa_id (t_savings db) j)" for j
      using E(1) tget_savings_eq [OF E(3)] by (simp add: signed_def)
    then show ?thesis using inv a amt(2) by (auto simp: tenant_inv_def savings_nonneg_def add_nonneg_nonneg)
  qed
  then show ?thesis
    using inv deposit_inv [OF L dep] deposit_cents [OF _ amt(1) dep] cash_savings_tables [OF post]
    by (simp add: tenant_inv_def mk_line_def)
qed

lemma withdraw_tenant_inv:
  assumes inv: "tenant_inv db" and a: "tget sa_id (t_savings db) i = Some a" and amt: "is_cents amt"
    and wd: "withdraw txid now a amt key desc db = Inr (db', t)"
  shows "tenant_inv db'"
proof -
  have L: "ledger_inv db" using inv by (simp add: tenant_inv_def)
  obtain cash where cash: "get_cash_account db = Inr cash" and le: "amt \<le> sa_balance_cached a"
    and post: "post_transaction txid now ''withdrawal'' key desc
          [mk_line ''savings_account'' i DEBIT amt, mk_line ''internal_account'' (ia_id cash) CREDIT amt] db = Inr (db', t)"
    using wd tget_key [OF a] by (auto simp: withdraw_def rbind_eq_Inr not_less split: if_splits)
  have "savings_nonneg db'"
  proof (cases "key \<in> keys tx_idempotency_key (t_transactions db)")
    case True
    then show ?thesis using post_transaction_used_key [OF post] inv by (simp add: tenant_inv_def)
  next
    case False
    note E = savings_cash_posting [OF L a False cash post disjI2 [OF refl]]
    have "tget sa_id (t_savings db') j = (if j = i then Some (a\<lparr>sa_balance_cached := sa_balance_cached a - amt\<rparr>)
        else tget sa_id (t_savings db) j)" for j
      using E(1) tget_savings_eq [OF E(3)] by (simp add: signed_def)
    then show ?thesis using inv le by (auto simp: tenant_inv_def savings_nonneg_def)
  qed
  then show ?thesis
    using inv withdraw_inv [OF L wd] withdraw_cents [OF _ amt wd] cash_savings_tables [OF post]
    by (simp add: tenant_inv_def mk_line_def)
qed

lemma open_account_tenant_inv:
  assumes inv: "tenant_inv db" and amt: "is_cents amt"
    and "open_savings_account aid num txid now c p amt key db = Inr (db', a)"
  shows "tenant_inv db'"
  using assms(3)
proof (cases rule: open_savings_account_Inr)
  case (1 a db1)
  have new: "tget sa_id (t_savings db) aid = None" using 1(3) by (simp add: tget_None_iff)
  have t1: "tget sa_id (t_savings db1) i = (if i = aid then Some a else tget sa_id (t_savings db) i)" for i
    using new by (auto simp: 1(1,2) table_simps split: option.splits)
  have "ledger_inv db1" using inv 1(1,3) unfolding 1(2) by (intro ledger_wf_add_savings) (simp_all add: tenant_inv_def)
  moreover have "cents_db db1" using inv by (auto simp: tenant_inv_def 1(1,2) cents_db_iff)
  moreover have "savings_nonneg db1" using inv by (auto simp: tenant_inv_def savings_nonneg_def t1 1(1))
  moreover have "lines_ok db1 = lines_ok db" "schedules_ok db1 = schedules_ok db" "loans_ok db1 = loans_ok db"
    by (simp_all add: 1(2) lines_ok_def schedules_ok_def loans_ok_def)
  ultimately have inv1: "tenant_inv db1" using inv by (simp add: tenant_inv_def)
  show ?thesis using 1(5) deposit_tenant_inv [OF inv1 _ amt] inv1 t1 [of aid] by auto
qed

subsection \<open>Loan operations\<close>

lemma db_fits_term: "db_fits db \<Longrightarrow> l \<in> set (t_loans db) \<Longrightarrow> ln_term_months l < 2 ^ 31"
  by (auto simp: db_fits_def ints_fit_def int4_def list_all_iff)

lemma create_loan_tenant_inv:
  assumes inv: "tenant_inv db" and pr: "is_cents pr" "0 < pr" and n: "1 \<le> n"
    and run: "create_loan lid c p pr n db = Inr (db', l)"
  shows "tenant_inv db'"
proof -
  have new: "tget ln_id (t_loans db) lid = None" "lid \<notin> keys ln_id (t_loans db)"
    and db': "db' = db\<lparr>t_loans := t_loans db @ [l]\<rparr>" "db_fits db'"
    and l: "ln_id l = lid" "ln_outstanding_principal l = 0" "ln_principal l = pr" "ln_term_months l = n"
      "undisbursed l"
    using run by (auto simp: create_loan_def Let_def rbind_eq_Inr tenant_flush_iff tget_None_iff undisbursed_def
        split: if_splits)
  have t: "tget ln_id (t_loans db') i = (if i = lid then Some l else tget ln_id (t_loans db) i)" for i
    using new l(1) by (auto simp: db'(1) table_simps split: option.splits)
  have "n < 2 ^ 31" using db_fits_term [OF db'(2), of l] l(4) by (simp add: db'(1))
  then have "loans_ok db'" using inv pr n l by (auto simp: tenant_inv_def loans_ok_def t)
  moreover have e: "t_lines db' = t_lines db" "t_schedules db' = t_schedules db"
    "keys ln_id (t_loans db') = insert lid (keys ln_id (t_loans db))" by (simp_all add: db'(1) l(1))
  then have "schedules_ok db'"
    using inv new l by (auto simp: tenant_inv_def schedules_ok_def t)
  moreover have "savings_nonneg db' = savings_nonneg db" "lines_ok db' = lines_ok db"
    by (simp_all add: db'(1) savings_nonneg_def lines_ok_def)
  ultimately show ?thesis
    using inv create_loan_inv [OF _ run] create_loan_cents [OF _ pr(1) run] by (simp add: tenant_inv_def)
qed

text \<open>Changing a status, as long as the loan does not appear undisbursed after its disbursement.\<close>

lemma update_loan_tenant_inv:
  assumes inv: "tenant_inv db"
    and f: "\<And>l. ln_id (f l) = ln_id l" "\<And>l. ln_outstanding_principal (f l) = ln_outstanding_principal l"
      "\<And>l. ln_principal (f l) = ln_principal l" "\<And>l. ln_term_months (f l) = ln_term_months l"
    and und: "\<And>l. tget ln_id (t_loans db) lid = Some l \<Longrightarrow> undisbursed (f l) \<Longrightarrow> undisbursed l"
  shows "tenant_inv (update_loan lid f db)"
proof -
  let ?db = "update_loan lid f db"
  have t: "tget ln_id (t_loans ?db) i = (if i = lid then map_option f (tget ln_id (t_loans db) i)
      else tget ln_id (t_loans db) i)" for i
    using f(1) by (simp add: update_loan_def tget_tmod)
  have k: "keys ln_id (t_loans ?db) = keys ln_id (t_loans db)"
    using f(1) by (simp add: update_loan_def keys_tmod)
  have "schedules_ok ?db"
    using inv und f(2) unfolding tenant_inv_def schedules_ok_def k t
    by (auto simp: update_loan_def split: if_splits)
  moreover have "loans_ok ?db" using inv f by (auto simp: tenant_inv_def loans_ok_def t split: if_splits)
  moreover have "savings_nonneg ?db = savings_nonneg db" "lines_ok ?db = lines_ok db"
    by (simp_all add: update_loan_def savings_nonneg_def lines_ok_def)
  ultimately show ?thesis
    using inv ledger_inv_update_loan [OF f(1,2), of db] update_loan_cents [OF _ f(3,2), of db]
    by (simp add: tenant_inv_def)
qed

lemma approval_tenant_inv:
  assumes "tenant_inv db" and loan: "tget ln_id (t_loans db) i = Some loan"
    and "submit_for_approval loan db = Inr db' \<or> approve_loan now st loan db = Inr db' \<or>
         reject_loan st why loan db = Inr db'"
  shows "tenant_inv db'"
proof -
  have und: "undisbursed loan"
    using assms(3)
    by (auto simp: submit_for_approval_def approve_loan_def reject_loan_def require_status_def undisbursed_def
        split: if_splits)
  have i: "ln_id loan = i" using loan by (rule tget_key)
  show ?thesis using assms(1,3) und loan
    by (auto simp: submit_for_approval_def approve_loan_def reject_loan_def rbind_eq_Inr tenant_flush_iff i
        intro!: update_loan_tenant_inv)
qed

text \<open>What a loan keeps through its life.\<close>

definition same_terms :: "loan \<Rightarrow> loan \<Rightarrow> bool" where
  "same_terms l l' \<longleftrightarrow> ln_id l' = ln_id l \<and> ln_customer_id l' = ln_customer_id l \<and> ln_product_id l' = ln_product_id l \<and>
     ln_principal l' = ln_principal l \<and> ln_term_months l' = ln_term_months l"

lemma post_transaction_loan_rows:
  assumes post: "post_transaction txid now ty key desc lines db = Inr (db', t)"
    and only: "\<And>l. l \<in> set lines \<Longrightarrow> ll_account_type l = ''internal_account'' \<or>
                 ll_account_type l = ''loan'' \<and> ll_account_id l = lid"
    and loan: "tget ln_id (t_loans db) lid = Some loan"
  shows "\<exists>v. tget ln_id (t_loans db') lid = Some (loan\<lparr>ln_outstanding_principal := v\<rparr>)"
    and "i \<noteq> lid \<Longrightarrow> tget ln_id (t_loans db') i = tget ln_id (t_loans db) i"
    and "tget sa_id (t_savings db') j = tget sa_id (t_savings db) j"
proof -
  have "get_account db ''loan'' lid = Inr (ALoan loan)" using loan by simp
  then obtain v where "get_account db' ''loan'' lid = Inr (set_balance v (ALoan loan))"
    using post_transaction_account(1) [OF post] by blast
  then show "\<exists>v. tget ln_id (t_loans db') lid = Some (loan\<lparr>ln_outstanding_principal := v\<rparr>)" by auto
  show "i \<noteq> lid \<Longrightarrow> tget ln_id (t_loans db') i = tget ln_id (t_loans db) i"
    by (intro tget_loans_eq post_transaction_account(2) [OF post]) (auto dest!: only)
  show "tget sa_id (t_savings db') j = tget sa_id (t_savings db) j"
    by (intro tget_savings_eq post_transaction_account(2) [OF post]) (auto dest!: only)
qed

lemma disburse_rows:
  assumes loan: "tget ln_id (t_loans db) lid = Some loan"
    and run: "disburse_loan sid txid now today loan product key ddate db = Inr db'"
  obtains l' lines where "ln_status loan = LN_APPROVED" "ln_status l' = LN_ACTIVE" "same_terms loan l'"
    "\<forall>i. tget ln_id (t_loans db') i = (if i = lid then Some l' else tget ln_id (t_loans db) i)"
    "\<forall>i. tget sa_id (t_savings db') i = tget sa_id (t_savings db) i"
    "sid \<notin> keys rs_id (t_schedules db)" "distinct (map s_installment_number lines)"
    "t_schedules db' = t_schedules db @ [\<lparr>rs_id = sid, rs_loan_id = lid, rs_version = 1, rs_is_active = True\<rparr>]"
    "t_lines db' = t_lines db @ map (persist_line sid) lines"
  using run
proof (cases rule: disburse_loan_Inr)
  case (1 p lines cash db2 t)
  have lid: "ln_id loan = lid" using loan by (rule tget_key)
  have loan1: "tget ln_id (t_loans (db\<lparr>t_schedules := x, t_lines := y\<rparr>)) lid = Some loan" for x y using loan by simp
  note R = post_transaction_loan_rows [OF 1(6) _ loan1]
  have kinds: "ll_account_type l = ''internal_account'' \<or> ll_account_type l = ''loan'' \<and> ll_account_id l = lid"
    if "l \<in> set [mk_line ''loan'' (ln_id loan) DEBIT (ln_principal loan),
        mk_line ''internal_account'' (ia_id cash) CREDIT (ln_principal loan)]" for l
    using that lid by (auto simp: mk_line_def)
  obtain v where v: "tget ln_id (t_loans db2) lid = Some (loan\<lparr>ln_outstanding_principal := v\<rparr>)"
    using R(1) [OF kinds] by blast
  have loans: "tget ln_id (t_loans db') i = (if i = lid
      then Some (loan\<lparr>ln_outstanding_principal := v, ln_status := LN_ACTIVE, ln_disbursed_at := Some now\<rparr>)
      else tget ln_id (t_loans db) i)" for i
    using v R(2) [OF kinds] by (simp add: 1(7) lid update_loan_def tget_tmod)
  have sav: "tget sa_id (t_savings db') i = tget sa_id (t_savings db) i" for i
    using R(3) [OF kinds] by (simp add: 1(7) update_loan_def)
  have "map s_installment_number lines = [1..ln_term_months loan]"
    using generate_shape [OF 1(3)] by (simp add: line_shape_def)
  then have dist: "distinct (map s_installment_number lines)" by simp
  show thesis
    by (rule that [OF 1(1) _ _ allI [OF loans] allI [OF sav] 1(4) dist])
       (use post_transaction_tables [OF 1(6)] in \<open>simp_all add: same_terms_def 1(7) update_loan_def lid\<close>)
qed

lemma disburse_tenant_inv:
  assumes inv: "tenant_inv db" and loan: "tget ln_id (t_loans db) lid = Some loan"
    and run: "disburse_loan sid txid now today loan product key ddate db = Inr db'"
  shows "tenant_inv db'"
proof -
  obtain l' lines where D0: "ln_status loan = LN_APPROVED" and D: "ln_status l' = LN_ACTIVE" "same_terms loan l'"
    "\<forall>i. tget ln_id (t_loans db') i = (if i = lid then Some l' else tget ln_id (t_loans db) i)"
    "\<forall>i. tget sa_id (t_savings db') i = tget sa_id (t_savings db) i"
    "sid \<notin> keys rs_id (t_schedules db)" "distinct (map s_installment_number lines)"
    "t_schedules db' = t_schedules db @ [\<lparr>rs_id = sid, rs_loan_id = lid, rs_version = 1, rs_is_active = True\<rparr>]"
    "t_lines db' = t_lines db @ map (persist_line sid) lines"
    by (rule disburse_rows [OF loan run])
  have k: "keys ln_id (t_loans db') = keys ln_id (t_loans db)"
    using loan by (intro keys_loans_cong) (simp add: D(3))
  have "savings_nonneg db'" using inv by (simp add: tenant_inv_def savings_nonneg_def D(4))
  moreover have "lines_ok db'"
  proof -
    have "distinct (map sl_key (map (persist_line sid) lines))"
      using D(6) by (induction lines) (auto simp: persist_line_def)
    moreover have "sl_schedule_id l \<noteq> sid" if "l \<in> set (t_lines db)" for l
      using inv that D(5) by (auto simp: tenant_inv_def schedules_ok_def)
    ultimately show ?thesis using inv by (auto simp: tenant_inv_def lines_ok_def D(8) persist_line_def)
  qed
  moreover have "schedules_ok db'"
  proof -
    have "lid \<in> keys ln_id (t_loans db)" using loan by (metis tget_Some_iff_keys)
    then show ?thesis using inv D(1) D(5) [unfolded keys_def]
      by (auto simp: tenant_inv_def schedules_ok_def D(3,7,8) k persist_line_def undisbursed_def)
  qed
  moreover have "loans_ok db'" using inv loan D(2) by (auto simp: tenant_inv_def loans_ok_def D(3) same_terms_def)
  ultimately show ?thesis
    using inv disburse_loan_inv [OF _ run] disburse_loan_cents [OF _ tget_in [OF loan] run]
    by (simp add: tenant_inv_def)
qed

lemma repayment_line_kinds:
  "l \<in> set (repayment_lines c i lid amount pp ip) \<Longrightarrow>
   ll_account_type l = ''internal_account'' \<or> ll_account_type l = ''loan'' \<and> ll_account_id l = lid"
  by (auto simp: repayment_lines_def mk_line_def split: if_splits)

lemma repay_rows:
  assumes loan: "tget ln_id (t_loans db) lid = Some loan"
    and run: "repay_installment txid now loan amount key db = Inr (db', t, line')"
  obtains l' line pp ip where "ln_status loan = LN_ACTIVE" "ln_status l' = LN_ACTIVE \<or> ln_status l' = LN_CLOSED"
    "same_terms loan l'"
    "\<forall>i. tget ln_id (t_loans db') i = (if i = lid then Some l' else tget ln_id (t_loans db) i)"
    "\<forall>i. tget sa_id (t_savings db') i = tget sa_id (t_savings db) i"
    "line \<in> set (t_lines db)" "sl_status line = RL_PENDING" "apply_payment amount line = (line', pp, ip)"
    "t_schedules db' = t_schedules db" "t_lines db' = tset sl_key line' (t_lines db)"
  using run
proof (cases rule: repay_installment_Inr)
  case (1 s line pp ip cash income db2)
  have lid: "ln_id loan = lid" using loan by (rule tget_key)
  obtain b where db': "db' = close_if_settled now lid b db2" using 1(9) lid by blast
  have loan1: "tget ln_id (t_loans (db\<lparr>t_lines := x\<rparr>)) lid = Some loan" for x using loan by simp
  have kinds: "ll_account_type l = ''internal_account'' \<or> ll_account_type l = ''loan'' \<and> ll_account_id l = lid"
    if "l \<in> set (repayment_lines (ia_id cash) (ia_id income) (ln_id loan) amount pp ip)" for l
    using repayment_line_kinds [OF that] lid by simp
  note R = post_transaction_loan_rows [OF 1(8) kinds loan1]
  obtain v where v: "tget ln_id (t_loans db2) lid = Some (loan\<lparr>ln_outstanding_principal := v\<rparr>)"
    using R(1) by blast
  define l' where "l' = (if b then loan\<lparr>ln_outstanding_principal := v, ln_status := LN_CLOSED, ln_closed_at := Some now\<rparr>
                         else loan\<lparr>ln_outstanding_principal := v\<rparr>)"
  have loans: "tget ln_id (t_loans db') i = (if i = lid then Some l' else tget ln_id (t_loans db) i)" for i
    using v R(2) lid by (simp add: db' tget_close_if_settled l'_def)
  have sav: "tget sa_id (t_savings db') i = tget sa_id (t_savings db) i" for i
    using R(3) lid by (simp add: db')
  have "ln_status l' = LN_ACTIVE \<or> ln_status l' = LN_CLOSED" "same_terms loan l'"
    using 1(1) by (simp_all add: l'_def same_terms_def)
  then show thesis
    by (rule that [OF 1(1) _ _ allI [OF loans] allI [OF sav] first_pending_Some(1,3) [OF 1(3)] 1(5)])
       (use post_transaction_tables [OF 1(8)] in \<open>simp_all add: db'\<close>)
qed

lemma repay_tenant_inv:
  assumes inv: "tenant_inv db" and loan: "tget ln_id (t_loans db) lid = Some loan" and amt: "is_cents amount"
    and run: "repay_installment txid now loan amount key db = Inr (db', t, line')"
  shows "tenant_inv db'"
proof -
  obtain l' line pp ip where R0: "ln_status loan = LN_ACTIVE" and R: "ln_status l' = LN_ACTIVE \<or> ln_status l' = LN_CLOSED" "same_terms loan l'"
    "\<forall>i. tget ln_id (t_loans db') i = (if i = lid then Some l' else tget ln_id (t_loans db) i)"
    "\<forall>i. tget sa_id (t_savings db') i = tget sa_id (t_savings db) i"
    "line \<in> set (t_lines db)" "sl_status line = RL_PENDING" "apply_payment amount line = (line', pp, ip)"
    "t_schedules db' = t_schedules db" "t_lines db' = tset sl_key line' (t_lines db)"
    by (rule repay_rows [OF loan run])
  have k: "keys ln_id (t_loans db') = keys ln_id (t_loans db)"
    using loan by (intro keys_loans_cong) (simp add: R(3))
  have "savings_nonneg db'" using inv by (simp add: tenant_inv_def savings_nonneg_def R(4))
  moreover have "lines_ok db'"
    using lines_ok_payment [OF _ R(7,6), of db] inv by (simp add: tenant_inv_def lines_ok_def R(9))
  moreover have "schedules_ok db'"
  proof -
    have "sl_schedule_id line' = sl_schedule_id line" using apply_payment_fields(1) [OF R(7)] by auto
    then show ?thesis using inv R(1,5)
      by (auto simp: tenant_inv_def schedules_ok_def R(3,8,9) k undisbursed_def dest!: in_tset)
  qed
  moreover have "loans_ok db'" using inv loan R(2) by (auto simp: tenant_inv_def loans_ok_def R(3) same_terms_def)
  ultimately show ?thesis
    using inv repay_installment_inv [OF _ run] repay_installment_cents [OF _ amt run] by (simp add: tenant_inv_def)
qed

section \<open>Every request preserves the invariant\<close>

lemma tenant_inv_cong:
  assumes "t_internal db' = t_internal db" "t_savings db' = t_savings db" "t_loans db' = t_loans db"
    "t_transactions db' = t_transactions db" "t_entries db' = t_entries db" "t_lines db' = t_lines db"
    "t_schedules db' = t_schedules db" "cents_db db' = cents_db db"
  shows "tenant_inv db' = tenant_inv db"
  using assms ledger_inv_cong [OF assms(1-5)]
  by (simp add: tenant_inv_def savings_nonneg_def lines_ok_def schedules_ok_def loans_ok_def)

lemma commit_tenant_inv:
  assumes "tenant_inv db" "commit_http db = Inr db'"
  shows "tenant_inv db'"
proof -
  have "db' = stored db" using assms(2) by (simp add: commit_http_def uncaught_def map_err_eq_Inr tenant_commit_Inr)
  then show ?thesis using assms(1) stored_cents [of db] cents_db_stored [of db]
    by (subst tenant_inv_cong [where db = db]) (simp_all add: tenant_inv_def)
qed

text \<open>Requests whose amounts are whole cents.\<close>

fun cents_request :: "tenant_request \<Rightarrow> bool" where
  "cents_request (CreateSavingsProduct n c r min_open) = is_cents min_open"
| "cents_request (OpenAccount c p dep key) = is_cents dep"
| "cents_request (Deposit a amt key desc) = is_cents amt"
| "cents_request (Withdraw a amt key desc) = is_cents amt"
| "cents_request (CreateLoanProduct n c m r minp maxp mint maxt) = (is_cents minp \<and> is_cents maxp)"
| "cents_request (CreateLoan c p pr n) = is_cents pr"
| "cents_request (RepayLoan l amt key) = is_cents amt"
| "cents_request _ = True"

lemma found_Inr [simp]: "found x = Inr a \<longleftrightarrow> x = Some a"
  by (simp add: found_def split: option.splits)

lemma catching_Inr [simp]: "catching errs r = Inr x \<longleftrightarrow> r = Inr x"
  by (simp add: catching_def map_err_eq_Inr)

text \<open>Requests that only touch branches, customers and products.\<close>

lemma registry_commit:
  assumes "tenant_inv db" "commit_http db1 = Inr db'" "t_internal db1 = t_internal db" "t_savings db1 = t_savings db"
    "t_loans db1 = t_loans db" "t_transactions db1 = t_transactions db" "t_entries db1 = t_entries db"
    "t_lines db1 = t_lines db" "t_schedules db1 = t_schedules db" "cents_db db \<Longrightarrow> cents_db db1"
  shows "tenant_inv db'"
  using assms commit_tenant_inv [of db1 db'] tenant_inv_cong [of db1 db] by (simp add: tenant_inv_def)

lemma registry_endpoints_inv:
  assumes "tenant_inv db"
  shows "create_branch env role a b db = Inr db' \<Longrightarrow> tenant_inv db'"
    and "create_customer env role i a ph docs db = Inr db' \<Longrightarrow> tenant_inv db'"
    and "update_kyc_status role i st db = Inr db' \<Longrightarrow> tenant_inv db'"
    and "create_savings_product env role a b r x db = Inr db' \<Longrightarrow> is_cents x \<Longrightarrow> tenant_inv db'"
    and "create_loan_product env role a b m r x y j k db = Inr db' \<Longrightarrow> is_cents x \<Longrightarrow> is_cents y \<Longrightarrow> tenant_inv db'"
  by (auto simp: create_branch_def create_customer_def update_kyc_status_def create_savings_product_def
      create_loan_product_def rbind_eq_Inr cents_db_iff split: if_splits
      elim!: registry_commit [OF assms])

lemma run_request_inv:
  assumes inv: "tenant_inv db" and "valid_request req" "cents_request req"
    and "run_request env role req db = Inr db'"
  shows "tenant_inv db'"
proof (cases req)
  case (OpenAccount c p dep key)
  then show ?thesis using assms
    by (auto simp: open_account_def rbind_eq_Inr intro: open_account_tenant_inv commit_tenant_inv)
next
  case (Deposit a amt key desc)
  then show ?thesis using assms
    by (auto simp: deposit_endpoint_def rbind_eq_Inr intro: deposit_tenant_inv commit_tenant_inv)
next
  case (Withdraw a amt key desc)
  then show ?thesis using assms
    by (auto simp: withdraw_endpoint_def rbind_eq_Inr intro: withdraw_tenant_inv commit_tenant_inv)
next
  case (CreateLoan c p pr n)
  then show ?thesis using assms
    by (auto simp: create_loan_application_def rbind_eq_Inr intro: create_loan_tenant_inv commit_tenant_inv)
next
  case (DisburseLoan l key)
  then show ?thesis using assms
    by (auto simp: disburse_loan_endpoint_def rbind_eq_Inr intro: disburse_tenant_inv commit_tenant_inv)
next
  case (RepayLoan l amt key)
  then show ?thesis using assms
    by (auto simp: repay_loan_endpoint_def rbind_eq_Inr intro: repay_tenant_inv commit_tenant_inv)
next
  case (SubmitLoan l)
  then show ?thesis using assms
    by (auto simp: submit_loan_def rbind_eq_Inr intro: approval_tenant_inv commit_tenant_inv)
next
  case (ApproveLoan l)
  then show ?thesis using assms
    by (auto simp: approve_loan_endpoint_def rbind_eq_Inr intro: approval_tenant_inv commit_tenant_inv)
next
  case (RejectLoan l why)
  then show ?thesis using assms
    by (auto simp: reject_loan_endpoint_def rbind_eq_Inr intro: approval_tenant_inv commit_tenant_inv)
qed (use assms in \<open>auto intro: registry_endpoints_inv [OF inv]\<close>)

definition tenant_step :: "tenant_db \<Rightarrow> tenant_db \<Rightarrow> bool" where
  "tenant_step db db' \<longleftrightarrow> (\<exists>env role req. cents_request req \<and> tenant_handler env role req db = Inr db')"

lemma seed_tenant_inv: "tenant_init db \<Longrightarrow> tenant_inv db"
  by (auto simp: tenant_init_def seed_tenant_def empty_tenant_def tenant_commit_Inr stored_def tenant_inv_def
      ledger_inv_def ledger_wf_def account_keys_def sides_ok_def entries_ok_def cached_ok_def transactions_ok_def
      tb_diff_def tb_internal_def get_account_Inr table_simps cents_db_iff savings_nonneg_def lines_ok_def
      schedules_ok_def loans_ok_def pg_round_cents split: if_splits)

interpretation tenant_sys: invariant_system tenant_init tenant_step tenant_inv
proof
  show "tenant_init db \<Longrightarrow> tenant_inv db" for db by (rule seed_tenant_inv)
  show "tenant_inv db \<Longrightarrow> tenant_step db db' \<Longrightarrow> tenant_inv db'" for db db'
    by (auto simp: tenant_step_def tenant_handler_def split: if_splits intro: run_request_inv)
qed

section \<open>Properties of every reachable institution\<close>

text \<open>C5: In every state an institution can reach by any sequence of requests whose amounts are
  whole cents, the cached balance of every account equals the balance recomputed from the ledger
  entries alone, every transaction has equal debits and credits, and the trial balance report
  is balanced.\<close>

theorem reachable_books:
  assumes "reach tenant_init tenant_step db"
  shows "(\<forall>ty i acc. get_account db ty i = Inr acc \<longrightarrow> reconcile_balance db ty i = Inr (balance_of acc)) \<and>
    (\<forall>t\<in>set (t_transactions db). entry_total DEBIT (tx_id t) (t_entries db) = tx_amount t \<and>
        entry_total CREDIT (tx_id t) (t_entries db) = tx_amount t) \<and>
    tb_balanced (get_trial_balance db)"
proof -
  have "ledger_inv db" using tenant_sys.reach_inv [OF assms] by (simp add: tenant_inv_def)
  then show ?thesis
    by (auto simp: ledger_inv_def ledger_wf_def cached_ok_def transactions_ok_def reconcile_balance_def
        trial_balance_balanced)
qed


subsection \<open>A sequence of requests\<close>

fun serve :: "(request_env \<times> staff_role \<times> tenant_request) list \<Rightarrow> tenant_db \<Rightarrow> mf_http + tenant_db" where
  "serve [] db = Inr db"
| "serve ((env, role, req) # reqs) db = rbind (tenant_handler env role req db) (serve reqs)"

lemma serve_reach:
  "serve reqs db = Inr db' \<Longrightarrow> list_all (\<lambda>(_, _, req). cents_request req) reqs \<Longrightarrow>
   reach tenant_init tenant_step db \<Longrightarrow> reach tenant_init tenant_step db'"
proof (induction reqs db rule: serve.induct)
  case (2 env role req reqs db)
  obtain db1 where db1: "tenant_handler env role req db = Inr db1" "serve reqs db1 = Inr db'"
    using "2.prems"(1) by (auto simp: rbind_eq_Inr)
  have "tenant_step db db1" using db1(1) "2.prems"(2) by (auto simp: tenant_step_def)
  then show ?case using 2 db1 by (auto intro: reach_step)
qed simp

definition demo_env :: "uid \<Rightarrow> request_env" where
  "demo_env n = \<lparr>env_id = n, env_txid = n, env_number = ''SA-1'', env_now = int n,
     env_today = Date 2024 1 31, env_staff_id = 7\<rparr>"

text \<open>Onboarding, a branch, a verified customer, a product, and an account opened with 10.00.\<close>

definition demo_setup :: "(request_env \<times> staff_role \<times> tenant_request) list" where
  "demo_setup =
     [(demo_env 1, INSTITUTION_ADMIN, CreateBranch ''HQ'' ''HQ''),
      (demo_env 2, LOAN_OFFICER, CreateCustomer 1 ''Ada'' None ''{}''),
      (demo_env 3, BRANCH_MANAGER, UpdateKyc 2 KYC_VERIFIED),
      (demo_env 4, INSTITUTION_ADMIN, CreateSavingsProduct ''Basic'' ''B'' 0 10),
      (demo_env 5, TELLER, OpenAccount 2 4 10 (Some ''k1''))]"

definition demo_seed :: "mf_exn + tenant_db" where
  "demo_seed = seed_tenant 1 1 2 ''Coop'' ''XOF'' empty_tenant"

lemma demo_reach:
  assumes "serve reqs (projr demo_seed) = Inr db'" "list_all (\<lambda>(_, _, req). cents_request req) reqs"
  shows "reach tenant_init tenant_step db'"
proof -
  have "is_ok demo_seed" by code_simp
  then have "seed_tenant 1 1 2 ''Coop'' ''XOF'' empty_tenant = Inr (projr demo_seed)"
    by (auto simp: is_ok_ex demo_seed_def)
  then have "tenant_init (projr demo_seed)" unfolding tenant_init_def by blast
  then show ?thesis using serve_reach [OF assms] by (blast intro: reach_init)
qed

lemma demo_setup_cents: "list_all (\<lambda>(_, _, req). cents_request req) demo_setup"
  by (auto simp: demo_setup_def is_cents_iff intro: exI [of _ 1000])

lemma demo_setup_runs:
  "\<exists>db. serve demo_setup (projr demo_seed) = Inr db \<and> map sa_balance_cached (t_savings db) = [10] \<and>
     map sa_id (t_savings db) = [5]"
proof -
  have "case serve demo_setup (projr demo_seed) of Inl _ \<Rightarrow> False
      | Inr db \<Rightarrow> map sa_balance_cached (t_savings db) = [10] \<and> map sa_id (t_savings db) = [5]" by code_simp
  then show ?thesis by (auto split: sum.splits)
qed

theorem reachable_books_witness:
  "\<exists>db. serve demo_setup (projr demo_seed) = Inr db \<and> map sa_balance_cached (t_savings db) = [10] \<and>
     tb_balanced (get_trial_balance db)"
proof -
  obtain db where db: "serve demo_setup (projr demo_seed) = Inr db" "map sa_balance_cached (t_savings db) = [10]"
    using demo_setup_runs by auto
  show ?thesis using reachable_books [OF demo_reach [OF db(1) demo_setup_cents]] db by auto
qed


text \<open>The restriction to whole cents is needed: the request schemas accept amounts below a cent
  and the columns round them, so that two deposits and one withdrawal of half a cent leave the
  cached balance of the account one cent above the balance recomputed from the ledger.\<close>

theorem subcent_drift:
  "\<exists>db a. serve (demo_setup @
       [(demo_env 6, TELLER, Deposit 5 (1 / 200) ''k2'' None), (demo_env 7, TELLER, Deposit 5 (1 / 200) ''k3'' None),
        (demo_env 8, TELLER, Withdraw 5 (1 / 200) ''k4'' None)]) (projr demo_seed) = Inr db \<and>
     get_account db ''savings_account'' 5 = Inr (ASavings a) \<and>
     sa_balance_cached a = 1002 / 100 \<and> reconcile_balance db ''savings_account'' 5 = Inr (1001 / 100)"
proof -
  have "case serve (demo_setup @
       [(demo_env 6, TELLER, Deposit 5 (1 / 200) ''k2'' None), (demo_env 7, TELLER, Deposit 5 (1 / 200) ''k3'' None),
        (demo_env 8, TELLER, Withdraw 5 (1 / 200) ''k4'' None)]) (projr demo_seed) of Inl _ \<Rightarrow> False | Inr db \<Rightarrow>
      (case tget sa_id (t_savings db) 5 of None \<Rightarrow> False | Some a \<Rightarrow> sa_balance_cached a = 1002 / 100) \<and>
      (case reconcile_balance db ''savings_account'' 5 of Inl _ \<Rightarrow> False | Inr v \<Rightarrow> v = 1001 / 100)"
    by code_simp
  then show ?thesis by (auto split: sum.splits option.splits)
qed

subsection \<open>The loan life cycle\<close>

inductive loan_edge :: "staff_role \<Rightarrow> loan_status \<Rightarrow> loan_status \<Rightarrow> bool" where
  submit: "r \<in> {INSTITUTION_ADMIN, BRANCH_MANAGER, LOAN_OFFICER} \<Longrightarrow> loan_edge r LN_DRAFT LN_PENDING_APPROVAL"
| approve: "r \<in> {INSTITUTION_ADMIN, BRANCH_MANAGER} \<Longrightarrow> loan_edge r LN_PENDING_APPROVAL LN_APPROVED"
| reject: "r \<in> {INSTITUTION_ADMIN, BRANCH_MANAGER} \<Longrightarrow> loan_edge r LN_PENDING_APPROVAL LN_REJECTED"
| disburse: "r \<in> {INSTITUTION_ADMIN, BRANCH_MANAGER, TELLER} \<Longrightarrow> loan_edge r LN_APPROVED LN_ACTIVE"
| settle: "r \<in> {INSTITUTION_ADMIN, BRANCH_MANAGER, TELLER} \<Longrightarrow> loan_edge r LN_ACTIVE LN_CLOSED"

code_pred loan_edge .

lemma same_terms_refl [simp]: "same_terms l l"
  by (simp add: same_terms_def)

lemma cash_savings_loans:
  assumes "post_transaction txid now ty key desc lines db = Inr (db', t)"
    and "list_all (\<lambda>l. ll_account_type l \<noteq> ''loan'') lines"
  shows "tget ln_id (t_loans db') i = tget ln_id (t_loans db) i"
  using assms(2) by (intro tget_loans_eq post_transaction_account(2) [OF assms(1)]) (auto simp: list_all_iff)

lemma savings_ops_loans:
  shows "deposit txid now a amt key desc db = Inr (db', t) \<Longrightarrow> tget ln_id (t_loans db') i = tget ln_id (t_loans db) i"
    and "withdraw txid now a amt key desc db = Inr (db', t) \<Longrightarrow> tget ln_id (t_loans db') i = tget ln_id (t_loans db) i"
  by (auto simp: deposit_def withdraw_def rbind_eq_Inr mk_line_def elim!: cash_savings_loans split: if_splits)

lemma open_account_loans:
  assumes "open_savings_account aid num txid now c p amt key db = Inr (db', a)"
  shows "tget ln_id (t_loans db') i = tget ln_id (t_loans db) i"
  using assms by (cases rule: open_savings_account_Inr) (auto simp: savings_ops_loans(1))

lemma create_loan_loans:
  "create_loan lid c p pr n db = Inr (db', x) \<Longrightarrow> tget ln_id (t_loans db) i = Some l \<Longrightarrow>
   tget ln_id (t_loans db') i = Some l"
  by (auto simp: create_loan_def Let_def rbind_eq_Inr tenant_flush_iff tget_append split: if_splits)

lemma commit_http_Inr: "commit_http db = Inr db' \<longleftrightarrow> db_fits db \<and> db' = stored db"
  by (simp add: commit_http_def uncaught_def map_err_eq_Inr tenant_commit_Inr)

lemma role_of_permission:
  "require_staff_permission r ''loans:manage'' = Inr u \<Longrightarrow> r \<in> {INSTITUTION_ADMIN, BRANCH_MANAGER, LOAN_OFFICER}"
  "require_staff_permission r ''loans:approve'' = Inr u \<Longrightarrow> r \<in> {INSTITUTION_ADMIN, BRANCH_MANAGER}"
  "require_staff_permission r ''loans:disburse'' = Inr u \<Longrightarrow> r \<in> {INSTITUTION_ADMIN, BRANCH_MANAGER, TELLER}"
  "require_staff_permission r ''loans:repay'' = Inr u \<Longrightarrow> r \<in> {INSTITUTION_ADMIN, BRANCH_MANAGER, TELLER}"
  by (auto simp only: staff_allowed_iff staff_permission_rows option.inject list.set)

text \<open>What a request has done to one loan when it commits.\<close>

definition loan_moved :: "staff_role \<Rightarrow> loan \<Rightarrow> tenant_db \<Rightarrow> uid \<Rightarrow> bool" where
  "loan_moved role l db i \<longleftrightarrow> (\<exists>l'. tget ln_id (t_loans db) i = Some l' \<and> same_terms l l' \<and>
     (ln_status l' = ln_status l \<or> loan_edge role (ln_status l) (ln_status l')))"

lemma loan_moved_same: "tget ln_id (t_loans db) i = Some l \<Longrightarrow> loan_moved role l db i"
  by (simp add: loan_moved_def)

lemma approval_moved:
  assumes loan: "tget ln_id (t_loans db) j = Some loan" and l: "tget ln_id (t_loans db) i = Some l"
  shows "submit_for_approval loan db = Inr db' \<Longrightarrow> require_staff_permission r ''loans:manage'' = Inr u \<Longrightarrow> loan_moved r l db' i"
    and "approve_loan now st loan db = Inr db' \<Longrightarrow> require_staff_permission r ''loans:approve'' = Inr u \<Longrightarrow> loan_moved r l db' i"
    and "reject_loan st why loan db = Inr db' \<Longrightarrow> require_staff_permission r ''loans:approve'' = Inr u \<Longrightarrow> loan_moved r l db' i"
  using l tget_key [OF loan] loan
  by (auto simp: submit_for_approval_def approve_loan_def reject_loan_def rbind_eq_Inr require_status_def
      tenant_flush_iff loan_moved_def update_loan_def tget_tmod same_terms_def loan_edge.simps
      split: if_splits dest!: role_of_permission)

lemma disburse_moved:
  assumes "tget ln_id (t_loans db) j = Some loan" "tget ln_id (t_loans db) i = Some l"
    and "disburse_loan sid txid now today loan product key ddate db = Inr db'"
    and "require_staff_permission r ''loans:disburse'' = Inr u"
  shows "loan_moved r l db' i"
  using assms
  by (auto elim!: disburse_rows [OF assms(1)] dest!: role_of_permission
      simp: loan_moved_def loan_edge.simps)

lemma repay_moved:
  assumes "tget ln_id (t_loans db) j = Some loan" "tget ln_id (t_loans db) i = Some l"
    and "repay_installment txid now loan amount key db = Inr (db', t, line')"
    and "require_staff_permission r ''loans:repay'' = Inr u"
  shows "loan_moved r l db' i"
  using assms
  by (auto elim!: repay_rows [OF assms(1)] dest!: role_of_permission
      simp: loan_moved_def loan_edge.simps)

lemma tget_stored_loans:
  "tget ln_id (t_loans (stored db)) i = map_option (\<lambda>l. l\<lparr>ln_principal := pg_round 2 (ln_principal l),
     ln_outstanding_principal := pg_round 2 (ln_outstanding_principal l)\<rparr>) (tget ln_id (t_loans db) i)"
  by (simp add: stored_def tget_map)

lemma stored_moved:
  assumes "loan_moved r l db i" "is_cents (ln_principal l)"
  shows "loan_moved r l (stored db) i"
  using assms by (auto simp: loan_moved_def tget_stored_loans same_terms_def pg_round_cents)

lemma run_request_moved:
  assumes l: "tget ln_id (t_loans db) i = Some l" and "run_request env role req db = Inr db'"
  shows "\<exists>db1. db' = stored db1 \<and> loan_moved role l db1 i"
proof (cases req)
  case (SubmitLoan x)
  then show ?thesis using assms
    by (fastforce simp: submit_loan_def rbind_eq_Inr commit_http_Inr dest: approval_moved(1))
next
  case (ApproveLoan x)
  then show ?thesis using assms
    by (fastforce simp: approve_loan_endpoint_def rbind_eq_Inr commit_http_Inr dest: approval_moved(2))
next
  case (RejectLoan x why)
  then show ?thesis using assms
    by (fastforce simp: reject_loan_endpoint_def rbind_eq_Inr commit_http_Inr dest: approval_moved(3))
next
  case (DisburseLoan x key)
  then show ?thesis using assms
    by (fastforce simp: disburse_loan_endpoint_def rbind_eq_Inr commit_http_Inr dest: disburse_moved)
next
  case (RepayLoan x amt key)
  then show ?thesis using assms
    by (fastforce simp: repay_loan_endpoint_def rbind_eq_Inr commit_http_Inr dest: repay_moved)
next
  case (OpenAccount c p dep key)
  then obtain db1 where "db' = stored db1" "tget ln_id (t_loans db1) i = tget ln_id (t_loans db) i"
    using assms(2) by (fastforce simp: open_account_def rbind_eq_Inr commit_http_Inr dest: open_account_loans)
  then show ?thesis using l by (auto intro!: exI [of _ db1] loan_moved_same)
next
  case (Deposit a amt key desc)
  then obtain db1 where "db' = stored db1" "tget ln_id (t_loans db1) i = tget ln_id (t_loans db) i"
    using assms(2) by (fastforce simp: deposit_endpoint_def rbind_eq_Inr commit_http_Inr dest: savings_ops_loans(1))
  then show ?thesis using l by (auto intro!: exI [of _ db1] loan_moved_same)
next
  case (Withdraw a amt key desc)
  then obtain db1 where "db' = stored db1" "tget ln_id (t_loans db1) i = tget ln_id (t_loans db) i"
    using assms(2) by (fastforce simp: withdraw_endpoint_def rbind_eq_Inr commit_http_Inr dest: savings_ops_loans(2))
  then show ?thesis using l by (auto intro!: exI [of _ db1] loan_moved_same)
next
  case (CreateLoan c p pr n)
  then obtain db1 where "db' = stored db1" "tget ln_id (t_loans db1) i = Some l"
    using assms(2) l by (fastforce simp: create_loan_application_def rbind_eq_Inr commit_http_Inr dest: create_loan_loans)
  then show ?thesis by (auto intro!: exI [of _ db1] loan_moved_same)
qed (use assms in \<open>auto simp: create_branch_def create_customer_def update_kyc_status_def
      create_savings_product_def create_loan_product_def rbind_eq_Inr commit_http_Inr
      split: if_splits intro!: exI conjI refl loan_moved_same\<close>)

text \<open>C12: No request changes who a loan belongs to, its product, principal or term; its status moves
  only along draft, pending approval, approved or rejected, active, closed, one edge per request,
  and each edge only at the hands of a role that holds the permission for it.  Rejected and
  closed loans stay so.\<close>

theorem loan_lifecycle:
  assumes "tenant_handler env role req db = Inr db'" "cents_db db" "tget ln_id (t_loans db) i = Some l"
  shows "\<exists>l'. tget ln_id (t_loans db') i = Some l' \<and> same_terms l l' \<and>
    (ln_status l' = ln_status l \<or> loan_edge role (ln_status l) (ln_status l')) \<and>
    (ln_status l \<in> {LN_REJECTED, LN_CLOSED} \<longrightarrow> ln_status l' = ln_status l)"
proof -
  have run: "run_request env role req db = Inr db'"
    using assms(1) by (simp add: tenant_handler_def split: if_splits)
  obtain db1 where db1: "db' = stored db1" "loan_moved role l db1 i"
    using run_request_moved [OF assms(3) run] by blast
  have "is_cents (ln_principal l)" using assms(2) tget_in [OF assms(3)] by (simp add: cents_db_iff)
  then have "loan_moved role l db' i" using db1 by (simp add: stored_moved)
  then show ?thesis unfolding loan_moved_def
    by (auto simp: loan_edge.simps)
qed

theorem loan_lifecycle_witness:
  "\<exists>db'. tenant_handler (demo_env 9) TELLER (RepayLoan 1 51 ''k9'') demo_active_db = Inr db' \<and>
     (\<exists>l'. tget ln_id (t_loans db') 1 = Some l' \<and> same_terms demo_loan l')"
proof -
  have "is_ok (tenant_handler (demo_env 9) TELLER (RepayLoan 1 51 ''k9'') demo_active_db)" by code_simp
  then obtain db' where r: "tenant_handler (demo_env 9) TELLER (RepayLoan 1 51 ''k9'') demo_active_db = Inr db'"
    by (auto simp: is_ok_ex)
  have "cents_db demo_active_db" by code_simp
  then show ?thesis using loan_lifecycle [OF r _ demo_active_facts(2)] r by auto
qed

end
