(* ===== verification/MF_Service.thy ===== *)
theory MF_Service
  imports MF_Onboarding MF_Invariant
begin

text \<open>
  The microfinance service as one system: its metadata, the databases of its institutions, its worker
  and the platform outside.  The job table is a second instance of the queue contract; the invariant of
  the service covers the metadata and, through the tenant invariant, the books of every institution.
\<close>

section \<open>The job table is a retry queue\<close>

fun phase_of_mf :: "mf_job_status \<Rightarrow> job_phase" where
  "phase_of_mf MJ_QUEUED = Waiting"
| "phase_of_mf MJ_RETRYING = Waiting"
| "phase_of_mf MJ_RUNNING = Active"
| "phase_of_mf MJ_SUCCEEDED = Done"
| "phase_of_mf MJ_FAILED = Dead"

abbreviation mf_phase :: "mf_job \<Rightarrow> job_phase" where
  "mf_phase j \<equiv> phase_of_mf (mj_status j)"

lemma mf_due_iff: "mf_due now j \<longleftrightarrow> mf_phase j = Waiting \<and> mj_next_run_at j \<le> now"
  by (cases "mj_status j") (auto simp: mf_due_def)

lemma mf_backoff_bounds: "5 \<le> mf_backoff a \<and> mf_backoff a \<le> 300"
proof -
  have "(1::int) \<le> 2 ^ nat (a - 1)" by simp
  then have "5 \<le> 5 * (2::int) ^ nat (a - 1)" by linarith
  then show ?thesis by (simp add: mf_backoff_def)
qed

lemma claim_mf_None: "claim_mf_job now jobs = None \<longleftrightarrow> (\<forall>j\<in>set jobs. \<not> mf_due now j)"
proof -
  have "sort_key mj_created_at (filter (mf_due now) jobs) = [] \<longleftrightarrow> (\<forall>j\<in>set jobs. \<not> mf_due now j)"
    by (metis (no_types, lifting) empty_filter_conv set_empty set_sort)
  then show ?thesis by (auto simp: claim_mf_job_def split: list.splits)
qed

lemma sorted_head:
  assumes "sort_key f xs = y # ys"
  shows "y \<in> set xs" and "\<forall>x\<in>set xs. f y \<le> f x"
proof -
  have "set (y # ys) = set xs" using assms set_sort by metis
  moreover have "sorted (map f (y # ys))" using assms sorted_sort_key by metis
  ultimately show "y \<in> set xs" "\<forall>x\<in>set xs. f y \<le> f x" by auto
qed

lemma claim_mf_Some:
  assumes "claim_mf_job now jobs = Some (j', jobs')"
  obtains j where "j \<in> set jobs" "mf_due now j"
    "\<forall>k\<in>set jobs. mf_due now k \<longrightarrow> mj_created_at j \<le> mj_created_at k"
    "j' = j\<lparr>mj_status := MJ_RUNNING, mj_attempts := mj_attempts j + 1, mj_started_at := Some now\<rparr>"
    "jobs' = tset mj_id j' jobs"
proof -
  from assms obtain j rest where s: "sort_key mj_created_at (filter (mf_due now) jobs) = j # rest"
    and j': "j' = j\<lparr>mj_status := MJ_RUNNING, mj_attempts := mj_attempts j + 1, mj_started_at := Some now\<rparr>"
    and q: "jobs' = tset mj_id j' jobs"
    by (auto simp: claim_mf_job_def split: list.splits)
  show ?thesis using that sorted_head [OF s] j' q by auto
qed

interpretation mf_queue: retry_queue mj_id mf_phase mj_attempts mj_max_attempts mj_next_run_at
  mj_created_at claim_mf_job mf_succeeded mf_failed_or_retry
proof
  fix now q
  show "claim_mf_job now q = None \<longleftrightarrow> (\<forall>j\<in>set q. \<not> (mf_phase j = Waiting \<and> mj_next_run_at j \<le> now))"
    by (simp add: claim_mf_None mf_due_iff)
next
  fix now q j' q'
  assume "claim_mf_job now q = Some (j', q')"
  then obtain j where "j \<in> set q" "mf_due now j"
    "\<forall>k\<in>set q. mf_due now k \<longrightarrow> mj_created_at j \<le> mj_created_at k"
    "j' = j\<lparr>mj_status := MJ_RUNNING, mj_attempts := mj_attempts j + 1, mj_started_at := Some now\<rparr>"
    "q' = tset mj_id j' q"
    by (rule claim_mf_Some)
  then show "\<exists>j\<in>set q. mf_phase j = Waiting \<and> mj_next_run_at j \<le> now \<and>
      (\<forall>k\<in>set q. mf_phase k = Waiting \<and> mj_next_run_at k \<le> now \<longrightarrow> mj_created_at j \<le> mj_created_at k) \<and>
      mj_id j' = mj_id j \<and> mf_phase j' = Active \<and> mj_attempts j' = mj_attempts j + 1 \<and>
      mj_max_attempts j' = mj_max_attempts j \<and> mj_created_at j' = mj_created_at j \<and> q' = tset mj_id j' q"
    by (intro bexI [of _ j]) (auto simp: mf_due_iff)
next
  fix now e and j :: mf_job
  assume "mj_attempts j < mj_max_attempts j" "1 \<le> mj_attempts j"
  then show "mj_next_run_at (mf_failed_or_retry now e j) \<le> now + max_delay"
    using mf_backoff_bounds [of "mj_attempts j"] by (simp add: mf_failed_or_retry_def max_delay_def)
qed (auto simp: mf_succeeded_def mf_failed_or_retry_def)

section \<open>The invariant\<close>

definition complete :: "institution \<Rightarrow> bool" where
  "complete i \<longleftrightarrow> in_cp_project_id i \<noteq> None \<and> in_cp_database_id i \<noteq> None \<and> in_db_host i \<noteq> None \<and>
     in_db_port i \<noteq> None \<and> in_db_name i \<noteq> None \<and> in_db_username i \<noteq> None \<and> in_encrypted_db_password i \<noteq> None"

definition institutions_ok :: "uid \<Rightarrow> institution list \<Rightarrow> bool" where
  "institutions_ok n xs \<longleftrightarrow> distinct (map in_id xs) \<and> distinct (map in_slug xs) \<and>
     (\<forall>i\<in>set xs. in_id i < n \<and> (in_status i = IN_ACTIVE \<longrightarrow> complete i))"

abbreviation su_key :: "staff_user \<Rightarrow> uid \<times> string" where
  "su_key s \<equiv> (su_institution_id s, su_email s)"

definition staff_ok :: "uid \<Rightarrow> control_db \<Rightarrow> bool" where
  "staff_ok n db \<longleftrightarrow> distinct (map su_id (m_staff db)) \<and> distinct (map su_key (m_staff db)) \<and>
     (\<forall>s\<in>set (m_staff db). su_id s < n \<and> su_institution_id s \<in> keys in_id (m_institutions db))"

definition mf_jobs_ok :: "uid \<Rightarrow> mf_job list \<Rightarrow> bool" where
  "mf_jobs_ok n js \<longleftrightarrow> mf_queue.bounded js \<and> (\<forall>j\<in>set js. mj_id j < n)"

definition control_ok :: "uid \<Rightarrow> control_db \<Rightarrow> bool" where
  "control_ok n db \<longleftrightarrow> institutions_ok n (m_institutions db) \<and> staff_ok n db \<and> mf_jobs_ok n (m_jobs db)"

definition tenants_ok :: "(string \<times> tenant_db) list \<Rightarrow> bool" where
  "tenants_ok ts \<longleftrightarrow> (\<forall>(url, t)\<in>set ts. tenant_inv t)"

definition sound :: "'s mf_world \<Rightarrow> bool" where
  "sound w \<longleftrightarrow> control_ok (mw_next w) (mw_db w) \<and> control_ok (mw_next w) (mw_committed w) \<and> tenants_ok (mw_tenants w)"

lemma control_ok_mono: "control_ok n db \<Longrightarrow> n \<le> m \<Longrightarrow> control_ok m db"
  by (fastforce simp: control_ok_def institutions_ok_def staff_ok_def mf_jobs_ok_def)

section \<open>Seeding keeps the tenant invariant\<close>

lemma empty_tenant_inv: "tenant_inv empty_tenant"
  by (auto simp: empty_tenant_def tenant_inv_def ledger_inv_def ledger_wf_def account_keys_def sides_ok_def entries_ok_def
      cached_ok_def transactions_ok_def tb_diff_def get_account_Inr table_simps cents_db_iff savings_nonneg_def lines_ok_def
      schedules_ok_def loans_ok_def)

lemma no_entry_no_sum: "(\<And>e. e \<in> set es \<Longrightarrow> \<not> entry_matches ty i e) \<Longrightarrow> ledger_sum side ty i es = 0"
  unfolding ledger_sum_def by (induction es) auto


definition with_internal :: "internal_account list \<Rightarrow> tenant_db \<Rightarrow> tenant_db" where
  "with_internal accounts t = t\<lparr>t_internal := t_internal t @ accounts\<rparr>"

text \<open>A new internal account with a zero balance and a known side.\<close>

lemma internal_account_inv:
  assumes inv: "tenant_inv t" and new: "ia_id a \<notin> keys ia_id (t_internal t)"
    and a: "ia_balance_cached a = 0" "ia_normal_balance_side a \<in> {''debit'', ''credit''}"
  shows "tenant_inv (with_internal [a] t)"
proof -
  let ?t = "with_internal [a] t"
  have wf: "account_keys t" "sides_ok t" "entries_ok t" "cached_ok t" "transactions_ok t" "tb_diff t = 0"
    and rest: "cents_db t" "savings_nonneg t" "lines_ok t" "schedules_ok t" "loans_ok t"
    using inv by (auto simp: tenant_inv_def ledger_inv_def ledger_wf_def)
  have same: "get_account ?t ty i = get_account t ty i" if "\<not> (ty = ''internal_account'' \<and> i = ia_id a)" for ty i
    using that by (auto simp: get_account_def with_internal_def table_simps split: option.splits)
  have absent: "\<not> is_ok (get_account t ''internal_account'' (ia_id a))"
    using new tget_None_iff [of ia_id "t_internal t" "ia_id a"] by (simp add: get_account_def)
  have acc: "get_account ?t ''internal_account'' (ia_id a) = Inr (AInternal a)"
    using new tget_None_iff [of ia_id "t_internal t" "ia_id a"]
    by (simp add: get_account_def with_internal_def table_simps)
  have none: "\<not> entry_matches ''internal_account'' (ia_id a) e" if "e \<in> set (t_entries t)" for e
    using that wf(3) absent by (auto simp: entries_ok_def entry_matches_def)
  have "account_keys ?t" "sides_ok ?t" using wf new a by (auto simp: account_keys_def sides_ok_def with_internal_def keys_def)
  moreover have "entries_ok ?t"
    unfolding entries_ok_def
  proof
    fix e
    assume "e \<in> set (t_entries ?t)"
    then have e: "e \<in> set (t_entries t)" by (simp add: with_internal_def)
    then show "is_ok (get_account ?t (le_account_type e) (le_account_id e))"
      using wf(3) none [OF e] same by (auto simp: entries_ok_def entry_matches_def)
  qed
  moreover have "cached_ok ?t"
    unfolding cached_ok_def
  proof (intro allI impI)
    fix ty i ac
    assume g: "get_account ?t ty i = Inr ac"
    show "balance_of ac = ledger_sum (normal_side ac) ty i (t_entries ?t)"
    proof (cases "ty = ''internal_account'' \<and> i = ia_id a")
      case True
      then have "ac = AInternal a" using g acc by simp
      moreover have "ledger_sum side ty i (t_entries t) = 0" for side using True none by (auto intro!: no_entry_no_sum)
      ultimately show ?thesis using a by (simp add: with_internal_def)
    next
      case False
      then show ?thesis using g same [OF False] wf(4) by (auto simp: cached_ok_def with_internal_def)
    qed
  qed
  moreover have "transactions_ok ?t" "tb_diff ?t = 0" using wf a by (auto simp: transactions_ok_def tb_diff_def tb_internal_def with_internal_def)
  moreover have "cents_db ?t" using rest(1) a by (auto simp: cents_db_iff with_internal_def)
  moreover have "savings_nonneg ?t" "lines_ok ?t" "schedules_ok ?t" "loans_ok ?t"
    using rest by (auto simp: savings_nonneg_def lines_ok_def schedules_ok_def loans_ok_def with_internal_def)
  ultimately show ?thesis by (simp add: tenant_inv_def ledger_inv_def ledger_wf_def)
qed

lemma tenant_commit_inv: "tenant_inv t \<Longrightarrow> tenant_commit t = Inr t' \<Longrightarrow> tenant_inv t'"
  by (rule commit_tenant_inv) (simp_all add: commit_http_def uncaught_def map_err_eq_Inr)

lemma other_tables_inv:
  "tenant_inv (t\<lparr>t_profile := ps\<rparr>) = tenant_inv t" "tenant_inv (t\<lparr>t_agents := ags\<rparr>) = tenant_inv t"
  by (rule tenant_inv_cong; simp add: cents_db_iff)+

lemma seed_keeps_inv:
  assumes "tenant_inv t" "seed_tenant pid cash income name currency t = Inr t'"
  shows "tenant_inv t'"
proof -
  let ?cash = "\<lparr>ia_id = cash, ia_name = ''cash'', ia_normal_balance_side = ''debit'', ia_balance_cached = 0\<rparr>"
  let ?income = "\<lparr>ia_id = income, ia_name = ''interest_income'', ia_normal_balance_side = ''credit'', ia_balance_cached = 0\<rparr>"
  let ?p = "t_profile t @ [\<lparr>ip_id = pid, ip_name = name, ip_currency = currency\<rparr>]"
  from assms(2) have new: "cash \<notin> keys ia_id (t_internal t)" "income \<notin> keys ia_id (t_internal t)" "cash \<noteq> income"
    and commit: "tenant_commit (with_internal [?income] (with_internal [?cash] (t\<lparr>t_profile := ?p\<rparr>))) = Inr t'"
    by (auto simp: seed_tenant_def with_internal_def split: if_splits)
  have "tenant_inv (with_internal [?cash] (t\<lparr>t_profile := ?p\<rparr>))"
    using assms(1) new by (intro internal_account_inv) (simp_all add: other_tables_inv)
  moreover have "ia_id ?income \<notin> keys ia_id (t_internal (with_internal [?cash] (t\<lparr>t_profile := ?p\<rparr>)))"
    using new by (simp add: with_internal_def)
  ultimately have "tenant_inv (with_internal [?income] (with_internal [?cash] (t\<lparr>t_profile := ?p\<rparr>)))"
    by (rule internal_account_inv) simp_all
  then show ?thesis using tenant_commit_inv [OF _ commit] by blast
qed

lemma add_agent_inv: "tenant_inv t \<Longrightarrow> add_agent i b name role t = Inr t' \<Longrightarrow> tenant_inv t'"
  using tenant_commit_inv [of "t\<lparr>t_agents := t_agents t @ [\<lparr>ag_id = i, ag_branch_id = b, ag_full_name = name, ag_role = role\<rparr>]\<rparr>" t']
  by (simp add: add_agent_def map_err_eq_Inr other_tables_inv)

lemma handler_inv: "tenant_inv t \<Longrightarrow> cents_request req \<Longrightarrow> tenant_handler renv role req t = Inr t' \<Longrightarrow> tenant_inv t'"
  by (auto simp: tenant_handler_def split: if_splits intro: run_request_inv)

lemma tenants_ok_get: "tenants_ok ts \<Longrightarrow> map_of ts url = Some t \<Longrightarrow> tenant_inv t"
  by (auto simp: tenants_ok_def dest!: map_of_SomeD)

lemma tenants_ok_put: "tenants_ok ts \<Longrightarrow> tenant_inv t \<Longrightarrow> tenants_ok (tset fst (url, t) ts)"
  by (auto simp: tenants_ok_def dest!: in_tset)


section \<open>The metadata keeps its invariant\<close>

lemma control_add_institution:
  assumes "control_ok n db" "in_id i = n" "in_slug i \<notin> in_slug ` set (m_institutions db)" "in_status i \<noteq> IN_ACTIVE"
  shows "control_ok (Suc n) (db\<lparr>m_institutions := m_institutions db @ [i]\<rparr>)"
  using assms by (fastforce simp: control_ok_def institutions_ok_def staff_ok_def mf_jobs_ok_def)

lemma control_add_staff:
  assumes "control_ok n db" "su_id s = n" "su_institution_id s \<in> keys in_id (m_institutions db)"
    "\<not> list_ex (\<lambda>x. su_institution_id x = su_institution_id s \<and> su_email x = su_email s) (m_staff db)"
  shows "control_ok (Suc n) (db\<lparr>m_staff := m_staff db @ [s]\<rparr>)"
  using assms by (fastforce simp: control_ok_def institutions_ok_def staff_ok_def mf_jobs_ok_def list_ex_iff)

lemma control_add_job:
  assumes "control_ok n db" "mj_id j = n" "mj_attempts j = 0" "0 < mj_max_attempts j"
  shows "control_ok (Suc n) (db\<lparr>m_jobs := m_jobs db @ [j]\<rparr>)"
  using assms by (fastforce simp: control_ok_def institutions_ok_def staff_ok_def mf_jobs_ok_def mf_queue.bounded_def)

lemma control_put_institution:
  assumes ok: "control_ok n db" and i: "tget in_id (m_institutions db) (in_id i') = Some i" and slug: "in_slug i' = in_slug i"
    and act: "in_status i' = IN_ACTIVE \<longrightarrow> complete i'"
  shows "control_ok n (db\<lparr>m_institutions := tset in_id i' (m_institutions db)\<rparr>)"
proof -
  let ?is = "m_institutions db"
  have d: "distinct (map in_id ?is)" "distinct (map in_slug ?is)" using ok by (auto simp: control_ok_def institutions_ok_def)
  have "in_slug x = in_slug i'" if "x \<in> set ?is" "in_id x = in_id i'" for x
    using tget_distinct [OF d(1) that(1)] that(2) i slug by simp
  then have "map in_slug (tset in_id i' ?is) = map in_slug ?is" by (auto simp: tset_def)
  moreover have "in_id i' < n" using ok i tget_in [OF i] tget_key [OF i] by (auto simp: control_ok_def institutions_ok_def)
  ultimately have "institutions_ok n (tset in_id i' ?is)"
    using ok d act by (auto simp: control_ok_def institutions_ok_def dest!: in_tset)
  then show ?thesis using ok by (simp add: control_ok_def staff_ok_def)
qed

lemma control_put_job:
  assumes "control_ok n db" "mj_id j < n" "0 \<le> mj_attempts j" "mj_attempts j \<le> mj_max_attempts j"
    "mf_phase j = Waiting \<longrightarrow> mj_attempts j < mj_max_attempts j"
  shows "control_ok n (put_job j db)"
  using assms mf_queue.bounded_tset [of "m_jobs db" j]
  by (auto simp: control_ok_def staff_ok_def mf_jobs_ok_def put_job_def dest!: in_tset)

lemma control_accounts: "control_ok n (db\<lparr>m_accounts := as\<rparr>) = control_ok n db"
  by (simp add: control_ok_def staff_ok_def)

section \<open>Contracts of the primitives\<close>

lemma holds_query_db: "(\<And>w. P w \<Longrightarrow> Q (f (mw_db w)) w) \<Longrightarrow> holds E P (query_db f) Q"
  by (simp add: query_db_def holds_reads)

lemma first_or_none_Inr: "first_or_none xs = Inr r \<longleftrightarrow> xs = [] \<and> r = None \<or> (\<exists>x. xs = [x] \<and> r = Some x)"
  by (cases xs rule: scalar_of.cases) (auto simp: first_or_none_def)

lemma holds_query_one:
  "(\<And>w. P w \<Longrightarrow> E w) \<Longrightarrow> (\<And>w x. P w \<Longrightarrow> first_or_none (f (mw_db w)) = Inr x \<Longrightarrow> Q x w) \<Longrightarrow> holds E P (query_one f) Q"
  by (simp add: query_one_def holds_reads_exn)

lemma holds_change_db: "(\<And>w. P w \<Longrightarrow> Q () (w\<lparr>mw_db := f (mw_db w)\<rparr>)) \<Longrightarrow> holds E P (change_db f) Q"
  by (simp add: change_db_def holds_updates)

lemma holds_new_uuid: "(\<And>w. P w \<Longrightarrow> Q (mw_next w) (w\<lparr>mw_next := Suc (mw_next w)\<rparr>)) \<Longrightarrow> holds E P new_uuid Q"
  by (simp add: holds_def new_uuid_def)

lemma holds_commit_db: "(\<And>w. P w \<Longrightarrow> Q () (w\<lparr>mw_committed := mw_db w\<rparr>)) \<Longrightarrow> holds E P commit_db Q"
  by (simp add: commit_db_def holds_updates)

lemma holds_in_tenant:
  "(\<And>w. P w \<Longrightarrow> E w) \<Longrightarrow> (\<And>w t x. P w \<Longrightarrow> map_of (mw_tenants w) url = Some t \<Longrightarrow> f t = Inr x \<Longrightarrow> Q x w) \<Longrightarrow>
   holds E P (in_tenant url f) Q"
  by (auto simp: in_tenant_def intro!: holds_reads_exn split: option.splits)

lemma holds_put_tenant: "(\<And>w. P w \<Longrightarrow> Q () (w\<lparr>mw_tenants := tset fst (url, t) (mw_tenants w)\<rparr>)) \<Longrightarrow> holds E P (put_tenant url t) Q"
  by (simp add: put_tenant_def holds_updates)

lemma holds_on_platform:
  "(\<And>w s. P w \<Longrightarrow> E (w\<lparr>mw_outside := s\<rparr>)) \<Longrightarrow> (\<And>w s x. P w \<Longrightarrow> Q x (w\<lparr>mw_outside := s\<rparr>)) \<Longrightarrow> holds E P (on_platform m) Q"
  by (auto simp: holds_def on_platform_def split: prod.splits sum.splits)

lemma holds_request:
  assumes "holds E P m Q" "\<And>w. E w \<Longrightarrow> E (w\<lparr>mw_db := mw_committed w\<rparr>)"
  shows "holds E P (request m) Q"
  using assms unfolding holds_def by (fastforce simp: request_def split: sum.splits prod.splits)

lemma holds_also:
  assumes "holds E P m Q" "\<And>s x s'. m s = (Inr x, s') \<Longrightarrow> R x"
  shows "holds E P m (\<lambda>x s. Q x s \<and> R x)"
  using assms unfolding holds_def by (fastforce split: sum.splits)

lemmas holds_basic = holds_query_db holds_query_one holds_check holds_some_or holds_give holds_lifted holds_throw holds_commit_db

text \<open>Reading and raising keep whatever holds.\<close>

lemma keeps_reading:
  "holds P P (query_db f) (\<lambda>_. P)" "holds P P (query_one g) (\<lambda>_. P)" "holds P P (check b e) (\<lambda>_. P)"
  "holds P P (some_or e x) (\<lambda>_. P)" "holds P P (give y) (\<lambda>_. P)" "holds P P (lifted r) (\<lambda>_. P)" "holds P P (throw e) (\<lambda>_. P)"
  "holds P P (in_tenant url h) (\<lambda>_. P)"
  by (auto intro!: holds_basic holds_in_tenant)

lemma holds_prod: "(\<And>a b. holds E P (f a b) Q) \<Longrightarrow> holds E P (case x of (a, b) \<Rightarrow> f a b) Q"
  by (cases x) simp

lemma keeps_dependencies:
  "holds P P (require_mf_operator env cr) (\<lambda>_. P)" "holds P P (get_institution_by_slug slug) (\<lambda>_. P)"
  "holds P P (require_active_institution slug) (\<lambda>_. P)" "holds P P (staff_of_token env i cr) (\<lambda>_. P)"
  "holds P P (get_current_staff_user env slug cr) (\<lambda>_. P)" "holds P P (get_tenant_db env slug) (\<lambda>_. P)"
  "holds P P (permitted role action) (\<lambda>_. P)" "holds P P (branch_exists url b) (\<lambda>_. P)"
proof -
  show a: "holds P P (require_mf_operator env cr) (\<lambda>_. P)" "holds P P (permitted role action) (\<lambda>_. P)"
      "holds P P (branch_exists url b) (\<lambda>_. P)"
    by (auto simp: require_mf_operator_def permitted_def branch_exists_def intro: keeps_reading split: option.split)
  show b: "holds P P (get_institution_by_slug slug) (\<lambda>_. P)"
    unfolding get_institution_by_slug_def by (rule holds_chain keeps_reading)+
  show c: "holds P P (require_active_institution slug) (\<lambda>_. P)"
    unfolding require_active_institution_def by (rule holds_chain keeps_reading b)+
  show d: "holds P P (staff_of_token env i cr) (\<lambda>_. P)" for i
    unfolding staff_of_token_def by (rule holds_chain keeps_reading holds_prod)+
  show "holds P P (get_current_staff_user env slug cr) (\<lambda>_. P)"
    unfolding get_current_staff_user_def by (rule holds_chain b d)+
  show "holds P P (get_tenant_db env slug) (\<lambda>_. P)"
    unfolding get_tenant_db_def by (rule holds_chain c keeps_reading)+
qed

section \<open>Requests keep the invariant\<close>

lemma sound_db: "sound w \<Longrightarrow> control_ok (mw_next w) db \<Longrightarrow> sound (w\<lparr>mw_db := db\<rparr>)"
  by (simp add: sound_def)

lemma sound_commit: "sound w \<Longrightarrow> sound (w\<lparr>mw_committed := mw_db w\<rparr>)"
  by (simp add: sound_def)

lemma sound_rollback: "sound w \<Longrightarrow> sound (w\<lparr>mw_db := mw_committed w\<rparr>)"
  by (simp add: sound_def)

lemma sound_outside: "sound w \<Longrightarrow> sound (w\<lparr>mw_outside := s\<rparr>)"
  by (simp add: sound_def)

lemma sound_fresh: "sound w \<Longrightarrow> control_ok (Suc (mw_next w)) db \<Longrightarrow> sound (w\<lparr>mw_next := Suc (mw_next w), mw_db := db\<rparr>)"
  using control_ok_mono [of "mw_next w" "mw_committed w" "Suc (mw_next w)"] by (simp add: sound_def)

lemma sound_next: "sound w \<Longrightarrow> sound (w\<lparr>mw_next := Suc (mw_next w)\<rparr>)"
  using control_ok_mono [of "mw_next w" _ "Suc (mw_next w)"] by (simp add: sound_def)

lemma sound_tenant: "sound w \<Longrightarrow> tenant_inv t \<Longrightarrow> sound (w\<lparr>mw_tenants := tset fst (url, t) (mw_tenants w)\<rparr>)"
  by (simp add: sound_def tenants_ok_put)

definition slug_free :: "string \<Rightarrow> 's mf_world \<Rightarrow> bool" where
  "slug_free slug w \<longleftrightarrow> slug \<notin> in_slug ` set (m_institutions (mw_db w))"

definition known :: "uid \<Rightarrow> 's mf_world \<Rightarrow> bool" where
  "known i w \<longleftrightarrow> i \<in> keys in_id (m_institutions (mw_db w))"

lemma holds_add_institution:
  "holds sound (\<lambda>w. sound w \<and> slug_free slug w) (add_institution env name slug) (\<lambda>i w. sound w \<and> known (in_id i) w)"
  unfolding holds_def
proof (intro allI impI)
  fix w :: "'s mf_world" and r w'
  assume w: "sound w \<and> slug_free slug w" and run: "add_institution env name slug w = (r, w')"
  define i where "i = projr r"
  from run have i: "in_id i = mw_next w" "in_slug i = slug" "in_status i = IN_PROVISIONING"
    "r = Inr i" "w' = w\<lparr>mw_next := Suc (mw_next w), mw_db := (mw_db w)\<lparr>m_institutions := m_institutions (mw_db w) @ [i]\<rparr>\<rparr>"
    by (auto simp: i_def add_institution_def new_uuid_def change_db_def updates_def give_def)
  have "control_ok (Suc (mw_next w)) ((mw_db w)\<lparr>m_institutions := m_institutions (mw_db w) @ [i]\<rparr>)"
    using w i by (intro control_add_institution) (auto simp: sound_def slug_free_def)
  then show "case r of Inl e \<Rightarrow> sound w' | Inr i \<Rightarrow> sound w' \<and> known (in_id i) w'"
    using w i by (simp add: sound_fresh known_def)
qed

lemma holds_add_staff:
  "holds sound (\<lambda>w. sound w \<and> known inst w) (add_staff env inst email password role agent) (\<lambda>_. sound)"
  unfolding holds_def
proof (intro allI impI)
  fix w :: "'s mf_world" and r w'
  assume w: "sound w \<and> known inst w" and run: "add_staff env inst email password role agent w = (r, w')"
  show "case r of Inl e \<Rightarrow> sound w' | Inr x \<Rightarrow> sound w'"
  proof (cases "list_ex (\<lambda>s. su_institution_id s = inst \<and> su_email s = email) (m_staff (mw_db w))")
    case True
    then have "w' = w\<lparr>mw_next := Suc (mw_next w)\<rparr>"
      using run by (auto simp: add_staff_def new_uuid_def query_db_def reads_def check_def split: prod.splits sum.splits if_splits)
    then show ?thesis using w sound_next by (auto split: sum.split)
  next
    case False
    define s where "s = projr r"
    from run False have s: "su_id s = mw_next w" "su_institution_id s = inst" "su_email s = email"
      "r = Inr s" "w' = w\<lparr>mw_next := Suc (mw_next w), mw_db := (mw_db w)\<lparr>m_staff := m_staff (mw_db w) @ [s]\<rparr>\<rparr>"
      by (auto simp: s_def add_staff_def new_uuid_def query_db_def reads_def check_def change_db_def updates_def give_def)
    have "control_ok (Suc (mw_next w)) ((mw_db w)\<lparr>m_staff := m_staff (mw_db w) @ [s]\<rparr>)"
      using w s False by (intro control_add_staff) (auto simp: sound_def known_def)
    then show ?thesis using w s by (simp add: sound_fresh)
  qed
qed

lemma holds_enqueue: "holds sound sound (enqueue env ty payload i) (\<lambda>_. sound)"
  unfolding holds_def
proof (intro allI impI)
  fix w :: "'s mf_world" and r w'
  assume w: "sound w" and run: "enqueue env ty payload i w = (r, w')"
  define j where "j = projr r"
  from run have j: "mj_id j = mw_next w" "mj_attempts j = 0" "0 < mj_max_attempts j"
    "r = Inr j" "w' = w\<lparr>mw_next := Suc (mw_next w), mw_db := (mw_db w)\<lparr>m_jobs := m_jobs (mw_db w) @ [j]\<rparr>\<rparr>"
    by (auto simp: j_def enqueue_def new_uuid_def change_db_def updates_def give_def new_mf_job_def)
  have "control_ok (Suc (mw_next w)) ((mw_db w)\<lparr>m_jobs := m_jobs (mw_db w) @ [j]\<rparr>)"
    using w j by (intro control_add_job) (auto simp: sound_def)
  then show "case r of Inl e \<Rightarrow> sound w' | Inr x \<Rightarrow> sound w'" using w j by (simp add: sound_fresh)
qed

lemma holds_commit_sound: "holds sound sound commit_db (\<lambda>_. sound)"
  by (rule holds_commit_db) (rule sound_commit)

lemma create_institution_sound:
  "holds sound sound (create_institution env cr name slug region currency email) (\<lambda>_. sound)"
proof -
  have look: "holds sound sound (query_one (\<lambda>db. filter (\<lambda>i. in_slug i = slug) (m_institutions db)))
      (\<lambda>found w. sound w \<and> (found = None \<longrightarrow> slug_free slug w))"
    by (rule holds_query_one) (auto simp: first_or_none_Inr slug_free_def filter_empty_conv)
  have free: "holds sound (\<lambda>w. sound w \<and> (found = None \<longrightarrow> slug_free slug w)) (check (found = None) (MC_HTTP 409))
      (\<lambda>_ w. sound w \<and> slug_free slug w)" for found :: "institution option"
    by (rule holds_check) auto
  show ?thesis
    unfolding create_institution_def
    by (rule holds_request holds_chain keeps_dependencies(1) look free holds_add_institution holds_add_staff holds_enqueue
        holds_commit_sound keeps_reading sound_rollback | assumption)+
qed

text \<open>What an operation keeps, it keeps under a weaker condition on raising.\<close>

lemma holds_stay: "(\<And>s. P s \<Longrightarrow> E s) \<Longrightarrow> holds P P m (\<lambda>_. P) \<Longrightarrow> holds E P m (\<lambda>_. P)"
  unfolding holds_def by (auto split: sum.splits)

lemma filter_one: "filter P xs = [x] \<Longrightarrow> x \<in> set xs \<and> P x"
  by (drule arg_cong [where f = set]) auto

lemma active_known: "holds sound sound (require_active_institution slug) (\<lambda>i w. sound w \<and> known (in_id i) w)"
proof -
  have look: "holds sound sound (query_one (\<lambda>db. filter (\<lambda>i. in_slug i = slug) (m_institutions db)))
      (\<lambda>found w. sound w \<and> (\<forall>i. found = Some i \<longrightarrow> known (in_id i) w))"
    by (rule holds_query_one) (auto simp: first_or_none_Inr known_def keys_def dest!: filter_one)
  have found: "holds sound (\<lambda>w. sound w \<and> (\<forall>i. found = Some i \<longrightarrow> known (in_id i) w)) (some_or (MC_HTTP 404) found)
      (\<lambda>i w. sound w \<and> known (in_id i) w)" for found
    by (rule holds_some_or) auto
  have active: "holds sound (\<lambda>w. sound w \<and> known (in_id i) w)
      (chain (check (in_status i = IN_ACTIVE) (MC_HTTP 409)) (\<lambda>_. give i)) (\<lambda>i w. sound w \<and> known (in_id i) w)" for i
    by (rule holds_chain, rule holds_check [where Q = "\<lambda>_ w. sound w \<and> known (in_id i) w"]) (auto intro: holds_give)
  show ?thesis
    unfolding require_active_institution_def get_institution_by_slug_def
    by (rule holds_chain look found active)+
qed

lemma known_stay: "holds (\<lambda>w. sound w \<and> known i w) (\<lambda>w. sound w \<and> known i w) m (\<lambda>_ w. sound w \<and> known i w) \<Longrightarrow>
    holds sound (\<lambda>w. sound w \<and> known i w) m (\<lambda>_ w. sound w \<and> known i w)"
  by (rule holds_stay) simp_all

lemma create_staff_sound: "holds sound sound (create_staff env slug cr name email password role b) (\<lambda>_. sound)"
proof -
  have agent: "holds sound (\<lambda>w. sound w \<and> known i w) (in_tenant url (add_agent a b name role)) (\<lambda>t w. (sound w \<and> known i w) \<and> tenant_inv t)"
    for i url a by (rule holds_in_tenant) (auto simp: sound_def dest: tenants_ok_get add_agent_inv)
  have put: "holds sound (\<lambda>w. (sound w \<and> known i w) \<and> tenant_inv t) (put_tenant url t) (\<lambda>_ w. sound w \<and> known i w)"
    for i url t by (rule holds_put_tenant) (auto simp: sound_tenant known_def)
  have fresh: "holds sound (\<lambda>w. sound w \<and> known i w) new_uuid (\<lambda>_ w. sound w \<and> known i w)" for i
    by (rule holds_new_uuid) (auto simp: sound_next known_def)
  show ?thesis
    unfolding create_staff_def
    by (rule holds_request holds_chain active_known known_stay [OF keeps_dependencies(5)] known_stay [OF keeps_dependencies(6)]
        known_stay [OF keeps_dependencies(7)] known_stay [OF keeps_dependencies(8)] known_stay [OF keeps_reading(2)]
        known_stay [OF keeps_reading(3)] agent put fresh holds_add_staff holds_commit_sound keeps_reading sound_rollback | assumption)+
qed

lemma tenant_endpoint_sound:
  assumes "cents_request req"
  shows "holds sound sound (tenant_endpoint env renv slug cr req) (\<lambda>_. sound)"
proof -
  have run: "holds sound sound (in_tenant url (\<lambda>t. map_err http_of (tenant_handler rv role req t))) (\<lambda>t w. sound w \<and> tenant_inv t)"
    for url rv role using assms
    by (intro holds_in_tenant) (auto simp: sound_def map_err_eq_Inr dest: tenants_ok_get intro: handler_inv)
  have put: "holds sound (\<lambda>w. sound w \<and> tenant_inv t) (put_tenant url t) (\<lambda>_. sound)" for url t
    by (rule holds_put_tenant) (auto simp: sound_tenant)
  show ?thesis
    unfolding tenant_endpoint_def
    by (rule holds_request holds_chain keeps_dependencies run put sound_rollback | assumption)+
qed

lemma login_sound: "holds sound sound (login env slug email password) (\<lambda>_. sound)"
  unfolding login_def by (rule holds_request holds_chain keeps_dependencies keeps_reading sound_rollback | assumption)+

section \<open>The worker keeps the invariant\<close>

text \<open>While a job runs: the invariant holds and the job table stays as it is.\<close>

definition busy :: "mf_job list \<Rightarrow> 's mf_world \<Rightarrow> bool" where
  "busy jobs w \<longleftrightarrow> sound w \<and> m_jobs (mw_db w) = jobs"

definition loaded :: "mf_job list \<Rightarrow> institution \<Rightarrow> 's mf_world \<Rightarrow> bool" where
  "loaded jobs i w \<longleftrightarrow> busy jobs w \<and> tget in_id (m_institutions (mw_db w)) (in_id i) = Some i"

lemma loaded_put:
  assumes "loaded jobs i w" "in_id i' = in_id i" "in_slug i' = in_slug i" "in_status i' = IN_ACTIVE \<longrightarrow> complete i'"
  shows "loaded jobs i' (w\<lparr>mw_db := (mw_db w)\<lparr>m_institutions := tset in_id i' (m_institutions (mw_db w))\<rparr>\<rparr>)"
proof -
  have "control_ok (mw_next w) ((mw_db w)\<lparr>m_institutions := tset in_id i' (m_institutions (mw_db w))\<rparr>)"
    using assms by (intro control_put_institution [where i = i]) (auto simp: loaded_def busy_def sound_def)
  then show ?thesis using assms by (auto simp: loaded_def busy_def sound_db tget_tset)
qed

lemma busy_outside: "busy jobs w \<Longrightarrow> busy jobs (w\<lparr>mw_outside := s\<rparr>)"
  by (simp add: busy_def sound_outside)

lemma loaded_outside: "loaded jobs i w \<Longrightarrow> loaded jobs i (w\<lparr>mw_outside := s\<rparr>)"
  by (simp add: loaded_def busy_outside)

lemma loaded_account: "loaded jobs i w \<Longrightarrow> loaded jobs i (w\<lparr>mw_db := (mw_db w)\<lparr>m_accounts := as\<rparr>\<rparr>)"
  by (simp add: loaded_def busy_def sound_def control_accounts)

lemma loaded_complete: "loaded jobs i w \<Longrightarrow> in_status i = IN_ACTIVE \<Longrightarrow> complete i"
  using tget_in [of in_id "m_institutions (mw_db w)" "in_id i" i]
  by (auto simp: loaded_def busy_def sound_def control_ok_def institutions_ok_def)

lemma client_loaded: "holds (loaded jobs i) (loaded jobs i) (get_authenticated_client env net) (\<lambda>_. loaded jobs i)"
proof -
  have sdk: "holds (loaded jobs i) (loaded jobs i) (on_platform m) (\<lambda>_. loaded jobs i)" for m
    by (rule holds_on_platform) (auto intro: loaded_outside)
  have put: "holds (loaded jobs i) (loaded jobs i) (put_account a) (\<lambda>_. loaded jobs i)" for a
    unfolding put_account_def by (rule holds_change_db) (rule loaded_account)
  have acc: "holds (loaded jobs i) (loaded jobs i) (case as of [] \<Rightarrow> throw MC_RuntimeError | a # _ \<Rightarrow> give a) (\<lambda>_. loaded jobs i)" for as
    by (auto split: list.split intro: keeps_reading)
  show ?thesis
    unfolding get_authenticated_client_def get_platform_account_def
    by (rule holds_chain holds_prod holds_if sdk put acc keeps_reading)+
qed

lemma start_loaded: "holds (busy jobs) (busy jobs) (onboard_start env net job) (\<lambda>ob. loaded jobs (ob_institution ob))"
proof -
  have weak: "holds (busy jobs) (loaded jobs i) m (\<lambda>_. loaded jobs i)"
    if "holds (loaded jobs i) (loaded jobs i) m (\<lambda>_. loaded jobs i)" for m i
    by (rule holds_stay [OF _ that]) (simp add: loaded_def)
  have look: "holds (busy jobs) (busy jobs) (query_db (\<lambda>db. tget in_id (m_institutions db) i))
      (\<lambda>found w. busy jobs w \<and> (\<forall>x. found = Some x \<longrightarrow> loaded jobs x w))" for i
    by (rule holds_query_db) (auto simp: loaded_def dest: tget_key)
  have got: "holds (busy jobs) (\<lambda>w. busy jobs w \<and> (\<forall>x. found = Some x \<longrightarrow> loaded jobs x w)) (some_or MC_RuntimeError found)
      (\<lambda>i. loaded jobs i)" for found
    by (rule holds_some_or) auto
  have sdk: "holds (loaded jobs i) (loaded jobs i) (on_platform m) (\<lambda>_. loaded jobs i)" for m i
    by (rule holds_on_platform) (auto intro: loaded_outside)
  have jt: "holds P P (json_text n v) (\<lambda>_. P)" for P n v unfolding json_text_def by (rule keeps_reading)
  have acc: "holds P P get_platform_account (\<lambda>_. P)" for P :: "'a mf_world \<Rightarrow> bool"
    unfolding get_platform_account_def
    by (rule holds_chain) (rule keeps_reading, auto split: list.split intro: keeps_reading)
  show ?thesis
    unfolding onboard_start_def payload_field_def
    by (rule holds_chain, rule keeps_reading, rule holds_chain, rule keeps_reading, rule holds_chain, rule look, rule holds_chain, rule got,
        (rule holds_chain weak [OF keeps_reading(4)] weak [OF client_loaded] weak [OF acc] weak [OF sdk] weak [OF jt]
          | (rule holds_give, simp))+)
qed

text \<open>The assignments only fill in columns.\<close>

definition fills :: "(institution \<Rightarrow> control_exn + institution) \<Rightarrow> bool" where
  "fills f \<longleftrightarrow> (\<forall>i i'. f i = Inr i' \<longrightarrow> in_id i' = in_id i \<and> in_slug i' = in_slug i \<and> in_status i' = in_status i \<and>
     (complete i \<longrightarrow> complete i'))"

lemma assign_loaded:
  assumes "fills f"
  shows "holds (busy jobs) (loaded jobs i) (assign f i) (loaded jobs)"
proof -
  have get: "holds (busy jobs) (loaded jobs i) (lifted (f i)) (\<lambda>i' w. loaded jobs i w \<and> f i = Inr i')"
    by (rule holds_lifted) (auto simp: loaded_def)
  have put: "holds (busy jobs) (\<lambda>w. loaded jobs i w \<and> f i = Inr i') (chain (put_institution i') (\<lambda>_. give i')) (loaded jobs)" for i'
    unfolding put_institution_def
    by (rule holds_chain, rule holds_change_db [where Q = "\<lambda>_. loaded jobs i'"])
      (use assms in \<open>auto simp: fills_def intro!: loaded_put holds_give dest: loaded_complete\<close>)
  show ?thesis unfolding assign_def by (rule holds_chain get put)+
qed

lemma assign_connection_loaded:
  "holds (busy jobs) (loaded jobs i) (assign_connection env project database connection i) (loaded jobs)"
  unfolding assign_connection_def assign_text_def
  by (rule holds_chain assign_loaded | (auto simp: fills_def complete_def rbind_eq_Inr)[1])+

lemma assign_Inr: "assign f i w = (Inr i', w') \<Longrightarrow> f i = Inr i'"
  by (auto simp: assign_def eff_simps elim!: chain_okE)

lemma assign_connection_complete:
  assumes "assign_connection env project database connection i w = (Inr i', w')"
  shows "complete i'"
  using assms unfolding assign_connection_def assign_text_def
  by (elim chain_okE) (auto dest!: assign_Inr simp: rbind_eq_Inr complete_def)

lemma migrations_loaded: "holds (busy jobs) (loaded jobs i) (run_tenant_migrations env url) (\<lambda>_. loaded jobs i)"
proof -
  have add: "loaded jobs i (case map_of (mw_tenants w) url of
      None \<Rightarrow> w\<lparr>mw_tenants := mw_tenants w @ [(url, empty_tenant)]\<rparr> | Some _ \<Rightarrow> w)" if "loaded jobs i w" for w :: "'a mf_world"
    using that by (auto simp: loaded_def busy_def sound_def tenants_ok_def empty_tenant_inv split: option.split)
  show ?thesis
    unfolding run_tenant_migrations_def
    by (rule holds_if, rule holds_throw, simp add: loaded_def, rule holds_updates, rule add)
qed

lemma seed_loaded: "holds (busy jobs) (loaded jobs i) (seed url name currency) (\<lambda>_. loaded jobs i)"
proof -
  have fresh: "holds (busy jobs) (loaded jobs i) new_uuid (\<lambda>_. loaded jobs i)"
    by (rule holds_new_uuid) (auto simp: loaded_def busy_def sound_next)
  have get: "holds (busy jobs) (loaded jobs i) (in_tenant url (\<lambda>t. map_err MC_Raised (seed_tenant p c n name currency t)))
      (\<lambda>t w. loaded jobs i w \<and> tenant_inv t)" for p c n
    by (rule holds_in_tenant) (auto simp: loaded_def busy_def sound_def map_err_eq_Inr dest: tenants_ok_get seed_keeps_inv)
  have put: "holds (busy jobs) (\<lambda>w. loaded jobs i w \<and> tenant_inv t) (put_tenant url t) (\<lambda>_. loaded jobs i)" for t
    by (rule holds_put_tenant) (auto simp: loaded_def busy_def sound_tenant)
  show ?thesis unfolding seed_def by (rule holds_chain fresh get put)+
qed

lemma finish_busy: "holds (busy jobs) (loaded jobs (ob_institution ob)) (onboard_finish env net ob) (\<lambda>_. busy jobs)"
proof -
  have weak: "holds (busy jobs) (loaded jobs i) m (\<lambda>_. loaded jobs i)"
    if "holds (loaded jobs i) (loaded jobs i) m (\<lambda>_. loaded jobs i)" for m i
    by (rule holds_stay [OF _ that]) (simp add: loaded_def)
  have sdk: "holds (loaded jobs i) (loaded jobs i) (on_platform m) (\<lambda>_. loaded jobs i)" for m i
    by (rule holds_on_platform) (auto intro: loaded_outside)
  have jt: "holds P P (json_text n v) (\<lambda>_. P)" for P n v unfolding json_text_def by (rule keeps_reading)
  have filled: "holds (busy jobs) (loaded jobs i) (assign_connection env p d c i) (\<lambda>i' w. loaded jobs i' w \<and> complete i')" for p d c i
    by (rule holds_also [OF assign_connection_loaded assign_connection_complete])
  have kept: "holds (busy jobs) (\<lambda>w. loaded jobs i w \<and> complete i) m (\<lambda>_ w. loaded jobs i w \<and> complete i)"
    if "holds (busy jobs) (loaded jobs i) m (\<lambda>_. loaded jobs i)" for m i
    using that unfolding holds_def by (fastforce split: sum.splits)
  have act: "busy jobs (w\<lparr>mw_db := (mw_db w)\<lparr>m_institutions := tset in_id (i\<lparr>in_status := IN_ACTIVE\<rparr>) (m_institutions (mw_db w))\<rparr>\<rparr>)"
    if "loaded jobs i w" "complete i" for w i
    using that loaded_put [of jobs i w "i\<lparr>in_status := IN_ACTIVE\<rparr>"] by (simp add: loaded_def complete_def)
  have activate: "holds (busy jobs) (\<lambda>w. loaded jobs i w \<and> complete i) (put_institution (i\<lparr>in_status := IN_ACTIVE\<rparr>)) (\<lambda>_. busy jobs)" for i
    unfolding put_institution_def by (rule holds_change_db) (use act in blast)
  show ?thesis
    unfolding onboard_finish_def
    by (rule holds_chain weak [OF keeps_reading(6)] weak [OF sdk] weak [OF jt] filled kept [OF weak [OF keeps_reading(6)]]
        kept [OF migrations_loaded] kept [OF seed_loaded] activate keeps_reading)+
qed

lemma execute_busy:
  assumes "busy jobs w" "execute_onboard_institution env net job w = Some (r, w')"
  shows "busy jobs w'"
proof -
  obtain q v where start: "onboard_start env net job w = (q, v)" by force
  show ?thesis
  proof (cases q)
    case (Inl e)
    then show ?thesis using assms(2) start holds_Inl [OF start_loaded assms(1)] by (auto simp: execute_onboard_institution_def)
  next
    case (Inr ob)
    then have l: "loaded jobs (ob_institution ob) v" using start holds_Inr [OF start_loaded assms(1)] by blast
    obtain p s where wait: "sdk_wait_for_job net (ob_client ob) (ob_job ob) 1 120 (mw_outside v) = Some (p, s)"
      using assms(2) start Inr by (auto simp: execute_onboard_institution_def split: option.splits)
    have ls: "loaded jobs (ob_institution ob) (v\<lparr>mw_outside := s\<rparr>)" using l by (rule loaded_outside)
    show ?thesis
    proof (cases p)
      case (Inl e)
      then show ?thesis using assms(2) start Inr wait ls by (auto simp: execute_onboard_institution_def loaded_def)
    next
      case (Inr job)
      then have "onboard_finish env net ob (v\<lparr>mw_outside := s\<rparr>) = (r, w')"
        using assms(2) start \<open>q = Inr ob\<close> wait by (auto simp: execute_onboard_institution_def)
      then show ?thesis using holds_Inl [OF finish_busy ls] holds_Inr [OF finish_busy ls] by (cases r) blast+
    qed
  qed
qed

lemma mark_failed_ok: "control_ok n db \<Longrightarrow> control_ok n (mark_institution_failed job db)"
  using tget_key [of in_id "m_institutions db"]
  by (auto simp: mark_institution_failed_def split: option.split intro!: control_put_institution)

lemma record_attempt_ok:
  assumes "control_ok n db" "mj_id job < n" "0 \<le> mj_attempts job" "mj_attempts job \<le> mj_max_attempts job"
  shows "control_ok n (record_attempt env job outcome db)"
proof (cases outcome)
  case (Inr result)
  then show ?thesis using assms by (auto simp: record_attempt_def mf_succeeded_def intro: control_put_job)
next
  case (Inl e)
  have "control_ok n (put_job (mf_failed_or_retry (me_now env) (me_text env e) job) db)"
    using assms by (intro control_put_job) (auto simp: mf_failed_or_retry_def)
  then show ?thesis using Inl by (simp add: record_attempt_def mark_failed_ok)
qed

lemma run_once_sound:
  assumes "sound w" "run_once env net w = Some (b, w')"
  shows "sound w'"
proof (cases "claim_mf_job (me_now env) (m_jobs (mw_db w))")
  case None
  then show ?thesis using assms by (auto simp: run_once_def intro: sound_commit)
next
  case (Some p)
  obtain job jobs where p: "p = (job, jobs)" by (cases p)
  let ?c = "(mw_db w)\<lparr>m_jobs := jobs\<rparr>"
  let ?w = "w\<lparr>mw_db := ?c, mw_committed := ?c\<rparr>"
  have ok: "mf_jobs_ok (mw_next w) (m_jobs (mw_db w))" using assms(1) by (simp add: sound_def control_ok_def)
  from mf_queue.claim_Some [OF Some [unfolded p]] obtain j where j: "j \<in> set (m_jobs (mw_db w))" "mf_phase j = Waiting"
    "mj_id job = mj_id j" "mf_phase job = Active" "mj_attempts job = mj_attempts j + 1" "mj_max_attempts job = mj_max_attempts j"
    "jobs = tset mj_id job (m_jobs (mw_db w))" by blast
  have jb: "mj_id job < mw_next w" "0 \<le> mj_attempts job" "mj_attempts job \<le> mj_max_attempts job"
    using j ok by (auto simp: mf_jobs_ok_def mf_queue.bounded_def)
  then have "control_ok (mw_next w) ?c"
    using control_put_job [of "mw_next w" "mw_db w" job] assms(1) j by (simp add: sound_def put_job_def)
  then have busy: "busy jobs ?w" using assms(1) by (simp add: busy_def sound_def)
  obtain outcome v where run: "run_handler env net job ?w = Some (outcome, v)"
    using assms(2) Some p by (auto simp: run_once_def split: option.splits)
  then have v: "busy jobs v" using execute_busy [OF busy] busy by (auto simp: run_handler_def split: if_splits)
  have w': "w' = v\<lparr>mw_db := record_attempt env job outcome (mw_db v), mw_committed := record_attempt env job outcome (mw_db v)\<rparr>"
    using assms(2) Some p run by (auto simp: run_once_def)
  have "j \<in> set (m_jobs (mw_db w))" by (rule j)
  then have "job \<in> set (m_jobs (mw_db v))" using v j by (auto simp: busy_def tset_def image_iff)
  then have "mj_id job < mw_next v" using v by (auto simp: busy_def sound_def control_ok_def mf_jobs_ok_def)
  then have "control_ok (mw_next v) (record_attempt env job outcome (mw_db v))"
    using v jb by (intro record_attempt_ok) (auto simp: busy_def sound_def)
  then show ?thesis using v w' by (simp add: busy_def sound_def)
qed

section \<open>The service as a transition system\<close>

text \<open>Requests (whose amounts are whole cents), polls of the worker, and whatever happens outside.\<close>

inductive service_step :: "'s mf_world \<Rightarrow> 's mf_world \<Rightarrow> bool" where
  onboards: "create_institution env cr name slug region currency email w = (r, w') \<Longrightarrow> service_step w w'"
| hires: "create_staff env slug cr name email password role b w = (r, w') \<Longrightarrow> service_step w w'"
| signs_in: "login env slug email password w = (r, w') \<Longrightarrow> service_step w w'"
| serves: "cents_request req \<Longrightarrow> tenant_endpoint env renv slug cr req w = (r, w') \<Longrightarrow> service_step w w'"
| polls: "run_once env net w = Some (b, w') \<Longrightarrow> service_step w w'"
| outside: "service_step w (w\<lparr>mw_outside := s\<rparr>)"

definition service_init :: "'s mf_world \<Rightarrow> bool" where
  "service_init w \<longleftrightarrow> m_institutions (mw_db w) = [] \<and> m_staff (mw_db w) = [] \<and> m_jobs (mw_db w) = [] \<and>
     mw_committed w = mw_db w \<and> mw_tenants w = []"

interpretation service: invariant_system service_init service_step sound
proof
  fix w :: "'a mf_world"
  assume "service_init w"
  then show "sound w"
    by (auto simp: service_init_def sound_def control_ok_def institutions_ok_def staff_ok_def mf_jobs_ok_def
        mf_queue.bounded_def tenants_ok_def)
next
  fix w w' :: "'a mf_world"
  assume s: "sound w" and "service_step w w'"
  from this(2) show "sound w'"
  proof cases
    case (onboards env cr name slug region currency email r)
    then show ?thesis using holds_Inl [OF create_institution_sound s] holds_Inr [OF create_institution_sound s] by (cases r) blast+
  next
    case (hires env slug cr name email password role b r)
    then show ?thesis using holds_Inl [OF create_staff_sound s] holds_Inr [OF create_staff_sound s] by (cases r) blast+
  next
    case (signs_in env slug email password r)
    then show ?thesis using holds_Inl [OF login_sound s] holds_Inr [OF login_sound s] by (cases r) blast+
  next
    case (serves req env renv slug cr r)
    then show ?thesis using holds_Inl [OF tenant_endpoint_sound s] holds_Inr [OF tenant_endpoint_sound s] by (cases r) blast+
  next
    case (polls env net b)
    then show ?thesis using run_once_sound [OF s] by blast
  next
    case (outside s')
    then show ?thesis using s by (simp add: sound_outside)
  qed
qed

end
