(* ===== verification/MF_Whole.thy ===== *)
theory MF_Whole
  imports MF_Service
begin

text \<open>
  The properties of the microfinance service as a whole, in every world it can get into, and a world in
  which an institution has been onboarded.
\<close>

section \<open>A demonstration world\<close>

fun demo_hash :: "string \<Rightarrow> string" where
  "demo_hash p = CHR ''#'' # p"

fun demo_verify :: "string \<Rightarrow> string \<Rightarrow> bool" where
  "demo_verify h p \<longleftrightarrow> h = demo_hash p"

definition before_comma :: "string \<Rightarrow> string" where
  "before_comma s = takeWhile (\<lambda>c. c \<noteq> CHR '','') s"

definition after_comma :: "string \<Rightarrow> string" where
  "after_comma s = tl (dropWhile (\<lambda>c. c \<noteq> CHR '','') s)"

definition or_zero :: "uid option \<Rightarrow> uid" where
  "or_zero u = (case u of None \<Rightarrow> 0 | Some n \<Rightarrow> n)"

fun demo_encode :: "staff_claims \<Rightarrow> string" where
  "demo_encode c = nat_string (or_zero (st_sub c)) @ '','' @ nat_string (or_zero (st_institution_id c)) @ '','' @
     (case st_role c of None \<Rightarrow> [] | Some r \<Rightarrow> r)"

fun demo_decode :: "instant \<Rightarrow> string \<Rightarrow> staff_claims option" where
  "demo_decode now t = Some \<lparr>st_sub = uid_of_text (before_comma t), st_institution_id = uid_of_text (before_comma (after_comma t)),
     st_role = Some (after_comma (after_comma t)), st_exp = now + 1\<rparr>"

fun demo_encrypt :: "string \<Rightarrow> string" where
  "demo_encrypt p = CHR ''~'' # p"

fun demo_decrypt :: "string \<Rightarrow> string option" where
  "demo_decrypt c = Some (tl c)"

fun demo_migrate :: "string \<Rightarrow> nat" where
  "demo_migrate url = 0"

fun demo_text :: "control_exn \<Rightarrow> string" where
  "demo_text e = ''error''"

definition demo_mf_env :: "instant \<Rightarrow> mf_env" where
  "demo_mf_env now = \<lparr>me_now = now, me_hash = demo_hash, me_verify = demo_verify, me_encode = demo_encode,
     me_decode = demo_decode, me_token_minutes = 3, me_operator_token_hash = ''#op'', me_random_password = ''pw'',
     me_random_token = ''op'', me_encrypt = demo_encrypt, me_decrypt = demo_decrypt, me_platform_api_url = ''http://p'',
     me_migrate = demo_migrate, me_text = demo_text\<rparr>"

text \<open>A platform that confirms everything.\<close>

definition demo_answers :: "(string \<times> jv) list" where
  "demo_answers =
     [(''POST/auth/login'', JObj [(''access_token'', JStr ''tok'')]),
      (''POST/organizations/9/projects'', JObj [(''id'', JStr ''4'')]),
      (''POST/organizations/9/projects/4/databases'', JObj [(''database'', JObj [(''id'', JStr ''5'')]), (''job_id'', JStr ''6'')]),
      (''GET/jobs/6'', JObj [(''status'', JStr ''succeeded'')]),
      (''GET/organizations/9/projects/4/databases/5'', JObj [(''id'', JStr ''5'')]),
      (''GET/organizations/9/projects/4/databases/5/connection'',
        JObj [(''host'', JStr ''h''), (''port'', JInt 7), (''database'', JStr ''d''), (''username'', JStr ''u''), (''password'', JStr ''p'')])]"

fun demo_send :: "http_call \<Rightarrow> rat \<Rightarrow> http_response option \<times> rat" where
  "demo_send call t = (case map_of demo_answers (hc_method call @ hc_path call) of
       None \<Rightarrow> Some \<lparr>hr_status = 404, hr_text = ''Not Found'', hr_json = None\<rparr>
     | Some v \<Rightarrow> Some \<lparr>hr_status = 200, hr_text = ''{}'', hr_json = Some v\<rparr>, t)"

fun demo_clock :: "rat \<Rightarrow> rat" where
  "demo_clock t = t"

fun demo_sleep :: "rat \<Rightarrow> rat \<Rightarrow> rat" where
  "demo_sleep d t = t + max d 0"

definition demo_network :: "rat network" where
  "demo_network = \<lparr>n_send = demo_send, n_clock = demo_clock, n_sleep = demo_sleep\<rparr>"

definition demo_account :: platform_account where
  "demo_account = \<lparr>pa_id = 0, pa_cp_organization_id = 9, pa_cp_email = ''mf@x'', pa_encrypted_cp_password = ''~pw'',
     pa_cached_access_token = None, pa_token_expires_at = None\<rparr>"

definition demo_control :: control_db where
  "demo_control = \<lparr>m_institutions = [], m_staff = [], m_jobs = [], m_accounts = [demo_account]\<rparr>"

definition demo_start :: "rat mf_world" where
  "demo_start = \<lparr>mw_db = demo_control, mw_committed = demo_control, mw_tenants = [], mw_next = 1, mw_outside = 0\<rparr>"

definition demo_institution :: institution where
  "demo_institution = \<lparr>in_id = 1, in_name = ''Faso'', in_slug = ''faso'', in_status = IN_PROVISIONING, in_cp_project_id = None,
     in_cp_database_id = None, in_db_host = None, in_db_port = None, in_db_name = None, in_db_username = None,
     in_encrypted_db_password = None, in_failure_reason = None, in_created_at = 0\<rparr>"

definition demo_admin :: staff_user where
  "demo_admin = \<lparr>su_id = 2, su_institution_id = 1, su_email = ''a@x'', su_password_hash = ''#pw'', su_role = INSTITUTION_ADMIN,
     su_tenant_agent_id = None, su_is_active = True, su_created_at = 0\<rparr>"

definition demo_queued :: mf_job where
  "demo_queued = \<lparr>mj_id = 3, mj_type = ''onboard_institution'', mj_status = MJ_QUEUED, mj_institution_id = Some 1,
     mj_payload = [(''institution_id'', ''1''), (''region_code'', ''eu''), (''currency'', ''XOF'')], mj_result = None,
     mj_error = None, mj_attempts = 0, mj_max_attempts = 5, mj_next_run_at = 0, mj_started_at = None,
     mj_completed_at = None, mj_created_at = 0\<rparr>"

definition demo_rows :: "institution \<Rightarrow> mf_job \<Rightarrow> platform_account \<Rightarrow> control_db" where
  "demo_rows i j a = \<lparr>m_institutions = [i], m_staff = [demo_admin], m_jobs = [j], m_accounts = [a]\<rparr>"

definition demo_onboarded :: "rat mf_world" where
  "demo_onboarded = \<lparr>mw_db = demo_rows demo_institution demo_queued demo_account,
     mw_committed = demo_rows demo_institution demo_queued demo_account, mw_tenants = [], mw_next = 4, mw_outside = 0\<rparr>"

lemma demo_created:
  "create_institution (demo_mf_env 0) (Some ''op'') ''Faso'' ''faso'' ''eu'' ''XOF'' ''a@x'' demo_start =
     (Inr (demo_institution, 3, ''pw''), demo_onboarded)"
  by code_simp

text \<open>The worker's poll, in its parts: the claim, the calls up to the wait, and the rest.\<close>

definition demo_job :: mf_job where
  "demo_job = demo_queued\<lparr>mj_status := MJ_RUNNING, mj_attempts := 1, mj_started_at := Some 1\<rparr>"

definition demo_claimed :: "rat mf_world" where
  "demo_claimed = \<lparr>mw_db = demo_rows demo_institution demo_job demo_account,
     mw_committed = demo_rows demo_institution demo_job demo_account, mw_tenants = [], mw_next = 4, mw_outside = 0\<rparr>"

definition demo_onboarding :: onboarding where
  "demo_onboarding = \<lparr>ob_institution = demo_institution, ob_client = \<lparr>pc_base_url = ''http://p'', pc_token = Some ''tok''\<rparr>,
     ob_organization = ''9'', ob_project = JObj [(''id'', JStr ''4'')], ob_project_id = ''4'',
     ob_result = JObj [(''database'', JObj [(''id'', JStr ''5'')]), (''job_id'', JStr ''6'')], ob_job = ''6'', ob_currency = ''XOF''\<rparr>"

definition demo_signed_in :: platform_account where
  "demo_signed_in = demo_account\<lparr>pa_cached_access_token := Some ''tok'', pa_token_expires_at := Some 1500000001\<rparr>"

definition demo_waiting :: "rat mf_world" where
  "demo_waiting = demo_claimed\<lparr>mw_db := demo_rows demo_institution demo_job demo_signed_in\<rparr>"

lemma demo_started: "onboard_start (demo_mf_env 1) demo_network demo_job demo_claimed = (Inr demo_onboarding, demo_waiting)"
  by code_simp

definition demo_mapped :: institution where
  "demo_mapped = demo_institution\<lparr>in_cp_project_id := Some 4, in_cp_database_id := Some 5,
     in_db_host := Some ''h'', in_db_port := Some 7, in_db_name := Some ''d'', in_db_username := Some ''u'',
     in_encrypted_db_password := Some ''~p''\<rparr>"

definition demo_active :: institution where
  "demo_active = demo_mapped\<lparr>in_status := IN_ACTIVE\<rparr>"

definition demo_tenant :: tenant_db where
  "demo_tenant = empty_tenant\<lparr>t_profile := [\<lparr>ip_id = 4, ip_name = ''Faso'', ip_currency = ''XOF''\<rparr>],
     t_internal := [\<lparr>ia_id = 5, ia_name = ''cash'', ia_normal_balance_side = ''debit'', ia_balance_cached = 0\<rparr>,
       \<lparr>ia_id = 6, ia_name = ''interest_income'', ia_normal_balance_side = ''credit'', ia_balance_cached = 0\<rparr>]\<rparr>"

definition demo_url :: string where
  "demo_url = ''postgresql+asyncpg://u:p@h:7/d''"

definition demo_seeded :: "rat mf_world" where
  "demo_seeded = demo_waiting\<lparr>mw_db := demo_rows demo_active demo_job demo_signed_in, mw_tenants := [(demo_url, demo_tenant)], mw_next := 7\<rparr>"

lemma demo_calls:
  "sdk_get_database demo_network c ''9'' ''4'' ''5'' t = (Inr (JObj [(''id'', JStr ''5'')]), t)"
  "sdk_get_connection demo_network c ''9'' ''4'' ''5'' t = (Inr (JObj [(''host'', JStr ''h''), (''port'', JInt 7),
     (''database'', JStr ''d''), (''username'', JStr ''u''), (''password'', JStr ''p'')]), t)"
  by (simp_all add: sdk_get_database_def sdk_get_connection_def send_request_def demo_network_def demo_answers_def
      response_value_def db_path_def)

lemma demo_seed_runs: "seed_tenant 4 5 6 ''Faso'' ''XOF'' empty_tenant = Inr demo_tenant"
  by code_simp

lemma demo_active_url: "tenant_database_url (demo_mf_env 1) demo_mapped = Inr demo_url"
  by code_simp

definition demo_assigned :: "rat mf_world" where
  "demo_assigned = demo_waiting\<lparr>mw_db := demo_rows demo_mapped demo_job demo_signed_in\<rparr>"

lemma demo_assignment:
  "assign_connection (demo_mf_env 1) (JObj [(''id'', JStr ''4'')]) (JObj [(''id'', JStr ''5'')])
     (JObj [(''host'', JStr ''h''), (''port'', JInt 7), (''database'', JStr ''d''), (''username'', JStr ''u''), (''password'', JStr ''p'')])
     demo_institution demo_waiting = (Inr demo_mapped, demo_assigned)"
  by code_simp

lemma demo_migration:
  "run_tenant_migrations (demo_mf_env 1) demo_url demo_assigned = (Inr (), demo_assigned\<lparr>mw_tenants := [(demo_url, empty_tenant)]\<rparr>)"
  by (simp add: run_tenant_migrations_def updates_def demo_mf_env_def demo_assigned_def demo_waiting_def demo_claimed_def)

lemma demo_seeding:
  "seed demo_url ''Faso'' ''XOF'' (demo_assigned\<lparr>mw_tenants := [(demo_url, empty_tenant)]\<rparr>) =
     (Inr (), demo_assigned\<lparr>mw_tenants := [(demo_url, demo_tenant)], mw_next := 7\<rparr>)"
  by (simp add: seed_def new_uuid_def in_tenant_def reads_exn_def put_tenant_def updates_def demo_seed_runs demo_assigned_def
      demo_waiting_def demo_claimed_def tset_def)

lemma demo_activation:
  "put_institution (demo_mapped\<lparr>in_status := IN_ACTIVE\<rparr>) (demo_assigned\<lparr>mw_tenants := [(demo_url, demo_tenant)], mw_next := 7\<rparr>) = (Inr (), demo_seeded)"
  by (simp add: put_institution_def change_db_def updates_def demo_assigned_def demo_seeded_def demo_rows_def tset_def demo_active_def)

lemma demo_finished:
  "onboard_finish (demo_mf_env 1) demo_network demo_onboarding demo_waiting = (Inr [(''cp_project_id'', ''4'')], demo_seeded)"
proof -
  have ob: "ob_result demo_onboarding = JObj [(''database'', JObj [(''id'', JStr ''5'')]), (''job_id'', JStr ''6'')]"
    "ob_organization demo_onboarding = ''9''" "ob_project_id demo_onboarding = ''4''" "ob_project demo_onboarding = JObj [(''id'', JStr ''4'')]"
    "ob_institution demo_onboarding = demo_institution" "ob_currency demo_onboarding = ''XOF''"
    by (simp_all add: demo_onboarding_def)
  have i: "in_name demo_mapped = ''Faso''" "in_cp_project_id demo_mapped = Some 4"
    by (simp_all add: demo_mapped_def demo_institution_def)
  have "nat_string 4 = ''4''" by code_simp
  then show ?thesis
    by (simp add: onboard_finish_def ob i demo_calls demo_assignment demo_active_url lifted_def json_field_def json_text_def
        on_platform_def demo_migration demo_seeding demo_activation give_def shown_def)
qed

definition demo_running :: "rat mf_world" where
  "demo_running = (case demo_rows demo_active (mf_succeeded 1 [(''cp_project_id'', ''4'')] demo_job) demo_signed_in of db \<Rightarrow>
     demo_seeded\<lparr>mw_db := db, mw_committed := db\<rparr>)"

lemma demo_wait: "sdk_wait_for_job demo_network c ''6'' i l s = Some (Inr (JObj [(''status'', JStr ''succeeded'')]), s)"
  by (simp add: sdk_wait_for_job_def wait_loop.simps [of _ _ _ _ _ _ s] sdk_get_job_def send_request_def demo_network_def
      demo_answers_def response_value_def job_over_def terminal_statuses_def)

lemma demo_polled: "run_once (demo_mf_env 1) demo_network demo_onboarded = Some (True, demo_running)"
proof -
  have claim: "claim_mf_job 1 (m_jobs (mw_db demo_onboarded)) = Some (demo_job, [demo_job])" by code_simp
  have db: "(mw_db demo_onboarded)\<lparr>m_jobs := [demo_job]\<rparr> = demo_rows demo_institution demo_job demo_account"
    and w: "demo_onboarded\<lparr>mw_db := demo_rows demo_institution demo_job demo_account,
      mw_committed := demo_rows demo_institution demo_job demo_account\<rparr> = demo_claimed"
    and s: "mw_db demo_seeded = demo_rows demo_active demo_job demo_signed_in"
    by (simp_all add: demo_onboarded_def demo_rows_def demo_claimed_def demo_seeded_def)
  have [simp]: "ob_job demo_onboarding = ''6''" "mj_type demo_job = ''onboard_institution''" "me_now (demo_mf_env 1) = 1"
    by (simp_all add: demo_onboarding_def demo_job_def demo_queued_def demo_mf_env_def)
  have "run_handler (demo_mf_env 1) demo_network demo_job demo_claimed = Some (Inr [(''cp_project_id'', ''4'')], demo_seeded)"
    by (simp add: run_handler_def execute_onboard_institution_def demo_started demo_wait demo_finished)
  note run = this
  have "record_attempt (demo_mf_env 1) demo_job (Inr [(''cp_project_id'', ''4'')]) (mw_db demo_seeded) =
      demo_rows demo_active (mf_succeeded 1 [(''cp_project_id'', ''4'')] demo_job) demo_signed_in"
    by (simp add: s record_attempt_def put_job_def demo_rows_def mf_succeeded_def tset_def)
  then show ?thesis by (simp add: run_once_def claim db w run demo_running_def)
qed

lemma demo_running_reach: "reach service_init service_step demo_running"
proof -
  have "service_init demo_start" by (simp add: service_init_def demo_start_def demo_control_def)
  then have "reach service_init service_step demo_start" by (rule reach_init)
  moreover have "service_step demo_start demo_onboarded" by (rule onboards) (rule demo_created)
  ultimately have "reach service_init service_step demo_onboarded" by (rule reach_step)
  then show ?thesis by (rule reach_step) (rule polls, rule demo_polled)
qed

section \<open>Properties\<close>





text \<open>What the dependencies establish.\<close>

lemma first_or_none_filter: "first_or_none (filter P xs) = Inr (Some x) \<Longrightarrow> x \<in> set xs \<and> P x"
  by (auto simp: first_or_none_Inr dest!: filter_one)

lemma distinct_filter_length: "distinct (map f xs) \<Longrightarrow> length (filter (\<lambda>x. f x = k) xs) \<le> 1"
  by (induction xs) (auto simp: filter_empty_conv image_iff)

lemma unique_row: "distinct (map f xs) \<Longrightarrow> first_or_none (filter (\<lambda>x. f x = k) xs) \<noteq> Inl e"
  using distinct_filter_length [of f xs k] scalar_of_ManyRows [of "filter (\<lambda>x. f x = k) xs"]
  by (auto simp: first_or_none_def split: scalar.split)

lemma institution_by_slug_Inr:
  assumes "get_institution_by_slug slug w = (Inr i, w')"
  shows "w' = w \<and> i \<in> set (m_institutions (mw_db w)) \<and> in_slug i = slug"
  using assms unfolding get_institution_by_slug_def query_one_def
  by (auto simp: eff_simps split: option.splits elim!: chain_okE dest!: first_or_none_filter sym [THEN first_or_none_filter])

lemma staff_of_token_Inr:
  assumes "staff_of_token env i cr w = (Inr s, w')"
  shows "w' = w \<and> tget su_id (m_staff (mw_db w)) (su_id s) = Some s \<and> su_is_active s \<and>
    (\<exists>token role. cr = Some token \<and> decode_staff_access_token env token = Some (su_id s, in_id i, role))"
  using assms unfolding staff_of_token_def query_db_def
  by (auto simp: eff_simps split: option.splits if_splits elim!: chain_okE) (metis tget_key)+

text \<open>C8: A tenant request is served only to the bearer of a token that names an active staff account
  and the institution of the URL, only while that institution is active, with the permissions of that
  account's role; it runs on the database of that institution and changes no other row or database.\<close>

theorem tenant_gate:
  assumes "tenant_endpoint env renv slug cr req w = (Inr u, w')"
  shows "\<exists>i s token role url t t'. i \<in> set (m_institutions (mw_db w)) \<and> in_slug i = slug \<and> cr = Some token \<and>
    decode_staff_access_token env token = Some (su_id s, in_id i, role) \<and>
    tget su_id (m_staff (mw_db w)) (su_id s) = Some s \<and> su_is_active s \<and>
    (\<exists>a\<in>set (m_institutions (mw_db w)). in_slug a = slug \<and> in_status a = IN_ACTIVE \<and> tenant_database_url env a = Inr url) \<and>
    map_of (mw_tenants w) url = Some t \<and>
    tenant_handler (renv\<lparr>env_staff_id := su_id s\<rparr>) (su_role s) req t = Inr t' \<and>
    w' = w\<lparr>mw_tenants := tset fst (url, t') (mw_tenants w)\<rparr>"
proof -
  have run: "(chain (get_current_staff_user env slug cr) (\<lambda>staff.
     chain (get_tenant_db env slug) (\<lambda>url.
     chain (in_tenant url (\<lambda>t. map_err http_of (tenant_handler (renv\<lparr>env_staff_id := su_id staff\<rparr>) (su_role staff) req t))) (\<lambda>t.
     put_tenant url t)))) w = (Inr u, w')"
    using assms by (auto simp: tenant_endpoint_def request_def split: prod.splits sum.splits)
  then obtain s v url v2 t' v3 where
    s: "get_current_staff_user env slug cr w = (Inr s, v)" and url: "get_tenant_db env slug v = (Inr url, v2)" and
    t: "in_tenant url (\<lambda>t. map_err http_of (tenant_handler (renv\<lparr>env_staff_id := su_id s\<rparr>) (su_role s) req t)) v2 = (Inr t', v3)" and
    put: "put_tenant url t' v3 = (Inr u, w')"
    by (elim chain_okE)
  from s obtain i where i: "get_institution_by_slug slug w = (Inr i, w)" "staff_of_token env i cr w = (Inr s, v)"
    unfolding get_current_staff_user_def by (elim chain_okE) (metis institution_by_slug_Inr)
  note who = staff_of_token_Inr [OF i(2)] and inst = institution_by_slug_Inr [OF i(1)]
  from url obtain a where a: "get_institution_by_slug slug v = (Inr a, v2)" "in_status a = IN_ACTIVE"
    "tenant_database_url env a = Inr url"
    unfolding get_tenant_db_def require_active_institution_def
    by (auto simp: eff_simps split: if_splits elim!: chain_okE)
  note act = institution_by_slug_Inr [OF a(1)]
  from t obtain t0 where t0: "map_of (mw_tenants w) url = Some t0" "v3 = w"
    "tenant_handler (renv\<lparr>env_staff_id := su_id s\<rparr>) (su_role s) req t0 = Inr t'"
    using who act by (auto simp: in_tenant_def eff_simps map_err_eq_Inr eq_commute [of "Inr _" "map_err _ _"] split: option.splits)
  from put t0 have "w' = w\<lparr>mw_tenants := tset fst (url, t') (mw_tenants w)\<rparr>" by (auto simp: put_tenant_def eff_simps)
  then show ?thesis using who inst act a t0 by blast
qed

definition demo_token :: string where
  "demo_token = ''2,1,institution_admin''"

definition demo_branch_request :: "(control_exn + unit) \<times> rat mf_world" where
  "demo_branch_request = tenant_endpoint (demo_mf_env 2) (demo_env 9) ''faso'' (Some demo_token) (CreateBranch ''HQ'' ''HQ'') demo_running"

theorem tenant_gate_witness:
  "fst demo_branch_request = Inr () \<and> mw_db (snd demo_branch_request) = mw_db demo_running \<and>
   map (map br_code \<circ> t_branches \<circ> snd) (mw_tenants (snd demo_branch_request)) = [[''HQ'']]"
proof -
  have ok: "fst demo_branch_request = Inr ()" by code_simp
  have codes: "map (map br_code \<circ> t_branches \<circ> snd) (mw_tenants (snd demo_branch_request)) = [[''HQ'']]" by code_simp
  have "tenant_endpoint (demo_mf_env 2) (demo_env 9) ''faso'' (Some demo_token) (CreateBranch ''HQ'' ''HQ'') demo_running =
      (Inr (), snd demo_branch_request)"
    using ok by (cases demo_branch_request) (simp add: demo_branch_request_def)
  from tenant_gate [OF this] have "mw_db (snd demo_branch_request) = mw_db demo_running" by auto
  then show ?thesis using ok codes by blast
qed

text \<open>C19: A token that signing in returned is accepted at the institution it was issued for, as the
  account that signed in, and at no other institution's address.\<close>

theorem login_scope:
  assumes reach: "reach service_init service_step w"
    and jwt: "\<And>u i r. decode_staff_access_token env (create_staff_access_token env u i r) = Some (u, i, r)"
    and run: "login env slug email password w = (Inr token, w')"
  shows "(\<exists>s. get_current_staff_user env slug (Some token) w = (Inr s, w) \<and> su_email s = email \<and> su_is_active s \<and>
       me_verify env (su_password_hash s) password) \<and>
    (\<forall>other. fst (get_current_staff_user env other (Some token) w) \<in> {Inl (MC_HTTP 403), Inl (MC_HTTP 404)} \<or> other = slug)"
proof -
  have ok: "control_ok (mw_next w) (mw_db w)" using service.reach_inv [OF reach] by (simp add: sound_def)
  from run obtain i s where i: "get_institution_by_slug slug w = (Inr i, w)"
    and s: "s \<in> set (m_staff (mw_db w))" "su_institution_id s = in_id i" "su_email s = email" "su_is_active s"
      "me_verify env (su_password_hash s) password"
    and token: "token = create_staff_access_token env (su_id s) (in_id i) (staff_role_value (su_role s))"
    by (auto simp: login_def request_def query_one_def eff_simps split: prod.splits sum.splits option.splits if_splits
        elim!: chain_okE dest!: institution_by_slug_Inr first_or_none_filter)
  have dec: "decode_staff_access_token env token = Some (su_id s, in_id i, staff_role_value (su_role s))"
    unfolding token by (rule jwt)
  have row: "tget su_id (m_staff (mw_db w)) (su_id s) = Some s"
    using ok s tget_distinct [of su_id "m_staff (mw_db w)" s] by (simp add: control_ok_def staff_ok_def)
  have here: "staff_of_token env j (Some token) w = (if in_id j = in_id i then Inr s else Inl (MC_HTTP 403), w)" for j
    using s by (simp add: staff_of_token_def some_or_def dec check_def query_db_def reads_def row give_def)
  have there: "fst (get_current_staff_user env other (Some token) w) \<in> {Inl (MC_HTTP 403), Inl (MC_HTTP 404)}" if "other \<noteq> slug" for other
  proof (cases "get_institution_by_slug other w")
    case (Pair r v)
    show ?thesis
    proof (cases r)
      case (Inl e)
      have "distinct (map in_slug (m_institutions (mw_db w)))" using ok by (simp add: control_ok_def institutions_ok_def)
      then have "Inl x \<noteq> first_or_none (filter (\<lambda>i. in_slug i = other) (m_institutions (mw_db w)))" for x
        using unique_row by metis
      then show ?thesis using Pair Inl
        by (auto simp: get_current_staff_user_def get_institution_by_slug_def query_one_def eff_simps split: option.splits elim!: chain_cases)
    next
      case (Inr j)
      then have j: "j \<in> set (m_institutions (mw_db w))" "in_slug j = other" "v = w" using institution_by_slug_Inr Pair by blast+
      have "in_id j \<noteq> in_id i"
      proof
        assume "in_id j = in_id i"
        then have "j = i" using ok j institution_by_slug_Inr [OF i] by (auto simp: control_ok_def institutions_ok_def inj_on_def distinct_map)
        then show False using that j institution_by_slug_Inr [OF i] by simp
      qed
      then show ?thesis using Pair Inr j here by (simp add: get_current_staff_user_def)
    qed
  qed
  have "get_current_staff_user env slug (Some token) w = (Inr s, w)" using i here by (simp add: get_current_staff_user_def)
  then show ?thesis using s there by blast
qed

lemma comma_parts:
  "before_comma (nat_string n @ '','' @ s) = nat_string n" "after_comma (nat_string n @ '','' @ s) = s"
proof -
  have "\<forall>c\<in>set (nat_string n). c \<noteq> CHR '',''" using nat_string_digits [of n] by (force simp: list_all_iff is_digit_def)
  then show "before_comma (nat_string n @ '','' @ s) = nat_string n" "after_comma (nat_string n @ '','' @ s) = s"
    by (simp_all add: before_comma_def after_comma_def takeWhile_append2 dropWhile_append2)
qed

lemma demo_tokens: "decode_staff_access_token (demo_mf_env now) (create_staff_access_token (demo_mf_env now) u i r) = Some (u, i, r)"
proof -
  have "uid_of_text (nat_string n) = Some n" for n by (simp add: uid_of_text_def unsigned_value_nat_string)
  then show ?thesis
    using comma_parts [of u "nat_string i @ '','' @ r"] comma_parts [of i r]
    by (simp add: decode_staff_access_token_def create_staff_access_token_def demo_mf_env_def or_zero_def)
qed

theorem login_scope_witness:
  "login (demo_mf_env 2) ''faso'' ''a@x'' ''pw'' demo_running = (Inr demo_token, demo_running) \<and>
   (\<exists>s. get_current_staff_user (demo_mf_env 2) ''faso'' (Some demo_token) demo_running = (Inr s, demo_running) \<and> su_email s = ''a@x'')"
proof -
  have "fst (login (demo_mf_env 2) ''faso'' ''a@x'' ''pw'' demo_running) = Inr demo_token" by code_simp
  moreover have "snd (login (demo_mf_env 2) ''faso'' ''a@x'' ''pw'' demo_running) = demo_running" by code_simp
  ultimately have run: "login (demo_mf_env 2) ''faso'' ''a@x'' ''pw'' demo_running = (Inr demo_token, demo_running)"
    by (metis prod.collapse)
  from login_scope [OF demo_running_reach demo_tokens run] show ?thesis using run by blast
qed

end
