(* ===== verification/CP_Model.thy ===== *)
theory CP_Model
  imports Decimal_Arith
begin

text \<open>
  The Control Plane's metadata database (\<open>src/backend/app/models\<close>) and the effects its
  services have.

  A model class is a \<open>record\<close> with the class's columns under a prefix; the tables are the
  fields of \<open>cp_db\<close>, in insertion order, which is also the order in which a query without
  \<open>ORDER BY\<close> returns its rows.  \<open>uuid4\<close> is a supply of identifiers that never
  repeats (\<open>w_next\<close>).  A JSON column is an association list; the texts of notifications
  and of exceptions are left out, and the surrogate ids of the append-only tables no code looks up.

  A service runs in a session: it reads and writes \<open>w_db\<close>, \<open>db.commit()\<close> copies it
  to \<open>w_committed\<close>, and a request that ends in an exception goes back to what was last
  committed.  Calls to a node's agent are appended to \<open>w_calls\<close>, which no roll-back undoes.
  An operation that can raise is a \<open>'a cpm\<close>: it returns the exception or the result, and
  the world as the operation left it, because the worker commits what a failing handler did.
\<close>

section \<open>Enumerations\<close>

datatype membership_role = OWNER | ADMIN | DEVELOPER | BILLING | READONLY

datatype node_status = ND_ACTIVE | ND_MAINTENANCE | ND_DRAINING

datatype cluster_topology = SINGLE | PRIMARY_REPLICA

datatype cluster_status = CL_PROVISIONING | CL_ACTIVE | CL_DEGRADED | CL_DELETED

datatype cluster_member_role = PRIMARY | REPLICA

datatype isolation_level = SHARED | DEDICATED

datatype database_status =
  DB_CREATING | DB_RUNNING | DB_UPDATING | DB_SUSPENDING | DB_SUSPENDED | DB_RESTORING | DB_MIGRATING
  | DB_FAILING | DB_FAILED | DB_DELETING | DB_DELETED

datatype credential_scope = SC_APP | SC_READONLY | SC_ADMIN

datatype job_status = JB_QUEUED | JB_RUNNING | JB_SUCCEEDED | JB_FAILED | JB_RETRYING

datatype backup_type = AUTOMATIC | MANUAL

datatype backup_status =
  BK_PENDING | BK_COMPLETED | BK_FAILED | BK_VERIFIED | BK_VERIFICATION_FAILED | BK_PURGED

datatype webhook_delivery_status = WD_PENDING | WD_SUCCEEDED | WD_FAILED

datatype subscription_status = SB_ACTIVE | SB_PAST_DUE | SB_CANCELED

datatype usage_metric = CPU_HOURS | STORAGE_GB_HOURS | CONNECTIONS | EGRESS_GB

datatype invoice_status = IV_DRAFT | IV_FINALIZED | IV_PAID | IV_VOID

datatype payment_provider_name = PP_MANUAL | PP_NOWPAYMENTS | PP_FEDAPAY

datatype payment_status = PY_PENDING | PY_SUCCEEDED | PY_FAILED

datatype oauth_provider_name = OA_GOOGLE | OA_GITHUB

section \<open>Tables\<close>

type_synonym jdata = "(string \<times> string) list"

record user =
  us_id :: uid
  us_email :: string
  us_password_hash :: "string option"
  us_mfa_enabled :: bool
  us_mfa_secret :: "string option"
  us_is_platform_admin :: bool
  us_last_login_at :: "instant option"
  us_token_version :: int

record organization =
  og_id :: uid
  og_name :: string
  og_slug :: string

record membership =
  mb_id :: uid
  mb_user_id :: uid
  mb_organization_id :: uid
  mb_role :: membership_role

record project =
  pj_id :: uid
  pj_organization_id :: uid
  pj_name :: string
  pj_slug :: string

record region =
  rg_id :: uid
  rg_code :: string
  rg_name :: string
  rg_active :: bool

record node =
  nd_id :: uid
  nd_region_id :: uid
  nd_hostname :: string
  nd_ip_address :: "string option"
  nd_cpu_total :: int
  nd_ram_total_mb :: int
  nd_storage_total_gb :: int
  nd_cpu_used :: "rat option"
  nd_ram_used_mb :: "int option"
  nd_storage_used_gb :: "int option"
  nd_agent_version :: "string option"
  nd_agent_port :: int
  nd_postgres_port :: int
  nd_status :: node_status
  nd_node_secret_hash :: string
  nd_certificate_serial :: "string option"
  nd_last_heartbeat_at :: "instant option"

record node_registration_token =
  rt_id :: uid
  rt_region_id :: uid
  rt_token_hash :: string
  rt_note :: "string option"
  rt_expires_at :: instant
  rt_used_at :: "instant option"

record cluster =
  cl_id :: uid
  cl_region_id :: uid
  cl_topology :: cluster_topology
  cl_shared :: bool
  cl_status :: cluster_status

record cluster_member =
  cm_id :: uid
  cm_cluster_id :: uid
  cm_node_id :: uid
  cm_role :: cluster_member_role
  cm_replication_lag_bytes :: "int option"
  cm_promoted_at :: "instant option"

record cluster_event =
  ce_cluster_id :: uid
  ce_event_type :: string
  ce_data :: jdata

record backup_policy =
  bp_enabled :: bool
  bp_frequency_hours :: int
  bp_retention_days :: int

record database =
  db_id :: uid
  db_project_id :: uid
  db_region_id :: uid
  db_cluster_id :: "uid option"
  db_name :: string
  db_physical_name :: string
  db_isolation_level :: isolation_level
  db_status :: database_status
  db_cpu_limit :: int
  db_ram_limit_mb :: int
  db_storage_limit_gb :: int
  db_connection_host :: "string option"
  db_connection_port :: "int option"
  db_backup_policy :: "backup_policy option"
  db_deleted_at :: "instant option"

record database_credential =
  cr_id :: uid
  cr_database_id :: uid
  cr_role_name :: string
  cr_display_name :: "string option"
  cr_is_primary :: bool
  cr_encrypted_password :: string
  cr_scope :: credential_scope
  cr_rotated_at :: "instant option"

record database_event =
  de_database_id :: uid
  de_job_id :: "uid option"
  de_event_type :: string
  de_data :: jdata

record job =
  jb_id :: uid
  jb_type :: string
  jb_status :: job_status
  jb_idempotency_key :: "string option"
  jb_organization_id :: "uid option"
  jb_resource_type :: "string option"
  jb_resource_id :: "uid option"
  jb_payload :: "(string \<times> uid) list"
  jb_result :: "jdata option"
  jb_error :: "string option"
  jb_attempts :: int
  jb_max_attempts :: int
  jb_next_run_at :: instant
  jb_started_at :: "instant option"
  jb_completed_at :: "instant option"
  jb_created_at :: instant

record backup =
  bk_id :: uid
  bk_database_id :: uid
  bk_type :: backup_type
  bk_status :: backup_status
  bk_storage_key :: string
  bk_size_bytes :: "int option"
  bk_error :: "string option"
  bk_started_at :: "instant option"
  bk_completed_at :: "instant option"
  bk_verified_at :: "instant option"
  bk_verification_detail :: "string option"
  bk_created_at :: instant

record webhook =
  wh_id :: uid
  wh_organization_id :: uid
  wh_url :: string
  wh_encrypted_secret :: string
  wh_event_types :: "string list"
  wh_is_active :: bool

record webhook_delivery =
  wd_id :: uid
  wd_webhook_id :: uid
  wd_event_type :: string
  wd_payload :: jdata
  wd_status :: webhook_delivery_status
  wd_response_code :: "int option"
  wd_error :: "string option"
  wd_delivered_at :: "instant option"

record plan =
  pl_id :: uid
  pl_name :: string
  pl_quotas :: "(string \<times> int) list"
  pl_pricing :: "(string \<times> rat option) list"
  pl_is_active :: bool

record subscription =
  sb_id :: uid
  sb_organization_id :: uid
  sb_plan_id :: uid
  sb_status :: subscription_status
  sb_current_period_start :: instant
  sb_current_period_end :: instant

record usage_record =
  ur_database_id :: uid
  ur_metric :: usage_metric
  ur_value :: rat
  ur_period_start :: instant
  ur_period_end :: instant

record invoice =
  iv_id :: uid
  iv_organization_id :: uid
  iv_subscription_id :: uid
  iv_period_start :: instant
  iv_period_end :: instant
  iv_status :: invoice_status
  iv_total_amount :: rat
  iv_currency :: string
  iv_finalized_at :: "instant option"
  iv_paid_at :: "instant option"
  iv_payment_reference :: "string option"

record invoice_line_item =
  il_invoice_id :: uid
  il_description :: string
  il_metric :: string
  il_quantity :: rat
  il_unit_price :: rat
  il_amount :: rat

record payment =
  py_id :: uid
  py_invoice_id :: uid
  py_organization_id :: uid
  py_provider :: payment_provider_name
  py_provider_payment_id :: "string option"
  py_amount :: rat
  py_currency :: string
  py_status :: payment_status
  py_provider_status :: "string option"
  py_pay_address :: "string option"
  py_pay_amount :: "rat option"
  py_pay_currency :: "string option"
  py_payment_expires_at :: "instant option"
  py_error :: "string option"

record notification =
  nt_user_id :: uid
  nt_type :: string
  nt_data :: jdata

record audit_log =
  al_organization_id :: "uid option"
  al_user_id :: "uid option"
  al_action :: string
  al_resource_type :: string
  al_resource_id :: "uid option"
  al_before :: "jdata option"
  al_after :: "jdata option"
  al_ip_address :: "string option"
  al_result :: string

record api_key =
  ak_id :: uid
  ak_organization_id :: uid
  ak_user_id :: "uid option"
  ak_name :: string
  ak_key_prefix :: string
  ak_key_hash :: string
  ak_scopes :: jdata
  ak_last_used_at :: "instant option"
  ak_revoked_at :: "instant option"

record oauth_account =
  oa_user_id :: uid
  oa_provider :: oauth_provider_name
  oa_provider_account_id :: string
  oa_email :: string

record query_execution =
  qe_database_id :: uid
  qe_user_id :: uid
  qe_query_text :: string
  qe_status :: string
  qe_row_count :: "int option"
  qe_duration_ms :: int
  qe_error :: "string option"

record saved_query =
  sq_id :: uid
  sq_database_id :: uid
  sq_user_id :: uid
  sq_name :: string
  sq_query_text :: string

record cp_db =
  c_users :: "user list"
  c_organizations :: "organization list"
  c_memberships :: "membership list"
  c_projects :: "project list"
  c_regions :: "region list"
  c_nodes :: "node list"
  c_tokens :: "node_registration_token list"
  c_clusters :: "cluster list"
  c_members :: "cluster_member list"
  c_cluster_events :: "cluster_event list"
  c_databases :: "database list"
  c_credentials :: "database_credential list"
  c_database_events :: "database_event list"
  c_jobs :: "job list"
  c_backups :: "backup list"
  c_webhooks :: "webhook list"
  c_deliveries :: "webhook_delivery list"
  c_plans :: "plan list"
  c_subscriptions :: "subscription list"
  c_usage :: "usage_record list"
  c_invoices :: "invoice list"
  c_line_items :: "invoice_line_item list"
  c_payments :: "payment list"
  c_notifications :: "notification list"
  c_audit :: "audit_log list"
  c_api_keys :: "api_key list"
  c_oauth :: "oauth_account list"
  c_queries :: "query_execution list"
  c_saved_queries :: "saved_query list"

section \<open>Exceptions\<close>

datatype cp_exn =
    CP_RuntimeError
  | CP_ValueError
  | CP_KeyError
  | CP_AttributeError
  | CP_ZeroDivisionError
  | CP_NoResultFound
  | CP_MultipleResultsFound
  | CP_IntegrityError
  | CP_DataError
  | CP_DecimalError decimal_exn
  | CP_InvalidToken
  | CP_HTTPError
  | NoCapacity
  | QuotaExceeded
  | NoHealthyReplica
  | AgentUnreachable
  | AgentRequest nat
  | PaymentWebhook
  | FedaPay
  | NowPayments
  | OAuthLogin
  | HTTP nat

section \<open>The agents of the nodes\<close>

text \<open>One constructor per request the Control Plane sends to a node's agent, with the values the
  path, the query and the JSON body carry.\<close>

datatype agent_op =
    ProvisionDatabase string string string
  | DropDatabase string string
  | SuspendDatabase string
  | ResumeDatabase string
  | QuiesceDatabase string string
  | BackupDatabase string string
  | RestoreDatabase string string string string
  | DeleteBackup string
  | VerifyBackup string
  | ReplicationStatus
  | PromoteReplica
  | DatabaseMetrics string
  | ConnectionLimit string int
  | CreateRole string string string credential_scope
  | DropRole string string
  | RotateRole string string string
  | InstallExtension string string
  | DropExtension string string
  | HealthCheck
  | ListExtensions string
  | ListTables string

record table_info =
  ti_name :: string
  ti_columns :: "(string \<times> string \<times> bool) list"
  ti_indexes :: "(string \<times> string) list"

datatype agent_response =
    Ack
  | SizeBytes int
  | Verified bool string
  | Replication "string option" "int option"
  | Metrics int int int
  | Extensions "(string \<times> bool \<times> string option) list"
  | Tables "table_info list"

datatype agent_failure = Unreachable | Rejected nat

type_synonym agent_call = "uid \<times> agent_op"

section \<open>The world a service runs in\<close>

record cp_world =
  w_db :: cp_db
  w_committed :: cp_db
  w_calls :: "agent_call list"
  w_next :: uid

text \<open>What a service reads from its surroundings: the clock, a node's agent (an answer that may
  depend on every call made so far), Fernet, the random tokens and \<open>uuid4().hex\<close>, keyed hashes,
  and the subscribers of webhooks: \<open>e_post url body event signature\<close> is the status of the
  response, or \<open>None\<close> when there is none.\<close>

record cp_env =
  e_now :: instant
  e_agent :: "agent_call list \<Rightarrow> agent_call \<Rightarrow> agent_failure + agent_response"
  e_encrypt :: "string \<Rightarrow> string"
  e_decrypt :: "string \<Rightarrow> string option"
  e_token :: string
  e_hex :: string
  e_hmac :: "string \<Rightarrow> string \<Rightarrow> string"
  e_post :: "string \<Rightarrow> string \<Rightarrow> string \<Rightarrow> string \<Rightarrow> int option"

type_synonym 'a cpm = "cp_world \<Rightarrow> (cp_exn + 'a) \<times> cp_world"

abbreviation bindM :: "'a cpm \<Rightarrow> ('a \<Rightarrow> 'b cpm) \<Rightarrow> 'b cpm" where
  "bindM m f \<equiv> (\<lambda>w. case m w of (r, w') \<Rightarrow> (case r of Inl e \<Rightarrow> (Inl e, w') | Inr x \<Rightarrow> f x w'))"

definition ret :: "'a \<Rightarrow> 'a cpm" where
  "ret x w = (Inr x, w)"

definition raise :: "cp_exn \<Rightarrow> 'a cpm" where
  "raise e w = (Inl e, w)"

definition query :: "(cp_db \<Rightarrow> 'a) \<Rightarrow> 'a cpm" where
  "query f w = (Inr (f (w_db w)), w)"

definition query_exn :: "(cp_db \<Rightarrow> cp_exn + 'a) \<Rightarrow> 'a cpm" where
  "query_exn f w = (f (w_db w), w)"

definition modify :: "(cp_db \<Rightarrow> cp_db) \<Rightarrow> unit cpm" where
  "modify f w = (Inr (), w\<lparr>w_db := f (w_db w)\<rparr>)"

definition ensure :: "bool \<Rightarrow> cp_exn \<Rightarrow> unit cpm" where
  "ensure b e w = (if b then Inr () else Inl e, w)"

definition the_or :: "cp_exn \<Rightarrow> 'a option \<Rightarrow> 'a cpm" where
  "the_or e x w = (case x of None \<Rightarrow> Inl e | Some y \<Rightarrow> Inr y, w)"

definition uuid4 :: "uid cpm" where
  "uuid4 w = (Inr (w_next w), w\<lparr>w_next := Suc (w_next w)\<rparr>)"

definition commit :: "unit cpm" where
  "commit w = (Inr (), w\<lparr>w_committed := w_db w\<rparr>)"

definition rollback :: "cp_world \<Rightarrow> cp_world" where
  "rollback w = w\<lparr>w_db := w_committed w\<rparr>"

text \<open>\<open>scalar_one_or_none()\<close> and \<open>scalar_one()\<close>.\<close>

definition one_or_none :: "'a list \<Rightarrow> cp_exn + 'a option" where
  "one_or_none xs = (case scalar_of xs of
     NoRow \<Rightarrow> Inr None | OneRow x \<Rightarrow> Inr (Some x) | ManyRows \<Rightarrow> Inl CP_MultipleResultsFound)"

definition exactly_one :: "'a list \<Rightarrow> cp_exn + 'a" where
  "exactly_one xs = (case scalar_of xs of
     NoRow \<Rightarrow> Inl CP_NoResultFound | OneRow x \<Rightarrow> Inr x | ManyRows \<Rightarrow> Inl CP_MultipleResultsFound)"

definition call_agent :: "cp_env \<Rightarrow> node \<Rightarrow> agent_op \<Rightarrow> agent_response cpm" where
  "call_agent env node op w =
     (case nd_ip_address node of
        None \<Rightarrow> (Inl AgentUnreachable, w)
      | Some ip \<Rightarrow>
          if ip = [] then (Inl AgentUnreachable, w)
          else (case e_agent env (w_calls w) (nd_id node, op) of
                  Inl Unreachable \<Rightarrow> Inl AgentUnreachable
                | Inl (Rejected code) \<Rightarrow> Inl (AgentRequest code)
                | Inr resp \<Rightarrow> Inr resp,
                w\<lparr>w_calls := w_calls w @ [(nd_id node, op)]\<rparr>))"

text \<open>A request handler that raises leaves only what it committed.\<close>

definition http_request :: "'a cpm \<Rightarrow> 'a cpm" where
  "http_request m w = (case m w of (Inl e, w') \<Rightarrow> (Inl e, rollback w') | (Inr x, w') \<Rightarrow> (Inr x, w'))"

section \<open>Reasoning about effects\<close>

lemma bindM_Inr:
  "bindM m f w = (Inr y, w'') \<longleftrightarrow> (\<exists>x w'. m w = (Inr x, w') \<and> f x w' = (Inr y, w''))"
  by (auto split: prod.splits sum.splits)

lemma bindM_Inl:
  "bindM m f w = (Inl e, w'') \<longleftrightarrow>
     m w = (Inl e, w'') \<or> (\<exists>x w'. m w = (Inr x, w') \<and> f x w' = (Inl e, w''))"
  by (auto split: prod.splits sum.splits)

text \<open>The two ways a sequence of effects can go.\<close>

lemma bind_cases:
  assumes "(case M of (a, v) \<Rightarrow> (case a of Inl e \<Rightarrow> (Inl e, v) | Inr x \<Rightarrow> f x v)) = (r, w')"
  obtains (fail) e where "M = (Inl e, w')" "r = Inl e"
  | (step) x v where "M = (Inr x, v)" "f x v = (r, w')"
  using assms by (auto split: prod.splits sum.splits)

lemma bind_okE:
  assumes "(case M of (a, v) \<Rightarrow> (case a of Inl e \<Rightarrow> (Inl e, v) | Inr x \<Rightarrow> f x v)) = (Inr y, w')"
  obtains x v where "M = (Inr x, v)" "f x v = (Inr y, w')"
  using assms by (auto split: prod.splits sum.splits)

named_theorems effect_simps "outcomes of the primitive effects"

lemma ret_eq [effect_simps]: "ret x w = (r, w') \<longleftrightarrow> r = Inr x \<and> w' = w"
  by (auto simp: ret_def)

lemma raise_eq [effect_simps]: "raise e w = (r, w') \<longleftrightarrow> r = Inl e \<and> w' = w"
  by (auto simp: raise_def)

lemma query_eq [effect_simps]: "query f w = (r, w') \<longleftrightarrow> r = Inr (f (w_db w)) \<and> w' = w"
  by (auto simp: query_def)

lemma query_exn_eq [effect_simps]: "query_exn f w = (r, w') \<longleftrightarrow> f (w_db w) = r \<and> w' = w"
  by (auto simp: query_exn_def)

lemma modify_eq [effect_simps]:
  "modify f w = (r, w') \<longleftrightarrow> r = Inr () \<and> w' = w\<lparr>w_db := f (w_db w)\<rparr>"
  by (auto simp: modify_def)

lemma ensure_eq [effect_simps]:
  "ensure b e w = (r, w') \<longleftrightarrow> r = (if b then Inr () else Inl e) \<and> w' = w"
  by (auto simp: ensure_def)

lemma the_or_eq [effect_simps]:
  "the_or e x w = (r, w') \<longleftrightarrow> r = (case x of None \<Rightarrow> Inl e | Some y \<Rightarrow> Inr y) \<and> w' = w"
  by (auto simp: the_or_def)

lemma uuid4_eq [effect_simps]:
  "uuid4 w = (r, w') \<longleftrightarrow> r = Inr (w_next w) \<and> w' = w\<lparr>w_next := Suc (w_next w)\<rparr>"
  by (auto simp: uuid4_def)

lemma commit_eq [effect_simps]:
  "commit w = (r, w') \<longleftrightarrow> r = Inr () \<and> w' = w\<lparr>w_committed := w_db w\<rparr>"
  by (auto simp: commit_def)

lemma one_or_none_Inr:
  "one_or_none xs = Inr r \<longleftrightarrow> xs = [] \<and> r = None \<or> (\<exists>x. xs = [x] \<and> r = Some x)"
  by (cases xs rule: scalar_of.cases) (auto simp: one_or_none_def)

lemma one_or_none_Inl: "one_or_none xs = Inl e \<longleftrightarrow> 2 \<le> length xs \<and> e = CP_MultipleResultsFound"
  by (cases xs rule: scalar_of.cases) (auto simp: one_or_none_def)

lemma exactly_one_Inr: "exactly_one xs = Inr x \<longleftrightarrow> xs = [x]"
  by (cases xs rule: scalar_of.cases) (auto simp: exactly_one_def)

text \<open>A call to an agent changes nothing but the log, and is logged exactly when the node has an
  address.\<close>

lemma call_agent_eq:
  "call_agent env node op w = (r, w') \<Longrightarrow>
     w_db w' = w_db w \<and> w_committed w' = w_committed w \<and> w_next w' = w_next w \<and>
     (w' = w \<and> r = Inl AgentUnreachable \<or> w_calls w' = w_calls w @ [(nd_id node, op)])"
  by (auto simp: call_agent_def split: option.splits if_splits)

lemma call_agent_Inr:
  "call_agent env node op w = (Inr resp, w') \<longleftrightarrow>
     (\<exists>ip. nd_ip_address node = Some ip \<and> ip \<noteq> []) \<and>
     e_agent env (w_calls w) (nd_id node, op) = Inr resp \<and>
     w' = w\<lparr>w_calls := w_calls w @ [(nd_id node, op)]\<rparr>"
  by (auto simp: call_agent_def split: option.splits if_splits sum.splits agent_failure.splits)

lemma call_agent_Inl:
  "call_agent env node op w = (Inl e, w') \<Longrightarrow> e = AgentUnreachable \<or> (\<exists>c. e = AgentRequest c)"
  by (auto simp: call_agent_def split: option.splits if_splits sum.splits agent_failure.splits)

lemma http_request_Inr [effect_simps]: "http_request m w = (Inr x, w') \<longleftrightarrow> m w = (Inr x, w')"
  by (auto simp: http_request_def split: prod.splits sum.splits)

text \<open>A request that fails before it commits changes neither the session nor the committed rows.\<close>

lemma http_request_Inl:
  "http_request m w = (Inl e, w') \<longleftrightarrow> (\<exists>v. m w = (Inl e, v) \<and> w' = rollback v)"
  by (auto simp: http_request_def split: prod.splits sum.splits)

section \<open>A small world\<close>

definition empty_cp :: cp_db where
  "empty_cp = \<lparr>c_users = [], c_organizations = [], c_memberships = [], c_projects = [], c_regions = [],
     c_nodes = [], c_tokens = [], c_clusters = [], c_members = [], c_cluster_events = [],
     c_databases = [], c_credentials = [], c_database_events = [], c_jobs = [], c_backups = [],
     c_webhooks = [], c_deliveries = [], c_plans = [], c_subscriptions = [], c_usage = [],
     c_invoices = [], c_line_items = [], c_payments = [], c_notifications = [], c_audit = [],
     c_api_keys = [], c_oauth = [], c_queries = [], c_saved_queries = []\<rparr>"

definition world_of :: "cp_db \<Rightarrow> uid \<Rightarrow> cp_world" where
  "world_of db n = \<lparr>w_db = db, w_committed = db, w_calls = [], w_next = n\<rparr>"

text \<open>Agents that confirm every request, and a cipher that can be undone.\<close>

definition calm_env :: "instant \<Rightarrow> cp_env" where
  "calm_env now = \<lparr>e_now = now,
     e_agent = (\<lambda>_ c. case c of (_, op) \<Rightarrow> (case op of
         BackupDatabase _ _ \<Rightarrow> Inr (SizeBytes 4096)
       | VerifyBackup _ \<Rightarrow> Inr (Verified True ''ok'')
       | ReplicationStatus \<Rightarrow> Inr (Replication (Some ''standby'') (Some 0))
       | DatabaseMetrics _ \<Rightarrow> Inr (Metrics 1073741824 3 100)
       | _ \<Rightarrow> Inr Ack)),
     e_encrypt = (\<lambda>s. CHR ''#'' # s), e_decrypt = (\<lambda>s. Some (tl s)),
     e_token = ''s3cret'', e_hex = ''0123456789abcdef0123456789abcdef'',
     e_hmac = (\<lambda>k m. k @ m), e_post = (\<lambda>_ _ _ _. Some 200)\<rparr>"

end
