(* ===== verification/CP_Jobs.thy ===== *)
theory CP_Jobs
  imports CP_Model Retry_Queue
begin

text \<open>
  The job table of the Control Plane, \<open>src/backend/app/services/jobs.py\<close>: idempotent enqueueing,
  claiming the oldest due job, and the retry schedule.  The operations on one job and on the list of
  jobs are pure; the session operations apply them to the table.
\<close>

section \<open>The operations\<close>

definition backoff_seconds :: "int \<Rightarrow> int" where
  "backoff_seconds attempts = min (5 * 2 ^ nat (attempts - 1)) 300"

definition new_job ::
    "uid \<Rightarrow> instant \<Rightarrow> string \<Rightarrow> (string \<times> uid) list \<Rightarrow> string option \<Rightarrow> uid option \<Rightarrow> string option \<Rightarrow> uid option \<Rightarrow> job" where
  "new_job i now type payload key org rtype rid =
     \<lparr>jb_id = i, jb_type = type, jb_status = JB_QUEUED, jb_idempotency_key = key,
      jb_organization_id = org, jb_resource_type = rtype, jb_resource_id = rid, jb_payload = payload,
      jb_result = None, jb_error = None, jb_attempts = 0, jb_max_attempts = 5, jb_next_run_at = now,
      jb_started_at = None, jb_completed_at = None, jb_created_at = now\<rparr>"

definition find_by_key :: "string option \<Rightarrow> cp_db \<Rightarrow> cp_exn + job option" where
  "find_by_key key db = (case key of
     None \<Rightarrow> Inr None
   | Some k \<Rightarrow> one_or_none (filter (\<lambda>j. jb_idempotency_key j = Some k) (c_jobs db)))"

definition enqueue ::
    "cp_env \<Rightarrow> string \<Rightarrow> (string \<times> uid) list \<Rightarrow> string option \<Rightarrow> uid option \<Rightarrow> string option \<Rightarrow> uid option \<Rightarrow> job cpm" where
  "enqueue env type payload key org rtype rid =
     bindM (query_exn (find_by_key key)) (\<lambda>existing.
     case existing of
       Some j \<Rightarrow> ret j
     | None \<Rightarrow>
         bindM uuid4 (\<lambda>i.
         bindM (modify (\<lambda>db. db\<lparr>c_jobs := c_jobs db @ [new_job i (e_now env) type payload key org rtype rid]\<rparr>)) (\<lambda>_.
         ret (new_job i (e_now env) type payload key org rtype rid))))"

definition due_job :: "instant \<Rightarrow> job \<Rightarrow> bool" where
  "due_job now j \<longleftrightarrow> jb_status j \<in> {JB_QUEUED, JB_RETRYING} \<and> jb_next_run_at j \<le> now"

definition claim_job :: "instant \<Rightarrow> job list \<Rightarrow> (job \<times> job list) option" where
  "claim_job now jobs =
     (case sort_key jb_created_at (filter (due_job now) jobs) of
        [] \<Rightarrow> None
      | j # _ \<Rightarrow> (case j\<lparr>jb_status := JB_RUNNING, jb_attempts := jb_attempts j + 1, jb_started_at := Some now\<rparr> of
                   j' \<Rightarrow> Some (j', tset jb_id j' jobs)))"

definition claim_next_job :: "cp_env \<Rightarrow> job option cpm" where
  "claim_next_job env w =
     (case claim_job (e_now env) (c_jobs (w_db w)) of
        None \<Rightarrow> (Inr None, w)
      | Some (j, jobs) \<Rightarrow> (Inr (Some j), w\<lparr>w_db := (w_db w)\<lparr>c_jobs := jobs\<rparr>\<rparr>))"

definition mark_succeeded :: "instant \<Rightarrow> jdata option \<Rightarrow> job \<Rightarrow> job" where
  "mark_succeeded now result j =
     j\<lparr>jb_status := JB_SUCCEEDED, jb_result := result, jb_completed_at := Some now, jb_error := None\<rparr>"

definition mark_failed_or_retry :: "instant \<Rightarrow> string \<Rightarrow> job \<Rightarrow> job" where
  "mark_failed_or_retry now error j =
     (if jb_attempts j \<ge> jb_max_attempts j
      then j\<lparr>jb_error := Some (take 2000 error), jb_status := JB_FAILED, jb_completed_at := Some now\<rparr>
      else j\<lparr>jb_error := Some (take 2000 error), jb_status := JB_RETRYING,
             jb_next_run_at := now + backoff_seconds (jb_attempts j) * 1000000\<rparr>)"

text \<open>One poll of a worker, as far as the job table is concerned: the handler's outcome is the
  exception's text or the result.\<close>

definition poll_jobs :: "instant \<Rightarrow> string + jdata option \<Rightarrow> job list \<Rightarrow> job list" where
  "poll_jobs now outcome jobs =
     (case claim_job now jobs of
        None \<Rightarrow> jobs
      | Some (j, jobs') \<Rightarrow>
          tset jb_id (case outcome of Inl e \<Rightarrow> mark_failed_or_retry now e j
                                    | Inr r \<Rightarrow> mark_succeeded now r j) jobs')"

fun polls_jobs :: "(instant \<times> (string + jdata option)) list \<Rightarrow> job list \<Rightarrow> job list" where
  "polls_jobs [] jobs = jobs"
| "polls_jobs ((now, outcome) # rs) jobs = polls_jobs rs (poll_jobs now outcome jobs)"

section \<open>The table is a retry queue\<close>

fun phase_of_status :: "job_status \<Rightarrow> job_phase" where
  "phase_of_status JB_QUEUED = Waiting"
| "phase_of_status JB_RETRYING = Waiting"
| "phase_of_status JB_RUNNING = Active"
| "phase_of_status JB_SUCCEEDED = Done"
| "phase_of_status JB_FAILED = Dead"

abbreviation job_phase_of :: "job \<Rightarrow> job_phase" where
  "job_phase_of j \<equiv> phase_of_status (jb_status j)"

lemma due_job_iff: "due_job now j \<longleftrightarrow> job_phase_of j = Waiting \<and> jb_next_run_at j \<le> now"
  by (cases "jb_status j") (auto simp: due_job_def)

lemma backoff_bounds: "5 \<le> backoff_seconds a \<and> backoff_seconds a \<le> 300"
proof -
  have "(1::int) \<le> 2 ^ nat (a - 1)" by simp
  then have "5 \<le> 5 * (2::int) ^ nat (a - 1)" by linarith
  then show ?thesis by (simp add: backoff_seconds_def)
qed

lemma claim_job_None: "claim_job now jobs = None \<longleftrightarrow> (\<forall>j\<in>set jobs. \<not> due_job now j)"
proof -
  have "sort_key jb_created_at (filter (due_job now) jobs) = [] \<longleftrightarrow> (\<forall>j\<in>set jobs. \<not> due_job now j)"
    by (metis (no_types, lifting) empty_filter_conv set_empty set_sort)
  then show ?thesis by (auto simp: claim_job_def split: list.splits)
qed

lemma sort_key_head:
  assumes "sort_key f xs = y # ys"
  shows "y \<in> set xs" and "\<forall>x\<in>set xs. f y \<le> f x"
proof -
  have "set (y # ys) = set xs" using assms set_sort by metis
  moreover have "sorted (map f (y # ys))" using assms sorted_sort_key by metis
  ultimately show "y \<in> set xs" "\<forall>x\<in>set xs. f y \<le> f x" by auto
qed

lemma claim_job_Some:
  assumes "claim_job now jobs = Some (j', jobs')"
  obtains j where "j \<in> set jobs" "due_job now j"
    "\<forall>k\<in>set jobs. due_job now k \<longrightarrow> jb_created_at j \<le> jb_created_at k"
    "j' = j\<lparr>jb_status := JB_RUNNING, jb_attempts := jb_attempts j + 1, jb_started_at := Some now\<rparr>"
    "jobs' = tset jb_id j' jobs"
proof -
  from assms obtain j rest where s: "sort_key jb_created_at (filter (due_job now) jobs) = j # rest"
    and j': "j' = j\<lparr>jb_status := JB_RUNNING, jb_attempts := jb_attempts j + 1, jb_started_at := Some now\<rparr>"
    and q: "jobs' = tset jb_id j' jobs"
    by (auto simp: claim_job_def split: list.splits)
  show ?thesis using that sort_key_head [OF s] j' q by auto
qed

interpretation cp_queue: retry_queue jb_id job_phase_of jb_attempts jb_max_attempts jb_next_run_at
  jb_created_at claim_job mark_succeeded mark_failed_or_retry
proof
  fix now q
  show "claim_job now q = None \<longleftrightarrow>
      (\<forall>j\<in>set q. \<not> (job_phase_of j = Waiting \<and> jb_next_run_at j \<le> now))"
    by (simp add: claim_job_None due_job_iff)
next
  fix now q j' q'
  assume "claim_job now q = Some (j', q')"
  then obtain j where "j \<in> set q" "due_job now j"
    "\<forall>k\<in>set q. due_job now k \<longrightarrow> jb_created_at j \<le> jb_created_at k"
    "j' = j\<lparr>jb_status := JB_RUNNING, jb_attempts := jb_attempts j + 1, jb_started_at := Some now\<rparr>"
    "q' = tset jb_id j' q"
    by (rule claim_job_Some)
  then show "\<exists>j\<in>set q. job_phase_of j = Waiting \<and> jb_next_run_at j \<le> now \<and>
      (\<forall>k\<in>set q. job_phase_of k = Waiting \<and> jb_next_run_at k \<le> now \<longrightarrow> jb_created_at j \<le> jb_created_at k) \<and>
      jb_id j' = jb_id j \<and> job_phase_of j' = Active \<and> jb_attempts j' = jb_attempts j + 1 \<and>
      jb_max_attempts j' = jb_max_attempts j \<and> jb_created_at j' = jb_created_at j \<and> q' = tset jb_id j' q"
    by (intro bexI [of _ j]) (auto simp: due_job_iff)
next
  fix now e and j :: job
  assume "jb_attempts j < jb_max_attempts j" "1 \<le> jb_attempts j"
  then show "jb_next_run_at (mark_failed_or_retry now e j) \<le> now + max_delay"
    using backoff_bounds [of "jb_attempts j"] by (simp add: mark_failed_or_retry_def max_delay_def)
qed (auto simp: mark_succeeded_def mark_failed_or_retry_def)

lemma poll_jobs_queue: "poll_jobs now outcome jobs = cp_queue.poll now outcome jobs"
  by (simp add: poll_jobs_def cp_queue.poll_def)

lemma polls_jobs_queue: "polls_jobs rs jobs = cp_queue.polls rs jobs"
  by (induction rs arbitrary: jobs) (auto simp: poll_jobs_queue)

section \<open>Properties\<close>

definition jobs_bounded :: "job list \<Rightarrow> bool" where
  "jobs_bounded jobs \<longleftrightarrow> distinct (map jb_id jobs) \<and>
     (\<forall>j\<in>set jobs. 0 \<le> jb_attempts j \<and> jb_attempts j \<le> jb_max_attempts j \<and>
        (jb_status j \<in> {JB_QUEUED, JB_RETRYING} \<longrightarrow> jb_attempts j < jb_max_attempts j))"

lemma jobs_bounded_queue: "jobs_bounded jobs \<longleftrightarrow> cp_queue.bounded jobs"
proof -
  have "jb_status j \<in> {JB_QUEUED, JB_RETRYING} \<longleftrightarrow> job_phase_of j = Waiting" for j :: job
    by (cases "jb_status j") auto
  then show ?thesis by (simp add: jobs_bounded_def cp_queue.bounded_def)
qed

definition attempts_left :: "job list \<Rightarrow> int" where
  "attempts_left jobs = sum_list (map (\<lambda>j.
     if jb_status j \<in> {JB_QUEUED, JB_RETRYING} then jb_max_attempts j - jb_attempts j else 0) jobs)"

lemma attempts_left_queue: "attempts_left jobs = cp_queue.work jobs"
proof -
  have "(if jb_status j \<in> {JB_QUEUED, JB_RETRYING} then jb_max_attempts j - jb_attempts j else 0) =
      cp_queue.remaining j" for j :: job
    by (cases "jb_status j") (auto simp: cp_queue.remaining_def)
  then show ?thesis by (simp add: attempts_left_def cp_queue.work_def)
qed

fun spaced_polls :: "instant \<Rightarrow> (instant \<times> (string + jdata option)) list \<Rightarrow> bool" where
  "spaced_polls t [] = True"
| "spaced_polls t ((now, outcome) # rs) = (t \<le> now \<and> spaced_polls (now + 300000000) rs)"

lemma spaced_polls_queue: "spaced_polls t rs = cp_queue.spaced t rs"
  by (induction t rs rule: spaced_polls.induct) (auto simp: max_delay_def)


definition demo_jobs :: "job list" where
  "demo_jobs = [(new_job 1 10 ''create_database'' [(''database_id'', 7)] None None None None)\<lparr>jb_max_attempts := 2\<rparr>,
                (new_job 2 5 ''deliver_webhook'' [(''delivery_id'', 9)] None None None None)\<lparr>jb_max_attempts := 1\<rparr>]"

definition demo_polls :: "(instant \<times> (string + jdata option)) list" where
  "demo_polls = [(10, Inl ''boom''), (300000010, Inl ''boom''), (600000010, Inr None)]"


text \<open>The n-th failed attempt of a job below its limit is retried after 5 seconds doubled n-1
  times, never more than 300 seconds; at the limit the job is failed for good.\<close>

theorem retry_schedule:
  fixes j :: job
  assumes "1 \<le> jb_attempts j"
  shows "mark_failed_or_retry now e j =
    (if jb_attempts j < jb_max_attempts j
     then j\<lparr>jb_error := Some (take 2000 e), jb_status := JB_RETRYING,
            jb_next_run_at := now + 1000000 *
              (if jb_attempts j \<le> 6 then 5 * 2 ^ nat (jb_attempts j - 1) else 300)\<rparr>
     else j\<lparr>jb_error := Some (take 2000 e), jb_status := JB_FAILED, jb_completed_at := Some now\<rparr>)"
proof -
  have "backoff_seconds (jb_attempts j) =
      (if jb_attempts j \<le> 6 then 5 * 2 ^ nat (jb_attempts j - 1) else 300)"
  proof (cases "jb_attempts j \<le> 6")
    case True
    then have "nat (jb_attempts j - 1) \<le> 5" by simp
    then have "(2::int) ^ nat (jb_attempts j - 1) \<le> 2 ^ 5" by (rule power_increasing) simp
    then show ?thesis using True by (simp add: backoff_seconds_def)
  next
    case False
    then have "6 \<le> nat (jb_attempts j - 1)" by simp
    then have "(2::int) ^ 6 \<le> 2 ^ nat (jb_attempts j - 1)" by (rule power_increasing) simp
    then show ?thesis using False by (simp add: backoff_seconds_def)
  qed
  then show ?thesis by (simp add: mark_failed_or_retry_def)
qed

theorem retry_schedule_witness:
  "jb_next_run_at (mark_failed_or_retry 100 ''e'' ((demo_jobs ! 0)\<lparr>jb_attempts := 3, jb_max_attempts := 5\<rparr>)) =
     100 + 20 * 1000000"
  using retry_schedule [of "(demo_jobs ! 0)\<lparr>jb_attempts := 3, jb_max_attempts := 5\<rparr>" 100 "''e''"] by simp

section \<open>Enqueueing\<close>

lemma enqueue_cases:
  assumes "enqueue env type payload key org rtype rid w = (r, w')"
  obtains (ambiguous) e where "r = Inl e" "w' = w" "e = CP_MultipleResultsFound"
  | (existing) j where "r = Inr j" "w' = w" "j \<in> set (c_jobs (w_db w))" "key \<noteq> None" "jb_idempotency_key j = key"
      "find_by_key key (w_db w) = Inr (Some j)"
  | (new) "r = Inr (new_job (w_next w) (e_now env) type payload key org rtype rid)"
      "w' = w\<lparr>w_next := Suc (w_next w), w_db := (w_db w)\<lparr>c_jobs := c_jobs (w_db w) @
               [new_job (w_next w) (e_now env) type payload key org rtype rid]\<rparr>\<rparr>"
      "key = None \<or> (\<forall>j\<in>set (c_jobs (w_db w)). jb_idempotency_key j \<noteq> key)"
proof (cases "find_by_key key (w_db w)")
  case (Inl e)
  then show ?thesis
    using assms ambiguous
    by (auto simp: enqueue_def query_exn_def find_by_key_def one_or_none_Inl split: option.splits)
next
  case (Inr ex)
  show ?thesis
  proof (cases ex)
    case None
    then have "key = None \<or> (\<forall>j\<in>set (c_jobs (w_db w)). jb_idempotency_key j \<noteq> key)"
      using Inr by (auto simp: find_by_key_def one_or_none_Inr filter_empty_conv split: option.splits)
    then show ?thesis
      using assms Inr None new
      by (simp add: enqueue_def query_exn_def uuid4_def modify_def ret_def)
  next
    case (Some j)
    then obtain k where k: "key = Some k" and "filter (\<lambda>j. jb_idempotency_key j = Some k) (c_jobs (w_db w)) = [j]"
      using Inr by (auto simp: find_by_key_def one_or_none_Inr split: option.splits)
    then have "j \<in> set (c_jobs (w_db w))" "jb_idempotency_key j = key"
      by (auto dest!: arg_cong [where f = set])
    then show ?thesis
      using assms Inr Some existing k by (auto simp: enqueue_def query_exn_def ret_def)
  qed
qed

text \<open>Enqueueing twice under one idempotency key creates one job: the second call returns the
  job the first one created, whatever else it asks for, and changes nothing.\<close>

theorem enqueue_idempotent:
  assumes "enqueue env type payload (Some k) org rtype rid w = (Inr j, w')"
  shows "enqueue env' type' payload' (Some k) org' rtype' rid' w' = (Inr j, w')"
proof -
  have "find_by_key (Some k) (w_db w') = Inr (Some j)"
    using assms(1)
  proof (cases rule: enqueue_cases)
    case (existing i)
    then show ?thesis by simp
  next
    case new
    have "filter (\<lambda>j. jb_idempotency_key j = Some k) (c_jobs (w_db w)) = []"
      using new by (auto simp: filter_empty_conv)
    then show ?thesis
      using new by (simp add: find_by_key_def one_or_none_Inr) (simp add: new_job_def)
  qed simp
  then show ?thesis by (simp add: enqueue_def query_exn_def ret_def)
qed

theorem enqueue_idempotent_witness:
  "\<exists>j w'. enqueue (calm_env 0) ''t'' [] (Some ''k'') None None None (world_of empty_cp 1) = (Inr j, w') \<and>
     enqueue (calm_env 9) ''u'' [] (Some ''k'') None None None w' = (Inr j, w')"
proof -
  have "is_ok (fst (enqueue (calm_env 0) ''t'' [] (Some ''k'') None None None (world_of empty_cp 1)))"
    by code_simp
  then obtain j w' where "enqueue (calm_env 0) ''t'' [] (Some ''k'') None None None (world_of empty_cp 1) = (Inr j, w')"
    by (auto simp: is_ok_ex) (metis prod.collapse)
  then show ?thesis using enqueue_idempotent by blast
qed

end
