(* ===== verification/CP_Events.thy ===== *)
theory CP_Events
  imports CP_Jobs
begin

text \<open>
  What a service leaves behind beside its own rows: the audit trail
  (\<open>src/backend/app/services/audit.py\<close>), outbound webhooks
  (\<open>services/webhook_orchestrator.py\<close>) and notifications
  (\<open>services/notification_service.py\<close>).  The e-mail that goes with a notification is best
  effort and touches no state, so it is not represented.
\<close>

section \<open>The audit trail\<close>

definition lower_char :: "char \<Rightarrow> char" where
  "lower_char c = (case of_char c :: nat of n \<Rightarrow> if 65 \<le> n \<and> n \<le> 90 then char_of (n + 32) else c)"

definition redacted_keys :: "string list" where
  "redacted_keys = [''password'', ''password_hash'', ''secret'', ''token'', ''api_key'', ''key_hash'']"

definition redact :: "jdata option \<Rightarrow> jdata option" where
  "redact payload = map_option (map (\<lambda>(k, v).
     (k, if List.member redacted_keys (map lower_char k) then ''***'' else v))) payload"

definition record_audit ::
    "string \<Rightarrow> string \<Rightarrow> uid option \<Rightarrow> uid option \<Rightarrow> uid option \<Rightarrow> jdata option \<Rightarrow> jdata option \<Rightarrow> string option \<Rightarrow> string \<Rightarrow> unit cpm" where
  "record_audit action resource_type resource_id org_id user_id before after ip result =
     modify (\<lambda>db. db\<lparr>c_audit := c_audit db @
       [\<lparr>al_organization_id = org_id, al_user_id = user_id, al_action = action,
         al_resource_type = resource_type, al_resource_id = resource_id,
         al_before = redact before, al_after = redact after, al_ip_address = ip, al_result = result\<rparr>]\<rparr>)"

section \<open>Webhooks\<close>

definition new_delivery :: "uid \<Rightarrow> uid \<Rightarrow> string \<Rightarrow> jdata \<Rightarrow> webhook_delivery" where
  "new_delivery i webhook_id event_type data =
     \<lparr>wd_id = i, wd_webhook_id = webhook_id, wd_event_type = event_type, wd_payload = data,
      wd_status = WD_PENDING, wd_response_code = None, wd_error = None, wd_delivered_at = None\<rparr>"

fun emit_to :: "cp_env \<Rightarrow> string \<Rightarrow> jdata \<Rightarrow> webhook list \<Rightarrow> unit cpm" where
  "emit_to env event_type data [] = ret ()"
| "emit_to env event_type data (webhook # webhooks) =
     (if \<not> List.member (wh_event_types webhook) event_type then emit_to env event_type data webhooks
      else bindM uuid4 (\<lambda>i.
           bindM (modify (\<lambda>db. db\<lparr>c_deliveries := c_deliveries db @ [new_delivery i (wh_id webhook) event_type data]\<rparr>)) (\<lambda>_.
           bindM (enqueue env ''deliver_webhook'' [(''delivery_id'', i)] None None (Some ''webhook_delivery'') (Some i)) (\<lambda>_.
           emit_to env event_type data webhooks))))"

definition emit_event :: "cp_env \<Rightarrow> uid option \<Rightarrow> string \<Rightarrow> jdata \<Rightarrow> unit cpm" where
  "emit_event env org_id event_type data =
     (case org_id of
        None \<Rightarrow> ret ()
      | Some org \<Rightarrow>
          bindM (query (\<lambda>db. filter (\<lambda>h. wh_organization_id h = org \<and> wh_is_active h) (c_webhooks db))) (\<lambda>webhooks.
          emit_to env event_type data webhooks))"

text \<open>\<open>json.dumps(payload, sort_keys=True)\<close> of \<open>{"event": ..., "data": {...}}\<close> with string
  values.\<close>

definition hex_digit :: "nat \<Rightarrow> char" where
  "hex_digit n = (if n < 10 then char_of (48 + n) else char_of (87 + n))"

definition json_char :: "char \<Rightarrow> string" where
  "json_char c = (case of_char c :: nat of n \<Rightarrow>
     if n = 34 then [CHR 0x5C, CHR 0x22]
     else if n = 92 then [CHR 0x5C, CHR 0x5C]
     else if n = 10 then [CHR 0x5C, CHR ''n'']
     else if n = 13 then [CHR 0x5C, CHR ''r'']
     else if n = 9 then [CHR 0x5C, CHR ''t'']
     else if n = 8 then [CHR 0x5C, CHR ''b'']
     else if n = 12 then [CHR 0x5C, CHR ''f'']
     else if n < 32 \<or> n > 126 then [CHR 0x5C, CHR ''u'', CHR ''0'', CHR ''0'', hex_digit (n div 16), hex_digit (n mod 16)]
     else [c])"

definition json_string :: "string \<Rightarrow> string" where
  "json_string s = [CHR 0x22] @ concat (map json_char s) @ [CHR 0x22]"

fun json_pairs :: "jdata \<Rightarrow> string" where
  "json_pairs [] = []"
| "json_pairs [(k, v)] = json_string k @ '': '' @ json_string v"
| "json_pairs ((k, v) # rest) = json_string k @ '': '' @ json_string v @ '', '' @ json_pairs rest"

fun string_le :: "string \<Rightarrow> string \<Rightarrow> bool" where
  "string_le [] t = True"
| "string_le (c # s) [] = False"
| "string_le (c # s) (d # t) = (if c = d then string_le s t else (of_char c :: nat) < of_char d)"

fun insert_pair :: "string \<times> string \<Rightarrow> jdata \<Rightarrow> jdata" where
  "insert_pair p [] = [p]"
| "insert_pair p (q # qs) = (if string_le (fst p) (fst q) then p # q # qs else q # insert_pair p qs)"

definition webhook_body :: "string \<Rightarrow> jdata \<Rightarrow> string" where
  "webhook_body event data =
     ''{'' @ json_string ''data'' @ '': {'' @ json_pairs (foldr insert_pair data []) @ ''}, '' @
     json_string ''event'' @ '': '' @ json_string event @ ''}''"

definition sign_payload :: "cp_env \<Rightarrow> string \<Rightarrow> string \<Rightarrow> string" where
  "sign_payload env secret body = e_hmac env secret body"

definition update_delivery :: "webhook_delivery \<Rightarrow> unit cpm" where
  "update_delivery d = modify (\<lambda>db. db\<lparr>c_deliveries := tset wd_id d (c_deliveries db)\<rparr>)"

definition payload_id :: "string \<Rightarrow> job \<Rightarrow> uid cpm" where
  "payload_id k job = the_or CP_KeyError (map_of (jb_payload job) k)"

definition decrypt_secret :: "cp_env \<Rightarrow> string \<Rightarrow> string cpm" where
  "decrypt_secret env c = the_or CP_InvalidToken (e_decrypt env c)"

definition post_delivery :: "cp_env \<Rightarrow> webhook \<Rightarrow> webhook_delivery \<Rightarrow> string \<Rightarrow> int cpm" where
  "post_delivery env webhook d secret =
     (case webhook_body (wd_event_type d) (wd_payload d) of body \<Rightarrow>
        the_or CP_HTTPError (e_post env (wh_url webhook) body (wd_event_type d)
          (''sha256='' @ sign_payload env secret body)))"

definition execute_deliver_webhook :: "cp_env \<Rightarrow> job \<Rightarrow> jdata cpm" where
  "execute_deliver_webhook env job =
     bindM (payload_id ''delivery_id'' job) (\<lambda>delivery_id.
     bindM (query (\<lambda>db. tget wd_id (c_deliveries db) delivery_id)) (\<lambda>found.
     bindM (the_or CP_RuntimeError found) (\<lambda>delivery.
     if wd_status delivery = WD_SUCCEEDED then ret [(''already_delivered'', ''true'')]
     else
       bindM (query (\<lambda>db. tget wh_id (c_webhooks db) (wd_webhook_id delivery))) (\<lambda>hook.
       case hook of
         None \<Rightarrow> bindM (update_delivery (delivery\<lparr>wd_status := WD_FAILED, wd_error := Some ''Webhook was deleted or deactivated before delivery''\<rparr>)) (\<lambda>_.
                 ret [(''skipped'', ''true'')])
       | Some webhook \<Rightarrow>
           if \<not> wh_is_active webhook
           then bindM (update_delivery (delivery\<lparr>wd_status := WD_FAILED, wd_error := Some ''Webhook was deleted or deactivated before delivery''\<rparr>)) (\<lambda>_.
                ret [(''skipped'', ''true'')])
           else
             bindM (decrypt_secret env (wh_encrypted_secret webhook)) (\<lambda>secret.
             bindM (post_delivery env webhook delivery secret) (\<lambda>code.
             if 200 \<le> code \<and> code \<le> 299
             then bindM (update_delivery (delivery\<lparr>wd_response_code := Some code, wd_status := WD_SUCCEEDED,
                                            wd_delivered_at := Some (e_now env), wd_error := None\<rparr>)) (\<lambda>_.
                  ret [(''status_code'', int_string code)])
             else bindM (update_delivery (delivery\<lparr>wd_response_code := Some code\<rparr>)) (\<lambda>_.
                  raise CP_RuntimeError)))))))"

section \<open>Notifications\<close>

definition org_owners :: "uid \<Rightarrow> cp_db \<Rightarrow> user list" where
  "org_owners org db =
     concat (map (\<lambda>m. if mb_organization_id m = org \<and> mb_role m = OWNER
                       then filter (\<lambda>u. us_id u = mb_user_id m) (c_users db) else []) (c_memberships db))"

definition org_owner :: "uid \<Rightarrow> user option cpm" where
  "org_owner org = query_exn (\<lambda>db. one_or_none (org_owners org db))"

definition notify :: "user \<Rightarrow> string \<Rightarrow> jdata \<Rightarrow> unit cpm" where
  "notify user type data = modify (\<lambda>db. db\<lparr>c_notifications := c_notifications db @
     [\<lparr>nt_user_id = us_id user, nt_type = type, nt_data = data\<rparr>]\<rparr>)"

definition notify_owner :: "uid \<Rightarrow> string \<Rightarrow> jdata \<Rightarrow> unit cpm" where
  "notify_owner org type data =
     bindM (org_owner org) (\<lambda>owner. case owner of None \<Rightarrow> ret () | Some u \<Rightarrow> notify u type data)"

definition notify_welcome :: "user \<Rightarrow> unit cpm" where
  "notify_welcome user = notify user ''welcome'' []"

definition notify_invoice_created :: "uid \<Rightarrow> uid \<Rightarrow> unit cpm" where
  "notify_invoice_created org invoice_id =
     notify_owner org ''invoice_created'' [(''invoice_id'', nat_string invoice_id)]"

definition notify_invoice_paid :: "uid \<Rightarrow> uid \<Rightarrow> string \<Rightarrow> unit cpm" where
  "notify_invoice_paid org invoice_id provider =
     notify_owner org ''invoice_paid'' [(''invoice_id'', nat_string invoice_id), (''provider'', provider)]"

definition notify_payment_failed :: "uid \<Rightarrow> uid \<Rightarrow> string \<Rightarrow> unit cpm" where
  "notify_payment_failed org invoice_id provider =
     notify_owner org ''payment_failed'' [(''invoice_id'', nat_string invoice_id), (''provider'', provider)]"

definition notify_subscription_changed :: "uid \<Rightarrow> string \<Rightarrow> unit cpm" where
  "notify_subscription_changed org plan_name =
     notify_owner org ''subscription_changed'' [(''plan_name'', plan_name)]"

definition notify_subscription_suspended :: "uid \<Rightarrow> uid \<Rightarrow> unit cpm" where
  "notify_subscription_suspended org invoice_id =
     notify_owner org ''subscription_suspended'' [(''invoice_id'', nat_string invoice_id)]"

definition notify_subscription_reactivated :: "uid \<Rightarrow> unit cpm" where
  "notify_subscription_reactivated org = notify_owner org ''subscription_reactivated'' []"

section \<open>What events change\<close>

lemma enqueue_no_key:
  "enqueue env type payload None org rtype rid w =
     (Inr (new_job (w_next w) (e_now env) type payload None org rtype rid),
      w\<lparr>w_next := Suc (w_next w), w_db := (w_db w)\<lparr>c_jobs := c_jobs (w_db w) @
               [new_job (w_next w) (e_now env) type payload None org rtype rid]\<rparr>\<rparr>)"
  by (simp add: enqueue_def query_exn_def find_by_key_def uuid4_def modify_def ret_def)

definition subscribers :: "uid \<Rightarrow> string \<Rightarrow> cp_db \<Rightarrow> webhook list" where
  "subscribers org event_type db =
     filter (\<lambda>h. wh_organization_id h = org \<and> wh_is_active h \<and> event_type \<in> set (wh_event_types h)) (c_webhooks db)"

text \<open>Emitting appends one pending delivery and one job to send it for each webhook in the list that
  wants the event, and changes nothing else.\<close>

lemma emit_to_result:
  "\<exists>ds js. emit_to env event_type data hooks w =
       (Inr (), w\<lparr>w_next := w_next w + 2 * length ds, w_db := (w_db w)
          \<lparr>c_deliveries := c_deliveries (w_db w) @ ds, c_jobs := c_jobs (w_db w) @ js\<rparr>\<rparr>) \<and>
     map wd_webhook_id ds = map wh_id (filter (\<lambda>h. event_type \<in> set (wh_event_types h)) hooks) \<and>
     (\<forall>d\<in>set ds. wd_event_type d = event_type \<and> wd_payload d = data \<and> wd_status d = WD_PENDING \<and> w_next w \<le> wd_id d) \<and>
     map jb_payload js = map (\<lambda>d. [(''delivery_id'', wd_id d)]) ds \<and>
     (\<forall>j\<in>set js. jb_type j = ''deliver_webhook'' \<and> jb_status j = JB_QUEUED \<and> jb_attempts j = 0 \<and>
        jb_max_attempts j = 5 \<and> jb_idempotency_key j = None \<and> w_next w \<le> jb_id j)"
proof (induction hooks arbitrary: w)
  case Nil
  show ?case by (intro exI [of _ "[]"]) (simp add: ret_def)
next
  case (Cons h hooks)
  show ?case
  proof (cases "event_type \<in> set (wh_event_types h)")
    case False
    then show ?thesis using Cons.IH [of w] by (simp add: List.member_iff)
  next
    case True
    define d where "d = new_delivery (w_next w) (wh_id h) event_type data"
    define j where "j = new_job (Suc (w_next w)) (e_now env) ''deliver_webhook'' [(''delivery_id'', w_next w)]
      None None (Some ''webhook_delivery'') (Some (w_next w))"
    define v where "v = w\<lparr>w_next := Suc (Suc (w_next w)), w_db := (w_db w)
      \<lparr>c_deliveries := c_deliveries (w_db w) @ [d], c_jobs := c_jobs (w_db w) @ [j]\<rparr>\<rparr>"
    have step: "emit_to env event_type data (h # hooks) w = emit_to env event_type data hooks v"
      using True by (simp add: List.member_iff uuid4_def modify_def enqueue_no_key v_def d_def j_def)
    from Cons.IH [of v] obtain ds js where IH: "emit_to env event_type data hooks v =
       (Inr (), v\<lparr>w_next := w_next v + 2 * length ds, w_db := (w_db v)
          \<lparr>c_deliveries := c_deliveries (w_db v) @ ds, c_jobs := c_jobs (w_db v) @ js\<rparr>\<rparr>)"
      "map wd_webhook_id ds = map wh_id (filter (\<lambda>h. event_type \<in> set (wh_event_types h)) hooks)"
      "\<forall>d\<in>set ds. wd_event_type d = event_type \<and> wd_payload d = data \<and> wd_status d = WD_PENDING \<and> w_next v \<le> wd_id d"
      "map jb_payload js = map (\<lambda>d. [(''delivery_id'', wd_id d)]) ds"
      "\<forall>j\<in>set js. jb_type j = ''deliver_webhook'' \<and> jb_status j = JB_QUEUED \<and> jb_attempts j = 0 \<and>
        jb_max_attempts j = 5 \<and> jb_idempotency_key j = None \<and> w_next v \<le> jb_id j"
      by blast
    have v: "w_next v = Suc (Suc (w_next w))" by (simp add: v_def)
    show ?thesis
      unfolding step using IH True v
      by (intro exI [of _ "d # ds"] exI [of _ "j # js"])
         (auto simp: v_def d_def j_def new_delivery_def new_job_def)
  qed
qed

lemma emit_event_result:
  obtains ds js where "emit_event env org event_type data w =
       (Inr (), w\<lparr>w_next := w_next w + 2 * length ds, w_db := (w_db w)
          \<lparr>c_deliveries := c_deliveries (w_db w) @ ds, c_jobs := c_jobs (w_db w) @ js\<rparr>\<rparr>)"
    "map wd_webhook_id ds = (case org of None \<Rightarrow> [] | Some i \<Rightarrow> map wh_id (subscribers i event_type (w_db w)))"
    "\<forall>d\<in>set ds. wd_event_type d = event_type \<and> wd_payload d = data \<and> wd_status d = WD_PENDING \<and> w_next w \<le> wd_id d"
    "map jb_payload js = map (\<lambda>d. [(''delivery_id'', wd_id d)]) ds"
    "\<forall>j\<in>set js. jb_type j = ''deliver_webhook'' \<and> jb_status j = JB_QUEUED \<and> jb_attempts j = 0 \<and>
        jb_max_attempts j = 5 \<and> jb_idempotency_key j = None \<and> w_next w \<le> jb_id j"
proof (cases org)
  case None
  then show ?thesis by (intro that [of "[]" "[]"]) (simp_all add: emit_event_def ret_def)
next
  case (Some i)
  have f: "filter (\<lambda>h. event_type \<in> set (wh_event_types h))
      (filter (\<lambda>h. wh_organization_id h = i \<and> wh_is_active h) (c_webhooks (w_db w))) = subscribers i event_type (w_db w)"
    by (auto simp: subscribers_def intro!: filter_cong)
  show ?thesis
    using emit_to_result [of env event_type data
        "filter (\<lambda>h. wh_organization_id h = i \<and> wh_is_active h) (c_webhooks (w_db w))" w] that
    unfolding f by (auto simp: Some emit_event_def query_def)
qed

text \<open>No value under a sensitive key reaches the audit trail, in whatever letter case the key is
  written; every other entry is kept as it was given, and the trail only grows.\<close>

theorem audit_redacts:
  assumes "record_audit action rtype rid org user before after ip result w = (r, w')"
  shows "\<exists>a. r = Inr () \<and> w_db w' = (w_db w)\<lparr>c_audit := c_audit (w_db w) @ [a]\<rparr> \<and>
     al_before a = map_option (map (\<lambda>(k, v). (k, if map lower_char k \<in> set redacted_keys then ''***'' else v))) before \<and>
     al_after a = map_option (map (\<lambda>(k, v). (k, if map lower_char k \<in> set redacted_keys then ''***'' else v))) after"
  using assms by (auto simp: record_audit_def modify_def redact_def List.member_iff)

theorem audit_redacts_witness:
  "al_after (last (c_audit (w_db (snd (record_audit ''A'' ''user'' None None None None
      (Some [(''Password'', ''hunter2''), (''name'', ''db'')]) None ''success'' (world_of empty_cp 1)))))) =
    Some [(''Password'', ''***''), (''name'', ''db'')]"
proof -
  have lower: "map (\<lambda>(k, v). (k, if map lower_char k \<in> set redacted_keys then ''***'' else v))
      [(''Password'', ''hunter2''), (''name'', ''db'')] = [(''Password'', ''***''), (''name'', ''db'')]"
    by code_simp
  obtain r w' where run: "record_audit ''A'' ''user'' None None None None
      (Some [(''Password'', ''hunter2''), (''name'', ''db'')]) None ''success'' (world_of empty_cp 1) = (r, w')"
    by fastforce
  from audit_redacts [OF run] show ?thesis
    unfolding run option.map(2) lower by auto
qed

lemma emit_event_keeps:
  assumes "emit_event env org event_type data w = (r, w')"
  shows "r = Inr () \<and> w_calls w' = w_calls w \<and> w_committed w' = w_committed w \<and>
    (\<exists>ds js. w_db w' = (w_db w)\<lparr>c_deliveries := c_deliveries (w_db w) @ ds, c_jobs := c_jobs (w_db w) @ js\<rparr>)"
proof -
  obtain ds js where "emit_event env org event_type data w =
       (Inr (), w\<lparr>w_next := w_next w + 2 * length ds, w_db := (w_db w)
          \<lparr>c_deliveries := c_deliveries (w_db w) @ ds, c_jobs := c_jobs (w_db w) @ js\<rparr>\<rparr>)"
    by (rule emit_event_result)
  then show ?thesis using assms by auto
qed

end
