(* ===== verification/CP_Rbac.thy ===== *)
theory CP_Rbac
  imports CP_Model Rbac_Spec
begin

text \<open>
  Organization roles, \<open>src/backend/app/services/rbac.py\<close>: the permission table, its look-up and
  the guard every endpoint calls.
\<close>

definition permissions :: "(string \<times> membership_role list) list" where
  "permissions =
     [(''org:delete'', [OWNER]),
      (''org:update_settings'', [OWNER, ADMIN]),
      (''org:manage_members'', [OWNER, ADMIN]),
      (''org:read'', [OWNER, ADMIN, DEVELOPER, BILLING, READONLY]),
      (''project:create'', [OWNER, ADMIN, DEVELOPER]),
      (''project:delete'', [OWNER, ADMIN]),
      (''project:read'', [OWNER, ADMIN, DEVELOPER, BILLING, READONLY]),
      (''api_key:manage'', [OWNER, ADMIN]),
      (''billing:read'', [OWNER, ADMIN, BILLING]),
      (''database:create'', [OWNER, ADMIN, DEVELOPER]),
      (''database:read'', [OWNER, ADMIN, DEVELOPER, BILLING, READONLY]),
      (''database:delete'', [OWNER, ADMIN]),
      (''database:manage'', [OWNER, ADMIN, DEVELOPER]),
      (''database:connect'', [OWNER, ADMIN, DEVELOPER]),
      (''database:roles:manage'', [OWNER, ADMIN, DEVELOPER]),
      (''database:extensions:manage'', [OWNER, ADMIN, DEVELOPER]),
      (''database:sql:execute'', [OWNER, ADMIN, DEVELOPER]),
      (''database:observe'', [OWNER, ADMIN, DEVELOPER, BILLING, READONLY]),
      (''database:backups:manage'', [OWNER, ADMIN, DEVELOPER]),
      (''webhooks:manage'', [OWNER, ADMIN]),
      (''subscription:manage'', [OWNER])]"

definition has_permission :: "membership_role \<Rightarrow> string \<Rightarrow> cp_exn + bool" where
  "has_permission role action =
     (case map_of permissions action of
        None \<Rightarrow> Inl CP_ValueError
      | Some allowed \<Rightarrow> Inr (List.member allowed role))"

definition require_permission :: "membership_role \<Rightarrow> string \<Rightarrow> cp_exn + unit" where
  "require_permission role action =
     (case has_permission role action of
        Inl e \<Rightarrow> Inl e
      | Inr ok \<Rightarrow> if \<not> ok then Inl (HTTP 403) else Inr ())"

interpretation cp_rbac: rbac_matrix permissions has_permission require_permission
  CP_ValueError "HTTP 403" "\<lambda>e. e"
  by unfold_locales (auto simp: has_permission_def require_permission_def split: option.splits)

definition require_role :: "membership_role \<Rightarrow> string \<Rightarrow> unit cpm" where
  "require_role role action = query_exn (\<lambda>_. require_permission role action)"

lemma require_role_Inr: "require_role role action w = (Inr u, w') \<longleftrightarrow> require_permission role action = Inr u \<and> w' = w"
  by (auto simp: require_role_def query_exn_def)

section \<open>The role hierarchy\<close>

fun outranks :: "membership_role \<Rightarrow> membership_role list" where
  "outranks READONLY = [READONLY]"
| "outranks BILLING = [READONLY, BILLING]"
| "outranks DEVELOPER = [READONLY, DEVELOPER]"
| "outranks ADMIN = [READONLY, BILLING, DEVELOPER, ADMIN]"
| "outranks OWNER = [READONLY, BILLING, DEVELOPER, ADMIN, OWNER]"

definition all_roles :: "membership_role list" where
  "all_roles = [OWNER, ADMIN, DEVELOPER, BILLING, READONLY]"

lemma in_all_roles: "r \<in> set all_roles"
  by (cases r) (simp_all add: all_roles_def)

lemma rows_upward_closed:
  "list_all (\<lambda>(a, rs). list_all (\<lambda>r. list_all (\<lambda>r'.
       List.member rs r' \<longrightarrow> List.member rs r) (outranks r)) all_roles) permissions"
  by code_simp

lemma rows_private:
  "list_all (\<lambda>(a, rs). List.member [''database:connect'', ''database:sql:execute'', ''database:roles:manage''] a \<longrightarrow>
      \<not> List.member rs BILLING \<and> \<not> List.member rs READONLY) permissions"
  "list_all (\<lambda>(a, rs). List.member [''subscription:manage'', ''org:delete''] a \<longrightarrow> rs = [OWNER]) permissions"
  by code_simp+

lemma row_of: "map_of permissions a = Some rs \<Longrightarrow> list_all P permissions \<Longrightarrow> P (a, rs)"
  by (auto simp: list_all_iff dest: map_of_SomeD)

text \<open>Roles are ordered: whatever a role may do, every role above it may do too (the owner
  everything the administrator may, the administrator what developers and billing may, each of those
  what read-only members may); the roles that only look at dashboards never obtain a database
  password, run SQL or manage roles; and only the owner manages the subscription.\<close>

theorem role_hierarchy:
  "(\<forall>a r r'. r' \<in> set (outranks r) \<longrightarrow> require_permission r' a = Inr () \<longrightarrow> require_permission r a = Inr ()) \<and>
   (\<forall>a\<in>{''database:connect'', ''database:sql:execute'', ''database:roles:manage''}. \<forall>r\<in>{BILLING, READONLY}.
      require_permission r a \<noteq> Inr ()) \<and>
   (\<forall>r. require_permission r ''subscription:manage'' = Inr () \<longrightarrow> r = OWNER)"
proof (intro conjI allI impI ballI notI)
  fix a r r'
  assume "r' \<in> set (outranks r)" "require_permission r' a = Inr ()"
  then obtain rs where rs: "map_of permissions a = Some rs" "r' \<in> set rs" using cp_rbac.require_iff by blast
  then have "r \<in> set rs"
    using row_of [OF rs(1) rows_upward_closed] in_all_roles [of r] \<open>r' \<in> set (outranks r)\<close>
    by (auto simp: list_all_iff)
  then show "require_permission r a = Inr ()" using cp_rbac.require_iff rs by blast
next
  fix a r
  assume a: "a \<in> {''database:connect'', ''database:sql:execute'', ''database:roles:manage''}"
    "r \<in> {BILLING, READONLY}" "require_permission r a = Inr ()"
  then obtain rs where "map_of permissions a = Some rs" "r \<in> set rs" using cp_rbac.require_iff by blast
  then show False using row_of [OF _ rows_private(1)] a by fastforce
next
  fix r
  assume "require_permission r ''subscription:manage'' = Inr ()"
  then obtain rs where "map_of permissions ''subscription:manage'' = Some rs" "r \<in> set rs"
    using cp_rbac.require_iff by blast
  then show "r = OWNER" using row_of [OF _ rows_private(2)] by fastforce
qed

theorem role_hierarchy_witness:
  "require_permission ADMIN ''database:create'' = Inr () \<and> require_permission BILLING ''database:connect'' \<noteq> Inr ()"
proof -
  have "require_permission DEVELOPER ''database:create'' = Inr ()" by code_simp
  moreover have "DEVELOPER \<in> set (outranks ADMIN)" by simp
  ultimately show ?thesis using role_hierarchy by blast
qed

end
