(* ===== verification/CP_Auth.thy ===== *)
theory CP_Auth
  imports CP_Events CP_Rbac
begin

text \<open>
  Who is calling: \<open>src/backend/app/core/security.py\<close>, \<open>core/dependencies.py\<close>, and the
  endpoints that manage credentials (\<open>api/v1/endpoints/auth.py\<close>, \<open>api_keys.py\<close>,
  \<open>services/oauth_service.py\<close>).

  Argon2, PyJWT, TOTP and the random generator are parameters: \<open>k_hash\<close> hashes with a salt of
  its own, \<open>k_verify\<close> checks, \<open>k_encode\<close> signs the claims of a session token and
  \<open>k_decode\<close> returns the claims of a token whose signature and expiry hold.
\<close>

section \<open>Primitives\<close>

record claims =
  jw_sub :: "uid option"
  jw_ver :: "int option"
  jw_exp :: instant
  jw_purpose :: "string option"
  jw_provider :: "string option"

record crypto =
  k_hash :: "string \<Rightarrow> string"
  k_verify :: "string \<Rightarrow> string \<Rightarrow> bool"
  k_encode :: "claims \<Rightarrow> string"
  k_decode :: "instant \<Rightarrow> string \<Rightarrow> claims option"
  k_totp :: "string \<Rightarrow> string \<Rightarrow> bool"
  k_token_hex4 :: string
  k_token_urlsafe32 :: string
  k_base32 :: string
  k_token_minutes :: int

definition create_access_token :: "cp_env \<Rightarrow> crypto \<Rightarrow> uid \<Rightarrow> int \<Rightarrow> string" where
  "create_access_token env k user_id token_version =
     k_encode k \<lparr>jw_sub = Some user_id, jw_ver = Some token_version,
                 jw_exp = e_now env + k_token_minutes k * 60000000, jw_purpose = None, jw_provider = None\<rparr>"

definition decode_access_token :: "cp_env \<Rightarrow> crypto \<Rightarrow> string \<Rightarrow> (uid \<times> int) option" where
  "decode_access_token env k token =
     (case k_decode k (e_now env) token of
        None \<Rightarrow> None
      | Some c \<Rightarrow> (case (jw_sub c, jw_ver c) of (Some u, Some v) \<Rightarrow> Some (u, v) | _ \<Rightarrow> None))"

definition generate_api_key :: "crypto \<Rightarrow> string \<times> string \<times> string" where
  "generate_api_key k =
     (case ''edb_'' @ k_token_hex4 k @ ''_'' @ k_token_urlsafe32 k of full_key \<Rightarrow>
        (full_key, k_token_hex4 k, k_hash k full_key))"

definition extract_api_key_prefix :: "string \<Rightarrow> string option" where
  "extract_api_key_prefix full_key =
     (if take 4 full_key \<noteq> ''edb_'' then None
      else case drop 4 full_key of rest \<Rightarrow>
        (case takeWhile (\<lambda>c. c \<noteq> CHR ''_'') rest of prefix \<Rightarrow>
           if length prefix \<noteq> 8 \<or> length rest \<le> 9 then None else Some prefix))"

section \<open>Dependencies\<close>

definition put_user :: "user \<Rightarrow> unit cpm" where
  "put_user u = modify (\<lambda>db. db\<lparr>c_users := tset us_id u (c_users db)\<rparr>)"

definition put_api_key :: "api_key \<Rightarrow> unit cpm" where
  "put_api_key a = modify (\<lambda>db. db\<lparr>c_api_keys := tset ak_id a (c_api_keys db)\<rparr>)"

definition authenticate_api_key :: "cp_env \<Rightarrow> crypto \<Rightarrow> string \<Rightarrow> user cpm" where
  "authenticate_api_key env k token =
     bindM (the_or (HTTP 401) (extract_api_key_prefix token)) (\<lambda>prefix.
     bindM (query_exn (\<lambda>db. one_or_none (filter (\<lambda>a. ak_key_prefix a = prefix) (c_api_keys db)))) (\<lambda>found.
     bindM (the_or (HTTP 401) found) (\<lambda>a.
     bindM (ensure (ak_revoked_at a = None \<and> ak_user_id a \<noteq> None \<and> k_verify k (ak_key_hash a) token) (HTTP 401)) (\<lambda>_.
     bindM (query (\<lambda>db. case ak_user_id a of None \<Rightarrow> None | Some i \<Rightarrow> tget us_id (c_users db) i)) (\<lambda>u.
     bindM (the_or (HTTP 401) u) (\<lambda>user.
     bindM (put_api_key (a\<lparr>ak_last_used_at := Some (e_now env)\<rparr>)) (\<lambda>_.
     bindM commit (\<lambda>_.
     ret user))))))))"

definition get_current_user :: "cp_env \<Rightarrow> crypto \<Rightarrow> string option \<Rightarrow> user cpm" where
  "get_current_user env k credentials =
     bindM (the_or (HTTP 401) credentials) (\<lambda>token.
     if extract_api_key_prefix token \<noteq> None then authenticate_api_key env k token
     else
       bindM (the_or (HTTP 401) (decode_access_token env k token)) (\<lambda>(user_id, token_version).
       bindM (query (\<lambda>db. tget us_id (c_users db) user_id)) (\<lambda>u.
       bindM (the_or (HTTP 401) u) (\<lambda>user.
       bindM (ensure (us_token_version user = token_version) (HTTP 401)) (\<lambda>_.
       ret user)))))"

definition require_platform_admin :: "cp_env \<Rightarrow> crypto \<Rightarrow> string option \<Rightarrow> user cpm" where
  "require_platform_admin env k credentials =
     bindM (get_current_user env k credentials) (\<lambda>user.
     bindM (ensure (us_is_platform_admin user) (HTTP 403)) (\<lambda>_.
     ret user))"

definition membership_of :: "uid \<Rightarrow> user \<Rightarrow> membership cpm" where
  "membership_of organization_id user =
     bindM (query_exn (\<lambda>db. one_or_none (filter (\<lambda>m. mb_organization_id m = organization_id \<and> mb_user_id m = us_id user)
              (c_memberships db)))) (\<lambda>m.
     the_or (HTTP 404) m)"

text \<open>\<open>get_membership\<close> together with the user it depends on.\<close>

definition get_membership :: "cp_env \<Rightarrow> crypto \<Rightarrow> string option \<Rightarrow> uid \<Rightarrow> (user \<times> membership) cpm" where
  "get_membership env k credentials organization_id =
     bindM (get_current_user env k credentials) (\<lambda>user.
     bindM (membership_of organization_id user) (\<lambda>membership.
     ret (user, membership)))"

definition require_active_subscription :: "uid \<Rightarrow> unit cpm" where
  "require_active_subscription organization_id =
     bindM (query_exn (\<lambda>db. one_or_none (filter (\<lambda>s. sb_organization_id s = organization_id) (c_subscriptions db)))) (\<lambda>found.
     case found of
       None \<Rightarrow> ret ()
     | Some s \<Rightarrow> ensure (sb_status s \<noteq> SB_PAST_DUE) (HTTP 402))"

definition get_authenticated_node :: "crypto \<Rightarrow> string option \<Rightarrow> uid \<Rightarrow> node cpm" where
  "get_authenticated_node k credentials node_id =
     bindM (the_or (HTTP 401) credentials) (\<lambda>secret.
     bindM (query (\<lambda>db. tget nd_id (c_nodes db) node_id)) (\<lambda>n.
     bindM (the_or (HTTP 401) n) (\<lambda>node.
     bindM (ensure (k_verify k (nd_node_secret_hash node) secret) (HTTP 401)) (\<lambda>_.
     ret node))))"

section \<open>Accounts\<close>

definition add_user :: "string \<Rightarrow> string option \<Rightarrow> user cpm" where
  "add_user email password_hash =
     bindM uuid4 (\<lambda>i.
     case \<lparr>us_id = i, us_email = email, us_password_hash = password_hash, us_mfa_enabled = False, us_mfa_secret = None,
           us_is_platform_admin = False, us_last_login_at = None, us_token_version = 0\<rparr> of user \<Rightarrow>
     bindM (modify (\<lambda>db. db\<lparr>c_users := c_users db @ [user]\<rparr>)) (\<lambda>_. ret user))"

definition user_by_email :: "string \<Rightarrow> user option cpm" where
  "user_by_email email = query_exn (\<lambda>db. one_or_none (filter (\<lambda>u. us_email u = email) (c_users db)))"

definition register :: "crypto \<Rightarrow> string \<Rightarrow> string \<Rightarrow> user cpm" where
  "register k email password = http_request (
     bindM (ensure (10 \<le> length password \<and> length password \<le> 128) (HTTP 422)) (\<lambda>_.
     bindM (user_by_email email) (\<lambda>existing.
     bindM (ensure (existing = None) (HTTP 409)) (\<lambda>_.
     bindM (add_user email (Some (k_hash k password))) (\<lambda>user.
     bindM (record_audit ''USER_REGISTERED'' ''user'' (Some (us_id user)) None (Some (us_id user)) None None None ''success'') (\<lambda>_.
     bindM (notify_welcome user) (\<lambda>_.
     bindM commit (\<lambda>_.
     ret user))))))))"

definition password_ok :: "crypto \<Rightarrow> user option \<Rightarrow> string \<Rightarrow> bool" where
  "password_ok k user password = (case user of None \<Rightarrow> False
     | Some u \<Rightarrow> (case us_password_hash u of None \<Rightarrow> False | Some h \<Rightarrow> k_verify k h password))"

text \<open>A missing secret makes \<open>pyotp\<close> raise \<open>TypeError\<close>, here as any other internal error.\<close>

definition otp_ok :: "crypto \<Rightarrow> user \<Rightarrow> string option \<Rightarrow> cp_exn + bool" where
  "otp_ok k u otp_code = (case otp_code of None \<Rightarrow> Inr False
     | Some c \<Rightarrow> if c = [] then Inr False
                else case us_mfa_secret u of None \<Rightarrow> Inl CP_ValueError | Some s \<Rightarrow> Inr (k_totp k s c))"

definition login :: "cp_env \<Rightarrow> crypto \<Rightarrow> string \<Rightarrow> string \<Rightarrow> string option \<Rightarrow> string option \<Rightarrow> string cpm" where
  "login env k email password otp_code client = http_request (
     bindM (user_by_email email) (\<lambda>found.
     if \<not> password_ok k found password
     then bindM (record_audit ''LOGIN_FAILED'' ''user'' None None None None None client ''failure'') (\<lambda>_.
          bindM commit (\<lambda>_. raise (HTTP 401)))
     else
       bindM (the_or (HTTP 401) found) (\<lambda>user.
       bindM (query_exn (\<lambda>_. if us_mfa_enabled user then otp_ok k user otp_code else Inr True)) (\<lambda>second_factor.
       if \<not> second_factor
       then bindM (record_audit ''LOGIN_MFA_FAILED'' ''user'' (Some (us_id user)) None (Some (us_id user)) None None None ''failure'') (\<lambda>_.
            bindM commit (\<lambda>_. raise (HTTP 401)))
       else
         bindM (put_user (user\<lparr>us_last_login_at := Some (e_now env)\<rparr>)) (\<lambda>_.
         bindM (record_audit ''LOGIN_SUCCEEDED'' ''user'' (Some (us_id user)) None (Some (us_id user)) None None client ''success'') (\<lambda>_.
         bindM commit (\<lambda>_.
         ret (create_access_token env k (us_id user) (us_token_version user)))))))))"

definition revoke_all_sessions :: "cp_env \<Rightarrow> crypto \<Rightarrow> string option \<Rightarrow> unit cpm" where
  "revoke_all_sessions env k credentials = http_request (
     bindM (get_current_user env k credentials) (\<lambda>user.
     bindM (put_user (user\<lparr>us_token_version := us_token_version user + 1\<rparr>)) (\<lambda>_.
     bindM (record_audit ''ALL_SESSIONS_REVOKED'' ''user'' (Some (us_id user)) None (Some (us_id user)) None None None ''success'') (\<lambda>_.
     commit))))"

definition enable_mfa :: "cp_env \<Rightarrow> crypto \<Rightarrow> string option \<Rightarrow> string cpm" where
  "enable_mfa env k credentials = http_request (
     bindM (get_current_user env k credentials) (\<lambda>user.
     bindM (put_user (user\<lparr>us_mfa_secret := Some (k_base32 k)\<rparr>)) (\<lambda>_.
     bindM commit (\<lambda>_.
     ret (k_base32 k)))))"

definition verify_mfa :: "cp_env \<Rightarrow> crypto \<Rightarrow> string option \<Rightarrow> string \<Rightarrow> unit cpm" where
  "verify_mfa env k credentials otp_code = http_request (
     bindM (get_current_user env k credentials) (\<lambda>user.
     bindM (ensure (case us_mfa_secret user of None \<Rightarrow> False | Some s \<Rightarrow> s \<noteq> [] \<and> k_totp k s otp_code) (HTTP 400)) (\<lambda>_.
     bindM (put_user (user\<lparr>us_mfa_enabled := True\<rparr>)) (\<lambda>_.
     bindM (record_audit ''MFA_ENABLED'' ''user'' (Some (us_id user)) None (Some (us_id user)) None None None ''success'') (\<lambda>_.
     commit)))))"

section \<open>API keys\<close>

text \<open>From the permission check on.\<close>

definition issue_api_key :: "crypto \<Rightarrow> uid \<Rightarrow> user \<Rightarrow> string \<Rightarrow> jdata \<Rightarrow> (uid \<times> string) cpm" where
  "issue_api_key k organization_id user name scopes =
     (case generate_api_key k of (full_key, prefix, key_hash) \<Rightarrow>
     bindM uuid4 (\<lambda>i.
     bindM (query (\<lambda>db. prefix \<in> keys ak_key_prefix (c_api_keys db))) (\<lambda>taken.
     bindM (ensure (\<not> taken) CP_IntegrityError) (\<lambda>_.
     bindM (modify (\<lambda>db. db\<lparr>c_api_keys := c_api_keys db @
        [\<lparr>ak_id = i, ak_organization_id = organization_id, ak_user_id = Some (us_id user), ak_name = name,
          ak_key_prefix = prefix, ak_key_hash = key_hash, ak_scopes = scopes, ak_last_used_at = None, ak_revoked_at = None\<rparr>]\<rparr>)) (\<lambda>_.
     bindM (record_audit ''API_KEY_CREATED'' ''api_key'' (Some i) (Some organization_id) (Some (us_id user)) None
              (Some [(''name'', name), (''key_prefix'', prefix)]) None ''success'') (\<lambda>_.
     bindM commit (\<lambda>_.
     ret (i, full_key))))))))"

definition create_api_key :: "cp_env \<Rightarrow> crypto \<Rightarrow> string option \<Rightarrow> uid \<Rightarrow> string \<Rightarrow> jdata \<Rightarrow> (uid \<times> string) cpm" where
  "create_api_key env k credentials organization_id name scopes = http_request (
     bindM (get_membership env k credentials organization_id) (\<lambda>(user, membership).
     bindM (ensure (2 \<le> length name \<and> length name \<le> 200) (HTTP 422)) (\<lambda>_.
     bindM (require_role (mb_role membership) ''api_key:manage'') (\<lambda>_.
     issue_api_key k organization_id user name scopes))))"

definition list_api_keys :: "cp_env \<Rightarrow> crypto \<Rightarrow> string option \<Rightarrow> uid \<Rightarrow> api_key list cpm" where
  "list_api_keys env k credentials organization_id = http_request (
     bindM (get_membership env k credentials organization_id) (\<lambda>(user, membership).
     bindM (require_role (mb_role membership) ''api_key:manage'') (\<lambda>_.
     query (\<lambda>db. filter (\<lambda>a. ak_organization_id a = organization_id \<and> ak_revoked_at a = None) (c_api_keys db)))))"

definition revoke_api_key :: "cp_env \<Rightarrow> crypto \<Rightarrow> string option \<Rightarrow> uid \<Rightarrow> uid \<Rightarrow> unit cpm" where
  "revoke_api_key env k credentials organization_id api_key_id = http_request (
     bindM (get_membership env k credentials organization_id) (\<lambda>(user, membership).
     bindM (require_role (mb_role membership) ''api_key:manage'') (\<lambda>_.
     bindM (query (\<lambda>db. tget ak_id (c_api_keys db) api_key_id)) (\<lambda>found.
     bindM (the_or (HTTP 404) found) (\<lambda>a.
     bindM (ensure (ak_organization_id a = organization_id) (HTTP 404)) (\<lambda>_.
     bindM (put_api_key (a\<lparr>ak_revoked_at := Some (e_now env)\<rparr>)) (\<lambda>_.
     bindM (record_audit ''API_KEY_REVOKED'' ''api_key'' (Some (ak_id a)) (Some organization_id) (Some (us_id user)) None None None ''success'') (\<lambda>_.
     commit))))))))"
section \<open>Signing in with Google or GitHub\<close>

record oauth_info =
  oi_account_id :: string
  oi_email :: "string option"
  oi_verified :: bool

definition oauth_provider_of :: "string \<Rightarrow> oauth_provider_name option" where
  "oauth_provider_of provider = (if provider = ''google'' then Some OA_GOOGLE
     else if provider = ''github'' then Some OA_GITHUB else None)"

definition create_state :: "cp_env \<Rightarrow> crypto \<Rightarrow> string \<Rightarrow> string" where
  "create_state env k provider =
     k_encode k \<lparr>jw_sub = None, jw_ver = None, jw_exp = e_now env + 600 * 1000000,
                 jw_purpose = Some ''oauth_state'', jw_provider = Some provider\<rparr>"

definition verify_state :: "cp_env \<Rightarrow> crypto \<Rightarrow> string \<Rightarrow> string \<Rightarrow> cp_exn + unit" where
  "verify_state env k state provider =
     (case k_decode k (e_now env) state of
        None \<Rightarrow> Inl OAuthLogin
      | Some c \<Rightarrow> if jw_purpose c \<noteq> Some ''oauth_state'' \<or> jw_provider c \<noteq> Some provider then Inl OAuthLogin else Inr ())"

text \<open>The account behind a verified address: the linked one, the one with that e-mail, or a new one.\<close>

definition link_account :: "oauth_provider_name \<Rightarrow> string \<Rightarrow> string \<Rightarrow> user option cpm" where
  "link_account provider account_id email =
     bindM (query_exn (\<lambda>db. one_or_none (filter (\<lambda>a. oa_provider a = provider \<and> oa_provider_account_id a = account_id)
              (c_oauth db)))) (\<lambda>existing_link.
     case existing_link of
       Some a \<Rightarrow> query (\<lambda>db. tget us_id (c_users db) (oa_user_id a))
     | None \<Rightarrow>
         bindM (user_by_email email) (\<lambda>found.
         bindM (case found of Some u \<Rightarrow> ret u | None \<Rightarrow> add_user email None) (\<lambda>user.
         bindM (modify (\<lambda>db. db\<lparr>c_oauth := c_oauth db @
            [\<lparr>oa_user_id = us_id user, oa_provider = provider, oa_provider_account_id = account_id, oa_email = email\<rparr>]\<rparr>)) (\<lambda>_.
         bindM (if found = None
                then bindM (record_audit ''USER_REGISTERED'' ''user'' (Some (us_id user)) None (Some (us_id user)) None None None ''success'') (\<lambda>_.
                     notify_welcome user)
                else ret ()) (\<lambda>_.
         ret (Some user))))))"

definition handle_callback ::
    "cp_env \<Rightarrow> crypto \<Rightarrow> (string \<Rightarrow> string \<Rightarrow> oauth_info option) \<Rightarrow> string \<Rightarrow> string \<Rightarrow> string \<Rightarrow> user option cpm" where
  "handle_callback env k fetch provider code state =
     bindM (the_or (HTTP 404) (oauth_provider_of provider)) (\<lambda>provider_enum.
     bindM (query_exn (\<lambda>_. verify_state env k state provider)) (\<lambda>_.
     bindM (the_or OAuthLogin (fetch provider code)) (\<lambda>info.
     bindM (ensure (oi_verified info) OAuthLogin) (\<lambda>_.
     bindM (the_or OAuthLogin (oi_email info)) (\<lambda>email.
     bindM (ensure (email \<noteq> []) OAuthLogin) (\<lambda>_.
     link_account provider_enum (oi_account_id info) email))))))"

text \<open>A session token, or the refusal the browser is redirected with.\<close>

definition oauth_callback ::
    "cp_env \<Rightarrow> crypto \<Rightarrow> (string \<Rightarrow> string \<Rightarrow> oauth_info option) \<Rightarrow> string \<Rightarrow> string \<Rightarrow> string \<Rightarrow> string option \<Rightarrow> string option cpm" where
  "oauth_callback env k fetch provider code state client = http_request (\<lambda>w.
     case handle_callback env k fetch provider code state w of
       (Inl OAuthLogin, w') \<Rightarrow> (Inr None, rollback w')
     | (Inl e, w') \<Rightarrow> (Inl e, w')
     | (Inr None, w') \<Rightarrow> (Inl CP_AttributeError, w')
     | (Inr (Some user), w') \<Rightarrow>
         if us_mfa_enabled user then (Inr None, rollback w')
         else bindM (put_user (user\<lparr>us_last_login_at := Some (e_now env)\<rparr>)) (\<lambda>_.
              bindM (record_audit ''LOGIN_SUCCEEDED'' ''user'' (Some (us_id user)) None (Some (us_id user)) None None client ''success'') (\<lambda>_.
              bindM commit (\<lambda>_.
              ret (Some (create_access_token env k (us_id user) (us_token_version user)))))) w')"

section \<open>Outcomes\<close>

text \<open>Authentication returns a stored user and touches at most the time a key was last used.\<close>

definition used_rows :: "api_key list \<Rightarrow> api_key list \<Rightarrow> bool" where
  "used_rows as as' \<longleftrightarrow> as' = as \<or> (\<exists>a\<in>set as. \<exists>t. as' = tset ak_id (a\<lparr>ak_last_used_at := t\<rparr>) as)"

definition only_keys_touched :: "cp_world \<Rightarrow> cp_world \<Rightarrow> bool" where
  "only_keys_touched w v \<longleftrightarrow> w_next v = w_next w \<and> w_calls v = w_calls w \<and>
     (\<exists>as. w_db v = (w_db w)\<lparr>c_api_keys := as\<rparr> \<and> used_rows (c_api_keys (w_db w)) as)"

lemma only_keys_touched_refl: "only_keys_touched w w"
  unfolding only_keys_touched_def used_rows_def by (intro conjI exI [of _ "c_api_keys (w_db w)"]) simp_all

lemma only_keys_touched_put:
  "a \<in> set (c_api_keys (w_db w)) \<Longrightarrow> only_keys_touched w (w\<lparr>w_db := (w_db w)\<lparr>c_api_keys :=
      tset ak_id (a\<lparr>ak_last_used_at := t\<rparr>) (c_api_keys (w_db w))\<rparr>, w_committed := c\<rparr>)"
  unfolding only_keys_touched_def used_rows_def
  by (intro conjI exI [of _ "tset ak_id (a\<lparr>ak_last_used_at := t\<rparr>) (c_api_keys (w_db w))"]) auto

lemma used_rows_append:
  assumes "used_rows (xs @ [a]) as" and "\<forall>x\<in>set xs. ak_id x \<noteq> ak_id a \<and> ak_key_prefix x \<noteq> ak_key_prefix a"
  shows "\<exists>xs' a'. as = xs' @ [a'] \<and> ak_id a' = ak_id a \<and> ak_key_prefix a' = ak_key_prefix a \<and>
    ak_organization_id a' = ak_organization_id a \<and>
    (\<forall>x\<in>set xs'. ak_id x \<noteq> ak_id a \<and> ak_key_prefix x \<noteq> ak_key_prefix a)"
proof -
  consider "as = xs @ [a]" | b t where "b \<in> set xs" "as = tset ak_id (b\<lparr>ak_last_used_at := t\<rparr>) (xs @ [a])"
    | t where "as = tset ak_id (a\<lparr>ak_last_used_at := t\<rparr>) (xs @ [a])"
    using assms(1) by (auto simp: used_rows_def)
  then show ?thesis
  proof cases
    case (2 b t)
    then have "as = tset ak_id (b\<lparr>ak_last_used_at := t\<rparr>) xs @ [a]" using assms(2) by (auto simp: tset_def)
    moreover have "\<forall>x\<in>set (tset ak_id (b\<lparr>ak_last_used_at := t\<rparr>) xs). ak_id x \<noteq> ak_id a \<and> ak_key_prefix x \<noteq> ak_key_prefix a"
      using 2 assms(2) by (auto simp: tset_def)
    ultimately show ?thesis by blast
  next
    case (3 t)
    then have "as = xs @ [a\<lparr>ak_last_used_at := t\<rparr>]" using assms(2) by (auto simp: tset_def intro: map_idI)
    then show ?thesis using assms(2) by auto
  qed (use assms(2) in blast)
qed

lemma one_or_none_in: "one_or_none (filter P xs) = Inr (Some x) \<Longrightarrow> x \<in> set xs \<and> P x"
proof -
  assume "one_or_none (filter P xs) = Inr (Some x)"
  then have "x \<in> set (filter P xs)" unfolding one_or_none_Inr by auto
  then show ?thesis by simp
qed

lemma tget_self: "tget key tbl i = Some r \<Longrightarrow> tget key tbl (key r) = Some r"
  using tget_key by metis

lemma authenticate_api_key_Inr:
  assumes "authenticate_api_key env k token w = (Inr user, v)"
  shows "tget us_id (c_users (w_db w)) (us_id user) = Some user \<and> only_keys_touched w v"
  using assms unfolding authenticate_api_key_def
  by (elim bind_cases) (auto simp: effect_simps put_api_key_def split: if_splits option.splits
      dest: tget_self dest!: one_or_none_in intro!: only_keys_touched_put)

lemma get_current_user_Inr:
  assumes "get_current_user env k cred w = (Inr user, v)"
  shows "tget us_id (c_users (w_db w)) (us_id user) = Some user \<and> only_keys_touched w v"
  using assms unfolding get_current_user_def
  by (elim bind_cases)
     (auto simp: effect_simps only_keys_touched_refl authenticate_api_key_Inr split: if_splits option.splits
        elim!: bind_cases dest: tget_self)

lemma get_membership_Inr:
  assumes "get_membership env k cred org w = (Inr (user, m), v)"
  shows "get_current_user env k cred w = (Inr user, v) \<and> m \<in> set (c_memberships (w_db v)) \<and>
     mb_organization_id m = org \<and> mb_user_id m = us_id user"
proof -
  from assms have "get_current_user env k cred w = (Inr user, v)"
    and "one_or_none (filter (\<lambda>m. mb_organization_id m = org \<and> mb_user_id m = us_id user) (c_memberships (w_db v))) = Inr (Some m)"
    unfolding get_membership_def membership_of_def
    by (auto simp: effect_simps elim!: bind_cases split: option.splits)
  moreover from this(2) have "m \<in> set (filter (\<lambda>m. mb_organization_id m = org \<and> mb_user_id m = us_id user) (c_memberships (w_db v)))"
    unfolding one_or_none_Inr by auto
  ultimately show ?thesis by simp
qed

lemma extract_generated:
  assumes "length (k_token_hex4 k) = 8" and "CHR ''_'' \<notin> set (k_token_hex4 k)" and "k_token_urlsafe32 k \<noteq> []"
  shows "extract_api_key_prefix (fst (generate_api_key k)) = Some (k_token_hex4 k)"
proof -
  have "takeWhile (\<lambda>c. c \<noteq> CHR ''_'') (k_token_hex4 k @ ''_'' @ k_token_urlsafe32 k) = k_token_hex4 k"
    using assms(2) by (subst takeWhile_append2) auto
  then show ?thesis using assms by (simp add: extract_api_key_prefix_def generate_api_key_def)
qed
section \<open>The life of a credential\<close>

lemma issue_api_key_Inr:
  assumes "issue_api_key k org user name scopes v = (Inr (i, key), w1)"
  shows "i = w_next v \<and> key = fst (generate_api_key k) \<and> k_token_hex4 k \<notin> keys ak_key_prefix (c_api_keys (w_db v)) \<and>
    c_users (w_db w1) = c_users (w_db v) \<and>
    c_api_keys (w_db w1) = c_api_keys (w_db v) @ [\<lparr>ak_id = i, ak_organization_id = org, ak_user_id = Some (us_id user),
       ak_name = name, ak_key_prefix = k_token_hex4 k, ak_key_hash = k_hash k key, ak_scopes = scopes,
       ak_last_used_at = None, ak_revoked_at = None\<rparr>]"
  using assms unfolding issue_api_key_def generate_api_key_def
  by (auto simp: effect_simps record_audit_def elim!: bind_cases split: if_splits)

lemma create_api_key_Inr:
  assumes "create_api_key env k cred org name scopes w = (Inr (i, key), w1)"
  obtains user m v where "get_membership env k cred org w = (Inr (user, m), v)"
    "require_permission (mb_role m) ''api_key:manage'' = Inr ()" "issue_api_key k org user name scopes v = (Inr (i, key), w1)"
  using assms unfolding create_api_key_def require_role_def
  by (auto simp: effect_simps elim!: bind_cases split: if_splits)

lemma revoke_api_key_Inr:
  assumes "revoke_api_key env k cred org i w = (Inr (), w2)"
  obtains user m v a where "get_membership env k cred org w = (Inr (user, m), v)" "tget ak_id (c_api_keys (w_db v)) i = Some a"
    "c_api_keys (w_db w2) = tset ak_id (a\<lparr>ak_revoked_at := Some (e_now env)\<rparr>) (c_api_keys (w_db v))"
  using assms unfolding revoke_api_key_def require_role_def
  by (auto simp: effect_simps put_api_key_def record_audit_def elim!: bind_cases split: if_splits option.splits)

lemma authenticate_eq:
  assumes "extract_api_key_prefix token = Some p"
    and "filter (\<lambda>a. ak_key_prefix a = p) (c_api_keys (w_db w)) = [a]"
  shows "fst (get_current_user env k (Some token) w) =
    (if ak_revoked_at a \<noteq> None \<or> \<not> k_verify k (ak_key_hash a) token then Inl (HTTP 401)
     else case ak_user_id a of None \<Rightarrow> Inl (HTTP 401)
       | Some u \<Rightarrow> (case tget us_id (c_users (w_db w)) u of None \<Rightarrow> Inl (HTTP 401) | Some user \<Rightarrow> Inr user))"
proof -
  have "one_or_none (filter (\<lambda>a. ak_key_prefix a = p) (c_api_keys (w_db w))) = Inr (Some a)"
    using assms(2) by (simp add: one_or_none_def)
  then show ?thesis
    using assms(1)
    by (auto simp: get_current_user_def authenticate_api_key_def the_or_def query_exn_def query_def ensure_def
        put_api_key_def modify_def commit_def ret_def split: option.splits)
qed

definition demo_crypto :: crypto where
  "demo_crypto = \<lparr>k_hash = (\<lambda>p. ''h'' @ p), k_verify = (\<lambda>h p. h = ''h'' @ p),
     k_encode = (\<lambda>c. ''jwt''),
     k_decode = (\<lambda>_ t. if t = ''jwt'' then Some \<lparr>jw_sub = Some 7, jw_ver = Some 0, jw_exp = 0, jw_purpose = None, jw_provider = None\<rparr> else None),
     k_totp = (\<lambda>_ _. True), k_token_hex4 = ''0a1b2c3d'', k_token_urlsafe32 = ''se_cret'', k_base32 = ''JBSWY3DP'', k_token_minutes = 30\<rparr>"

definition demo_user :: user where
  "demo_user = \<lparr>us_id = 7, us_email = ''a@b.c'', us_password_hash = None, us_mfa_enabled = False, us_mfa_secret = None,
     us_is_platform_admin = True, us_last_login_at = None, us_token_version = 0\<rparr>"

definition demo_org :: cp_db where
  "demo_org = empty_cp\<lparr>c_users := [demo_user], c_organizations := [\<lparr>og_id = 3, og_name = ''Acme'', og_slug = ''acme''\<rparr>],
     c_memberships := [\<lparr>mb_id = 8, mb_user_id = 7, mb_organization_id = 3, mb_role = OWNER\<rparr>]\<rparr>"

definition demo_key_run :: "(cp_exn + uid \<times> string) \<times> cp_world" where
  "demo_key_run = create_api_key (calm_env 0) demo_crypto (Some ''jwt'') 3 ''ci'' [] (world_of demo_org 100)"

definition demo_revoke_run :: "(cp_exn + unit) \<times> cp_world" where
  "demo_revoke_run = revoke_api_key (calm_env 5) demo_crypto (Some ''edb_0a1b2c3d_se_cret'') 3 100 (snd demo_key_run)"


text \<open>C20: Revoking all sessions is immediate and complete: once it returns, no session token issued to
  the user up to then authenticates any more, the one used for the request included.\<close>

theorem sessions_revoked:
  assumes run: "revoke_all_sessions env k cred w = (Inr (), w')" and user: "get_current_user env k cred w = (Inr user, v)"
    and token: "extract_api_key_prefix token = None" "decode_access_token env' k token = Some (us_id user, n)"
    and issued: "n \<le> us_token_version user"
  shows "get_current_user env' k (Some token) w' = (Inl (HTTP 401), w')"
proof -
  have us: "c_users (w_db w') = tset us_id (user\<lparr>us_token_version := us_token_version user + 1\<rparr>) (c_users (w_db v))"
    using run user unfolding revoke_all_sessions_def
    by (auto simp: effect_simps put_user_def record_audit_def elim!: bind_cases)
  have "tget us_id (c_users (w_db v)) (us_id user) = Some user"
    using get_current_user_Inr [OF user] by (auto simp: only_keys_touched_def)
  then have "tget us_id (c_users (w_db w')) (us_id user) = Some (user\<lparr>us_token_version := us_token_version user + 1\<rparr>)"
    by (simp add: us table_simps)
  then show ?thesis using token issued
    by (simp add: get_current_user_def the_or_def query_def ensure_def ret_def)
qed

definition demo_logout_run :: "(cp_exn + unit) \<times> cp_world" where
  "demo_logout_run = revoke_all_sessions (calm_env 0) demo_crypto (Some ''jwt'') (world_of demo_org 100)"

theorem sessions_revoked_witness:
  "get_current_user (calm_env 9) demo_crypto (Some ''jwt'') (snd demo_logout_run) = (Inl (HTTP 401), snd demo_logout_run)"
proof -
  have "fst demo_logout_run = Inr ()" by code_simp
  then have run: "revoke_all_sessions (calm_env 0) demo_crypto (Some ''jwt'') (world_of demo_org 100) = (Inr (), snd demo_logout_run)"
    unfolding demo_logout_run_def by (metis prod.collapse)
  have user: "get_current_user (calm_env 0) demo_crypto (Some ''jwt'') (world_of demo_org 100) = (Inr demo_user, world_of demo_org 100)"
    by (simp add: get_current_user_def the_or_def query_def ensure_def ret_def extract_api_key_prefix_def decode_access_token_def
        demo_crypto_def world_of_def demo_org_def demo_user_def empty_cp_def table_simps)
  show ?thesis
    by (rule sessions_revoked [OF run user, of _ _ 0])
       (simp_all add: extract_api_key_prefix_def decode_access_token_def demo_crypto_def demo_user_def)
qed
end
