(* ===== verification/CP_Placement.thy ===== *)
theory CP_Placement
  imports CP_Events CP_Rbac
begin

text \<open>
  Where a database may go: node health (\<open>src/backend/app/services/node_health.py\<close>), plan quotas
  (\<open>services/quotas.py\<close>), tenant-scoped look-ups (\<open>services/database_lookup.py\<close>) and the
  placement algorithm (\<open>services/placement.py\<close>).  Scores are binary floating-point numbers in
  the code: \<open>float_of\<close> rounds to 53 significant bits, the precision of a double.
\<close>

section \<open>Node health\<close>

fun node_status_value :: "node_status \<Rightarrow> string" where
  "node_status_value ND_ACTIVE = ''active''"
| "node_status_value ND_MAINTENANCE = ''maintenance''"
| "node_status_value ND_DRAINING = ''draining''"

definition heartbeat_stale_seconds :: int where
  "heartbeat_stale_seconds = 60"

definition effective_status :: "instant \<Rightarrow> node \<Rightarrow> string" where
  "effective_status now node =
     (if nd_status node \<noteq> ND_ACTIVE then node_status_value (nd_status node)
      else case nd_last_heartbeat_at node of
             None \<Rightarrow> ''offline''
           | Some t \<Rightarrow> if now - t > heartbeat_stale_seconds * 1000000 then ''offline'' else ''active'')"

definition is_eligible_for_placement :: "instant \<Rightarrow> node \<Rightarrow> bool" where
  "is_eligible_for_placement now node \<longleftrightarrow> effective_status now node = ''active''"

section \<open>Look-ups inside a tenant\<close>

definition get_project_or_404 :: "uid \<Rightarrow> uid \<Rightarrow> project cpm" where
  "get_project_or_404 org_id project_id =
     bindM (query (\<lambda>db. tget pj_id (c_projects db) project_id)) (\<lambda>p. case p of
        None \<Rightarrow> raise (HTTP 404)
      | Some pj \<Rightarrow> if pj_organization_id pj \<noteq> org_id then raise (HTTP 404) else ret pj)"

definition get_database_or_404 :: "uid \<Rightarrow> uid \<Rightarrow> database cpm" where
  "get_database_or_404 project_id database_id =
     bindM (query (\<lambda>db. tget db_id (c_databases db) database_id)) (\<lambda>d. case d of
        None \<Rightarrow> raise (HTTP 404)
      | Some d \<Rightarrow> if db_project_id d \<noteq> project_id then raise (HTTP 404) else ret d)"

definition in_organization :: "uid \<Rightarrow> cp_db \<Rightarrow> database \<Rightarrow> bool" where
  "in_organization org db d \<longleftrightarrow>
     list_ex (\<lambda>p. pj_id p = db_project_id d \<and> pj_organization_id p = org) (c_projects db)"

definition get_database_ids_for_organization :: "uid \<Rightarrow> cp_db \<Rightarrow> uid list" where
  "get_database_ids_for_organization org db = map db_id (filter (in_organization org db) (c_databases db))"

section \<open>Quotas\<close>

definition get_active_plan :: "uid \<Rightarrow> plan cpm" where
  "get_active_plan org =
     bindM (query_exn (\<lambda>db. one_or_none (filter (\<lambda>s. sb_organization_id s = org) (c_subscriptions db)))) (\<lambda>s. case s of
        None \<Rightarrow> raise CP_RuntimeError
      | Some s \<Rightarrow>
          bindM (query (\<lambda>db. tget pl_id (c_plans db) (sb_plan_id s))) (\<lambda>p. the_or CP_RuntimeError p))"

definition counted :: "uid \<Rightarrow> cp_db \<Rightarrow> database list" where
  "counted org db =
     filter (\<lambda>d. in_organization org db d \<and> db_status d \<notin> {DB_DELETING, DB_DELETED}) (c_databases db)"

definition quota_allows :: "plan \<Rightarrow> string \<Rightarrow> int \<Rightarrow> bool" where
  "quota_allows plan k v = (case map_of (pl_quotas plan) k of None \<Rightarrow> True | Some m \<Rightarrow> v \<le> m)"

definition check_database_quota :: "uid \<Rightarrow> int \<Rightarrow> int \<Rightarrow> unit cpm" where
  "check_database_quota org additional_storage_gb additional_cpu =
     bindM (get_active_plan org) (\<lambda>plan.
     bindM (query (counted org)) (\<lambda>databases.
     bindM (ensure (quota_allows plan ''max_databases'' (int (length databases) + 1)) QuotaExceeded) (\<lambda>_.
     bindM (ensure (quota_allows plan ''max_storage_gb''
              (sum_list (map db_storage_limit_gb databases) + additional_storage_gb)) QuotaExceeded) (\<lambda>_.
     ensure (quota_allows plan ''max_cpu_total''
              (sum_list (map db_cpu_limit databases) + additional_cpu)) QuotaExceeded))))"

section \<open>Placement\<close>

definition float_of :: "rat \<Rightarrow> rat" where
  "float_of x = round_sig 2 53 x"

definition free_fraction :: "int \<Rightarrow> int \<Rightarrow> cp_exn + rat" where
  "free_fraction capacity allocated =
     (if capacity = 0 then Inl CP_ZeroDivisionError
      else Inr (max 0 (float_of (of_int (capacity - allocated) / of_int capacity))))"

definition score :: "node \<Rightarrow> int \<Rightarrow> int \<Rightarrow> int \<Rightarrow> cp_exn + rat" where
  "score node cpu ram storage =
     rbind (free_fraction (nd_cpu_total node) cpu) (\<lambda>cpu_free.
     rbind (free_fraction (nd_ram_total_mb node) ram) (\<lambda>ram_free.
     rbind (free_fraction (nd_storage_total_gb node) storage) (\<lambda>storage_free.
     Inr (float_of (float_of (cpu_free + ram_free) + storage_free)))))"

text \<open>The join of databases, clusters and cluster members: one row per member on the node.\<close>

definition hosted :: "cp_db \<Rightarrow> uid \<Rightarrow> uid option \<Rightarrow> database list" where
  "hosted db node_id exclude =
     concat (map (\<lambda>d. concat (map (\<lambda>c.
        map (\<lambda>_. d) (filter (\<lambda>m. cm_cluster_id m = cl_id c \<and> cm_node_id m = node_id) (c_members db)))
          (filter (\<lambda>c. db_cluster_id d = Some (cl_id c)) (c_clusters db))))
       (filter (\<lambda>d. db_status d \<noteq> DB_DELETED \<and> exclude \<noteq> Some (db_id d)) (c_databases db)))"

definition allocated_resources :: "cp_db \<Rightarrow> uid \<Rightarrow> uid option \<Rightarrow> int \<times> int \<times> int" where
  "allocated_resources db node_id exclude =
     (case hosted db node_id exclude of rows \<Rightarrow>
        (sum_list (map db_cpu_limit rows), sum_list (map db_ram_limit_mb rows), sum_list (map db_storage_limit_gb rows)))"

definition find_shared_cluster_on_node :: "cp_db \<Rightarrow> uid \<Rightarrow> cluster option" where
  "find_shared_cluster_on_node db node_id =
     find (\<lambda>c. cl_shared c \<and> cl_status c = CL_ACTIVE \<and>
             list_ex (\<lambda>m. cm_cluster_id m = cl_id c \<and> cm_node_id m = node_id) (c_members db)) (c_clusters db)"

definition fits :: "node \<Rightarrow> int \<times> int \<times> int \<Rightarrow> int \<Rightarrow> int \<Rightarrow> int \<Rightarrow> bool" where
  "fits node used cpu_limit ram_limit_mb storage_limit_gb \<longleftrightarrow>
     fst used + cpu_limit \<le> nd_cpu_total node \<and> fst (snd used) + ram_limit_mb \<le> nd_ram_total_mb node \<and>
     snd (snd used) + storage_limit_gb \<le> nd_storage_total_gb node"

definition fits_on_node :: "cp_db \<Rightarrow> node \<Rightarrow> int \<Rightarrow> int \<Rightarrow> int \<Rightarrow> uid option \<Rightarrow> bool" where
  "fits_on_node db node cpu_limit ram_limit_mb storage_limit_gb exclude =
     fits node (allocated_resources db (nd_id node) exclude) cpu_limit ram_limit_mb storage_limit_gb"

fun score_nodes :: "cp_db \<Rightarrow> int \<Rightarrow> int \<Rightarrow> int \<Rightarrow> node list \<Rightarrow> cp_exn + (rat \<times> node) list" where
  "score_nodes db cpu_limit ram_limit_mb storage_limit_gb [] = Inr []"
| "score_nodes db cpu_limit ram_limit_mb storage_limit_gb (node # nodes) =
     (if \<not> fits_on_node db node cpu_limit ram_limit_mb storage_limit_gb None
      then score_nodes db cpu_limit ram_limit_mb storage_limit_gb nodes
      else case allocated_resources db (nd_id node) None of (cpu, ram, storage) \<Rightarrow>
             rbind (score node cpu ram storage) (\<lambda>s.
             rbind (score_nodes db cpu_limit ram_limit_mb storage_limit_gb nodes) (\<lambda>rest.
             Inr ((s, node) # rest))))"

definition active_region :: "string \<Rightarrow> cp_db \<Rightarrow> cp_exn + region option" where
  "active_region code db = one_or_none (filter (\<lambda>r. rg_code r = code \<and> rg_active r) (c_regions db))"

definition eligible_nodes :: "instant \<Rightarrow> cp_db \<Rightarrow> region \<Rightarrow> node list" where
  "eligible_nodes now db r = filter (is_eligible_for_placement now) (filter (\<lambda>n. nd_region_id n = rg_id r) (c_nodes db))"

definition best_node :: "(rat \<times> node) list \<Rightarrow> cp_exn + node" where
  "best_node scored = (case sort_key (\<lambda>t. - fst t) scored of [] \<Rightarrow> Inl NoCapacity | best # _ \<Rightarrow> Inr (snd best))"

definition select_node :: "instant \<Rightarrow> cp_db \<Rightarrow> string \<Rightarrow> int \<Rightarrow> int \<Rightarrow> int \<Rightarrow> cp_exn + node" where
  "select_node now db region_code cpu_limit ram_limit_mb storage_limit_gb =
     rbind (active_region region_code db) (\<lambda>region. case region of
       None \<Rightarrow> Inl CP_ValueError
     | Some r \<Rightarrow>
         if eligible_nodes now db r = [] then Inl NoCapacity
         else rbind (score_nodes db cpu_limit ram_limit_mb storage_limit_gb (eligible_nodes now db r)) best_node)"

definition select_node_and_cluster ::
    "instant \<Rightarrow> cp_db \<Rightarrow> string \<Rightarrow> isolation_level \<Rightarrow> int \<Rightarrow> int \<Rightarrow> int \<Rightarrow> cp_exn + (node \<times> cluster option)" where
  "select_node_and_cluster now db region_code isolation cpu_limit ram_limit_mb storage_limit_gb =
     rbind (select_node now db region_code cpu_limit ram_limit_mb storage_limit_gb) (\<lambda>node.
     Inr (node, if isolation = DEDICATED then None else find_shared_cluster_on_node db (nd_id node)))"

section \<open>The choice of a node\<close>

definition node_score :: "cp_db \<Rightarrow> node \<Rightarrow> cp_exn + rat" where
  "node_score db node = (case allocated_resources db (nd_id node) None of (cpu, ram, storage) \<Rightarrow> score node cpu ram storage)"

definition candidates :: "instant \<Rightarrow> cp_db \<Rightarrow> region \<Rightarrow> int \<Rightarrow> int \<Rightarrow> int \<Rightarrow> node list" where
  "candidates now db r cpu ram storage =
     filter (\<lambda>n. nd_region_id n = rg_id r \<and> is_eligible_for_placement now n \<and> fits_on_node db n cpu ram storage None)
       (c_nodes db)"

lemma score_nodes_Inr:
  "score_nodes db cpu ram storage ns = Inr sc \<Longrightarrow>
     map snd sc = filter (\<lambda>n. fits_on_node db n cpu ram storage None) ns \<and>
     (\<forall>(s, n)\<in>set sc. node_score db n = Inr s)"
  by (induction ns arbitrary: sc)
     (auto simp: rbind_eq_Inr node_score_def split: if_splits prod.splits)

lemma score_total:
  "0 < nd_cpu_total n \<Longrightarrow> 0 < nd_ram_total_mb n \<Longrightarrow> 0 < nd_storage_total_gb n \<Longrightarrow> \<exists>s. score n c r st = Inr s"
  by (simp add: score_def free_fraction_def)

lemma score_nodes_total:
  "\<forall>n\<in>set ns. 0 < nd_cpu_total n \<and> 0 < nd_ram_total_mb n \<and> 0 < nd_storage_total_gb n \<Longrightarrow>
   \<exists>sc. score_nodes db cpu ram storage ns = Inr sc"
proof (induction ns)
  case (Cons n ns)
  obtain c r st where a: "allocated_resources db (nd_id n) None = (c, r, st)" by (metis prod_cases3)
  obtain s sc where "score n c r st = Inr s" "score_nodes db cpu ram storage ns = Inr sc"
    using Cons score_total [of n c r st] by auto
  then show ?case using a by simp
qed simp

lemma candidates_eligible:
  "candidates now db r cpu ram storage = filter (\<lambda>n. fits_on_node db n cpu ram storage None) (eligible_nodes now db r)"
  by (auto simp: candidates_def eligible_nodes_def intro!: filter_cong)

lemma best_node_Inr:
  assumes "best_node sc = Inr node"
  obtains s where "(s, node) \<in> set sc" "\<forall>t\<in>set sc. fst t \<le> s"
proof -
  from assms obtain best rest where so: "sort_key (\<lambda>t. - fst t) sc = best # rest" and "node = snd best"
    by (auto simp: best_node_def split: list.splits)
  then show ?thesis using sort_key_head [OF so] that [of "fst best"] by (cases best) auto
qed

lemma best_node_Inl: "best_node sc = Inl e \<Longrightarrow> sc = [] \<and> e = NoCapacity"
  unfolding best_node_def
  by (cases "sort_key (\<lambda>t. - fst t) sc") (auto dest: arg_cong [where f = length])

lemma select_node_Inr:
  assumes "select_node now db code cpu ram storage = Inr node"
  obtains r where "active_region code db = Inr (Some r)" "node \<in> set (candidates now db r cpu ram storage)"
    "\<exists>s. node_score db node = Inr s \<and>
       (\<forall>n\<in>set (candidates now db r cpu ram storage). \<exists>s'. node_score db n = Inr s' \<and> s' \<le> s)"
proof -
  from assms obtain r sc where r: "active_region code db = Inr (Some r)"
    and sc: "score_nodes db cpu ram storage (eligible_nodes now db r) = Inr sc" and b: "best_node sc = Inr node"
    by (auto simp: select_node_def rbind_eq_Inr split: option.splits if_splits)
  obtain s where s: "(s, node) \<in> set sc" "\<forall>t\<in>set sc. fst t \<le> s" using b by (rule best_node_Inr)
  have cand: "set (candidates now db r cpu ram storage) = snd ` set sc"
    using score_nodes_Inr [OF sc] by (metis candidates_eligible list.set_map)
  have sn: "\<forall>(s, n)\<in>set sc. node_score db n = Inr s" using score_nodes_Inr [OF sc] by blast
  show ?thesis
  proof (rule that [OF r])
    show "node \<in> set (candidates now db r cpu ram storage)" using cand s by force
    show "\<exists>s. node_score db node = Inr s \<and>
       (\<forall>n\<in>set (candidates now db r cpu ram storage). \<exists>s'. node_score db n = Inr s' \<and> s' \<le> s)"
    proof (rule exI [of _ s], intro conjI ballI)
      show "node_score db node = Inr s" using sn s(1) by auto
    next
      fix n assume "n \<in> set (candidates now db r cpu ram storage)"
      then obtain s' where "(s', n) \<in> set sc" using cand by auto
      then show "\<exists>s'. node_score db n = Inr s' \<and> s' \<le> s" using sn s(2) by fastforce
    qed
  qed
qed

lemma select_node_Inl:
  assumes "select_node now db code cpu ram storage = Inl e" and r: "active_region code db = Inr (Some r)"
    and pos: "\<forall>n\<in>set (c_nodes db). 0 < nd_cpu_total n \<and> 0 < nd_ram_total_mb n \<and> 0 < nd_storage_total_gb n"
  shows "e = NoCapacity \<and> candidates now db r cpu ram storage = []"
proof -
  obtain sc where sc: "score_nodes db cpu ram storage (eligible_nodes now db r) = Inr sc"
    using score_nodes_total [of "eligible_nodes now db r" db] pos by (force simp: eligible_nodes_def)
  show ?thesis
  proof (cases "eligible_nodes now db r = []")
    case True
    then show ?thesis using assms(1) r by (simp add: select_node_def candidates_eligible)
  next
    case False
    then have "sc = [] \<and> e = NoCapacity" using assms(1) r sc best_node_Inl by (simp add: select_node_def)
    then show ?thesis using score_nodes_Inr [OF sc] by (simp add: candidates_eligible)
  qed
qed

text \<open>C33: Placement picks, among the nodes of the active region that are healthy and have room for
  the requested CPU, memory and storage beside everything already placed on them, one with the
  highest score; it reports that there is no capacity exactly when there is no such node.\<close>

theorem placement_best:
  assumes "active_region code db = Inr (Some r)"
    and "\<forall>n\<in>set (c_nodes db). 0 < nd_cpu_total n \<and> 0 < nd_ram_total_mb n \<and> 0 < nd_storage_total_gb n"
  shows "case select_node now db code cpu ram storage of
      Inl e \<Rightarrow> e = NoCapacity \<and> candidates now db r cpu ram storage = []
    | Inr node \<Rightarrow> node \<in> set (candidates now db r cpu ram storage) \<and>
        (\<exists>s. node_score db node = Inr s \<and>
          (\<forall>n\<in>set (candidates now db r cpu ram storage). \<exists>s'. node_score db n = Inr s' \<and> s' \<le> s))"
proof (cases "select_node now db code cpu ram storage")
  case (Inl e)
  then show ?thesis using select_node_Inl assms by simp
next
  case (Inr node)
  then obtain r' where "active_region code db = Inr (Some r')" "node \<in> set (candidates now db r' cpu ram storage)"
    "\<exists>s. node_score db node = Inr s \<and>
       (\<forall>n\<in>set (candidates now db r' cpu ram storage). \<exists>s'. node_score db n = Inr s' \<and> s' \<le> s)"
    by (rule select_node_Inr)
  then show ?thesis using Inr assms(1) by simp
qed

definition demo_node :: "uid \<Rightarrow> int \<Rightarrow> instant \<Rightarrow> node" where
  "demo_node i cpus beat = \<lparr>nd_id = i, nd_region_id = 1, nd_hostname = ''n'', nd_ip_address = Some ''10.0.0.1'',
     nd_cpu_total = cpus, nd_ram_total_mb = 8192, nd_storage_total_gb = 100, nd_cpu_used = None,
     nd_ram_used_mb = None, nd_storage_used_gb = None, nd_agent_version = None, nd_agent_port = 9443,
     nd_postgres_port = 5432, nd_status = ND_ACTIVE, nd_node_secret_hash = [], nd_certificate_serial = None,
     nd_last_heartbeat_at = Some beat\<rparr>"

definition demo_database :: "uid \<Rightarrow> database_status \<Rightarrow> uid option \<Rightarrow> database" where
  "demo_database i st cl = \<lparr>db_id = i, db_project_id = 2, db_region_id = 1, db_cluster_id = cl, db_name = ''main'',
     db_physical_name = ''db_x'', db_isolation_level = SHARED, db_status = st, db_cpu_limit = 1,
     db_ram_limit_mb = 1024, db_storage_limit_gb = 10, db_connection_host = Some ''10.0.0.1'',
     db_connection_port = Some 5432, db_backup_policy = None, db_deleted_at = None\<rparr>"

text \<open>Two healthy nodes, a stale one, and a database that already runs on the first.\<close>

definition demo_cp :: cp_db where
  "demo_cp = empty_cp
     \<lparr>c_regions := [\<lparr>rg_id = 1, rg_code = ''eu'', rg_name = ''Europe'', rg_active = True\<rparr>],
      c_projects := [\<lparr>pj_id = 2, pj_organization_id = 3, pj_name = ''p'', pj_slug = ''p''\<rparr>],
      c_nodes := [demo_node 10 4 1000, demo_node 11 4 1000, demo_node 12 64 (- 90000000)],
      c_clusters := [\<lparr>cl_id = 20, cl_region_id = 1, cl_topology = SINGLE, cl_shared = True, cl_status = CL_ACTIVE\<rparr>],
      c_members := [\<lparr>cm_id = 30, cm_cluster_id = 20, cm_node_id = 10, cm_role = PRIMARY,
                      cm_replication_lag_bytes = None, cm_promoted_at = None\<rparr>],
      c_databases := [demo_database 40 DB_RUNNING (Some 20)]\<rparr>"

theorem placement_best_witness:
  "\<exists>node. select_node 2000 demo_cp ''eu'' 4 1024 10 = Inr node \<and> nd_id node = 11 \<and>
     node \<in> set (candidates 2000 demo_cp (c_regions demo_cp ! 0) 4 1024 10)"
proof -
  have r: "active_region ''eu'' demo_cp = Inr (Some (c_regions demo_cp ! 0))"
    by (simp add: active_region_def demo_cp_def empty_cp_def one_or_none_def)
  have pos: "\<forall>n\<in>set (c_nodes demo_cp). 0 < nd_cpu_total n \<and> 0 < nd_ram_total_mb n \<and> 0 < nd_storage_total_gb n"
    by (simp add: demo_cp_def empty_cp_def demo_node_def)
  have "select_node 2000 demo_cp ''eu'' 4 1024 10 = Inr (demo_node 11 4 1000)"
    by code_simp
  then show ?thesis using placement_best [OF r pos, of 2000 4 1024 10] by (simp add: demo_node_def)
qed

end
