(* ===== verification/CP_Billing.thy ===== *)
theory CP_Billing
  imports CP_Placement
begin

text \<open>
  Invoices, \<open>src/backend/app/services/billing.py\<close>: the base fee and the metered usage of one
  billing period, in exact Decimal arithmetic, stored with the precision of the columns.
\<close>

section \<open>The operation\<close>

definition billing_period :: int where
  "billing_period = 30 * 24 * 3600 * 1000000"

fun metric_value :: "usage_metric \<Rightarrow> string" where
  "metric_value CPU_HOURS = ''cpu_hours''"
| "metric_value STORAGE_GB_HOURS = ''storage_gb_hours''"
| "metric_value CONNECTIONS = ''connections''"
| "metric_value EGRESS_GB = ''egress_gb''"

definition usage_metrics :: "usage_metric list" where
  "usage_metrics = [CPU_HOURS, STORAGE_GB_HOURS, CONNECTIONS, EGRESS_GB]"

text \<open>The entry \<open>None\<close> of a price list is JSON's \<open>null\<close>.\<close>

definition base_fee :: "plan \<Rightarrow> cp_exn + rat" where
  "base_fee plan = (case map_of (pl_pricing plan) ''base_fee'' of
     None \<Rightarrow> Inr 0
   | Some None \<Rightarrow> Inl (CP_DecimalError InvalidOperation)
   | Some (Some x) \<Rightarrow> Inr x)"

definition rate_of :: "plan \<Rightarrow> usage_metric \<Rightarrow> rat option" where
  "rate_of plan m = (case map_of (pl_pricing plan) (metric_value m) of None \<Rightarrow> None | Some r \<Rightarrow> r)"

definition usage_quantity :: "cp_db \<Rightarrow> uid list \<Rightarrow> subscription \<Rightarrow> usage_metric \<Rightarrow> rat" where
  "usage_quantity db database_ids s m =
     sum_list (map ur_value (filter (\<lambda>u. List.member database_ids (ur_database_id u) \<and> ur_metric u = m \<and>
       sb_current_period_start s \<le> ur_period_start u \<and> ur_period_start u < sb_current_period_end s) (c_usage db)))"

definition base_items :: "rat \<Rightarrow> invoice_line_item list" where
  "base_items fee = (if 0 < fee
     then [\<lparr>il_invoice_id = 0, il_description = ''Base subscription fee'', il_metric = ''base_fee'',
            il_quantity = 1, il_unit_price = fee, il_amount = fee\<rparr>] else [])"

fun usage_items :: "plan \<Rightarrow> (usage_metric \<Rightarrow> rat) \<Rightarrow> usage_metric list \<Rightarrow> cp_exn + invoice_line_item list" where
  "usage_items plan quantity [] = Inr []"
| "usage_items plan quantity (m # ms) =
     (case rate_of plan m of
        None \<Rightarrow> usage_items plan quantity ms
      | Some rate \<Rightarrow>
          if quantity m = 0 then usage_items plan quantity ms
          else (case quantize_cents (dmul (quantity m) rate) of
                  Inl e \<Rightarrow> Inl (CP_DecimalError e)
                | Inr amount \<Rightarrow>
                    rbind (usage_items plan quantity ms) (\<lambda>items.
                    Inr (\<lparr>il_invoice_id = 0, il_description = metric_value m @ '' usage'', il_metric = metric_value m,
                          il_quantity = quantity m, il_unit_price = rate, il_amount = amount\<rparr> # items))))"

definition invoice_items :: "plan \<Rightarrow> subscription \<Rightarrow> cp_db \<Rightarrow> cp_exn + invoice_line_item list" where
  "invoice_items plan s db =
     rbind (base_fee plan) (\<lambda>fee.
     case get_database_ids_for_organization (sb_organization_id s) db of
       [] \<Rightarrow> Inr (base_items fee)
     | ids \<Rightarrow> rbind (usage_items plan (usage_quantity db ids s) usage_metrics) (\<lambda>items. Inr (base_items fee @ items)))"

text \<open>What the columns make of a row: \<open>Numeric(18, 2)\<close> and \<open>Numeric(18, 6)\<close>.\<close>

definition stored_item :: "uid \<Rightarrow> invoice_line_item \<Rightarrow> invoice_line_item" where
  "stored_item invoice_id i = i\<lparr>il_invoice_id := invoice_id, il_quantity := pg_round 6 (il_quantity i),
     il_unit_price := pg_round 6 (il_unit_price i), il_amount := pg_round 2 (il_amount i)\<rparr>"

definition item_fits :: "invoice_line_item \<Rightarrow> bool" where
  "item_fits i \<longleftrightarrow> pg_fits 18 6 (il_quantity i) \<and> pg_fits 18 6 (il_unit_price i) \<and> pg_fits 18 2 (il_amount i)"

definition put_subscription :: "subscription \<Rightarrow> unit cpm" where
  "put_subscription s = modify (\<lambda>db. db\<lparr>c_subscriptions := tset sb_id s (c_subscriptions db)\<rparr>)"

definition draft_invoice :: "cp_env \<Rightarrow> subscription \<Rightarrow> uid \<Rightarrow> rat \<Rightarrow> invoice" where
  "draft_invoice env s i total_amount =
     \<lparr>iv_id = i, iv_organization_id = sb_organization_id s, iv_subscription_id = sb_id s,
      iv_period_start = sb_current_period_start s, iv_period_end = sb_current_period_end s,
      iv_status = IV_FINALIZED, iv_total_amount = pg_round 2 total_amount,
      iv_currency = ''USD'', iv_finalized_at = Some (e_now env), iv_paid_at = None, iv_payment_reference = None\<rparr>"

definition next_period :: "subscription \<Rightarrow> subscription" where
  "next_period s = s\<lparr>sb_current_period_start := sb_current_period_end s,
     sb_current_period_end := sb_current_period_end s + billing_period\<rparr>"

text \<open>From the line items on.\<close>

definition issue_invoice :: "cp_env \<Rightarrow> subscription \<Rightarrow> invoice_line_item list \<Rightarrow> invoice cpm" where
  "issue_invoice env s items =
     bindM uuid4 (\<lambda>i.
     bindM (ensure (pg_fits 18 2 (foldl dadd 0 (map il_amount items))) CP_DataError) (\<lambda>_.
     bindM (modify (\<lambda>db. db\<lparr>c_invoices := c_invoices db @ [draft_invoice env s i (foldl dadd 0 (map il_amount items))]\<rparr>)) (\<lambda>_.
     bindM (ensure (list_all item_fits items) CP_DataError) (\<lambda>_.
     bindM (modify (\<lambda>db. db\<lparr>c_line_items := c_line_items db @ map (stored_item i) items\<rparr>)) (\<lambda>_.
     bindM (put_subscription (next_period s)) (\<lambda>_.
     ret (draft_invoice env s i (foldl dadd 0 (map il_amount items)))))))))"

definition compute_invoice_for_subscription :: "cp_env \<Rightarrow> subscription \<Rightarrow> invoice cpm" where
  "compute_invoice_for_subscription env s =
     bindM (query (\<lambda>db. tget pl_id (c_plans db) (sb_plan_id s))) (\<lambda>p.
     bindM (the_or CP_AttributeError p) (\<lambda>plan.
     bindM (query_exn (invoice_items plan s)) (\<lambda>items.
     issue_invoice env s items)))"

section \<open>What an invoice adds up to\<close>

lemma foldl_dadd_cents:
  assumes "\<forall>x\<in>set xs. is_cents x \<and> 0 \<le> x" and "is_cents a" and "0 \<le> a" and "a + sum_list xs < 10 ^ 26"
  shows "foldl dadd a xs = a + sum_list xs"
  using assms
proof (induction xs arbitrary: a)
  case (Cons x xs)
  have s: "0 \<le> sum_list xs" using Cons.prems(1) by (intro sum_list_nonneg) auto
  then have "dadd a x = a + x" using Cons.prems by (intro dadd_cents) auto
  moreover have "is_cents (a + x)" "0 \<le> a + x" using Cons.prems by auto
  ultimately show ?case using Cons.IH [of "a + x"] Cons.prems by (simp add: add.assoc)
qed simp

definition fair_prices :: "plan \<Rightarrow> bool" where
  "fair_prices plan \<longleftrightarrow> (\<forall>fee. base_fee plan = Inr fee \<longrightarrow> is_cents fee \<and> 0 \<le> fee) \<and>
     (\<forall>m r. rate_of plan m = Some r \<longrightarrow> 0 \<le> r)"

lemma dmul_nonneg: "0 \<le> x \<Longrightarrow> 0 \<le> y \<Longrightarrow> 0 \<le> dmul x y"
proof -
  assume "0 \<le> x" "0 \<le> y"
  then have z: "0 \<le> x * y" by simp
  have "x * y / 10 ^ 27 \<le> x * y" using z by (simp add: divide_le_eq)
  then show ?thesis using dec_error [of "x * y"] z unfolding dmul_def by linarith
qed

lemma usage_items_fair:
  assumes "usage_items plan q ms = Inr items" and "\<forall>m r. rate_of plan m = Some r \<longrightarrow> 0 \<le> r" and "\<forall>m. 0 \<le> q m"
  shows "\<forall>i\<in>set items. is_cents (il_amount i) \<and> 0 \<le> il_amount i \<and> \<bar>il_amount i - dmul (il_quantity i) (il_unit_price i)\<bar> \<le> 1 / 200"
  using assms
proof (induction plan q ms arbitrary: items rule: usage_items.induct)
  case (2 plan q m ms)
  show ?case
  proof (cases "rate_of plan m = None \<or> q m = 0")
    case True
    then show ?thesis using 2 by (auto split: option.splits)
  next
    case False
    then obtain rate where r: "rate_of plan m = Some rate" "q m \<noteq> 0" by auto
    with "2.prems"(1) obtain amount items' where a: "quantize_cents (dmul (q m) rate) = Inr amount"
      and i: "usage_items plan q ms = Inr items'"
      and items: "items = \<lparr>il_invoice_id = 0, il_description = metric_value m @ '' usage'', il_metric = metric_value m,
                          il_quantity = q m, il_unit_price = rate, il_amount = amount\<rparr> # items'"
      by (auto simp: rbind_eq_Inr split: sum.splits)
    have "0 \<le> dmul (q m) rate" using r "2.prems" by (auto intro: dmul_nonneg)
    then show ?thesis
      using "2.IH"(3) [OF r a i] "2.prems"(2,3) quantize_cents_Inr [OF a] by (simp add: items)
  qed
qed simp
lemma invoice_items_fair:
  assumes i: "invoice_items plan s db = Inr items" and fair: "fair_prices plan"
    and u: "\<forall>r\<in>set (c_usage db). 0 \<le> ur_value r"
  shows "\<forall>i\<in>set items. is_cents (il_amount i) \<and> 0 \<le> il_amount i"
    and "\<forall>i\<in>set items. il_metric i \<noteq> ''base_fee'' \<longrightarrow> \<bar>il_amount i - dmul (il_quantity i) (il_unit_price i)\<bar> \<le> 1 / 200"
proof -
  from i obtain fee items' where fee: "base_fee plan = Inr fee" and items: "items = base_items fee @ items'"
    and u': "items' = [] \<or> usage_items plan (usage_quantity db (get_database_ids_for_organization (sb_organization_id s) db) s) usage_metrics = Inr items'"
    by (cases "get_database_ids_for_organization (sb_organization_id s) db")
       (auto simp: invoice_items_def rbind_eq_Inr)
  have q: "\<forall>m. 0 \<le> usage_quantity db ids s m" for ids
    unfolding usage_quantity_def using u by (auto intro!: sum_list_nonneg)
  have it: "\<forall>i\<in>set items'. is_cents (il_amount i) \<and> 0 \<le> il_amount i \<and> \<bar>il_amount i - dmul (il_quantity i) (il_unit_price i)\<bar> \<le> 1 / 200"
    using u' usage_items_fair [OF _ _ q] fair by (auto simp: fair_prices_def)
  have fc: "is_cents fee" "0 \<le> fee" using fair fee by (auto simp: fair_prices_def)
  show "\<forall>i\<in>set items. is_cents (il_amount i) \<and> 0 \<le> il_amount i"
    using it fc by (auto simp: items base_items_def)
  show "\<forall>i\<in>set items. il_metric i \<noteq> ''base_fee'' \<longrightarrow> \<bar>il_amount i - dmul (il_quantity i) (il_unit_price i)\<bar> \<le> 1 / 200"
    using it by (auto simp: items base_items_def)
qed

lemma issue_invoice_Inr:
  assumes "issue_invoice env s items w = (Inr v, w')"
  shows "pg_fits 18 2 (foldl dadd 0 (map il_amount items)) \<and> list_all item_fits items \<and>
    v = draft_invoice env s (w_next w) (foldl dadd 0 (map il_amount items)) \<and>
    w' = w\<lparr>w_next := Suc (w_next w), w_db := (w_db w)\<lparr>c_invoices := c_invoices (w_db w) @ [v],
         c_line_items := c_line_items (w_db w) @ map (stored_item (w_next w)) items,
         c_subscriptions := tset sb_id (next_period s) (c_subscriptions (w_db w))\<rparr>\<rparr>"
  using assms unfolding issue_invoice_def
  by (elim bind_cases) (simp_all add: effect_simps put_subscription_def split: if_splits)

lemma compute_invoice_Inr:
  assumes "compute_invoice_for_subscription env s w = (Inr v, w')"
  obtains plan items where "tget pl_id (c_plans (w_db w)) (sb_plan_id s) = Some plan"
    "invoice_items plan s (w_db w) = Inr items" "issue_invoice env s items w = (Inr v, w')"
  using assms unfolding compute_invoice_for_subscription_def
  by (elim bind_cases) (auto simp: effect_simps split: option.splits)

lemma stored_amounts:
  "\<forall>i\<in>set items. is_cents (il_amount i) \<Longrightarrow> map il_amount (map (stored_item k) items) = map il_amount items"
  by (induction items) (auto simp: stored_item_def pg_round_cents)

text \<open>C17: An invoice is the sum of its parts: under a plan with non-negative prices, the base fee in
  whole cents, the stored total is exactly the sum of the stored line amounts, every usage line is
  within half a cent of its (28-digit) product of quantity and rate, the invoice covers exactly the
  subscription's period, and the next period begins where this one ends.\<close>

theorem invoice_adds_up:
  assumes run: "compute_invoice_for_subscription env s w = (Inr v, w')"
    and fair: "\<forall>p\<in>set (c_plans (w_db w)). fair_prices p" and usage: "\<forall>r\<in>set (c_usage (w_db w)). 0 \<le> ur_value r"
    and size: "sum_list (map il_amount (drop (length (c_line_items (w_db w))) (c_line_items (w_db w')))) < 10 ^ 26"
  shows "\<exists>items. c_line_items (w_db w') = c_line_items (w_db w) @ map (stored_item (iv_id v)) items \<and>
     c_invoices (w_db w') = c_invoices (w_db w) @ [v] \<and>
     iv_total_amount v = sum_list (map il_amount (map (stored_item (iv_id v)) items)) \<and>
     (\<forall>i\<in>set items. il_metric i \<noteq> ''base_fee'' \<longrightarrow> \<bar>il_amount i - dmul (il_quantity i) (il_unit_price i)\<bar> \<le> 1 / 200) \<and>
     iv_period_start v = sb_current_period_start s \<and> iv_period_end v = sb_current_period_end s \<and>
     c_subscriptions (w_db w') = tset sb_id (s\<lparr>sb_current_period_start := iv_period_end v,
        sb_current_period_end := iv_period_end v + billing_period\<rparr>) (c_subscriptions (w_db w))"
proof -
  obtain plan items where p: "tget pl_id (c_plans (w_db w)) (sb_plan_id s) = Some plan"
    and i: "invoice_items plan s (w_db w) = Inr items" and d: "issue_invoice env s items w = (Inr v, w')"
    using run by (rule compute_invoice_Inr)
  note out = issue_invoice_Inr [OF d]
  have f: "fair_prices plan" using fair tget_in [OF p] by blast
  note items = invoice_items_fair [OF i f usage]
  have same: "map il_amount (map (stored_item (w_next w)) items) = map il_amount items"
    using items(1) by (intro stored_amounts) auto
  have "drop (length (c_line_items (w_db w))) (c_line_items (w_db w')) = map (stored_item (w_next w)) items"
    using out by auto
  then have b: "sum_list (map il_amount items) < 10 ^ 26" using size same by metis
  have c: "is_cents (sum_list (map il_amount items))" using items by (intro is_cents_sum_list) auto
  have "foldl dadd 0 (map il_amount items) = sum_list (map il_amount items)"
    using foldl_dadd_cents [of "map il_amount items" 0] items b by auto
  then have t: "iv_total_amount v = sum_list (map il_amount (map (stored_item (w_next w)) items))"
    using c out unfolding same by (simp add: draft_invoice_def pg_round_cents)
  show ?thesis
    using out t items(2) by (intro exI [of _ items]) (auto simp: draft_invoice_def next_period_def)
qed
definition demo_plan :: plan where
  "demo_plan = \<lparr>pl_id = 5, pl_name = ''pro'', pl_quotas = [], 
     pl_pricing = [(''base_fee'', Some (4999 / 100)), (''cpu_hours'', Some (1 / 8)), (''connections'', None)], pl_is_active = True\<rparr>"

definition demo_subscription :: "subscription_status \<Rightarrow> subscription" where
  "demo_subscription st = \<lparr>sb_id = 6, sb_organization_id = 3, sb_plan_id = 5, sb_status = st,
     sb_current_period_start = 0, sb_current_period_end = 1000\<rparr>"

text \<open>An organization with three CPU hours in its period and one before it.\<close>

definition demo_billing :: cp_db where
  "demo_billing = demo_cp\<lparr>c_plans := [demo_plan], c_subscriptions := [demo_subscription SB_ACTIVE],
     c_usage := map (\<lambda>(v, t). \<lparr>ur_database_id = 40, ur_metric = CPU_HOURS, ur_value = v, ur_period_start = t,
                                ur_period_end = t + 60\<rparr>) [(7, - 5), (1, 0), (2, 999), (9, 1000)]\<rparr>"

definition demo_items :: "invoice_line_item list" where
  "demo_items =
     [\<lparr>il_invoice_id = 0, il_description = ''Base subscription fee'', il_metric = ''base_fee'',
       il_quantity = 1, il_unit_price = 4999 / 100, il_amount = 4999 / 100\<rparr>,
      \<lparr>il_invoice_id = 0, il_description = ''cpu_hours usage'', il_metric = ''cpu_hours'',
       il_quantity = 3, il_unit_price = 1 / 8, il_amount = 38 / 100\<rparr>]"

definition demo_invoice :: "(cp_exn + invoice) \<times> cp_world" where
  "demo_invoice = issue_invoice (calm_env 2000) (demo_subscription SB_ACTIVE) demo_items (world_of demo_billing 100)"

lemma demo_invoice_run:
  "compute_invoice_for_subscription (calm_env 2000) (demo_subscription SB_ACTIVE) (world_of demo_billing 100) = demo_invoice"
proof -
  have "invoice_items demo_plan (demo_subscription SB_ACTIVE) demo_billing = Inr demo_items" by code_simp
  moreover have "tget pl_id (c_plans demo_billing) (sb_plan_id (demo_subscription SB_ACTIVE)) = Some demo_plan" by code_simp
  ultimately show ?thesis
    by (simp add: compute_invoice_for_subscription_def demo_invoice_def query_def the_or_def query_exn_def world_of_def)
qed

lemma demo_invoice_result:
  "fst demo_invoice = Inr (draft_invoice (calm_env 2000) (demo_subscription SB_ACTIVE) 100 (5037 / 100))"
  "c_line_items (w_db (snd demo_invoice)) = map (stored_item 100) demo_items"
proof -
  have amount: "foldl dadd 0 (map il_amount demo_items) = 5037 / 100" by code_simp
  have "pg_fits 18 2 (5037 / 100)" "list_all item_fits demo_items" by code_simp+
  moreover have "c_line_items demo_billing = []" by (simp add: demo_billing_def demo_cp_def empty_cp_def)
  ultimately show "fst demo_invoice = Inr (draft_invoice (calm_env 2000) (demo_subscription SB_ACTIVE) 100 (5037 / 100))"
    "c_line_items (w_db (snd demo_invoice)) = map (stored_item 100) demo_items"
    unfolding demo_invoice_def issue_invoice_def amount
    by (simp_all add: uuid4_def ensure_def modify_def put_subscription_def ret_def world_of_def)
qed

theorem invoice_adds_up_witness:
  "(case fst demo_invoice of Inl _ \<Rightarrow> False | Inr v \<Rightarrow> iv_total_amount v = 5037 / 100 \<and>
     iv_total_amount v = sum_list (map il_amount (c_line_items (w_db (snd demo_invoice)))))"
proof -
  define v where "v = draft_invoice (calm_env 2000) (demo_subscription SB_ACTIVE) 100 (5037 / 100)"
  have v: "fst demo_invoice = Inr v" unfolding v_def by (rule demo_invoice_result)
  then have run: "compute_invoice_for_subscription (calm_env 2000) (demo_subscription SB_ACTIVE) (world_of demo_billing 100)
      = (Inr v, snd demo_invoice)"
    unfolding demo_invoice_run by (metis prod.collapse)
  have "sum_list (map il_amount (map (stored_item 100) demo_items)) < 10 ^ 26" "iv_total_amount v = 5037 / 100"
    unfolding v_def by code_simp+
  then have size: "sum_list (map il_amount (drop 0 (c_line_items (w_db (snd demo_invoice))))) < 10 ^ 26"
    and t: "iv_total_amount v = 5037 / 100"
    unfolding demo_invoice_result drop_0 .
  have usage: "list_all (\<lambda>r. 0 \<le> ur_value r) (c_usage demo_billing)" by code_simp
  have fair: "fair_prices demo_plan"
    by (auto simp: demo_plan_def fair_prices_def base_fee_def rate_of_def is_cents_iff split: if_splits)
  have w: "w_db (world_of demo_billing 100) = demo_billing" "c_line_items demo_billing = []" "c_plans demo_billing = [demo_plan]"
    by (simp_all add: world_of_def demo_billing_def demo_cp_def empty_cp_def)
  from invoice_adds_up [OF run, unfolded w list.size append_Nil] fair size usage t v show ?thesis
    by (auto simp: list_all_iff)
qed
end
