(* ===== verification/CP_OrgApi.thy ===== *)
theory CP_OrgApi
  imports CP_Auth CP_Billing
begin

text \<open>
  Endpoints for organizations and what belongs to them: \<open>api/v1/endpoints/organizations.py\<close>,
  \<open>projects.py\<close>, \<open>webhooks.py\<close> and \<open>regions.py\<close>.  Every endpoint authenticates first,
  then validates its body, then runs; a request that raises leaves only what it committed.
\<close>

section \<open>Shared checks\<close>

definition slug_char :: "char \<Rightarrow> bool" where
  "slug_char c = (case of_char c :: nat of n \<Rightarrow> 97 \<le> n \<and> n \<le> 122 \<or> 48 \<le> n \<and> n \<le> 57 \<or> n = 45)"

text \<open>The pattern \<open>[a-z][a-z0-9-]{1,m}\<close>.\<close>

definition slug_ok :: "nat \<Rightarrow> string \<Rightarrow> bool" where
  "slug_ok m s = (case s of [] \<Rightarrow> False
     | c # cs \<Rightarrow> (case of_char c :: nat of n \<Rightarrow> 97 \<le> n \<and> n \<le> 122) \<and> 1 \<le> length cs \<and> length cs \<le> m \<and> list_all slug_char cs)"

definition named_ok :: "string \<Rightarrow> string \<Rightarrow> bool" where
  "named_ok name slug \<longleftrightarrow> 2 \<le> length name \<and> length name \<le> 200 \<and> slug_ok 199 slug"

fun role_value :: "membership_role \<Rightarrow> string" where
  "role_value OWNER = ''owner''"
| "role_value ADMIN = ''admin''"
| "role_value DEVELOPER = ''developer''"
| "role_value BILLING = ''billing''"
| "role_value READONLY = ''readonly''"

abbreviation audit_ok ::
    "string \<Rightarrow> string \<Rightarrow> uid option \<Rightarrow> uid option \<Rightarrow> uid option \<Rightarrow> jdata option \<Rightarrow> jdata option \<Rightarrow> unit cpm" where
  "audit_ok action resource_type resource_id org user before after \<equiv>
     record_audit action resource_type resource_id org user before after None ''success''"

section \<open>Organizations\<close>

definition default_plan_name :: string where "default_plan_name = ''free''"

definition add_membership :: "uid \<Rightarrow> uid \<Rightarrow> membership_role \<Rightarrow> membership cpm" where
  "add_membership user_id organization_id role =
     bindM uuid4 (\<lambda>i.
     case \<lparr>mb_id = i, mb_user_id = user_id, mb_organization_id = organization_id, mb_role = role\<rparr> of m \<Rightarrow>
     bindM (modify (\<lambda>db. db\<lparr>c_memberships := c_memberships db @ [m]\<rparr>)) (\<lambda>_. ret m))"

text \<open>The organization, its owner and its subscription to the free plan.\<close>

definition found_organization :: "cp_env \<Rightarrow> user \<Rightarrow> string \<Rightarrow> string \<Rightarrow> organization cpm" where
  "found_organization env user name slug =
     bindM uuid4 (\<lambda>i.
     case \<lparr>og_id = i, og_name = name, og_slug = slug\<rparr> of org \<Rightarrow>
     bindM (modify (\<lambda>db. db\<lparr>c_organizations := c_organizations db @ [org]\<rparr>)) (\<lambda>_.
     bindM (add_membership (us_id user) i OWNER) (\<lambda>_.
     bindM (query_exn (\<lambda>db. one_or_none (filter (\<lambda>p. pl_name p = default_plan_name) (c_plans db)))) (\<lambda>found.
     bindM (the_or (HTTP 500) found) (\<lambda>default_plan.
     bindM uuid4 (\<lambda>s.
     bindM (modify (\<lambda>db. db\<lparr>c_subscriptions := c_subscriptions db @
        [\<lparr>sb_id = s, sb_organization_id = i, sb_plan_id = pl_id default_plan, sb_status = SB_ACTIVE,
          sb_current_period_start = e_now env, sb_current_period_end = e_now env + billing_period\<rparr>]\<rparr>)) (\<lambda>_.
     ret org)))))))"

definition create_organization :: "cp_env \<Rightarrow> crypto \<Rightarrow> string option \<Rightarrow> string \<Rightarrow> string \<Rightarrow> organization cpm" where
  "create_organization env k credentials name slug = http_request (
     bindM (get_current_user env k credentials) (\<lambda>user.
     bindM (ensure (named_ok name slug) (HTTP 422)) (\<lambda>_.
     bindM (query_exn (\<lambda>db. one_or_none (filter (\<lambda>g. og_slug g = slug) (c_organizations db)))) (\<lambda>existing.
     bindM (ensure (existing = None) (HTTP 409)) (\<lambda>_.
     bindM (found_organization env user name slug) (\<lambda>org.
     bindM (audit_ok ''ORGANIZATION_CREATED'' ''organization'' (Some (og_id org)) (Some (og_id org)) (Some (us_id user)) None
              (Some [(''name'', name), (''slug'', slug)])) (\<lambda>_.
     bindM commit (\<lambda>_.
     ret org))))))))"

definition list_my_organizations :: "cp_env \<Rightarrow> crypto \<Rightarrow> string option \<Rightarrow> (organization \<times> membership_role) list cpm" where
  "list_my_organizations env k credentials = http_request (
     bindM (get_current_user env k credentials) (\<lambda>user.
     query (\<lambda>db. concat (map (\<lambda>g. map (\<lambda>m. (g, mb_role m))
       (filter (\<lambda>m. mb_organization_id m = og_id g \<and> mb_user_id m = us_id user) (c_memberships db))) (c_organizations db)))))"

definition get_organization :: "cp_env \<Rightarrow> crypto \<Rightarrow> string option \<Rightarrow> uid \<Rightarrow> (organization \<times> membership_role) cpm" where
  "get_organization env k credentials organization_id = http_request (
     bindM (get_membership env k credentials organization_id) (\<lambda>(user, membership).
     bindM (query (\<lambda>db. tget og_id (c_organizations db) organization_id)) (\<lambda>found.
     bindM (the_or (HTTP 404) found) (\<lambda>org.
     ret (org, mb_role membership)))))"

definition list_members :: "cp_env \<Rightarrow> crypto \<Rightarrow> string option \<Rightarrow> uid \<Rightarrow> membership list cpm" where
  "list_members env k credentials organization_id = http_request (
     bindM (get_membership env k credentials organization_id) (\<lambda>(user, membership).
     bindM (require_role (mb_role membership) ''org:read'') (\<lambda>_.
     query (\<lambda>db. filter (\<lambda>m. mb_organization_id m = organization_id) (c_memberships db)))))"

definition add_member ::
    "cp_env \<Rightarrow> crypto \<Rightarrow> string option \<Rightarrow> uid \<Rightarrow> string \<Rightarrow> membership_role \<Rightarrow> string option \<Rightarrow> membership cpm" where
  "add_member env k credentials organization_id email role client = http_request (
     bindM (get_membership env k credentials organization_id) (\<lambda>(user, membership).
     bindM (require_role (mb_role membership) ''org:manage_members'') (\<lambda>_.
     bindM (user_by_email email) (\<lambda>found.
     bindM (the_or (HTTP 404) found) (\<lambda>target_user.
     bindM (query_exn (\<lambda>db. one_or_none (filter (\<lambda>m. mb_organization_id m = organization_id \<and> mb_user_id m = us_id target_user)
              (c_memberships db)))) (\<lambda>existing.
     bindM (ensure (existing = None) (HTTP 409)) (\<lambda>_.
     bindM (add_membership (us_id target_user) organization_id role) (\<lambda>m.
     bindM (record_audit ''MEMBER_ADDED'' ''membership'' None (Some organization_id) (Some (us_id user)) None
              (Some [(''target_user_id'', nat_string (us_id target_user)), (''role'', role_value role)]) client ''success'') (\<lambda>_.
     bindM commit (\<lambda>_.
     ret m))))))))))"

definition owners :: "uid \<Rightarrow> cp_db \<Rightarrow> membership list" where
  "owners organization_id db = filter (\<lambda>m. mb_organization_id m = organization_id \<and> mb_role m = OWNER) (c_memberships db)"

text \<open>From the last-owner check on.\<close>

definition expel_member :: "uid \<Rightarrow> user \<Rightarrow> membership \<Rightarrow> string option \<Rightarrow> unit cpm" where
  "expel_member organization_id user target client =
     bindM (query (owners organization_id)) (\<lambda>owners_count.
     bindM (ensure (mb_role target = OWNER \<longrightarrow> 1 < length owners_count) (HTTP 400)) (\<lambda>_.
     bindM (modify (\<lambda>db. db\<lparr>c_memberships := tdel mb_id (mb_id target) (c_memberships db)\<rparr>)) (\<lambda>_.
     bindM (record_audit ''MEMBER_REMOVED'' ''membership'' None (Some organization_id) (Some (us_id user))
              (Some [(''target_user_id'', nat_string (mb_user_id target)), (''role'', role_value (mb_role target))]) None client ''success'') (\<lambda>_.
     commit))))"

definition remove_member :: "cp_env \<Rightarrow> crypto \<Rightarrow> string option \<Rightarrow> uid \<Rightarrow> uid \<Rightarrow> string option \<Rightarrow> unit cpm" where
  "remove_member env k credentials organization_id target_user_id client = http_request (
     bindM (get_membership env k credentials organization_id) (\<lambda>(user, membership).
     bindM (require_role (mb_role membership) ''org:manage_members'') (\<lambda>_.
     bindM (query_exn (\<lambda>db. one_or_none (filter (\<lambda>m. mb_organization_id m = organization_id \<and> mb_user_id m = target_user_id)
              (c_memberships db)))) (\<lambda>found.
     bindM (the_or (HTTP 404) found) (\<lambda>target.
     expel_member organization_id user target client)))))"

section \<open>Projects\<close>

definition create_project :: "cp_env \<Rightarrow> crypto \<Rightarrow> string option \<Rightarrow> uid \<Rightarrow> string \<Rightarrow> string \<Rightarrow> project cpm" where
  "create_project env k credentials organization_id name slug = http_request (
     bindM (get_membership env k credentials organization_id) (\<lambda>(user, membership).
     bindM (ensure (named_ok name slug) (HTTP 422)) (\<lambda>_.
     bindM (require_role (mb_role membership) ''project:create'') (\<lambda>_.
     bindM (query_exn (\<lambda>db. one_or_none (filter (\<lambda>p. pj_organization_id p = organization_id \<and> pj_slug p = slug) (c_projects db)))) (\<lambda>existing.
     bindM (ensure (existing = None) (HTTP 409)) (\<lambda>_.
     bindM uuid4 (\<lambda>i.
     case \<lparr>pj_id = i, pj_organization_id = organization_id, pj_name = name, pj_slug = slug\<rparr> of project \<Rightarrow>
     bindM (modify (\<lambda>db. db\<lparr>c_projects := c_projects db @ [project]\<rparr>)) (\<lambda>_.
     bindM (audit_ok ''PROJECT_CREATED'' ''project'' (Some i) (Some organization_id) (Some (us_id user)) None
              (Some [(''name'', name), (''slug'', slug)])) (\<lambda>_.
     bindM commit (\<lambda>_.
     ret project))))))))))"

definition list_projects :: "cp_env \<Rightarrow> crypto \<Rightarrow> string option \<Rightarrow> uid \<Rightarrow> project list cpm" where
  "list_projects env k credentials organization_id = http_request (
     bindM (get_membership env k credentials organization_id) (\<lambda>(user, membership).
     bindM (require_role (mb_role membership) ''project:read'') (\<lambda>_.
     query (\<lambda>db. filter (\<lambda>p. pj_organization_id p = organization_id) (c_projects db)))))"

definition owned_project :: "uid \<Rightarrow> uid \<Rightarrow> project cpm" where
  "owned_project organization_id project_id =
     bindM (query (\<lambda>db. tget pj_id (c_projects db) project_id)) (\<lambda>found.
     bindM (the_or (HTTP 404) found) (\<lambda>project.
     bindM (ensure (pj_organization_id project = organization_id) (HTTP 404)) (\<lambda>_.
     ret project)))"

definition get_project :: "cp_env \<Rightarrow> crypto \<Rightarrow> string option \<Rightarrow> uid \<Rightarrow> uid \<Rightarrow> project cpm" where
  "get_project env k credentials organization_id project_id = http_request (
     bindM (get_membership env k credentials organization_id) (\<lambda>(user, membership).
     bindM (require_role (mb_role membership) ''project:read'') (\<lambda>_.
     owned_project organization_id project_id)))"

definition delete_project :: "cp_env \<Rightarrow> crypto \<Rightarrow> string option \<Rightarrow> uid \<Rightarrow> uid \<Rightarrow> unit cpm" where
  "delete_project env k credentials organization_id project_id = http_request (
     bindM (get_membership env k credentials organization_id) (\<lambda>(user, membership).
     bindM (require_role (mb_role membership) ''project:delete'') (\<lambda>_.
     bindM (owned_project organization_id project_id) (\<lambda>project.
     bindM (query (\<lambda>db. filter (\<lambda>d. db_project_id d = project_id) (c_databases db))) (\<lambda>remaining.
     bindM (ensure (remaining = []) (HTTP 409)) (\<lambda>_.
     bindM (modify (\<lambda>db. db\<lparr>c_projects := tdel pj_id (pj_id project) (c_projects db)\<rparr>)) (\<lambda>_.
     bindM (audit_ok ''PROJECT_DELETED'' ''project'' (Some (pj_id project)) (Some organization_id) (Some (us_id user))
              (Some [(''name'', pj_name project), (''slug'', pj_slug project)]) None) (\<lambda>_.
     commit))))))))"
section \<open>Webhooks\<close>

definition supported_event_types :: "string list" where
  "supported_event_types = [''database.created'', ''database.failed'', ''backup.completed'', ''backup.failed'',
     ''restore.completed'', ''invoice.paid'']"

definition webhook_ok :: "string \<Rightarrow> string list \<Rightarrow> bool" where
  "webhook_ok url event_types \<longleftrightarrow> 8 \<le> length url \<and> length url \<le> 2048 \<and> take 8 url = ''https://'' \<and>
     event_types \<noteq> [] \<and> list_all (List.member supported_event_types) event_types"

definition joined :: "string list \<Rightarrow> string" where
  "joined xs = concat (map (\<lambda>x. x @ '','') xs)"

definition create_webhook :: "cp_env \<Rightarrow> crypto \<Rightarrow> string option \<Rightarrow> uid \<Rightarrow> string \<Rightarrow> string list \<Rightarrow> (uid \<times> string) cpm" where
  "create_webhook env k credentials organization_id url event_types = http_request (
     bindM (get_membership env k credentials organization_id) (\<lambda>(user, membership).
     bindM (ensure (webhook_ok url event_types) (HTTP 422)) (\<lambda>_.
     bindM (require_role (mb_role membership) ''webhooks:manage'') (\<lambda>_.
     bindM uuid4 (\<lambda>i.
     bindM (modify (\<lambda>db. db\<lparr>c_webhooks := c_webhooks db @
        [\<lparr>wh_id = i, wh_organization_id = organization_id, wh_url = url, wh_encrypted_secret = e_encrypt env (e_token env),
          wh_event_types = event_types, wh_is_active = True\<rparr>]\<rparr>)) (\<lambda>_.
     bindM (audit_ok ''WEBHOOK_CREATED'' ''webhook'' (Some i) (Some organization_id) (Some (us_id user)) None
              (Some [(''url'', url), (''event_types'', joined event_types)])) (\<lambda>_.
     bindM commit (\<lambda>_.
     ret (i, e_token env)))))))))"

definition list_webhooks :: "cp_env \<Rightarrow> crypto \<Rightarrow> string option \<Rightarrow> uid \<Rightarrow> webhook list cpm" where
  "list_webhooks env k credentials organization_id = http_request (
     bindM (get_membership env k credentials organization_id) (\<lambda>(user, membership).
     bindM (require_role (mb_role membership) ''webhooks:manage'') (\<lambda>_.
     query (\<lambda>db. filter (\<lambda>h. wh_organization_id h = organization_id) (c_webhooks db)))))"

definition owned_webhook :: "uid \<Rightarrow> uid \<Rightarrow> webhook cpm" where
  "owned_webhook organization_id webhook_id =
     bindM (query (\<lambda>db. tget wh_id (c_webhooks db) webhook_id)) (\<lambda>found.
     bindM (the_or (HTTP 404) found) (\<lambda>webhook.
     bindM (ensure (wh_organization_id webhook = organization_id) (HTTP 404)) (\<lambda>_.
     ret webhook)))"

text \<open>Deliveries refer to their webhook by a plain foreign key, which the commit checks.\<close>

definition delete_webhook :: "cp_env \<Rightarrow> crypto \<Rightarrow> string option \<Rightarrow> uid \<Rightarrow> uid \<Rightarrow> unit cpm" where
  "delete_webhook env k credentials organization_id webhook_id = http_request (
     bindM (get_membership env k credentials organization_id) (\<lambda>(user, membership).
     bindM (require_role (mb_role membership) ''webhooks:manage'') (\<lambda>_.
     bindM (owned_webhook organization_id webhook_id) (\<lambda>webhook.
     bindM (modify (\<lambda>db. db\<lparr>c_webhooks := tdel wh_id (wh_id webhook) (c_webhooks db)\<rparr>)) (\<lambda>_.
     bindM (audit_ok ''WEBHOOK_DELETED'' ''webhook'' (Some webhook_id) (Some organization_id) (Some (us_id user))
              (Some [(''url'', wh_url webhook)]) None) (\<lambda>_.
     bindM (query (\<lambda>db. webhook_id \<in> keys wd_webhook_id (c_deliveries db))) (\<lambda>referenced.
     bindM (ensure (\<not> referenced) CP_IntegrityError) (\<lambda>_.
     commit))))))))"

definition list_deliveries :: "cp_env \<Rightarrow> crypto \<Rightarrow> string option \<Rightarrow> uid \<Rightarrow> uid \<Rightarrow> webhook_delivery list cpm" where
  "list_deliveries env k credentials organization_id webhook_id = http_request (
     bindM (get_membership env k credentials organization_id) (\<lambda>(user, membership).
     bindM (require_role (mb_role membership) ''webhooks:manage'') (\<lambda>_.
     bindM (owned_webhook organization_id webhook_id) (\<lambda>webhook.
     query (\<lambda>db. rev (filter (\<lambda>d. wd_webhook_id d = webhook_id) (c_deliveries db)))))))"

section \<open>Regions\<close>

definition list_regions :: "cp_env \<Rightarrow> crypto \<Rightarrow> string option \<Rightarrow> region list cpm" where
  "list_regions env k credentials = http_request (
     bindM (get_current_user env k credentials) (\<lambda>_.
     query (\<lambda>db. filter rg_active (c_regions db))))"

definition create_region :: "cp_env \<Rightarrow> crypto \<Rightarrow> string option \<Rightarrow> string \<Rightarrow> string \<Rightarrow> region cpm" where
  "create_region env k credentials code name = http_request (
     bindM (require_platform_admin env k credentials) (\<lambda>admin.
     bindM (ensure (slug_ok 49 code \<and> 2 \<le> length name \<and> length name \<le> 200) (HTTP 422)) (\<lambda>_.
     bindM (query_exn (\<lambda>db. one_or_none (filter (\<lambda>r. rg_code r = code) (c_regions db)))) (\<lambda>existing.
     bindM (ensure (existing = None) (HTTP 409)) (\<lambda>_.
     bindM uuid4 (\<lambda>i.
     case \<lparr>rg_id = i, rg_code = code, rg_name = name, rg_active = True\<rparr> of region \<Rightarrow>
     bindM (modify (\<lambda>db. db\<lparr>c_regions := c_regions db @ [region]\<rparr>)) (\<lambda>_.
     bindM (audit_ok ''REGION_CREATED'' ''region'' (Some i) None (Some (us_id admin)) None
              (Some [(''code'', code), (''name'', name)])) (\<lambda>_.
     bindM commit (\<lambda>_.
     ret region)))))))))"

section \<open>Ownership\<close>

text \<open>What an administrator may hand out.\<close>

lemma add_member_Inr:
  assumes "add_member env k cred org email role client w = (Inr m, w')"
  obtains user me v target where "get_membership env k cred org w = (Inr (user, me), v)"
    "require_permission (mb_role me) ''org:manage_members'' = Inr ()" "target \<in> set (c_users (w_db v))" "us_email target = email"
    "m = \<lparr>mb_id = w_next v, mb_user_id = us_id target, mb_organization_id = org, mb_role = role\<rparr>"
    "c_memberships (w_db w') = c_memberships (w_db v) @ [m]"
  using assms unfolding add_member_def require_role_def user_by_email_def add_membership_def
  by (auto simp: effect_simps record_audit_def elim!: bind_cases split: if_splits option.splits dest!: one_or_none_in)

text \<open>An administrator, who may not delete the organization, can make anyone its owner.\<close>

lemma admin_grants_owner:
  assumes me: "get_membership env k cred org w = (Inr (user, me), v)" "mb_role me = ADMIN"
    and target: "filter (\<lambda>u. us_email u = email) (c_users (w_db v)) = [target]"
    and new: "filter (\<lambda>m. mb_organization_id m = org \<and> mb_user_id m = us_id target) (c_memberships (w_db v)) = []"
  shows "\<exists>m w'. add_member env k cred org email OWNER client w = (Inr m, w') \<and> m \<in> set (owners org (w_db w')) \<and>
     mb_user_id m = us_id target \<and> has_permission (mb_role me) ''org:delete'' = Inr False"
proof -
  have perm: "require_permission ADMIN ''org:manage_members'' = Inr ()" "has_permission ADMIN ''org:delete'' = Inr False"
    by code_simp+
  show ?thesis
    using assms perm
    by (simp add: add_member_def http_request_def require_role_def query_exn_def user_by_email_def one_or_none_def
        the_or_def ensure_def add_membership_def uuid4_def modify_def ret_def record_audit_def commit_def owners_def)
qed

lemma expel_member_Inr:
  assumes "expel_member org user target client v = (Inr (), w')"
  shows "(mb_role target = OWNER \<longrightarrow> 1 < length (owners org (w_db v))) \<and>
    c_memberships (w_db w') = tdel mb_id (mb_id target) (c_memberships (w_db v))"
  using assms by (simp add: expel_member_def query_def ensure_def modify_def record_audit_def commit_def split: if_splits) auto

lemma remove_member_Inr:
  assumes "remove_member env k cred org target_id client w = (Inr (), w')"
  obtains user me v target where "get_membership env k cred org w = (Inr (user, me), v)"
    "target \<in> set (c_memberships (w_db v))" "mb_organization_id target = org"
    "expel_member org user target client v = (Inr (), w')"
proof -
  from assms have run: "bindM (get_membership env k cred org) (\<lambda>(user, membership).
     bindM (require_role (mb_role membership) ''org:manage_members'') (\<lambda>_.
     bindM (query_exn (\<lambda>db. one_or_none (filter (\<lambda>m. mb_organization_id m = org \<and> mb_user_id m = target_id) (c_memberships db)))) (\<lambda>found.
     bindM (the_or (HTTP 404) found) (\<lambda>target. expel_member org user target client)))) w = (Inr (), w')"
    unfolding remove_member_def http_request_Inr .
  then obtain x v where m0: "get_membership env k cred org w = (Inr x, v)"
    and rest: "(case x of (user, membership) \<Rightarrow>
     bindM (require_role (mb_role membership) ''org:manage_members'') (\<lambda>_.
     bindM (query_exn (\<lambda>db. one_or_none (filter (\<lambda>m. mb_organization_id m = org \<and> mb_user_id m = target_id) (c_memberships db)))) (\<lambda>found.
     bindM (the_or (HTTP 404) found) (\<lambda>target. expel_member org user target client)))) v = (Inr (), w')"
    by (rule bind_okE)
  obtain user me where x: "x = (user, me)" by (cases x)
  with m0 have m: "get_membership env k cred org w = (Inr (user, me), v)" by simp
  have "\<exists>target. one_or_none (filter (\<lambda>m. mb_organization_id m = org \<and> mb_user_id m = target_id) (c_memberships (w_db v))) = Inr (Some target)
      \<and> expel_member org user target client v = (Inr (), w')"
    using rest unfolding x prod.case require_role_def query_exn_def the_or_def
    by (simp split: sum.splits) (simp split: option.splits)
  then obtain target where one: "one_or_none (filter (\<lambda>m. mb_organization_id m = org \<and> mb_user_id m = target_id) (c_memberships (w_db v))) = Inr (Some target)"
    and "expel_member org user target client v = (Inr (), w')" by blast
  note this m
  with one_or_none_in [OF one] that show ?thesis by blast
qed

lemma other_element: "1 < length xs \<Longrightarrow> distinct xs \<Longrightarrow> \<exists>y\<in>set xs. y \<noteq> x"
  by (cases xs; cases "tl xs") auto

text \<open>C29: No organization is left without an owner: whoever is removed from whichever organization,
  every organization that had an owner still has one.\<close>

theorem last_owner_kept:
  assumes run: "remove_member env k cred org target_id client w = (Inr (), w')"
    and d: "distinct (map mb_id (c_memberships (w_db w)))" and o: "owners any (w_db w) \<noteq> []"
  shows "owners any (w_db w') \<noteq> []"
proof -
  obtain user me v target where m: "get_membership env k cred org w = (Inr (user, me), v)"
    and t: "target \<in> set (c_memberships (w_db v))" "mb_organization_id target = org"
    and ex: "expel_member org user target client v = (Inr (), w')"
    using run by (rule remove_member_Inr)
  note more = expel_member_Inr [OF ex, THEN conjunct1] and del = expel_member_Inr [OF ex, THEN conjunct2]
  have "get_current_user env k cred w = (Inr user, v)" using get_membership_Inr [OF m] by simp
  then have same: "c_memberships (w_db v) = c_memberships (w_db w)"
    using get_current_user_Inr by (fastforce simp: only_keys_touched_def)
  have "\<exists>x\<in>set (owners any (w_db v)). x \<noteq> target"
  proof (cases "target \<in> set (owners any (w_db v))")
    case True
    then have "any = org" "mb_role target = OWNER" using t by (auto simp: owners_def)
    moreover have "distinct (owners org (w_db v))" using d same by (simp add: owners_def distinct_map)
    ultimately show ?thesis using more other_element [of "owners org (w_db v)" target] by simp
  next
    case False
    moreover have "owners any (w_db v) = owners any (w_db w)" by (simp add: owners_def same)
    ultimately show ?thesis using hd_in_set [OF o] by metis
  qed
  then obtain x where x: "x \<in> set (owners any (w_db v))" "x \<noteq> target" by blast
  have "mb_id x \<noteq> mb_id target" using x t d same by (auto simp: owners_def distinct_map inj_on_def)
  then have "x \<in> set (owners any (w_db w'))" using x by (auto simp: owners_def del tdel_def)
  then show ?thesis by auto
qed

definition demo_leaving :: "(cp_exn + unit) \<times> cp_world" where
  "demo_leaving = remove_member (calm_env 0) demo_crypto (Some ''jwt'') 3 9 None
     (world_of (demo_org\<lparr>c_memberships := c_memberships demo_org @ [\<lparr>mb_id = 10, mb_user_id = 9, mb_organization_id = 3, mb_role = OWNER\<rparr>]\<rparr>) 100)"

theorem last_owner_kept_witness: "owners 3 (w_db (snd demo_leaving)) \<noteq> []"
proof -
  have "fst demo_leaving = Inr ()" by code_simp
  then have run: "remove_member (calm_env 0) demo_crypto (Some ''jwt'') 3 9 None
     (world_of (demo_org\<lparr>c_memberships := c_memberships demo_org @ [\<lparr>mb_id = 10, mb_user_id = 9, mb_organization_id = 3, mb_role = OWNER\<rparr>]\<rparr>) 100)
     = (Inr (), snd demo_leaving)"
    unfolding demo_leaving_def by (metis prod.collapse)
  show ?thesis by (rule last_owner_kept [OF run]) (simp_all add: world_of_def demo_org_def owners_def)
qed
end
