(* ===== verification/CP_Orchestrator.thy ===== *)
theory CP_Orchestrator
  imports CP_Placement
begin

text \<open>
  The job handlers that create, delete, suspend, resume and migrate databases,
  \<open>src/backend/app/services/orchestrator.py\<close>.  A handler that raises keeps what it did so far
  (the worker commits it together with the retry), and every call to an agent is in the log in the
  order it was made.  A unique constraint is checked when the row is added.
\<close>

section \<open>Shared steps\<close>

definition physical_name_prefix :: string where "physical_name_prefix = ''db_''"

definition role_name_prefix :: string where "role_name_prefix = ''u_''"

definition generate_physical_identifiers :: "cp_env \<Rightarrow> string \<times> string" where
  "generate_physical_identifiers env =
     (physical_name_prefix @ take 24 (e_hex env), role_name_prefix @ take 24 (e_hex env))"

definition removeprefix :: "string \<Rightarrow> string \<Rightarrow> string" where
  "removeprefix p s = (if take (length p) s = p then drop (length p) s else s)"

definition owner_role :: "database \<Rightarrow> string" where
  "owner_role d = role_name_prefix @ removeprefix physical_name_prefix (db_physical_name d)"

definition get_node :: "uid \<Rightarrow> node option cpm" where
  "get_node i = query (\<lambda>db. tget nd_id (c_nodes db) i)"

definition get_primary_node :: "uid option \<Rightarrow> node cpm" where
  "get_primary_node cluster_id =
     bindM (query_exn (\<lambda>db. exactly_one (filter (\<lambda>m. Some (cm_cluster_id m) = cluster_id \<and> cm_role m = PRIMARY) (c_members db)))) (\<lambda>member.
     bindM (get_node (cm_node_id member)) (\<lambda>node. the_or CP_RuntimeError node))"

definition create_cluster :: "node \<Rightarrow> uid \<Rightarrow> bool \<Rightarrow> cluster cpm" where
  "create_cluster node region_id shared =
     bindM uuid4 (\<lambda>ci.
     bindM uuid4 (\<lambda>mi.
     bindM (modify (\<lambda>db. db
        \<lparr>c_clusters := c_clusters db @ [\<lparr>cl_id = ci, cl_region_id = region_id, cl_topology = SINGLE, cl_shared = shared, cl_status = CL_ACTIVE\<rparr>],
         c_members := c_members db @ [\<lparr>cm_id = mi, cm_cluster_id = ci, cm_node_id = nd_id node, cm_role = PRIMARY,
                                        cm_replication_lag_bytes = None, cm_promoted_at = None\<rparr>]\<rparr>)) (\<lambda>_.
     ret \<lparr>cl_id = ci, cl_region_id = region_id, cl_topology = SINGLE, cl_shared = shared, cl_status = CL_ACTIVE\<rparr>)))"

definition get_or_create_cluster_on_node :: "node \<Rightarrow> uid \<Rightarrow> isolation_level \<Rightarrow> cluster cpm" where
  "get_or_create_cluster_on_node node region_id isolation =
     bindM (query (\<lambda>db. if isolation = SHARED then find_shared_cluster_on_node db (nd_id node) else None)) (\<lambda>existing.
     case existing of
       Some c \<Rightarrow> ret c
     | None \<Rightarrow> create_cluster node region_id (isolation = SHARED))"

definition get_database :: "uid \<Rightarrow> database option cpm" where
  "get_database i = query (\<lambda>db. tget db_id (c_databases db) i)"

definition put_database :: "database \<Rightarrow> unit cpm" where
  "put_database d = modify (\<lambda>db. db\<lparr>c_databases := tset db_id d (c_databases db)\<rparr>)"

definition add_database_event :: "uid \<Rightarrow> uid \<Rightarrow> string \<Rightarrow> jdata \<Rightarrow> unit cpm" where
  "add_database_event database_id job_id event_type data = modify (\<lambda>db. db\<lparr>c_database_events := c_database_events db @
     [\<lparr>de_database_id = database_id, de_job_id = Some job_id, de_event_type = event_type, de_data = data\<rparr>]\<rparr>)"

definition add_credential ::
    "uid \<Rightarrow> string \<Rightarrow> string option \<Rightarrow> string \<Rightarrow> credential_scope \<Rightarrow> bool \<Rightarrow> uid cpm" where
  "add_credential database_id role_name display_name encrypted scope primary =
     bindM uuid4 (\<lambda>i.
     bindM (query (\<lambda>db. role_name \<in> keys cr_role_name (c_credentials db))) (\<lambda>taken.
     bindM (ensure (\<not> taken) CP_IntegrityError) (\<lambda>_.
     bindM (modify (\<lambda>db. db\<lparr>c_credentials := c_credentials db @
        [\<lparr>cr_id = i, cr_database_id = database_id, cr_role_name = role_name, cr_display_name = display_name,
          cr_is_primary = primary, cr_encrypted_password = encrypted, cr_scope = scope, cr_rotated_at = None\<rparr>]\<rparr>)) (\<lambda>_.
     ret i))))"

section \<open>The handlers\<close>

text \<open>From the placement decision on: join or create the cluster, provision, record.\<close>

definition provision_database ::
    "cp_env \<Rightarrow> job \<Rightarrow> database \<Rightarrow> uid \<Rightarrow> node \<Rightarrow> cluster option \<Rightarrow> jdata cpm" where
  "provision_database env job database region_id node existing =
     bindM (case existing of
              Some c \<Rightarrow> ret c
            | None \<Rightarrow> get_or_create_cluster_on_node node region_id (db_isolation_level database)) (\<lambda>cluster.
     bindM (put_database (database\<lparr>db_cluster_id := Some (cl_id cluster)\<rparr>)) (\<lambda>_.
     bindM (call_agent env node (ProvisionDatabase (db_physical_name database) (owner_role database) (e_token env))) (\<lambda>_.
     bindM (add_credential (db_id database) (owner_role database) None (e_encrypt env (e_token env)) SC_APP True) (\<lambda>_.
     bindM (put_database (database\<lparr>db_cluster_id := Some (cl_id cluster), db_connection_host := nd_ip_address node,
              db_connection_port := Some (nd_postgres_port node), db_status := DB_RUNNING\<rparr>)) (\<lambda>_.
     bindM (add_database_event (db_id database) (jb_id job) ''DATABASE_RUNNING''
              [(''node_id'', nat_string (nd_id node)), (''cluster_id'', nat_string (cl_id cluster))]) (\<lambda>_.
     bindM (emit_event env (jb_organization_id job) ''database.created'' [(''database_id'', nat_string (db_id database))]) (\<lambda>_.
     ret [(''node_id'', nat_string (nd_id node)), (''cluster_id'', nat_string (cl_id cluster))])))))))"

definition execute_create_database :: "cp_env \<Rightarrow> job \<Rightarrow> jdata cpm" where
  "execute_create_database env job =
     bindM (payload_id ''database_id'' job) (\<lambda>database_id.
     bindM (get_database database_id) (\<lambda>found.
     bindM (the_or CP_RuntimeError found) (\<lambda>database.
     if db_status database = DB_RUNNING \<and> db_cluster_id database \<noteq> None then ret [(''already_running'', ''true'')]
     else
       bindM (query (\<lambda>db. tget rg_id (c_regions db) (db_region_id database))) (\<lambda>reg.
       bindM (the_or CP_RuntimeError reg) (\<lambda>region.
       bindM (query_exn (\<lambda>db. select_node_and_cluster (e_now env) db (rg_code region) (db_isolation_level database)
                (db_cpu_limit database) (db_ram_limit_mb database) (db_storage_limit_gb database))) (\<lambda>decision.
       provision_database env job database (rg_id region) (fst decision) (snd decision)))))))"

definition app_credential :: "uid \<Rightarrow> cp_db \<Rightarrow> cp_exn + database_credential option" where
  "app_credential database_id db =
     one_or_none (filter (\<lambda>c. cr_database_id c = database_id \<and> cr_scope c = SC_APP) (c_credentials db))"

definition execute_delete_database :: "cp_env \<Rightarrow> job \<Rightarrow> jdata cpm" where
  "execute_delete_database env job =
     bindM (payload_id ''database_id'' job) (\<lambda>database_id.
     bindM (get_database database_id) (\<lambda>found.
     case found of
       None \<Rightarrow> ret [(''already_deleted'', ''true'')]
     | Some database \<Rightarrow>
         if db_status database = DB_DELETED then ret [(''already_deleted'', ''true'')]
         else
           bindM (if db_cluster_id database \<noteq> None
                  then bindM (get_primary_node (db_cluster_id database)) (\<lambda>node.
                       bindM (query_exn (app_credential (db_id database))) (\<lambda>credential.
                       bindM (call_agent env node (DropDatabase (db_physical_name database)
                                (case credential of Some c \<Rightarrow> cr_role_name c | None \<Rightarrow> role_name_prefix @ ''unknown''))) (\<lambda>_.
                       ret ())))
                  else ret ()) (\<lambda>_.
           bindM (put_database (database\<lparr>db_status := DB_DELETED, db_deleted_at := Some (e_now env)\<rparr>)) (\<lambda>_.
           bindM (add_database_event (db_id database) (jb_id job) ''DATABASE_DELETED'' []) (\<lambda>_.
           ret [])))))"

definition execute_suspend_database :: "cp_env \<Rightarrow> job \<Rightarrow> jdata cpm" where
  "execute_suspend_database env job =
     bindM (payload_id ''database_id'' job) (\<lambda>database_id.
     bindM (get_database database_id) (\<lambda>found.
     bindM (the_or CP_RuntimeError found) (\<lambda>database.
     if db_status database = DB_SUSPENDED then ret [(''already_suspended'', ''true'')]
     else
       bindM (get_primary_node (db_cluster_id database)) (\<lambda>node.
       bindM (call_agent env node (SuspendDatabase (db_physical_name database))) (\<lambda>_.
       bindM (put_database (database\<lparr>db_status := DB_SUSPENDED\<rparr>)) (\<lambda>_.
       bindM (add_database_event (db_id database) (jb_id job) ''DATABASE_SUSPENDED'' []) (\<lambda>_.
       ret [])))))))"

definition execute_resume_database :: "cp_env \<Rightarrow> job \<Rightarrow> jdata cpm" where
  "execute_resume_database env job =
     bindM (payload_id ''database_id'' job) (\<lambda>database_id.
     bindM (get_database database_id) (\<lambda>found.
     bindM (the_or CP_RuntimeError found) (\<lambda>database.
     if db_status database = DB_RUNNING then ret [(''already_running'', ''true'')]
     else
       bindM (get_primary_node (db_cluster_id database)) (\<lambda>node.
       bindM (call_agent env node (ResumeDatabase (db_physical_name database))) (\<lambda>_.
       bindM (put_database (database\<lparr>db_status := DB_RUNNING\<rparr>)) (\<lambda>_.
       bindM (add_database_event (db_id database) (jb_id job) ''DATABASE_RESUMED'' []) (\<lambda>_.
       ret [])))))))"

definition migration_key :: "cp_env \<Rightarrow> database \<Rightarrow> string" where
  "migration_key env d = ''migrations/'' @ nat_string (db_id d) @ ''/'' @ e_hex env @ ''.dump.enc''"

text \<open>Quiesce and dump the source, restore on the target.\<close>

definition copy_database :: "cp_env \<Rightarrow> database \<Rightarrow> string \<Rightarrow> string \<Rightarrow> node \<Rightarrow> node \<Rightarrow> unit cpm" where
  "copy_database env database role_name password source target =
     bindM (call_agent env source (QuiesceDatabase (db_physical_name database) role_name)) (\<lambda>_.
     bindM (call_agent env source (BackupDatabase (db_physical_name database) (migration_key env database))) (\<lambda>_.
     bindM (call_agent env target (RestoreDatabase (db_physical_name database) (migration_key env database) role_name password)) (\<lambda>_.
     ret ())))"

text \<open>The best-effort removal of the transient dump swallows an unreachable agent only.\<close>

definition discard_dump :: "cp_env \<Rightarrow> node \<Rightarrow> string \<Rightarrow> unit cpm" where
  "discard_dump env node key w =
     (case call_agent env node (DeleteBackup key) w of (r, w') \<Rightarrow>
        (case r of Inl AgentUnreachable \<Rightarrow> Inr () | Inl e \<Rightarrow> Inl e | Inr _ \<Rightarrow> Inr (), w'))"

text \<open>From the copy on: the cutover is recorded before the source is dropped.\<close>

definition migrate_cutover ::
    "cp_env \<Rightarrow> job \<Rightarrow> database \<Rightarrow> string \<Rightarrow> string \<Rightarrow> node \<Rightarrow> node \<Rightarrow> jdata cpm" where
  "migrate_cutover env job database role_name password source target =
     bindM (copy_database env database role_name password source target) (\<lambda>_.
     bindM (get_or_create_cluster_on_node target (db_region_id database) (db_isolation_level database)) (\<lambda>cluster.
     bindM (put_database (database\<lparr>db_cluster_id := Some (cl_id cluster), db_connection_host := nd_ip_address target,
              db_connection_port := Some (nd_postgres_port target), db_status := DB_RUNNING\<rparr>)) (\<lambda>_.
     bindM (call_agent env source (DropDatabase (db_physical_name database) role_name)) (\<lambda>_.
     bindM (discard_dump env target (migration_key env database)) (\<lambda>_.
     bindM (add_database_event (db_id database) (jb_id job) ''DATABASE_MIGRATED''
              [(''from_node_id'', nat_string (nd_id source)), (''to_node_id'', nat_string (nd_id target))]) (\<lambda>_.
     ret [(''from_node_id'', nat_string (nd_id source)), (''to_node_id'', nat_string (nd_id target))]))))))"

definition execute_migrate_database :: "cp_env \<Rightarrow> job \<Rightarrow> jdata cpm" where
  "execute_migrate_database env job =
     bindM (payload_id ''database_id'' job) (\<lambda>database_id.
     bindM (get_database database_id) (\<lambda>found.
     bindM (the_or CP_RuntimeError found) (\<lambda>database.
     bindM (payload_id ''target_node_id'' job) (\<lambda>target_id.
     bindM (get_node target_id) (\<lambda>tn.
     bindM (the_or CP_RuntimeError tn) (\<lambda>target.
     bindM (ensure (db_cluster_id database \<noteq> None) CP_RuntimeError) (\<lambda>_.
     bindM (get_primary_node (db_cluster_id database)) (\<lambda>source.
     if nd_id source = nd_id target then ret [(''already_there'', ''true'')]
     else
       bindM (query_exn (\<lambda>db. exactly_one (filter (\<lambda>c. cr_database_id c = db_id database \<and> cr_is_primary c) (c_credentials db)))) (\<lambda>credential.
       bindM (decrypt_secret env (cr_encrypted_password credential)) (\<lambda>password.
       migrate_cutover env job database (cr_role_name credential) password source target))))))))))"

section \<open>Outcomes of the shared steps\<close>

lemma payload_id_eq [effect_simps]:
  "payload_id k job w = (r, w') \<longleftrightarrow>
     r = (case map_of (jb_payload job) k of None \<Rightarrow> Inl CP_KeyError | Some i \<Rightarrow> Inr i) \<and> w' = w"
  by (auto simp: payload_id_def effect_simps)

lemma get_database_eq [effect_simps]:
  "get_database i w = (r, w') \<longleftrightarrow> r = Inr (tget db_id (c_databases (w_db w)) i) \<and> w' = w"
  by (auto simp: get_database_def effect_simps)

lemma get_node_eq [effect_simps]:
  "get_node i w = (r, w') \<longleftrightarrow> r = Inr (tget nd_id (c_nodes (w_db w)) i) \<and> w' = w"
  by (auto simp: get_node_def effect_simps)

lemma put_database_eq [effect_simps]:
  "put_database d w = (r, w') \<longleftrightarrow>
     r = Inr () \<and> w' = w\<lparr>w_db := (w_db w)\<lparr>c_databases := tset db_id d (c_databases (w_db w))\<rparr>\<rparr>"
  by (auto simp: put_database_def effect_simps)

lemma add_database_event_eq [effect_simps]:
  "add_database_event i j t data w = (r, w') \<longleftrightarrow> r = Inr () \<and>
     w' = w\<lparr>w_db := (w_db w)\<lparr>c_database_events := c_database_events (w_db w) @
       [\<lparr>de_database_id = i, de_job_id = Some j, de_event_type = t, de_data = data\<rparr>]\<rparr>\<rparr>"
  by (auto simp: add_database_event_def effect_simps)

lemma decrypt_secret_eq [effect_simps]:
  "decrypt_secret env c w = (r, w') \<longleftrightarrow>
     r = (case e_decrypt env c of None \<Rightarrow> Inl CP_InvalidToken | Some s \<Rightarrow> Inr s) \<and> w' = w"
  by (auto simp: decrypt_secret_def effect_simps)

lemma get_primary_node_same: "get_primary_node c w = (r, w') \<Longrightarrow> w' = w"
  by (auto simp: get_primary_node_def effect_simps elim!: bind_cases)

lemma call_agent_keeps:
  "call_agent env node op w = (r, w') \<Longrightarrow>
     w_db w' = w_db w \<and> w_committed w' = w_committed w \<and> w_next w' = w_next w"
  by (drule call_agent_eq) auto

lemma call_agent_logged:
  assumes "call_agent env node op w = (r, w')" "nd_ip_address node = Some ip" "ip \<noteq> []"
  shows "w' = w\<lparr>w_calls := w_calls w @ [(nd_id node, op)]\<rparr>"
  using assms by (auto simp: call_agent_def)

lemma get_or_create_cluster_keeps:
  assumes "get_or_create_cluster_on_node node rid il w = (r, w')"
  obtains c cs ms where "r = Inr c" "w_calls w' = w_calls w" "w_committed w' = w_committed w"
    "w_db w' = (w_db w)\<lparr>c_clusters := c_clusters (w_db w) @ cs, c_members := c_members (w_db w) @ ms\<rparr>"
proof -
  from assms consider (old) c where "r = Inr c" "w' = w" | (new) "create_cluster node rid (il = SHARED) w = (r, w')"
    unfolding get_or_create_cluster_on_node_def
    by (auto simp: effect_simps elim!: bind_cases split: option.splits)
  then show ?thesis
  proof cases
    case old
    then show ?thesis using that [of c "[]" "[]"] by simp
  next
    case new
    then show ?thesis
      unfolding create_cluster_def using that by (auto simp: effect_simps elim!: bind_cases)
  qed
qed

section \<open>Migration\<close>

lemma copy_database_cases:
  assumes "copy_database env d role pw source target w = (r, w')"
  obtains (failed) e calls where "r = Inl e" "w_db w' = w_db w" "w_committed w' = w_committed w"
      "w_calls w' = w_calls w @ calls" "\<forall>n name role'. (n, DropDatabase name role') \<notin> set calls"
  | (copied) resp ip where "r = Inr ()" "nd_ip_address source = Some ip" "ip \<noteq> []"
      "w' = w\<lparr>w_calls := w_calls w @
         [(nd_id source, QuiesceDatabase (db_physical_name d) role),
          (nd_id source, BackupDatabase (db_physical_name d) (migration_key env d)),
          (nd_id target, RestoreDatabase (db_physical_name d) (migration_key env d) role pw)]\<rparr>"
      "e_agent env (w_calls w @ [(nd_id source, QuiesceDatabase (db_physical_name d) role),
          (nd_id source, BackupDatabase (db_physical_name d) (migration_key env d))])
        (nd_id target, RestoreDatabase (db_physical_name d) (migration_key env d) role pw) = Inr resp"
  using assms unfolding copy_database_def
  by (elim bind_cases) (auto simp: effect_simps call_agent_Inr dest!: call_agent_eq)

lemma discard_dump_calls:
  "discard_dump env node key w = (r, w') \<Longrightarrow>
     \<exists>calls. w_calls w' = w_calls w @ calls \<and> (\<forall>c\<in>set calls. snd c = DeleteBackup key)"
  by (auto simp: discard_dump_def split: prod.splits dest!: call_agent_eq)

lemma migrate_cutover_calls:
  assumes "migrate_cutover env job d role pw source target w = (r, w')"
  obtains (failed) e calls where "r = Inl e" "w_db w' = w_db w"
      "w_calls w' = w_calls w @ calls" "\<forall>n name role'. (n, DropDatabase name role') \<notin> set calls"
  | (cut) resp pre1 key post where
      "w_calls w' = w_calls w @ pre1 @ [(nd_id target, RestoreDatabase (db_physical_name d) key role pw),
         (nd_id source, DropDatabase (db_physical_name d) role)] @ post"
      "e_agent env (w_calls w @ pre1) (nd_id target, RestoreDatabase (db_physical_name d) key role pw) = Inr resp"
      "\<forall>n name role'. (n, DropDatabase name role') \<notin> set (pre1 @ post)"
proof -
  define Q where "Q = (nd_id source, QuiesceDatabase (db_physical_name d) role)"
  define B where "B = (nd_id source, BackupDatabase (db_physical_name d) (migration_key env d))"
  define R where "R = (nd_id target, RestoreDatabase (db_physical_name d) (migration_key env d) role pw)"
  define D where "D = (nd_id source, DropDatabase (db_physical_name d) role)"
  obtain rc w1 where copy: "copy_database env d role pw source target w = (rc, w1)" by fastforce
  from copy show ?thesis
  proof (cases rule: copy_database_cases)
    case (failed e calls)
    then show ?thesis using assms that(1) copy unfolding migrate_cutover_def by auto
  next
    case (copied resp ip)
    obtain rg w2 where cl: "get_or_create_cluster_on_node target (db_region_id d) (db_isolation_level d) w1 = (rg, w2)"
      by fastforce
    obtain c where c: "rg = Inr c" "w_calls w2 = w_calls w1" using cl by (rule get_or_create_cluster_keeps)
    obtain w3 where put: "put_database (d\<lparr>db_cluster_id := Some (cl_id c), db_connection_host := nd_ip_address target,
        db_connection_port := Some (nd_postgres_port target), db_status := DB_RUNNING\<rparr>) w2 = (Inr (), w3)"
      and w3: "w_calls w3 = w_calls w2" by (simp add: put_database_def modify_def)
    obtain rd w4 where drop: "call_agent env source (DropDatabase (db_physical_name d) role) w3 = (rd, w4)" by fastforce
    have w4: "w_calls w4 = w_calls w @ [Q, B, R, D]"
      using call_agent_logged [OF drop copied(2,3)] copied(4) c w3 by (simp add: Q_def B_def R_def D_def)
    have "\<exists>post. w_calls w' = w_calls w4 @ post \<and> (\<forall>n name role'. (n, DropDatabase name role') \<notin> set post)"
      using assms copy copied(1) cl c put drop unfolding migrate_cutover_def
      by (cases rd) (auto simp: effect_simps elim!: bind_cases dest!: discard_dump_calls, force+)
    then obtain post where "w_calls w' = w_calls w @ [Q, B] @ [R, D] @ post"
      "\<forall>n name role'. (n, DropDatabase name role') \<notin> set post" using w4 by auto
    then show ?thesis
      using copied(5) by (intro that(2) [of "[Q, B]"]) (auto simp: Q_def B_def R_def D_def)
  qed
qed

lemma execute_migrate_cases:
  assumes "execute_migrate_database env job w = (r, w')"
  obtains (early) "w' = w"
  | (moving) d role pw source target where "nd_id source \<noteq> nd_id target"
      "migrate_cutover env job d role pw source target w = (r, w')"
  using assms unfolding execute_migrate_database_def
  by (elim bind_cases) (auto simp: effect_simps split: if_splits dest!: get_primary_node_same elim!: bind_cases)

text \<open>Every drop among the calls comes after a restore of the same database on another node, which
  that node confirmed.\<close>

definition drops_after_restore :: "cp_env \<Rightarrow> agent_call list \<Rightarrow> agent_call list \<Rightarrow> bool" where
  "drops_after_restore env before calls \<longleftrightarrow>
     (\<forall>pre n name role post. calls = pre @ (n, DropDatabase name role) # post \<longrightarrow>
        (\<exists>pre1 pre2 t key pw resp. pre = pre1 @ (t, RestoreDatabase name key role pw) # pre2 \<and> t \<noteq> n \<and>
           e_agent env (before @ pre1) (t, RestoreDatabase name key role pw) = Inr resp))"


definition demo_job :: "string \<Rightarrow> (string \<times> uid) list \<Rightarrow> job" where
  "demo_job type payload = (new_job 50 0 type payload None (Some 3) (Some ''database'') (Some 40))
     \<lparr>jb_status := JB_RUNNING, jb_attempts := 1\<rparr>"

definition demo_credential :: "uid \<Rightarrow> string \<Rightarrow> bool \<Rightarrow> database_credential" where
  "demo_credential i role prim = \<lparr>cr_id = i, cr_database_id = 40, cr_role_name = role, cr_display_name = None,
     cr_is_primary = prim, cr_encrypted_password = ''#pw'', cr_scope = SC_APP, cr_rotated_at = None\<rparr>"

definition demo_migrating :: cp_world where
  "demo_migrating = world_of (demo_cp\<lparr>c_databases := [demo_database 40 DB_MIGRATING (Some 20)],
      c_credentials := [demo_credential 60 ''u_x'' True]\<rparr>) 100"

definition demo_migration :: "(cp_exn + jdata) \<times> cp_world" where
  "demo_migration = execute_migrate_database (calm_env 0)
     (demo_job ''migrate_database'' [(''database_id'', 40), (''target_node_id'', 11)]) demo_migrating"


text \<open>When the drop of the source fails after the cutover, the retry takes the database for
  migrated already and never asks the source again: the old copy, with the tenant's data, stays on
  the source node although the job succeeds.\<close>

definition deaf_env :: "instant \<Rightarrow> cp_env" where
  "deaf_env now = (calm_env now)\<lparr>e_agent := (\<lambda>h c. case snd c of
      DropDatabase _ _ \<Rightarrow> Inl Unreachable | _ \<Rightarrow> e_agent (calm_env now) h c)\<rparr>"

theorem migrate_retry_leaves_source:
  "(case execute_migrate_database (deaf_env 0)
          (demo_job ''migrate_database'' [(''database_id'', 40), (''target_node_id'', 11)]) demo_migrating of
      (r1, w1) \<Rightarrow>
     (case execute_migrate_database (calm_env 0)
          (demo_job ''migrate_database'' [(''database_id'', 40), (''target_node_id'', 11)]) w1 of
      (r2, w2) \<Rightarrow> r1 = Inl AgentUnreachable \<and> is_ok r2 \<and> length (w_calls w1) = 4 \<and> length (w_calls w2) = 4 \<and>
        map db_connection_host (c_databases (w_db w2)) = [Some ''10.0.0.1''] \<and>
        map db_status (c_databases (w_db w2)) = [DB_RUNNING]))"
  by code_simp

section \<open>Deletion\<close>

lemma exactly_one_single [simp]: "exactly_one [x] = Inr x"
  by (simp add: exactly_one_def)

lemma get_primary_node_Inr:
  "get_primary_node c w = (Inr n, w') \<longleftrightarrow> w' = w \<and>
     (\<exists>m. filter (\<lambda>m. Some (cm_cluster_id m) = c \<and> cm_role m = PRIMARY) (c_members (w_db w)) = [m] \<and>
        tget nd_id (c_nodes (w_db w)) (cm_node_id m) = Some n)"
  by (auto simp: get_primary_node_def query_exn_def get_node_def query_def the_or_def exactly_one_Inr
      split: sum.splits option.splits)

text \<open>A database with a second role of scope APP (the default of the role endpoint) cannot be
  deleted: the handler raises before it reaches the node, on every attempt, so the job ends FAILED
  and the database is never dropped.\<close>

theorem delete_blocked_by_second_role:
  assumes "map_of (jb_payload job) ''database_id'' = Some i"
    and "tget db_id (c_databases (w_db w)) i = Some d" and "db_status d \<noteq> DB_DELETED"
    and "db_cluster_id d \<noteq> None" and "is_ok (fst (get_primary_node (db_cluster_id d) w))"
    and "2 \<le> length (filter (\<lambda>c. cr_database_id c = db_id d \<and> cr_scope c = SC_APP) (c_credentials (w_db w)))"
  shows "execute_delete_database env job w = (Inl CP_MultipleResultsFound, w)"
proof -
  obtain n w' where "get_primary_node (db_cluster_id d) w = (Inr n, w')"
    using assms(5) by (cases "get_primary_node (db_cluster_id d) w") (auto simp: is_ok_ex)
  moreover from this have "w' = w" by (rule get_primary_node_same)
  moreover have "app_credential (db_id d) (w_db w) = Inl CP_MultipleResultsFound"
    using assms(6) by (simp add: app_credential_def one_or_none_Inl)
  ultimately show ?thesis
    using assms(1-4) by (simp add: execute_delete_database_def payload_id_def the_or_def get_database_def query_def query_exn_def)
qed

theorem delete_blocked_by_second_role_witness:
  "execute_delete_database (calm_env 0) (demo_job ''delete_database'' [(''database_id'', 40)])
     (world_of (demo_cp\<lparr>c_credentials := [demo_credential 60 ''u_x'' True, demo_credential 61 ''u_y'' False]\<rparr>) 100) =
   (Inl CP_MultipleResultsFound,
     world_of (demo_cp\<lparr>c_credentials := [demo_credential 60 ''u_x'' True, demo_credential 61 ''u_y'' False]\<rparr>) 100)"
proof (rule delete_blocked_by_second_role [where i = 40 and d = "demo_database 40 DB_RUNNING (Some 20)"])
  show "is_ok (fst (get_primary_node (db_cluster_id (demo_database 40 DB_RUNNING (Some 20)))
    (world_of (demo_cp\<lparr>c_credentials := [demo_credential 60 ''u_x'' True, demo_credential 61 ''u_y'' False]\<rparr>) 100)))"
    by code_simp
qed (simp_all add: demo_job_def new_job_def world_of_def demo_cp_def empty_cp_def demo_database_def demo_credential_def tget_def)

section \<open>Creation\<close>


text \<open>What a successful placement of a database means.\<close>

definition placed_on :: "cp_env \<Rightarrow> cp_db \<Rightarrow> database \<Rightarrow> node \<Rightarrow> bool" where
  "placed_on env db d node \<longleftrightarrow> node \<in> set (c_nodes db) \<and> nd_region_id node = db_region_id d \<and>
     is_eligible_for_placement (e_now env) node \<and>
     fits_on_node db node (db_cpu_limit d) (db_ram_limit_mb d) (db_storage_limit_gb d) None"

lemma active_region_unique:
  assumes "active_region code db = Inr (Some r)" "distinct (map rg_code (c_regions db))"
    "r' \<in> set (c_regions db)" "rg_code r' = code"
  shows "r = r'"
proof -
  have "r \<in> set (c_regions db) \<and> rg_code r = code"
    using assms(1) by (auto simp: active_region_def one_or_none_Inr dest!: arg_cong [where f = set])
  then show ?thesis using assms by (metis tget_distinct option.inject)
qed

lemma select_placed:
  assumes "select_node_and_cluster (e_now env) db (rg_code region) (db_isolation_level d)
      (db_cpu_limit d) (db_ram_limit_mb d) (db_storage_limit_gb d) = Inr (node, existing)"
    and "distinct (map rg_code (c_regions db))" "tget rg_id (c_regions db) (db_region_id d) = Some region"
  shows "placed_on env db d node"
proof -
  have "select_node (e_now env) db (rg_code region) (db_cpu_limit d) (db_ram_limit_mb d) (db_storage_limit_gb d) = Inr node"
    using assms(1) by (auto simp: select_node_and_cluster_def rbind_eq_Inr)
  then obtain r where "active_region (rg_code region) db = Inr (Some r)"
    and c: "node \<in> set (candidates (e_now env) db r (db_cpu_limit d) (db_ram_limit_mb d) (db_storage_limit_gb d))"
    by (rule select_node_Inr)
  then have "r = region" using active_region_unique assms(2) tget_SomeD [OF assms(3)] by blast
  then show ?thesis using c tget_SomeD [OF assms(3)] by (auto simp: placed_on_def candidates_def)
qed

lemma add_credential_Inr:
  "add_credential i role disp enc scope prim w = (Inr c, w') \<longleftrightarrow>
     role \<notin> keys cr_role_name (c_credentials (w_db w)) \<and> c = w_next w \<and>
     w' = w\<lparr>w_next := Suc (w_next w), w_db := (w_db w)\<lparr>c_credentials := c_credentials (w_db w) @
        [\<lparr>cr_id = w_next w, cr_database_id = i, cr_role_name = role, cr_display_name = disp,
          cr_is_primary = prim, cr_encrypted_password = enc, cr_scope = scope, cr_rotated_at = None\<rparr>]\<rparr>\<rparr>"
  by (auto simp: add_credential_def uuid4_def query_def ensure_def modify_def ret_def)

lemma existing_or_created:
  assumes "(case existing of Some c \<Rightarrow> ret c | None \<Rightarrow> get_or_create_cluster_on_node node rid il) w = (r, w')"
  obtains c cs ms where "r = Inr c" "w_calls w' = w_calls w" "w_committed w' = w_committed w"
    "w_db w' = (w_db w)\<lparr>c_clusters := c_clusters (w_db w) @ cs, c_members := c_members (w_db w) @ ms\<rparr>"
proof (cases existing)
  case None
  then show ?thesis using assms that by (auto elim: get_or_create_cluster_keeps)
next
  case (Some c)
  then show ?thesis using assms that [of c "[]" "[]"] by (auto simp: ret_def)
qed

lemma execute_create_Inr:
  assumes "execute_create_database env job w = (Inr res, w')"
    and "map_of (jb_payload job) ''database_id'' = Some i"
    and "tget db_id (c_databases (w_db w)) i = Some d"
    and "\<not> (db_status d = DB_RUNNING \<and> db_cluster_id d \<noteq> None)"
  obtains region node existing where "tget rg_id (c_regions (w_db w)) (db_region_id d) = Some region"
    "select_node_and_cluster (e_now env) (w_db w) (rg_code region) (db_isolation_level d)
       (db_cpu_limit d) (db_ram_limit_mb d) (db_storage_limit_gb d) = Inr (node, existing)"
    "provision_database env job d (rg_id region) node existing w = (Inr res, w')"
  using assms unfolding execute_create_database_def
  by (elim bind_cases) (auto simp: effect_simps split: if_splits option.splits elim!: bind_cases)

lemma provision_Inr:
  assumes "provision_database env job d rid node existing w = (Inr res, w')"
  obtains c cid where
    "w_calls w' = w_calls w @ [(nd_id node, ProvisionDatabase (db_physical_name d) (owner_role d) (e_token env))]"
    "c_databases (w_db w') = tset db_id (d\<lparr>db_cluster_id := Some c, db_connection_host := nd_ip_address node,
        db_connection_port := Some (nd_postgres_port node), db_status := DB_RUNNING\<rparr>) (c_databases (w_db w))"
    "c_credentials (w_db w') = c_credentials (w_db w) @
       [\<lparr>cr_id = cid, cr_database_id = db_id d, cr_role_name = owner_role d, cr_display_name = None,
         cr_is_primary = True, cr_encrypted_password = e_encrypt env (e_token env), cr_scope = SC_APP, cr_rotated_at = None\<rparr>]"
  using assms unfolding provision_database_def
  by (elim bind_cases, simp_all add: effect_simps, elim existing_or_created)
     (auto simp: add_credential_Inr call_agent_Inr dest!: emit_event_keeps)

text \<open>C34: Creating a database that is not placed yet either fails or ends with it running on one
  healthy node of its region that had room for it: exactly one call was made, asking that node's agent
  to provision the database for its owner role, the row points at the node, and the password the
  agent was given is the one stored, encrypted, in the owner's credential.\<close>

theorem create_database_placed:
  assumes "execute_create_database env job w = (Inr res, w')"
    and "map_of (jb_payload job) ''database_id'' = Some i"
    and d: "tget db_id (c_databases (w_db w)) i = Some d"
    and "\<not> (db_status d = DB_RUNNING \<and> db_cluster_id d \<noteq> None)"
    and "distinct (map rg_code (c_regions (w_db w)))"
  shows "\<exists>node c cid. placed_on env (w_db w) d node \<and>
     w_calls w' = w_calls w @ [(nd_id node, ProvisionDatabase (db_physical_name d) (owner_role d) (e_token env))] \<and>
     tget db_id (c_databases (w_db w')) i = Some (d\<lparr>db_cluster_id := Some c, db_connection_host := nd_ip_address node,
        db_connection_port := Some (nd_postgres_port node), db_status := DB_RUNNING\<rparr>) \<and>
     c_credentials (w_db w') = c_credentials (w_db w) @
       [\<lparr>cr_id = cid, cr_database_id = i, cr_role_name = owner_role d, cr_display_name = None,
         cr_is_primary = True, cr_encrypted_password = e_encrypt env (e_token env), cr_scope = SC_APP, cr_rotated_at = None\<rparr>]"
proof -
  obtain region node existing where r: "tget rg_id (c_regions (w_db w)) (db_region_id d) = Some region"
    and s: "select_node_and_cluster (e_now env) (w_db w) (rg_code region) (db_isolation_level d)
       (db_cpu_limit d) (db_ram_limit_mb d) (db_storage_limit_gb d) = Inr (node, existing)"
    and p: "provision_database env job d (rg_id region) node existing w = (Inr res, w')"
    using assms(1-4) by (rule execute_create_Inr)
  have i: "db_id d = i" using d by (rule tget_key)
  from p obtain c cid where "w_calls w' = w_calls w @ [(nd_id node, ProvisionDatabase (db_physical_name d) (owner_role d) (e_token env))]"
    and db: "c_databases (w_db w') = tset db_id (d\<lparr>db_cluster_id := Some c, db_connection_host := nd_ip_address node,
        db_connection_port := Some (nd_postgres_port node), db_status := DB_RUNNING\<rparr>) (c_databases (w_db w))"
    and "c_credentials (w_db w') = c_credentials (w_db w) @
       [\<lparr>cr_id = cid, cr_database_id = db_id d, cr_role_name = owner_role d, cr_display_name = None,
         cr_is_primary = True, cr_encrypted_password = e_encrypt env (e_token env), cr_scope = SC_APP, cr_rotated_at = None\<rparr>]"
    by (rule provision_Inr)
  moreover have "placed_on env (w_db w) d node" using select_placed s assms(5) r by blast
  moreover have "tget db_id (c_databases (w_db w')) i = Some (d\<lparr>db_cluster_id := Some c,
      db_connection_host := nd_ip_address node, db_connection_port := Some (nd_postgres_port node), db_status := DB_RUNNING\<rparr>)"
    using db d i by (simp add: tget_tset)
  ultimately show ?thesis using i by blast
qed

definition demo_creating :: cp_world where
  "demo_creating = world_of (demo_cp\<lparr>c_nodes := [demo_node 11 4 1000], c_databases := [demo_database 41 DB_CREATING None]\<rparr>) 100"

theorem create_database_placed_witness:
  "\<exists>res w' c. execute_create_database (calm_env 2000) (demo_job ''create_database'' [(''database_id'', 41)]) demo_creating = (Inr res, w') \<and>
     tget db_id (c_databases (w_db w')) 41 = Some ((demo_database 41 DB_RUNNING (Some c)))"
proof -
  have "is_ok (fst (execute_create_database (calm_env 2000) (demo_job ''create_database'' [(''database_id'', 41)]) demo_creating))"
    by code_simp
  then obtain res w' where run: "execute_create_database (calm_env 2000) (demo_job ''create_database'' [(''database_id'', 41)])
      demo_creating = (Inr res, w')"
    by (metis is_ok_ex prod.collapse)
  have d: "tget db_id (c_databases (w_db demo_creating)) 41 = Some (demo_database 41 DB_CREATING None)"
    and n: "c_nodes (w_db demo_creating) = [demo_node 11 4 1000]"
    and rg: "distinct (map rg_code (c_regions (w_db demo_creating)))"
    by (simp_all add: demo_creating_def world_of_def demo_cp_def empty_cp_def demo_database_def tget_def)
  have p: "map_of (jb_payload (demo_job ''create_database'' [(''database_id'', 41)])) ''database_id'' = Some 41"
    by (simp add: demo_job_def new_job_def)
  from create_database_placed [OF run p d _ rg] obtain node c where "placed_on (calm_env 2000) (w_db demo_creating) (demo_database 41 DB_CREATING None) node"
    and t: "tget db_id (c_databases (w_db w')) 41 = Some ((demo_database 41 DB_CREATING None)\<lparr>db_cluster_id := Some c,
      db_connection_host := nd_ip_address node, db_connection_port := Some (nd_postgres_port node), db_status := DB_RUNNING\<rparr>)"
    by (auto simp: demo_database_def)
  then have "node = demo_node 11 4 1000" using n by (simp add: placed_on_def)
  then show ?thesis using run t by (auto simp: demo_database_def demo_node_def)
qed

end
