(* ===== verification/CP_Backups.thy ===== *)
theory CP_Backups
  imports CP_Orchestrator
begin

text \<open>
  Backup, restore and verification jobs, \<open>src/backend/app/services/backup_orchestrator.py\<close>.
\<close>

definition backup_storage_key :: "uid \<Rightarrow> uid \<Rightarrow> string" where
  "backup_storage_key database_id backup_id =
     ''backups/'' @ nat_string database_id @ ''/'' @ nat_string backup_id @ ''.dump.enc''"

definition get_backup :: "uid \<Rightarrow> backup option cpm" where
  "get_backup i = query (\<lambda>db. tget bk_id (c_backups db) i)"

definition put_backup :: "backup \<Rightarrow> unit cpm" where
  "put_backup b = modify (\<lambda>db. db\<lparr>c_backups := tset bk_id b (c_backups db)\<rparr>)"

text \<open>A backup as the scheduler and the API create it.\<close>

definition new_backup :: "instant \<Rightarrow> uid \<Rightarrow> uid \<Rightarrow> backup_type \<Rightarrow> backup" where
  "new_backup now i database_id ty =
     \<lparr>bk_id = i, bk_database_id = database_id, bk_type = ty, bk_status = BK_PENDING,
      bk_storage_key = backup_storage_key database_id i, bk_size_bytes = None, bk_error = None, bk_started_at = None,
      bk_completed_at = None, bk_verified_at = None, bk_verification_detail = None, bk_created_at = now\<rparr>"

text \<open>The fields of a JSON response; a missing one is a \<open>KeyError\<close>.\<close>

definition size_bytes_of :: "agent_response \<Rightarrow> int cpm" where
  "size_bytes_of resp = (case resp of SizeBytes n \<Rightarrow> ret n | _ \<Rightarrow> raise CP_KeyError)"

definition verification_of :: "agent_response \<Rightarrow> (bool \<times> string) cpm" where
  "verification_of resp = (case resp of Verified ok detail \<Rightarrow> ret (ok, detail) | _ \<Rightarrow> raise CP_KeyError)"

definition backable_node :: "backup \<Rightarrow> (database \<times> node) cpm" where
  "backable_node backup =
     bindM (get_database (bk_database_id backup)) (\<lambda>found.
     bindM (the_or CP_RuntimeError found) (\<lambda>database.
     bindM (ensure (db_cluster_id database \<noteq> None) CP_RuntimeError) (\<lambda>_.
     bindM (get_primary_node (db_cluster_id database)) (\<lambda>node.
     ret (database, node)))))"

definition execute_backup_database :: "cp_env \<Rightarrow> job \<Rightarrow> jdata cpm" where
  "execute_backup_database env job =
     bindM (payload_id ''backup_id'' job) (\<lambda>backup_id.
     bindM (get_backup backup_id) (\<lambda>found.
     bindM (the_or CP_RuntimeError found) (\<lambda>backup.
     if bk_status backup \<in> {BK_COMPLETED, BK_VERIFIED} then ret [(''already_completed'', ''true'')]
     else
       bindM (backable_node backup) (\<lambda>(database, node).
       bindM (put_backup (backup\<lparr>bk_started_at := Some (e_now env)\<rparr>)) (\<lambda>_.
       bindM (call_agent env node (BackupDatabase (db_physical_name database) (bk_storage_key backup))) (\<lambda>resp.
       bindM (put_backup (backup\<lparr>bk_started_at := Some (e_now env), bk_status := BK_COMPLETED\<rparr>)) (\<lambda>_.
       bindM (size_bytes_of resp) (\<lambda>size.
       bindM (put_backup (backup\<lparr>bk_started_at := Some (e_now env), bk_status := BK_COMPLETED, bk_size_bytes := Some size,
                bk_completed_at := Some (e_now env)\<rparr>)) (\<lambda>_.
       bindM (emit_event env (jb_organization_id job) ''backup.completed'' [(''backup_id'', nat_string (bk_id backup))]) (\<lambda>_.
       ret [(''size_bytes'', int_string size)]))))))))))"

text \<open>From the placement decision on, as for a new database but from a dump.\<close>

definition restore_target ::
    "cp_env \<Rightarrow> job \<Rightarrow> database \<Rightarrow> backup \<Rightarrow> uid \<Rightarrow> node \<Rightarrow> cluster option \<Rightarrow> jdata cpm" where
  "restore_target env job target backup region_id node existing =
     bindM (case existing of
              Some c \<Rightarrow> ret c
            | None \<Rightarrow> create_cluster node region_id (db_isolation_level target = SHARED)) (\<lambda>cluster.
     bindM (put_database (target\<lparr>db_cluster_id := Some (cl_id cluster)\<rparr>)) (\<lambda>_.
     bindM (call_agent env node (RestoreDatabase (db_physical_name target) (bk_storage_key backup)
              (owner_role target) (e_token env))) (\<lambda>_.
     bindM (add_credential (db_id target) (owner_role target) None (e_encrypt env (e_token env)) SC_APP True) (\<lambda>_.
     bindM (put_database (target\<lparr>db_cluster_id := Some (cl_id cluster), db_connection_host := nd_ip_address node,
              db_connection_port := Some (nd_postgres_port node), db_status := DB_RUNNING\<rparr>)) (\<lambda>_.
     bindM (add_database_event (db_id target) (jb_id job) ''DATABASE_RESTORED''
              [(''backup_id'', nat_string (bk_id backup)), (''node_id'', nat_string (nd_id node))]) (\<lambda>_.
     bindM (emit_event env (jb_organization_id job) ''restore.completed''
              [(''database_id'', nat_string (db_id target)), (''backup_id'', nat_string (bk_id backup))]) (\<lambda>_.
     ret [(''node_id'', nat_string (nd_id node)), (''cluster_id'', nat_string (cl_id cluster))])))))))"

definition execute_restore_database :: "cp_env \<Rightarrow> job \<Rightarrow> jdata cpm" where
  "execute_restore_database env job =
     bindM (payload_id ''database_id'' job) (\<lambda>database_id.
     bindM (get_database database_id) (\<lambda>found.
     bindM (the_or CP_RuntimeError found) (\<lambda>target.
     if db_status target = DB_RUNNING \<and> db_cluster_id target \<noteq> None then ret [(''already_running'', ''true'')]
     else
       bindM (payload_id ''backup_id'' job) (\<lambda>backup_id.
       bindM (get_backup backup_id) (\<lambda>bk.
       bindM (the_or CP_RuntimeError bk) (\<lambda>backup.
       bindM (ensure (bk_status backup \<in> {BK_COMPLETED, BK_VERIFIED}) CP_RuntimeError) (\<lambda>_.
       bindM (query (\<lambda>db. tget rg_id (c_regions db) (db_region_id target))) (\<lambda>reg.
       bindM (the_or CP_RuntimeError reg) (\<lambda>region.
       bindM (query_exn (\<lambda>db. select_node_and_cluster (e_now env) db (rg_code region) (db_isolation_level target)
                (db_cpu_limit target) (db_ram_limit_mb target) (db_storage_limit_gb target))) (\<lambda>decision.
       restore_target env job target backup (rg_id region) (fst decision) (snd decision)))))))))))"

definition execute_verify_backup :: "cp_env \<Rightarrow> job \<Rightarrow> jdata cpm" where
  "execute_verify_backup env job =
     bindM (payload_id ''backup_id'' job) (\<lambda>backup_id.
     bindM (get_backup backup_id) (\<lambda>found.
     bindM (the_or CP_RuntimeError found) (\<lambda>backup.
     if bk_status backup \<notin> {BK_COMPLETED, BK_VERIFIED} then ret [(''skipped'', ''true'')]
     else
       bindM (backable_node backup) (\<lambda>(database, node).
       bindM (call_agent env node (VerifyBackup (bk_storage_key backup))) (\<lambda>resp.
       bindM (put_backup (backup\<lparr>bk_verified_at := Some (e_now env)\<rparr>)) (\<lambda>_.
       bindM (verification_of resp) (\<lambda>(ok, detail).
       bindM (put_backup (backup\<lparr>bk_verified_at := Some (e_now env), bk_verification_detail := Some detail,
                bk_status := (if ok then BK_VERIFIED else BK_VERIFICATION_FAILED)\<rparr>)) (\<lambda>_.
       ret [(''verified'', if ok then ''true'' else ''false'')]))))))))"

section \<open>Outcomes\<close>

lemma get_backup_eq [effect_simps]:
  "get_backup i w = (r, w') \<longleftrightarrow> r = Inr (tget bk_id (c_backups (w_db w)) i) \<and> w' = w"
  by (auto simp: get_backup_def effect_simps)

lemma put_backup_eq [effect_simps]:
  "put_backup b w = (r, w') \<longleftrightarrow>
     r = Inr () \<and> w' = w\<lparr>w_db := (w_db w)\<lparr>c_backups := tset bk_id b (c_backups (w_db w))\<rparr>\<rparr>"
  by (auto simp: put_backup_def effect_simps)

lemma size_bytes_of_same: "size_bytes_of resp w = (r, w') \<Longrightarrow> w' = w"
  by (auto simp: size_bytes_of_def effect_simps split: agent_response.splits)

lemma verification_of_Inr: "verification_of resp w = (Inr p, w') \<longleftrightarrow> resp = Verified (fst p) (snd p) \<and> w' = w"
  by (cases p) (auto simp: verification_of_def effect_simps split: agent_response.splits)

lemma backable_node_same: "backable_node b w = (r, w') \<Longrightarrow> w' = w"
  by (auto simp: backable_node_def effect_simps elim!: bind_cases dest!: get_primary_node_same)

lemma add_credential_keeps:
  "add_credential i role disp enc scope prim w = (r, w') \<Longrightarrow> w_calls w' = w_calls w \<and> w_committed w' = w_committed w"
  by (auto simp: add_credential_def effect_simps elim!: bind_cases)

lemma existing_or_new_cluster:
  assumes "(case existing of Some c \<Rightarrow> ret c | None \<Rightarrow> create_cluster node rid sh) w = (r, w')"
  shows "w_calls w' = w_calls w \<and> w_committed w' = w_committed w"
  using assms by (auto simp: create_cluster_def effect_simps split: option.splits elim!: bind_cases)

lemma restore_target_calls:
  assumes "restore_target env job t b rid node existing w = (r, w')"
  shows "\<exists>calls. w_calls w' = w_calls w @ calls \<and>
     set calls \<subseteq> {(nd_id node, RestoreDatabase (db_physical_name t) (bk_storage_key b) (owner_role t) (e_token env))}"
  using assms unfolding restore_target_def
  by (elim bind_cases)
     (auto simp: effect_simps dest!: existing_or_new_cluster call_agent_eq add_credential_keeps emit_event_keeps)

text \<open>The call restores a known database from a backup whose dump exists.\<close>

definition restores_completed :: "cp_env \<Rightarrow> cp_db \<Rightarrow> agent_call \<Rightarrow> bool" where
  "restores_completed env db c \<longleftrightarrow>
     (\<exists>t b n. c = (n, RestoreDatabase (db_physical_name t) (bk_storage_key b) (owner_role t) (e_token env)) \<and>
        t \<in> set (c_databases db) \<and> b \<in> set (c_backups db) \<and> bk_status b \<in> {BK_COMPLETED, BK_VERIFIED})"

text \<open>Only a backup whose dump was written is ever restored: whatever happens during a restore
  job, the only request it can send to an agent is to restore, on the node the placement chose, the
  dump of a backup that is completed or verified; a pending, failed, unverifiable or purged backup
  reaches no agent.\<close>

theorem restore_only_completed:
  assumes "execute_restore_database env job w = (r, w')"
  shows "\<exists>calls. w_calls w' = w_calls w @ calls \<and> (\<forall>c\<in>set calls. restores_completed env (w_db w) c)"
proof -
  from assms consider "w' = w"
    | (run) t b rid node existing where "restore_target env job t b rid node existing w = (r, w')"
        "t \<in> set (c_databases (w_db w))" "b \<in> set (c_backups (w_db w))" "bk_status b \<in> {BK_COMPLETED, BK_VERIFIED}"
    unfolding execute_restore_database_def
    by (elim bind_cases)
       (auto simp: effect_simps split: if_splits option.splits elim!: bind_cases dest!: tget_in)
  then show ?thesis
  proof cases
    case run
    then show ?thesis using restore_target_calls [OF run(1)] unfolding restores_completed_def by fast
  qed (intro exI [of _ "[]"], simp)
qed

definition demo_backup :: "uid \<Rightarrow> backup_type \<Rightarrow> backup_status \<Rightarrow> instant \<Rightarrow> backup" where
  "demo_backup i ty st t = \<lparr>bk_id = i, bk_database_id = 40, bk_type = ty, bk_status = st, bk_storage_key = ''k'',
     bk_size_bytes = None, bk_error = None, bk_started_at = None, bk_completed_at = None, bk_verified_at = None,
     bk_verification_detail = None, bk_created_at = t\<rparr>"

definition demo_restoring :: cp_world where
  "demo_restoring = world_of (demo_cp\<lparr>c_nodes := [demo_node 11 4 1000], c_databases := [demo_database 41 DB_RESTORING None],
     c_backups := [demo_backup 70 MANUAL BK_VERIFIED 0]\<rparr>) 100"

definition demo_restore :: "(cp_exn + jdata) \<times> cp_world" where
  "demo_restore = execute_restore_database (calm_env 2000)
     (demo_job ''restore_database'' [(''database_id'', 41), (''backup_id'', 70)]) demo_restoring"

theorem restore_only_completed_witness:
  "is_ok (fst demo_restore) \<and> length (w_calls (snd demo_restore)) = 1 \<and>
   list_all (restores_completed (calm_env 2000) (w_db demo_restoring)) (w_calls (snd demo_restore))"
proof -
  have ok: "is_ok (fst demo_restore) \<and> length (w_calls (snd demo_restore)) = 1" by code_simp
  have run: "execute_restore_database (calm_env 2000)
     (demo_job ''restore_database'' [(''database_id'', 41), (''backup_id'', 70)]) demo_restoring =
     (fst demo_restore, snd demo_restore)"
    unfolding demo_restore_def by (rule prod.collapse [symmetric])
  have start: "w_calls demo_restoring = []" by (simp add: demo_restoring_def world_of_def)
  show ?thesis using ok restore_only_completed [OF run] unfolding start append_Nil list_all_iff by blast
qed

end
