(* ===== verification/CP_HA.thy ===== *)
theory CP_HA
  imports CP_Orchestrator
begin

text \<open>
  Replicas and failover, \<open>src/backend/app/services/ha_orchestrator.py\<close>.
\<close>

section \<open>The operations\<close>

definition replication_of :: "agent_response \<Rightarrow> string option \<times> int option" where
  "replication_of resp = (case resp of Replication role lag \<Rightarrow> (role, lag) | _ \<Rightarrow> (None, None))"

definition get_member_replication_status :: "cp_env \<Rightarrow> node \<Rightarrow> (string option \<times> int option) cpm" where
  "get_member_replication_status env node =
     bindM (call_agent env node ReplicationStatus) (\<lambda>resp. ret (replication_of resp))"

definition add_cluster_event :: "uid \<Rightarrow> string \<Rightarrow> jdata \<Rightarrow> unit cpm" where
  "add_cluster_event cluster_id event_type data = modify (\<lambda>db. db\<lparr>c_cluster_events := c_cluster_events db @
     [\<lparr>ce_cluster_id = cluster_id, ce_event_type = event_type, ce_data = data\<rparr>]\<rparr>)"

definition maybe :: "('a \<Rightarrow> string) \<Rightarrow> 'a option \<Rightarrow> string" where
  "maybe f x = (case x of None \<Rightarrow> ''null'' | Some y \<Rightarrow> f y)"

definition add_replica :: "cp_env \<Rightarrow> cluster \<Rightarrow> node \<Rightarrow> cluster_member cpm" where
  "add_replica env cluster node =
     bindM (get_member_replication_status env node) (\<lambda>status.
     bindM (ensure (fst status = Some ''standby'') CP_ValueError) (\<lambda>_.
     bindM uuid4 (\<lambda>i.
     case \<lparr>cm_id = i, cm_cluster_id = cl_id cluster, cm_node_id = nd_id node, cm_role = REPLICA,
           cm_replication_lag_bytes = snd status, cm_promoted_at = None\<rparr> of member \<Rightarrow>
     bindM (modify (\<lambda>db. db\<lparr>c_members := c_members db @ [member]\<rparr>)) (\<lambda>_.
     bindM (add_cluster_event (cl_id cluster) ''REPLICA_ATTACHED''
              [(''node_id'', nat_string (nd_id node)), (''lag_bytes'', maybe int_string (snd status))]) (\<lambda>_.
     ret member)))))"

text \<open>A status request that treats an unreachable node as no answer.\<close>

definition probe :: "cp_env \<Rightarrow> node \<Rightarrow> (string option \<times> int option) option cpm" where
  "probe env node w =
     (case get_member_replication_status env node w of (r, w') \<Rightarrow>
        (case r of Inl AgentUnreachable \<Rightarrow> Inr None | Inl e \<Rightarrow> Inl e | Inr s \<Rightarrow> Inr (Some s), w'))"

definition put_member :: "cluster_member \<Rightarrow> unit cpm" where
  "put_member m = modify (\<lambda>db. db\<lparr>c_members := tset cm_id m (c_members db)\<rparr>)"

fun refresh_members :: "cp_env \<Rightarrow> cluster_member list \<Rightarrow> unit cpm" where
  "refresh_members env [] = ret ()"
| "refresh_members env (member # members) =
     bindM (get_node (cm_node_id member)) (\<lambda>n.
     bindM (the_or CP_AttributeError n) (\<lambda>node.
     bindM (probe env node) (\<lambda>status.
     bindM (case status of
              Some (Some role, lag) \<Rightarrow>
                if role = ''standby'' then put_member (member\<lparr>cm_replication_lag_bytes := lag\<rparr>) else ret ()
            | _ \<Rightarrow> ret ()) (\<lambda>_.
     refresh_members env members))))"

definition cluster_members :: "uid \<Rightarrow> cp_db \<Rightarrow> cluster_member list" where
  "cluster_members cluster_id db = filter (\<lambda>m. cm_cluster_id m = cluster_id) (c_members db)"

definition refresh_replica_lag :: "cp_env \<Rightarrow> cluster \<Rightarrow> unit cpm" where
  "refresh_replica_lag env cluster =
     bindM (query (\<lambda>db. filter (\<lambda>m. cm_role m = REPLICA) (cluster_members (cl_id cluster) db))) (refresh_members env)"

fun probe_replicas :: "cp_env \<Rightarrow> cluster_member list \<Rightarrow> (cluster_member \<times> node \<times> int) list cpm" where
  "probe_replicas env [] = ret []"
| "probe_replicas env (member # members) =
     bindM (get_node (cm_node_id member)) (\<lambda>n.
     bindM (the_or CP_AttributeError n) (\<lambda>node.
     bindM (probe env node) (\<lambda>status.
     case status of
       None \<Rightarrow> probe_replicas env members
     | Some (role, lag) \<Rightarrow>
         if role \<noteq> Some ''standby'' then probe_replicas env members
         else bindM (probe_replicas env members) (\<lambda>rest.
              ret ((member, node, case lag of None \<Rightarrow> 0 | Some l \<Rightarrow> l) # rest)))))"

definition freshest :: "(cluster_member \<times> node \<times> int) list \<Rightarrow> (cluster_member \<times> node \<times> int) cpm" where
  "freshest cands = (case sort_key (\<lambda>c. snd (snd c)) cands of
     [] \<Rightarrow> raise NoHealthyReplica | c # _ \<Rightarrow> ret c)"

definition repoint :: "uid \<Rightarrow> node \<Rightarrow> database \<Rightarrow> database" where
  "repoint cluster_id node d =
     (if db_cluster_id d = Some cluster_id \<and> db_status d = DB_RUNNING
      then d\<lparr>db_connection_host := nd_ip_address node, db_connection_port := Some (nd_postgres_port node)\<rparr> else d)"

definition affected :: "uid \<Rightarrow> cp_db \<Rightarrow> database list" where
  "affected cluster_id db = filter (\<lambda>d. db_cluster_id d = Some cluster_id \<and> db_status d = DB_RUNNING) (c_databases db)"

definition comma :: "string list \<Rightarrow> string" where
  "comma xs = concat (map (\<lambda>x. x @ '','') xs)"

text \<open>From the promotion on: the roles, the pointers of the databases and the event.\<close>

definition record_failover ::
    "cp_env \<Rightarrow> uid \<Rightarrow> cluster_member option \<Rightarrow> cluster_member \<Rightarrow> node \<Rightarrow> int \<Rightarrow> bool \<Rightarrow> nat cpm" where
  "record_failover env cluster_id old chosen node lag automatic =
     bindM (put_member (chosen\<lparr>cm_role := PRIMARY, cm_promoted_at := Some (e_now env), cm_replication_lag_bytes := None\<rparr>)) (\<lambda>_.
     bindM (case old of
              None \<Rightarrow> ret ()
            | Some p \<Rightarrow> modify (\<lambda>db. db\<lparr>c_members := tdel cm_id (cm_id p) (c_members db)\<rparr>)) (\<lambda>_.
     bindM (query (affected cluster_id)) (\<lambda>databases.
     bindM (modify (\<lambda>db. db\<lparr>c_databases := map (repoint cluster_id node) (c_databases db)\<rparr>)) (\<lambda>_.
     bindM (add_cluster_event cluster_id ''FAILOVER_COMPLETED''
       [(''automatic'', if automatic then ''true'' else ''false''), (''promoted_node_id'', nat_string (nd_id node)),
        (''promoted_member_id'', nat_string (cm_id chosen)),
        (''previous_primary_node_id'', maybe (\<lambda>p. nat_string (cm_node_id p)) old),
        (''chosen_lag_bytes'', int_string lag),
        (''databases_repointed'', comma (map (\<lambda>d. nat_string (db_id d)) databases))]) (\<lambda>_.
     ret (length databases))))))"

definition execute_failover :: "cp_env \<Rightarrow> uid \<Rightarrow> bool \<Rightarrow> (uid \<times> nat) cpm" where
  "execute_failover env cluster_id automatic =
     bindM (query (\<lambda>db. tget cl_id (c_clusters db) cluster_id)) (\<lambda>c.
     bindM (the_or CP_ValueError c) (\<lambda>_.
     bindM (query (cluster_members cluster_id)) (\<lambda>members.
     bindM (ensure (filter (\<lambda>m. cm_role m = REPLICA) members \<noteq> []) NoHealthyReplica) (\<lambda>_.
     bindM (probe_replicas env (filter (\<lambda>m. cm_role m = REPLICA) members)) (\<lambda>cands.
     bindM (freshest cands) (\<lambda>(chosen, node, lag).
     bindM (call_agent env node PromoteReplica) (\<lambda>_.
     bindM (record_failover env cluster_id (find (\<lambda>m. cm_role m = PRIMARY) members) chosen node lag automatic) (\<lambda>repointed.
     ret (nd_id node, repointed)))))))))"

section \<open>Outcomes\<close>

lemma get_status_keeps:
  "get_member_replication_status env node w = (r, w') \<Longrightarrow>
     w_db w' = w_db w \<and> w_committed w' = w_committed w \<and> w_next w' = w_next w"
  by (auto simp: get_member_replication_status_def effect_simps elim!: bind_cases dest!: call_agent_keeps)

lemma probe_keeps:
  "probe env node w = (r, w') \<Longrightarrow> w_db w' = w_db w \<and> w_committed w' = w_committed w \<and> w_next w' = w_next w"
  by (auto simp: probe_def split: prod.splits dest!: get_status_keeps)

lemma probe_replicas_keeps:
  "probe_replicas env ms w = (r, w') \<Longrightarrow> w_db w' = w_db w \<and> w_committed w' = w_committed w"
proof (induction ms arbitrary: w r w')
  case (Cons m ms)
  from Cons.prems show ?case
    unfolding probe_replicas.simps
    by (elim bind_cases) (auto simp: effect_simps split: option.splits if_splits elim!: bind_cases
        dest!: probe_keeps Cons.IH)
qed (simp add: effect_simps)

lemma probe_replicas_Inr:
  "probe_replicas env ms w = (Inr cs, w') \<Longrightarrow>
     \<forall>(m, n, lag)\<in>set cs. m \<in> set ms \<and> tget nd_id (c_nodes (w_db w)) (cm_node_id m) = Some n"
proof (induction ms arbitrary: w cs w')
  case (Cons m ms)
  from Cons.prems obtain n st v where n: "tget nd_id (c_nodes (w_db w)) (cm_node_id m) = Some n"
    and p: "probe env n w = (Inr st, v)"
    and rest: "(case st of None \<Rightarrow> probe_replicas env ms
        | Some (role, lag) \<Rightarrow> if role \<noteq> Some ''standby'' then probe_replicas env ms
            else bindM (probe_replicas env ms) (\<lambda>rest. ret ((m, n, case lag of None \<Rightarrow> 0 | Some l \<Rightarrow> l) # rest))) v = (Inr cs, w')"
    unfolding probe_replicas.simps
    by (elim bind_cases) (auto simp: effect_simps split: option.splits)
  have v: "w_db v = w_db w" using probe_keeps [OF p] by simp
  obtain cs' u where IH: "probe_replicas env ms v = (Inr cs', u)" and cs: "set cs \<subseteq> {(m, n, lag) | lag. True} \<union> set cs'"
    using rest by (auto simp: effect_simps split: option.splits if_splits elim!: bind_cases)
  from Cons.IH [OF IH] cs v n show ?case by fastforce
qed (simp add: effect_simps)

lemma freshest_Inr:
  assumes "freshest cs w = (Inr c, w')"
  shows "c \<in> set cs \<and> (\<forall>c'\<in>set cs. snd (snd c) \<le> snd (snd c')) \<and> w' = w"
proof -
  from assms obtain rest where "sort_key (\<lambda>c. snd (snd c)) cs = c # rest" "w' = w"
    by (auto simp: freshest_def effect_simps split: list.splits)
  then show ?thesis using sort_key_head [of "\<lambda>c. snd (snd c)" cs c rest] by simp
qed

lemma freshest_same: "freshest cs w = (r, w') \<Longrightarrow> w' = w"
  by (auto simp: freshest_def effect_simps split: list.splits)

lemma record_failover_result:
  assumes "record_failover env cid old chosen node lag auto w = (r, w')"
  shows "r = Inr (length (affected cid (w_db w))) \<and> w_calls w' = w_calls w \<and> w_committed w' = w_committed w \<and>
    c_databases (w_db w') = map (repoint cid node) (c_databases (w_db w)) \<and>
    c_members (w_db w') = (case old of None \<Rightarrow> id | Some p \<Rightarrow> tdel cm_id (cm_id p))
      (tset cm_id (chosen\<lparr>cm_role := PRIMARY, cm_promoted_at := Some (e_now env), cm_replication_lag_bytes := None\<rparr>) (c_members (w_db w)))"
  using assms unfolding record_failover_def
  by (elim bind_cases) (auto simp: effect_simps put_member_def add_cluster_event_def affected_def split: option.splits)

section \<open>Failover\<close>

text \<open>A node's status does not depend on when it is asked for.\<close>

definition steady :: "cp_env \<Rightarrow> bool" where
  "steady env \<longleftrightarrow> (\<forall>calls n. e_agent env calls (n, ReplicationStatus) = e_agent env [] (n, ReplicationStatus))"

text \<open>The lag of a node that answers as a standby.\<close>

definition standby_lag :: "cp_env \<Rightarrow> node \<Rightarrow> int option" where
  "standby_lag env n =
     (case nd_ip_address n of None \<Rightarrow> None | Some ip \<Rightarrow>
        if ip = [] then None
        else case e_agent env [] (nd_id n, ReplicationStatus) of
               Inl _ \<Rightarrow> None
             | Inr resp \<Rightarrow> if fst (replication_of resp) = Some ''standby''
                          then Some (case snd (replication_of resp) of None \<Rightarrow> 0 | Some l \<Rightarrow> l) else None)"

lemma probe_steady:
  assumes "steady env" and "probe env n w = (Inr st, v)"
  shows "standby_lag env n = (case st of None \<Rightarrow> None | Some (role, lag) \<Rightarrow>
     if role = Some ''standby'' then Some (case lag of None \<Rightarrow> 0 | Some l \<Rightarrow> l) else None)"
proof -
  have "e_agent env (w_calls w) (nd_id n, ReplicationStatus) = e_agent env [] (nd_id n, ReplicationStatus)"
    using assms(1) unfolding steady_def by blast
  with assms(2) show ?thesis
    by (auto simp: probe_def get_member_replication_status_def call_agent_def standby_lag_def ret_def
        split: option.splits if_splits sum.splits agent_failure.splits prod.splits cp_exn.splits)
qed

lemma probe_replicas_set:
  assumes "steady env" and "probe_replicas env ms w = (Inr cs, w')"
  shows "set cs = {(m, n, lag). m \<in> set ms \<and> tget nd_id (c_nodes (w_db w)) (cm_node_id m) = Some n \<and> standby_lag env n = Some lag}"
  using assms(2)
proof (induction ms arbitrary: w cs w')
  case (Cons m ms)
  from Cons.prems obtain n st v where n: "tget nd_id (c_nodes (w_db w)) (cm_node_id m) = Some n"
    and p: "probe env n w = (Inr st, v)"
    and rest: "(case st of None \<Rightarrow> probe_replicas env ms
        | Some (role, lag) \<Rightarrow> if role \<noteq> Some ''standby'' then probe_replicas env ms
            else bindM (probe_replicas env ms) (\<lambda>rest. ret ((m, n, case lag of None \<Rightarrow> 0 | Some l \<Rightarrow> l) # rest))) v = (Inr cs, w')"
    unfolding probe_replicas.simps
    by (elim bind_cases) (auto simp: effect_simps split: option.splits)
  have v: "w_db v = w_db w" using probe_keeps [OF p] by simp
  obtain cs' u where IH: "probe_replicas env ms v = (Inr cs', u)"
    and cs: "set cs = (case standby_lag env n of None \<Rightarrow> {} | Some lag \<Rightarrow> {(m, n, lag)}) \<union> set cs'"
    using rest probe_steady [OF assms(1) p]
    by (auto simp: effect_simps split: option.splits if_splits elim!: bind_cases)
  from Cons.IH [OF IH] cs v n show ?case by (auto split: option.splits)
qed (simp add: effect_simps)

lemma execute_failover_Inr:
  assumes "execute_failover env cid auto w = (Inr (promoted, k), w')"
  obtains cs v chosen node lag where
    "probe_replicas env (filter (\<lambda>m. cm_role m = REPLICA) (cluster_members cid (w_db w))) w = (Inr cs, v)"
    "(chosen, node, lag) \<in> set cs" "\<forall>c\<in>set cs. lag \<le> snd (snd c)" "promoted = nd_id node"
    "k = length (affected cid (w_db w))"
    "(nd_id node, PromoteReplica) \<in> set (w_calls w')"
    "c_databases (w_db w') = map (repoint cid node) (c_databases (w_db w))"
    "c_members (w_db w') = (case find (\<lambda>m. cm_role m = PRIMARY) (cluster_members cid (w_db w)) of None \<Rightarrow> id | Some p \<Rightarrow> tdel cm_id (cm_id p))
      (tset cm_id (chosen\<lparr>cm_role := PRIMARY, cm_promoted_at := Some (e_now env), cm_replication_lag_bytes := None\<rparr>) (c_members (w_db w)))"
proof -
  define old where "old = find (\<lambda>m. cm_role m = PRIMARY) (cluster_members cid (w_db w))"
  from assms obtain cs v chosen node lag x u y where
    p: "probe_replicas env (filter (\<lambda>m. cm_role m = REPLICA) (cluster_members cid (w_db w))) w = (Inr cs, v)"
    and f: "freshest cs v = (Inr (chosen, node, lag), y)"
    and a: "call_agent env node PromoteReplica y = (Inr x, u)"
    and r: "record_failover env cid old chosen node lag auto u = (Inr k, w')"
    and node: "promoted = nd_id node"
    unfolding execute_failover_def old_def
    by (elim bind_cases) (auto simp: effect_simps elim!: bind_cases)
  have v: "w_db v = w_db w" using probe_replicas_keeps [OF p] by simp
  have y: "y = v" "(chosen, node, lag) \<in> set cs" "\<forall>c\<in>set cs. lag \<le> snd (snd c)"
    using freshest_Inr [OF f] by auto
  have u: "w_db u = w_db w" "(nd_id node, PromoteReplica) \<in> set (w_calls u)"
    using a v y by (auto simp: call_agent_Inr)
  show ?thesis using record_failover_result [OF r] u y p node by (intro that) (auto simp: old_def)
qed
definition primaries :: "uid \<Rightarrow> cp_db \<Rightarrow> cluster_member list" where
  "primaries cluster_id db = filter (\<lambda>m. cm_role m = PRIMARY) (cluster_members cluster_id db)"

abbreviation promoted_member :: "cp_env \<Rightarrow> cluster_member \<Rightarrow> cluster_member" where
  "promoted_member env m \<equiv> m\<lparr>cm_role := PRIMARY, cm_promoted_at := Some (e_now env), cm_replication_lag_bytes := None\<rparr>"

lemma find_SomeD: "find P xs = Some x \<Longrightarrow> x \<in> set xs \<and> P x"
  by (auto simp: find_Some_iff)

lemma filter_singleton:
  assumes "distinct xs" and "{x \<in> set xs. P x} = {a}"
  shows "filter P xs = [a]"
proof -
  have "set (filter P xs) = {a}" "distinct (filter P xs)" using assms by auto
  then show ?thesis by (metis distinct_card card_1_singleton_iff length_Suc_conv length_0_conv One_nat_def list.set_intros(1) singletonD)
qed

lemma primaries_after:
  assumes d: "distinct (map cm_id (c_members db))" and one: "length (primaries cid db) \<le> 1"
    and m: "m \<in> set (cluster_members cid db)" "cm_role m = REPLICA"
    and ms: "c_members db' = (case find (\<lambda>m. cm_role m = PRIMARY) (cluster_members cid db) of None \<Rightarrow> id | Some p \<Rightarrow> tdel cm_id (cm_id p))
      (tset cm_id (promoted_member env m) (c_members db))"
  shows "primaries cid db' = [promoted_member env m]"
proof -
  have m': "m \<in> set (c_members db)" "cm_cluster_id m = cid" using m(1) by (auto simp: cluster_members_def)
  have inj: "x = y" if "x \<in> set (c_members db)" "y \<in> set (c_members db)" "cm_id x = cm_id y" for x y
    using d that by (auto simp: distinct_map inj_on_def)
  have dist: "distinct (map cm_id (c_members db'))"
    using d by (auto simp: ms tdel_def distinct_map_filter split: option.splits)
  have sub: "set (c_members db') = {x \<in> set (tset cm_id (promoted_member env m) (c_members db)).
      \<forall>p. find (\<lambda>m. cm_role m = PRIMARY) (cluster_members cid db) = Some p \<longrightarrow> cm_id x \<noteq> cm_id p}"
    by (auto simp: ms tdel_def split: option.splits)
  have other: "find (\<lambda>m. cm_role m = PRIMARY) (cluster_members cid db) = Some p"
    if p: "p \<in> set (c_members db)" "cm_cluster_id p = cid" "cm_role p = PRIMARY" for p
  proof -
    obtain q where q: "find (\<lambda>m. cm_role m = PRIMARY) (cluster_members cid db) = Some q"
      using p by (cases "find (\<lambda>m. cm_role m = PRIMARY) (cluster_members cid db)")
        (auto simp: find_None_iff cluster_members_def)
    have "q \<in> set (primaries cid db)" "p \<in> set (primaries cid db)"
      using find_SomeD [OF q] p by (auto simp: primaries_def cluster_members_def)
    with one have "p = q" by (cases "primaries cid db") auto
    with q show ?thesis by simp
  qed
  have old: "cm_id m \<noteq> cm_id p" if "find (\<lambda>m. cm_role m = PRIMARY) (cluster_members cid db) = Some p" for p
  proof -
    have "cm_role p = PRIMARY" "p \<in> set (c_members db)" using find_SomeD [OF that] by (auto simp: cluster_members_def)
    then show ?thesis using inj [of m p] m(2) m'(1) by auto
  qed
  have "{x \<in> set (c_members db'). cm_cluster_id x = cid \<and> cm_role x = PRIMARY} = {promoted_member env m}"
  proof (intro equalityI subsetI)
    fix x assume x: "x \<in> {x \<in> set (c_members db'). cm_cluster_id x = cid \<and> cm_role x = PRIMARY}"
    then have "x = promoted_member env m \<or> x \<in> set (c_members db)" unfolding sub by (auto simp: tset_def)
    then show "x \<in> {promoted_member env m}" using x other [of x] unfolding sub by blast
  next
    fix x assume "x \<in> {promoted_member env m}"
    then show "x \<in> {x \<in> set (c_members db'). cm_cluster_id x = cid \<and> cm_role x = PRIMARY}"
      unfolding sub using m' old by (auto simp: tset_def image_iff intro!: bexI [of _ m])
  qed
  then show ?thesis
    using filter_singleton [of "c_members db'" "\<lambda>x. cm_role x = PRIMARY \<and> cm_cluster_id x = cid" "promoted_member env m"] dist
    by (simp add: primaries_def cluster_members_def distinct_map conj_commute)
qed

text \<open>A cluster with two replicas of different lag.\<close>

definition demo_ha :: cp_db where
  "demo_ha = demo_cp\<lparr>c_members := c_members demo_cp @
     [\<lparr>cm_id = 31, cm_cluster_id = 20, cm_node_id = 11, cm_role = REPLICA, cm_replication_lag_bytes = None, cm_promoted_at = None\<rparr>,
      \<lparr>cm_id = 32, cm_cluster_id = 20, cm_node_id = 12, cm_role = REPLICA, cm_replication_lag_bytes = None, cm_promoted_at = None\<rparr>]\<rparr>"

definition demo_ha_env :: cp_env where
  "demo_ha_env = (calm_env 5000)\<lparr>e_agent := (\<lambda>_ c. case c of (n, op) \<Rightarrow> (case op of
     ReplicationStatus \<Rightarrow> Inr (Replication (Some ''standby'') (Some (if n = 11 then 700 else 16))) | _ \<Rightarrow> Inr Ack))\<rparr>"

end
