(* ===== verification/CP_Frame.thy ===== *)
theory CP_Frame
  imports CP_Model
begin

text \<open>
  What an operation leaves alone.  A frame is a reflexive and transitive relation between the worlds
  before and after; an operation is inside the frame when every run of it, whether it returns or
  raises, stays in the relation.  The rules follow the structure of the operations, so that a
  handler's frame is proved by walking its definition.
\<close>

definition framed :: "(cp_world \<Rightarrow> cp_world \<Rightarrow> bool) \<Rightarrow> 'a cpm \<Rightarrow> bool" where
  "framed R m \<longleftrightarrow> (\<forall>w r w'. m w = (r, w') \<longrightarrow> R w w')"

definition framed_if :: "(cp_db \<Rightarrow> bool) \<Rightarrow> (cp_world \<Rightarrow> cp_world \<Rightarrow> bool) \<Rightarrow> 'a cpm \<Rightarrow> bool" where
  "framed_if D R m \<longleftrightarrow> (\<forall>w r w'. D (w_db w) \<longrightarrow> m w = (r, w') \<longrightarrow> R w w')"

definition reads_only :: "'a cpm \<Rightarrow> bool" where
  "reads_only m \<longleftrightarrow> (\<forall>w r w'. m w = (r, w') \<longrightarrow> w_db w' = w_db w)"

lemma reads_only_basic: "reads_only (ret x)" "reads_only (query f)" "reads_only (query_exn g)" "reads_only (ensure b e)"
    "reads_only (the_or e y)" "reads_only (call_agent env n op)"
  by (auto simp: reads_only_def ret_def query_def query_exn_def ensure_def the_or_def call_agent_def split: option.splits if_splits)

lemma reads_only_bind:
  assumes "reads_only m" "\<And>x. reads_only (f x)"
  shows "reads_only (bindM m f)"
  unfolding reads_only_def using assms by (auto simp: reads_only_def elim!: bind_cases)

lemmas reads_only_rules = reads_only_basic reads_only_bind

lemma framedD: "framed R m \<Longrightarrow> m w = (r, w') \<Longrightarrow> R w w'"
  by (simp add: framed_def)

lemma framed_snd: "framed R m \<Longrightarrow> R w (snd (m w))"
  by (simp add: framed_def split_paired_all) (metis prod.collapse)

locale frame =
  fixes R :: "cp_world \<Rightarrow> cp_world \<Rightarrow> bool"
  assumes refl: "R w w" and trans: "R u v \<Longrightarrow> R v w \<Longrightarrow> R u w"
begin

lemma ret: "framed R (ret x)"
  by (auto simp: framed_def ret_def refl)

lemma raise: "framed R (raise e)"
  by (auto simp: framed_def raise_def refl)

lemma query: "framed R (query f)"
  by (auto simp: framed_def query_def refl)

lemma query_exn: "framed R (query_exn f)"
  by (auto simp: framed_def query_exn_def refl)

lemma ensure: "framed R (ensure b e)"
  by (auto simp: framed_def ensure_def refl)

lemma the_or: "framed R (the_or e x)"
  by (auto simp: framed_def the_or_def refl)

lemma bind: "framed R m \<Longrightarrow> (\<And>x. framed R (f x)) \<Longrightarrow> framed R (bindM m f)"
proof -
  assume m: "framed R m" and f: "\<And>x. framed R (f x)"
  show ?thesis unfolding framed_def
  proof (intro allI impI)
    fix w r w'
    assume "bindM m f w = (r, w')"
    then show "R w w'"
    proof (rule bind_cases)
      fix x v
      assume "m w = (Inr x, v)" "f x v = (r, w')"
      then show "R w w'" using framedD [OF m] framedD [OF f] trans by blast
    qed (rule framedD [OF m])
  qed
qed

lemma if_then_else: "(b \<Longrightarrow> framed R m) \<Longrightarrow> (\<not> b \<Longrightarrow> framed R n) \<Longrightarrow> framed R (if b then m else n)"
  by simp

lemma case_option: "framed R m \<Longrightarrow> (\<And>x. framed R (f x)) \<Longrightarrow> framed R (case y of None \<Rightarrow> m | Some x \<Rightarrow> f x)"
  by (simp split: option.split)

lemma case_prod: "(\<And>x y. framed R (f x y)) \<Longrightarrow> framed R (case p of (x, y) \<Rightarrow> f x y)"
  by (simp split: prod.split)

lemma case_list: "framed R m \<Longrightarrow> (\<And>x xs. framed R (f x xs)) \<Longrightarrow> framed R (case ys of [] \<Rightarrow> m | x # xs \<Rightarrow> f x xs)"
  by (simp split: list.split)

lemma modify: "(\<And>w. R w (w\<lparr>w_db := f (w_db w)\<rparr>)) \<Longrightarrow> framed R (modify f)"
  by (auto simp: framed_def modify_def)

lemma uuid4: "(\<And>w. R w (w\<lparr>w_next := Suc (w_next w)\<rparr>)) \<Longrightarrow> framed R uuid4"
  by (auto simp: framed_def uuid4_def)

lemma commit: "(\<And>w. R w (w\<lparr>w_committed := w_db w\<rparr>)) \<Longrightarrow> framed R commit"
  by (auto simp: framed_def commit_def)

lemma call_agent: "(\<And>w c. R w (w\<lparr>w_calls := w_calls w @ [c]\<rparr>)) \<Longrightarrow> framed R (call_agent env n op)"
  by (auto simp: framed_def call_agent_def refl split: option.splits if_splits)

lemmas rules = ret raise query query_exn ensure the_or bind if_then_else case_option case_prod case_list

text \<open>A frame that only holds for what an earlier query found: as long as the operations in between
  leave the tables alone, the fact is still there when it is needed.\<close>

lemma learn:
  assumes "reads_only m" "framed R m" "\<And>w x v. m w = (Inr x, v) \<Longrightarrow> D x (w_db w)" "\<And>x. framed_if (D x) R (f x)"
  shows "framed R (bindM m f)"
  unfolding framed_def
proof (intro allI impI)
  fix w r w'
  assume "bindM m f w = (r, w')"
  then show "R w w'"
  proof (rule bind_cases)
    fix x v
    assume x: "m w = (Inr x, v)" "f x v = (r, w')"
    then have "D x (w_db v)" using assms(1,3) by (metis reads_only_def)
    then show "R w w'" using x assms(2,4) trans unfolding framed_if_def framed_def by blast
  qed (rule framedD [OF assms(2)])
qed

lemma if_read:
  assumes "reads_only m" "framed R m" "\<And>x. framed_if D R (f x)"
  shows "framed_if D R (bindM m f)"
  unfolding framed_if_def
proof (intro allI impI)
  fix w r w'
  assume d: "D (w_db w)" and "bindM m f w = (r, w')"
  then show "R w w'"
  proof (elim bind_cases)
    fix x v
    assume x: "m w = (Inr x, v)" "f x v = (r, w')"
    then have "D (w_db v)" using assms(1) d by (metis reads_only_def)
    then show "R w w'" using x assms(2,3) trans unfolding framed_if_def framed_def by blast
  qed (rule framedD [OF assms(2)])
qed

lemma if_last:
  assumes "framed_if D R m" "\<And>x. framed R (f x)"
  shows "framed_if D R (bindM m f)"
  unfolding framed_if_def
proof (intro allI impI)
  fix w r w'
  assume d: "D (w_db w)" and "bindM m f w = (r, w')"
  then show "R w w'"
  proof (elim bind_cases)
    fix x v
    assume "m w = (Inr x, v)" "f x v = (r, w')"
    then show "R w w'" using d assms trans unfolding framed_if_def framed_def by blast
  qed (use d assms(1) in \<open>simp add: framed_if_def\<close>)
qed

lemma if_modify: "(\<And>w. D (w_db w) \<Longrightarrow> R w (w\<lparr>w_db := f (w_db w)\<rparr>)) \<Longrightarrow> framed_if D R (modify f)"
  by (auto simp: framed_if_def modify_def)

end

section \<open>Operations that cannot fail\<close>

definition never_raises :: "'a cpm \<Rightarrow> bool" where
  "never_raises m \<longleftrightarrow> (\<forall>w. \<exists>x w'. m w = (Inr x, w'))"

lemma never_raisesE: "never_raises m \<Longrightarrow> m w = (r, w') \<Longrightarrow> \<exists>x. r = Inr x"
  unfolding never_raises_def by (metis Pair_inject)

lemma never_raises_bind: "never_raises m \<Longrightarrow> (\<And>x. never_raises (f x)) \<Longrightarrow> never_raises (bindM m f)"
  unfolding never_raises_def
proof
  fix w
  assume m: "\<forall>w. \<exists>x w'. m w = (Inr x, w')" and f: "\<And>x. \<forall>w. \<exists>y w'. f x w = (Inr y, w')"
  obtain x v where "m w = (Inr x, v)" using m by blast
  then show "\<exists>x w'. bindM m f w = (Inr x, w')" using f by simp
qed

lemma never_raises_basic: "never_raises (ret x)" "never_raises (query f)" "never_raises (modify g)" "never_raises uuid4" "never_raises commit"
  by (simp_all add: never_raises_def ret_def query_def modify_def uuid4_def commit_def)

lemma never_raises_option: "never_raises m \<Longrightarrow> (\<And>x. never_raises (f x)) \<Longrightarrow> never_raises (case y of None \<Rightarrow> m | Some x \<Rightarrow> f x)"
  by (simp split: option.split)

lemmas never_raises_rules = never_raises_bind never_raises_basic never_raises_option

end
