(* ===== verification/CP_DatabaseApi.thy ===== *)
theory CP_DatabaseApi
  imports CP_OrgApi CP_Backups CP_HA CP_Frame
begin

text \<open>
  The tenant's endpoints for databases: \<open>api/v1/endpoints/databases.py\<close>,
  \<open>database_backups.py\<close>, \<open>database_roles.py\<close>, \<open>database_ops.py\<close>,
  \<open>database_sql.py\<close> and \<open>jobs.py\<close>.  Every one of them is nested under an organization
  and a project; \<open>on_project\<close> and \<open>on_database\<close> are the steps they all begin with, in
  the order in which the framework resolves the dependencies, validates the body and calls the
  handler.
\<close>

section \<open>Shared steps\<close>

definition on_project ::
    "cp_env \<Rightarrow> crypto \<Rightarrow> string option \<Rightarrow> bool \<Rightarrow> bool \<Rightarrow> string \<Rightarrow> uid \<Rightarrow> uid \<Rightarrow> (user \<Rightarrow> 'a cpm) \<Rightarrow> 'a cpm" where
  "on_project env k credentials gated valid action organization_id project_id act = http_request (
     bindM (get_membership env k credentials organization_id) (\<lambda>(user, membership).
     bindM (if gated then require_active_subscription organization_id else ret ()) (\<lambda>_.
     bindM (ensure valid (HTTP 422)) (\<lambda>_.
     bindM (require_role (mb_role membership) action) (\<lambda>_.
     bindM (get_project_or_404 organization_id project_id) (\<lambda>_.
     act user))))))"

definition on_database ::
    "cp_env \<Rightarrow> crypto \<Rightarrow> string option \<Rightarrow> bool \<Rightarrow> bool \<Rightarrow> string \<Rightarrow> uid \<Rightarrow> uid \<Rightarrow> uid
     \<Rightarrow> (user \<Rightarrow> database \<Rightarrow> 'a cpm) \<Rightarrow> 'a cpm" where
  "on_database env k credentials gated valid action organization_id project_id database_id act =
     on_project env k credentials gated valid action organization_id project_id (\<lambda>user.
       bindM (get_database_or_404 project_id database_id) (\<lambda>database. act user database))"

text \<open>An \<open>except\<close> clause that raises something else.\<close>

definition translate :: "(cp_exn \<Rightarrow> cp_exn) \<Rightarrow> 'a cpm \<Rightarrow> 'a cpm" where
  "translate f m w = (case m w of (Inl e, w') \<Rightarrow> (Inl (f e), w') | (Inr x, w') \<Rightarrow> (Inr x, w'))"

definition quota_error :: "cp_exn \<Rightarrow> cp_exn" where
  "quota_error e = (if e = QuotaExceeded then HTTP 402 else e)"

definition agent_error :: "cp_exn \<Rightarrow> cp_exn" where
  "agent_error e = (case e of AgentRequest code \<Rightarrow> HTTP code | _ \<Rightarrow> e)"

definition call_or_http :: "cp_env \<Rightarrow> node \<Rightarrow> agent_op \<Rightarrow> agent_response cpm" where
  "call_or_http env node op = translate agent_error (call_agent env node op)"

definition require_running :: "database \<Rightarrow> unit cpm" where
  "require_running database = ensure (db_status database = DB_RUNNING) (HTTP 409)"

definition database_name_ok :: "string \<Rightarrow> bool" where
  "database_name_ok name \<longleftrightarrow> slug_ok 62 name"

definition size_ok :: "int \<Rightarrow> int \<Rightarrow> int \<Rightarrow> bool" where
  "size_ok cpu_limit ram_limit_mb storage_limit_gb \<longleftrightarrow>
     1 \<le> cpu_limit \<and> cpu_limit \<le> 32 \<and> 256 \<le> ram_limit_mb \<and> ram_limit_mb \<le> 262144 \<and>
     1 \<le> storage_limit_gb \<and> storage_limit_gb \<le> 4096"

section \<open>Databases\<close>

fun isolation_value :: "isolation_level \<Rightarrow> string" where
  "isolation_value SHARED = ''shared''"
| "isolation_value DEDICATED = ''dedicated''"

text \<open>Names are unique per project and physical names are unique.\<close>

definition add_database ::
    "cp_env \<Rightarrow> uid \<Rightarrow> uid \<Rightarrow> string \<Rightarrow> isolation_level \<Rightarrow> database_status \<Rightarrow> int \<Rightarrow> int \<Rightarrow> int \<Rightarrow> database cpm" where
  "add_database env project_id region_id name isolation st cpu_limit ram_limit_mb storage_limit_gb =
     bindM uuid4 (\<lambda>i.
     case \<lparr>db_id = i, db_project_id = project_id, db_region_id = region_id, db_cluster_id = None, db_name = name,
           db_physical_name = fst (generate_physical_identifiers env), db_isolation_level = isolation, db_status = st,
           db_cpu_limit = cpu_limit, db_ram_limit_mb = ram_limit_mb, db_storage_limit_gb = storage_limit_gb,
           db_connection_host = None, db_connection_port = None, db_backup_policy = None, db_deleted_at = None\<rparr> of d \<Rightarrow>
     bindM (query (\<lambda>db. list_ex (\<lambda>x. db_physical_name x = db_physical_name d \<or>
              db_project_id x = project_id \<and> db_name x = name) (c_databases db))) (\<lambda>taken.
     bindM (ensure (\<not> taken) CP_IntegrityError) (\<lambda>_.
     bindM (modify (\<lambda>db. db\<lparr>c_databases := c_databases db @ [d]\<rparr>)) (\<lambda>_.
     ret d))))"

definition name_free :: "uid \<Rightarrow> string \<Rightarrow> unit cpm" where
  "name_free project_id name =
     bindM (query_exn (\<lambda>db. one_or_none (filter (\<lambda>d. db_project_id d = project_id \<and> db_name d = name) (c_databases db)))) (\<lambda>existing.
     ensure (existing = None) (HTTP 409))"

definition create_database ::
    "cp_env \<Rightarrow> crypto \<Rightarrow> string option \<Rightarrow> uid \<Rightarrow> uid \<Rightarrow> string \<Rightarrow> string \<Rightarrow> isolation_level \<Rightarrow> int \<Rightarrow> int \<Rightarrow> int
     \<Rightarrow> (database \<times> uid) cpm" where
  "create_database env k credentials organization_id project_id name region_code isolation cpu_limit ram_limit_mb storage_limit_gb =
     on_project env k credentials True
       (database_name_ok name \<and> 2 \<le> length region_code \<and> length region_code \<le> 50 \<and> size_ok cpu_limit ram_limit_mb storage_limit_gb)
       ''database:create'' organization_id project_id (\<lambda>user.
     bindM (query_exn (active_region region_code)) (\<lambda>found.
     bindM (the_or (HTTP 404) found) (\<lambda>region.
     bindM (name_free project_id name) (\<lambda>_.
     bindM (translate quota_error (check_database_quota organization_id storage_limit_gb cpu_limit)) (\<lambda>_.
     bindM (add_database env project_id (rg_id region) name isolation DB_CREATING cpu_limit ram_limit_mb storage_limit_gb) (\<lambda>database.
     bindM (enqueue env ''create_database'' [(''database_id'', db_id database)]
              (Some (''create_database:'' @ nat_string (db_id database))) (Some organization_id) (Some ''database'') (Some (db_id database))) (\<lambda>job.
     bindM (audit_ok ''DATABASE_CREATE_REQUESTED'' ''database'' (Some (db_id database)) (Some organization_id) (Some (us_id user)) None
              (Some [(''name'', name), (''region'', rg_code region), (''isolation'', isolation_value isolation)])) (\<lambda>_.
     bindM commit (\<lambda>_.
     ret (database, jb_id job))))))))))"

definition list_databases :: "cp_env \<Rightarrow> crypto \<Rightarrow> string option \<Rightarrow> uid \<Rightarrow> uid \<Rightarrow> database list cpm" where
  "list_databases env k credentials organization_id project_id =
     on_project env k credentials False True ''database:read'' organization_id project_id (\<lambda>_.
     query (\<lambda>db. filter (\<lambda>d. db_project_id d = project_id \<and> db_status d \<noteq> DB_DELETED) (c_databases db)))"

definition read_database :: "cp_env \<Rightarrow> crypto \<Rightarrow> string option \<Rightarrow> uid \<Rightarrow> uid \<Rightarrow> uid \<Rightarrow> database cpm" where
  "read_database env k credentials organization_id project_id database_id =
     on_database env k credentials False True ''database:read'' organization_id project_id database_id (\<lambda>_ database. ret database)"

text \<open>A change of status and the job that carries it out.\<close>

definition request_job :: "cp_env \<Rightarrow> string \<Rightarrow> string option \<Rightarrow> string \<Rightarrow> uid \<Rightarrow> user \<Rightarrow> database \<Rightarrow> (database \<times> uid) cpm" where
  "request_job env type key action organization_id user database =
     bindM (put_database database) (\<lambda>_.
     bindM (enqueue env type [(''database_id'', db_id database)] key (Some organization_id) (Some ''database'') (Some (db_id database))) (\<lambda>job.
     bindM (audit_ok action ''database'' (Some (db_id database)) (Some organization_id) (Some (us_id user)) None None) (\<lambda>_.
     bindM commit (\<lambda>_.
     ret (database, jb_id job)))))"

definition delete_database :: "cp_env \<Rightarrow> crypto \<Rightarrow> string option \<Rightarrow> uid \<Rightarrow> uid \<Rightarrow> uid \<Rightarrow> (database \<times> uid) cpm" where
  "delete_database env k credentials organization_id project_id database_id =
     on_database env k credentials False True ''database:delete'' organization_id project_id database_id (\<lambda>user database.
     bindM (ensure (db_status database \<noteq> DB_DELETED) (HTTP 409)) (\<lambda>_.
     request_job env ''delete_database'' (Some (''delete_database:'' @ nat_string (db_id database)))
       ''DATABASE_DELETE_REQUESTED'' organization_id user (database\<lparr>db_status := DB_DELETING\<rparr>)))"

definition suspend_database :: "cp_env \<Rightarrow> crypto \<Rightarrow> string option \<Rightarrow> uid \<Rightarrow> uid \<Rightarrow> uid \<Rightarrow> (database \<times> uid) cpm" where
  "suspend_database env k credentials organization_id project_id database_id =
     on_database env k credentials False True ''database:manage'' organization_id project_id database_id (\<lambda>user database.
     bindM (require_running database) (\<lambda>_.
     request_job env ''suspend_database'' None ''DATABASE_SUSPEND_REQUESTED'' organization_id user
       (database\<lparr>db_status := DB_SUSPENDING\<rparr>)))"

definition resume_database :: "cp_env \<Rightarrow> crypto \<Rightarrow> string option \<Rightarrow> uid \<Rightarrow> uid \<Rightarrow> uid \<Rightarrow> (database \<times> uid) cpm" where
  "resume_database env k credentials organization_id project_id database_id =
     on_database env k credentials False True ''database:manage'' organization_id project_id database_id (\<lambda>user database.
     bindM (ensure (db_status database = DB_SUSPENDED) (HTTP 409)) (\<lambda>_.
     request_job env ''resume_database'' None ''DATABASE_RESUME_REQUESTED'' organization_id user
       (database\<lparr>db_status := DB_UPDATING\<rparr>)))"

definition connections_per_cpu :: int where "connections_per_cpu = 20"

definition limits_text :: "int \<Rightarrow> int \<Rightarrow> int \<Rightarrow> jdata" where
  "limits_text cpu_limit ram_limit_mb storage_limit_gb =
     [(''cpu_limit'', int_string cpu_limit), (''ram_limit_mb'', int_string ram_limit_mb),
      (''storage_limit_gb'', int_string storage_limit_gb)]"

definition resize_database ::
    "cp_env \<Rightarrow> crypto \<Rightarrow> string option \<Rightarrow> uid \<Rightarrow> uid \<Rightarrow> uid \<Rightarrow> int \<Rightarrow> int \<Rightarrow> int \<Rightarrow> database cpm" where
  "resize_database env k credentials organization_id project_id database_id cpu_limit ram_limit_mb storage_limit_gb =
     on_database env k credentials False (size_ok cpu_limit ram_limit_mb storage_limit_gb) ''database:manage''
       organization_id project_id database_id (\<lambda>user database.
     bindM (require_running database) (\<lambda>_.
     bindM (get_primary_node (db_cluster_id database)) (\<lambda>node.
     bindM (query (\<lambda>db. fits_on_node db node cpu_limit ram_limit_mb storage_limit_gb (Some (db_id database)))) (\<lambda>fitting.
     bindM (ensure fitting (HTTP 409)) (\<lambda>_.
     bindM (call_or_http env node (ConnectionLimit (db_physical_name database) (cpu_limit * connections_per_cpu))) (\<lambda>_.
     case database\<lparr>db_cpu_limit := cpu_limit, db_ram_limit_mb := ram_limit_mb, db_storage_limit_gb := storage_limit_gb\<rparr> of d' \<Rightarrow>
     bindM (put_database d') (\<lambda>_.
     bindM (audit_ok ''DATABASE_RESIZED'' ''database'' (Some (db_id database)) (Some organization_id) (Some (us_id user))
              (Some (limits_text (db_cpu_limit database) (db_ram_limit_mb database) (db_storage_limit_gb database)))
              (Some (limits_text cpu_limit ram_limit_mb storage_limit_gb))) (\<lambda>_.
     bindM commit (\<lambda>_.
     ret d')))))))))"

text \<open>A role of the database, and the one the owner connects with when none is named.\<close>

definition role_of :: "uid \<Rightarrow> uid \<Rightarrow> database_credential cpm" where
  "role_of database_id credential_id =
     bindM (query (\<lambda>db. tget cr_id (c_credentials db) credential_id)) (\<lambda>found.
     bindM (the_or (HTTP 404) found) (\<lambda>c.
     bindM (ensure (cr_database_id c = database_id) (HTTP 404)) (\<lambda>_.
     ret c)))"

definition chosen_role :: "uid \<Rightarrow> uid option \<Rightarrow> database_credential option cpm" where
  "chosen_role database_id credential_id =
     (case credential_id of
        Some i \<Rightarrow> bindM (role_of database_id i) (\<lambda>c. ret (Some c))
      | None \<Rightarrow> query_exn (app_credential database_id))"

record connection =
  co_host :: string
  co_port :: "int option"
  co_database :: string
  co_username :: string
  co_password :: string
  co_string :: string

definition connection_string :: "string \<Rightarrow> string \<Rightarrow> string \<Rightarrow> int option \<Rightarrow> string \<Rightarrow> string" where
  "connection_string role_name password host port physical_name =
     ''postgresql://'' @ role_name @ '':'' @ password @ ''@'' @ host @ '':'' @ (case port of None \<Rightarrow> ''None'' | Some p \<Rightarrow> int_string p) @ ''/'' @ physical_name
       @ ''?sslmode=require''"

text \<open>The response model requires a port.\<close>

definition get_database_connection ::
    "cp_env \<Rightarrow> crypto \<Rightarrow> string option \<Rightarrow> uid \<Rightarrow> uid \<Rightarrow> uid \<Rightarrow> uid option \<Rightarrow> connection cpm" where
  "get_database_connection env k credentials organization_id project_id database_id credential_id =
     on_database env k credentials True True ''database:connect'' organization_id project_id database_id (\<lambda>_ database.
     bindM (ensure (db_status database = DB_RUNNING \<or> db_status database = DB_SUSPENDED) (HTTP 409)) (\<lambda>_.
     bindM (chosen_role (db_id database) credential_id) (\<lambda>found.
     bindM (the_or (HTTP 409) found) (\<lambda>credential.
     bindM (the_or (HTTP 409) (db_connection_host database)) (\<lambda>host.
     bindM (ensure (host \<noteq> []) (HTTP 409)) (\<lambda>_.
     bindM (decrypt_secret env (cr_encrypted_password credential)) (\<lambda>password.
     bindM (ensure (db_connection_port database \<noteq> None) CP_ValueError) (\<lambda>_.
     ret \<lparr>co_host = host, co_port = db_connection_port database, co_database = db_physical_name database,
          co_username = cr_role_name credential, co_password = password,
          co_string = connection_string (cr_role_name credential) password host (db_connection_port database)
            (db_physical_name database)\<rparr>))))))))"

section \<open>Backups\<close>

definition add_backup :: "cp_env \<Rightarrow> uid \<Rightarrow> backup_type \<Rightarrow> backup cpm" where
  "add_backup env database_id ty =
     bindM uuid4 (\<lambda>i.
     bindM (modify (\<lambda>db. db\<lparr>c_backups := c_backups db @ [new_backup (e_now env) i database_id ty]\<rparr>)) (\<lambda>_.
     ret (new_backup (e_now env) i database_id ty)))"

definition create_backup :: "cp_env \<Rightarrow> crypto \<Rightarrow> string option \<Rightarrow> uid \<Rightarrow> uid \<Rightarrow> uid \<Rightarrow> (backup \<times> uid) cpm" where
  "create_backup env k credentials organization_id project_id database_id =
     on_database env k credentials True True ''database:backups:manage'' organization_id project_id database_id (\<lambda>user database.
     bindM (require_running database) (\<lambda>_.
     bindM (add_backup env (db_id database) MANUAL) (\<lambda>backup.
     bindM (enqueue env ''backup_database'' [(''backup_id'', bk_id backup)] None (Some organization_id) (Some ''backup'') (Some (bk_id backup))) (\<lambda>job.
     bindM (audit_ok ''BACKUP_REQUESTED'' ''backup'' (Some (bk_id backup)) (Some organization_id) (Some (us_id user)) None
              (Some [(''database_id'', nat_string (db_id database)), (''type'', ''manual'')])) (\<lambda>_.
     bindM commit (\<lambda>_.
     ret (backup, jb_id job)))))))"

definition list_backups :: "cp_env \<Rightarrow> crypto \<Rightarrow> string option \<Rightarrow> uid \<Rightarrow> uid \<Rightarrow> uid \<Rightarrow> backup list cpm" where
  "list_backups env k credentials organization_id project_id database_id =
     on_database env k credentials False True ''database:observe'' organization_id project_id database_id (\<lambda>_ _.
     query (\<lambda>db. rev (sort_key bk_created_at
       (filter (\<lambda>b. bk_database_id b = database_id \<and> bk_status b \<noteq> BK_PURGED) (c_backups db)))))"

definition backup_of :: "uid \<Rightarrow> uid \<Rightarrow> backup cpm" where
  "backup_of database_id backup_id =
     bindM (get_backup backup_id) (\<lambda>found.
     bindM (the_or (HTTP 404) found) (\<lambda>b.
     bindM (ensure (bk_database_id b = database_id) (HTTP 404)) (\<lambda>_.
     ret b)))"

definition read_backup :: "cp_env \<Rightarrow> crypto \<Rightarrow> string option \<Rightarrow> uid \<Rightarrow> uid \<Rightarrow> uid \<Rightarrow> uid \<Rightarrow> backup cpm" where
  "read_backup env k credentials organization_id project_id database_id backup_id =
     on_database env k credentials False True ''database:observe'' organization_id project_id database_id (\<lambda>_ _.
     backup_of database_id backup_id)"

definition restore_backup ::
    "cp_env \<Rightarrow> crypto \<Rightarrow> string option \<Rightarrow> uid \<Rightarrow> uid \<Rightarrow> uid \<Rightarrow> uid \<Rightarrow> string \<Rightarrow> (database \<times> uid) cpm" where
  "restore_backup env k credentials organization_id project_id database_id backup_id name =
     on_database env k credentials True (database_name_ok name) ''database:backups:manage'' organization_id project_id database_id (\<lambda>user source.
     bindM (backup_of database_id backup_id) (\<lambda>backup.
     bindM (ensure (bk_status backup = BK_COMPLETED \<or> bk_status backup = BK_VERIFIED) (HTTP 409)) (\<lambda>_.
     bindM (name_free project_id name) (\<lambda>_.
     bindM (add_database env project_id (db_region_id source) name (db_isolation_level source) DB_RESTORING
              (db_cpu_limit source) (db_ram_limit_mb source) (db_storage_limit_gb source)) (\<lambda>target.
     bindM (enqueue env ''restore_database'' [(''database_id'', db_id target), (''backup_id'', bk_id backup)]
              (Some (''restore_database:'' @ nat_string (db_id target))) (Some organization_id) (Some ''database'') (Some (db_id target))) (\<lambda>job.
     bindM (audit_ok ''BACKUP_RESTORE_REQUESTED'' ''database'' (Some (db_id target)) (Some organization_id) (Some (us_id user)) None
              (Some [(''source_database_id'', nat_string (db_id source)), (''backup_id'', nat_string (bk_id backup))])) (\<lambda>_.
     bindM commit (\<lambda>_.
     ret (target, jb_id job)))))))))"

text \<open>A database without a policy reports a disabled one with the default values.\<close>

definition get_backup_policy :: "cp_env \<Rightarrow> crypto \<Rightarrow> string option \<Rightarrow> uid \<Rightarrow> uid \<Rightarrow> uid \<Rightarrow> backup_policy cpm" where
  "get_backup_policy env k credentials organization_id project_id database_id =
     on_database env k credentials False True ''database:observe'' organization_id project_id database_id (\<lambda>_ database.
     ret (case db_backup_policy database of
            None \<Rightarrow> \<lparr>bp_enabled = False, bp_frequency_hours = 24, bp_retention_days = 7\<rparr>
          | Some p \<Rightarrow> p))"

definition policy_ok :: "backup_policy \<Rightarrow> bool" where
  "policy_ok p \<longleftrightarrow> 1 \<le> bp_frequency_hours p \<and> bp_frequency_hours p \<le> 24 * 30 \<and>
     1 \<le> bp_retention_days p \<and> bp_retention_days p \<le> 365"

definition policy_text :: "backup_policy \<Rightarrow> jdata" where
  "policy_text p = [(''enabled'', if bp_enabled p then ''true'' else ''false''),
     (''frequency_hours'', int_string (bp_frequency_hours p)), (''retention_days'', int_string (bp_retention_days p))]"

definition set_backup_policy ::
    "cp_env \<Rightarrow> crypto \<Rightarrow> string option \<Rightarrow> uid \<Rightarrow> uid \<Rightarrow> uid \<Rightarrow> backup_policy \<Rightarrow> backup_policy cpm" where
  "set_backup_policy env k credentials organization_id project_id database_id policy =
     on_database env k credentials True (policy_ok policy) ''database:backups:manage'' organization_id project_id database_id (\<lambda>user database.
     bindM (put_database (database\<lparr>db_backup_policy := Some policy\<rparr>)) (\<lambda>_.
     bindM (audit_ok ''BACKUP_POLICY_UPDATED'' ''database'' (Some (db_id database)) (Some organization_id) (Some (us_id user)) None
              (Some (policy_text policy))) (\<lambda>_.
     bindM commit (\<lambda>_.
     ret policy))))"

section \<open>Roles\<close>

fun scope_value :: "credential_scope \<Rightarrow> string" where
  "scope_value SC_APP = ''app''"
| "scope_value SC_READONLY = ''readonly''"
| "scope_value SC_ADMIN = ''admin''"

record role_created =
  ro_id :: uid
  ro_name :: string
  ro_role_name :: string
  ro_password :: string

definition create_role ::
    "cp_env \<Rightarrow> crypto \<Rightarrow> string option \<Rightarrow> uid \<Rightarrow> uid \<Rightarrow> uid \<Rightarrow> string \<Rightarrow> credential_scope \<Rightarrow> role_created cpm" where
  "create_role env k credentials organization_id project_id database_id name scope =
     on_database env k credentials True (2 \<le> length name \<and> length name \<le> 100) ''database:roles:manage''
       organization_id project_id database_id (\<lambda>user database.
     bindM (require_running database) (\<lambda>_.
     bindM (ensure (scope \<noteq> SC_ADMIN) (HTTP 400)) (\<lambda>_.
     case role_name_prefix @ take 24 (e_hex env) of role_name \<Rightarrow>
     bindM (get_primary_node (db_cluster_id database)) (\<lambda>node.
     bindM (call_or_http env node (CreateRole (db_physical_name database) role_name (e_token env) scope)) (\<lambda>_.
     bindM (add_credential (db_id database) role_name (Some name) (e_encrypt env (e_token env)) scope False) (\<lambda>i.
     bindM (audit_ok ''DATABASE_ROLE_CREATED'' ''database_credential'' (Some i) (Some organization_id) (Some (us_id user)) None
              (Some [(''name'', name), (''scope'', scope_value scope)])) (\<lambda>_.
     bindM commit (\<lambda>_.
     ret \<lparr>ro_id = i, ro_name = name, ro_role_name = role_name, ro_password = e_token env\<rparr>))))))))"

text \<open>The response leaves the password out.\<close>

definition list_roles ::
    "cp_env \<Rightarrow> crypto \<Rightarrow> string option \<Rightarrow> uid \<Rightarrow> uid \<Rightarrow> uid
     \<Rightarrow> (uid \<times> string option \<times> string \<times> credential_scope \<times> bool \<times> instant option) list cpm" where
  "list_roles env k credentials organization_id project_id database_id =
     on_database env k credentials False True ''database:observe'' organization_id project_id database_id (\<lambda>_ _.
     query (\<lambda>db. map (\<lambda>c. (cr_id c, cr_display_name c, cr_role_name c, cr_scope c, cr_is_primary c, cr_rotated_at c))
       (filter (\<lambda>c. cr_database_id c = database_id) (c_credentials db))))"

definition delete_role :: "cp_env \<Rightarrow> crypto \<Rightarrow> string option \<Rightarrow> uid \<Rightarrow> uid \<Rightarrow> uid \<Rightarrow> uid \<Rightarrow> unit cpm" where
  "delete_role env k credentials organization_id project_id database_id credential_id =
     on_database env k credentials True True ''database:roles:manage'' organization_id project_id database_id (\<lambda>user database.
     bindM (role_of database_id credential_id) (\<lambda>credential.
     bindM (ensure (\<not> cr_is_primary credential) (HTTP 400)) (\<lambda>_.
     bindM (get_primary_node (db_cluster_id database)) (\<lambda>node.
     bindM (call_or_http env node (DropRole (db_physical_name database) (cr_role_name credential))) (\<lambda>_.
     bindM (modify (\<lambda>db. db\<lparr>c_credentials := tdel cr_id (cr_id credential) (c_credentials db)\<rparr>)) (\<lambda>_.
     bindM (audit_ok ''DATABASE_ROLE_DELETED'' ''database_credential'' (Some credential_id) (Some organization_id) (Some (us_id user))
              (Some [(''name'', maybe (\<lambda>n. n) (cr_display_name credential)), (''scope'', scope_value (cr_scope credential))]) None) (\<lambda>_.
     commit)))))))"

definition put_credential :: "database_credential \<Rightarrow> unit cpm" where
  "put_credential c = modify (\<lambda>db. db\<lparr>c_credentials := tset cr_id c (c_credentials db)\<rparr>)"

definition rotate_role :: "cp_env \<Rightarrow> crypto \<Rightarrow> string option \<Rightarrow> uid \<Rightarrow> uid \<Rightarrow> uid \<Rightarrow> uid \<Rightarrow> role_created cpm" where
  "rotate_role env k credentials organization_id project_id database_id credential_id =
     on_database env k credentials True True ''database:roles:manage'' organization_id project_id database_id (\<lambda>user database.
     bindM (role_of database_id credential_id) (\<lambda>credential.
     bindM (get_primary_node (db_cluster_id database)) (\<lambda>node.
     bindM (call_or_http env node (RotateRole (db_physical_name database) (cr_role_name credential) (e_token env))) (\<lambda>_.
     bindM (put_credential (credential\<lparr>cr_encrypted_password := e_encrypt env (e_token env), cr_rotated_at := Some (e_now env)\<rparr>)) (\<lambda>_.
     bindM (audit_ok ''DATABASE_ROLE_ROTATED'' ''database_credential'' (Some (cr_id credential)) (Some organization_id) (Some (us_id user)) None None) (\<lambda>_.
     bindM commit (\<lambda>_.
     ret \<lparr>ro_id = cr_id credential,
          ro_name = (case cr_display_name credential of Some n \<Rightarrow> if n = [] then cr_role_name credential else n
                     | None \<Rightarrow> cr_role_name credential),
          ro_role_name = cr_role_name credential, ro_password = e_token env\<rparr>)))))))"

section \<open>Extensions, metrics and tables\<close>

text \<open>Reading an agent's answer; one that is not of the expected shape fails validation.\<close>

definition extensions_of :: "agent_response \<Rightarrow> (string \<times> bool \<times> string option) list cpm" where
  "extensions_of resp = (case resp of Extensions es \<Rightarrow> ret es | _ \<Rightarrow> raise CP_ValueError)"

definition tables_of :: "agent_response \<Rightarrow> table_info list cpm" where
  "tables_of resp = (case resp of Tables ts \<Rightarrow> ret ts | _ \<Rightarrow> raise CP_ValueError)"

definition metrics_response :: "agent_response \<Rightarrow> (int \<times> int \<times> int) cpm" where
  "metrics_response resp = (case resp of Metrics sz active mx \<Rightarrow> ret (sz, active, mx) | _ \<Rightarrow> raise CP_ValueError)"

text \<open>These three let an agent's refusal escape as an internal error.\<close>

definition ask_agent :: "cp_env \<Rightarrow> database \<Rightarrow> agent_op \<Rightarrow> agent_response cpm" where
  "ask_agent env database op =
     bindM (require_running database) (\<lambda>_.
     bindM (get_primary_node (db_cluster_id database)) (\<lambda>node.
     call_agent env node op))"

definition list_extensions ::
    "cp_env \<Rightarrow> crypto \<Rightarrow> string option \<Rightarrow> uid \<Rightarrow> uid \<Rightarrow> uid \<Rightarrow> (string \<times> bool \<times> string option) list cpm" where
  "list_extensions env k credentials organization_id project_id database_id =
     on_database env k credentials False True ''database:observe'' organization_id project_id database_id (\<lambda>_ database.
     bindM (ask_agent env database (ListExtensions (db_physical_name database))) extensions_of)"

definition get_metrics :: "cp_env \<Rightarrow> crypto \<Rightarrow> string option \<Rightarrow> uid \<Rightarrow> uid \<Rightarrow> uid \<Rightarrow> (int \<times> int \<times> int) cpm" where
  "get_metrics env k credentials organization_id project_id database_id =
     on_database env k credentials False True ''database:observe'' organization_id project_id database_id (\<lambda>_ database.
     bindM (ask_agent env database (DatabaseMetrics (db_physical_name database))) metrics_response)"

definition list_tables :: "cp_env \<Rightarrow> crypto \<Rightarrow> string option \<Rightarrow> uid \<Rightarrow> uid \<Rightarrow> uid \<Rightarrow> table_info list cpm" where
  "list_tables env k credentials organization_id project_id database_id =
     on_database env k credentials False True ''database:observe'' organization_id project_id database_id (\<lambda>_ database.
     bindM (ask_agent env database (ListTables (db_physical_name database))) tables_of)"

definition install_extension :: "cp_env \<Rightarrow> crypto \<Rightarrow> string option \<Rightarrow> uid \<Rightarrow> uid \<Rightarrow> uid \<Rightarrow> string \<Rightarrow> string cpm" where
  "install_extension env k credentials organization_id project_id database_id name =
     on_database env k credentials True (2 \<le> length name \<and> length name \<le> 63) ''database:extensions:manage''
       organization_id project_id database_id (\<lambda>user database.
     bindM (require_running database) (\<lambda>_.
     bindM (get_primary_node (db_cluster_id database)) (\<lambda>node.
     bindM (call_or_http env node (InstallExtension (db_physical_name database) name)) (\<lambda>_.
     bindM (audit_ok ''DATABASE_EXTENSION_INSTALLED'' ''database'' (Some (db_id database)) (Some organization_id) (Some (us_id user)) None
              (Some [(''extension'', name)])) (\<lambda>_.
     bindM commit (\<lambda>_.
     ret name))))))"

definition drop_extension :: "cp_env \<Rightarrow> crypto \<Rightarrow> string option \<Rightarrow> uid \<Rightarrow> uid \<Rightarrow> uid \<Rightarrow> string \<Rightarrow> unit cpm" where
  "drop_extension env k credentials organization_id project_id database_id name =
     on_database env k credentials True True ''database:extensions:manage'' organization_id project_id database_id (\<lambda>user database.
     bindM (require_running database) (\<lambda>_.
     bindM (get_primary_node (db_cluster_id database)) (\<lambda>node.
     bindM (call_or_http env node (DropExtension (db_physical_name database) name)) (\<lambda>_.
     bindM (audit_ok ''DATABASE_EXTENSION_DROPPED'' ''database'' (Some (db_id database)) (Some organization_id) (Some (us_id user))
              (Some [(''extension'', name)]) None) (\<lambda>_.
     commit)))))"

section \<open>The SQL editor\<close>

text \<open>The customer's PostgreSQL is a parameter: opening a connection and running a statement give an
  error's text or the columns and rows, and the milliseconds that passed.  The conversion of single
  values to JSON is not represented.\<close>

record 'v sql_server =
  sv_connect :: "string option \<Rightarrow> int option \<Rightarrow> string \<Rightarrow> string \<Rightarrow> string \<Rightarrow> string + unit"
  sv_fetch :: "string \<Rightarrow> string \<Rightarrow> string \<Rightarrow> string + string list \<times> 'v list list"
  sv_elapsed_ms :: int

record 'v sql_result =
  sr_status :: string
  sr_columns :: "string list"
  sr_rows :: "'v list list"
  sr_row_count :: nat
  sr_truncated :: bool
  sr_duration_ms :: int
  sr_error :: "string option"

definition max_returned_rows :: nat where "max_returned_rows = 500"

definition sql_failed :: "int \<Rightarrow> string \<Rightarrow> 'v sql_result" where
  "sql_failed ms error = \<lparr>sr_status = ''failed'', sr_columns = [], sr_rows = [], sr_row_count = 0,
     sr_truncated = False, sr_duration_ms = ms, sr_error = Some error\<rparr>"

definition execute_query :: "cp_env \<Rightarrow> 'v sql_server \<Rightarrow> database \<Rightarrow> database_credential \<Rightarrow> string \<Rightarrow> 'v sql_result cpm" where
  "execute_query env sv database credential statement =
     bindM (decrypt_secret env (cr_encrypted_password credential)) (\<lambda>password.
     ret (case sv_connect sv (db_connection_host database) (db_connection_port database) (cr_role_name credential) password
                 (db_physical_name database) of
            Inl error \<Rightarrow> sql_failed (sv_elapsed_ms sv) (''Could not connect as '' @ cr_role_name credential @ '': '' @ error)
          | Inr _ \<Rightarrow>
              (case sv_fetch sv (db_physical_name database) (cr_role_name credential) statement of
                 Inl error \<Rightarrow> sql_failed (sv_elapsed_ms sv) error
               | Inr (columns, records) \<Rightarrow>
                   \<lparr>sr_status = ''succeeded'', sr_columns = (if records = [] then [] else columns),
                    sr_rows = take max_returned_rows records, sr_row_count = length records,
                    sr_truncated = (max_returned_rows < length records), sr_duration_ms = sv_elapsed_ms sv, sr_error = None\<rparr>)))"

text \<open>The history column for the error holds 2000 characters.\<close>

definition add_query_execution :: "uid \<Rightarrow> uid \<Rightarrow> string \<Rightarrow> 'v sql_result \<Rightarrow> unit cpm" where
  "add_query_execution database_id user_id statement r =
     bindM (ensure (case sr_error r of None \<Rightarrow> True | Some e \<Rightarrow> length e \<le> 2000) CP_DataError) (\<lambda>_.
     modify (\<lambda>db. db\<lparr>c_queries := c_queries db @
       [\<lparr>qe_database_id = database_id, qe_user_id = user_id, qe_query_text = statement, qe_status = sr_status r,
         qe_row_count = (if sr_status r = ''succeeded'' then Some (int (sr_row_count r)) else None),
         qe_duration_ms = sr_duration_ms r, qe_error = sr_error r\<rparr>]\<rparr>))"

definition execute_sql ::
    "cp_env \<Rightarrow> crypto \<Rightarrow> 'v sql_server \<Rightarrow> string option \<Rightarrow> uid \<Rightarrow> uid \<Rightarrow> uid \<Rightarrow> string \<Rightarrow> uid option \<Rightarrow> 'v sql_result cpm" where
  "execute_sql env k sv credentials organization_id project_id database_id statement role_id =
     on_database env k credentials True (1 \<le> length statement \<and> length statement \<le> 10000) ''database:sql:execute''
       organization_id project_id database_id (\<lambda>user database.
     bindM (require_running database) (\<lambda>_.
     bindM (chosen_role database_id role_id) (\<lambda>found.
     bindM (the_or (HTTP 409) found) (\<lambda>credential.
     bindM (execute_query env sv database credential statement) (\<lambda>r.
     bindM (add_query_execution (db_id database) (us_id user) statement r) (\<lambda>_.
     bindM (record_audit ''SQL_QUERY_EXECUTED'' ''database'' (Some (db_id database)) (Some organization_id) (Some (us_id user)) None
              (Some [(''query'', take 500 statement), (''role'', cr_role_name credential)]) None
              (if sr_status r = ''succeeded'' then ''success'' else ''failure'')) (\<lambda>_.
     bindM commit (\<lambda>_.
     ret r))))))))"

text \<open>Rows in order of insertion, so the newest come last in the table; a negative limit is an error of
  the database's.\<close>

definition get_history :: "cp_env \<Rightarrow> crypto \<Rightarrow> string option \<Rightarrow> uid \<Rightarrow> uid \<Rightarrow> uid \<Rightarrow> int \<Rightarrow> query_execution list cpm" where
  "get_history env k credentials organization_id project_id database_id limit =
     on_database env k credentials False True ''database:observe'' organization_id project_id database_id (\<lambda>_ _.
     bindM (ensure (0 \<le> limit) CP_DataError) (\<lambda>_.
     query (\<lambda>db. take (nat (min limit 200)) (rev (filter (\<lambda>q. qe_database_id q = database_id) (c_queries db))))))"

definition create_saved_query ::
    "cp_env \<Rightarrow> crypto \<Rightarrow> string option \<Rightarrow> uid \<Rightarrow> uid \<Rightarrow> uid \<Rightarrow> string \<Rightarrow> string \<Rightarrow> saved_query cpm" where
  "create_saved_query env k credentials organization_id project_id database_id name statement =
     on_database env k credentials False
       (1 \<le> length name \<and> length name \<le> 200 \<and> 1 \<le> length statement \<and> length statement \<le> 10000)
       ''database:sql:execute'' organization_id project_id database_id (\<lambda>user _.
     bindM uuid4 (\<lambda>i.
     case \<lparr>sq_id = i, sq_database_id = database_id, sq_user_id = us_id user, sq_name = name, sq_query_text = statement\<rparr> of saved \<Rightarrow>
     bindM (modify (\<lambda>db. db\<lparr>c_saved_queries := c_saved_queries db @ [saved]\<rparr>)) (\<lambda>_.
     bindM commit (\<lambda>_.
     ret saved))))"

definition list_saved_queries :: "cp_env \<Rightarrow> crypto \<Rightarrow> string option \<Rightarrow> uid \<Rightarrow> uid \<Rightarrow> uid \<Rightarrow> saved_query list cpm" where
  "list_saved_queries env k credentials organization_id project_id database_id =
     on_database env k credentials False True ''database:observe'' organization_id project_id database_id (\<lambda>_ _.
     query (\<lambda>db. filter (\<lambda>q. sq_database_id q = database_id) (c_saved_queries db)))"

definition saved_query_of :: "uid \<Rightarrow> uid \<Rightarrow> saved_query cpm" where
  "saved_query_of database_id saved_query_id =
     bindM (query (\<lambda>db. tget sq_id (c_saved_queries db) saved_query_id)) (\<lambda>found.
     bindM (the_or (HTTP 404) found) (\<lambda>q.
     bindM (ensure (sq_database_id q = database_id) (HTTP 404)) (\<lambda>_.
     ret q)))"

definition delete_saved_query :: "cp_env \<Rightarrow> crypto \<Rightarrow> string option \<Rightarrow> uid \<Rightarrow> uid \<Rightarrow> uid \<Rightarrow> uid \<Rightarrow> unit cpm" where
  "delete_saved_query env k credentials organization_id project_id database_id saved_query_id =
     on_database env k credentials False True ''database:sql:execute'' organization_id project_id database_id (\<lambda>_ _.
     bindM (saved_query_of database_id saved_query_id) (\<lambda>saved.
     bindM (modify (\<lambda>db. db\<lparr>c_saved_queries := tdel sq_id (sq_id saved) (c_saved_queries db)\<rparr>)) (\<lambda>_.
     commit)))"

section \<open>Jobs\<close>

text \<open>A job without an organization is shown to every user.\<close>

definition get_job :: "cp_env \<Rightarrow> crypto \<Rightarrow> string option \<Rightarrow> uid \<Rightarrow> job cpm" where
  "get_job env k credentials job_id = http_request (
     bindM (get_current_user env k credentials) (\<lambda>user.
     bindM (query (\<lambda>db. tget jb_id (c_jobs db) job_id)) (\<lambda>found.
     bindM (the_or (HTTP 404) found) (\<lambda>job.
     bindM (case jb_organization_id job of
              None \<Rightarrow> ret ()
            | Some org \<Rightarrow>
                bindM (query_exn (\<lambda>db. one_or_none (filter (\<lambda>m. mb_organization_id m = org \<and> mb_user_id m = us_id user)
                         (c_memberships db)))) (\<lambda>membership.
                ensure (membership \<noteq> None) (HTTP 404))) (\<lambda>_.
     ret job)))))"

end
