(* ===== verification/Platform_API.thy ===== *)
theory Platform_API
  imports CP_DatabaseApi CP_OrgApi SDK_Client MF_Onboarding
begin

text \<open>
  The platform as its clients see it: the routes of the Control Plane's API
  (\<open>src/backend/app/main.py\<close>, \<open>api/v1/router.py\<close> and the decorators of the endpoints) and the JSON its
  response schemas give, as a network the SDK can be run on.  The routes are those the SDK's account,
  project, database and job methods use; what the others do is a parameter, as are the texts of error
  details and of JSON documents, the rate limiter's decision and what happens on the platform while a
  client sleeps.  Timestamps of rows are left out of the JSON.
\<close>

record site =
  si_env :: "rat \<Rightarrow> cp_env"
  si_crypto :: crypto
  si_client :: "string option"
  si_limited :: "rat \<Rightarrow> http_call \<Rightarrow> bool"
  si_detail :: "nat \<Rightarrow> string"
  si_text :: "jv \<Rightarrow> string"
  si_progress :: "rat \<Rightarrow> cp_world \<Rightarrow> cp_world"
  si_other :: "http_call \<Rightarrow> cp_world \<Rightarrow> http_response \<times> cp_world"

section \<open>Responses\<close>

definition json_id :: "uid \<Rightarrow> jv" where
  "json_id i = JStr (nat_string i)"

definition json_opt :: "('a \<Rightarrow> jv) \<Rightarrow> 'a option \<Rightarrow> jv" where
  "json_opt j x = (case x of None \<Rightarrow> JNull | Some y \<Rightarrow> j y)"

definition token_json :: "string \<Rightarrow> jv" where
  "token_json t = JObj [(''access_token'', JStr t), (''token_type'', JStr ''bearer'')]"

definition project_json :: "project \<Rightarrow> jv" where
  "project_json p = JObj [(''id'', json_id (pj_id p)), (''organization_id'', json_id (pj_organization_id p)),
     (''name'', JStr (pj_name p)), (''slug'', JStr (pj_slug p))]"

definition region_json :: "region \<Rightarrow> jv" where
  "region_json r = JObj [(''id'', json_id (rg_id r)), (''code'', JStr (rg_code r)), (''name'', JStr (rg_name r)), (''active'', JBool (rg_active r))]"

fun database_status_value :: "database_status \<Rightarrow> string" where
  "database_status_value DB_CREATING = ''creating''"
| "database_status_value DB_RUNNING = ''running''"
| "database_status_value DB_UPDATING = ''updating''"
| "database_status_value DB_SUSPENDING = ''suspending''"
| "database_status_value DB_SUSPENDED = ''suspended''"
| "database_status_value DB_RESTORING = ''restoring''"
| "database_status_value DB_MIGRATING = ''migrating''"
| "database_status_value DB_FAILING = ''failing''"
| "database_status_value DB_FAILED = ''failed''"
| "database_status_value DB_DELETING = ''deleting''"
| "database_status_value DB_DELETED = ''deleted''"

definition database_json :: "database \<Rightarrow> jv" where
  "database_json d = JObj [(''id'', json_id (db_id d)), (''project_id'', json_id (db_project_id d)), (''region_id'', json_id (db_region_id d)),
     (''cluster_id'', json_opt json_id (db_cluster_id d)), (''name'', JStr (db_name d)),
     (''isolation_level'', JStr (isolation_value (db_isolation_level d))), (''status'', JStr (database_status_value (db_status d))),
     (''cpu_limit'', JInt (db_cpu_limit d)), (''ram_limit_mb'', JInt (db_ram_limit_mb d)),
     (''storage_limit_gb'', JInt (db_storage_limit_gb d)), (''connection_host'', json_opt JStr (db_connection_host d)),
     (''connection_port'', json_opt JInt (db_connection_port d))]"

definition accepted_json :: "database \<times> uid \<Rightarrow> jv" where
  "accepted_json = (\<lambda>(d, job_id). JObj [(''database'', database_json d), (''job_id'', json_id job_id)])"

definition connection_json :: "connection \<Rightarrow> jv" where
  "connection_json c = JObj [(''host'', JStr (co_host c)), (''port'', json_opt JInt (co_port c)), (''database'', JStr (co_database c)),
     (''username'', JStr (co_username c)), (''password'', JStr (co_password c)), (''ssl_mode'', JStr ''require''),
     (''connection_string'', JStr (co_string c))]"

fun job_status_value :: "job_status \<Rightarrow> string" where
  "job_status_value JB_QUEUED = ''queued''"
| "job_status_value JB_RUNNING = ''running''"
| "job_status_value JB_SUCCEEDED = ''succeeded''"
| "job_status_value JB_FAILED = ''failed''"
| "job_status_value JB_RETRYING = ''retrying''"

definition result_json :: "jdata \<Rightarrow> jv" where
  "result_json r = JObj (map (\<lambda>(n, v). (n, JStr v)) r)"

definition job_json :: "job \<Rightarrow> jv" where
  "job_json j = JObj [(''id'', json_id (jb_id j)), (''type'', JStr (jb_type j)), (''status'', JStr (job_status_value (jb_status j))),
     (''attempts'', JInt (jb_attempts j)), (''max_attempts'', JInt (jb_max_attempts j)), (''error'', json_opt JStr (jb_error j)),
     (''result'', json_opt result_json (jb_result j)), (''resource_type'', json_opt JStr (jb_resource_type j)),
     (''resource_id'', json_opt json_id (jb_resource_id j))]"

definition json_response :: "site \<Rightarrow> nat \<Rightarrow> jv \<Rightarrow> http_response" where
  "json_response si code v = \<lparr>hr_status = code, hr_text = si_text si v, hr_json = Some v\<rparr>"

definition refusal :: "site \<Rightarrow> nat \<Rightarrow> http_response" where
  "refusal si code = json_response si code (JObj [(''detail'', JStr (si_detail si code))])"

definition response_of :: "site \<Rightarrow> nat \<Rightarrow> ('a \<Rightarrow> jv) \<Rightarrow> cp_exn + 'a \<Rightarrow> http_response" where
  "response_of si code j r = (case r of
     Inr x \<Rightarrow> json_response si code (j x)
   | Inl e \<Rightarrow> (case e of HTTP n \<Rightarrow> refusal si n | _ \<Rightarrow> \<lparr>hr_status = 500, hr_text = ''Internal Server Error'', hr_json = None\<rparr>))"

definition answer :: "site \<Rightarrow> nat \<Rightarrow> ('a \<Rightarrow> jv) \<Rightarrow> 'a cpm \<Rightarrow> cp_world \<Rightarrow> http_response \<times> cp_world" where
  "answer si code j m w = (case m w of (r, w') \<Rightarrow> (response_of si code j r, w'))"

section \<open>Requests\<close>

text \<open>The credentials of an \<open>Authorization\<close> header.\<close>

definition bearer :: "string option \<Rightarrow> string option" where
  "bearer h = (case h of None \<Rightarrow> None | Some s \<Rightarrow> if take 7 s = ''Bearer '' then Some (drop 7 s) else None)"

definition body_value :: "string \<Rightarrow> http_call \<Rightarrow> jv option" where
  "body_value name call = (case hc_json call of Some (JObj ps) \<Rightarrow> map_of ps name | _ \<Rightarrow> None)"

type_synonym served = "cp_world \<Rightarrow> http_response \<times> cp_world"

definition refused :: "site \<Rightarrow> nat \<Rightarrow> served" where
  "refused si code w = (refusal si code, w)"

definition need_text :: "site \<Rightarrow> http_call \<Rightarrow> string \<Rightarrow> (string \<Rightarrow> served) \<Rightarrow> served" where
  "need_text si call name f = (case body_value name call of Some (JStr s) \<Rightarrow> f s | _ \<Rightarrow> refused si 422)"

definition int_or :: "site \<Rightarrow> http_call \<Rightarrow> string \<Rightarrow> int \<Rightarrow> (int \<Rightarrow> served) \<Rightarrow> served" where
  "int_or si call name d f = (case body_value name call of None \<Rightarrow> f d | Some (JInt i) \<Rightarrow> f i | _ \<Rightarrow> refused si 422)"

definition text_or_none :: "site \<Rightarrow> http_call \<Rightarrow> string \<Rightarrow> (string option \<Rightarrow> served) \<Rightarrow> served" where
  "text_or_none si call name f = (case body_value name call of
     None \<Rightarrow> f None | Some JNull \<Rightarrow> f None | Some (JStr s) \<Rightarrow> f (Some s) | _ \<Rightarrow> refused si 422)"

definition isolation_or :: "site \<Rightarrow> http_call \<Rightarrow> (isolation_level \<Rightarrow> served) \<Rightarrow> served" where
  "isolation_or si call f = (case body_value ''isolation_level'' call of
     None \<Rightarrow> f SHARED
   | Some v \<Rightarrow> if v = JStr ''shared'' then f SHARED else if v = JStr ''dedicated'' then f DEDICATED else refused si 422)"

definition with_id :: "site \<Rightarrow> string \<Rightarrow> (uid \<Rightarrow> served) \<Rightarrow> served" where
  "with_id si s f = (case uid_of_text s of None \<Rightarrow> refused si 422 | Some i \<Rightarrow> f i)"

section \<open>Routes\<close>

definition login_route :: "site \<Rightarrow> cp_env \<Rightarrow> http_call \<Rightarrow> served" where
  "login_route si env call =
     need_text si call ''email'' (\<lambda>email. need_text si call ''password'' (\<lambda>password. text_or_none si call ''otp_code'' (\<lambda>otp.
     answer si 200 token_json (CP_Auth.login env (si_crypto si) email password otp (si_client si)))))"

definition create_project_route :: "site \<Rightarrow> cp_env \<Rightarrow> http_call \<Rightarrow> uid \<Rightarrow> served" where
  "create_project_route si env call org =
     need_text si call ''name'' (\<lambda>name. need_text si call ''slug'' (\<lambda>slug.
     answer si 201 project_json (create_project env (si_crypto si) (bearer (hc_authorization call)) org name slug)))"

definition create_database_route :: "site \<Rightarrow> cp_env \<Rightarrow> http_call \<Rightarrow> uid \<Rightarrow> uid \<Rightarrow> served" where
  "create_database_route si env call org project =
     need_text si call ''name'' (\<lambda>name. need_text si call ''region_code'' (\<lambda>region_code. isolation_or si call (\<lambda>isolation.
     int_or si call ''cpu_limit'' 1 (\<lambda>cpu. int_or si call ''ram_limit_mb'' 1024 (\<lambda>ram. int_or si call ''storage_limit_gb'' 10 (\<lambda>storage.
     answer si 202 accepted_json (create_database env (si_crypto si) (bearer (hc_authorization call)) org project name region_code
       isolation cpu ram storage)))))))"

definition project_routes :: "site \<Rightarrow> cp_env \<Rightarrow> http_call \<Rightarrow> uid \<Rightarrow> string list \<Rightarrow> served" where
  "project_routes si env call org rest =
     (if rest = [] \<and> hc_method call = ''POST'' then create_project_route si env call org
      else if rest = [] \<and> hc_method call = ''GET'' then
        answer si 200 (\<lambda>ps. JList (map project_json ps)) (list_projects env (si_crypto si) (bearer (hc_authorization call)) org)
      else if length rest = 1 \<and> hc_method call = ''GET'' then
        with_id si (hd rest) (\<lambda>p. answer si 200 project_json (get_project env (si_crypto si) (bearer (hc_authorization call)) org p))
      else si_other si call)"

definition database_routes :: "site \<Rightarrow> cp_env \<Rightarrow> http_call \<Rightarrow> uid \<Rightarrow> uid \<Rightarrow> string list \<Rightarrow> served" where
  "database_routes si env call org project rest =
     (case bearer (hc_authorization call) of cr \<Rightarrow>
      if rest = [] \<and> hc_method call = ''POST'' then create_database_route si env call org project
      else if rest = [] \<and> hc_method call = ''GET'' then
        answer si 200 (\<lambda>ds. JList (map database_json ds)) (list_databases env (si_crypto si) cr org project)
      else if length rest = 1 \<and> hc_method call = ''GET'' then
        with_id si (hd rest) (\<lambda>d. answer si 200 database_json (read_database env (si_crypto si) cr org project d))
      else if length rest = 1 \<and> hc_method call = ''DELETE'' then
        with_id si (hd rest) (\<lambda>d. answer si 200 accepted_json (delete_database env (si_crypto si) cr org project d))
      else if length rest = 2 \<and> rest ! 1 = ''suspend'' \<and> hc_method call = ''POST'' then
        with_id si (hd rest) (\<lambda>d. answer si 200 accepted_json (suspend_database env (si_crypto si) cr org project d))
      else if length rest = 2 \<and> rest ! 1 = ''resume'' \<and> hc_method call = ''POST'' then
        with_id si (hd rest) (\<lambda>d. answer si 200 accepted_json (resume_database env (si_crypto si) cr org project d))
      else if length rest = 2 \<and> rest ! 1 = ''connection'' \<and> hc_method call = ''GET'' then
        with_id si (hd rest) (\<lambda>d. answer si 200 connection_json (get_database_connection env (si_crypto si) cr org project d None))
      else si_other si call)"

definition organization_routes :: "site \<Rightarrow> cp_env \<Rightarrow> http_call \<Rightarrow> string \<Rightarrow> string list \<Rightarrow> served" where
  "organization_routes si env call org rest =
     (case rest of
        area # deeper \<Rightarrow>
          if area = ''projects'' then
            (case deeper of
               project # sub # below \<Rightarrow>
                 if sub = ''databases'' then with_id si org (\<lambda>o1. with_id si project (\<lambda>p. database_routes si env call o1 p below))
                 else si_other si call
             | _ \<Rightarrow> with_id si org (\<lambda>o1. project_routes si env call o1 deeper))
          else si_other si call
      | [] \<Rightarrow> si_other si call)"

definition route :: "site \<Rightarrow> cp_env \<Rightarrow> http_call \<Rightarrow> served" where
  "route si env call =
     (case split_on (CHR ''/'') (hc_path call) of
        blank # area # rest \<Rightarrow>
          if area = ''auth'' \<and> rest = [''login''] \<and> hc_method call = ''POST'' then login_route si env call
          else if area = ''regions'' \<and> rest = [] \<and> hc_method call = ''GET'' then
            answer si 200 (\<lambda>rs. JList (map region_json rs)) (list_regions env (si_crypto si) (bearer (hc_authorization call)))
          else if area = ''jobs'' \<and> length rest = 1 \<and> hc_method call = ''GET'' then
            with_id si (hd rest) (\<lambda>j. answer si 200 job_json (CP_DatabaseApi.get_job env (si_crypto si) (bearer (hc_authorization call)) j))
          else if area = ''organizations'' \<and> rest \<noteq> [] then organization_routes si env call (hd rest) (tl rest)
          else si_other si call
      | _ \<Rightarrow> si_other si call)"

text \<open>The rate limiter comes first.\<close>

definition serve_call :: "site \<Rightarrow> http_call \<Rightarrow> rat \<times> cp_world \<Rightarrow> http_response option \<times> (rat \<times> cp_world)" where
  "serve_call si call s = (case s of (t, w) \<Rightarrow>
     if si_limited si t call then (Some (refusal si 429), s)
     else (case route si (si_env si t) call w of (resp, w') \<Rightarrow> (Some resp, (t, w'))))"

definition platform_network :: "site \<Rightarrow> (rat \<times> cp_world) network" where
  "platform_network si = \<lparr>n_send = serve_call si, n_clock = fst,
     n_sleep = (\<lambda>d (t, w). (t + max d 0, si_progress si d w))\<rparr>"

section \<open>The SDK meets the API\<close>

text \<open>What the SDK's caller gets of an endpoint's outcome.\<close>

definition seen :: "site \<Rightarrow> nat \<Rightarrow> ('a \<Rightarrow> jv) \<Rightarrow> cp_exn + 'a \<Rightarrow> sdk_exn + jv" where
  "seen si code j r = (case r of
     Inr x \<Rightarrow> Inr (j x)
   | Inl e \<Rightarrow> (case e of HTTP n \<Rightarrow> if n \<ge> 400 then Inl (ApiError n (JStr (si_detail si n))) else response_value (refusal si n)
                       | _ \<Rightarrow> Inl (ApiError 500 (JStr ''Internal Server Error''))))"

lemma response_seen:
  assumes "\<And>v. si_text si v \<noteq> []" "code < 400" "code \<noteq> 204"
  shows "response_value (response_of si code j r) = seen si code j r"
  using assms by (auto simp: response_value_def response_of_def seen_def json_response_def refusal_def split: sum.split cp_exn.split)

text \<open>One call: refused by the rate limiter, or what the endpoint did.\<close>

definition through :: "site \<Rightarrow> platform_client \<Rightarrow> string \<Rightarrow> string \<Rightarrow> jv option \<Rightarrow> nat \<Rightarrow> ('a \<Rightarrow> jv) \<Rightarrow> (cp_env \<Rightarrow> 'a cpm) \<Rightarrow> (rat \<times> cp_world, jv) sdk" where
  "through si c verb path body code j endpoint s =
     (if si_limited si (fst s) \<lparr>hc_base = pc_base_url c, hc_method = verb, hc_path = path, hc_authorization = request_headers c, hc_json = body\<rparr>
      then (Inl (ApiError 429 (JStr (si_detail si 429))), s)
      else (case endpoint (si_env si (fst s)) (snd s) of (r, w') \<Rightarrow> (seen si code j r, (fst s, w'))))"

lemma bearer_headers: "pc_token c \<noteq> Some [] \<Longrightarrow> bearer (request_headers c) = pc_token c"
  by (auto simp: bearer_def request_headers_def split: option.split)

lemma send_through:
  assumes "\<And>v. si_text si v \<noteq> []" "code < 400" "code \<noteq> 204"
    and "\<And>env. route si env \<lparr>hc_base = pc_base_url c, hc_method = verb, hc_path = path, hc_authorization = request_headers c, hc_json = body\<rparr> =
      answer si code j (endpoint env)"
  shows "send_request (platform_network si) c verb path body s = through si c verb path body code j endpoint s"
  using assms response_seen [of si code j]
  by (cases s) (auto simp: send_request_def platform_network_def serve_call_def through_def answer_def response_value_def refusal_def
      json_response_def split: prod.split)

lemma split_on_append: "c \<notin> set xs \<Longrightarrow> split_on c (xs @ c # ys) = xs # split_on c ys"
  by (induction xs) auto

lemma split_on_plain: "c \<notin> set xs \<Longrightarrow> split_on c xs = [xs]"
  by (induction xs) auto

lemma nat_string_slash: "CHR ''/'' \<notin> set (nat_string n)"
  using nat_string_digits [of n] by (force simp: list_all_iff is_digit_def)

lemma uid_of_nat_string [simp]: "uid_of_text (nat_string n) = Some n"
  by (simp add: uid_of_text_def unsigned_value_nat_string)

lemma split_id: "split_on (CHR ''/'') (nat_string n @ CHR ''/'' # ys) = nat_string n # split_on (CHR ''/'') ys"
  "split_on (CHR ''/'') (nat_string n) = [nat_string n]"
  by (simp_all add: split_on_append split_on_plain nat_string_slash)

lemmas path_simps = org_path_def db_path_def split_id route_def organization_routes_def with_id_def

lemma met_create_project:
  assumes "\<And>v. si_text si v \<noteq> []" "pc_token c \<noteq> Some []"
  shows "sdk_create_project (platform_network si) c (nat_string org) name slug s =
       through si c ''POST'' (org_path (nat_string org) ''/projects'') (obj [(''name'', JStr name), (''slug'', JStr slug)]) 201 project_json
         (\<lambda>env. create_project env (si_crypto si) (pc_token c) org name slug) s"
  unfolding sdk_create_project_def
  by (rule send_through [OF assms(1)]) (simp_all add: path_simps project_routes_def create_project_route_def need_text_def body_value_def obj_def bearer_headers [OF assms(2)])

lemma met_list_projects:
  assumes "\<And>v. si_text si v \<noteq> []" "pc_token c \<noteq> Some []"
  shows "sdk_list_projects (platform_network si) c (nat_string org) s =
       through si c ''GET'' (org_path (nat_string org) ''/projects'') None 200 (\<lambda>ps. JList (map project_json ps))
         (\<lambda>env. list_projects env (si_crypto si) (pc_token c) org) s"
  unfolding sdk_list_projects_def
  by (rule send_through [OF assms(1)]) (simp_all add: path_simps project_routes_def bearer_headers [OF assms(2)])

lemma met_get_project:
  assumes "\<And>v. si_text si v \<noteq> []" "pc_token c \<noteq> Some []"
  shows "sdk_get_project (platform_network si) c (nat_string org) (nat_string p) s =
       through si c ''GET'' (org_path (nat_string org) (''/projects/'' @ nat_string p)) None 200 project_json
         (\<lambda>env. get_project env (si_crypto si) (pc_token c) org p) s"
  unfolding sdk_get_project_def
  by (rule send_through [OF assms(1)]) (simp_all add: path_simps project_routes_def bearer_headers [OF assms(2)])

lemma met_list_regions:
  assumes "\<And>v. si_text si v \<noteq> []" "pc_token c \<noteq> Some []"
  shows "sdk_list_regions (platform_network si) c s =
       through si c ''GET'' ''/regions'' None 200 (\<lambda>rs. JList (map region_json rs))
         (\<lambda>env. list_regions env (si_crypto si) (pc_token c)) s"
  unfolding sdk_list_regions_def
  by (rule send_through [OF assms(1)]) (simp_all add: path_simps  bearer_headers [OF assms(2)])

lemma met_create_database:
  assumes "\<And>v. si_text si v \<noteq> []" "pc_token c \<noteq> Some []"
  shows "sdk_create_database (platform_network si) c (nat_string org) (nat_string p) name region (isolation_value level) cpu ram storage s =
       through si c ''POST'' (db_path (nat_string org) (nat_string p) '''') (obj ([(''name'', JStr name), (''region_code'', JStr region), (''isolation_level'', JStr (isolation_value level))] @ size_fields cpu ram storage)) 202 accepted_json
         (\<lambda>env. create_database env (si_crypto si) (pc_token c) org p name region level cpu ram storage) s"
  unfolding sdk_create_database_def
  by (rule send_through [OF assms(1)]) (simp, simp, (cases level; simp add: path_simps database_routes_def create_database_route_def need_text_def isolation_or_def int_or_def body_value_def obj_def size_fields_def bearer_headers [OF assms(2)]))

lemma met_list_databases:
  assumes "\<And>v. si_text si v \<noteq> []" "pc_token c \<noteq> Some []"
  shows "sdk_list_databases (platform_network si) c (nat_string org) (nat_string p) s =
       through si c ''GET'' (db_path (nat_string org) (nat_string p) '''') None 200 (\<lambda>ds. JList (map database_json ds))
         (\<lambda>env. list_databases env (si_crypto si) (pc_token c) org p) s"
  unfolding sdk_list_databases_def
  by (rule send_through [OF assms(1)]) (simp_all add: path_simps database_routes_def bearer_headers [OF assms(2)])

lemma met_get_database:
  assumes "\<And>v. si_text si v \<noteq> []" "pc_token c \<noteq> Some []"
  shows "sdk_get_database (platform_network si) c (nat_string org) (nat_string p) (nat_string d) s =
       through si c ''GET'' (db_path (nat_string org) (nat_string p) (nat_string d)) None 200 database_json
         (\<lambda>env. read_database env (si_crypto si) (pc_token c) org p d) s"
  unfolding sdk_get_database_def
  by (rule send_through [OF assms(1)]) (simp_all add: path_simps database_routes_def bearer_headers [OF assms(2)])

lemma met_delete_database:
  assumes "\<And>v. si_text si v \<noteq> []" "pc_token c \<noteq> Some []"
  shows "sdk_delete_database (platform_network si) c (nat_string org) (nat_string p) (nat_string d) s =
       through si c ''DELETE'' (db_path (nat_string org) (nat_string p) (nat_string d)) None 200 accepted_json
         (\<lambda>env. delete_database env (si_crypto si) (pc_token c) org p d) s"
  unfolding sdk_delete_database_def
  by (rule send_through [OF assms(1)]) (simp_all add: path_simps database_routes_def bearer_headers [OF assms(2)])

lemma met_suspend_database:
  assumes "\<And>v. si_text si v \<noteq> []" "pc_token c \<noteq> Some []"
  shows "sdk_suspend_database (platform_network si) c (nat_string org) (nat_string p) (nat_string d) s =
       through si c ''POST'' (db_path (nat_string org) (nat_string p) (nat_string d) @ ''/suspend'') None 200 accepted_json
         (\<lambda>env. suspend_database env (si_crypto si) (pc_token c) org p d) s"
  unfolding sdk_suspend_database_def
  by (rule send_through [OF assms(1)]) (simp_all add: path_simps database_routes_def bearer_headers [OF assms(2)])

lemma met_resume_database:
  assumes "\<And>v. si_text si v \<noteq> []" "pc_token c \<noteq> Some []"
  shows "sdk_resume_database (platform_network si) c (nat_string org) (nat_string p) (nat_string d) s =
       through si c ''POST'' (db_path (nat_string org) (nat_string p) (nat_string d) @ ''/resume'') None 200 accepted_json
         (\<lambda>env. resume_database env (si_crypto si) (pc_token c) org p d) s"
  unfolding sdk_resume_database_def
  by (rule send_through [OF assms(1)]) (simp_all add: path_simps database_routes_def bearer_headers [OF assms(2)])

lemma met_get_connection:
  assumes "\<And>v. si_text si v \<noteq> []" "pc_token c \<noteq> Some []"
  shows "sdk_get_connection (platform_network si) c (nat_string org) (nat_string p) (nat_string d) s =
       through si c ''GET'' (db_path (nat_string org) (nat_string p) (nat_string d) @ ''/connection'') None 200 connection_json
         (\<lambda>env. get_database_connection env (si_crypto si) (pc_token c) org p d None) s"
  unfolding sdk_get_connection_def
  by (rule send_through [OF assms(1)]) (simp_all add: path_simps database_routes_def bearer_headers [OF assms(2)])

lemma met_get_job:
  assumes "\<And>v. si_text si v \<noteq> []" "pc_token c \<noteq> Some []"
  shows "sdk_get_job (platform_network si) c (nat_string j) s =
       through si c ''GET'' (''/jobs/'' @ nat_string j) None 200 job_json
         (\<lambda>env. CP_DatabaseApi.get_job env (si_crypto si) (pc_token c) j) s"
  unfolding sdk_get_job_def
  by (rule send_through [OF assms(1)]) (simp_all add: path_simps  bearer_headers [OF assms(2)])

lemmas met_rules = met_create_project met_list_projects met_get_project met_list_regions met_create_database met_list_databases met_get_database met_delete_database met_suspend_database met_resume_database met_get_connection met_get_job


text \<open>A site without projects: its owner's call goes through to the endpoint, and a stranger's is refused.\<close>

fun demo_site_env :: "rat \<Rightarrow> cp_env" where
  "demo_site_env t = calm_env 0"

fun demo_other :: "http_call \<Rightarrow> cp_world \<Rightarrow> http_response \<times> cp_world" where
  "demo_other call w = (\<lparr>hr_status = 404, hr_text = ''Not Found'', hr_json = None\<rparr>, w)"

definition demo_site :: site where
  "demo_site = \<lparr>si_env = demo_site_env, si_crypto = demo_crypto, si_client = None, si_limited = (\<lambda>_ _. False),
     si_detail = (\<lambda>_. ''refused''), si_text = (\<lambda>_. ''{}''), si_progress = (\<lambda>_ w. w), si_other = demo_other\<rparr>"

definition owner_client :: platform_client where
  "owner_client = \<lparr>pc_base_url = ''http://p'', pc_token = Some ''jwt''\<rparr>"


end
