(* ===== verification/CP_Contract.thy ===== *)
theory CP_Contract
  imports CP_Frame
begin

text \<open>
  Contracts of operations.  \<open>contract E P m Q\<close>: from a world in \<open>P\<close>, when \<open>m\<close> returns \<open>x\<close> the world is
  in \<open>Q x\<close>, and when it raises it is in \<open>E\<close>.  The rules follow the structure of the operations, and
  a frame of an operation gives a contract of it.
\<close>

definition contract :: "(cp_world \<Rightarrow> bool) \<Rightarrow> (cp_world \<Rightarrow> bool) \<Rightarrow> 'a cpm \<Rightarrow> ('a \<Rightarrow> cp_world \<Rightarrow> bool) \<Rightarrow> bool" where
  "contract E P m Q \<longleftrightarrow> (\<forall>w r w'. P w \<longrightarrow> m w = (r, w') \<longrightarrow> (case r of Inl e \<Rightarrow> E w' | Inr x \<Rightarrow> Q x w'))"

lemma contract_Inr: "contract E P m Q \<Longrightarrow> P w \<Longrightarrow> m w = (Inr x, w') \<Longrightarrow> Q x w'"
  unfolding contract_def by fastforce

lemma contract_Inl: "contract E P m Q \<Longrightarrow> P w \<Longrightarrow> m w = (Inl e, w') \<Longrightarrow> E w'"
  unfolding contract_def by fastforce

lemma contract_bind:
  assumes m: "contract E P m Q" and f: "\<And>x. contract E (Q x) (f x) R"
  shows "contract E P (bindM m f) R"
  unfolding contract_def
proof (intro allI impI)
  fix w r w'
  assume p: "P w" and run: "bindM m f w = (r, w')"
  from run show "case r of Inl e \<Rightarrow> E w' | Inr x \<Rightarrow> R x w'"
  proof (rule bind_cases)
    fix x v
    assume x: "m w = (Inr x, v)" "f x v = (r, w')"
    then have "Q x v" using contract_Inr [OF m p] by blast
    then show ?thesis using x(2) f unfolding contract_def by blast
  qed (use contract_Inl [OF m p] in simp)
qed

lemma contract_weaken:
  assumes "contract E P m Q" "\<And>w. P' w \<Longrightarrow> P w" "\<And>x w. Q x w \<Longrightarrow> Q' x w"
  shows "contract E P' m Q'"
  using assms unfolding contract_def by (fastforce split: sum.splits)

lemma contract_ret: "(\<And>w. P w \<Longrightarrow> Q x w) \<Longrightarrow> contract E P (ret x) Q"
  by (simp add: contract_def ret_def)

lemma contract_raise: "(\<And>w. P w \<Longrightarrow> E w) \<Longrightarrow> contract E P (raise e) Q"
  by (simp add: contract_def raise_def)

lemma contract_query: "(\<And>w. P w \<Longrightarrow> Q (f (w_db w)) w) \<Longrightarrow> contract E P (query f) Q"
  by (simp add: contract_def query_def)

lemma contract_query_exn:
  "(\<And>w. P w \<Longrightarrow> E w) \<Longrightarrow> (\<And>w x. P w \<Longrightarrow> f (w_db w) = Inr x \<Longrightarrow> Q x w) \<Longrightarrow> contract E P (query_exn f) Q"
  by (auto simp: contract_def query_exn_def split: sum.splits)

lemma contract_ensure:
  "(\<And>w. P w \<Longrightarrow> E w) \<Longrightarrow> (\<And>w. P w \<Longrightarrow> b \<Longrightarrow> Q () w) \<Longrightarrow> contract E P (ensure b e) Q"
  by (auto simp: contract_def ensure_def)

lemma contract_the_or:
  "(\<And>w. P w \<Longrightarrow> E w) \<Longrightarrow> (\<And>w y. P w \<Longrightarrow> x = Some y \<Longrightarrow> Q y w) \<Longrightarrow> contract E P (the_or e x) Q"
  by (auto simp: contract_def the_or_def split: option.splits)

lemma contract_modify: "(\<And>w. P w \<Longrightarrow> Q () (w\<lparr>w_db := f (w_db w)\<rparr>)) \<Longrightarrow> contract E P (modify f) Q"
  by (auto simp: contract_def modify_def)

lemma contract_commit: "(\<And>w. P w \<Longrightarrow> Q () (w\<lparr>w_committed := w_db w\<rparr>)) \<Longrightarrow> contract E P commit Q"
  by (auto simp: contract_def commit_def)

lemma contract_frame:
  assumes "framed R m" "\<And>w w'. P w \<Longrightarrow> R w w' \<Longrightarrow> E w'" "\<And>x w w'. P w \<Longrightarrow> R w w' \<Longrightarrow> Q x w'"
  shows "contract E P m Q"
  using assms unfolding contract_def framed_def by (fastforce split: sum.splits)

lemma contract_if: "(b \<Longrightarrow> contract E P m Q) \<Longrightarrow> (\<not> b \<Longrightarrow> contract E P n Q) \<Longrightarrow> contract E P (if b then m else n) Q"
  by simp

lemma contract_option:
  "(y = None \<Longrightarrow> contract E P m Q) \<Longrightarrow> (\<And>x. y = Some x \<Longrightarrow> contract E P (f x) Q) \<Longrightarrow> contract E P (case y of None \<Rightarrow> m | Some x \<Rightarrow> f x) Q"
  by (simp split: option.split)

text \<open>A fact of the precondition that does not depend on the world.\<close>

lemma contract_fact:
  "(\<And>w. P w \<Longrightarrow> B) \<Longrightarrow> (B \<Longrightarrow> contract E P m Q) \<Longrightarrow> contract E P m Q"
  unfolding contract_def by blast

lemma contract_http:
  assumes "contract E P m Q" "\<And>w. E w \<Longrightarrow> E (rollback w)"
  shows "contract E P (http_request m) Q"
  using assms unfolding contract_def by (fastforce simp: http_request_def split: sum.splits prod.splits)

end
