(* ===== verification/MF_Platform.thy ===== *)
theory MF_Platform
  imports MF_Whole Platform_API CP_Contract
begin

text \<open>
  The microfinance service on the platform: its onboarding job run against the Control Plane's own
  endpoints.  What is shown is what a failed onboarding leaves behind.
\<close>

section \<open>Projects stay\<close>

text \<open>No endpoint the routes reach removes a project that is committed.\<close>

definition keeps_projects :: "cp_world \<Rightarrow> cp_world \<Rightarrow> bool" where
  "keeps_projects w w' \<longleftrightarrow> (\<forall>p. p \<in> set (c_projects (w_db w)) \<and> p \<in> set (c_projects (w_committed w)) \<longrightarrow>
     p \<in> set (c_projects (w_db w')) \<and> p \<in> set (c_projects (w_committed w')))"

interpretation projects: frame keeps_projects
  by unfold_locales (auto simp: keeps_projects_def)

lemma projects_modify: "(\<And>db. set (c_projects db) \<subseteq> set (c_projects (f db))) \<Longrightarrow> framed keeps_projects (modify f)"
  by (rule projects.modify) (auto simp: keeps_projects_def)

lemma projects_basic: "framed keeps_projects uuid4" "framed keeps_projects commit"
  by (auto simp: framed_def keeps_projects_def uuid4_def commit_def)

lemma projects_http: "framed keeps_projects m \<Longrightarrow> framed keeps_projects (http_request m)"
proof (unfold framed_def, intro allI impI)
  fix w r w'
  assume m: "\<forall>w r w'. m w = (r, w') \<longrightarrow> keeps_projects w w'" and run: "http_request m w = (r, w')"
  obtain q v where q: "m w = (q, v)" by force
  then have "keeps_projects w v" using m by blast
  then show "keeps_projects w w'" using run q by (cases q) (auto simp: http_request_def keeps_projects_def rollback_def)
qed

lemma projects_translate: "framed keeps_projects m \<Longrightarrow> framed keeps_projects (translate f m)"
  unfolding framed_def translate_def by (auto split: prod.splits sum.splits)

lemmas project_rules = projects.rules projects_basic projects_http projects_translate

lemma projects_puts: "framed keeps_projects (put_user u)" "framed keeps_projects (put_api_key a)" "framed keeps_projects (put_database d)"
    "framed keeps_projects (record_audit x1 x2 x3 x4 x5 x6 x7 x8 x9)"
  unfolding put_user_def put_api_key_def put_database_def record_audit_def by (rule projects_modify, simp)+

lemma projects_user: "framed keeps_projects (get_current_user env k cr)"
  unfolding get_current_user_def authenticate_api_key_def
  by (intro project_rules projects_puts)

lemma projects_member: "framed keeps_projects (get_membership env k cr org)"
  unfolding get_membership_def membership_of_def by (intro project_rules projects_user)

lemma projects_enqueue: "framed keeps_projects (CP_Jobs.enqueue env ty payload key org rt ri)"
  unfolding CP_Jobs.enqueue_def by (intro project_rules projects_modify) simp

lemma projects_require_role: "framed keeps_projects (require_role role action)"
  unfolding require_role_def by (rule projects.query_exn)

lemma projects_login: "framed keeps_projects (CP_Auth.login env k email password otp client)"
  unfolding CP_Auth.login_def user_by_email_def by (intro project_rules projects_puts)

lemma projects_list: "framed keeps_projects (list_projects env k cr org)" "framed keeps_projects (get_project env k cr org p)"
    "framed keeps_projects (list_regions env k cr)" "framed keeps_projects (CP_DatabaseApi.get_job env k cr j)"
  unfolding list_projects_def get_project_def owned_project_def list_regions_def CP_DatabaseApi.get_job_def
  by (intro project_rules projects_member projects_user projects_require_role)+

lemma projects_create_project: "framed keeps_projects (create_project env k cr org name slug)"
  unfolding create_project_def by (intro project_rules projects_member projects_require_role projects_modify projects_puts) auto

lemma projects_on_project:
  assumes "\<And>u. framed keeps_projects (act u)"
  shows "framed keeps_projects (on_project env k cr gated ok action org p act)"
  unfolding on_project_def require_active_subscription_def get_project_or_404_def
  by (intro project_rules projects_member projects_require_role assms)

lemma projects_on_database:
  assumes "\<And>u d. framed keeps_projects (act u d)"
  shows "framed keeps_projects (on_database env k cr gated ok action org p d act)"
  unfolding on_database_def get_database_or_404_def
  by (intro projects_on_project project_rules assms)

lemma projects_request_job: "framed keeps_projects (request_job env ty key action org user d)"
  unfolding request_job_def by (intro project_rules projects_puts projects_enqueue projects_puts)

lemma projects_quota: "framed keeps_projects (check_database_quota org storage cpu)"
  unfolding check_database_quota_def get_active_plan_def by (intro project_rules)

lemma projects_database:
  "framed keeps_projects (list_databases env k cr org p)" "framed keeps_projects (read_database env k cr org p d)"
  "framed keeps_projects (delete_database env k cr org p d)" "framed keeps_projects (suspend_database env k cr org p d)"
  "framed keeps_projects (resume_database env k cr org p d)"
  unfolding list_databases_def read_database_def delete_database_def suspend_database_def resume_database_def require_running_def
  by (intro projects_on_project projects_on_database project_rules projects_request_job)+

lemma projects_connection: "framed keeps_projects (get_database_connection env k cr org p d ro)"
  unfolding get_database_connection_def chosen_role_def role_of_def decrypt_secret_def
  by (intro projects_on_database project_rules)

lemma projects_create_database: "framed keeps_projects (create_database env k cr org p name region level cpu ram storage)"
  unfolding create_database_def name_free_def add_database_def
  by (intro projects_on_project project_rules projects_quota projects_enqueue projects_puts projects_modify) simp


section \<open>The whole platform keeps them\<close>

lemma answer_keeps: "framed keeps_projects m \<Longrightarrow> answer si code j m w = (resp, w') \<Longrightarrow> keeps_projects w w'"
  by (auto simp: answer_def framed_def split: prod.splits)

definition serves_keeping :: "served \<Rightarrow> bool" where
  "serves_keeping f \<longleftrightarrow> (\<forall>w resp w'. f w = (resp, w') \<longrightarrow> keeps_projects w w')"

lemma serves_answer: "framed keeps_projects m \<Longrightarrow> serves_keeping (answer si code j m)"
  unfolding serves_keeping_def using answer_keeps by blast

lemma serves_refused: "serves_keeping (refused si code)"
  by (simp add: serves_keeping_def refused_def projects.refl)

lemma serves_if: "serves_keeping f \<Longrightarrow> serves_keeping g \<Longrightarrow> serves_keeping (if b then f else g)"
  by simp

lemma serves_arguments:
  "(\<And>x. serves_keeping (f x)) \<Longrightarrow> serves_keeping (need_text si call name f)"
  "(\<And>x. serves_keeping (g x)) \<Longrightarrow> serves_keeping (text_or_none si call name g)"
  "(\<And>x. serves_keeping (h x)) \<Longrightarrow> serves_keeping (int_or si call name d h)"
  "(\<And>x. serves_keeping (l x)) \<Longrightarrow> serves_keeping (isolation_or si call l)"
  "(\<And>x. serves_keeping (m x)) \<Longrightarrow> serves_keeping (with_id si s m)"
  by (simp_all add: need_text_def text_or_none_def int_or_def isolation_or_def with_id_def serves_refused split: option.split jv.split)

text \<open>Nobody removes a committed project, neither through another route nor while a client sleeps.\<close>

definition projects_stay :: "site \<Rightarrow> bool" where
  "projects_stay si \<longleftrightarrow> (\<forall>call. serves_keeping (si_other si call)) \<and> (\<forall>d w. keeps_projects w (si_progress si d w))"

lemma route_keeps:
  assumes "projects_stay si"
  shows "serves_keeping (route si env call)"
proof -
  have other: "serves_keeping (si_other si call)" using assms by (simp add: projects_stay_def)
  note rules = serves_answer serves_arguments serves_if other
  have "serves_keeping (project_routes si env call org rest)" for org rest
    unfolding project_routes_def create_project_route_def
    by (intro rules projects_list projects_create_project)
  moreover have "serves_keeping (database_routes si env call org p rest)" for org p rest
    unfolding database_routes_def create_database_route_def
    by (intro rules projects_database projects_connection projects_create_database)
  ultimately have "serves_keeping (organization_routes si env call org rest)" for org rest
    unfolding organization_routes_def by (auto intro!: rules split: list.split)
  moreover have "serves_keeping (login_route si env call)"
    unfolding login_route_def by (intro rules projects_login)
  ultimately show ?thesis
    unfolding route_def by (auto intro!: rules projects_list split: list.split)
qed

definition slug_taken :: "uid \<Rightarrow> string \<Rightarrow> rat \<times> cp_world \<Rightarrow> bool" where
  "slug_taken org slug s \<longleftrightarrow> (\<exists>p. p \<in> set (c_projects (w_db (snd s))) \<and> p \<in> set (c_projects (w_committed (snd s))) \<and>
     pj_organization_id p = org \<and> pj_slug p = slug)"

lemma taken_kept: "slug_taken org slug (t, w) \<Longrightarrow> keeps_projects w w' \<Longrightarrow> slug_taken org slug (t', w')"
  by (auto simp: slug_taken_def keeps_projects_def)

lemma send_keeps_taken:
  assumes "projects_stay si" "slug_taken org slug s" "send_request (platform_network si) c verb path body s = (r, s')"
  shows "slug_taken org slug s'"
proof -
  obtain t w where s: "s = (t, w)" by (cases s)
  let ?call = "\<lparr>hc_base = pc_base_url c, hc_method = verb, hc_path = path, hc_authorization = request_headers c, hc_json = body\<rparr>"
  obtain resp w' where run: "route si (si_env si t) ?call w = (resp, w')" by force
  then have "keeps_projects w w'" using route_keeps [OF assms(1)] unfolding serves_keeping_def by blast
  then show ?thesis
    using assms(2,3) s run taken_kept [of org slug t w w']
    by (auto simp: send_request_def platform_network_def serve_call_def split: if_splits)
qed

text \<open>A taken slug refuses every further project.\<close>

lemma contract_absurd: "contract E (\<lambda>_. False) m Q"
  by (simp add: contract_def)

lemma create_project_refused:
  "contract (\<lambda>_. True) (\<lambda>w. slug_taken org slug (t, w)) (create_project env k cr org name slug) (\<lambda>_ _. False)"
proof -
  let ?taken = "\<lambda>w. slug_taken org slug (t, w)"
  have member: "contract (\<lambda>_. True) ?taken (get_membership env k cr org) (\<lambda>_. ?taken)"
    by (rule contract_frame [OF projects_member]) (auto intro: taken_kept)
  have valid: "contract (\<lambda>_. True) ?taken (ensure ok e) (\<lambda>_. ?taken)" for ok e by (rule contract_ensure) auto
  have role: "contract (\<lambda>_. True) ?taken (require_role r a) (\<lambda>_. ?taken)" for r a
    unfolding require_role_def by (rule contract_query_exn) auto
  have look: "contract (\<lambda>_. True) ?taken (query_exn (\<lambda>db. one_or_none (filter (\<lambda>p. pj_organization_id p = org \<and> pj_slug p = slug) (c_projects db))))
      (\<lambda>found _. found \<noteq> None)"
    by (rule contract_query_exn) (auto simp: one_or_none_Inr slug_taken_def filter_empty_conv)
  have clash: "contract (\<lambda>_. True) (\<lambda>_. found \<noteq> None) (ensure (found = None) (HTTP 409)) (\<lambda>_ _. False)" for found :: "project option"
    by (rule contract_ensure) auto
  show ?thesis
    unfolding create_project_def
    by (rule contract_http, rule contract_bind [OF member], unfold split_paired_all prod.case,
        rule contract_bind [OF valid], rule contract_bind [OF role], rule contract_bind [OF look], rule contract_bind [OF clash],
        rule contract_absurd, simp)
qed

lemma create_project_taken:
  "slug_taken org slug (t, w) \<Longrightarrow> create_project env k cr org name slug w = (r, w') \<Longrightarrow> \<exists>e. r = Inl e"
  using contract_Inr [OF create_project_refused] by (cases r) blast+

text \<open>The statuses a project's creation raises are client errors.\<close>

definition client_error :: "cp_exn \<Rightarrow> bool" where
  "client_error e \<longleftrightarrow> (\<forall>n. e = HTTP n \<longrightarrow> 400 \<le> n)"

definition refuses :: "'a cpm \<Rightarrow> bool" where
  "refuses m \<longleftrightarrow> (\<forall>w e w'. m w = (Inl e, w') \<longrightarrow> client_error e)"

lemma refuses_bind: "refuses m \<Longrightarrow> (\<And>x. refuses (f x)) \<Longrightarrow> refuses (bindM m f)"
  unfolding refuses_def by (fastforce elim!: bind_cases)

lemma refuses_basic: "refuses (ret x)" "refuses (query f)" "refuses (modify g)" "refuses uuid4" "refuses commit"
    "client_error e \<Longrightarrow> refuses (ensure b e)" "client_error e \<Longrightarrow> refuses (the_or e y)" "client_error e \<Longrightarrow> refuses (raise e)"
  by (auto simp: refuses_def effect_simps split: if_splits option.splits)

lemma refuses_query_exn: "(\<And>db e. f db = Inl e \<Longrightarrow> client_error e) \<Longrightarrow> refuses (query_exn f)"
  by (auto simp: refuses_def query_exn_def)

lemma refuses_http: "refuses m \<Longrightarrow> refuses (http_request m)"
  unfolding refuses_def by (auto simp: http_request_Inl)

lemma refuses_cases: "refuses m \<Longrightarrow> refuses n \<Longrightarrow> refuses (if b then m else n)"
    "refuses n \<Longrightarrow> (\<And>x. refuses (f x)) \<Longrightarrow> refuses (case y of None \<Rightarrow> n | Some x \<Rightarrow> f x)"
    "(\<And>a b. refuses (g a b)) \<Longrightarrow> refuses (case p of (a, b) \<Rightarrow> g a b)"
  by (simp_all split: option.split prod.split)

lemma one_or_none_error: "one_or_none xs = Inl e \<Longrightarrow> client_error e"
  by (simp add: one_or_none_Inl client_error_def)

lemma role_error: "require_permission role action = Inl e \<Longrightarrow> client_error e"
  by (auto simp: require_permission_def has_permission_def client_error_def split: option.splits if_splits)

lemmas refuses_rules = refuses_bind refuses_basic refuses_http refuses_cases

lemma refuses_member: "refuses (get_membership env k cr org)"
proof -
  have c: "client_error (HTTP 401)" "client_error (HTTP 404)" by (simp_all add: client_error_def)
  have "refuses (get_current_user env k cr)"
    unfolding get_current_user_def authenticate_api_key_def put_api_key_def
    by (intro refuses_rules refuses_query_exn c; erule one_or_none_error)
  note user = this
  show ?thesis
    unfolding get_membership_def membership_of_def
    by (intro refuses_rules refuses_query_exn user c; erule one_or_none_error)
qed

lemma refuses_create_project: "refuses (create_project env k cr org name slug)"
proof -
  have c: "client_error (HTTP 422)" "client_error (HTTP 409)" by (simp_all add: client_error_def)
  show ?thesis
    unfolding create_project_def require_role_def record_audit_def
    by (intro refuses_rules refuses_member refuses_query_exn c; (erule role_error | erule one_or_none_error))
qed

lemma sdk_create_project_taken:
  assumes some_text: "\<And>v. si_text si v \<noteq> []" and taken: "slug_taken org slug s"
    and call: "sdk_create_project (platform_network si) c (nat_string org) name slug s = (r, s')"
  shows "\<exists>e. r = Inl e"
proof -
  obtain t w where s: "s = (t, w)" by (cases s)
  have met: "sdk_create_project (platform_network si) c (nat_string org) name slug s =
      through si c ''POST'' (org_path (nat_string org) ''/projects'') (obj [(''name'', JStr name), (''slug'', JStr slug)]) 201 project_json
        (\<lambda>env. create_project env (si_crypto si) (bearer (request_headers c)) org name slug) s"
    unfolding sdk_create_project_def
    by (rule send_through [OF some_text]) (simp_all add: path_simps project_routes_def create_project_route_def need_text_def body_value_def obj_def)
  obtain q w' where run: "create_project (si_env si t) (si_crypto si) (bearer (request_headers c)) org name slug w = (q, w')" by force
  then obtain e where e: "q = Inl e" using create_project_taken taken s by blast
  then have "client_error e" using refuses_create_project run unfolding refuses_def by blast
  then show ?thesis using e call met s run
    by (auto simp: through_def seen_def client_error_def split: if_splits cp_exn.splits)
qed

section \<open>A platform that stays\<close>

abbreviation keeps_taken :: "uid \<Rightarrow> string \<Rightarrow> (rat \<times> cp_world, sdk_exn, 'a) eff \<Rightarrow> bool" where
  "keeps_taken org slug m \<equiv> stays (slug_taken org slug) m"

lemma send_keeps: "projects_stay si \<Longrightarrow> keeps_taken org slug (send_request (platform_network si) c verb path body)"
  unfolding stays_def by (metis prod.collapse send_keeps_taken)

lemma sdk_keeps:
  assumes "projects_stay si"
  shows "keeps_taken org slug (sdk_create_project (platform_network si) c o1 name sl)"
    "keeps_taken org slug (sdk_create_database (platform_network si) c o1 p name region level cpu ram storage)"
    "keeps_taken org slug (sdk_get_database (platform_network si) c o1 p d)"
    "keeps_taken org slug (sdk_get_connection (platform_network si) c o1 p d)"
    "keeps_taken org slug (sdk_get_job (platform_network si) c j)"
  unfolding sdk_create_project_def sdk_create_database_def sdk_get_database_def sdk_get_connection_def sdk_get_job_def
  by (rule send_keeps [OF assms])+

lemma login_keeps: "projects_stay si \<Longrightarrow> keeps_taken org slug (sdk_login (platform_network si) c email password otp)"
  unfolding sdk_login_def by (intro stays_rules send_keeps)

lemma wait_keeps:
  assumes "projects_stay si" "sdk_wait_for_job (platform_network si) c j interval limit s = Some (r, s')" "slug_taken org slug s"
  shows "slug_taken org slug s'"
proof (rule wait_stays [where I = "slug_taken org slug", OF assms(2) _ _ assms(3)])
  show "keeps_taken org slug (sdk_get_job (platform_network si) c j)" for j by (rule sdk_keeps [OF assms(1)])
  show "slug_taken org slug (n_sleep (platform_network si) d u)" if "slug_taken org slug u" for d u
    using that taken_kept assms(1) by (cases u) (auto simp: platform_network_def projects_stay_def)
qed

section \<open>An onboarding that cannot end well\<close>

text \<open>The institution is not active, and the platform's organization already has a project with its slug.\<close>

definition stuck :: "uid \<Rightarrow> uid \<Rightarrow> string \<Rightarrow> (rat \<times> cp_world) mf_world \<Rightarrow> bool" where
  "stuck i org slug w \<longleftrightarrow>
     (\<exists>a rest. m_accounts (mw_db w) = a # rest \<and> pa_cp_organization_id a = org) \<and>
     (\<exists>x. tget in_id (m_institutions (mw_db w)) i = Some x \<and> in_slug x = slug \<and> in_status x \<noteq> IN_ACTIVE) \<and>
     slug_taken org slug (mw_outside w)"

lemma stuck_frame [simp]:
  "stuck i org slug (w\<lparr>mw_next := n\<rparr>) = stuck i org slug w" "stuck i org slug (w\<lparr>mw_committed := db\<rparr>) = stuck i org slug w"
  "stuck i org slug (w\<lparr>mw_tenants := ts\<rparr>) = stuck i org slug w"
  "stuck i org slug (w\<lparr>mw_db := (mw_db w)\<lparr>m_jobs := js\<rparr>\<rparr>) = stuck i org slug w"
  by (simp_all add: stuck_def)

lemma stuck_outside: "stuck i org slug w \<Longrightarrow> (slug_taken org slug (mw_outside w) \<Longrightarrow> slug_taken org slug s) \<Longrightarrow> stuck i org slug (w\<lparr>mw_outside := s\<rparr>)"
  by (simp add: stuck_def)

lemma stays_on_platform: "keeps_taken org slug m \<Longrightarrow> stays (stuck i org slug) (on_platform m)"
  unfolding stays_def on_platform_def by (simp only: split_beta snd_conv) (blast intro: stuck_outside)

lemma stays_put_account: "pa_cp_organization_id a = org \<Longrightarrow> stays (stuck i org slug) (put_account a)"
  unfolding put_account_def change_db_def by (rule stays_updates) (auto simp: stuck_def table_simps)

lemma stays_put_institution:
  "in_id x \<noteq> i \<or> in_slug x = slug \<and> in_status x \<noteq> IN_ACTIVE \<Longrightarrow> stays (stuck i org slug) (put_institution x)"
  unfolding put_institution_def change_db_def by (rule stays_updates) (auto simp: stuck_def tget_tset)

lemma stays_service: "stays (stuck i org slug) new_uuid" "stays (stuck i org slug) (query_db f)" "stays (stuck i org slug) (in_tenant url g)"
    "stays (stuck i org slug) (put_tenant url t)" "stays (stuck i org slug) (payload_field job name)" "stays (stuck i org slug) (json_text name v)"
  by (simp_all add: stays_def new_uuid_def query_db_def in_tenant_def put_tenant_def payload_field_def json_text_def
      reads_def reads_exn_def updates_def some_or_def lifted_def)

lemma stays_seed: "stays (stuck i org slug) (seed url name currency)"
  unfolding seed_def by (intro stays_rules stays_service)

lemma stays_migrations: "stays (stuck i org slug) (run_tenant_migrations env url)"
  unfolding run_tenant_migrations_def by (intro stays_rules stays_updates) (simp split: option.split)

lemma holds_account:
  "holds (stuck i org slug) (stuck i org slug) get_platform_account (\<lambda>a w. stuck i org slug w \<and> pa_cp_organization_id a = org)"
  by (auto simp: holds_def get_platform_account_def query_db_def reads_def give_def throw_def stuck_def split: list.splits)

lemma client_keeps:
  assumes "projects_stay si"
  shows "stays (stuck i org slug) (get_authenticated_client env (platform_network si))"
proof -
  let ?login = "\<lambda>a. chain (lifted (decrypt_password env (Some (pa_encrypted_cp_password a)))) (\<lambda>password.
       chain (on_platform (sdk_login (platform_network si) (new_client (me_platform_api_url env) None) (pa_cp_email a) password None)) (\<lambda>(_, client).
       chain (put_account (a\<lparr>pa_cached_access_token := pc_token client,
                            pa_token_expires_at := Some (me_now env + 25 * 60000000)\<rparr>)) (\<lambda>_.
       give client)))"
  have login: "stays (stuck i org slug) (?login a)" if "pa_cp_organization_id a = org" for a
    by (intro stays_rules stays_on_platform login_keeps stays_put_account assms) (simp add: that)
  have "holds (stuck i org slug) (stuck i org slug) (get_authenticated_client env (platform_network si)) (\<lambda>_. stuck i org slug)"
    unfolding get_authenticated_client_def
  proof (rule holds_chain [OF holds_account])
    show "holds (stuck i org slug) (\<lambda>w. stuck i org slug w \<and> pa_cp_organization_id a = org)
        (if needs_login env a then ?login a else give ((new_client (me_platform_api_url env) None)\<lparr>pc_token := pa_cached_access_token a\<rparr>))
        (\<lambda>_. stuck i org slug)" for a
      by (rule holds_fact [where B = "pa_cp_organization_id a = org"], simp)
        (rule holds_weaken [OF stays_holds], (intro stays_rules login | simp)+)
  qed
  then show ?thesis by (rule holds_stays)
qed

text \<open>A second project of the same slug is refused, so the institution's onboarding never gets past it.\<close>

lemma holds_create_project:
  assumes some_text: "\<And>v. si_text si v \<noteq> []" and site: "projects_stay si" and same: "x = i \<longrightarrow> slug = s"
  shows "holds (stuck i org slug) (stuck i org slug)
     (on_platform (sdk_create_project (platform_network si) client (nat_string org) name s)) (\<lambda>_ w. stuck i org slug w \<and> x \<noteq> i)"
  unfolding holds_def
proof (intro allI impI)
  fix w r w'
  assume w: "stuck i org slug w" and run: "on_platform (sdk_create_project (platform_network si) client (nat_string org) name s) w = (r, w')"
  have w': "stuck i org slug w'"
    using stays_on_platform [OF sdk_keeps(1) [OF site], of i org slug client "nat_string org" name s] w run unfolding stays_def by (metis snd_conv)
  have "x \<noteq> i" if "r = Inr v" for v
  proof
    assume "x = i"
    with same w have "slug_taken org s (mw_outside w)" by (simp add: stuck_def)
    then obtain e where "fst (sdk_create_project (platform_network si) client (nat_string org) name s (mw_outside w)) = Inl e"
      using sdk_create_project_taken [OF some_text] by (metis prod.collapse)
    with run that show False by (simp add: on_platform_def split_beta res_simps)
  qed
  with w' show "case r of Inl _ \<Rightarrow> stuck i org slug w' | Inr _ \<Rightarrow> stuck i org slug w' \<and> x \<noteq> i" by (simp split: sum.split)
qed

lemma holds_under: "holds E P m Q \<Longrightarrow> holds E (\<lambda>s. P s \<and> b) m (\<lambda>x s. Q x s \<and> b)"
  by (cases b) (simp_all add: holds_def)

lemma start_excludes:
  assumes some_text: "\<And>v. si_text si v \<noteq> []" and site: "projects_stay si"
  shows "holds (stuck i org slug) (stuck i org slug) (onboard_start env (platform_network si) job)
     (\<lambda>ob w. stuck i org slug w \<and> in_id (ob_institution ob) \<noteq> i)"
proof -
  let ?S = "stuck i org slug"
  have look: "holds ?S ?S (query_db (\<lambda>db. tget in_id (m_institutions db) k))
      (\<lambda>found w. ?S w \<and> (\<forall>x. found = Some x \<longrightarrow> in_id x = i \<longrightarrow> in_slug x = slug))" for k
  proof (rule holds_query_db)
    show "?S w \<and> (\<forall>x. tget in_id (m_institutions (mw_db w)) k = Some x \<longrightarrow> in_id x = i \<longrightarrow> in_slug x = slug)" if "?S w" for w
      using that tget_key [of in_id "m_institutions (mw_db w)" k] by (fastforce simp: stuck_def)
  qed
  have found: "holds ?S (\<lambda>w. ?S w \<and> (\<forall>x. y = Some x \<longrightarrow> in_id x = i \<longrightarrow> in_slug x = slug)) (some_or e y)
      (\<lambda>x w. ?S w \<and> (in_id x = i \<longrightarrow> slug = in_slug x))" for e y
    by (rule holds_some_or) auto
  have quiet: "holds ?S (\<lambda>w. ?S w \<and> b) m (\<lambda>_ w. ?S w \<and> b)" if "stays ?S m" for b and m :: "(rat \<times> cp_world, 'a) mfm"
    by (rule holds_under [OF stays_holds [OF that]])
  have account: "holds ?S (\<lambda>w. ?S w \<and> b) get_platform_account (\<lambda>a w. (?S w \<and> pa_cp_organization_id a = org) \<and> b)" for b
    by (rule holds_under [OF holds_account])
  have project: "holds ?S (\<lambda>w. (?S w \<and> pa_cp_organization_id a = org) \<and> (in_id x = i \<longrightarrow> slug = in_slug x))
      (on_platform (sdk_create_project (platform_network si) client (nat_string (pa_cp_organization_id a)) (in_name x) (in_slug x)))
      (\<lambda>_ w. ?S w \<and> in_id x \<noteq> i)" for x a client
    by (rule holds_fact [where B = "(in_id x = i \<longrightarrow> slug = in_slug x) \<and> pa_cp_organization_id a = org"], simp)
      (use holds_weaken [OF holds_create_project [OF some_text site, of "in_id x" i slug "in_slug x" org client "in_name x"]] in auto)
  show ?thesis
    unfolding onboard_start_def
    apply (rule holds_chain [OF stays_holds [OF stays_service(5)]])
    apply (rule holds_chain [OF stays_holds], intro stays_rules)
    apply (rule holds_chain [OF look])
    apply (rule holds_chain [OF found])
    apply (rule holds_chain [OF quiet], intro stays_service)
    apply (rule holds_chain [OF quiet], intro stays_service)
    apply (rule holds_chain [OF quiet], intro client_keeps site)
    apply (rule holds_chain [OF account])
    apply (rule holds_chain [OF project])
    apply (rule holds_chain [OF quiet], intro stays_service)
    apply (rule holds_chain [OF quiet], intro stays_on_platform sdk_keeps site)
    apply (rule holds_chain [OF quiet], intro stays_service)
    apply (rule holds_give, simp)
    done
qed

lemma stuck_put: "in_id x \<noteq> i \<Longrightarrow> stuck i org slug w \<Longrightarrow>
    stuck i org slug (w\<lparr>mw_db := (mw_db w)\<lparr>m_institutions := tset in_id x (m_institutions (mw_db w))\<rparr>\<rparr>)"
  by (auto simp: stuck_def tget_tset)

abbreviation stuck_other :: "uid \<Rightarrow> uid \<Rightarrow> string \<Rightarrow> institution \<Rightarrow> (rat \<times> cp_world) mf_world \<Rightarrow> bool" where
  "stuck_other i org slug x w \<equiv> stuck i org slug w \<and> in_id x \<noteq> i"

lemma assign_other:
  assumes same_id: "\<And>x'. f x = Inr x' \<Longrightarrow> in_id x' = in_id x"
  shows "holds (stuck i org slug) (stuck_other i org slug x) (assign f x) (stuck_other i org slug)"
proof (cases "f x")
  case (Inl e)
  then show ?thesis by (simp add: holds_def assign_def lifted_def)
next
  case (Inr x')
  with same_id have "in_id x' = in_id x" by simp
  with Inr show ?thesis
    by (simp add: holds_def assign_def lifted_def put_institution_def change_db_def updates_def give_def stuck_put)
qed

lemma assign_text_other:
  assumes "\<And>t. in_id (put t x) = in_id x"
  shows "holds (stuck i org slug) (stuck_other i org slug x) (assign_text name put v x) (stuck_other i org slug)"
  unfolding assign_text_def by (rule assign_other) (use assms in \<open>auto split: sum.splits\<close>)

lemma connection_other:
  "holds (stuck i org slug) (stuck_other i org slug x) (assign_connection env project database connection x) (stuck_other i org slug)"
  unfolding assign_connection_def
  by (rule holds_chain assign_text_other assign_other | (auto split: sum.splits; fail))+

lemma finish_other:
  assumes "projects_stay si" and other: "in_id (ob_institution ob) \<noteq> i"
  shows "stays (stuck i org slug) (onboard_finish env (platform_network si) ob)"
proof -
  let ?S = "stuck i org slug"
  note quiet = holds_chain [OF stays_holds]
  have end_it: "holds ?S (stuck_other i org slug x) m (\<lambda>_. ?S)" if "in_id x \<noteq> i \<Longrightarrow> stays ?S m" for x and m :: "(rat \<times> cp_world, 'a) mfm"
    by (rule holds_fact [where B = "in_id x \<noteq> i"], simp) (rule holds_weaken [OF stays_holds [OF that]], auto)
  have start: "holds ?S ?S m (stuck_other i org slug)" if "holds ?S (stuck_other i org slug (ob_institution ob)) m (stuck_other i org slug)"
    for m :: "(rat \<times> cp_world, institution) mfm"
    by (rule holds_weaken [OF that]) (use other in auto)
  have "holds ?S ?S (onboard_finish env (platform_network si) ob) (\<lambda>_. ?S)"
    unfolding onboard_finish_def
    apply (rule quiet, intro stays_rules)
    apply (rule quiet, intro stays_on_platform sdk_keeps assms(1))
    apply (rule quiet, intro stays_service)
    apply (rule quiet, intro stays_on_platform sdk_keeps assms(1))
    apply (rule holds_chain [OF start [OF connection_other]])
    apply (rule end_it)
    apply (intro stays_rules stays_migrations stays_seed stays_put_institution)
    apply simp
    done
  then show ?thesis by (rule holds_stays)
qed

section \<open>Polls\<close>

lemma platform_clock: "fair_clock (platform_network si)"
  by (auto simp: fair_clock_def platform_network_def serve_call_def split: prod.split)

lemma wait_returns:
  assumes "fair_clock net" "0 < interval"
  shows "\<exists>out. sdk_wait_for_job net c j interval limit s = Some out"
proof -
  obtain n where "limit / interval < rat_of_nat n" using ex_less_of_nat_rat by blast
  then have "limit < rat_of_nat n * interval" using assms(2) by (simp add: divide_less_eq)
  then show ?thesis using wait_loop_ends [OF assms, of limit s "n_clock net s" n c j] unfolding sdk_wait_for_job_def by auto
qed

lemma execute_stuck:
  assumes some_text: "\<And>v. si_text si v \<noteq> []" and site: "projects_stay si" and w: "stuck i org slug w"
  shows "\<exists>r w'. execute_onboard_institution env (platform_network si) job w = Some (r, w') \<and> stuck i org slug w'"
proof -
  let ?net = "platform_network si"
  obtain r v where start: "onboard_start env ?net job w = (r, v)" by force
  have post: "case r of Inl _ \<Rightarrow> stuck i org slug v | Inr ob \<Rightarrow> stuck i org slug v \<and> in_id (ob_institution ob) \<noteq> i"
    using start_excludes [OF some_text site] w start unfolding holds_def by blast
  show ?thesis
  proof (cases r)
    case (Inl e)
    with start post show ?thesis by (simp add: execute_onboard_institution_def)
  next
    case (Inr ob)
    with post have v: "stuck i org slug v" and other: "in_id (ob_institution ob) \<noteq> i" by simp_all
    obtain q s where wait: "sdk_wait_for_job ?net (ob_client ob) (ob_job ob) 1 120 (mw_outside v) = Some (q, s)"
      using wait_returns [OF platform_clock, of 1 si "ob_client ob" "ob_job ob" 120 "mw_outside v"] by auto
    have s: "stuck i org slug (v\<lparr>mw_outside := s\<rparr>)"
      by (rule stuck_outside [OF v]) (rule wait_keeps [OF site wait])
    have "stuck i org slug (snd (onboard_finish env ?net ob (v\<lparr>mw_outside := s\<rparr>)))"
      using finish_other [OF site other] s unfolding stays_def by blast
    with s show ?thesis
      by (cases q; cases "onboard_finish env ?net ob (v\<lparr>mw_outside := s\<rparr>)")
        (simp_all add: execute_onboard_institution_def start Inr wait)
  qed
qed

lemma handler_stuck:
  assumes "\<And>v. si_text si v \<noteq> []" "projects_stay si" "stuck i org slug w"
  shows "\<exists>r w'. run_handler env (platform_network si) job w = Some (r, w') \<and> stuck i org slug w'"
  using execute_stuck [OF assms] assms(3) by (auto simp: run_handler_def)

lemma mark_stuck: "stuck i org slug w \<Longrightarrow> stuck i org slug (w\<lparr>mw_db := mark_institution_failed j (mw_db w)\<rparr>)"
proof -
  assume w: "stuck i org slug w"
  show ?thesis
  proof (cases "\<exists>k x. mj_institution_id j = Some k \<and> tget in_id (m_institutions (mw_db w)) k = Some x")
    case False
    then have "mark_institution_failed j (mw_db w) = mw_db w"
      by (auto simp: mark_institution_failed_def split: option.splits)
    with w show ?thesis by simp
  next
    case True
    then obtain k x where k: "mj_institution_id j = Some k" "tget in_id (m_institutions (mw_db w)) k = Some x" by blast
    have x: "in_id x = k" by (rule tget_key [OF k(2)])
    have "in_id x \<noteq> i \<or> in_slug x = slug \<and> IN_FAILED \<noteq> IN_ACTIVE"
      using w k(2) unfolding stuck_def x by (cases "k = i") auto
    then have "stays (stuck i org slug) (put_institution (x\<lparr>in_status := IN_FAILED, in_failure_reason := mj_error j\<rparr>))"
      by (intro stays_put_institution) simp
    with w have "stuck i org slug (snd (put_institution (x\<lparr>in_status := IN_FAILED, in_failure_reason := mj_error j\<rparr>) w))"
      unfolding stays_def by blast
    then show ?thesis
      by (simp add: put_institution_def change_db_def updates_def mark_institution_failed_def k)
  qed
qed

lemma record_stuck: "stuck i org slug w \<Longrightarrow> stuck i org slug (w\<lparr>mw_db := record_attempt env job outcome (mw_db w)\<rparr>)"
proof -
  assume w: "stuck i org slug w"
  then have jobs: "stuck i org slug (w\<lparr>mw_db := put_job j (mw_db w)\<rparr>)" for j by (simp add: put_job_def)
  moreover from mark_stuck [OF jobs] have "stuck i org slug (w\<lparr>mw_db := mark_institution_failed j (put_job j' (mw_db w))\<rparr>)" for j j' by simp
  ultimately show ?thesis by (simp add: record_attempt_def split: sum.split)
qed

lemma run_once_stuck:
  assumes "\<And>v. si_text si v \<noteq> []" "projects_stay si" "stuck i org slug w"
  shows "case run_once env (platform_network si) w of None \<Rightarrow> False | Some (_, w') \<Rightarrow> stuck i org slug w'"
proof (cases "claim_mf_job (me_now env) (m_jobs (mw_db w))")
  case None
  with assms(3) show ?thesis by (simp add: run_once_def)
next
  case (Some claimed)
  obtain job jobs where claim: "claim_mf_job (me_now env) (m_jobs (mw_db w)) = Some (job, jobs)" using Some by (cases claimed) simp
  let ?db = "(mw_db w)\<lparr>m_jobs := jobs\<rparr>"
  have "stuck i org slug (w\<lparr>mw_db := ?db, mw_committed := ?db\<rparr>)" using assms(3) by (simp add: stuck_def)
  from handler_stuck [OF assms(1,2) this] obtain r v where
    v: "run_handler env (platform_network si) job (w\<lparr>mw_db := ?db, mw_committed := ?db\<rparr>) = Some (r, v)" "stuck i org slug v" by blast
  have "stuck i org slug (v\<lparr>mw_db := record_attempt env job r (mw_db v), mw_committed := record_attempt env job r (mw_db v)\<rparr>)"
    using record_stuck [OF v(2)] by (simp add: stuck_def)
  then show ?thesis using claim v(1) by (simp add: run_once_def)
qed

text \<open>The worker's loop, once per environment; \<open>None\<close> is a poll that never returns.\<close>

primrec run_polls :: "mf_env list \<Rightarrow> 's network \<Rightarrow> 's mf_world \<Rightarrow> 's mf_world option" where
  "run_polls [] net w = Some w"
| "run_polls (env # envs) net w = (case run_once env net w of None \<Rightarrow> None | Some (_, w') \<Rightarrow> run_polls envs net w')"

lemma polls_stuck:
  assumes "\<And>v. si_text si v \<noteq> []" "projects_stay si"
  shows "stuck i org slug w \<Longrightarrow> \<exists>w'. run_polls envs (platform_network si) w = Some w' \<and> stuck i org slug w'"
proof (induction envs arbitrary: w)
  case (Cons env envs)
  obtain b v where "run_once env (platform_network si) w = Some (b, v)" "stuck i org slug v"
    using run_once_stuck [OF assms Cons.prems, of env] by (auto split: option.splits)
  with Cons.IH show ?case by simp
qed simp


text \<open>The institution of the demonstration, whose first attempt left the project behind.\<close>

definition left_behind :: cp_db where
  "left_behind = demo_org\<lparr>c_projects := [\<lparr>pj_id = 4, pj_organization_id = 9, pj_name = ''Faso'', pj_slug = ''faso''\<rparr>]\<rparr>"

definition demo_left :: "(rat \<times> cp_world) mf_world" where
  "demo_left = \<lparr>mw_db = demo_rows demo_institution demo_queued demo_account,
     mw_committed = demo_rows demo_institution demo_queued demo_account, mw_tenants = [], mw_next = 4,
     mw_outside = (0, world_of left_behind 100)\<rparr>"


end
