(* ===== verification/MF_Bootstrap.thy ===== *)
theory MF_Bootstrap
  imports MF_Service
begin

text \<open>
  The one-time set-up of the microfinance service as a client of the platform,
  \<open>src/microfinance/scripts/bootstrap_platform_account.py\<close>.  \<open>SystemExit\<close> is the script's refusal; every
  other exception ends it with a traceback and without a commit.
\<close>

datatype bootstrap_exn = SystemExit | Traceback control_exn

definition new_platform_account :: "uid \<Rightarrow> uid \<Rightarrow> string \<Rightarrow> string \<Rightarrow> platform_account" where
  "new_platform_account i organization_id email encrypted_password =
     \<lparr>pa_id = i, pa_cp_organization_id = organization_id, pa_cp_email = email, pa_encrypted_cp_password = encrypted_password,
      pa_cached_access_token = None, pa_token_expires_at = None\<rparr>"

definition bootstrap ::
    "mf_env \<Rightarrow> 's network \<Rightarrow> string \<Rightarrow> string \<Rightarrow> string \<Rightarrow> string \<Rightarrow> ('s mf_world, bootstrap_exn, unit) eff" where
  "bootstrap env net email password org_name org_slug =
     chain (reads (\<lambda>w. m_accounts (mw_db w))) (\<lambda>existing.
     chain (check (existing = []) SystemExit) (\<lambda>_.
     rethrow Traceback (request (
       chain (on_platform (sdk_register net (new_client (me_platform_api_url env) None) email password)) (\<lambda>_.
       chain (on_platform (sdk_login net (new_client (me_platform_api_url env) None) email password None)) (\<lambda>(_, client).
       chain (on_platform (sdk_create_organization net client org_name org_slug)) (\<lambda>org.
       chain (lifted (rbind (json_field ''id'' org) uid_of)) (\<lambda>organization_id.
       chain new_uuid (\<lambda>i.
       chain (change_db (\<lambda>db. db\<lparr>m_accounts := m_accounts db @
                [new_platform_account i organization_id email (me_encrypt env password)]\<rparr>)) (\<lambda>_.
       commit_db))))))))))"

text \<open>The service never has a second platform account, committed or not, so that onboarding always speaks
  for the same organization.\<close>

definition one_account :: "'s mf_world \<Rightarrow> bool" where
  "one_account w \<longleftrightarrow> length (m_accounts (mw_db w)) \<le> 1 \<and> length (m_accounts (mw_committed w)) \<le> 1"

lemma on_platform_db: "on_platform m w = (r, w') \<Longrightarrow> mw_db w' = mw_db w \<and> mw_committed w' = mw_committed w"
  by (auto simp: on_platform_def split: prod.splits)

lemma bootstrap_keeps_one:
  assumes "one_account w" "bootstrap env net email password org_name org_slug w = (r, w')"
  shows "one_account w'"
proof (cases "m_accounts (mw_db w)")
  case (Cons a rest)
  with assms show ?thesis by (simp add: bootstrap_def reads_def check_def)
next
  case Nil
  let ?none = "\<lambda>w. m_accounts (mw_db w) = [] \<and> length (m_accounts (mw_committed w)) \<le> 1"
  let ?one = "\<lambda>w. length (m_accounts (mw_committed w)) \<le> 1"
  let ?body = "chain (on_platform (sdk_register net (new_client (me_platform_api_url env) None) email password)) (\<lambda>_.
       chain (on_platform (sdk_login net (new_client (me_platform_api_url env) None) email password None)) (\<lambda>(_, client).
       chain (on_platform (sdk_create_organization net client org_name org_slug)) (\<lambda>org.
       chain (lifted (rbind (json_field ''id'' org) uid_of)) (\<lambda>organization_id.
       chain new_uuid (\<lambda>i.
       chain (change_db (\<lambda>db. db\<lparr>m_accounts := m_accounts db @
                [new_platform_account i organization_id email (me_encrypt env password)]\<rparr>)) (\<lambda>_.
       commit_db))))))"
  have platform: "holds ?one ?none (on_platform m) (\<lambda>_. ?none)" for m :: "('a, sdk_exn, 'b) eff"
    by (auto simp: holds_def dest!: on_platform_db split: sum.split)
  have add: "holds ?one ?none (change_db (\<lambda>db. db\<lparr>m_accounts := m_accounts db @ [a]\<rparr>)) (\<lambda>_. one_account)" for a
    by (rule holds_change_db) (simp add: one_account_def)
  have commit: "holds ?one one_account commit_db (\<lambda>_. one_account)"
    by (rule holds_commit_db) (simp add: one_account_def)
  have uuid: "holds ?one ?none new_uuid (\<lambda>_. ?none)" by (rule holds_new_uuid) simp
  have org: "holds ?one ?none (lifted r) (\<lambda>_. ?none)" for r :: "control_exn + uid" by (rule holds_lifted) auto
  have body: "holds ?one ?none ?body (\<lambda>_. one_account)"
    by (rule holds_chain [OF platform], rule holds_chain [OF platform], rule holds_prod,
        rule holds_chain [OF platform], rule holds_chain [OF org], rule holds_chain [OF uuid], rule holds_chain [OF add], rule commit)
  obtain q v where run: "?body w = (q, v)" by (cases "?body w")
  have "case q of Inl e \<Rightarrow> ?one v | Inr _ \<Rightarrow> one_account v"
    using body assms(1) Nil run unfolding holds_def one_account_def by blast
  then show ?thesis
    using assms(2) Nil run
    by (cases q) (auto simp: bootstrap_def reads_def check_def rethrow_def request_def one_account_def)
qed

text \<open>A second run is refused and changes nothing, on the platform neither.\<close>

lemma bootstrap_refuses: "m_accounts (mw_db w) \<noteq> [] \<Longrightarrow> bootstrap env net email password org_name org_slug w = (Inl SystemExit, w)"
  by (simp add: bootstrap_def reads_def check_def)

end
