(* ===== verification/SDK_CLI.thy ===== *)
theory SDK_CLI
  imports SDK_Client
begin

text \<open>
  The command line over the SDK: \<open>src/sdk/eminidatabase_sdk/cli.py\<close> and the stored credentials,
  \<open>auth_store.py\<close>.

  The state is everything outside of the client, the credentials file and what was printed.  The file is
  missing, no JSON, or a JSON value; that a disk is full or not writable is not represented.  Typer's parsing
  of arguments is not either: a command comes with its arguments, \<open>cl_text\<close> is Python's \<open>str\<close> of the JSON
  values that are neither strings, integers, booleans nor null and \<open>cl_repr\<close> its \<open>repr\<close> of a string.
\<close>

section \<open>State\<close>

datatype credentials_file = NoFile | NotJson | Credentials jv

datatype line = Printed jv | Echoed string | EchoedErr string

record 's cli_world =
  cw_outside :: 's
  cw_file :: credentials_file
  cw_output :: "line list"

text \<open>\<open>CLI_Exit\<close> is \<open>typer.Exit\<close>; every other exception ends the command with a traceback.  \<open>CLI_Hang\<close>
  stands for a wait that never returns.\<close>

datatype cli_exn =
    CLI_Exit nat
  | CLI_Sdk sdk_exn
  | CLI_JSONDecodeError
  | CLI_AttributeError
  | CLI_Hang

record cli_env =
  cl_api_url :: "string option"
  cl_text :: "jv \<Rightarrow> string"
  cl_repr :: "string \<Rightarrow> string"

type_synonym ('s, 'a) cli = "('s cli_world, cli_exn, 'a) eff"

fun text_of_json :: "cli_env \<Rightarrow> jv \<Rightarrow> string" where
  "text_of_json env (JStr s) = s"
| "text_of_json env (JInt i) = int_string i"
| "text_of_json env (JBool b) = (if b then ''True'' else ''False'')"
| "text_of_json env JNull = ''None''"
| "text_of_json env v = cl_text env v"

definition emit :: "line \<Rightarrow> ('s, unit) cli" where
  "emit l = updates (\<lambda>w. w\<lparr>cw_output := cw_output w @ [l]\<rparr>)"

text \<open>A call of the SDK.\<close>

definition calling :: "('s, sdk_exn, 'a) eff \<Rightarrow> ('s, 'a) cli" where
  "calling m w = (case m (cw_outside w) of (r, s) \<Rightarrow> (map_err CLI_Sdk r, w\<lparr>cw_outside := s\<rparr>))"

definition item :: "string \<Rightarrow> jv \<Rightarrow> ('s, jv) cli" where
  "item name v = lifted (map_err CLI_Sdk (field name v))"

definition text_item :: "cli_env \<Rightarrow> string \<Rightarrow> jv \<Rightarrow> ('s, string) cli" where
  "text_item env name v = chain (item name v) (\<lambda>x. give (text_of_json env x))"

definition fail :: "string \<Rightarrow> ('s, 'a) cli" where
  "fail message = chain (emit (EchoedErr message)) (\<lambda>_. throw (CLI_Exit 1))"

section \<open>Credentials\<close>

definition save_credentials :: "string \<Rightarrow> string \<Rightarrow> jv \<Rightarrow> ('s, unit) cli" where
  "save_credentials base_url email token =
     updates (\<lambda>w. w\<lparr>cw_file := Credentials (JObj [(''base_url'', JStr base_url), (''email'', JStr email), (''token'', token)])\<rparr>)"

definition load_credentials :: "('s, jv option) cli" where
  "load_credentials = reads_exn (\<lambda>w. case cw_file w of
     NoFile \<Rightarrow> Inr None | NotJson \<Rightarrow> Inl CLI_JSONDecodeError | Credentials v \<Rightarrow> Inr (if v = JNull then None else Some v))"

definition clear_credentials :: "('s, unit) cli" where
  "clear_credentials = updates (\<lambda>w. w\<lparr>cw_file := NoFile\<rparr>)"

text \<open>The base URL is stripped of slashes by the client, the token goes into a header unless it is falsy.\<close>

fun base_url_of :: "jv \<Rightarrow> cli_exn + string" where
  "base_url_of (JStr s) = Inr s"
| "base_url_of _ = Inl CLI_AttributeError"

fun token_of :: "cli_env \<Rightarrow> jv \<Rightarrow> string option" where
  "token_of env (JStr s) = Some s"
| "token_of env v = (if v = JNull \<or> v = JBool False \<or> v = JInt 0 \<or> v = JList [] \<or> v = JObj [] then None else Some (text_of_json env v))"

definition authenticated_client :: "cli_env \<Rightarrow> ('s, platform_client) cli" where
  "authenticated_client env =
     chain load_credentials (\<lambda>stored.
     case stored of
       None \<Rightarrow> fail ''Not logged in. Run `platform login` first.''
     | Some creds \<Rightarrow>
         chain (item ''base_url'' creds) (\<lambda>stored_url.
         chain (lifted (case cl_api_url env of Some u \<Rightarrow> Inr (JStr u) | None \<Rightarrow> Inr stored_url)) (\<lambda>url.
         chain (item ''token'' creds) (\<lambda>token.
         chain (lifted (base_url_of url)) (\<lambda>base_url.
         give (new_client base_url (token_of env token)))))))"

section \<open>Names and ids\<close>

text \<open>\<open>s.replace(sub, "")\<close>.\<close>

fun remove_all :: "string \<Rightarrow> string \<Rightarrow> string" where
  "remove_all sub [] = []"
| "remove_all sub (c # cs) =
     (if sub \<noteq> [] \<and> take (length sub) (c # cs) = sub then remove_all sub (drop (length sub - 1) cs) else c # remove_all sub cs)"

definition strip_braces :: "string \<Rightarrow> string" where
  "strip_braces s = (case dropWhile (\<lambda>c. c = CHR ''{'' \<or> c = CHR ''}'') s of t \<Rightarrow>
     rev (dropWhile (\<lambda>c. c = CHR ''{'' \<or> c = CHR ''}'') (rev t)))"

text \<open>\<open>int(s, 16)\<close> of ASCII text: blanks around it, a sign, a prefix \<open>0x\<close>, single underscores between
  digits.  A negative number is no UUID, but \<open>-0\<close> is.\<close>

definition hex_value :: "char \<Rightarrow> int option" where
  "hex_value c = (case of_char c :: nat of n \<Rightarrow>
     if 48 \<le> n \<and> n \<le> 57 then Some (int n - 48) else if 65 \<le> n \<and> n \<le> 70 then Some (int n - 55)
     else if 97 \<le> n \<and> n \<le> 102 then Some (int n - 87) else None)"

fun hex_digits :: "int \<Rightarrow> bool \<Rightarrow> string \<Rightarrow> int option" where
  "hex_digits acc after_digit [] = (if after_digit then Some acc else None)"
| "hex_digits acc after_digit (c # cs) =
     (if c = CHR ''_'' then (if after_digit then hex_digits acc False cs else None)
      else (case hex_value c of None \<Rightarrow> None | Some d \<Rightarrow> hex_digits (16 * acc + d) True cs))"

definition hex_unsigned :: "string \<Rightarrow> int option" where
  "hex_unsigned s =
     (if take 2 s = ''0x'' \<or> take 2 s = ''0X'' then
        (case drop 2 s of [] \<Rightarrow> None | c # cs \<Rightarrow> hex_digits 0 False (if c = CHR ''_'' then cs else c # cs))
      else hex_digits 0 False s)"

definition python_int16 :: "string \<Rightarrow> int option" where
  "python_int16 s = (case strip s of
     [] \<Rightarrow> None
   | c # cs \<Rightarrow> if c = CHR ''-'' then map_option uminus (hex_unsigned cs)
              else if c = CHR ''+'' then hex_unsigned cs else hex_unsigned (c # cs))"

definition is_uuid :: "string \<Rightarrow> bool" where
  "is_uuid value = (case remove_all ''-'' (strip_braces (remove_all ''uuid:'' (remove_all ''urn:'' value))) of hex \<Rightarrow>
     length hex = 32 \<and> (case python_int16 hex of None \<Rightarrow> False | Some i \<Rightarrow> 0 \<le> i \<and> i < 2 ^ 128))"

text \<open>Iteration over a JSON value.\<close>

fun items_of :: "jv \<Rightarrow> sdk_exn + jv list" where
  "items_of (JList xs) = Inr xs"
| "items_of (JObj ps) = Inr (map (\<lambda>p. JStr (fst p)) ps)"
| "items_of (JStr s) = Inr (map (\<lambda>c. JStr [c]) s)"
| "items_of _ = Inl SDK_TypeError"

fun first_match :: "string \<Rightarrow> string \<Rightarrow> jv list \<Rightarrow> sdk_exn + jv option" where
  "first_match key ref [] = Inr None"
| "first_match key ref (v # vs) = rbind (field key v) (\<lambda>x. if x = JStr ref then Inr (Some v) else first_match key ref vs)"

definition pick :: "cli_env \<Rightarrow> string \<Rightarrow> string \<Rightarrow> string \<Rightarrow> jv \<Rightarrow> ('s, jv) cli" where
  "pick env kind key ref listed =
     chain (lifted (map_err CLI_Sdk (rbind (items_of listed) (first_match key ref)))) (\<lambda>found.
     case found of Some v \<Rightarrow> give v | None \<Rightarrow> fail (''No '' @ kind @ '' found matching '' @ cl_repr env ref))"

definition resolve_organization :: "cli_env \<Rightarrow> 's network \<Rightarrow> platform_client \<Rightarrow> string \<Rightarrow> ('s, jv) cli" where
  "resolve_organization env net client ref =
     (if is_uuid ref then calling (sdk_get_organization net client ref)
      else chain (calling (sdk_list_organizations net client)) (pick env ''organization'' ''slug'' ref))"

definition resolve_project :: "cli_env \<Rightarrow> 's network \<Rightarrow> platform_client \<Rightarrow> string \<Rightarrow> string \<Rightarrow> ('s, jv) cli" where
  "resolve_project env net client organization_id ref =
     (if is_uuid ref then calling (sdk_get_project net client organization_id ref)
      else chain (calling (sdk_list_projects net client organization_id)) (pick env ''project'' ''slug'' ref))"

definition resolve_database :: "cli_env \<Rightarrow> 's network \<Rightarrow> platform_client \<Rightarrow> string \<Rightarrow> string \<Rightarrow> string \<Rightarrow> ('s, jv) cli" where
  "resolve_database env net client organization_id project_id ref =
     (if is_uuid ref then calling (sdk_get_database net client organization_id project_id ref)
      else chain (calling (sdk_list_databases net client organization_id project_id)) (pick env ''database'' ''name'' ref))"

section \<open>Commands\<close>

text \<open>How a command begins: the client, then what its arguments name.\<close>

definition in_organization ::
    "cli_env \<Rightarrow> 's network \<Rightarrow> string \<Rightarrow> (platform_client \<Rightarrow> string \<Rightarrow> ('s, 'a) cli) \<Rightarrow> ('s, 'a) cli" where
  "in_organization env net organization body =
     chain (authenticated_client env) (\<lambda>client.
     chain (resolve_organization env net client organization) (\<lambda>org.
     chain (text_item env ''id'' org) (body client)))"

definition in_project ::
    "cli_env \<Rightarrow> 's network \<Rightarrow> string \<Rightarrow> string \<Rightarrow> (platform_client \<Rightarrow> string \<Rightarrow> string \<Rightarrow> ('s, 'a) cli) \<Rightarrow> ('s, 'a) cli" where
  "in_project env net organization project body =
     in_organization env net organization (\<lambda>client org_id.
     chain (resolve_project env net client org_id project) (\<lambda>proj.
     chain (text_item env ''id'' proj) (body client org_id)))"

definition with_database ::
    "cli_env \<Rightarrow> 's network \<Rightarrow> string \<Rightarrow> string \<Rightarrow> string \<Rightarrow>
     (platform_client \<Rightarrow> string \<Rightarrow> string \<Rightarrow> jv \<Rightarrow> ('s, 'a) cli) \<Rightarrow> ('s, 'a) cli" where
  "with_database env net organization project name body =
     in_project env net organization project (\<lambda>client org_id proj_id.
     chain (resolve_database env net client org_id proj_id name) (body client org_id proj_id))"

definition at_database ::
    "cli_env \<Rightarrow> 's network \<Rightarrow> string \<Rightarrow> string \<Rightarrow> string \<Rightarrow>
     (platform_client \<Rightarrow> string \<Rightarrow> string \<Rightarrow> string \<Rightarrow> ('s, 'a) cli) \<Rightarrow> ('s, 'a) cli" where
  "at_database env net organization project name body =
     with_database env net organization project name (\<lambda>client org_id proj_id database.
     chain (text_item env ''id'' database) (body client org_id proj_id))"

definition print_json :: "jv \<Rightarrow> ('s, unit) cli" where
  "print_json data = emit (Printed data)"

definition printing :: "('s, sdk_exn, jv) eff \<Rightarrow> ('s, unit) cli" where
  "printing m = chain (calling m) print_json"

text \<open>\<open>--wait\<close>: the job's outcome is not looked at.\<close>

definition wait_for :: "cli_env \<Rightarrow> 's network \<Rightarrow> platform_client \<Rightarrow> jv \<Rightarrow> ('s, unit) cli" where
  "wait_for env net client result =
     chain (text_item env ''job_id'' result) (\<lambda>job_id.
     chain (emit (EchoedErr (''Waiting for job '' @ job_id @ ''...''))) (\<lambda>_ w.
     case sdk_wait_for_job net client job_id 1 120 (cw_outside w) of
       None \<Rightarrow> (Inl CLI_Hang, w)
     | Some (r, s) \<Rightarrow> (map_err CLI_Sdk (map_sum id (\<lambda>_. ()) r), w\<lparr>cw_outside := s\<rparr>)))"

fun put_item :: "string \<Rightarrow> jv \<Rightarrow> jv \<Rightarrow> jv" where
  "put_item name x (JObj ps) = JObj (if name \<in> fst ` set ps then map (\<lambda>(k, v). (k, if k = name then x else v)) ps else ps @ [(name, x)])"
| "put_item name x v = v"

text \<open>A call that is accepted with a job; with \<open>--wait\<close> the part of the result called \<open>name\<close> is read again.\<close>

definition accepted ::
    "cli_env \<Rightarrow> 's network \<Rightarrow> platform_client \<Rightarrow> bool \<Rightarrow> string \<Rightarrow> ('s, sdk_exn, jv) eff \<Rightarrow> (string \<Rightarrow> ('s, sdk_exn, jv) eff) \<Rightarrow> ('s, unit) cli" where
  "accepted env net client wait name m again =
     chain (calling m) (\<lambda>result.
     if wait then
       chain (wait_for env net client result) (\<lambda>_.
       chain (item name result) (\<lambda>part.
       chain (text_item env ''id'' part) (\<lambda>i.
       chain (calling (again i)) (\<lambda>now.
       print_json (put_item name now result)))))
     else print_json result)"

definition default_base_url :: string where
  "default_base_url = ''http://127.0.0.1:8000/api/v1''"

text \<open>The option \<open>--api-url\<close> falls back on the environment, where an empty value counts as none.\<close>

definition api_url_option :: "cli_env \<Rightarrow> string option \<Rightarrow> string" where
  "api_url_option env given = (case given of
     Some u \<Rightarrow> u
   | None \<Rightarrow> (case cl_api_url env of Some u \<Rightarrow> if u = [] then default_base_url else u | None \<Rightarrow> default_base_url))"

definition cli_login :: "cli_env \<Rightarrow> 's network \<Rightarrow> string \<Rightarrow> string \<Rightarrow> string option \<Rightarrow> string option \<Rightarrow> ('s, unit) cli" where
  "cli_login env net email password given otp =
     (case api_url_option env given of api_url \<Rightarrow>
     chain (calling (sdk_login net (new_client api_url None) email password otp)) (\<lambda>(token, _).
     chain (save_credentials api_url email token) (\<lambda>_.
     emit (Echoed (''Logged in as '' @ email @ '' ('' @ api_url @ '')'')))))"

definition cli_logout :: "('s, unit) cli" where
  "cli_logout =
     chain clear_credentials (\<lambda>_. emit (Echoed ''Logged out.''))"

definition whoami :: "cli_env \<Rightarrow> 's network \<Rightarrow> ('s, unit) cli" where
  "whoami env net =
     chain (authenticated_client env) (\<lambda>client. printing (sdk_me net client))"

definition organizations_create :: "cli_env \<Rightarrow> 's network \<Rightarrow> string \<Rightarrow> string \<Rightarrow> ('s, unit) cli" where
  "organizations_create env net name slug =
     chain (authenticated_client env) (\<lambda>client. printing (sdk_create_organization net client name slug))"

definition organizations_list :: "cli_env \<Rightarrow> 's network \<Rightarrow> ('s, unit) cli" where
  "organizations_list env net =
     chain (authenticated_client env) (\<lambda>client. printing (sdk_list_organizations net client))"

definition projects_create :: "cli_env \<Rightarrow> 's network \<Rightarrow> string \<Rightarrow> string \<Rightarrow> string \<Rightarrow> ('s, unit) cli" where
  "projects_create env net organization name slug =
     in_organization env net organization (\<lambda>client org_id. printing (sdk_create_project net client org_id name slug))"

definition projects_list :: "cli_env \<Rightarrow> 's network \<Rightarrow> string \<Rightarrow> ('s, unit) cli" where
  "projects_list env net organization =
     in_organization env net organization (\<lambda>client org_id. printing (sdk_list_projects net client org_id))"

definition db_create :: "cli_env \<Rightarrow> 's network \<Rightarrow> string \<Rightarrow> string \<Rightarrow> string \<Rightarrow> string \<Rightarrow> int \<Rightarrow> int \<Rightarrow> int \<Rightarrow> string \<Rightarrow> bool \<Rightarrow> ('s, unit) cli" where
  "db_create env net organization project name region cpu ram storage isolation wait =
     in_project env net organization project (\<lambda>client org_id proj_id.
     accepted env net client wait ''database''
       (sdk_create_database net client org_id proj_id name region isolation cpu ram storage) (sdk_get_database net client org_id proj_id))"

definition db_list :: "cli_env \<Rightarrow> 's network \<Rightarrow> string \<Rightarrow> string \<Rightarrow> ('s, unit) cli" where
  "db_list env net organization project =
     in_project env net organization project (\<lambda>client org_id proj_id. printing (sdk_list_databases net client org_id proj_id))"

definition db_get :: "cli_env \<Rightarrow> 's network \<Rightarrow> string \<Rightarrow> string \<Rightarrow> string \<Rightarrow> ('s, unit) cli" where
  "db_get env net organization project name =
     with_database env net organization project name (\<lambda>_ _ _. print_json)"

definition db_connect :: "cli_env \<Rightarrow> 's network \<Rightarrow> string \<Rightarrow> string \<Rightarrow> string \<Rightarrow> ('s, unit) cli" where
  "db_connect env net organization project name =
     at_database env net organization project name (\<lambda>client org_id proj_id db_id. printing (sdk_get_connection net client org_id proj_id db_id))"

definition db_delete :: "cli_env \<Rightarrow> 's network \<Rightarrow> string \<Rightarrow> string \<Rightarrow> string \<Rightarrow> ('s, unit) cli" where
  "db_delete env net organization project name =
     at_database env net organization project name (\<lambda>client org_id proj_id db_id. printing (sdk_delete_database net client org_id proj_id db_id))"

definition db_suspend :: "cli_env \<Rightarrow> 's network \<Rightarrow> string \<Rightarrow> string \<Rightarrow> string \<Rightarrow> ('s, unit) cli" where
  "db_suspend env net organization project name =
     at_database env net organization project name (\<lambda>client org_id proj_id db_id. printing (sdk_suspend_database net client org_id proj_id db_id))"

definition db_resume :: "cli_env \<Rightarrow> 's network \<Rightarrow> string \<Rightarrow> string \<Rightarrow> string \<Rightarrow> ('s, unit) cli" where
  "db_resume env net organization project name =
     at_database env net organization project name (\<lambda>client org_id proj_id db_id. printing (sdk_resume_database net client org_id proj_id db_id))"

definition db_resize :: "cli_env \<Rightarrow> 's network \<Rightarrow> string \<Rightarrow> string \<Rightarrow> string \<Rightarrow> int \<Rightarrow> int \<Rightarrow> int \<Rightarrow> ('s, unit) cli" where
  "db_resize env net organization project name cpu ram storage =
     at_database env net organization project name (\<lambda>client org_id proj_id db_id.
     printing (sdk_resize_database net client org_id proj_id db_id cpu ram storage))"

definition db_sql :: "cli_env \<Rightarrow> 's network \<Rightarrow> string \<Rightarrow> string \<Rightarrow> string \<Rightarrow> string \<Rightarrow> ('s, unit) cli" where
  "db_sql env net organization project name query =
     at_database env net organization project name (\<lambda>client org_id proj_id db_id.
     printing (sdk_execute_sql net client org_id proj_id db_id query None))"

definition backup_create :: "cli_env \<Rightarrow> 's network \<Rightarrow> string \<Rightarrow> string \<Rightarrow> string \<Rightarrow> bool \<Rightarrow> ('s, unit) cli" where
  "backup_create env net organization project name wait =
     at_database env net organization project name (\<lambda>client org_id proj_id db_id.
     accepted env net client wait ''backup'' (sdk_create_backup net client org_id proj_id db_id) (sdk_get_backup net client org_id proj_id db_id))"

definition backup_list :: "cli_env \<Rightarrow> 's network \<Rightarrow> string \<Rightarrow> string \<Rightarrow> string \<Rightarrow> ('s, unit) cli" where
  "backup_list env net organization project name =
     at_database env net organization project name (\<lambda>client org_id proj_id db_id. printing (sdk_list_backups net client org_id proj_id db_id))"

definition db_restore :: "cli_env \<Rightarrow> 's network \<Rightarrow> string \<Rightarrow> string \<Rightarrow> string \<Rightarrow> string \<Rightarrow> string \<Rightarrow> bool \<Rightarrow> ('s, unit) cli" where
  "db_restore env net organization project name backup_id new_name wait =
     at_database env net organization project name (\<lambda>client org_id proj_id db_id.
     accepted env net client wait ''database''
       (sdk_restore_backup net client org_id proj_id db_id backup_id new_name) (sdk_get_database net client org_id proj_id))"

definition webhooks_create :: "cli_env \<Rightarrow> 's network \<Rightarrow> string \<Rightarrow> string \<Rightarrow> string list \<Rightarrow> ('s, unit) cli" where
  "webhooks_create env net organization url event_types =
     in_organization env net organization (\<lambda>client org_id. printing (sdk_create_webhook net client org_id url event_types))"

definition webhooks_list :: "cli_env \<Rightarrow> 's network \<Rightarrow> string \<Rightarrow> ('s, unit) cli" where
  "webhooks_list env net organization =
     in_organization env net organization (\<lambda>client org_id. printing (sdk_list_webhooks net client org_id))"

definition webhooks_delete :: "cli_env \<Rightarrow> 's network \<Rightarrow> string \<Rightarrow> string \<Rightarrow> ('s, unit) cli" where
  "webhooks_delete env net organization webhook_id =
     in_organization env net organization (\<lambda>client org_id. printing (sdk_delete_webhook net client org_id webhook_id))"

definition webhooks_deliveries :: "cli_env \<Rightarrow> 's network \<Rightarrow> string \<Rightarrow> string \<Rightarrow> ('s, unit) cli" where
  "webhooks_deliveries env net organization webhook_id =
     in_organization env net organization (\<lambda>client org_id. printing (sdk_list_webhook_deliveries net client org_id webhook_id))"

definition jobs_get :: "cli_env \<Rightarrow> 's network \<Rightarrow> string \<Rightarrow> ('s, unit) cli" where
  "jobs_get env net job_id =
     chain (authenticated_client env) (\<lambda>client. printing (sdk_get_job net client job_id))"

lemmas command_defs = cli_logout_def whoami_def organizations_create_def organizations_list_def projects_create_def projects_list_def db_create_def db_list_def db_get_def db_connect_def db_delete_def db_suspend_def db_resume_def db_resize_def db_sql_def backup_create_def backup_list_def db_restore_def webhooks_create_def webhooks_list_def webhooks_delete_def webhooks_deliveries_def jobs_get_def

datatype cli_command =
    Login string string "string option" "string option"
  | Logout
  | Whoami
  | OrganizationsCreate string string
  | OrganizationsList
  | ProjectsCreate string string string
  | ProjectsList string
  | DbCreate string string string string int int int string bool
  | DbList string string
  | DbGet string string string
  | DbConnect string string string
  | DbDelete string string string
  | DbSuspend string string string
  | DbResume string string string
  | DbResize string string string int int int
  | DbSql string string string string
  | BackupCreate string string string bool
  | BackupList string string string
  | DbRestore string string string string string bool
  | WebhooksCreate string string "string list"
  | WebhooksList string
  | WebhooksDelete string string
  | WebhooksDeliveries string string
  | JobsGet string

text \<open>The command table of the application.\<close>

fun command_body :: "cli_env \<Rightarrow> 's network \<Rightarrow> cli_command \<Rightarrow> ('s, unit) cli" where
  "command_body env net (Login email password api_url otp) = cli_login env net email password api_url otp"
| "command_body env net Logout = cli_logout"
| "command_body env net Whoami = whoami env net"
| "command_body env net (OrganizationsCreate name slug) = organizations_create env net name slug"
| "command_body env net OrganizationsList = organizations_list env net"
| "command_body env net (ProjectsCreate organization name slug) = projects_create env net organization name slug"
| "command_body env net (ProjectsList organization) = projects_list env net organization"
| "command_body env net (DbCreate organization project name region cpu ram storage isolation wait) = db_create env net organization project name region cpu ram storage isolation wait"
| "command_body env net (DbList organization project) = db_list env net organization project"
| "command_body env net (DbGet organization project name) = db_get env net organization project name"
| "command_body env net (DbConnect organization project name) = db_connect env net organization project name"
| "command_body env net (DbDelete organization project name) = db_delete env net organization project name"
| "command_body env net (DbSuspend organization project name) = db_suspend env net organization project name"
| "command_body env net (DbResume organization project name) = db_resume env net organization project name"
| "command_body env net (DbResize organization project name cpu ram storage) = db_resize env net organization project name cpu ram storage"
| "command_body env net (DbSql organization project name query) = db_sql env net organization project name query"
| "command_body env net (BackupCreate organization project name wait) = backup_create env net organization project name wait"
| "command_body env net (BackupList organization project name) = backup_list env net organization project name"
| "command_body env net (DbRestore organization project name backup_id new_name wait) = db_restore env net organization project name backup_id new_name wait"
| "command_body env net (WebhooksCreate organization url event_types) = webhooks_create env net organization url event_types"
| "command_body env net (WebhooksList organization) = webhooks_list env net organization"
| "command_body env net (WebhooksDelete organization webhook_id) = webhooks_delete env net organization webhook_id"
| "command_body env net (WebhooksDeliveries organization webhook_id) = webhooks_deliveries env net organization webhook_id"
| "command_body env net (JobsGet job_id) = jobs_get env net job_id"

text \<open>\<open>_run\<close> turns an error of the API into a message and the exit code 1.\<close>

definition run_command :: "cli_env \<Rightarrow> 's network \<Rightarrow> cli_command \<Rightarrow> ('s, unit) cli" where
  "run_command env net command w =
     (case command_body env net command w of
        (Inl (CLI_Sdk (ApiError status detail)), w') \<Rightarrow> fail (''Error: '' @ text_of_json env detail) w'
      | outcome \<Rightarrow> outcome)"

section \<open>What a command may send\<close>

text \<open>A network that writes down the calls made over it.\<close>

definition recording :: "'s network \<Rightarrow> ('s \<times> http_call list) network" where
  "recording net = \<lparr>n_send = (\<lambda>call (s, log). case n_send net call s of (resp, s') \<Rightarrow> (resp, (s', log @ [call]))),
     n_clock = (\<lambda>(s, log). n_clock net s), n_sleep = (\<lambda>d (s, log). (n_sleep net d s, log))\<rparr>"

text \<open>The client the stored credentials stand for, and the calls it makes.\<close>

definition client_of :: "cli_env \<Rightarrow> credentials_file \<Rightarrow> cli_exn + platform_client" where
  "client_of env f = fst (authenticated_client env \<lparr>cw_outside = (), cw_file = f, cw_output = []\<rparr>)"

definition issued :: "cli_env \<Rightarrow> credentials_file \<Rightarrow> http_call \<Rightarrow> bool" where
  "issued env f call \<longleftrightarrow> (case client_of env f of
     Inl _ \<Rightarrow> False | Inr client \<Rightarrow> hc_base call = pc_base_url client \<and> hc_authorization call = request_headers client)"

definition changing :: "http_call \<Rightarrow> bool" where
  "changing call \<longleftrightarrow> hc_method call \<noteq> ''GET''"

definition session_log :: "cli_env \<Rightarrow> credentials_file \<Rightarrow> nat \<Rightarrow> 's \<times> http_call list \<Rightarrow> bool" where
  "session_log env f n s \<longleftrightarrow> list_all (issued env f) (snd s) \<and> length (filter changing (snd s)) \<le> n"

definition session :: "cli_env \<Rightarrow> credentials_file \<Rightarrow> nat \<Rightarrow> ('s \<times> http_call list) cli_world \<Rightarrow> bool" where
  "session env f n w \<longleftrightarrow> cw_file w = f \<and> session_log env f n (cw_outside w)"

lemma session_mono: "session env f n w \<Longrightarrow> n \<le> m \<Longrightarrow> session env f m w"
  by (simp add: session_def session_log_def)

lemma send_logged:
  assumes "client_of env f = Inr client" "session_log env f n s" "send_request (recording net) client verb path body s = (r, s')"
  shows "session_log env f (if verb = ''GET'' then n else Suc n) s'"
  using assms
  by (cases s) (auto simp: send_request_def recording_def session_log_def issued_def changing_def split: prod.splits option.splits)

lemma calling_keeps: "stays (session_log env f n) m \<Longrightarrow> stays (session env f n) (calling m)"
  unfolding stays_def calling_def session_def by (auto simp: split_beta simp del: split_paired_All)

lemma send_get:
  fixes net :: "'s network"
  shows "client_of env f = Inr client \<Longrightarrow> stays (session_log env f n) (send_request (recording net) client ''GET'' path body)"
  unfolding stays_def
proof (intro allI impI)
  fix s :: "'s \<times> http_call list"
  assume "client_of env f = Inr client" "session_log env f n s"
  from send_logged [OF this prod.collapse [symmetric], where net = net and verb = "''GET''" and path = path and body = body]
  show "session_log env f n (snd (send_request (recording net) client ''GET'' path body s))" by simp
qed

lemma send_change:
  assumes "client_of env f = Inr client"
  shows "holds (session env f 1) (session env f 0) (calling (send_request (recording net) client verb path body)) (\<lambda>_. session env f 1)"
proof -
  have "session_log env f 1 (snd (send_request (recording net) client verb path body s))" if "session_log env f 0 s" for s
    using send_logged [OF assms that, of net verb path body] that
    by (cases "send_request (recording net) client verb path body s") (auto simp: session_log_def split: if_splits)
  then show ?thesis by (auto simp: holds_def calling_def session_def split_beta split: sum.split)
qed

lemma emit_keeps: "stays (session env f n) (emit l)"
  unfolding emit_def by (rule stays_updates) (simp add: session_def)

lemma item_keeps: "stays (session env f n) (item name v)"
  unfolding item_def by (rule stays_basic)

lemma text_item_keeps: "stays (session env f n) (text_item env' name v)"
  unfolding text_item_def by (intro stays_rules item_keeps)

lemma fail_keeps: "stays (session env f n) (fail message)"
  unfolding fail_def by (intro stays_rules emit_keeps)

lemmas cli_keeps = emit_keeps item_keeps text_item_keeps fail_keeps

lemma pick_keeps: "stays (session env f n) (pick env' kind key ref listed)"
  unfolding pick_def by (intro stays_rules cli_keeps)

lemma resolve_keeps:
  assumes "client_of env f = Inr client"
  shows "stays (session env f n) (resolve_organization env' (recording net) client ref)"
    "stays (session env f n) (resolve_project env' (recording net) client org_id ref)"
    "stays (session env f n) (resolve_database env' (recording net) client org_id proj_id ref)"
  unfolding resolve_organization_def resolve_project_def resolve_database_def sdk_get_organization_def sdk_list_organizations_def
    sdk_get_project_def sdk_list_projects_def sdk_get_database_def sdk_list_databases_def
  by (intro stays_rules calling_keeps send_get pick_keeps assms)+

lemma wait_for_keeps:
  assumes "client_of env f = Inr client"
  shows "stays (session env f n) (wait_for env' (recording net) client result)"
proof -
  let ?log = "session_log env f n"
  have log: "?log s'" if "sdk_wait_for_job (recording net) client j 1 120 s = Some (r, s')" "?log s" for j r s s'
  proof (rule wait_stays [where I = ?log, OF that(1) _ _ that(2)])
    show "stays ?log (sdk_get_job (recording net) client j)" for j
      unfolding sdk_get_job_def by (rule send_get [OF assms])
    show "?log (n_sleep (recording net) d u)" if "?log u" for d u
      using that by (cases u) (simp add: recording_def session_log_def)
  qed
  show ?thesis
    unfolding wait_for_def
  proof (intro stays_chain text_item_keeps emit_keeps)
    show "stays (session env f n) (\<lambda>w. case sdk_wait_for_job (recording net) client j 1 120 (cw_outside w) of
       None \<Rightarrow> (Inl CLI_Hang, w) | Some (r, s) \<Rightarrow> (map_err CLI_Sdk (map_sum id (\<lambda>_. ()) r), w\<lparr>cw_outside := s\<rparr>))" for j
      using log by (auto simp: stays_def session_def split: option.split)
  qed
qed

text \<open>What a command does with its client.\<close>

abbreviation once :: "cli_env \<Rightarrow> credentials_file \<Rightarrow> ('s \<times> http_call list, 'a) cli \<Rightarrow> bool" where
  "once env f m \<equiv> holds (session env f 1) (session env f 0) m (\<lambda>_. session env f 1)"

lemma quiet_first: "(\<And>n. stays (session env f n) m) \<Longrightarrow> holds (session env f 1) (session env f 0) m (\<lambda>_. session env f 0)"
proof -
  assume keeps: "\<And>n. stays (session env f n) m"
  show ?thesis
    unfolding holds_def
  proof (intro allI impI)
    fix w r w'
    assume "session env f 0 w" "m w = (r, w')"
    with keeps [of 0] have w': "session env f 0 w'" unfolding stays_def by (metis snd_conv)
    then show "case r of Inl e \<Rightarrow> session env f 1 w' | Inr x \<Rightarrow> session env f 0 w'"
      by (cases r) (simp_all add: session_mono [OF w'])
  qed
qed

lemma quiet_once: "(\<And>n. stays (session env f n) m) \<Longrightarrow> once env f m"
  by (rule holds_weaken [OF quiet_first]) (auto intro: session_mono)

lemma print_keeps: "stays (session env f n) (print_json v)"
  unfolding print_json_def by (rule emit_keeps)

lemma printing_change:
  "client_of env f = Inr client \<Longrightarrow> once env f (printing (send_request (recording net) client verb path body))"
  unfolding printing_def by (rule holds_chain [OF send_change], assumption) (rule stays_holds [OF print_keeps])

lemma accepted_once:
  assumes client: "client_of env f = Inr client" and again: "\<And>i. again i = send_request (recording net) client ''GET'' (path' i) None"
  shows "once env f (accepted env' (recording net) client wait name (send_request (recording net) client verb path body) again)"
proof -
  have "stays (session env f 1) (if wait then chain (wait_for env' (recording net) client result) (\<lambda>_.
       chain (item name result) (\<lambda>part.
       chain (text_item env' ''id'' part) (\<lambda>i.
       chain (calling (again i)) (\<lambda>now.
       print_json (put_item name now result)))))
     else print_json result)" for result
    unfolding again by (intro stays_rules wait_for_keeps cli_keeps print_keeps calling_keeps send_get client)
  then show ?thesis
    unfolding accepted_def by (rule holds_chain [OF send_change [OF client] stays_holds])
qed

lemma client_of_eq: "cw_file w = f \<Longrightarrow> fst (authenticated_client env w) = client_of env f"
  by (auto simp: client_of_def authenticated_client_def load_credentials_def reads_exn_def fail_def emit_def updates_def throw_def
      item_def lifted_def give_def split: credentials_file.splits option.splits sum.splits)

lemma client_once:
  assumes "\<And>client. client_of env f = Inr client \<Longrightarrow> once env f (body client)"
  shows "once env f (chain (authenticated_client env) body)"
proof (rule holds_chain)
  have "stays (session env f n) (authenticated_client env)" for n
    unfolding authenticated_client_def load_credentials_def by (intro stays_rules cli_keeps)
  from quiet_first [OF this]
  show "holds (session env f 1) (session env f 0) (authenticated_client env) (\<lambda>client w. session env f 0 w \<and> client_of env f = Inr client)"
    unfolding holds_def using client_of_eq [of _ f env] by (fastforce simp: session_def split: sum.splits)
  show "holds (session env f 1) (\<lambda>w. session env f 0 w \<and> client_of env f = Inr client) (body client) (\<lambda>_. session env f 1)" for client
    by (rule holds_fact [where B = "client_of env f = Inr client"], simp) (rule holds_weaken [OF assms], auto)
qed

lemma in_organization_once:
  assumes "\<And>client org_id. client_of env f = Inr client \<Longrightarrow> once env f (body client org_id)"
  shows "once env f (in_organization env (recording net) organization body)"
  unfolding in_organization_def
  by (rule client_once, rule holds_chain [OF quiet_first], erule resolve_keeps,
      rule holds_chain [OF quiet_first], rule text_item_keeps, erule assms)

lemma in_project_once:
  assumes "\<And>client org_id proj_id. client_of env f = Inr client \<Longrightarrow> once env f (body client org_id proj_id)"
  shows "once env f (in_project env (recording net) organization project body)"
  unfolding in_project_def
  by (rule in_organization_once, rule holds_chain [OF quiet_first], erule resolve_keeps,
      rule holds_chain [OF quiet_first], rule text_item_keeps, erule assms)

lemma with_database_once:
  assumes "\<And>client org_id proj_id database. client_of env f = Inr client \<Longrightarrow> once env f (body client org_id proj_id database)"
  shows "once env f (with_database env (recording net) organization project name body)"
  unfolding with_database_def
  by (rule in_project_once, rule holds_chain [OF quiet_first], erule resolve_keeps, erule assms)

lemma at_database_once:
  assumes "\<And>client org_id proj_id db_id. client_of env f = Inr client \<Longrightarrow> once env f (body client org_id proj_id db_id)"
  shows "once env f (at_database env (recording net) organization project name body)"
  unfolding at_database_def
  by (rule with_database_once, rule holds_chain [OF quiet_first], rule text_item_keeps, erule assms)

fun uses_session :: "cli_command \<Rightarrow> bool" where
  "uses_session (Login email password api_url otp) = False"
| "uses_session Logout = False"
| "uses_session _ = True"

lemmas sdk_calls = sdk_me_def sdk_create_organization_def sdk_list_organizations_def sdk_create_project_def sdk_list_projects_def
  sdk_create_database_def sdk_list_databases_def sdk_get_database_def sdk_delete_database_def sdk_suspend_database_def
  sdk_resume_database_def sdk_resize_database_def sdk_get_connection_def sdk_execute_sql_def sdk_create_backup_def sdk_list_backups_def
  sdk_get_backup_def sdk_restore_backup_def sdk_create_webhook_def sdk_list_webhooks_def sdk_delete_webhook_def
  sdk_list_webhook_deliveries_def sdk_get_job_def

lemma body_once: "uses_session command \<Longrightarrow> once env f (command_body env (recording net) command)"
  by (cases command; simp only: command_body.simps uses_session.simps command_defs sdk_calls;
      (intro client_once in_organization_once in_project_once at_database_once with_database_once | simp only:);
      (erule printing_change | erule accepted_once | rule quiet_once [OF print_keeps]); simp add: sdk_calls)

text \<open>C23: Every command but signing in and out keeps to the session that is stored: it sends only calls to the stored
  service (or the one the environment names) with the stored token, leaves the credentials as they are, and
  sends at most one call that changes anything, whatever the server answers and however the command
  ends; without usable credentials it sends nothing.\<close>

theorem cli_confined:
  assumes "uses_session command" and "run_command env (recording net) command w = (r, w')" and "cw_outside w = (s, [])"
  shows "cw_file w' = cw_file w \<and> list_all (issued env (cw_file w)) (snd (cw_outside w')) \<and>
    length (filter changing (snd (cw_outside w'))) \<le> 1"
proof -
  let ?f = "cw_file w"
  obtain q v where body: "command_body env (recording net) command w = (q, v)" by (cases "command_body env (recording net) command w")
  have "session env ?f 0 w" using assms(3) by (simp add: session_def session_log_def)
  with body_once [OF assms(1), of env ?f net] body have v: "session env ?f 1 v"
    unfolding holds_def by (auto split: sum.splits)
  have "session env ?f 1 w'"
  proof (cases "\<exists>status detail. q = Inl (CLI_Sdk (ApiError status detail))")
    case True
    then obtain message where "fail message v = (r, w')" using assms(2) body by (auto simp: run_command_def)
    with fail_keeps [of env ?f 1 message] v show ?thesis unfolding stays_def by (metis snd_conv)
  next
    case False
    with assms(2) body have "w' = v" by (auto simp: run_command_def split: sum.splits cli_exn.splits sdk_exn.splits)
    with v show ?thesis by simp
  qed
  then show ?thesis by (simp add: session_def session_log_def)
qed

text \<open>A server with one organization, one project and one database, and a signed-in user who deletes it.\<close>

definition shop_answers :: "(string \<times> jv) list" where
  "shop_answers =
     [(''GET/organizations'', JList [JObj [(''id'', JStr ''1''), (''slug'', JStr ''acme'')]]),
      (''GET/organizations/1/projects'', JList [JObj [(''id'', JStr ''2''), (''slug'', JStr ''shop'')]]),
      (''GET/organizations/1/projects/2/databases'', JList [JObj [(''id'', JStr ''3''), (''name'', JStr ''main'')]]),
      (''DELETE/organizations/1/projects/2/databases/3'', JObj [(''job_id'', JStr ''4'')])]"

fun shop_send :: "http_call \<Rightarrow> unit \<Rightarrow> http_response option \<times> unit" where
  "shop_send call u = (Some (case map_of shop_answers (hc_method call @ hc_path call) of
     None \<Rightarrow> \<lparr>hr_status = 404, hr_text = ''Not Found'', hr_json = None\<rparr>
   | Some v \<Rightarrow> \<lparr>hr_status = 200, hr_text = ''{}'', hr_json = Some v\<rparr>), u)"

definition shop :: "unit network" where
  "shop = \<lparr>n_send = shop_send, n_clock = (\<lambda>_. 0), n_sleep = (\<lambda>_ u. u)\<rparr>"

definition shop_env :: cli_env where
  "shop_env = \<lparr>cl_api_url = None, cl_text = (\<lambda>_. ''?''), cl_repr = (\<lambda>s. s)\<rparr>"

definition signed_in :: "(unit \<times> http_call list) cli_world" where
  "signed_in = \<lparr>cw_outside = ((), []),
     cw_file = Credentials (JObj [(''base_url'', JStr ''http://p/''), (''email'', JStr ''a@x''), (''token'', JStr ''tok'')]), cw_output = []\<rparr>"

definition shop_run :: "(cli_exn + unit) \<times> (unit \<times> http_call list) cli_world" where
  "shop_run = run_command shop_env (recording shop) (DbDelete ''acme'' ''shop'' ''main'') signed_in"

theorem cli_confined_witness:
  "map hc_method (snd (cw_outside (snd shop_run))) = [''GET'', ''GET'', ''GET'', ''DELETE''] \<and>
   map hc_base (snd (cw_outside (snd shop_run))) = [''http://p'', ''http://p'', ''http://p'', ''http://p''] \<and>
   length (filter changing (snd (cw_outside (snd shop_run)))) \<le> 1 \<and> cw_file (snd shop_run) = cw_file signed_in"
proof -
  have run: "run_command shop_env (recording shop) (DbDelete ''acme'' ''shop'' ''main'') signed_in = (fst shop_run, snd shop_run)"
    by (simp add: shop_run_def)
  have "map hc_method (snd (cw_outside (snd shop_run))) = [''GET'', ''GET'', ''GET'', ''DELETE'']"
    "map hc_base (snd (cw_outside (snd shop_run))) = [''http://p'', ''http://p'', ''http://p'', ''http://p'']"
    by code_simp+
  with cli_confined [OF _ run, of "()"] show ?thesis by (simp add: signed_in_def)
qed

text \<open>A database whose name reads as a hexadecimal number of 32 digits cannot be named on the command line.\<close>

lemma hexadecimal_name: "is_uuid ''deadbeefdeadbeefdeadbeefdeadbeef''"
  by code_simp

lemma ids_read: "is_uuid ''6fa459ea-ee8a-3ca4-894e-db77e160355e'' \<and> is_uuid ''{6FA459EAEE8A3CA4894EDB77E160355E}'' \<and>
    is_uuid ''urn:uuid:6fa459ea-ee8a-3ca4-894e-db77e160355e'' \<and> \<not> is_uuid ''main'' \<and> \<not> is_uuid ''6fa459ea-ee8a-3ca4-894e-db77e160355g''"
  by code_simp

end
