(* ===== verification/CP_RateLimit.thy ===== *)
theory CP_RateLimit
  imports CP_Auth Python_Text
begin

text \<open>
  The rate limiter in front of the API, \<open>src/backend/app/core/rate_limit.py\<close> and the middleware
  of \<open>main.py\<close>, and the identifier check of \<open>services/sql_identifiers.py\<close>.  Times are
  microseconds of the monotonic clock; a deque is a list, oldest first; \<open>parse_uuid\<close> stands for
  \<open>uuid.UUID\<close>.
\<close>

section \<open>The sliding window\<close>

type_synonym buckets = "string \<Rightarrow> instant list"

definition rate_window :: int where
  "rate_window = 60 * 1000000"

definition check_rate_limit :: "instant \<Rightarrow> string \<Rightarrow> int \<Rightarrow> buckets \<Rightarrow> cp_exn + (bool \<times> int) \<times> buckets" where
  "check_rate_limit now key limit buckets =
     (case dropWhile (\<lambda>a. a \<le> now - rate_window) (buckets key) of bucket \<Rightarrow>
        if limit \<le> int (length bucket)
        then (case bucket of
                [] \<Rightarrow> Inl CP_KeyError
              | oldest # _ \<Rightarrow> Inr ((False, max 1 ((rate_window - (now - oldest)) div 1000000 + 1)), buckets(key := bucket)))
        else Inr ((True, 0), buckets(key := bucket @ [now])))"

section \<open>Whose bucket\<close>

definition unauthenticated_limit :: int where "unauthenticated_limit = 20"

definition default_authenticated_limit :: int where "default_authenticated_limit = 300"

definition plan_limits :: "(string \<times> int) list" where
  "plan_limits = [(''free'', 60), (''pro'', 600)]"

definition plan_cache_ttl :: int where "plan_cache_ttl = 30 * 1000000"

record limiter =
  lm_buckets :: buckets
  lm_plans :: "uid \<rightharpoonup> string \<times> instant"

definition look_up_plan :: "instant \<Rightarrow> cp_db \<Rightarrow> uid \<Rightarrow> limiter \<Rightarrow> cp_exn + string option \<times> limiter" where
  "look_up_plan now db organization_id l =
     rbind (one_or_none (filter (\<lambda>s. sb_organization_id s = organization_id) (c_subscriptions db))) (\<lambda>found.
     case found of
       None \<Rightarrow> Inr (None, l)
     | Some s \<Rightarrow> (case tget pl_id (c_plans db) (sb_plan_id s) of
          None \<Rightarrow> Inr (None, l)
        | Some plan \<Rightarrow> Inr (Some (pl_name plan),
             l\<lparr>lm_plans := (lm_plans l)(organization_id \<mapsto> (pl_name plan, now + plan_cache_ttl))\<rparr>)))"

definition plan_name_for_org :: "instant \<Rightarrow> cp_db \<Rightarrow> uid \<Rightarrow> limiter \<Rightarrow> cp_exn + string option \<times> limiter" where
  "plan_name_for_org now db organization_id l =
     (case lm_plans l organization_id of
        Some (name, expiry) \<Rightarrow> if expiry > now then Inr (Some name, l) else look_up_plan now db organization_id l
      | None \<Rightarrow> look_up_plan now db organization_id l)"

definition is_hex_or_dash :: "char \<Rightarrow> bool" where
  "is_hex_or_dash c = (case of_char c :: nat of n \<Rightarrow>
     48 \<le> n \<and> n \<le> 57 \<or> 97 \<le> n \<and> n \<le> 102 \<or> 65 \<le> n \<and> n \<le> 70 \<or> n = 45)"

definition org_prefix :: string where "org_prefix = ''/api/v1/organizations/''"

definition org_match :: "string \<Rightarrow> string option" where
  "org_match path =
     (case drop (length org_prefix) path of rest \<Rightarrow>
        if take (length org_prefix) path = org_prefix \<and> 36 \<le> length rest \<and> list_all is_hex_or_dash (take 36 rest) \<and>
           (drop 36 rest \<in> {[], [CHR 0x0A]} \<or> take 1 (drop 36 rest) = ''/'')
        then Some (take 36 rest) else None)"

record http_req =
  rq_path :: string
  rq_authorization :: string
  rq_client :: "string option"

definition resolve_key_and_limit ::
    "cp_env \<Rightarrow> crypto \<Rightarrow> (string \<Rightarrow> uid option) \<Rightarrow> instant \<Rightarrow> cp_db \<Rightarrow> http_req \<Rightarrow> limiter \<Rightarrow> cp_exn + (string \<times> int) \<times> limiter" where
  "resolve_key_and_limit env k parse_uuid now db req l =
     (case org_match (rq_path req) of
        Some text \<Rightarrow>
          (case parse_uuid text of
             None \<Rightarrow> Inl CP_ValueError
           | Some organization_id \<Rightarrow>
               rbind (plan_name_for_org now db organization_id l) (\<lambda>(plan_name, l').
               Inr ((''org:'' @ nat_string organization_id,
                     case plan_name of None \<Rightarrow> default_authenticated_limit
                     | Some name \<Rightarrow> if name = [] then default_authenticated_limit
                         else (case map_of plan_limits name of None \<Rightarrow> default_authenticated_limit | Some n \<Rightarrow> n)), l')))
      | None \<Rightarrow>
          (case (if map lower_char (take 7 (rq_authorization req)) = ''bearer ''
                 then decode_access_token env k (drop 7 (rq_authorization req)) else None) of
             Some (user_id, token_version) \<Rightarrow>
               Inr ((''user:TokenPayload(user_id='' @ nat_string user_id @ '', token_version='' @ int_string token_version @ '')'',
                     default_authenticated_limit), l)
           | None \<Rightarrow>
               Inr ((''ip:'' @ (case rq_client req of None \<Rightarrow> ''unknown'' | Some h \<Rightarrow> h), unauthenticated_limit), l)))"

text \<open>The middleware: \<open>None\<close> passes the request on, \<open>Some\<close> answers 429 with the value of
  \<open>Retry-After\<close>.\<close>

definition dispatch ::
    "cp_env \<Rightarrow> crypto \<Rightarrow> (string \<Rightarrow> uid option) \<Rightarrow> instant \<Rightarrow> cp_db \<Rightarrow> http_req \<Rightarrow> limiter \<Rightarrow> cp_exn + int option \<times> limiter" where
  "dispatch env k parse_uuid now db req l =
     (if rq_path req = ''/health'' then Inr (None, l)
      else rbind (resolve_key_and_limit env k parse_uuid now db req l) (\<lambda>((key, limit), l').
           rbind (check_rate_limit now key limit (lm_buckets l')) (\<lambda>((allowed, retry_after), buckets).
           Inr (if allowed then None else Some retry_after, l'\<lparr>lm_buckets := buckets\<rparr>))))"

section \<open>Identifiers\<close>

definition validate_identifier :: "string \<Rightarrow> cp_exn + string" where
  "validate_identifier name = (if is_valid_identifier name then Inr name else Inl CP_ValueError)"

section \<open>The limiter against its specification\<close>

fun serve :: "(instant \<times> string \<times> int) list \<Rightarrow> buckets \<Rightarrow> cp_exn + bool list" where
  "serve [] b = Inr []"
| "serve ((now, key, limit) # rs) b =
     rbind (check_rate_limit now key limit b) (\<lambda>((ok, _), b').
     rbind (serve rs b') (\<lambda>oks. Inr (ok # oks)))"

text \<open>The reference remembers every request it let through and counts those of the last window.\<close>

definition recent :: "instant \<Rightarrow> string \<Rightarrow> (string \<times> instant) list \<Rightarrow> instant list" where
  "recent now key history = filter (\<lambda>a. now - rate_window < a) (map snd (filter (\<lambda>h. fst h = key) history))"

fun reference :: "(instant \<times> string \<times> int) list \<Rightarrow> (string \<times> instant) list \<Rightarrow> bool list" where
  "reference [] history = []"
| "reference ((now, key, limit) # rs) history =
     (if int (length (recent now key history)) < limit
      then True # reference rs (history @ [(key, now)]) else False # reference rs history)"

fun request_times :: "instant \<Rightarrow> (instant \<times> string \<times> int) list \<Rightarrow> bool" where
  "request_times t [] = True"
| "request_times t ((now, key, limit) # rs) = (t \<le> now \<and> 0 < limit \<and> request_times now rs)"

definition tracks :: "instant \<Rightarrow> buckets \<Rightarrow> (string \<times> instant) list \<Rightarrow> bool" where
  "tracks t b history \<longleftrightarrow> (\<forall>k. sorted (b k) \<and> (\<forall>a\<in>set (b k). a \<le> t) \<and>
     filter (\<lambda>a. t - rate_window < a) (b k) = recent t k history)"

lemma dropWhile_sorted: "sorted xs \<Longrightarrow> dropWhile (\<lambda>a. a \<le> c) xs = filter (\<lambda>a. (c::int) < a) xs"
proof (induction xs)
  case (Cons x xs)
  then show ?case by (cases "x \<le> c") (auto simp: filter_id_conv intro!: filter_True [symmetric])
qed simp

lemma tracks_recent:
  assumes "tracks t b history" and "t \<le> now"
  shows "dropWhile (\<lambda>a. a \<le> now - rate_window) (b k) = recent now k history"
proof -
  have "filter (\<lambda>a. now - rate_window < a) (b k) = filter (\<lambda>a. now - rate_window < a) (filter (\<lambda>a. t - rate_window < a) (b k))"
    using assms(2) by (auto intro: filter_cong)
  also have "\<dots> = filter (\<lambda>a. now - rate_window < a) (recent t k history)" using assms(1) by (simp add: tracks_def)
  also have "\<dots> = recent now k history" using assms(2) by (auto simp: recent_def intro: filter_cong)
  finally show ?thesis using assms(1) dropWhile_sorted by (simp add: tracks_def)
qed
lemma tracks_step:
  assumes tr: "tracks t b history" and t: "t \<le> now" and l: "0 < limit"
  shows "if int (length (recent now key history)) < limit
    then check_rate_limit now key limit b = Inr ((True, 0), b(key := recent now key history @ [now])) \<and>
         tracks now (b(key := recent now key history @ [now])) (history @ [(key, now)])
    else (\<exists>n. check_rate_limit now key limit b = Inr ((False, n), b(key := recent now key history))) \<and>
         tracks now (b(key := recent now key history)) history"
proof -
  note d = tracks_recent [OF tr t]
  have same: "recent now k history = filter (\<lambda>a. now - rate_window < a) (b k)" for k
    using tr d [of k] by (simp add: tracks_def dropWhile_sorted)
  have srt: "sorted (recent now k history)" "\<forall>a\<in>set (recent now k history). a \<le> t \<and> now - rate_window < a" for k
    unfolding same using tr by (auto simp: tracks_def sorted_wrt_filter)
  have keep: "filter (\<lambda>a. now - rate_window < a) (recent now key history) = recent now key history"
    by (simp add: recent_def)
  note same' = same [symmetric]
  have hist: "recent now k (history @ [(key, now)]) = (if k = key then recent now k history @ [now] else recent now k history)" for k
    by (simp add: recent_def rate_window_def)
  have old: "sorted (b k)" "\<forall>a\<in>set (b k). a \<le> now" for k using tr t by (fastforce simp: tracks_def)+
  show ?thesis
  proof (cases "int (length (recent now key history)) < limit")
    case True
    then have "tracks now (b(key := recent now key history @ [now])) (history @ [(key, now)])"
      using srt [of key] t old same' keep hist
      by (fastforce simp: tracks_def sorted_append rate_window_def)
    with True show ?thesis by (simp add: check_rate_limit_def d)
  next
    case False
    have "tracks now (b(key := recent now key history)) history"
      using srt [of key] t old same' keep by (fastforce simp: tracks_def)
    with False l show ?thesis by (cases "recent now key history") (auto simp: check_rate_limit_def d)
  qed
qed

lemma serve_reference:
  "tracks t b history \<Longrightarrow> request_times t rs \<Longrightarrow> serve rs b = Inr (reference rs history)"
proof (induction rs arbitrary: t b history)
  case (Cons r rs)
  obtain now key limit where r: "r = (now, key, limit)" by (cases r)
  have c: "t \<le> now" "0 < limit" "request_times now rs" using Cons.prems(2) by (auto simp: r)
  note st = tracks_step [OF Cons.prems(1) c(1,2), of key]
  show ?case
  proof (cases "int (length (recent now key history)) < limit")
    case True
    then have ok: "check_rate_limit now key limit b = Inr ((True, 0), b(key := recent now key history @ [now]))"
      and tr: "tracks now (b(key := recent now key history @ [now])) (history @ [(key, now)])" using st by simp_all
    then show ?thesis using True by (simp add: r ok Cons.IH [OF tr c(3)])
  next
    case False
    then obtain n where ok: "check_rate_limit now key limit b = Inr ((False, n), b(key := recent now key history))"
      and tr: "tracks now (b(key := recent now key history)) history" using st by auto
    then show ?thesis using False by (simp add: r ok Cons.IH [OF tr c(3)])
  qed
qed simp

text \<open>C28: The limiter does what it promises: from an empty start, over any sequence of requests in the
  order of the clock, it lets a request through exactly when fewer than the limit were let through
  for the same key in the last sixty seconds; pruning the deques changes no decision.\<close>

theorem rate_limit_exact:
  assumes "request_times t rs"
  shows "serve rs (\<lambda>_. []) = Inr (reference rs [])"
  using serve_reference [OF _ assms] by (simp add: tracks_def recent_def)

theorem rate_limit_exact_witness:
  "serve [(0, ''ip:a'', 2), (1, ''ip:a'', 2), (2, ''ip:a'', 2), (3, ''ip:b'', 2), (60000000, ''ip:a'', 2)] (\<lambda>_. []) =
     Inr [True, True, False, True, True]"
  by (subst rate_limit_exact [of 0]) (simp_all add: recent_def rate_window_def)

text \<open>The check meant to keep names safe inside SQL accepts a trailing newline.\<close>

lemma identifier_newline: "is_valid_identifier ''abc'' \<and> is_valid_identifier (''abc'' @ [CHR 0x0A])"
  by code_simp
end
