(* ===== verification/CP_Payments.thy ===== *)
theory CP_Payments
  imports CP_Billing CP_Events Python_Text
begin

text \<open>
  Settling invoices: \<open>src/backend/app/services/payment_service.py\<close>, the gateways' clients in
  \<open>services/payment_providers\<close> and the manual provider in \<open>services/payments.py\<close>.

  The gateways are parameters: each request is a function to the status and the values of the
  response the code reads, \<open>None\<close> when there is no response.  An inbound webhook is given as its
  body, the canonical text \<open>json.dumps\<close> makes of it, and the values the handler reads from it;
  parsing JSON is not represented.
\<close>

section \<open>Gateways\<close>

record np_response =
  npr_payment_id :: string
  npr_payment_status :: "string option"
  npr_pay_address :: "string option"
  npr_pay_amount :: "rat option"
  npr_pay_currency :: "string option"

record gateways =
  g_nowpayments_ipn_secret :: string
  g_fedapay_webhook_secret :: string
  g_hmac512 :: "string \<Rightarrow> string \<Rightarrow> string"
  g_tolerance_usd :: rat
  g_default_pay_currency :: string
  g_payment_window :: int
  g_np_payment :: "rat \<Rightarrow> string \<Rightarrow> uid \<Rightarrow> string \<Rightarrow> (int \<times> np_response) option"
  g_fp_transaction :: "int \<Rightarrow> string \<Rightarrow> uid \<Rightarrow> string \<Rightarrow> (int \<times> string) option"
  g_fp_token :: "string \<Rightarrow> (int \<times> string) option"
  g_error_text :: "cp_exn \<Rightarrow> string"
  g_fp_charge :: "string \<Rightarrow> string \<Rightarrow> string \<Rightarrow> string \<Rightarrow> int option"

definition answered :: "cp_exn \<Rightarrow> (int \<times> 'a) option \<Rightarrow> cp_exn + 'a" where
  "answered e resp = (case resp of None \<Rightarrow> Inl CP_HTTPError
     | Some (code, body) \<Rightarrow> if 400 \<le> code then Inl e else Inr body)"

definition mobile_money_operators :: "(string \<times> string) list" where
  "mobile_money_operators =
     [(''mtn_open'', ''bj''), (''moov'', ''bj''), (''sbin'', ''bj''), (''moov_tg'', ''tg''), (''togocel'', ''tg''),
      (''mtn_ci'', ''ci''), (''airtel_ne'', ''ne''), (''free_sn'', ''sn'')]"

definition create_payment :: "gateways \<Rightarrow> rat \<Rightarrow> string \<Rightarrow> uid \<Rightarrow> string \<Rightarrow> cp_exn + np_response" where
  "create_payment g price_amount price_currency order_id pay_currency =
     answered NowPayments (g_np_payment g price_amount price_currency order_id pay_currency)"

definition create_transaction :: "gateways \<Rightarrow> int \<Rightarrow> string \<Rightarrow> uid \<Rightarrow> string \<Rightarrow> cp_exn + string" where
  "create_transaction g amount currency invoice_id customer_email =
     answered FedaPay (g_fp_transaction g amount currency invoice_id customer_email)"

definition generate_token :: "gateways \<Rightarrow> string \<Rightarrow> cp_exn + string" where
  "generate_token g transaction_id = answered FedaPay (g_fp_token g transaction_id)"

definition charge_mobile_money :: "gateways \<Rightarrow> string \<Rightarrow> string \<Rightarrow> string \<Rightarrow> cp_exn + unit" where
  "charge_mobile_money g token mode phone_number =
     (case map_of mobile_money_operators mode of
        None \<Rightarrow> Inl FedaPay
      | Some country \<Rightarrow> answered FedaPay (map_option (\<lambda>c. (c, ())) (g_fp_charge g token mode phone_number country)))"

section \<open>Signatures\<close>

definition verify_ipn_signature :: "gateways \<Rightarrow> string \<Rightarrow> string \<Rightarrow> bool" where
  "verify_ipn_signature g sorted_body received_sig \<longleftrightarrow>
     g_hmac512 g (g_nowpayments_ipn_secret g) sorted_body = map lower_char received_sig"

definition header_values :: "string \<Rightarrow> string \<Rightarrow> string list" where
  "header_values k signature_header =
     map (\<lambda>chunk. strip (snd (partition_eq chunk)))
       (filter (\<lambda>chunk. strip (fst (partition_eq chunk)) = k) (split_on (CHR '','') signature_header))"

definition webhook_tolerance :: int where
  "webhook_tolerance = 300 * 1000000"

definition fedapay_sign :: "cp_env \<Rightarrow> string \<Rightarrow> string \<Rightarrow> string \<Rightarrow> string" where
  "fedapay_sign env secret timestamp body = e_hmac env secret (timestamp @ ''.'' @ body)"

definition verify_webhook_signature :: "cp_env \<Rightarrow> gateways \<Rightarrow> string \<Rightarrow> string \<Rightarrow> cp_exn + bool" where
  "verify_webhook_signature env g body signature_header =
     (case header_values ''t'' signature_header of
        [] \<Rightarrow> Inr False
      | timestamp # _ \<Rightarrow>
          if header_values ''s'' signature_header = [] then Inr False
          else case python_int timestamp of
                 None \<Rightarrow> Inl CP_ValueError
               | Some t \<Rightarrow>
                   if \<bar>e_now env - t * 1000000\<bar> > webhook_tolerance then Inr False
                   else Inr (List.member (header_values ''s'' signature_header)
                          (fedapay_sign env (g_fedapay_webhook_secret g) timestamp body)))"
section \<open>Settlement\<close>

definition put_invoice :: "invoice \<Rightarrow> unit cpm" where
  "put_invoice i = modify (\<lambda>db. db\<lparr>c_invoices := tset iv_id i (c_invoices db)\<rparr>)"

definition put_payment :: "payment \<Rightarrow> unit cpm" where
  "put_payment p = modify (\<lambda>db. db\<lparr>c_payments := tset py_id p (c_payments db)\<rparr>)"

fun provider_value :: "payment_provider_name \<Rightarrow> string" where
  "provider_value PP_MANUAL = ''manual''"
| "provider_value PP_NOWPAYMENTS = ''nowpayments''"
| "provider_value PP_FEDAPAY = ''fedapay''"

text \<open>\<open>str\<close> of a value read from a column with two decimals.\<close>

definition cents_string :: "rat \<Rightarrow> string" where
  "cents_string x = (case round_half_up (x * 100) of c \<Rightarrow>
     (if c < 0 then ''-'' else []) @ nat_string (nat \<bar>c\<bar> div 100) @ ''.'' @
     nat_string (nat \<bar>c\<bar> mod 100 div 10) @ nat_string (nat \<bar>c\<bar> mod 10))"

definition unpaid :: "uid \<Rightarrow> cp_db \<Rightarrow> invoice list" where
  "unpaid subscription_id db =
     filter (\<lambda>i. iv_subscription_id i = subscription_id \<and> iv_status i = IV_FINALIZED) (c_invoices db)"

definition reactivate_if_current :: "invoice \<Rightarrow> unit cpm" where
  "reactivate_if_current invoice =
     bindM (query (\<lambda>db. tget sb_id (c_subscriptions db) (iv_subscription_id invoice))) (\<lambda>found.
     case found of
       None \<Rightarrow> ret ()
     | Some s \<Rightarrow>
         if sb_status s \<noteq> SB_PAST_DUE then ret ()
         else bindM (query (\<lambda>db. filter (\<lambda>i. iv_id i \<noteq> iv_id invoice) (unpaid (sb_id s) db))) (\<lambda>still_unpaid.
              if still_unpaid = []
              then bindM (put_subscription (s\<lparr>sb_status := SB_ACTIVE\<rparr>)) (\<lambda>_.
                   notify_subscription_reactivated (iv_organization_id invoice))
              else ret ()))"

definition mark_invoice_paid :: "cp_env \<Rightarrow> invoice \<Rightarrow> string \<Rightarrow> string \<Rightarrow> unit cpm" where
  "mark_invoice_paid env invoice provider provider_reference =
     bindM (put_invoice (invoice\<lparr>iv_status := IV_PAID, iv_paid_at := Some (e_now env),
                                 iv_payment_reference := Some provider_reference\<rparr>)) (\<lambda>_.
     bindM (notify_invoice_paid (iv_organization_id invoice) (iv_id invoice) provider) (\<lambda>_.
     bindM (emit_event env (Some (iv_organization_id invoice)) ''invoice.paid''
              [(''invoice_id'', nat_string (iv_id invoice)), (''amount'', cents_string (iv_total_amount invoice)),
               (''currency'', iv_currency invoice)]) (\<lambda>_.
     reactivate_if_current invoice)))"

text \<open>\<open>ManualPaymentProvider.charge\<close> hands the reference back.\<close>

definition manual_charge :: "string \<Rightarrow> string" where
  "manual_charge reference = reference"

definition pay_invoice_manually :: "cp_env \<Rightarrow> invoice \<Rightarrow> unit cpm" where
  "pay_invoice_manually env invoice =
     mark_invoice_paid env invoice ''manual'' (manual_charge (nat_string (iv_id invoice)))"

definition add_payment :: "payment \<Rightarrow> payment cpm" where
  "add_payment p =
     bindM uuid4 (\<lambda>i.
     bindM (query (\<lambda>db. list_ex (\<lambda>q. py_provider q = py_provider p \<and> py_provider_payment_id p \<noteq> None \<and>
                          py_provider_payment_id q = py_provider_payment_id p) (c_payments db))) (\<lambda>taken.
     bindM (ensure (\<not> taken) CP_IntegrityError) (\<lambda>_.
     bindM (ensure (case py_pay_amount p of None \<Rightarrow> True | Some x \<Rightarrow> pg_fits 20 8 x) CP_DataError) (\<lambda>_.
     bindM (modify (\<lambda>db. db\<lparr>c_payments := c_payments db @
              [p\<lparr>py_id := i, py_pay_amount := map_option (pg_round 8) (py_pay_amount p)\<rparr>]\<rparr>)) (\<lambda>_.
     ret (p\<lparr>py_id := i, py_pay_amount := map_option (pg_round 8) (py_pay_amount p)\<rparr>))))))"

definition initiate_crypto_payment :: "cp_env \<Rightarrow> gateways \<Rightarrow> invoice \<Rightarrow> string option \<Rightarrow> payment cpm" where
  "initiate_crypto_payment env g invoice pay_currency =
     (case (case pay_currency of None \<Rightarrow> g_default_pay_currency g | Some c \<Rightarrow> if c = [] then g_default_pay_currency g else c) of currency \<Rightarrow>
     bindM (query_exn (\<lambda>_. create_payment g (float_of (iv_total_amount invoice)) (map lower_char (iv_currency invoice))
              (iv_id invoice) currency)) (\<lambda>response.
     add_payment \<lparr>py_id = 0, py_invoice_id = iv_id invoice, py_organization_id = iv_organization_id invoice,
        py_provider = PP_NOWPAYMENTS, py_provider_payment_id = Some (npr_payment_id response),
        py_amount = iv_total_amount invoice, py_currency = iv_currency invoice, py_status = PY_PENDING,
        py_provider_status = npr_payment_status response, py_pay_address = npr_pay_address response,
        py_pay_amount = npr_pay_amount response, py_pay_currency = npr_pay_currency response,
        py_payment_expires_at = Some (e_now env + g_payment_window g), py_error = None\<rparr>))"

definition truncate_int :: "rat \<Rightarrow> int" where
  "truncate_int x = (if x < 0 then - \<lfloor>- x\<rfloor> else \<lfloor>x\<rfloor>)"

text \<open>The row is committed before the charge, whose failure is recorded on it and not raised.\<close>

definition initiate_mobile_money_payment ::
    "cp_env \<Rightarrow> gateways \<Rightarrow> invoice \<Rightarrow> string \<Rightarrow> string \<Rightarrow> string \<Rightarrow> payment cpm" where
  "initiate_mobile_money_payment env g invoice mode phone_number customer_email =
     bindM (ensure (map_of mobile_money_operators mode \<noteq> None) FedaPay) (\<lambda>_.
     bindM (query_exn (\<lambda>_. create_transaction g (truncate_int (iv_total_amount invoice)) (iv_currency invoice)
              (iv_id invoice) customer_email)) (\<lambda>transaction_id.
     bindM (query_exn (\<lambda>_. generate_token g transaction_id)) (\<lambda>token.
     bindM (add_payment \<lparr>py_id = 0, py_invoice_id = iv_id invoice, py_organization_id = iv_organization_id invoice,
              py_provider = PP_FEDAPAY, py_provider_payment_id = Some transaction_id,
              py_amount = iv_total_amount invoice, py_currency = iv_currency invoice, py_status = PY_PENDING,
              py_provider_status = Some ''pending'', py_pay_address = None, py_pay_amount = None,
              py_pay_currency = None, py_payment_expires_at = None, py_error = None\<rparr>) (\<lambda>payment.
     bindM commit (\<lambda>_.
     case charge_mobile_money g token mode phone_number of
       Inr _ \<Rightarrow> ret payment
     | Inl e \<Rightarrow> bindM (put_payment (payment\<lparr>py_error := Some (take 2000 (g_error_text g e))\<rparr>)) (\<lambda>_.
               bindM commit (\<lambda>_.
               ret (payment\<lparr>py_error := Some (take 2000 (g_error_text g e))\<rparr>))))))))"

definition find_payment :: "payment_provider_name \<Rightarrow> string \<Rightarrow> cp_db \<Rightarrow> cp_exn + payment option" where
  "find_payment provider provider_payment_id db =
     one_or_none (filter (\<lambda>p. py_provider p = provider \<and> py_provider_payment_id p = Some provider_payment_id) (c_payments db))"

definition finalize_payment :: "cp_env \<Rightarrow> payment \<Rightarrow> unit cpm" where
  "finalize_payment env payment =
     (if py_status payment = PY_SUCCEEDED then ret ()
      else
        bindM (put_payment (payment\<lparr>py_status := PY_SUCCEEDED\<rparr>)) (\<lambda>_.
        bindM (query (\<lambda>db. tget iv_id (c_invoices db) (py_invoice_id payment))) (\<lambda>found.
        case found of
          None \<Rightarrow> ret ()
        | Some invoice \<Rightarrow>
            if iv_status invoice = IV_PAID then ret ()
            else mark_invoice_paid env invoice (provider_value (py_provider payment)) (nat_string (py_id payment)))))"

definition fail_payment :: "payment \<Rightarrow> string \<Rightarrow> unit cpm" where
  "fail_payment payment provider =
     bindM (put_payment (payment\<lparr>py_status := PY_FAILED\<rparr>)) (\<lambda>_.
     bindM (query (\<lambda>db. tget iv_id (c_invoices db) (py_invoice_id payment))) (\<lambda>found.
     case found of
       None \<Rightarrow> ret ()
     | Some invoice \<Rightarrow> notify_payment_failed (iv_organization_id invoice) (iv_id invoice) provider))"

text \<open>What the NOWPayments handler reads from the notification; absent amounts are 0.\<close>

record np_notification =
  npn_payment_id :: string
  npn_payment_status :: "string option"
  npn_actually_paid :: rat
  npn_price_amount :: rat

definition np_settled :: "gateways \<Rightarrow> np_notification \<Rightarrow> bool" where
  "np_settled g n \<longleftrightarrow> npn_payment_status n = Some ''finished'' \<or>
     npn_payment_status n = Some ''partially_paid'' \<and> dsub (npn_price_amount n) (npn_actually_paid n) \<le> g_tolerance_usd g"

definition handle_nowpayments_webhook :: "cp_env \<Rightarrow> gateways \<Rightarrow> string \<Rightarrow> np_notification \<Rightarrow> string \<Rightarrow> unit cpm" where
  "handle_nowpayments_webhook env g sorted_body n signature =
     bindM (ensure (verify_ipn_signature g sorted_body signature) PaymentWebhook) (\<lambda>_.
     bindM (query_exn (find_payment PP_NOWPAYMENTS (npn_payment_id n))) (\<lambda>found.
     case found of
       None \<Rightarrow> ret ()
     | Some payment \<Rightarrow>
         if py_status payment \<noteq> PY_PENDING then ret ()
         else case payment\<lparr>py_provider_status := npn_payment_status n\<rparr> of payment' \<Rightarrow>
           bindM (put_payment payment') (\<lambda>_.
           if np_settled g n then finalize_payment env payment'
           else if npn_payment_status n \<in> {Some ''failed'', Some ''expired''} \<and> npn_actually_paid n = 0
           then fail_payment payment' ''nowpayments''
           else ret ())))"

definition handle_fedapay_webhook :: "cp_env \<Rightarrow> gateways \<Rightarrow> string \<Rightarrow> string \<Rightarrow> string option \<Rightarrow> string \<Rightarrow> unit cpm" where
  "handle_fedapay_webhook env g body entity_id entity_status signature_header =
     bindM (query_exn (\<lambda>_. verify_webhook_signature env g body signature_header)) (\<lambda>valid.
     bindM (ensure valid PaymentWebhook) (\<lambda>_.
     bindM (query_exn (find_payment PP_FEDAPAY entity_id)) (\<lambda>found.
     case found of
       None \<Rightarrow> ret ()
     | Some payment \<Rightarrow>
         if py_status payment \<noteq> PY_PENDING then ret ()
         else case payment\<lparr>py_provider_status := entity_status\<rparr> of payment' \<Rightarrow>
           if entity_status = Some ''approved''
           then bindM (put_payment payment') (\<lambda>_. finalize_payment env payment')
           else if entity_status \<in> {Some ''declined'', Some ''canceled''}
           then bindM (put_payment payment') (\<lambda>_. fail_payment payment' ''fedapay'')
           else ret ())))"
end
