(* ===== verification/CP_Scheduler.thy ===== *)
theory CP_Scheduler
  imports CP_HA CP_Backups CP_Payments CP_Frame
begin

text \<open>
  The scheduler process, \<open>src/backend/app/scheduler.py\<close>.  Each function runs in a session of its
  own: an exception leaves only what was committed and ends the tick.
\<close>

section \<open>Backups\<close>

definition reverify_interval :: int where
  "reverify_interval = 7 * 24 * 3600 * 1000000"

definition last_automatic :: "cp_db \<Rightarrow> uid \<Rightarrow> backup option" where
  "last_automatic db database_id =
     (case sort_key (\<lambda>b. - bk_created_at b) (filter (\<lambda>b. bk_database_id b = database_id \<and> bk_type b = AUTOMATIC) (c_backups db)) of
        [] \<Rightarrow> None | b # _ \<Rightarrow> Some b)"

definition backup_due :: "instant \<Rightarrow> cp_db \<Rightarrow> database \<Rightarrow> bool" where
  "backup_due now db d = (case db_backup_policy d of
     None \<Rightarrow> False
   | Some policy \<Rightarrow> bp_enabled policy \<and> (case last_automatic db (db_id d) of
        None \<Rightarrow> True
      | Some b \<Rightarrow> \<not> now - bk_created_at b < bp_frequency_hours policy * 3600000000))"

definition schedule_backup :: "cp_env \<Rightarrow> database \<Rightarrow> unit cpm" where
  "schedule_backup env d =
     bindM uuid4 (\<lambda>i.
     bindM (modify (\<lambda>db. db\<lparr>c_backups := c_backups db @ [new_backup (e_now env) i (db_id d) AUTOMATIC]\<rparr>)) (\<lambda>_.
     bindM (enqueue env ''backup_database'' [(''backup_id'', i)] None None (Some ''backup'') (Some i)) (\<lambda>_.
     ret ())))"

fun backup_loop :: "cp_env \<Rightarrow> database list \<Rightarrow> nat cpm" where
  "backup_loop env [] = ret 0"
| "backup_loop env (d # ds) =
     bindM (query (\<lambda>db. backup_due (e_now env) db d)) (\<lambda>due.
     if \<not> due then backup_loop env ds
     else bindM (schedule_backup env d) (\<lambda>_.
          bindM (backup_loop env ds) (\<lambda>n. ret (Suc n))))"

definition running :: "cp_db \<Rightarrow> database list" where
  "running db = filter (\<lambda>d. db_status d = DB_RUNNING) (c_databases db)"

definition enqueue_due_backups :: "cp_env \<Rightarrow> nat cpm" where
  "enqueue_due_backups env = http_request (
     bindM (query running) (\<lambda>databases.
     bindM (backup_loop env databases) (\<lambda>n.
     bindM commit (\<lambda>_.
     ret n))))"

definition needs_verification :: "instant \<Rightarrow> backup \<Rightarrow> bool" where
  "needs_verification now b \<longleftrightarrow> bk_status b \<in> {BK_COMPLETED, BK_VERIFIED} \<and>
     (case bk_verified_at b of None \<Rightarrow> True | Some t \<Rightarrow> \<not> t > now - reverify_interval)"

fun verification_loop :: "cp_env \<Rightarrow> backup list \<Rightarrow> nat cpm" where
  "verification_loop env [] = ret 0"
| "verification_loop env (b # bs) =
     bindM (enqueue env ''verify_backup'' [(''backup_id'', bk_id b)] None None (Some ''backup'') (Some (bk_id b))) (\<lambda>_.
     bindM (verification_loop env bs) (\<lambda>n. ret (Suc n)))"

definition enqueue_due_verifications :: "cp_env \<Rightarrow> nat cpm" where
  "enqueue_due_verifications env = http_request (
     bindM (query (\<lambda>db. filter (needs_verification (e_now env)) (c_backups db))) (\<lambda>backups.
     bindM (verification_loop env backups) (\<lambda>n.
     bindM commit (\<lambda>_.
     ret n))))"

text \<open>The object is deleted first; an unreachable agent leaves the row for the next tick.\<close>

definition delete_object :: "cp_env \<Rightarrow> database \<Rightarrow> backup \<Rightarrow> bool cpm" where
  "delete_object env d b =
     (if db_cluster_id d = None then ret True
      else (\<lambda>w. case bindM (get_primary_node (db_cluster_id d)) (\<lambda>node. call_agent env node (DeleteBackup (bk_storage_key b))) w of (r, w') \<Rightarrow>
             (case r of Inl AgentUnreachable \<Rightarrow> Inr False | Inl e \<Rightarrow> Inl e | Inr _ \<Rightarrow> Inr True, w')))"

fun purge_loop :: "cp_env \<Rightarrow> database \<Rightarrow> backup list \<Rightarrow> nat cpm" where
  "purge_loop env d [] = ret 0"
| "purge_loop env d (b # bs) =
     bindM (delete_object env d b) (\<lambda>deleted.
     if \<not> deleted then purge_loop env d bs
     else bindM (put_backup (b\<lparr>bk_status := BK_PURGED\<rparr>)) (\<lambda>_.
          bindM (purge_loop env d bs) (\<lambda>n. ret (Suc n))))"

definition expired_backups :: "instant \<Rightarrow> int \<Rightarrow> uid \<Rightarrow> cp_db \<Rightarrow> backup list" where
  "expired_backups now retention_days database_id db =
     filter (\<lambda>b. bk_database_id b = database_id \<and> bk_type b = AUTOMATIC \<and> bk_status b \<noteq> BK_PURGED \<and>
       \<not> bk_created_at b > now - retention_days * 24 * 3600 * 1000000) (c_backups db)"

fun purge_databases :: "cp_env \<Rightarrow> database list \<Rightarrow> nat cpm" where
  "purge_databases env [] = ret 0"
| "purge_databases env (d # ds) =
     (case db_backup_policy d of
        None \<Rightarrow> purge_databases env ds
      | Some policy \<Rightarrow>
          if bp_retention_days policy = 0 then purge_databases env ds
          else bindM (query (expired_backups (e_now env) (bp_retention_days policy) (db_id d))) (\<lambda>expired.
               bindM (purge_loop env d expired) (\<lambda>n.
               bindM (purge_databases env ds) (\<lambda>m. ret (n + m)))))"

definition purge_expired_automatic_backups :: "cp_env \<Rightarrow> nat cpm" where
  "purge_expired_automatic_backups env = http_request (
     bindM (query c_databases) (\<lambda>databases.
     bindM (purge_databases env databases) (\<lambda>n.
     bindM commit (\<lambda>_.
     ret n))))"

section \<open>Failover\<close>

definition primary_unhealthy :: "instant \<Rightarrow> uid \<Rightarrow> cp_db \<Rightarrow> cp_exn + bool" where
  "primary_unhealthy now cluster_id db =
     rbind (one_or_none (filter (\<lambda>m. cm_cluster_id m = cluster_id \<and> cm_role m = PRIMARY) (c_members db))) (\<lambda>found.
     case found of
       None \<Rightarrow> Inr False
     | Some m \<Rightarrow> (case tget nd_id (c_nodes db) (cm_node_id m) of
          None \<Rightarrow> Inr True
        | Some node \<Rightarrow> Inr (\<not> is_eligible_for_placement now node)))"

text \<open>An attempt that finds no replica is recorded; any other exception ends the loop.\<close>

definition attempt_failover :: "cp_env \<Rightarrow> uid \<Rightarrow> nat cpm" where
  "attempt_failover env cluster_id w =
     (case execute_failover env cluster_id True w of (r, w') \<Rightarrow>
        (case r of
           Inl NoHealthyReplica \<Rightarrow> bindM (add_cluster_event cluster_id ''FAILOVER_FAILED'' []) (\<lambda>_. bindM commit (\<lambda>_. ret 0)) w'
         | Inl e \<Rightarrow> (Inl e, w')
         | Inr _ \<Rightarrow> bindM commit (\<lambda>_. ret 1) w'))"

fun failover_loop :: "cp_env \<Rightarrow> cluster list \<Rightarrow> nat cpm" where
  "failover_loop env [] = ret 0"
| "failover_loop env (c # cs) =
     bindM (query_exn (primary_unhealthy (e_now env) (cl_id c))) (\<lambda>unhealthy.
     if \<not> unhealthy then failover_loop env cs
     else bindM (attempt_failover env (cl_id c)) (\<lambda>n.
          bindM (failover_loop env cs) (\<lambda>m. ret (n + m))))"

definition check_and_failover_unhealthy_clusters :: "cp_env \<Rightarrow> nat cpm" where
  "check_and_failover_unhealthy_clusters env = http_request (
     bindM (query (\<lambda>db. filter (\<lambda>c. cl_topology c = PRIMARY_REPLICA \<and> cl_status c = CL_ACTIVE) (c_clusters db))) (\<lambda>clusters.
     failover_loop env clusters))"
section \<open>Metering\<close>

definition tick_interval_seconds :: int where "tick_interval_seconds = 60"

definition hours_elapsed :: rat where
  "hours_elapsed = dec (of_int tick_interval_seconds / 3600)"

definition usage_row :: "cp_env \<Rightarrow> uid \<Rightarrow> usage_metric \<Rightarrow> rat \<Rightarrow> usage_record" where
  "usage_row env database_id m v =
     \<lparr>ur_database_id = database_id, ur_metric = m, ur_value = pg_round 6 v,
      ur_period_start = e_now env - tick_interval_seconds * 1000000, ur_period_end = e_now env\<rparr>"

definition add_usage :: "cp_env \<Rightarrow> uid \<Rightarrow> usage_metric \<Rightarrow> rat \<Rightarrow> unit cpm" where
  "add_usage env database_id m v =
     bindM (ensure (pg_fits 18 6 v) CP_DataError) (\<lambda>_.
     modify (\<lambda>db. db\<lparr>c_usage := c_usage db @ [usage_row env database_id m v]\<rparr>))"

definition metrics_of :: "agent_response \<Rightarrow> (int \<times> int) cpm" where
  "metrics_of resp = (case resp of Metrics size_bytes connections _ \<Rightarrow> ret (size_bytes, connections) | _ \<Rightarrow> raise CP_KeyError)"

definition read_metrics :: "cp_env \<Rightarrow> database \<Rightarrow> agent_response option cpm" where
  "read_metrics env d w =
     (case bindM (get_primary_node (db_cluster_id d)) (\<lambda>node. call_agent env node (DatabaseMetrics (db_physical_name d))) w of (r, w') \<Rightarrow>
        (case r of Inl AgentUnreachable \<Rightarrow> Inr None | Inl (AgentRequest _) \<Rightarrow> Inr None | Inl e \<Rightarrow> Inl e | Inr x \<Rightarrow> Inr (Some x), w'))"

definition record_usage :: "cp_env \<Rightarrow> database \<Rightarrow> int \<Rightarrow> int \<Rightarrow> unit cpm" where
  "record_usage env d size_bytes connections =
     bindM (add_usage env (db_id d) STORAGE_GB_HOURS (dmul (dec (of_int size_bytes / 1024 ^ 3)) hours_elapsed)) (\<lambda>_.
     bindM (add_usage env (db_id d) CPU_HOURS (dmul (of_int (db_cpu_limit d)) hours_elapsed)) (\<lambda>_.
     add_usage env (db_id d) CONNECTIONS (of_int connections)))"

fun meter_loop :: "cp_env \<Rightarrow> database list \<Rightarrow> nat cpm" where
  "meter_loop env [] = ret 0"
| "meter_loop env (d # ds) =
     bindM (read_metrics env d) (\<lambda>found.
     case found of
       None \<Rightarrow> meter_loop env ds
     | Some resp \<Rightarrow>
         bindM (metrics_of resp) (\<lambda>(size_bytes, connections).
         bindM (record_usage env d size_bytes connections) (\<lambda>_.
         bindM (meter_loop env ds) (\<lambda>n. ret (Suc n)))))"

definition meter_usage :: "cp_env \<Rightarrow> nat cpm" where
  "meter_usage env = http_request (
     bindM (query running) (\<lambda>databases.
     bindM (meter_loop env databases) (\<lambda>n.
     bindM commit (\<lambda>_.
     ret n))))"

section \<open>Invoices\<close>

definition bill_subscription :: "cp_env \<Rightarrow> subscription \<Rightarrow> nat cpm" where
  "bill_subscription env s =
     bindM (query (unpaid (sb_id s))) (\<lambda>outstanding.
     case outstanding of
       i # _ \<Rightarrow>
         bindM (put_subscription (s\<lparr>sb_status := SB_PAST_DUE\<rparr>)) (\<lambda>_.
         bindM (notify_subscription_suspended (sb_organization_id s) (iv_id i)) (\<lambda>_.
         ret 0))
     | [] \<Rightarrow>
         bindM (compute_invoice_for_subscription env s) (\<lambda>invoice.
         bindM (notify_invoice_created (sb_organization_id s) (iv_id invoice)) (\<lambda>_.
         ret 1)))"

fun invoice_loop :: "cp_env \<Rightarrow> subscription list \<Rightarrow> nat cpm" where
  "invoice_loop env [] = ret 0"
| "invoice_loop env (s # ss) =
     bindM (bill_subscription env s) (\<lambda>n.
     bindM (invoice_loop env ss) (\<lambda>m. ret (n + m)))"

definition due_subscriptions :: "instant \<Rightarrow> cp_db \<Rightarrow> subscription list" where
  "due_subscriptions now db =
     filter (\<lambda>s. sb_current_period_end s \<le> now \<and> sb_status s = SB_ACTIVE) (c_subscriptions db)"

definition generate_due_invoices :: "cp_env \<Rightarrow> nat cpm" where
  "generate_due_invoices env = http_request (
     bindM (query (due_subscriptions (e_now env))) (\<lambda>due.
     bindM (invoice_loop env due) (\<lambda>n.
     bindM commit (\<lambda>_.
     ret n))))"

section \<open>A tick\<close>

definition tick :: "cp_env \<Rightarrow> unit cpm" where
  "tick env =
     bindM (enqueue_due_backups env) (\<lambda>_.
     bindM (enqueue_due_verifications env) (\<lambda>_.
     bindM (purge_expired_automatic_backups env) (\<lambda>_.
     bindM (check_and_failover_unhealthy_clusters env) (\<lambda>_.
     bindM (meter_usage env) (\<lambda>_.
     bindM (generate_due_invoices env) (\<lambda>_.
     ret ()))))))"

text \<open>The loop of \<open>main\<close> survives a failing tick.\<close>

definition scheduler_step :: "cp_env \<Rightarrow> cp_world \<Rightarrow> cp_world" where
  "scheduler_step env w = snd (tick env w)"
section \<open>What a purge may touch\<close>

definition retention_over :: "instant \<Rightarrow> database \<Rightarrow> backup \<Rightarrow> bool" where
  "retention_over now d b \<longleftrightarrow> db_id d = bk_database_id b \<and> (case db_backup_policy d of None \<Rightarrow> False
     | Some p \<Rightarrow> bp_retention_days p \<noteq> 0 \<and> bk_created_at b \<le> now - bp_retention_days p * 24 * 3600 * 1000000)"

definition object_deleted :: "agent_call list \<Rightarrow> database \<Rightarrow> backup \<Rightarrow> bool" where
  "object_deleted calls d b \<longleftrightarrow> db_cluster_id d = None \<or> (\<exists>n. (n, DeleteBackup (bk_storage_key b)) \<in> set calls)"

definition purged_or_kept :: "instant \<Rightarrow> database list \<Rightarrow> agent_call list \<Rightarrow> backup \<Rightarrow> backup \<Rightarrow> bool" where
  "purged_or_kept now ds calls b b' \<longleftrightarrow> b' = b \<or>
     bk_type b = AUTOMATIC \<and> b' = b\<lparr>bk_status := BK_PURGED\<rparr> \<and> (\<exists>d\<in>set ds. retention_over now d b \<and> object_deleted calls d b)"

definition purging :: "instant \<Rightarrow> database list \<Rightarrow> cp_db \<Rightarrow> cp_world \<Rightarrow> bool" where
  "purging now ds db0 w \<longleftrightarrow> list_all2 (purged_or_kept now ds (w_calls w)) (c_backups db0) (c_backups (w_db w))"

lemma list_all2_right: "list_all2 P xs ys \<Longrightarrow> y \<in> set ys \<Longrightarrow> \<exists>x\<in>set xs. P x y"
  by (induction rule: list_all2_induct) auto

lemma purged_or_kept_calls: "purged_or_kept now ds calls b b' \<Longrightarrow> purged_or_kept now ds (calls @ calls2) b b'"
  unfolding purged_or_kept_def object_deleted_def by fastforce

lemma purging_calls: "purging now ds db0 w \<Longrightarrow> purging now ds db0 (w\<lparr>w_calls := w_calls w @ cs\<rparr>)"
  by (simp add: purging_def) (blast intro: list_all2_mono purged_or_kept_calls)

lemma purging_put:
  assumes "purging now ds db0 w" and "distinct (map bk_id (c_backups db0))" and "b \<in> set (c_backups db0)"
    and "bk_type b = AUTOMATIC" and "d \<in> set ds" and "retention_over now d b" and "object_deleted (w_calls w) d b"
  shows "purging now ds db0 (w\<lparr>w_db := (w_db w)\<lparr>c_backups := tset bk_id (b\<lparr>bk_status := BK_PURGED\<rparr>) (c_backups (w_db w))\<rparr>\<rparr>)"
proof -
  have "purged_or_kept now ds (w_calls w) x (if bk_id y = bk_id b then b\<lparr>bk_status := BK_PURGED\<rparr> else y)"
    if "x \<in> set (c_backups db0)" "purged_or_kept now ds (w_calls w) x y" for x y
  proof (cases "bk_id y = bk_id b")
    case True
    then have "bk_id x = bk_id b" using that(2) by (auto simp: purged_or_kept_def)
    then have "x = b" using assms(2,3) that(1) by (auto simp: distinct_map inj_on_def)
    then show ?thesis using True assms(4-) by (auto simp: purged_or_kept_def)
  qed (use that in auto)
  then show ?thesis using assms(1)
    by (auto simp: purging_def tset_def list_all2_conv_all_nth)
qed

lemma delete_object_result:
  assumes "delete_object env d b w = (r, w')"
  shows "\<exists>cs. w' = w\<lparr>w_calls := w_calls w @ cs\<rparr>" and "r = Inr True \<Longrightarrow> object_deleted (w_calls w') d b"
proof -
  have "(\<exists>cs. w' = w\<lparr>w_calls := w_calls w @ cs\<rparr>) \<and> (r = Inr True \<longrightarrow> object_deleted (w_calls w') d b)"
  proof (cases "db_cluster_id d = None")
    case True
    then have "w' = w\<lparr>w_calls := w_calls w @ []\<rparr>" using assms by (simp add: delete_object_def ret_def)
    then show ?thesis using True by (metis object_deleted_def)
  next
    case False
    obtain a v where g: "get_primary_node (db_cluster_id d) w = (a, v)" by fastforce
    then have v: "v = w" by (rule get_primary_node_same)
    show ?thesis
    proof (cases a)
      case (Inl e)
      then have "w' = w\<lparr>w_calls := w_calls w @ []\<rparr> \<and> r \<noteq> Inr True"
        using assms False g v by (auto simp: delete_object_def split: cp_exn.splits)
      then show ?thesis by blast
    next
      case (Inr node)
      obtain x u where c: "call_agent env node (DeleteBackup (bk_storage_key b)) w = (x, u)" by fastforce
      then have r: "w' = u" "r = Inr True \<Longrightarrow> \<exists>y. x = Inr y"
        using assms False g v Inr by (auto simp: delete_object_def split: cp_exn.splits sum.splits)
      have "\<exists>cs. u = w\<lparr>w_calls := w_calls w @ cs\<rparr>"
        using c by (auto simp: call_agent_def split: option.splits if_splits intro: exI [of _ "[]"])
      moreover have "r = Inr True \<Longrightarrow> object_deleted (w_calls u) d b"
        using c r(2) by (auto simp: call_agent_Inr object_deleted_def)
      ultimately show ?thesis using r(1) by blast
    qed
  qed
  then show "\<exists>cs. w' = w\<lparr>w_calls := w_calls w @ cs\<rparr>" and "r = Inr True \<Longrightarrow> object_deleted (w_calls w') d b" by simp_all
qed

lemma purge_loop_purging:
  assumes "purge_loop env d bs w = (r, w')" and "purging now ds db0 w" and "distinct (map bk_id (c_backups db0))"
    and "\<forall>b\<in>set bs. b \<in> set (c_backups db0) \<and> bk_type b = AUTOMATIC \<and> retention_over now d b" and "d \<in> set ds"
  shows "purging now ds db0 w'"
  using assms
proof (induction bs arbitrary: w r w')
  case Nil
  then show ?case by (simp add: ret_def)
next
  case (Cons b bs)
  obtain x u where del: "delete_object env d b w = (x, u)" by fastforce
  note out = delete_object_result [OF del]
  have u: "purging now ds db0 u" using out(1) Cons.prems(2) purging_calls by auto
  have rest: "purging now ds db0 w'" if "purge_loop env d bs v = (y, w')" "purging now ds db0 v" for v y
    using Cons.IH [OF that] Cons.prems(3-5) by simp
  from Cons.prems(1) del consider "x = Inr False" "purge_loop env d bs u = (r, w')" | e where "x = Inl e" "w' = u"
    | v y where "x = Inr True" "v = u\<lparr>w_db := (w_db u)\<lparr>c_backups := tset bk_id (b\<lparr>bk_status := BK_PURGED\<rparr>) (c_backups (w_db u))\<rparr>\<rparr>"
        "purge_loop env d bs v = (y, w')"
    by (cases x) (auto simp: put_backup_def modify_def ret_def split: if_splits prod.splits sum.splits)
  then show ?case
  proof cases
    case (3 v y)
    have "object_deleted (w_calls u) d b" using out(2) 3(1) .
    then have "purging now ds db0 v"
      unfolding 3(2) using purging_put [OF u Cons.prems(3)] Cons.prems(4,5) by auto
    then show ?thesis using rest 3(3) by blast
  qed (use rest u in auto)
qed

lemma purge_databases_purging:
  assumes "purge_databases env ds w = (r, w')" and "purging (e_now env) all db0 w" and "distinct (map bk_id (c_backups db0))"
    and "set ds \<subseteq> set all"
  shows "purging (e_now env) all db0 w'"
  using assms
proof (induction ds arbitrary: w r w')
  case Nil
  then show ?case by (simp add: ret_def)
next
  case (Cons d ds)
  have rest: "purging (e_now env) all db0 w'" if "purge_databases env ds v = (y, w')" "purging (e_now env) all db0 v" for v y
    using Cons.IH [OF that] Cons.prems(3,4) by simp
  show ?case
  proof (cases "db_backup_policy d")
    case None
    then show ?thesis using rest [of w] Cons.prems by simp
  next
    case (Some p)
    show ?thesis
    proof (cases "bp_retention_days p = 0")
      case True
      then show ?thesis using rest [of w] Cons.prems Some by simp
    next
      case False
      define bs where "bs = expired_backups (e_now env) (bp_retention_days p) (db_id d) (w_db w)"
      obtain x u where loop: "purge_loop env d bs w = (x, u)" by fastforce
      have "b \<in> set (c_backups db0) \<and> bk_type b = AUTOMATIC \<and> retention_over (e_now env) d b" if "b \<in> set bs" for b
      proof -
        have b: "b \<in> set (c_backups (w_db w))" "bk_database_id b = db_id d" "bk_type b = AUTOMATIC" "bk_status b \<noteq> BK_PURGED"
          "\<not> bk_created_at b > e_now env - bp_retention_days p * 24 * 3600 * 1000000"
          using that by (auto simp: bs_def expired_backups_def)
        then obtain x where "x \<in> set (c_backups db0)" "purged_or_kept (e_now env) all (w_calls w) x b"
          using Cons.prems(2) list_all2_right b(1) unfolding purging_def by metis
        then have "b \<in> set (c_backups db0)" using b(4) by (auto simp: purged_or_kept_def)
        then show ?thesis using b Some False by (auto simp: retention_over_def)
      qed
      then have "purging (e_now env) all db0 u"
        using purge_loop_purging [OF loop Cons.prems(2,3)] Cons.prems(4) by auto
      then show ?thesis using Cons.prems(1) loop rest Some False
        by (auto simp: effect_simps bs_def elim!: bind_cases)
    qed
  qed
qed
abbreviation uncommitted :: "cp_world \<Rightarrow> cp_world \<Rightarrow> bool" where
  "uncommitted w w' \<equiv> w_committed w' = w_committed w"

interpretation uncommitted: frame uncommitted
  by unfold_locales simp_all

lemma uncommitted_delete_object: "framed uncommitted (delete_object env d b)"
  unfolding framed_def using delete_object_result(1) by fastforce

lemma uncommitted_purge_loop: "framed uncommitted (purge_loop env d bs)"
  by (induction bs)
     (auto simp: put_backup_def intro!: uncommitted.rules uncommitted.modify uncommitted_delete_object)

lemma uncommitted_purge: "framed uncommitted (purge_databases env ds)"
  by (induction ds) (auto intro!: uncommitted.rules uncommitted_purge_loop split: option.split)

text \<open>Two old backups, one of them manual, and a recent one.\<close>

definition demo_retention :: cp_world where
  "demo_retention = world_of (demo_cp
     \<lparr>c_databases := [(demo_database 40 DB_RUNNING (Some 20))\<lparr>db_backup_policy := Some \<lparr>bp_enabled = True, bp_frequency_hours = 24, bp_retention_days = 7\<rparr>\<rparr>],
      c_backups := [demo_backup 70 AUTOMATIC BK_COMPLETED (- 700000000000), demo_backup 71 MANUAL BK_COMPLETED (- 700000000000),
                    demo_backup 72 AUTOMATIC BK_COMPLETED 0]\<rparr>) 100"

definition demo_purge :: "(cp_exn + nat) \<times> cp_world" where
  "demo_purge = purge_expired_automatic_backups (calm_env 2000) demo_retention"

end
