(* ===== verification/CP_Worker.thy ===== *)
theory CP_Worker
  imports CP_HA CP_Backups CP_Frame
begin

text \<open>
  The worker process, \<open>src/backend/app/worker.py\<close>: claim one job and commit, run its handler in
  a second session, record the outcome together with whatever the handler did, and mark the resource
  of a job that is out of attempts.
\<close>

section \<open>The operations\<close>

definition handlers :: "cp_env \<Rightarrow> (string \<times> (job \<Rightarrow> jdata cpm)) list" where
  "handlers env =
     [(''create_database'', execute_create_database env), (''delete_database'', execute_delete_database env),
      (''suspend_database'', execute_suspend_database env), (''resume_database'', execute_resume_database env),
      (''migrate_database'', execute_migrate_database env), (''backup_database'', execute_backup_database env),
      (''restore_database'', execute_restore_database env), (''verify_backup'', execute_verify_backup env),
      (''deliver_webhook'', execute_deliver_webhook env)]"

definition run_handler :: "cp_env \<Rightarrow> job \<Rightarrow> jdata cpm" where
  "run_handler env job = (case map_of (handlers env) (jb_type job) of None \<Rightarrow> raise CP_ValueError | Some h \<Rightarrow> h job)"

definition put_job :: "job \<Rightarrow> unit cpm" where
  "put_job j = modify (\<lambda>db. db\<lparr>c_jobs := tset jb_id j (c_jobs db)\<rparr>)"

text \<open>\<open>db.get\<close> with the resource id of the job, which may be null.\<close>

definition resource :: "('r \<Rightarrow> uid) \<Rightarrow> (cp_db \<Rightarrow> 'r list) \<Rightarrow> job \<Rightarrow> 'r option cpm" where
  "resource key tbl job = query (\<lambda>db. case jb_resource_id job of None \<Rightarrow> None | Some i \<Rightarrow> tget key (tbl db) i)"

definition resource_text :: "job \<Rightarrow> string" where
  "resource_text job = (case jb_resource_id job of None \<Rightarrow> ''None'' | Some i \<Rightarrow> nat_string i)"

definition error_text :: "job \<Rightarrow> string" where
  "error_text job = (case jb_error job of None \<Rightarrow> ''null'' | Some e \<Rightarrow> e)"

definition mark_database_failed :: "cp_env \<Rightarrow> job \<Rightarrow> unit cpm" where
  "mark_database_failed env job =
     bindM (resource db_id c_databases job) (\<lambda>found.
     bindM (case found of
              None \<Rightarrow> ret ()
            | Some d \<Rightarrow>
                bindM (put_database (d\<lparr>db_status := DB_FAILED\<rparr>)) (\<lambda>_.
                add_database_event (db_id d) (jb_id job) ''DATABASE_JOB_FAILED''
                  [(''job_type'', jb_type job), (''error'', error_text job)])) (\<lambda>_.
     emit_event env (jb_organization_id job) ''database.failed'' [(''database_id'', resource_text job)]))"

definition mark_backup_failed :: "cp_env \<Rightarrow> job \<Rightarrow> unit cpm" where
  "mark_backup_failed env job =
     bindM (resource bk_id c_backups job) (\<lambda>found.
     bindM (case found of
              None \<Rightarrow> ret ()
            | Some b \<Rightarrow> put_backup (b\<lparr>bk_status := BK_FAILED, bk_error := jb_error job\<rparr>)) (\<lambda>_.
     emit_event env (jb_organization_id job) ''backup.failed'' [(''backup_id'', resource_text job)]))"

definition mark_webhook_delivery_failed :: "cp_env \<Rightarrow> job \<Rightarrow> unit cpm" where
  "mark_webhook_delivery_failed env job =
     bindM (resource wd_id c_deliveries job) (\<lambda>found.
     case found of
       None \<Rightarrow> ret ()
     | Some d \<Rightarrow> update_delivery (d\<lparr>wd_status := WD_FAILED, wd_error := jb_error job\<rparr>))"

definition terminal_failure_handlers :: "cp_env \<Rightarrow> (string \<times> (job \<Rightarrow> unit cpm)) list" where
  "terminal_failure_handlers env =
     [(''create_database'', mark_database_failed env), (''delete_database'', mark_database_failed env),
      (''suspend_database'', mark_database_failed env), (''resume_database'', mark_database_failed env),
      (''restore_database'', mark_database_failed env), (''migrate_database'', mark_database_failed env),
      (''backup_database'', mark_backup_failed env), (''deliver_webhook'', mark_webhook_delivery_failed env)]"

text \<open>\<open>describe\<close> is the text of an exception.  A failing handler's changes stay in the session
  that records the failure.\<close>

definition settle :: "cp_env \<Rightarrow> (cp_exn \<Rightarrow> string) \<Rightarrow> job \<Rightarrow> unit cpm" where
  "settle env describe job w =
     (case run_handler env job w of (r, w') \<Rightarrow>
        (case r of
           Inr result \<Rightarrow> put_job (mark_succeeded (e_now env) (Some result) job) w'
         | Inl e \<Rightarrow> (case mark_failed_or_retry (e_now env) (describe e) job of job' \<Rightarrow>
             bindM (put_job job') (\<lambda>_.
             if jb_status job' \<noteq> JB_FAILED then ret ()
             else case map_of (terminal_failure_handlers env) (jb_type job') of
                    None \<Rightarrow> ret ()
                  | Some h \<Rightarrow> h job') w')))"

definition run_once :: "cp_env \<Rightarrow> (cp_exn \<Rightarrow> string) \<Rightarrow> bool cpm" where
  "run_once env describe =
     bindM (claim_next_job env) (\<lambda>claimed.
     bindM commit (\<lambda>_.
     case claimed of
       None \<Rightarrow> ret False
     | Some job \<Rightarrow>
         bindM (settle env describe job) (\<lambda>_.
         bindM commit (\<lambda>_.
         ret True))))"

section \<open>Handlers only append jobs\<close>

definition jobs_appended :: "cp_world \<Rightarrow> cp_world \<Rightarrow> bool" where
  "jobs_appended w w' \<longleftrightarrow> w_next w \<le> w_next w' \<and> (\<exists>new. c_jobs (w_db w') = c_jobs (w_db w) @ new \<and>
     (\<forall>j\<in>set new. jb_status j = JB_QUEUED \<and> jb_type j = ''deliver_webhook'' \<and> w_next w \<le> jb_id j))"

interpretation jobs: frame jobs_appended
proof
  show "jobs_appended w w" for w by (simp add: jobs_appended_def)
  show "jobs_appended u w" if uv: "jobs_appended u v" "jobs_appended v w" for u v w
  proof -
    from uv(1) obtain a where "w_next u \<le> w_next v" "c_jobs (w_db v) = c_jobs (w_db u) @ a"
      "\<forall>j\<in>set a. jb_status j = JB_QUEUED \<and> jb_type j = ''deliver_webhook'' \<and> w_next u \<le> jb_id j"
      unfolding jobs_appended_def by blast
    moreover from uv(2) obtain b where "w_next v \<le> w_next w" "c_jobs (w_db w) = c_jobs (w_db v) @ b"
      "\<forall>j\<in>set b. jb_status j = JB_QUEUED \<and> jb_type j = ''deliver_webhook'' \<and> w_next v \<le> jb_id j"
      unfolding jobs_appended_def by blast
    ultimately show ?thesis unfolding jobs_appended_def by (intro conjI exI [of _ "a @ b"]) auto
  qed
qed

named_theorems jobs_framed "operations that leave the existing jobs alone"

lemma jobs_modify [jobs_framed]: "(\<And>db. c_jobs (f db) = c_jobs db) \<Longrightarrow> framed jobs_appended (modify f)"
  by (rule jobs.modify) (simp add: jobs_appended_def)

lemma jobs_uuid4 [jobs_framed]: "framed jobs_appended uuid4"
  by (rule jobs.uuid4) (simp add: jobs_appended_def)

lemma jobs_call_agent [jobs_framed]: "framed jobs_appended (call_agent env n op)"
  by (rule jobs.call_agent) (simp add: jobs_appended_def)

lemma jobs_emit_event [jobs_framed]: "framed jobs_appended (emit_event env org t data)"
  unfolding framed_def
proof (intro allI impI)
  fix w r w'
  assume run: "emit_event env org t data w = (r, w')"
  obtain ds js where "emit_event env org t data w =
       (Inr (), w\<lparr>w_next := w_next w + 2 * length ds, w_db := (w_db w)
          \<lparr>c_deliveries := c_deliveries (w_db w) @ ds, c_jobs := c_jobs (w_db w) @ js\<rparr>\<rparr>)"
    "\<forall>j\<in>set js. jb_type j = ''deliver_webhook'' \<and> jb_status j = JB_QUEUED \<and> jb_attempts j = 0 \<and>
        jb_max_attempts j = 5 \<and> jb_idempotency_key j = None \<and> w_next w \<le> jb_id j"
    by (rule emit_event_result)
  with run show "jobs_appended w w'" unfolding jobs_appended_def by (intro conjI exI [of _ js]) auto
qed

lemmas step_defs = payload_id_def get_database_def put_database_def get_node_def get_primary_node_def
  add_database_event_def add_credential_def create_cluster_def get_or_create_cluster_on_node_def
  decrypt_secret_def get_backup_def put_backup_def size_bytes_of_def verification_of_def backable_node_def
  update_delivery_def post_delivery_def resource_def

lemma jobs_create_database [jobs_framed]: "framed jobs_appended (execute_create_database env job)"
  unfolding execute_create_database_def provision_database_def step_defs
  by (intro jobs.rules jobs_framed) simp_all

lemma jobs_delete_database [jobs_framed]: "framed jobs_appended (execute_delete_database env job)"
  unfolding execute_delete_database_def step_defs by (intro jobs.rules jobs_framed) simp_all

lemma jobs_suspend_database [jobs_framed]: "framed jobs_appended (execute_suspend_database env job)"
  unfolding execute_suspend_database_def step_defs by (intro jobs.rules jobs_framed) simp_all

lemma jobs_resume_database [jobs_framed]: "framed jobs_appended (execute_resume_database env job)"
  unfolding execute_resume_database_def step_defs by (intro jobs.rules jobs_framed) simp_all

lemma jobs_discard_dump [jobs_framed]: "framed jobs_appended (discard_dump env n key)"
  unfolding framed_def discard_dump_def using framedD [OF jobs_call_agent] by (auto split: prod.splits)

lemma jobs_migrate_database [jobs_framed]: "framed jobs_appended (execute_migrate_database env job)"
  unfolding execute_migrate_database_def migrate_cutover_def copy_database_def step_defs
  by (intro jobs.rules jobs_framed) simp_all

lemma jobs_backup_database [jobs_framed]: "framed jobs_appended (execute_backup_database env job)"
  unfolding execute_backup_database_def step_defs
  by (intro jobs.rules jobs_framed) (simp_all add: jobs.rules split: agent_response.split)

lemma jobs_restore_database [jobs_framed]: "framed jobs_appended (execute_restore_database env job)"
  unfolding execute_restore_database_def restore_target_def step_defs
  by (intro jobs.rules jobs_framed) simp_all

lemma jobs_verify_backup [jobs_framed]: "framed jobs_appended (execute_verify_backup env job)"
  unfolding execute_verify_backup_def step_defs
  by (intro jobs.rules jobs_framed) (simp_all add: jobs.rules split: agent_response.split)

lemma jobs_deliver_webhook [jobs_framed]: "framed jobs_appended (execute_deliver_webhook env job)"
  unfolding execute_deliver_webhook_def step_defs by (intro jobs.rules jobs_framed) simp_all

lemma jobs_run_handler [jobs_framed]: "framed jobs_appended (run_handler env job)"
  unfolding run_handler_def handlers_def by (simp add: jobs.rules jobs_framed split: option.split)

lemma jobs_mark_database_failed [jobs_framed]: "framed jobs_appended (mark_database_failed env job)"
  unfolding mark_database_failed_def step_defs by (intro jobs.rules jobs_framed) simp_all

lemma jobs_mark_backup_failed [jobs_framed]: "framed jobs_appended (mark_backup_failed env job)"
  unfolding mark_backup_failed_def step_defs by (intro jobs.rules jobs_framed) simp_all

lemma jobs_mark_webhook_delivery_failed [jobs_framed]: "framed jobs_appended (mark_webhook_delivery_failed env job)"
  unfolding mark_webhook_delivery_failed_def step_defs by (intro jobs.rules jobs_framed) simp_all
section \<open>The worker and the queue\<close>

lemma emit_event_never_raises: "never_raises (emit_event env org t data)"
  unfolding never_raises_def by (intro allI, rule emit_event_result) blast

lemma terminal_handler_cases:
  assumes "map_of (terminal_failure_handlers env) t = Some h"
  shows "h = mark_database_failed env \<or> h = mark_backup_failed env \<or> h = mark_webhook_delivery_failed env"
  using assms by (auto simp: terminal_failure_handlers_def split: if_splits)

lemma terminal_handler_framed:
  assumes "map_of (terminal_failure_handlers env) t = Some h"
  shows "framed jobs_appended (h job)"
  using terminal_handler_cases [OF assms] by (auto intro: jobs_framed)

lemma terminal_handler_succeeds:
  assumes "map_of (terminal_failure_handlers env) t = Some h"
  shows "never_raises (h job)"
  using terminal_handler_cases [OF assms]
proof (elim disjE)
  assume "h = mark_database_failed env"
  then show ?thesis by (simp only: mark_database_failed_def step_defs)
      (intro never_raises_rules emit_event_never_raises)
next
  assume "h = mark_backup_failed env"
  then show ?thesis by (simp only: mark_backup_failed_def step_defs)
      (intro never_raises_rules emit_event_never_raises)
next
  assume "h = mark_webhook_delivery_failed env"
  then show ?thesis by (simp only: mark_webhook_delivery_failed_def step_defs) (intro never_raises_rules)
qed

definition outcome_of :: "(cp_exn \<Rightarrow> string) \<Rightarrow> cp_exn + jdata \<Rightarrow> string + jdata option" where
  "outcome_of describe r = (case r of Inl e \<Rightarrow> Inl (describe e) | Inr x \<Rightarrow> Inr (Some x))"

definition settled :: "instant \<Rightarrow> string + jdata option \<Rightarrow> job \<Rightarrow> job" where
  "settled now outcome job = (case outcome of Inl e \<Rightarrow> mark_failed_or_retry now e job | Inr x \<Rightarrow> mark_succeeded now x job)"

text \<open>A job is settled by its handler's outcome, in the table the handler left.\<close>

lemma settle_result:
  assumes run: "settle env describe job w = (r, w')" and h: "run_handler env job w = (a, u)"
  obtains v where "r = Inr ()" "jobs_appended v w'" "w_next v = w_next u"
    "c_jobs (w_db v) = tset jb_id (settled (e_now env) (outcome_of describe a) job) (c_jobs (w_db u))"
proof (cases a)
  case (Inr result)
  then have "r = Inr ()" "w' = u\<lparr>w_db := (w_db u)\<lparr>c_jobs := tset jb_id (mark_succeeded (e_now env) (Some result) job) (c_jobs (w_db u))\<rparr>\<rparr>"
    using run h by (auto simp: settle_def put_job_def modify_def)
  then show ?thesis using that [of w'] Inr jobs.refl by (simp add: settled_def outcome_of_def)
next
  case (Inl e)
  define job' where "job' = mark_failed_or_retry (e_now env) (describe e) job"
  define v where "v = u\<lparr>w_db := (w_db u)\<lparr>c_jobs := tset jb_id job' (c_jobs (w_db u))\<rparr>\<rparr>"
  define m :: "unit cpm" where "m = (if jb_status job' \<noteq> JB_FAILED then ret ()
     else case map_of (terminal_failure_handlers env) (jb_type job') of None \<Rightarrow> ret () | Some h \<Rightarrow> h job')"
  have "m v = (r, w')"
    using run h Inl unfolding m_def v_def job'_def by (simp add: settle_def put_job_def modify_def split: if_splits)
  moreover have "never_raises m" "framed jobs_appended m"
    unfolding m_def by (auto intro: never_raises_rules jobs.rules dest: terminal_handler_succeeds terminal_handler_framed split: option.split)
  ultimately have "\<exists>x. r = Inr x" "jobs_appended v w'" using never_raisesE [of m] framedD [of _ m] by auto
  then show ?thesis using that [of v] Inl by (auto simp: v_def job'_def settled_def outcome_of_def)
qed
lemma tset_append [simp]: "tset key r (xs @ ys) = tset key r xs @ tset key r ys"
  by (simp add: tset_def)

lemma jb_id_settled [simp]: "jb_id (settled now outcome job) = jb_id job"
  by (simp add: settled_def mark_failed_or_retry_def mark_succeeded_def split: sum.split)

lemma poll_jobs_settled:
  "claim_job now jobs = Some (j, jobs') \<Longrightarrow> poll_jobs now outcome jobs = tset jb_id (settled now outcome j) jobs'"
  by (simp add: poll_jobs_def settled_def)

definition demo_working :: cp_world where
  "demo_working = world_of (demo_cp\<lparr>c_jobs := [new_job 50 0 ''suspend_database'' [(''database_id'', 40)] None None
     (Some ''database'') (Some 40)]\<rparr>) 100"

definition demo_round :: "(cp_exn + bool) \<times> cp_world" where
  "demo_round = run_once (calm_env 2000) (\<lambda>_. ''error'') demo_working"

end
