(* ===== verification/CP_Tenancy.thy ===== *)
theory CP_Tenancy
  imports CP_DatabaseApi
begin

text \<open>
  Tenants are isolated from each other: whatever a request of the database endpoints does, it does
  for a member of the addressed organization who holds the permission, and it reaches only the rows
  and the physical databases of that organization.
\<close>

section \<open>The requests\<close>

datatype db_request =
    ReadDatabase
  | DeleteDatabase
  | SuspendRequest
  | ResumeRequest
  | Resize int int int
  | Connect "uid option"
  | CreateBackup
  | ListBackups
  | ReadBackup uid
  | RestoreBackup uid string
  | ReadPolicy
  | SetPolicy backup_policy
  | AddRole string credential_scope
  | ListRoles
  | RemoveRole uid
  | RenewRole uid
  | ReadExtensions
  | AddExtension string
  | RemoveExtension string
  | ReadMetrics
  | ReadTables
  | RunSql string "uid option"
  | ReadHistory int
  | SaveQuery string string
  | ReadSavedQueries
  | DeleteSavedQuery uid

definition discard :: "'a cpm \<Rightarrow> unit cpm" where
  "discard m = bindM m (\<lambda>_. ret ())"

fun database_endpoint ::
    "cp_env \<Rightarrow> crypto \<Rightarrow> 'v sql_server \<Rightarrow> string option \<Rightarrow> uid \<Rightarrow> uid \<Rightarrow> uid \<Rightarrow> db_request \<Rightarrow> unit cpm" where
  "database_endpoint env k sv c org p i ReadDatabase = discard (read_database env k c org p i)"
| "database_endpoint env k sv c org p i DeleteDatabase = discard (delete_database env k c org p i)"
| "database_endpoint env k sv c org p i SuspendRequest = discard (suspend_database env k c org p i)"
| "database_endpoint env k sv c org p i ResumeRequest = discard (resume_database env k c org p i)"
| "database_endpoint env k sv c org p i (Resize cpu ram storage) = discard (resize_database env k c org p i cpu ram storage)"
| "database_endpoint env k sv c org p i (Connect role) = discard (get_database_connection env k c org p i role)"
| "database_endpoint env k sv c org p i CreateBackup = discard (create_backup env k c org p i)"
| "database_endpoint env k sv c org p i ListBackups = discard (list_backups env k c org p i)"
| "database_endpoint env k sv c org p i (ReadBackup b) = discard (read_backup env k c org p i b)"
| "database_endpoint env k sv c org p i (RestoreBackup b name) = discard (restore_backup env k c org p i b name)"
| "database_endpoint env k sv c org p i ReadPolicy = discard (get_backup_policy env k c org p i)"
| "database_endpoint env k sv c org p i (SetPolicy policy) = discard (set_backup_policy env k c org p i policy)"
| "database_endpoint env k sv c org p i (AddRole name scope) = discard (create_role env k c org p i name scope)"
| "database_endpoint env k sv c org p i ListRoles = discard (list_roles env k c org p i)"
| "database_endpoint env k sv c org p i (RemoveRole role) = delete_role env k c org p i role"
| "database_endpoint env k sv c org p i (RenewRole role) = discard (rotate_role env k c org p i role)"
| "database_endpoint env k sv c org p i ReadExtensions = discard (list_extensions env k c org p i)"
| "database_endpoint env k sv c org p i (AddExtension name) = discard (install_extension env k c org p i name)"
| "database_endpoint env k sv c org p i (RemoveExtension name) = drop_extension env k c org p i name"
| "database_endpoint env k sv c org p i ReadMetrics = discard (get_metrics env k c org p i)"
| "database_endpoint env k sv c org p i ReadTables = discard (list_tables env k c org p i)"
| "database_endpoint env k sv c org p i (RunSql statement role) = discard (execute_sql env k sv c org p i statement role)"
| "database_endpoint env k sv c org p i (ReadHistory limit) = discard (get_history env k c org p i limit)"
| "database_endpoint env k sv c org p i (SaveQuery name statement) = discard (create_saved_query env k c org p i name statement)"
| "database_endpoint env k sv c org p i ReadSavedQueries = discard (list_saved_queries env k c org p i)"
| "database_endpoint env k sv c org p i (DeleteSavedQuery q) = delete_saved_query env k c org p i q"

fun required_permission :: "db_request \<Rightarrow> string" where
  "required_permission ReadDatabase = ''database:read''"
| "required_permission DeleteDatabase = ''database:delete''"
| "required_permission SuspendRequest = ''database:manage''"
| "required_permission ResumeRequest = ''database:manage''"
| "required_permission (Resize _ _ _) = ''database:manage''"
| "required_permission (Connect _) = ''database:connect''"
| "required_permission CreateBackup = ''database:backups:manage''"
| "required_permission (RestoreBackup _ _) = ''database:backups:manage''"
| "required_permission (SetPolicy _) = ''database:backups:manage''"
| "required_permission (AddRole _ _) = ''database:roles:manage''"
| "required_permission (RemoveRole _) = ''database:roles:manage''"
| "required_permission (RenewRole _) = ''database:roles:manage''"
| "required_permission (AddExtension _) = ''database:extensions:manage''"
| "required_permission (RemoveExtension _) = ''database:extensions:manage''"
| "required_permission (RunSql _ _) = ''database:sql:execute''"
| "required_permission (SaveQuery _ _) = ''database:sql:execute''"
| "required_permission (DeleteSavedQuery _) = ''database:sql:execute''"
| "required_permission _ = ''database:observe''"

section \<open>Authentication touches nothing but the keys\<close>

definition keys_only :: "cp_world \<Rightarrow> cp_world \<Rightarrow> bool" where
  "keys_only w v \<longleftrightarrow> w_next v = w_next w \<and> w_calls v = w_calls w \<and>
     (\<exists>as. w_db v = (w_db w)\<lparr>c_api_keys := as\<rparr>) \<and>
     (w_committed v = w_committed w \<or> (\<exists>as. w_committed v = (w_db w)\<lparr>c_api_keys := as\<rparr>))"

lemma same_keys: "\<exists>as. db = db\<lparr>c_api_keys := as\<rparr>"
  by (rule exI [of _ "c_api_keys db"]) simp

interpretation authentication: frame keys_only
proof
  show "keys_only w w" for w by (simp add: keys_only_def same_keys)
  show "keys_only u w" if "keys_only u v" "keys_only v w" for u v w
    using that unfolding keys_only_def by auto
qed

lemma keys_only_authenticate: "framed keys_only (authenticate_api_key env k token)"
  unfolding authenticate_api_key_def put_api_key_def
  by (intro authentication.rules authentication.modify authentication.commit) (auto simp: keys_only_def same_keys)

lemma keys_only_current_user: "framed keys_only (get_current_user env k c)"
  unfolding get_current_user_def by (intro authentication.rules keys_only_authenticate)

lemma keys_only_membership: "framed keys_only (get_membership env k c org)"
  unfolding get_membership_def membership_of_def by (intro authentication.rules keys_only_current_user)

section \<open>Staying inside a database\<close>

definition grows :: "('a \<Rightarrow> bool) \<Rightarrow> 'a list \<Rightarrow> 'a list \<Rightarrow> bool" where
  "grows P xs ys \<longleftrightarrow> (\<exists>new. ys = xs @ new \<and> list_all P new)"

lemma grows_refl [simp]: "grows P xs xs"
  by (simp add: grows_def)

lemma grows_trans: "grows P xs ys \<Longrightarrow> grows P ys zs \<Longrightarrow> grows P xs zs"
  by (auto simp: grows_def)

lemma grows_snoc [simp]: "grows P xs (xs @ [y]) \<longleftrightarrow> P y"
  by (simp add: grows_def)

lemma grows_filter: "grows P xs ys \<Longrightarrow> (\<And>x. P x \<Longrightarrow> \<not> Q x) \<Longrightarrow> filter Q ys = filter Q xs"
  by (auto simp: grows_def list_all_iff filter_empty_conv)

definition others :: "('r \<Rightarrow> uid) \<Rightarrow> uid \<Rightarrow> 'r list \<Rightarrow> 'r list" where
  "others f i rows = filter (\<lambda>r. f r \<noteq> i) rows"

fun database_named :: "agent_op \<Rightarrow> string option" where
  "database_named (ConnectionLimit name _) = Some name"
| "database_named (CreateRole name _ _ _) = Some name"
| "database_named (DropRole name _) = Some name"
| "database_named (RotateRole name _ _) = Some name"
| "database_named (InstallExtension name _) = Some name"
| "database_named (DropExtension name _) = Some name"
| "database_named (ListExtensions name) = Some name"
| "database_named (ListTables name) = Some name"
| "database_named (DatabaseMetrics name) = Some name"
| "database_named _ = None"

text \<open>What a request on database \<open>i\<close> of project \<open>p\<close> may do to the tables.\<close>

definition same_tables :: "cp_db \<Rightarrow> cp_db \<Rightarrow> bool" where
  "same_tables db db' \<longleftrightarrow> (\<exists>ds cs bs js au qs ss. db' = db\<lparr>c_databases := ds, c_credentials := cs, c_backups := bs,
     c_jobs := js, c_audit := au, c_queries := qs, c_saved_queries := ss\<rparr>)"

definition same_rows :: "uid \<Rightarrow> uid \<Rightarrow> uid \<Rightarrow> cp_db \<Rightarrow> cp_db \<Rightarrow> bool" where
  "same_rows org p i db db' \<longleftrightarrow>
     grows (\<lambda>d. db_project_id d = p) (others db_id i (c_databases db)) (others db_id i (c_databases db')) \<and>
     ((\<forall>d\<in>set (c_databases db). db_id d = i \<longrightarrow> db_project_id d = p) \<longrightarrow>
        (\<forall>d\<in>set (c_databases db'). db_id d = i \<longrightarrow> db_project_id d = p)) \<and>
     others cr_database_id i (c_credentials db') = others cr_database_id i (c_credentials db) \<and>
     others bk_database_id i (c_backups db') = others bk_database_id i (c_backups db) \<and>
     others qe_database_id i (c_queries db') = others qe_database_id i (c_queries db) \<and>
     others sq_database_id i (c_saved_queries db') = others sq_database_id i (c_saved_queries db) \<and>
     grows (\<lambda>j. jb_organization_id j = Some org) (c_jobs db) (c_jobs db') \<and>
     grows (\<lambda>a. al_organization_id a = Some org) (c_audit db) (c_audit db')"

definition confined_db :: "uid \<Rightarrow> uid \<Rightarrow> uid \<Rightarrow> cp_db \<Rightarrow> cp_db \<Rightarrow> bool" where
  "confined_db org p i db db' \<longleftrightarrow> same_tables db db' \<and> same_rows org p i db db'"

definition keys_ok :: "cp_db \<Rightarrow> uid \<Rightarrow> bool" where
  "keys_ok db n \<longleftrightarrow> distinct (map cr_id (c_credentials db)) \<and> distinct (map sq_id (c_saved_queries db)) \<and>
     (\<forall>c\<in>set (c_credentials db). cr_id c < n) \<and> (\<forall>q\<in>set (c_saved_queries db). sq_id q < n)"

definition confined :: "uid \<Rightarrow> uid \<Rightarrow> uid \<Rightarrow> string \<Rightarrow> cp_world \<Rightarrow> cp_world \<Rightarrow> bool" where
  "confined org p i name w w' \<longleftrightarrow> (keys_ok (w_db w) (w_next w) \<longrightarrow>
     keys_ok (w_db w') (w_next w') \<and> confined_db org p i (w_db w) (w_db w') \<and>
     (w_committed w' = w_committed w \<or> confined_db org p i (w_db w) (w_committed w')) \<and>
     grows (\<lambda>c. database_named (snd c) = Some name) (w_calls w) (w_calls w'))"

lemma same_tables_refl: "same_tables db db"
  unfolding same_tables_def
  by (intro exI [of _ "c_databases db"] exI [of _ "c_credentials db"] exI [of _ "c_backups db"] exI [of _ "c_jobs db"]
      exI [of _ "c_audit db"] exI [of _ "c_queries db"] exI [of _ "c_saved_queries db"]) simp

lemma same_tables_trans: "same_tables u v \<Longrightarrow> same_tables v w \<Longrightarrow> same_tables u w"
proof -
  assume "same_tables u v" "same_tables v w"
  then obtain ds cs bs js au qs ss ds' cs' bs' js' au' qs' ss' where
    v: "v = u\<lparr>c_databases := ds, c_credentials := cs, c_backups := bs, c_jobs := js, c_audit := au, c_queries := qs, c_saved_queries := ss\<rparr>" and
    w: "w = v\<lparr>c_databases := ds', c_credentials := cs', c_backups := bs', c_jobs := js', c_audit := au', c_queries := qs', c_saved_queries := ss'\<rparr>"
    unfolding same_tables_def by (elim exE)
  have "w = u\<lparr>c_databases := ds', c_credentials := cs', c_backups := bs', c_jobs := js', c_audit := au', c_queries := qs', c_saved_queries := ss'\<rparr>"
    unfolding w v by simp
  then show ?thesis unfolding same_tables_def by (intro exI)
qed

lemma confined_db_refl: "confined_db org p i db db"
  by (simp add: confined_db_def same_tables_refl same_rows_def)

lemma same_rows_trans: "same_rows org p i u v \<Longrightarrow> same_rows org p i v w \<Longrightarrow> same_rows org p i u w"
  unfolding same_rows_def
  by (elim conjE, intro conjI)
    ((erule (1) grows_trans)+, blast, (erule (1) trans [rotated])+, (erule (1) grows_trans)+)

lemma confined_db_trans: "confined_db org p i u v \<Longrightarrow> confined_db org p i v w \<Longrightarrow> confined_db org p i u w"
  unfolding confined_db_def using same_tables_trans same_rows_trans by blast

interpretation tenant: frame "confined org p i name" for org p i name
proof
  show "confined org p i name w w" for w by (simp add: confined_def confined_db_refl)
  show "confined org p i name u w" if "confined org p i name u v" "confined org p i name v w" for u v w
    using that unfolding confined_def by (auto intro: confined_db_trans grows_trans)
qed

named_theorems tenant_framed "operations that stay inside the addressed database"

lemma tenant_modify:
  assumes "\<And>db n. keys_ok db n \<Longrightarrow> keys_ok (f db) n \<and> confined_db org p i db (f db)"
  shows "framed (confined org p i name) (modify f)"
  by (rule tenant.modify) (simp add: confined_def assms)

lemma same_tables_update [simp]:
  "same_tables db (db\<lparr>c_databases := ds\<rparr>)" "same_tables db (db\<lparr>c_credentials := cs\<rparr>)"
  "same_tables db (db\<lparr>c_backups := bs\<rparr>)" "same_tables db (db\<lparr>c_jobs := js\<rparr>)" "same_tables db (db\<lparr>c_audit := au\<rparr>)"
  "same_tables db (db\<lparr>c_queries := qs\<rparr>)" "same_tables db (db\<lparr>c_saved_queries := ss\<rparr>)"
  by (cases db, simp add: same_tables_def)+

lemma others_append [simp]: "others f i (xs @ ys) = others f i xs @ others f i ys"
  by (simp add: others_def)

lemma others_Cons [simp]: "others f i (x # xs) = (if f x = i then others f i xs else x # others f i xs)"
  by (simp add: others_def)

lemma others_Nil [simp]: "others f i [] = []"
  by (simp add: others_def)

lemma others_tset: "f r = i \<Longrightarrow> (\<And>x. x \<in> set rows \<Longrightarrow> key x = key r \<Longrightarrow> f x = i) \<Longrightarrow> others f i (tset key r rows) = others f i rows"
  by (induction rows) (auto simp: table_simps)

lemma others_tdel: "(\<And>x. x \<in> set rows \<Longrightarrow> key x = key r \<Longrightarrow> f x = i) \<Longrightarrow> others f i (tdel key (key r) rows) = others f i rows"
  by (induction rows) (auto simp: tdel_def)

lemma distinct_key: "distinct (map key rows) \<Longrightarrow> r \<in> set rows \<Longrightarrow> x \<in> set rows \<Longrightarrow> key x = key r \<Longrightarrow> x = r"
  by (auto simp: distinct_map inj_on_def)

lemma tenant_uuid4 [tenant_framed]: "framed (confined org p i name) uuid4"
  by (rule tenant.uuid4) (auto simp: confined_def keys_ok_def confined_db_refl less_Suc_eq)

lemma tenant_commit [tenant_framed]: "framed (confined org p i name) commit"
  by (rule tenant.commit) (simp add: confined_def confined_db_refl)

lemma tenant_call [tenant_framed]:
  assumes "database_named op = Some name"
  shows "framed (confined org p i name) (call_agent env n op)"
  unfolding framed_def call_agent_def
  using assms by (auto simp: confined_def confined_db_refl split: option.splits if_splits)

lemma tenant_translate [tenant_framed]: "framed (confined org p i name) m \<Longrightarrow> framed (confined org p i name) (translate f m)"
  unfolding framed_def translate_def by (auto split: prod.splits sum.splits)

lemma tenant_put_database [tenant_framed]:
  assumes "db_id d = i" "db_project_id d = p"
  shows "framed (confined org p i name) (put_database d)"
  unfolding put_database_def
  by (rule tenant_modify) (use assms in \<open>auto simp: keys_ok_def confined_db_def same_rows_def others_tset dest: in_tset\<close>)

lemma tenant_append_database [tenant_framed]:
  assumes "db_project_id d = p"
  shows "framed (confined org p i name) (modify (\<lambda>db. db\<lparr>c_databases := c_databases db @ [d]\<rparr>))"
  by (rule tenant_modify) (use assms in \<open>auto simp: keys_ok_def confined_db_def same_rows_def\<close>)

lemma tenant_append_job [tenant_framed]:
  assumes "jb_organization_id j = Some org"
  shows "framed (confined org p i name) (modify (\<lambda>db. db\<lparr>c_jobs := c_jobs db @ [j]\<rparr>))"
  by (rule tenant_modify) (use assms in \<open>auto simp: keys_ok_def confined_db_def same_rows_def\<close>)

lemma tenant_enqueue [tenant_framed]: "framed (confined org p i name) (enqueue env type payload key (Some org) rtype rid)"
  unfolding enqueue_def by (intro tenant.rules tenant_framed) (simp add: new_job_def)

lemma tenant_audit [tenant_framed]: "framed (confined org p i name) (record_audit action rt ri (Some org) user before after ip result)"
  unfolding record_audit_def
  by (rule tenant_modify) (auto simp: keys_ok_def confined_db_def same_rows_def)

lemma tenant_append_backup [tenant_framed]:
  assumes "bk_database_id b = i"
  shows "framed (confined org p i name) (modify (\<lambda>db. db\<lparr>c_backups := c_backups db @ [b]\<rparr>))"
  by (rule tenant_modify) (use assms in \<open>auto simp: keys_ok_def confined_db_def same_rows_def\<close>)

lemma tenant_add_query [tenant_framed]: "framed (confined org p i name) (add_query_execution i user statement r)"
  unfolding add_query_execution_def
  by (intro tenant.rules tenant_modify) (auto simp: keys_ok_def confined_db_def same_rows_def)

lemma tenant_add_credential [tenant_framed]: "framed (confined org p i name) (add_credential i role display enc scope pri)"
  unfolding framed_def add_credential_def
  by (auto simp: effect_simps confined_def confined_db_refl elim!: bind_cases)
    (auto simp: keys_ok_def confined_db_def same_rows_def less_Suc_eq)

lemma tenant_save_query [tenant_framed]:
  assumes q: "\<And>n. sq_id (q n) = n" "\<And>n. sq_database_id (q n) = i" and f: "\<And>n. framed (confined org p i name) (f n)"
  shows "framed (confined org p i name)
     (bindM uuid4 (\<lambda>n. bindM (modify (\<lambda>db. db\<lparr>c_saved_queries := c_saved_queries db @ [q n]\<rparr>)) (\<lambda>_. f n)))"
  unfolding framed_def
proof (intro allI impI)
  fix w r w'
  assume "bindM uuid4 (\<lambda>n. bindM (modify (\<lambda>db. db\<lparr>c_saved_queries := c_saved_queries db @ [q n]\<rparr>)) (\<lambda>_. f n)) w = (r, w')"
  then have run: "f (w_next w) (w\<lparr>w_next := Suc (w_next w), w_db := (w_db w)\<lparr>c_saved_queries := c_saved_queries (w_db w) @ [q (w_next w)]\<rparr>\<rparr>) = (r, w')"
    by (simp add: uuid4_def modify_def)
  have "confined org p i name w (w\<lparr>w_next := Suc (w_next w), w_db := (w_db w)\<lparr>c_saved_queries := c_saved_queries (w_db w) @ [q (w_next w)]\<rparr>\<rparr>)"
    using q by (auto simp: confined_def keys_ok_def confined_db_def same_rows_def less_Suc_eq)
  then show "confined org p i name w w'" using framedD [OF f run] by (rule tenant.trans)
qed

section \<open>Every endpoint stays inside\<close>

text \<open>The rows an endpoint looks up by their own key and then replaces or deletes.\<close>

definition holds_role :: "uid \<Rightarrow> database_credential \<Rightarrow> cp_db \<Rightarrow> bool" where
  "holds_role i c db \<longleftrightarrow> c \<in> set (c_credentials db) \<and> cr_database_id c = i"

lemma role_of_reads: "reads_only (role_of i x)"
  unfolding role_of_def by (intro reads_only_rules)

lemma role_of_learns: "role_of i x w = (Inr c, v) \<Longrightarrow> holds_role i c (w_db w)"
  unfolding role_of_def holds_role_def by (auto simp: effect_simps elim!: bind_cases dest: tget_in split: option.splits if_splits)

lemma tenant_role_of [tenant_framed]: "framed (confined org p i name) (role_of j x)"
  unfolding role_of_def by (intro tenant.rules)

lemma primary_reads: "reads_only (get_primary_node x)"
  unfolding get_primary_node_def get_node_def by (intro reads_only_rules)

lemma tenant_primary [tenant_framed]: "framed (confined org p i name) (get_primary_node x)"
  unfolding get_primary_node_def get_node_def by (intro tenant.rules)

lemma call_or_http_reads: "reads_only (call_or_http env n op)"
  unfolding call_or_http_def translate_def reads_only_def using reads_only_basic(6)
  by (auto simp: reads_only_def split: prod.splits sum.splits)

lemma tenant_call_or_http [tenant_framed]:
  "database_named op = Some name \<Longrightarrow> framed (confined org p i name) (call_or_http env n op)"
  unfolding call_or_http_def by (intro tenant_framed)

lemma tenant_drop_credential:
  "framed_if (holds_role i c) (confined org p i name) (modify (\<lambda>db. db\<lparr>c_credentials := tdel cr_id (cr_id c) (c_credentials db)\<rparr>))"
proof (rule tenant.if_modify)
  fix w :: cp_world assume h: "holds_role i c (w_db w)"
  then have "keys_ok (w_db w) n \<Longrightarrow> others cr_database_id i (tdel cr_id (cr_id c) (c_credentials (w_db w))) = others cr_database_id i (c_credentials (w_db w))" for n
    by (intro others_tdel) (metis distinct_key holds_role_def keys_ok_def)
  then show "confined org p i name w (w\<lparr>w_db := (w_db w)\<lparr>c_credentials := tdel cr_id (cr_id c) (c_credentials (w_db w))\<rparr>\<rparr>)"
    by (auto simp: confined_def confined_db_def same_rows_def keys_ok_def tdel_def distinct_map_filter)
qed

lemma tenant_put_credential:
  assumes "cr_id c' = cr_id c" "cr_database_id c' = cr_database_id c"
  shows "framed_if (holds_role i c) (confined org p i name) (put_credential c')"
  unfolding put_credential_def
proof (rule tenant.if_modify)
  fix w :: cp_world assume h: "holds_role i c (w_db w)"
  then have "keys_ok (w_db w) n \<Longrightarrow> others cr_database_id i (tset cr_id c' (c_credentials (w_db w))) = others cr_database_id i (c_credentials (w_db w))" for n
    using assms by (intro others_tset) (auto simp: holds_role_def keys_ok_def dest: distinct_key)
  then show "confined org p i name w (w\<lparr>w_db := (w_db w)\<lparr>c_credentials := tset cr_id c' (c_credentials (w_db w))\<rparr>\<rparr>)"
    using h assms by (auto simp: confined_def confined_db_def same_rows_def keys_ok_def holds_role_def dest!: in_tset)
qed

definition served :: "cp_env \<Rightarrow> crypto \<Rightarrow> string option \<Rightarrow> uid \<Rightarrow> uid \<Rightarrow> uid \<Rightarrow> string \<Rightarrow> cp_world \<Rightarrow> bool \<Rightarrow> cp_world \<Rightarrow> bool" where
  "served env k c org p i action w failed w' \<longleftrightarrow>
     failed \<and> keys_only w w' \<or>
     (\<exists>user m v pj d u. get_membership env k c org w = (Inr (user, m), v) \<and> require_permission (mb_role m) action = Inr () \<and>
        keys_only w v \<and> tget pj_id (c_projects (w_db v)) p = Some pj \<and> pj_organization_id pj = org \<and>
        tget db_id (c_databases (w_db v)) i = Some d \<and> db_project_id d = p \<and>
        confined org p i (db_physical_name d) v u \<and> (w' = u \<or> w' = rollback u))"

lemma keys_only_rollback: "keys_only w v \<Longrightarrow> w_committed w = w_db w \<Longrightarrow> keys_only w (rollback v)"
  by (auto simp: keys_only_def rollback_def same_keys)

text \<open>The steps between authentication and the handler, all of which only read.\<close>

definition entry :: "bool \<Rightarrow> bool \<Rightarrow> string \<Rightarrow> uid \<Rightarrow> uid \<Rightarrow> uid \<Rightarrow> user \<times> membership \<Rightarrow> database cpm" where
  "entry gated valid action org p i um =
     bindM (if gated then require_active_subscription org else ret ()) (\<lambda>_.
     bindM (ensure valid (HTTP 422)) (\<lambda>_.
     bindM (require_role (mb_role (snd um)) action) (\<lambda>_.
     bindM (get_project_or_404 org p) (\<lambda>_. get_database_or_404 p i))))"

interpretation unchanged: frame "(=)"
  by unfold_locales simp_all

lemma entry_reads: "entry gated valid action org p i um v = (x, v') \<Longrightarrow> v' = v"
proof -
  have "framed (=) (entry gated valid action org p i um)"
    unfolding entry_def require_active_subscription_def require_role_def get_project_or_404_def get_database_or_404_def
    by (intro unchanged.rules)
  then show "entry gated valid action org p i um v = (x, v') \<Longrightarrow> v' = v" using framedD by metis
qed

lemma get_project_Inr: "get_project_or_404 org p v = (Inr pj, v') \<Longrightarrow>
    tget pj_id (c_projects (w_db v)) p = Some pj \<and> pj_organization_id pj = org \<and> v' = v"
  unfolding get_project_or_404_def by (auto simp: query_def raise_def ret_def split: option.splits if_splits)

lemma get_database_Inr: "get_database_or_404 p i v = (Inr d, v') \<Longrightarrow>
    tget db_id (c_databases (w_db v)) i = Some d \<and> db_project_id d = p \<and> v' = v"
  unfolding get_database_or_404_def by (auto simp: query_def raise_def ret_def split: option.splits if_splits)

lemma entry_Inr:
  assumes "entry gated valid action org p i um v = (Inr d, v')"
  obtains pj where "require_permission (mb_role (snd um)) action = Inr ()" "tget pj_id (c_projects (w_db v)) p = Some pj"
    "pj_organization_id pj = org" "tget db_id (c_databases (w_db v)) i = Some d" "db_project_id d = p" "v' = v"
proof -
  note same = entry_reads [OF assms]
  from assms obtain x1 x2 x3 pj v1 v2 v3 v4 where
    s: "(if gated then require_active_subscription org else ret ()) v = (Inr x1, v1)" "ensure valid (HTTP 422) v1 = (Inr x2, v2)"
      "require_role (mb_role (snd um)) action v2 = (Inr x3, v3)" "get_project_or_404 org p v3 = (Inr pj, v4)"
      "get_database_or_404 p i v4 = (Inr d, v')"
    unfolding entry_def by (elim bind_okE) (rule that)
  have "framed (=) (if gated then require_active_subscription org else ret ())"
    unfolding require_active_subscription_def by (intro unchanged.rules)
  then have "v1 = v" using framedD s(1) by metis
  moreover have "v2 = v1" using s(2) by (simp add: effect_simps)
  moreover have "require_permission (mb_role (snd um)) action = Inr () \<and> v3 = v2" using s(3) by (simp add: require_role_Inr)
  ultimately show ?thesis using get_project_Inr [OF s(4)] get_database_Inr [OF s(5)] by (intro that [of pj]) auto
qed

lemma on_database_entry:
  "on_database env k c gated valid action org p i act = http_request (
     bindM (get_membership env k c org) (\<lambda>um. bindM (entry gated valid action org p i um) (\<lambda>d. act (fst um) d)))"
  unfolding on_database_def on_project_def entry_def
  by (rule arg_cong [where f = http_request], rule ext) (simp split: prod.split sum.split)

lemma on_database_served:
  assumes run: "on_database env k c gated valid action org p i act w = (r, w')" and clean: "w_committed w = w_db w"
    and act: "\<And>user d. db_id d = i \<Longrightarrow> db_project_id d = p \<Longrightarrow> framed (confined org p i (db_physical_name d)) (act user d)"
  shows "served env k c org p i action w (isl r) w'"
proof -
  obtain u where r1: "bindM (get_membership env k c org) (\<lambda>um. bindM (entry gated valid action org p i um) (\<lambda>d. act (fst um) d)) w = (r, u)"
    and r: "w' = (if isl r then rollback u else u)"
    using run unfolding on_database_entry http_request_def by (auto split: prod.splits sum.splits)
  from r1 show ?thesis
  proof (rule bind_cases)
    fix e assume "get_membership env k c org w = (Inl e, u)" "r = Inl e"
    then show ?thesis using r framedD [OF keys_only_membership] keys_only_rollback [OF _ clean] by (auto simp: served_def)
  next
    fix um v assume m: "get_membership env k c org w = (Inr um, v)"
      and rest: "bindM (entry gated valid action org p i um) (\<lambda>d. act (fst um) d) v = (r, u)"
    have kv: "keys_only w v" using m framedD [OF keys_only_membership] by blast
    from rest show ?thesis
    proof (rule bind_cases)
      fix e assume "entry gated valid action org p i um v = (Inl e, u)" "r = Inl e"
      moreover have "v = u" using entry_reads calculation(1) by blast
      ultimately show ?thesis using r kv keys_only_rollback [OF kv clean] by (simp add: served_def)
    next
      fix d v' assume d: "entry gated valid action org p i um v = (Inr d, v')" and a: "act (fst um) d v' = (r, u)"
      obtain pj where pj: "require_permission (mb_role (snd um)) action = Inr ()" "tget pj_id (c_projects (w_db v)) p = Some pj"
        "pj_organization_id pj = org" "tget db_id (c_databases (w_db v)) i = Some d" "db_project_id d = p" "v' = v"
        using d by (rule entry_Inr)
      have "db_id d = i" using pj(4) by (rule tget_key)
      then have "confined org p i (db_physical_name d) v u" using framedD [OF act a] pj by simp
      moreover have "w' = u \<or> w' = rollback u" using r by simp
      moreover have "get_membership env k c org w = (Inr (fst um, snd um), v)" using m by simp
      ultimately show ?thesis unfolding served_def using kv pj by blast
    qed
  qed
qed

lemma discard_served:
  assumes "discard (on_database env k c gated valid action org p i act) w = (r, w')" and "w_committed w = w_db w"
    and "\<And>user d. db_id d = i \<Longrightarrow> db_project_id d = p \<Longrightarrow> framed (confined org p i (db_physical_name d)) (act user d)"
  shows "served env k c org p i action w (isl r) w'"
proof -
  obtain r0 where "on_database env k c gated valid action org p i act w = (r0, w')" "isl r = isl r0"
    using assms(1) unfolding discard_def by (auto simp: effect_simps elim!: bind_cases)
  with on_database_served [OF _ assms(2,3)] show ?thesis by simp
qed

lemma tenant_chosen_role [tenant_framed]: "framed (confined org p i name) (chosen_role j x)"
  unfolding chosen_role_def by (intro tenant.rules tenant_framed)

lemma tenant_name_free [tenant_framed]: "framed (confined org p i name) (name_free p' x)"
  unfolding name_free_def by (intro tenant.rules)

lemma tenant_backup_of [tenant_framed]: "framed (confined org p i name) (backup_of i x)"
  unfolding backup_of_def get_backup_def by (intro tenant.rules)

lemma tenant_add_backup [tenant_framed]: "framed (confined org p i name) (add_backup env i ty)"
  unfolding add_backup_def by (intro tenant.rules tenant_framed) (simp add: new_backup_def)

lemma tenant_add_database [tenant_framed]: "framed (confined org p i name) (add_database env p rg nm il st cpu ram storage)"
  unfolding add_database_def by (intro tenant.rules tenant_framed) simp

lemma tenant_request_job [tenant_framed]:
  "db_id d = i \<Longrightarrow> db_project_id d = p \<Longrightarrow> framed (confined org p i name) (request_job env ty key action org user d)"
  unfolding request_job_def by (intro tenant.rules tenant_framed)

lemma tenant_ask_agent [tenant_framed]:
  "database_named op = Some name \<Longrightarrow> framed (confined org p i name) (ask_agent env d op)"
  unfolding ask_agent_def require_running_def by (intro tenant.rules tenant_framed)

lemma tenant_answers [tenant_framed]:
  "framed (confined org p i name) (extensions_of resp)" "framed (confined org p i name) (tables_of resp)"
  "framed (confined org p i name) (metrics_response resp)" "framed (confined org p i name) (require_running d)"
  "framed (confined org p i name) (decrypt_secret env s)" "framed (confined org p i name) (execute_query env sv d cr st)"
  unfolding extensions_of_def tables_of_def metrics_response_def require_running_def decrypt_secret_def execute_query_def
  by (auto intro!: tenant.rules split: agent_response.splits)

lemma tenant_with_role:
  assumes "\<And>c. framed_if (holds_role i c) (confined org p i name) (f c)"
  shows "framed (confined org p i name) (bindM (role_of i x) f)"
  by (rule tenant.learn [where D = "holds_role i"]) (use role_of_reads tenant_role_of role_of_learns assms in blast)+

lemma tenant_delete_role:
  "framed (confined org p i (db_physical_name d)) (bindM (role_of i x) (\<lambda>credential.
     bindM (ensure (\<not> cr_is_primary credential) (HTTP 400)) (\<lambda>_.
     bindM (get_primary_node cl) (\<lambda>node.
     bindM (call_or_http env node (DropRole (db_physical_name d) (cr_role_name credential))) (\<lambda>_.
     bindM (modify (\<lambda>db. db\<lparr>c_credentials := tdel cr_id (cr_id credential) (c_credentials db)\<rparr>)) (\<lambda>_.
     bindM (record_audit action rt ri (Some org) user (before credential) after ip result) (\<lambda>_.
     commit)))))))"
  by (rule tenant_with_role, rule tenant.if_read, rule reads_only_basic, rule tenant.ensure,
      rule tenant.if_read, rule primary_reads, rule tenant_primary,
      rule tenant.if_read, rule call_or_http_reads, rule tenant_call_or_http, simp,
      rule tenant.if_last, rule tenant_drop_credential)
    (intro tenant.rules tenant_framed)

lemma tenant_rotate_role:
  assumes "\<And>c. cr_id (f c) = cr_id c" "\<And>c. cr_database_id (f c) = cr_database_id c" "\<And>c. framed (confined org p i (db_physical_name d)) (g c)"
  shows "framed (confined org p i (db_physical_name d)) (bindM (role_of i x) (\<lambda>credential.
     bindM (get_primary_node cl) (\<lambda>node.
     bindM (call_or_http env node (RotateRole (db_physical_name d) (cr_role_name credential) pw)) (\<lambda>_.
     bindM (put_credential (f credential)) (\<lambda>_. g credential)))))"
  by (rule tenant_with_role, rule tenant.if_read, rule primary_reads, rule tenant_primary,
      rule tenant.if_read, rule call_or_http_reads, rule tenant_call_or_http, simp,
      rule tenant.if_last, rule tenant_put_credential, rule assms, rule assms, rule assms)

lemma tenant_delete_saved_query:
  "framed (confined org p i name) (bindM (saved_query_of i x) (\<lambda>saved.
     bindM (modify (\<lambda>db. db\<lparr>c_saved_queries := tdel sq_id (sq_id saved) (c_saved_queries db)\<rparr>)) (\<lambda>_. commit)))"
proof (rule tenant.learn [where D = "\<lambda>q db. q \<in> set (c_saved_queries db) \<and> sq_database_id q = i"])
  show "reads_only (saved_query_of i x)" unfolding saved_query_of_def by (intro reads_only_rules)
  show "framed (confined org p i name) (saved_query_of i x)" unfolding saved_query_of_def by (intro tenant.rules)
  show "q \<in> set (c_saved_queries (w_db w)) \<and> sq_database_id q = i" if "saved_query_of i x w = (Inr q, v)" for w q v
    using that unfolding saved_query_of_def
    by (auto simp: effect_simps elim!: bind_cases dest: tget_in split: option.splits if_splits)
next
  fix q
  show "framed_if (\<lambda>db. q \<in> set (c_saved_queries db) \<and> sq_database_id q = i) (confined org p i name)
     (bindM (modify (\<lambda>db. db\<lparr>c_saved_queries := tdel sq_id (sq_id q) (c_saved_queries db)\<rparr>)) (\<lambda>_. commit))"
  proof (rule tenant.if_last [OF tenant.if_modify tenant_commit])
    fix w :: cp_world assume h: "q \<in> set (c_saved_queries (w_db w)) \<and> sq_database_id q = i"
    then have "keys_ok (w_db w) n \<Longrightarrow> others sq_database_id i (tdel sq_id (sq_id q) (c_saved_queries (w_db w))) = others sq_database_id i (c_saved_queries (w_db w))" for n
      by (intro others_tdel) (metis distinct_key keys_ok_def)
    then show "confined org p i name w (w\<lparr>w_db := (w_db w)\<lparr>c_saved_queries := tdel sq_id (sq_id q) (c_saved_queries (w_db w))\<rparr>\<rparr>)"
      by (auto simp: confined_def confined_db_def same_rows_def keys_ok_def tdel_def distinct_map_filter)
  qed
qed

text \<open>Endpoint by endpoint: the outcome is that of an authorized member's request, confined to the database.\<close>

lemma endpoint_served:
  assumes run: "database_endpoint env k sv c org p i req w = (r, w')" and clean: "w_committed w = w_db w"
  shows "served env k c org p i (required_permission req) w (isl r) w'"
proof (cases req)
  case ReadDatabase
  show ?thesis using run unfolding ReadDatabase database_endpoint.simps required_permission.simps read_database_def
    by - (erule discard_served [OF _ clean], intro tenant.rules tenant_framed; simp add: tenant_framed)
next
  case DeleteDatabase
  show ?thesis using run unfolding DeleteDatabase database_endpoint.simps required_permission.simps delete_database_def
    by - (erule discard_served [OF _ clean], intro tenant.rules tenant_framed; simp add: tenant_framed)
next
  case SuspendRequest
  show ?thesis using run unfolding SuspendRequest database_endpoint.simps required_permission.simps suspend_database_def
    by - (erule discard_served [OF _ clean], intro tenant.rules tenant_framed; simp add: tenant_framed)
next
  case ResumeRequest
  show ?thesis using run unfolding ResumeRequest database_endpoint.simps required_permission.simps resume_database_def
    by - (erule discard_served [OF _ clean], intro tenant.rules tenant_framed; simp add: tenant_framed)
next
  case (Resize cpu ram storage)
  show ?thesis using run unfolding Resize database_endpoint.simps required_permission.simps resize_database_def
    by - (erule discard_served [OF _ clean], intro tenant.rules tenant_framed; simp add: tenant_framed)
next
  case (Connect role)
  show ?thesis using run unfolding Connect database_endpoint.simps required_permission.simps get_database_connection_def
    by - (erule discard_served [OF _ clean], intro tenant.rules tenant_framed; simp add: tenant_framed)
next
  case CreateBackup
  show ?thesis using run unfolding CreateBackup database_endpoint.simps required_permission.simps create_backup_def
    by - (erule discard_served [OF _ clean], intro tenant.rules tenant_framed; simp add: tenant_framed)
next
  case ListBackups
  show ?thesis using run unfolding ListBackups database_endpoint.simps required_permission.simps list_backups_def
    by - (erule discard_served [OF _ clean], intro tenant.rules tenant_framed; simp add: tenant_framed)
next
  case (ReadBackup b)
  show ?thesis using run unfolding ReadBackup database_endpoint.simps required_permission.simps read_backup_def
    by - (erule discard_served [OF _ clean], intro tenant.rules tenant_framed; simp add: tenant_framed)
next
  case (RestoreBackup b name)
  show ?thesis using run unfolding RestoreBackup database_endpoint.simps required_permission.simps restore_backup_def
    by - (erule discard_served [OF _ clean], intro tenant.rules tenant_framed; simp add: tenant_framed)
next
  case ReadPolicy
  show ?thesis using run unfolding ReadPolicy database_endpoint.simps required_permission.simps get_backup_policy_def
    by - (erule discard_served [OF _ clean], intro tenant.rules tenant_framed; simp add: tenant_framed)
next
  case (SetPolicy policy)
  show ?thesis using run unfolding SetPolicy database_endpoint.simps required_permission.simps set_backup_policy_def
    by - (erule discard_served [OF _ clean], intro tenant.rules tenant_framed; simp add: tenant_framed)
next
  case (AddRole name scope)
  show ?thesis using run unfolding AddRole database_endpoint.simps required_permission.simps create_role_def
    by - (erule discard_served [OF _ clean], intro tenant.rules tenant_framed; simp add: tenant_framed)
next
  case ListRoles
  show ?thesis using run unfolding ListRoles database_endpoint.simps required_permission.simps list_roles_def
    by - (erule discard_served [OF _ clean], intro tenant.rules tenant_framed; simp add: tenant_framed)
next
  case ReadExtensions
  show ?thesis using run unfolding ReadExtensions database_endpoint.simps required_permission.simps list_extensions_def
    by - (erule discard_served [OF _ clean], intro tenant.rules tenant_framed; simp add: tenant_framed)
next
  case (AddExtension name)
  show ?thesis using run unfolding AddExtension database_endpoint.simps required_permission.simps install_extension_def
    by - (erule discard_served [OF _ clean], intro tenant.rules tenant_framed; simp add: tenant_framed)
next
  case ReadMetrics
  show ?thesis using run unfolding ReadMetrics database_endpoint.simps required_permission.simps get_metrics_def
    by - (erule discard_served [OF _ clean], intro tenant.rules tenant_framed; simp add: tenant_framed)
next
  case ReadTables
  show ?thesis using run unfolding ReadTables database_endpoint.simps required_permission.simps list_tables_def
    by - (erule discard_served [OF _ clean], intro tenant.rules tenant_framed; simp add: tenant_framed)
next
  case (RunSql st role)
  show ?thesis using run unfolding RunSql database_endpoint.simps required_permission.simps execute_sql_def
    by - (erule discard_served [OF _ clean], intro tenant.rules tenant_framed; simp add: tenant_framed)
next
  case (ReadHistory l)
  show ?thesis using run unfolding ReadHistory database_endpoint.simps required_permission.simps get_history_def
    by - (erule discard_served [OF _ clean], intro tenant.rules tenant_framed; simp add: tenant_framed)
next
  case ReadSavedQueries
  show ?thesis using run unfolding ReadSavedQueries database_endpoint.simps required_permission.simps list_saved_queries_def
    by - (erule discard_served [OF _ clean], intro tenant.rules tenant_framed; simp add: tenant_framed)
next
  case (RemoveExtension name)
  show ?thesis using run unfolding RemoveExtension database_endpoint.simps required_permission.simps drop_extension_def
    by - (erule on_database_served [OF _ clean], intro tenant.rules tenant_framed; simp add: tenant_framed)
next
  case (RemoveRole role)
  show ?thesis using run unfolding RemoveRole database_endpoint.simps required_permission.simps delete_role_def
    by - (erule on_database_served [OF _ clean], rule tenant_delete_role)
next
  case (RenewRole role)
  show ?thesis using run unfolding RenewRole database_endpoint.simps required_permission.simps rotate_role_def
    by - (erule discard_served [OF _ clean], rule tenant_rotate_role; (intro tenant.rules tenant_framed)?; simp)
next
  case (SaveQuery name st)
  show ?thesis using run unfolding SaveQuery database_endpoint.simps required_permission.simps create_saved_query_def
    by - (erule discard_served [OF _ clean], intro tenant_save_query tenant.rules tenant_framed; simp)
next
  case (DeleteSavedQuery q)
  show ?thesis using run unfolding DeleteSavedQuery database_endpoint.simps required_permission.simps delete_saved_query_def
    by - (erule on_database_served [OF _ clean], rule tenant_delete_saved_query)
qed

section \<open>Isolation\<close>

definition foreign_rows ::
    "uid \<Rightarrow> cp_db \<Rightarrow> cp_db \<Rightarrow> database list \<times> database_credential list \<times> backup list \<times> query_execution list \<times> saved_query list" where
  "foreign_rows org db x = (case set (get_database_ids_for_organization org db) of own \<Rightarrow>
     (filter (\<lambda>d. \<not> in_organization org db d) (c_databases x),
      filter (\<lambda>c. cr_database_id c \<notin> own) (c_credentials x),
      filter (\<lambda>b. bk_database_id b \<notin> own) (c_backups x),
      filter (\<lambda>q. qe_database_id q \<notin> own) (c_queries x),
      filter (\<lambda>q. sq_database_id q \<notin> own) (c_saved_queries x)))"

lemma filter_others: "others f i xs = others f i ys \<Longrightarrow> (\<And>x. P x \<Longrightarrow> f x \<noteq> i) \<Longrightarrow> filter P xs = filter P ys"
proof -
  assume o: "others f i xs = others f i ys" and P: "\<And>x. P x \<Longrightarrow> f x \<noteq> i"
  have "filter P zs = filter P (others f i zs)" for zs
    unfolding others_def filter_filter by (rule filter_cong) (use P in auto)
  then show ?thesis using o by metis
qed

lemma filter_outside:
  "i \<in> S \<Longrightarrow> others f i xs = others f i ys \<Longrightarrow> filter (\<lambda>y. f y \<notin> S) xs = filter (\<lambda>y. f y \<notin> S) ys"
  by (erule filter_others) auto

lemma foreign_rows_same:
  assumes rows: "same_rows org p i db x" and d: "tget db_id (c_databases db) i = Some d" "db_project_id d = p"
    and pj: "tget pj_id (c_projects db) p = Some pj" "pj_organization_id pj = org"
    and keys: "distinct (map db_id (c_databases db))"
  shows "foreign_rows org db x = foreign_rows org db db"
proof -
  have inside: "in_organization org db d'" if "db_project_id d' = p" for d'
    using tget_SomeD [OF pj(1)] pj(2) that by (auto simp: in_organization_def list_ex_iff)
  have own: "i \<in> set (get_database_ids_for_organization org db)"
    using tget_SomeD [OF d(1)] inside [OF d(2)] by (auto simp: get_database_ids_for_organization_def)
  have mine: "\<forall>d'\<in>set (c_databases db). db_id d' = i \<longrightarrow> db_project_id d' = p"
    using tget_SomeD [OF d(1)] d(2) distinct_key [OF keys] by blast
  then have mine': "\<forall>d'\<in>set (c_databases x). db_id d' = i \<longrightarrow> db_project_id d' = p"
    using rows by (simp add: same_rows_def)
  have split: "filter (\<lambda>d. \<not> in_organization org db d) ds = filter (\<lambda>d. \<not> in_organization org db d) (others db_id i ds)"
    if "\<forall>d'\<in>set ds. db_id d' = i \<longrightarrow> db_project_id d' = p" for ds
    unfolding others_def filter_filter by (rule filter_cong) (use that inside in auto)
  have r: "grows (\<lambda>d. db_project_id d = p) (others db_id i (c_databases db)) (others db_id i (c_databases x))"
    "others cr_database_id i (c_credentials x) = others cr_database_id i (c_credentials db)"
    "others bk_database_id i (c_backups x) = others bk_database_id i (c_backups db)"
    "others qe_database_id i (c_queries x) = others qe_database_id i (c_queries db)"
    "others sq_database_id i (c_saved_queries x) = others sq_database_id i (c_saved_queries db)"
    using rows unfolding same_rows_def by - (elim conjE, assumption)+
  have "filter (\<lambda>d. \<not> in_organization org db d) (others db_id i (c_databases x)) =
     filter (\<lambda>d. \<not> in_organization org db d) (others db_id i (c_databases db))"
    using r(1) by (rule grows_filter) (simp add: inside)
  then have dbs: "filter (\<lambda>d. \<not> in_organization org db d) (c_databases x) = filter (\<lambda>d. \<not> in_organization org db d) (c_databases db)"
    using split [OF mine] split [OF mine'] by simp
  show ?thesis unfolding foreign_rows_def dbs filter_outside [OF own r(2)] filter_outside [OF own r(3)]
    filter_outside [OF own r(4)] filter_outside [OF own r(5)] by (rule refl)
qed

lemma foreign_rows_keys: "foreign_rows org (db\<lparr>c_api_keys := as\<rparr>) x = foreign_rows org db x"
    "foreign_rows org db (x\<lparr>c_api_keys := as\<rparr>) = foreign_rows org db x"
  by (simp_all add: foreign_rows_def get_database_ids_for_organization_def in_organization_def [abs_def])

lemma rolled_back_rows:
  assumes k: "keys_only w v" "w_committed w = w_db w" and c: "keys_ok (w_db v) (w_next v)" "confined org p i name v u"
    and w': "w' = u \<or> w' = rollback u"
  shows "same_rows org p i (w_db v) (w_db w')"
proof -
  have "same_rows org p i (w_db v) (w_db u)" using c by (simp add: confined_def confined_db_def)
  moreover have "same_rows org p i (w_db v) (w_committed v)" using k by (auto simp: keys_only_def same_rows_def)
  then have "same_rows org p i (w_db v) (w_committed u)" using c by (auto simp: confined_def confined_db_def)
  ultimately show ?thesis using w' by (auto simp: rollback_def)
qed


text \<open>Two tenants on one cluster.\<close>

definition demo_tenants :: cp_world where
  "demo_tenants = world_of (demo_cp
     \<lparr>c_users := [demo_user], c_memberships := [\<lparr>mb_id = 8, mb_user_id = 7, mb_organization_id = 3, mb_role = DEVELOPER\<rparr>],
      c_projects := c_projects demo_cp @ [\<lparr>pj_id = 5, pj_organization_id = 4, pj_name = ''q'', pj_slug = ''q''\<rparr>],
      c_databases := c_databases demo_cp @ [(demo_database 41 DB_RUNNING (Some 20))\<lparr>db_project_id := 5, db_physical_name := ''db_y''\<rparr>]\<rparr>) 100"

definition demo_sql :: "nat sql_server" where
  "demo_sql = \<lparr>sv_connect = (\<lambda>_ _ _ _ _. Inr ()), sv_fetch = (\<lambda>_ _ _. Inr ([''n''], [[1]])), sv_elapsed_ms = 3\<rparr>"

definition demo_role_run :: "(cp_exn + unit) \<times> cp_world" where
  "demo_role_run = database_endpoint (calm_env 0) demo_crypto demo_sql (Some ''jwt'') 3 2 40 (AddRole ''reader'' SC_READONLY) demo_tenants"




end
