(* ===== verification/CP_Lifecycle.thy ===== *)
theory CP_Lifecycle
  imports CP_DatabaseApi
begin

text \<open>
  The endpoints of \<open>CP_DatabaseApi\<close> together with the jobs of \<open>CP_Orchestrator\<close> and the
  quotas of \<open>CP_Placement\<close>: a creation stays within the plan; a restore does not look at the
  plan; and a creation job that outlives its database brings it back.
\<close>

section \<open>Quotas\<close>

lemma get_active_plan_Inr:
  "get_active_plan org w = (Inr plan, w') \<Longrightarrow> w' = w \<and>
     (\<exists>s. one_or_none (filter (\<lambda>s. sb_organization_id s = org) (c_subscriptions (w_db w))) = Inr (Some s) \<and>
        tget pl_id (c_plans (w_db w)) (sb_plan_id s) = Some plan)"
  unfolding get_active_plan_def
  by (auto simp: query_def query_exn_def raise_def the_or_def split: sum.splits option.splits)

definition plan_of :: "uid \<Rightarrow> cp_db \<Rightarrow> plan option" where
  "plan_of org db = (case filter (\<lambda>s. sb_organization_id s = org) (c_subscriptions db) of
     [s] \<Rightarrow> tget pl_id (c_plans db) (sb_plan_id s) | _ \<Rightarrow> None)"

lemma plan_of_active:
  assumes "get_active_plan org w = (Inr plan, w')"
  shows "plan_of org (w_db w) = Some plan"
proof -
  obtain s where s: "one_or_none (filter (\<lambda>s. sb_organization_id s = org) (c_subscriptions (w_db w))) = Inr (Some s)"
    "tget pl_id (c_plans (w_db w)) (sb_plan_id s) = Some plan"
    using get_active_plan_Inr [OF assms] by blast
  then have "filter (\<lambda>s. sb_organization_id s = org) (c_subscriptions (w_db w)) = [s]"
    by (cases "filter (\<lambda>s. sb_organization_id s = org) (c_subscriptions (w_db w))" rule: scalar_of.cases)
       (auto simp: one_or_none_def)
  then show ?thesis using s by (simp add: plan_of_def)
qed

definition fits_plan :: "plan \<Rightarrow> database list \<Rightarrow> bool" where
  "fits_plan plan ds \<longleftrightarrow> quota_allows plan ''max_databases'' (int (length ds)) \<and>
     quota_allows plan ''max_storage_gb'' (sum_list (map db_storage_limit_gb ds)) \<and>
     quota_allows plan ''max_cpu_total'' (sum_list (map db_cpu_limit ds))"

lemma check_database_quota_Inr:
  assumes "check_database_quota org storage cpu w = (Inr (), w')"
  shows "w' = w \<and> (\<exists>plan. plan_of org (w_db w) = Some plan \<and>
     quota_allows plan ''max_databases'' (int (length (counted org (w_db w))) + 1) \<and>
     quota_allows plan ''max_storage_gb'' (sum_list (map db_storage_limit_gb (counted org (w_db w))) + storage) \<and>
     quota_allows plan ''max_cpu_total'' (sum_list (map db_cpu_limit (counted org (w_db w))) + cpu))"
proof -
  obtain plan v where p: "get_active_plan org w = (Inr plan, v)" and
    rest: "bindM (query (counted org)) (\<lambda>databases.
     bindM (ensure (quota_allows plan ''max_databases'' (int (length databases) + 1)) QuotaExceeded) (\<lambda>_.
     bindM (ensure (quota_allows plan ''max_storage_gb''
              (sum_list (map db_storage_limit_gb databases) + storage)) QuotaExceeded) (\<lambda>_.
     ensure (quota_allows plan ''max_cpu_total''
              (sum_list (map db_cpu_limit databases) + cpu)) QuotaExceeded))) v = (Inr (), w')"
    using assms unfolding check_database_quota_def by (rule bind_okE)
  have "v = w" using get_active_plan_Inr [OF p] by simp
  then show ?thesis using rest plan_of_active [OF p] by (auto simp: query_def ensure_def split: if_splits)
qed

lemma translate_Inr: "translate f m w = (Inr x, w') \<longleftrightarrow> m w = (Inr x, w')"
  by (auto simp: translate_def split: prod.splits sum.splits)

lemma add_database_Inr:
  assumes "add_database env p rg name il st cpu ram storage w = (Inr d, w')"
  shows "w_db w' = (w_db w)\<lparr>c_databases := c_databases (w_db w) @ [d]\<rparr> \<and> db_project_id d = p \<and> db_status d = st \<and>
     db_cpu_limit d = cpu \<and> db_storage_limit_gb d = storage"
  using assms unfolding add_database_def by (auto simp: effect_simps elim!: bind_cases)

text \<open>What comes after the new row leaves everything a quota counts alone.\<close>

definition same_counts :: "cp_world \<Rightarrow> cp_world \<Rightarrow> bool" where
  "same_counts w w' \<longleftrightarrow> c_databases (w_db w') = c_databases (w_db w) \<and> c_projects (w_db w') = c_projects (w_db w) \<and>
     c_subscriptions (w_db w') = c_subscriptions (w_db w) \<and> c_plans (w_db w') = c_plans (w_db w)"

interpretation counts: frame same_counts
  by unfold_locales (auto simp: same_counts_def)

lemma counts_plan: "same_counts w w' \<Longrightarrow> plan_of org (w_db w') = plan_of org (w_db w) \<and> counted org (w_db w') = counted org (w_db w)"
  unfolding same_counts_def plan_of_def counted_def in_organization_def by (elim conjE) (simp cong: list.case_cong)

lemma counts_enqueue: "framed same_counts (enqueue env ty payload key org rt ri)"
  unfolding enqueue_def by (intro counts.rules counts.modify counts.uuid4) (simp_all add: same_counts_def)

lemma counts_audit: "framed same_counts (record_audit action rt ri org user before after ip result)"
  unfolding record_audit_def by (rule counts.modify) (simp add: same_counts_def)

lemma counts_commit: "framed same_counts commit"
  by (rule counts.commit) (simp add: same_counts_def)

lemma counts_entry: "framed same_counts (query_exn (active_region code))" "framed same_counts (name_free p name)"
    "framed same_counts (the_or e x)" "framed same_counts (check_database_quota org storage cpu)"
  unfolding name_free_def check_database_quota_def get_active_plan_def by (intro counts.rules)+

lemma on_project_Inr:
  assumes "on_project env k c gated valid action org p act w = (Inr x, w')"
  obtains user v pj where "tget pj_id (c_projects (w_db v)) p = Some pj" "pj_organization_id pj = org" "act user v = (Inr x, w')"
proof -
  obtain um :: "user \<times> membership" and v where "(case um of (user, membership) \<Rightarrow>
     bindM (if gated then require_active_subscription org else ret ()) (\<lambda>_.
     bindM (ensure valid (HTTP 422)) (\<lambda>_.
     bindM (require_role (mb_role membership) action) (\<lambda>_.
     bindM (get_project_or_404 org p) (\<lambda>_. act user))))) v = (Inr x, w')"
    using assms unfolding on_project_def http_request_Inr by (rule bind_okE) (rule that)
  then obtain user and membership :: membership where "bindM (if gated then require_active_subscription org else ret ()) (\<lambda>_.
     bindM (ensure valid (HTTP 422)) (\<lambda>_.
     bindM (require_role (mb_role membership) action) (\<lambda>_.
     bindM (get_project_or_404 org p) (\<lambda>_. act user)))) v = (Inr x, w')" by (cases um) simp
  then obtain v3 pj v4 where "get_project_or_404 org p v3 = (Inr pj, v4)" "act user v4 = (Inr x, w')"
    by (elim bind_okE) (rule that)
  moreover from this(1) have "tget pj_id (c_projects (w_db v4)) p = Some pj \<and> pj_organization_id pj = org"
    unfolding get_project_or_404_def by (auto simp: query_def raise_def ret_def split: option.splits if_splits)
  ultimately show ?thesis using that by blast
qed

lemma create_database_Inr:
  assumes "create_database env k cred org p name code il cpu ram storage w = (Inr (d, job), w')"
  obtains v v' where "check_database_quota org storage cpu v = (Inr (), v)" "in_organization org (w_db v) d"
    "w_db v' = (w_db v)\<lparr>c_databases := c_databases (w_db v) @ [d]\<rparr>" "db_status d = DB_CREATING"
    "db_cpu_limit d = cpu" "db_storage_limit_gb d = storage" "same_counts v' w'"
proof -
  obtain user :: user and v4 pj where pj: "tget pj_id (c_projects (w_db v4)) p = Some pj" "pj_organization_id pj = org"
    and act: "bindM (query_exn (active_region code)) (\<lambda>found.
     bindM (the_or (HTTP 404) found) (\<lambda>region.
     bindM (name_free p name) (\<lambda>_.
     bindM (translate quota_error (check_database_quota org storage cpu)) (\<lambda>_.
     bindM (add_database env p (rg_id region) name il DB_CREATING cpu ram storage) (\<lambda>database.
     bindM (enqueue env ''create_database'' [(''database_id'', db_id database)]
              (Some (''create_database:'' @ nat_string (db_id database))) (Some org) (Some ''database'') (Some (db_id database))) (\<lambda>job.
     bindM (audit_ok ''DATABASE_CREATE_REQUESTED'' ''database'' (Some (db_id database)) (Some org) (Some (us_id user)) None
              (Some [(''name'', name), (''region'', rg_code region), (''isolation'', isolation_value il)])) (\<lambda>_.
     bindM commit (\<lambda>_.
     ret (database, jb_id job))))))))) v4 = (Inr (d, job), w')"
    using assms unfolding create_database_def by (rule on_project_Inr)
  from act obtain f5 v5 region v6 v7 v8 database v9 j v10 v11 v12 where
    s: "query_exn (active_region code) v4 = (Inr f5, v5)" "the_or (HTTP 404) f5 v5 = (Inr region, v6)" "name_free p name v6 = (Inr (), v7)"
      "check_database_quota org storage cpu v7 = (Inr (), v8)" "add_database env p (rg_id region) name il DB_CREATING cpu ram storage v8 = (Inr database, v9)"
      "enqueue env ''create_database'' [(''database_id'', db_id database)]
              (Some (''create_database:'' @ nat_string (db_id database))) (Some org) (Some ''database'') (Some (db_id database)) v9 = (Inr j, v10)"
      "audit_ok ''DATABASE_CREATE_REQUESTED'' ''database'' (Some (db_id database)) (Some org) (Some (us_id user)) None
              (Some [(''name'', name), (''region'', rg_code region), (''isolation'', isolation_value il)]) v10 = (Inr (), v11)"
      "commit v11 = (Inr (), v12)" "ret (database, jb_id j) v12 = (Inr (d, job), w')"
    by (elim bind_okE) (simp add: translate_Inr)
  have "v8 = v7" using check_database_quota_Inr [OF s(4)] by simp
  moreover have "same_counts v4 v5" "same_counts v5 v6" "same_counts v6 v7"
    using counts_entry framedD s(1-3) by blast+
  then have "same_counts v4 v7" using counts.trans by blast
  then have "in_organization org (w_db v7) d" if "db_project_id d = p"
    using pj that tget_SomeD [OF pj(1)] by (auto simp: same_counts_def in_organization_def list_ex_iff)
  moreover have "d = database" "w' = v12" using s(9) by (simp_all add: ret_def)
  moreover have "same_counts v9 v10" "same_counts v10 v11" "same_counts v11 v12"
    using framedD [OF counts_enqueue s(6)] framedD [OF counts_audit s(7)] framedD [OF counts_commit s(8)] by simp_all
  then have "same_counts v9 v12" using counts.trans by blast
  ultimately show ?thesis using that [of v7 v9] s(4) add_database_Inr [OF s(5)] by simp
qed

text \<open>C30: A database is only created within the plan: after a creation request that succeeds, the
  databases of the organization that count, the new one among them, are within the plan's limits on
  their number, their storage and their processors.\<close>

theorem create_within_quota:
  assumes "create_database env k cred org p name code il cpu ram storage w = (Inr (d, job), w')"
  shows "\<exists>plan. plan_of org (w_db w') = Some plan \<and> fits_plan plan (counted org (w_db w')) \<and>
    d \<in> set (counted org (w_db w')) \<and> db_status d = DB_CREATING"
proof -
  obtain v v' where q: "check_database_quota org storage cpu v = (Inr (), v)" and own: "in_organization org (w_db v) d"
    and db: "w_db v' = (w_db v)\<lparr>c_databases := c_databases (w_db v) @ [d]\<rparr>" "db_status d = DB_CREATING"
      "db_cpu_limit d = cpu" "db_storage_limit_gb d = storage" and same: "same_counts v' w'"
    using assms by (rule create_database_Inr)
  have "counted org (w_db v') = counted org (w_db v) @ [d]"
    using own db by (simp add: counted_def in_organization_def)
  moreover have "plan_of org (w_db v') = plan_of org (w_db v)" using db by (simp add: plan_of_def cong: list.case_cong)
  ultimately show ?thesis
    using check_database_quota_Inr [OF q] counts_plan [OF same] db by (auto simp: fits_plan_def add.commute)
qed

text \<open>An organization with one database on a plan that allows two.\<close>

definition demo_plan_of_two :: cp_world where
  "demo_plan_of_two = world_of (demo_cp
     \<lparr>c_users := [demo_user], c_memberships := [\<lparr>mb_id = 8, mb_user_id = 7, mb_organization_id = 3, mb_role = OWNER\<rparr>],
      c_databases := [(demo_database 40 DB_RUNNING (Some 20))\<lparr>db_name := ''first''\<rparr>],
      c_backups := [new_backup 0 90 40 MANUAL\<lparr>bk_status := BK_COMPLETED\<rparr>],
      c_plans := [\<lparr>pl_id = 70, pl_name = ''free'', pl_quotas = [(''max_databases'', 2)], pl_pricing = [], pl_is_active = True\<rparr>],
      c_subscriptions := [\<lparr>sb_id = 71, sb_organization_id = 3, sb_plan_id = 70, sb_status = SB_ACTIVE,
        sb_current_period_start = 0, sb_current_period_end = 10\<rparr>]\<rparr>) 100"

definition demo_second :: "(cp_exn + database \<times> uid) \<times> cp_world" where
  "demo_second = create_database ((calm_env 0)\<lparr>e_hex := ''ffffffffffffffffffffffffffffffff''\<rparr>) demo_crypto (Some ''jwt'') 3 2 ''second'' ''eu'' SHARED 1 1024 10 demo_plan_of_two"

theorem create_within_quota_witness:
  "\<exists>plan. plan_of 3 (w_db (snd demo_second)) = Some plan \<and> fits_plan plan (counted 3 (w_db (snd demo_second)))"
proof -
  have "isl (fst demo_second) = False" by code_simp
  then obtain d job where "fst demo_second = Inr (d, job)" by (cases "fst demo_second") auto
  then have "create_database ((calm_env 0)\<lparr>e_hex := ''ffffffffffffffffffffffffffffffff''\<rparr>) demo_crypto (Some ''jwt'') 3 2 ''second'' ''eu'' SHARED 1 1024 10 demo_plan_of_two
      = (Inr (d, job), snd demo_second)" unfolding demo_second_def by (metis prod.collapse)
  from create_within_quota [OF this] show ?thesis by blast
qed

text \<open>Restoring a backup creates a database too, and does not look at the plan.\<close>

lemma restore_exceeds_plan:
  "(case restore_backup ((calm_env 0)\<lparr>e_hex := ''eeeeeeeeeeeeeeeeeeeeeeeeeeeeeeee''\<rparr>) demo_crypto (Some ''jwt'') 3 2 40 90 ''third'' (snd demo_second) of
      (r, w') \<Rightarrow> isl r = False \<and> length (counted 3 (w_db w')) = 3)"
  by code_simp

section \<open>Creation jobs that outlive their database\<close>

definition same_placement :: "cp_world \<Rightarrow> cp_world \<Rightarrow> bool" where
  "same_placement w w' \<longleftrightarrow> c_databases (w_db w') = c_databases (w_db w) \<and> c_regions (w_db w') = c_regions (w_db w)"

interpretation placement: frame same_placement
  by unfold_locales (auto simp: same_placement_def)

lemma drop_same_placement:
  "framed same_placement (if db_cluster_id d \<noteq> None
     then bindM (get_primary_node (db_cluster_id d)) (\<lambda>node.
          bindM (query_exn (app_credential (db_id d))) (\<lambda>credential.
          bindM (call_agent env node (DropDatabase (db_physical_name d)
                   (case credential of Some c \<Rightarrow> cr_role_name c | None \<Rightarrow> role_name_prefix @ ''unknown''))) (\<lambda>_.
          ret ())))
     else ret ())"
  unfolding get_primary_node_def get_node_def
  by (intro placement.rules placement.call_agent) (simp add: same_placement_def)

lemma deleted_after_job:
  assumes run: "execute_delete_database env job w = (Inr res, w')" and i: "map_of (jb_payload job) ''database_id'' = Some i"
    and found: "tget db_id (c_databases (w_db w')) i = Some d"
  shows "db_status d = DB_DELETED \<and> c_regions (w_db w') = c_regions (w_db w)"
proof (cases "tget db_id (c_databases (w_db w)) i")
  case None
  then have "w' = w" using run i unfolding execute_delete_database_def by (auto simp: effect_simps elim!: bind_cases)
  then show ?thesis using None found by simp
next
  case (Some d0)
  show ?thesis
  proof (cases "db_status d0 = DB_DELETED")
    case True
    then have "w' = w" using run i Some unfolding execute_delete_database_def by (auto simp: effect_simps elim!: bind_cases)
    then show ?thesis using True Some found by simp
  next
    case False
    define drop where "drop = (if db_cluster_id d0 \<noteq> None
       then bindM (get_primary_node (db_cluster_id d0)) (\<lambda>node.
            bindM (query_exn (app_credential (db_id d0))) (\<lambda>credential.
            bindM (call_agent env node (DropDatabase (db_physical_name d0)
                     (case credential of Some c \<Rightarrow> cr_role_name c | None \<Rightarrow> role_name_prefix @ ''unknown''))) (\<lambda>_.
            ret ())))
       else ret ())"
    from run i Some False have "bindM drop (\<lambda>_. bindM (put_database (d0\<lparr>db_status := DB_DELETED, db_deleted_at := Some (e_now env)\<rparr>)) (\<lambda>_.
        bindM (add_database_event (db_id d0) (jb_id job) ''DATABASE_DELETED'' []) (\<lambda>_. ret []))) w = (Inr res, w')"
      unfolding execute_delete_database_def drop_def by (simp add: payload_id_def get_database_def query_def the_or_def split del: if_split)
    then obtain x v where d: "drop w = (Inr x, v)" and rest: "bindM (put_database (d0\<lparr>db_status := DB_DELETED, db_deleted_at := Some (e_now env)\<rparr>)) (\<lambda>_.
        bindM (add_database_event (db_id d0) (jb_id job) ''DATABASE_DELETED'' []) (\<lambda>_. ret [])) v = (Inr res, w')"
      by (rule bind_okE)
    have v: "same_placement w v" using framedD [OF drop_same_placement] d unfolding drop_def by blast
    have "c_databases (w_db w') = tset db_id (d0\<lparr>db_status := DB_DELETED, db_deleted_at := Some (e_now env)\<rparr>) (c_databases (w_db v)) \<and>
        c_regions (w_db w') = c_regions (w_db v)"
      using rest by (auto simp: put_database_def add_database_event_def modify_def ret_def)
    moreover have "db_id d0 = i" using Some by (rule tget_key)
    ultimately show ?thesis using found Some v by (auto simp: same_placement_def table_simps)
  qed
qed

text \<open>C36: A creation job is not cancelled when its database is deleted: if the deletion is carried out
  while the job still waits to be retried, the retry provisions the deleted database again and
  leaves it running.\<close>

theorem create_retry_revives_deleted:
  assumes delete: "execute_delete_database env1 job1 w = (Inr res1, w1)" and create: "execute_create_database env2 job2 w1 = (Inr res2, w2)"
    and i: "map_of (jb_payload job1) ''database_id'' = Some i" "map_of (jb_payload job2) ''database_id'' = Some i"
    and codes: "distinct (map rg_code (c_regions (w_db w)))" and known: "tget db_id (c_databases (w_db w1)) i = Some d"
  shows "db_status d = DB_DELETED \<and> (\<exists>d' (node :: node). tget db_id (c_databases (w_db w2)) i = Some d' \<and> db_status d' = DB_RUNNING \<and>
    w_calls w2 = w_calls w1 @ [(nd_id node, ProvisionDatabase (db_physical_name d) (owner_role d) (e_token env2))])"
proof -
  have gone: "db_status d = DB_DELETED" "distinct (map rg_code (c_regions (w_db w1)))"
    using deleted_after_job [OF delete i(1) known] codes by simp_all
  then have "\<not> (db_status d = DB_RUNNING \<and> db_cluster_id d \<noteq> None)" by simp
  from create_database_placed [OF create i(2) known this gone(2)] obtain node :: node and c where
    "w_calls w2 = w_calls w1 @ [(nd_id node, ProvisionDatabase (db_physical_name d) (owner_role d) (e_token env2))]"
    "tget db_id (c_databases (w_db w2)) i = Some (d\<lparr>db_cluster_id := Some c, db_connection_host := nd_ip_address node,
        db_connection_port := Some (nd_postgres_port node), db_status := DB_RUNNING\<rparr>)" by blast
  moreover have "db_status (d\<lparr>db_cluster_id := Some c, db_connection_host := nd_ip_address node,
        db_connection_port := Some (nd_postgres_port node), db_status := DB_RUNNING\<rparr>) = DB_RUNNING" by simp
  ultimately show ?thesis using gone(1) by blast
qed

definition demo_deleted :: cp_world where
  "demo_deleted = world_of (demo_cp
     \<lparr>c_nodes := [demo_node 11 4 1000], c_databases := [(demo_database 40 DB_DELETING None)\<lparr>db_status := DB_DELETED, db_deleted_at := Some 2000\<rparr>],
      c_database_events := [\<lparr>de_database_id = 40, de_job_id = Some 50, de_event_type = ''DATABASE_DELETED'', de_data = []\<rparr>]\<rparr>) 100"

definition demo_deletion :: "(cp_exn + jdata) \<times> cp_world" where
  "demo_deletion = execute_delete_database (calm_env 2000) (demo_job ''delete_database'' [(''database_id'', 40)])
     (demo_deleted\<lparr>w_db := (w_db demo_deleted)\<lparr>c_databases := [demo_database 40 DB_DELETING None], c_database_events := []\<rparr>\<rparr>)"

definition demo_revived :: "(cp_exn + jdata) \<times> cp_world" where
  "demo_revived = execute_create_database (calm_env 2000) (demo_job ''create_database'' [(''database_id'', 40)]) demo_deleted"

lemma demo_deletion_result: "demo_deletion = (Inr [], demo_deleted)"
  by (simp add: demo_deletion_def execute_delete_database_def payload_id_def the_or_def get_database_def query_def ret_def
      put_database_def modify_def add_database_event_def demo_deleted_def demo_job_def demo_database_def world_of_def demo_cp_def
      empty_cp_def calm_env_def new_job_def table_simps)

theorem create_retry_revives_deleted_witness:
  "\<exists>d'. tget db_id (c_databases (w_db (snd demo_revived))) 40 = Some d' \<and> db_status d' = DB_RUNNING"
proof -
  have "isl (fst demo_revived) = False" by code_simp
  then obtain res2 where "fst demo_revived = Inr res2" by (cases "fst demo_revived") auto
  then have create: "execute_create_database (calm_env 2000) (demo_job ''create_database'' [(''database_id'', 40)]) demo_deleted = (Inr res2, snd demo_revived)"
    unfolding demo_revived_def by (metis prod.collapse)
  have "tget db_id (c_databases (w_db demo_deleted)) 40 = Some ((demo_database 40 DB_DELETING None)\<lparr>db_status := DB_DELETED, db_deleted_at := Some 2000\<rparr>)"
    by (simp add: demo_deleted_def world_of_def demo_database_def table_simps)
  note create_retry_revives_deleted [OF demo_deletion_result [unfolded demo_deletion_def] create _ _ _ this]
  then show ?thesis by (auto simp: demo_job_def new_job_def demo_deleted_def world_of_def demo_cp_def)
qed

end
