(* ===== verification/CP_InfraApi.thy ===== *)
theory CP_InfraApi
  imports CP_DatabaseApi
begin

text \<open>
  The platform's side: the certificate authority \<open>services/ca.py\<close>, registration and heartbeats
  of nodes (\<open>api/v1/endpoints/nodes.py\<close>), clusters (\<open>clusters.py\<close>) and the migration
  endpoint (\<open>database_admin.py\<close>).
\<close>

section \<open>The certificate authority\<close>

text \<open>A certificate is the list of things the code puts into it; keys are strings, and parsing a
  signing request, which gives its public key and whether its signature is valid, parsing an IP
  address, the PEM form, the serial numbers and the root's name are the environment's.\<close>

datatype key_usage = SERVER_AUTH | CLIENT_AUTH

datatype san_entry = DNSName string | IPAddress string

record certificate =
  ct_subject :: string
  ct_issuer :: string
  ct_public_key :: string
  ct_serial :: string
  ct_not_before :: instant
  ct_not_after :: instant
  ct_is_ca :: bool
  ct_alt_names :: "san_entry list"
  ct_usage :: "key_usage option"

record ca_env =
  ca_name :: string
  ca_key :: string
  ca_client_name :: string
  ca_client_key :: string
  ca_validity_days :: int
  ca_serial :: string
  ca_parse_csr :: "string \<Rightarrow> (string \<times> bool) option"
  ca_is_ip :: "string \<Rightarrow> bool"
  ca_pem :: "certificate \<Rightarrow> string"

definition one_day :: int where "one_day = 86400 * 1000000"

definition root_certificate :: "instant \<Rightarrow> ca_env \<Rightarrow> certificate" where
  "root_certificate now ca = \<lparr>ct_subject = ca_name ca, ct_issuer = ca_name ca, ct_public_key = ca_key ca, ct_serial = ca_serial ca,
     ct_not_before = now - one_day, ct_not_after = now + 3650 * one_day, ct_is_ca = True, ct_alt_names = [], ct_usage = None\<rparr>"

definition client_certificate :: "instant \<Rightarrow> ca_env \<Rightarrow> certificate" where
  "client_certificate now ca = \<lparr>ct_subject = ca_client_name ca, ct_issuer = ca_name ca, ct_public_key = ca_client_key ca,
     ct_serial = ca_serial ca, ct_not_before = now - one_day, ct_not_after = now + ca_validity_days ca * one_day,
     ct_is_ca = False, ct_alt_names = [], ct_usage = Some CLIENT_AUTH\<rparr>"

definition sign_node_csr :: "instant \<Rightarrow> ca_env \<Rightarrow> string \<Rightarrow> string \<Rightarrow> string option \<Rightarrow> cp_exn + certificate" where
  "sign_node_csr now ca csr_pem common_name ip_address =
     (case ca_parse_csr ca csr_pem of
        None \<Rightarrow> Inl CP_ValueError
      | Some (public_key, signature_valid) \<Rightarrow>
          if \<not> signature_valid then Inl CP_ValueError
          else Inr \<lparr>ct_subject = common_name, ct_issuer = ca_name ca, ct_public_key = public_key, ct_serial = ca_serial ca,
                 ct_not_before = now - one_day, ct_not_after = now + ca_validity_days ca * one_day, ct_is_ca = False,
                 ct_alt_names = DNSName common_name #
                   (case ip_address of Some ip \<Rightarrow> if ip \<noteq> [] \<and> ca_is_ip ca ip then [IPAddress ip] else [] | None \<Rightarrow> []),
                 ct_usage = Some SERVER_AUTH\<rparr>)"

section \<open>Nodes\<close>

record node_register =
  nr_hostname :: string
  nr_region_code :: string
  nr_csr_pem :: string
  nr_ip_address :: "string option"
  nr_cpu_total :: int
  nr_ram_total_mb :: int
  nr_storage_total_gb :: int
  nr_agent_version :: "string option"
  nr_agent_port :: int
  nr_postgres_port :: int

definition node_register_ok :: "node_register \<Rightarrow> bool" where
  "node_register_ok q \<longleftrightarrow> 2 \<le> length (nr_hostname q) \<and> length (nr_hostname q) \<le> 255 \<and>
     2 \<le> length (nr_region_code q) \<and> length (nr_region_code q) \<le> 50 \<and>
     0 < nr_cpu_total q \<and> 0 < nr_ram_total_mb q \<and> 0 < nr_storage_total_gb q"

text \<open>The first unused and unexpired token of the region that verifies.\<close>

definition matching_token :: "cp_env \<Rightarrow> crypto \<Rightarrow> string \<Rightarrow> region \<Rightarrow> cp_db \<Rightarrow> node_registration_token option" where
  "matching_token env k secret region db =
     find (\<lambda>t. \<not> rt_expires_at t < e_now env \<and> k_verify k (rt_token_hash t) secret)
       (filter (\<lambda>t. rt_region_id t = rg_id region \<and> rt_used_at t = None) (c_tokens db))"

definition put_token :: "node_registration_token \<Rightarrow> unit cpm" where
  "put_token t = modify (\<lambda>db. db\<lparr>c_tokens := tset rt_id t (c_tokens db)\<rparr>)"

definition put_node :: "node \<Rightarrow> unit cpm" where
  "put_node n = modify (\<lambda>db. db\<lparr>c_nodes := tset nd_id n (c_nodes db)\<rparr>)"

definition new_node :: "crypto \<Rightarrow> string \<Rightarrow> uid \<Rightarrow> uid \<Rightarrow> node_register \<Rightarrow> node" where
  "new_node k secret i region_id q =
     \<lparr>nd_id = i, nd_region_id = region_id, nd_hostname = nr_hostname q, nd_ip_address = nr_ip_address q,
      nd_cpu_total = nr_cpu_total q, nd_ram_total_mb = nr_ram_total_mb q, nd_storage_total_gb = nr_storage_total_gb q,
      nd_cpu_used = None, nd_ram_used_mb = None, nd_storage_used_gb = None, nd_agent_version = nr_agent_version q,
      nd_agent_port = nr_agent_port q, nd_postgres_port = nr_postgres_port q, nd_status = ND_ACTIVE,
      nd_node_secret_hash = k_hash k secret, nd_certificate_serial = None, nd_last_heartbeat_at = None\<rparr>"

definition csr_error :: "cp_exn \<Rightarrow> cp_exn" where
  "csr_error e = (if e = CP_ValueError then HTTP 400 else e)"

record registration =
  re_node_id :: uid
  re_node_secret :: string
  re_certificate :: certificate

text \<open>From the matched token on.\<close>

definition admit_node ::
    "cp_env \<Rightarrow> crypto \<Rightarrow> ca_env \<Rightarrow> node_register \<Rightarrow> string option \<Rightarrow> region \<Rightarrow> node_registration_token \<Rightarrow> registration cpm" where
  "admit_node env k ca q client region token =
     bindM (put_token (token\<lparr>rt_used_at := Some (e_now env)\<rparr>)) (\<lambda>_.
     bindM uuid4 (\<lambda>i.
     case new_node k (e_token env) i (rg_id region) q of n \<Rightarrow>
     bindM (modify (\<lambda>db. db\<lparr>c_nodes := c_nodes db @ [n]\<rparr>)) (\<lambda>_.
     bindM (translate csr_error (query_exn (\<lambda>_. sign_node_csr (e_now env) ca (nr_csr_pem q) (nat_string i) (nr_ip_address q)))) (\<lambda>issued.
     bindM (put_node (n\<lparr>nd_certificate_serial := Some (ct_serial issued)\<rparr>)) (\<lambda>_.
     bindM (record_audit ''NODE_REGISTERED'' ''node'' (Some i) None None None
              (Some [(''hostname'', nr_hostname q), (''region'', rg_code region)]) client ''success'') (\<lambda>_.
     bindM commit (\<lambda>_.
     ret \<lparr>re_node_id = i, re_node_secret = e_token env, re_certificate = issued\<rparr>)))))))"

definition register_node ::
    "cp_env \<Rightarrow> crypto \<Rightarrow> ca_env \<Rightarrow> string option \<Rightarrow> node_register \<Rightarrow> string option \<Rightarrow> registration cpm" where
  "register_node env k ca credentials q client = http_request (
     bindM (ensure (node_register_ok q) (HTTP 422)) (\<lambda>_.
     bindM (the_or (HTTP 401) credentials) (\<lambda>secret.
     bindM (query_exn (active_region (nr_region_code q))) (\<lambda>found.
     bindM (the_or (HTTP 404) found) (\<lambda>region.
     bindM (query (matching_token env k secret region)) (\<lambda>matched.
     bindM (the_or (HTTP 401) matched) (\<lambda>token.
     admit_node env k ca q client region token)))))))"

definition create_registration_token ::
    "cp_env \<Rightarrow> crypto \<Rightarrow> string option \<Rightarrow> string \<Rightarrow> string option \<Rightarrow> int \<Rightarrow> (string \<times> instant) cpm" where
  "create_registration_token env k credentials region_code note expires_in_minutes = http_request (
     bindM (require_platform_admin env k credentials) (\<lambda>admin.
     bindM (ensure (2 \<le> length region_code \<and> length region_code \<le> 50 \<and>
              (case note of None \<Rightarrow> True | Some s \<Rightarrow> length s \<le> 255) \<and>
              0 < expires_in_minutes \<and> expires_in_minutes \<le> 24 * 60) (HTTP 422)) (\<lambda>_.
     bindM (query_exn (\<lambda>db. one_or_none (filter (\<lambda>r. rg_code r = region_code) (c_regions db)))) (\<lambda>found.
     bindM (the_or (HTTP 404) found) (\<lambda>region.
     bindM uuid4 (\<lambda>i.
     case e_now env + expires_in_minutes * 60 * 1000000 of expires_at \<Rightarrow>
     bindM (modify (\<lambda>db. db\<lparr>c_tokens := c_tokens db @
        [\<lparr>rt_id = i, rt_region_id = rg_id region, rt_token_hash = k_hash k (e_token env), rt_note = note,
          rt_expires_at = expires_at, rt_used_at = None\<rparr>]\<rparr>)) (\<lambda>_.
     bindM (audit_ok ''NODE_REGISTRATION_TOKEN_CREATED'' ''node_registration_token'' None None (Some (us_id admin)) None
              (Some [(''region'', rg_code region), (''expires_at'', int_string expires_at)])) (\<lambda>_.
     bindM commit (\<lambda>_.
     ret (e_token env, expires_at))))))))))"

text \<open>The response leaves the secret's hash and the certificate out.\<close>

definition node_response :: "cp_env \<Rightarrow> node \<Rightarrow> node \<times> string" where
  "node_response env n = (n\<lparr>nd_node_secret_hash := [], nd_certificate_serial := None\<rparr>, effective_status (e_now env) n)"

definition list_nodes :: "cp_env \<Rightarrow> crypto \<Rightarrow> string option \<Rightarrow> (node \<times> string) list cpm" where
  "list_nodes env k credentials = http_request (
     bindM (require_platform_admin env k credentials) (\<lambda>_.
     query (\<lambda>db. map (node_response env) (c_nodes db))))"

definition node_of :: "uid \<Rightarrow> node cpm" where
  "node_of node_id = bindM (get_node node_id) (\<lambda>n. the_or (HTTP 404) n)"

definition read_node :: "cp_env \<Rightarrow> crypto \<Rightarrow> string option \<Rightarrow> uid \<Rightarrow> (node \<times> string) cpm" where
  "read_node env k credentials node_id = http_request (
     bindM (require_platform_admin env k credentials) (\<lambda>_.
     bindM (node_of node_id) (\<lambda>n.
     ret (node_response env n))))"

record heartbeat_report =
  hb_cpu_used :: "rat option"
  hb_ram_used_mb :: "int option"
  hb_storage_used_gb :: "int option"
  hb_agent_version :: "string option"

definition newer :: "'a option \<Rightarrow> 'a option \<Rightarrow> 'a option" where
  "newer reported old = (case reported of None \<Rightarrow> old | Some x \<Rightarrow> Some x)"

definition beat :: "instant \<Rightarrow> heartbeat_report \<Rightarrow> node \<Rightarrow> node" where
  "beat now q n = n\<lparr>nd_last_heartbeat_at := Some now, nd_cpu_used := newer (hb_cpu_used q) (nd_cpu_used n),
     nd_ram_used_mb := newer (hb_ram_used_mb q) (nd_ram_used_mb n),
     nd_storage_used_gb := newer (hb_storage_used_gb q) (nd_storage_used_gb n),
     nd_agent_version := newer (hb_agent_version q) (nd_agent_version n)\<rparr>"

definition heartbeat :: "cp_env \<Rightarrow> crypto \<Rightarrow> string option \<Rightarrow> uid \<Rightarrow> heartbeat_report \<Rightarrow> unit cpm" where
  "heartbeat env k credentials node_id q = http_request (
     bindM (get_authenticated_node k credentials node_id) (\<lambda>n.
     bindM (put_node (beat (e_now env) q n)) (\<lambda>_.
     commit)))"

text \<open>Only an unreachable agent counts as a failed check; one that answers with an error escapes.\<close>

definition reachable :: "cp_env \<Rightarrow> node \<Rightarrow> bool cpm" where
  "reachable env n w = (case call_agent env n HealthCheck w of (r, w') \<Rightarrow>
     (case r of Inl AgentUnreachable \<Rightarrow> Inr False | Inl e \<Rightarrow> Inl e | Inr _ \<Rightarrow> Inr True, w'))"

definition health_check :: "cp_env \<Rightarrow> crypto \<Rightarrow> string option \<Rightarrow> uid \<Rightarrow> bool cpm" where
  "health_check env k credentials node_id = http_request (
     bindM (require_platform_admin env k credentials) (\<lambda>admin.
     bindM (node_of node_id) (\<lambda>n.
     bindM (reachable env n) (\<lambda>up.
     bindM (record_audit ''NODE_HEALTH_CHECK'' ''node'' (Some (nd_id n)) None (Some (us_id admin)) None None None
              (if up then ''success'' else ''failure'')) (\<lambda>_.
     bindM commit (\<lambda>_.
     ret up))))))"

section \<open>Clusters\<close>

definition cluster_of :: "uid \<Rightarrow> cluster cpm" where
  "cluster_of cluster_id =
     bindM (query (\<lambda>db. tget cl_id (c_clusters db) cluster_id)) (\<lambda>c. the_or (HTTP 404) c)"

definition read_cluster :: "cp_env \<Rightarrow> crypto \<Rightarrow> string option \<Rightarrow> uid \<Rightarrow> (cluster \<times> cluster_member list) cpm" where
  "read_cluster env k credentials cluster_id = http_request (
     bindM (require_platform_admin env k credentials) (\<lambda>_.
     bindM (cluster_of cluster_id) (\<lambda>c.
     bindM (query (cluster_members (cl_id c))) (\<lambda>members.
     ret (c, members)))))"

definition attach_error :: "cp_exn \<Rightarrow> cp_exn" where
  "attach_error e = (case e of AgentUnreachable \<Rightarrow> HTTP 502 | CP_ValueError \<Rightarrow> HTTP 409 | _ \<Rightarrow> e)"

definition attach_replica :: "cp_env \<Rightarrow> crypto \<Rightarrow> string option \<Rightarrow> uid \<Rightarrow> uid \<Rightarrow> cluster_member cpm" where
  "attach_replica env k credentials cluster_id node_id = http_request (
     bindM (require_platform_admin env k credentials) (\<lambda>_.
     bindM (cluster_of cluster_id) (\<lambda>c.
     bindM (node_of node_id) (\<lambda>n.
     bindM (translate attach_error (add_replica env c n)) (\<lambda>member.
     bindM commit (\<lambda>_.
     ret member))))))"

definition failover_error :: "cp_exn \<Rightarrow> cp_exn" where
  "failover_error e = (if e = NoHealthyReplica then HTTP 409 else e)"

definition trigger_failover :: "cp_env \<Rightarrow> crypto \<Rightarrow> string option \<Rightarrow> uid \<Rightarrow> (uid \<times> nat) cpm" where
  "trigger_failover env k credentials cluster_id = http_request (
     bindM (require_platform_admin env k credentials) (\<lambda>_.
     bindM (cluster_of cluster_id) (\<lambda>_.
     bindM (translate failover_error (execute_failover env cluster_id False)) (\<lambda>result.
     bindM commit (\<lambda>_.
     ret result)))))"

section \<open>Migration\<close>

definition migrate_database :: "cp_env \<Rightarrow> crypto \<Rightarrow> string option \<Rightarrow> uid \<Rightarrow> uid \<Rightarrow> (database \<times> uid) cpm" where
  "migrate_database env k credentials database_id target_node_id = http_request (
     bindM (require_platform_admin env k credentials) (\<lambda>admin.
     bindM (get_database database_id) (\<lambda>found.
     bindM (the_or (HTTP 404) found) (\<lambda>database.
     bindM (require_running database) (\<lambda>_.
     bindM (node_of target_node_id) (\<lambda>target.
     bindM (ensure (is_eligible_for_placement (e_now env) target) (HTTP 409)) (\<lambda>_.
     bindM (ensure (nd_region_id target = db_region_id database) (HTTP 409)) (\<lambda>_.
     bindM (get_primary_node (db_cluster_id database)) (\<lambda>current.
     bindM (ensure (nd_id current \<noteq> nd_id target) (HTTP 409)) (\<lambda>_.
     bindM (query (\<lambda>db. fits_on_node db target (db_cpu_limit database) (db_ram_limit_mb database) (db_storage_limit_gb database) None)) (\<lambda>fitting.
     bindM (ensure fitting (HTTP 409)) (\<lambda>_.
     bindM (put_database (database\<lparr>db_status := DB_MIGRATING\<rparr>)) (\<lambda>_.
     bindM (enqueue env ''migrate_database'' [(''database_id'', db_id database), (''target_node_id'', nd_id target)] None None
              (Some ''database'') (Some (db_id database))) (\<lambda>job.
     bindM (audit_ok ''DATABASE_MIGRATION_REQUESTED'' ''database'' (Some (db_id database)) None (Some (us_id admin)) None
              (Some [(''from_node_id'', nat_string (nd_id current)), (''to_node_id'', nat_string (nd_id target))])) (\<lambda>_.
     bindM commit (\<lambda>_.
     ret (database\<lparr>db_status := DB_MIGRATING\<rparr>, jb_id job)))))))))))))))))"

section \<open>Bootstrap tokens\<close>

definition live_tokens :: "crypto \<Rightarrow> string \<Rightarrow> cp_db \<Rightarrow> node_registration_token list" where
  "live_tokens k secret db = filter (\<lambda>t. rt_used_at t = None \<and> k_verify k (rt_token_hash t) secret) (c_tokens db)"

lemma matching_token_live: "matching_token env k secret region db = Some t \<Longrightarrow> t \<in> set (live_tokens k secret db)"
  by (auto simp: matching_token_def live_tokens_def find_Some_iff dest!: nth_mem)

lemma admit_node_Inr:
  assumes "admit_node env k ca q client region t w = (Inr reg, w')"
  shows "c_tokens (w_db w') = tset rt_id (t\<lparr>rt_used_at := Some (e_now env)\<rparr>) (c_tokens (w_db w)) \<and>
    re_node_id reg = w_next w \<and> re_node_secret reg = e_token env \<and> ct_subject (re_certificate reg) = nat_string (w_next w) \<and>
    c_nodes (w_db w') = tset nd_id ((new_node k (e_token env) (w_next w) (rg_id region) q)\<lparr>nd_certificate_serial := Some (ct_serial (re_certificate reg))\<rparr>)
      (c_nodes (w_db w) @ [new_node k (e_token env) (w_next w) (rg_id region) q])"
  using assms unfolding admit_node_def
  by (auto simp: effect_simps put_token_def put_node_def translate_def query_exn_def sign_node_csr_def record_audit_def
      elim!: bind_cases split: option.splits if_splits prod.splits sum.splits)

lemma register_node_Inr:
  assumes "register_node env k ca (Some secret) q client w = (Inr reg, w')"
  obtains region t where "matching_token env k secret region (w_db w) = Some t" "admit_node env k ca q client region t w = (Inr reg, w')"
  using assms unfolding register_node_def http_request_Inr
  by (auto simp: effect_simps elim!: bind_okE split: option.splits)

text \<open>C35: A bootstrap token admits one node: a registration that succeeds returns a secret with which the
  new node authenticates and a certificate that names it by the identifier it was assigned, and no
  later registration with the same token succeeds.\<close>

theorem bootstrap_token_single_use:
  assumes run: "register_node env k ca (Some secret) q client w = (Inr reg, w')"
    and one: "length (live_tokens k secret (w_db w)) \<le> 1" and ids: "distinct (map rt_id (c_tokens (w_db w)))"
    and fresh: "w_next w \<notin> keys nd_id (c_nodes (w_db w))" and hash: "k_verify k (k_hash k (e_token env)) (e_token env)"
  shows "isl (fst (register_node env' k ca' (Some secret) q' client' w')) \<and>
    isl (fst (get_authenticated_node k (Some (re_node_secret reg)) (re_node_id reg) w')) = False \<and>
    ct_subject (re_certificate reg) = nat_string (re_node_id reg)"
proof -
  obtain region t where t: "matching_token env k secret region (w_db w) = Some t" and "admit_node env k ca q client region t w = (Inr reg, w')"
    using run by (rule register_node_Inr)
  note r = admit_node_Inr [OF this(2)]
  have live: "t \<in> set (live_tokens k secret (w_db w))" using t by (rule matching_token_live)
  then have only: "x = t" if "x \<in> set (live_tokens k secret (w_db w))" for x
    using one that by (cases "live_tokens k secret (w_db w)") auto
  have "live_tokens k secret (w_db w') = []"
  proof (rule ccontr)
    assume "live_tokens k secret (w_db w') \<noteq> []"
    then obtain x where x: "x \<in> set (c_tokens (w_db w'))" "rt_used_at x = None" "k_verify k (rt_token_hash x) secret"
      by (auto simp: live_tokens_def filter_empty_conv)
    then have "x \<in> set (c_tokens (w_db w)) \<and> rt_id x \<noteq> rt_id t" using r by (auto dest!: in_tset)
    with x only [of x] show False by (auto simp: live_tokens_def)
  qed
  then have "matching_token env' k secret rg (w_db w') = None" for rg
    using matching_token_live [of env' k secret rg "w_db w'"] by (cases "matching_token env' k secret rg (w_db w')") auto
  then have "isl (fst (register_node env' k ca' (Some secret) q' client' w'))"
    using register_node_Inr [of env' k ca' secret q' client' w'] by (metis isl_def option.distinct(1) prod.collapse sum.exhaust_sel)
  moreover have "tget nd_id (c_nodes (w_db w')) (w_next w) =
      Some ((new_node k (e_token env) (w_next w) (rg_id region) q)\<lparr>nd_certificate_serial := Some (ct_serial (re_certificate reg))\<rparr>)"
    using r fresh by (simp add: tget_tset tget_append new_node_def tget_None_iff [symmetric] table_simps)
  then have "isl (fst (get_authenticated_node k (Some (re_node_secret reg)) (re_node_id reg) w')) = False"
    using r hash by (simp add: get_authenticated_node_def the_or_def query_def ensure_def ret_def new_node_def)
  ultimately show ?thesis using r by simp
qed

definition demo_ca :: ca_env where
  "demo_ca = \<lparr>ca_name = ''CA'', ca_key = ''cakey'', ca_client_name = ''control-plane'', ca_client_key = ''cpkey'', ca_validity_days = 825,
     ca_serial = ''2a'', ca_parse_csr = (\<lambda>csr. Some (csr, True)), ca_is_ip = (\<lambda>_. True), ca_pem = (\<lambda>c. ct_subject c)\<rparr>"

definition demo_register :: node_register where
  "demo_register = \<lparr>nr_hostname = ''db1'', nr_region_code = ''eu'', nr_csr_pem = ''pub'', nr_ip_address = Some ''10.0.0.9'', nr_cpu_total = 4,
     nr_ram_total_mb = 8192, nr_storage_total_gb = 100, nr_agent_version = None, nr_agent_port = 9443, nr_postgres_port = 5432\<rparr>"

definition demo_joining :: cp_world where
  "demo_joining = world_of (demo_cp\<lparr>c_tokens := [\<lparr>rt_id = 80, rt_region_id = 1, rt_token_hash = ''hboot'', rt_note = None,
     rt_expires_at = 1000, rt_used_at = None\<rparr>]\<rparr>) 100"

definition demo_joined :: "(cp_exn + registration) \<times> cp_world" where
  "demo_joined = register_node (calm_env 0) demo_crypto demo_ca (Some ''boot'') demo_register None demo_joining"

theorem bootstrap_token_single_use_witness:
  "isl (fst demo_joined) = False \<and>
   isl (fst (register_node (calm_env 5) demo_crypto demo_ca (Some ''boot'') demo_register None (snd demo_joined)))"
proof -
  have ok: "isl (fst demo_joined) = False" by code_simp
  then obtain reg where "fst demo_joined = Inr reg" by (cases "fst demo_joined") auto
  then have run: "register_node (calm_env 0) demo_crypto demo_ca (Some ''boot'') demo_register None demo_joining = (Inr reg, snd demo_joined)"
    unfolding demo_joined_def by (metis prod.collapse)
  have "length (live_tokens demo_crypto ''boot'' (w_db demo_joining)) \<le> 1" "distinct (map rt_id (c_tokens (w_db demo_joining)))"
    "w_next demo_joining \<notin> keys nd_id (c_nodes (w_db demo_joining))"
    "k_verify demo_crypto (k_hash demo_crypto (e_token (calm_env 0))) (e_token (calm_env 0))"
    by (simp_all add: demo_joining_def world_of_def live_tokens_def demo_crypto_def keys_def demo_cp_def demo_node_def)
  from bootstrap_token_single_use [OF run this] ok show ?thesis by blast
qed

text \<open>A heartbeat makes an active node eligible for placement for exactly the next sixty seconds.\<close>

theorem heartbeat_window:
  assumes run: "heartbeat env k cred i q w = (Inr (), w')" and node: "tget nd_id (c_nodes (w_db w)) i = Some n"
    and later: "e_now env \<le> now"
  shows "\<exists>n'. tget nd_id (c_nodes (w_db w')) i = Some n' \<and> n' = beat (e_now env) q n \<and>
    is_eligible_for_placement now n' = (nd_status n = ND_ACTIVE \<and> now - e_now env \<le> 60000000)"
proof -
  have "nd_id n = i" using node by (rule tget_key)
  have "w_db w' = (w_db w)\<lparr>c_nodes := tset nd_id (beat (e_now env) q n) (c_nodes (w_db w))\<rparr>"
    using run node unfolding heartbeat_def http_request_Inr get_authenticated_node_def
    by (auto simp: effect_simps put_node_def elim!: bind_okE split: option.splits if_splits)
  then have "tget nd_id (c_nodes (w_db w')) i = Some (beat (e_now env) q n)"
    using node \<open>nd_id n = i\<close> by (simp add: tget_tset beat_def table_simps)
  moreover have "is_eligible_for_placement now (beat (e_now env) q n) = (nd_status n = ND_ACTIVE \<and> now - e_now env \<le> 60000000)"
    by (cases "nd_status n") (auto simp: is_eligible_for_placement_def effective_status_def beat_def heartbeat_stale_seconds_def)
  ultimately show ?thesis by blast
qed

definition demo_beat :: "(cp_exn + unit) \<times> cp_world" where
  "demo_beat = heartbeat (calm_env 7) demo_crypto (Some ''s3cret'') 100
     \<lparr>hb_cpu_used = None, hb_ram_used_mb = Some 512, hb_storage_used_gb = None, hb_agent_version = None\<rparr> (snd demo_joined)"

theorem heartbeat_window_witness:
  "\<exists>n'. tget nd_id (c_nodes (w_db (snd demo_beat))) 100 = Some n' \<and> is_eligible_for_placement 60000007 n' = (nd_status n' = ND_ACTIVE)"
proof -
  have "fst demo_beat = Inr ()" "Option.is_none (tget nd_id (c_nodes (w_db (snd demo_joined))) 100) = False" by code_simp+
  then obtain n where n: "tget nd_id (c_nodes (w_db (snd demo_joined))) 100 = Some n"
    and run: "heartbeat (calm_env 7) demo_crypto (Some ''s3cret'') 100
     \<lparr>hb_cpu_used = None, hb_ram_used_mb = Some 512, hb_storage_used_gb = None, hb_agent_version = None\<rparr> (snd demo_joined) = (Inr (), snd demo_beat)"
    unfolding demo_beat_def Option.is_none_def by (metis option.exhaust prod.collapse)
  from heartbeat_window [OF run n, of 60000007] show ?thesis by (auto simp: calm_env_def beat_def)
qed

end
