(* ===== verification/CP_BillingApi.thy ===== *)
theory CP_BillingApi
  imports CP_OrgApi CP_Scheduler CP_DatabaseApi
begin

text \<open>
  Plans, subscriptions, invoices and payments over HTTP: \<open>api/v1/endpoints/billing.py\<close> and the
  gateways' inbound \<open>payment_webhooks.py\<close>.
\<close>

section \<open>Plans and subscriptions\<close>

definition create_plan ::
    "cp_env \<Rightarrow> crypto \<Rightarrow> string option \<Rightarrow> string \<Rightarrow> (string \<times> int) list \<Rightarrow> (string \<times> rat option) list \<Rightarrow> plan cpm" where
  "create_plan env k credentials name quotas pricing = http_request (
     bindM (require_platform_admin env k credentials) (\<lambda>_.
     bindM (ensure (2 \<le> length name \<and> length name \<le> 50) (HTTP 422)) (\<lambda>_.
     bindM (query_exn (\<lambda>db. one_or_none (filter (\<lambda>p. pl_name p = name) (c_plans db)))) (\<lambda>existing.
     bindM (ensure (existing = None) (HTTP 409)) (\<lambda>_.
     bindM uuid4 (\<lambda>i.
     case \<lparr>pl_id = i, pl_name = name, pl_quotas = quotas, pl_pricing = pricing, pl_is_active = True\<rparr> of plan \<Rightarrow>
     bindM (modify (\<lambda>db. db\<lparr>c_plans := c_plans db @ [plan]\<rparr>)) (\<lambda>_.
     bindM commit (\<lambda>_.
     ret plan))))))))"

definition list_plans :: "cp_env \<Rightarrow> crypto \<Rightarrow> string option \<Rightarrow> plan list cpm" where
  "list_plans env k credentials = http_request (
     bindM (get_current_user env k credentials) (\<lambda>_.
     query (\<lambda>db. filter pl_is_active (c_plans db))))"

definition subscription_of :: "uid \<Rightarrow> subscription cpm" where
  "subscription_of organization_id =
     bindM (query_exn (\<lambda>db. one_or_none (filter (\<lambda>s. sb_organization_id s = organization_id) (c_subscriptions db)))) (\<lambda>s.
     the_or (HTTP 404) s)"

text \<open>What every organization-scoped billing endpoint begins with.\<close>

definition as_member :: "cp_env \<Rightarrow> crypto \<Rightarrow> string option \<Rightarrow> bool \<Rightarrow> string \<Rightarrow> uid \<Rightarrow> (user \<Rightarrow> 'a cpm) \<Rightarrow> 'a cpm" where
  "as_member env k credentials valid action organization_id act = http_request (
     bindM (get_membership env k credentials organization_id) (\<lambda>(user, membership).
     bindM (ensure valid (HTTP 422)) (\<lambda>_.
     bindM (require_role (mb_role membership) action) (\<lambda>_.
     act user))))"

definition get_subscription :: "cp_env \<Rightarrow> crypto \<Rightarrow> string option \<Rightarrow> uid \<Rightarrow> subscription cpm" where
  "get_subscription env k credentials organization_id =
     as_member env k credentials True ''billing:read'' organization_id (\<lambda>_. subscription_of organization_id)"

definition update_subscription :: "cp_env \<Rightarrow> crypto \<Rightarrow> string option \<Rightarrow> uid \<Rightarrow> uid \<Rightarrow> subscription cpm" where
  "update_subscription env k credentials organization_id plan_id =
     as_member env k credentials True ''subscription:manage'' organization_id (\<lambda>_.
     bindM (subscription_of organization_id) (\<lambda>s.
     bindM (query (\<lambda>db. tget pl_id (c_plans db) plan_id)) (\<lambda>found.
     bindM (the_or (HTTP 404) found) (\<lambda>plan.
     bindM (ensure (pl_is_active plan) (HTTP 404)) (\<lambda>_.
     bindM (put_subscription (s\<lparr>sb_plan_id := pl_id plan\<rparr>)) (\<lambda>_.
     bindM (notify_subscription_changed organization_id (pl_name plan)) (\<lambda>_.
     bindM commit (\<lambda>_.
     ret (s\<lparr>sb_plan_id := pl_id plan\<rparr>)))))))))"

definition usage_lines :: "cp_db \<Rightarrow> uid list \<Rightarrow> subscription \<Rightarrow> (usage_metric \<times> rat) list" where
  "usage_lines db ids s = map (\<lambda>m. (m, usage_quantity db ids s m))
     (filter (\<lambda>m. list_ex (\<lambda>u. List.member ids (ur_database_id u) \<and> ur_metric u = m \<and>
        sb_current_period_start s \<le> ur_period_start u \<and> ur_period_start u < sb_current_period_end s) (c_usage db)) usage_metrics)"

definition get_usage :: "cp_env \<Rightarrow> crypto \<Rightarrow> string option \<Rightarrow> uid \<Rightarrow> (instant \<times> instant \<times> (usage_metric \<times> rat) list) cpm" where
  "get_usage env k credentials organization_id =
     as_member env k credentials True ''billing:read'' organization_id (\<lambda>_.
     bindM (subscription_of organization_id) (\<lambda>s.
     bindM (query (\<lambda>db. case get_database_ids_for_organization organization_id db of [] \<Rightarrow> [] | ids \<Rightarrow> usage_lines db ids s)) (\<lambda>lines.
     ret (sb_current_period_start s, sb_current_period_end s, lines))))"

section \<open>Invoices\<close>

definition list_invoices :: "cp_env \<Rightarrow> crypto \<Rightarrow> string option \<Rightarrow> uid \<Rightarrow> invoice list cpm" where
  "list_invoices env k credentials organization_id =
     as_member env k credentials True ''billing:read'' organization_id (\<lambda>_.
     query (\<lambda>db. sort_key (\<lambda>i. - iv_period_start i) (filter (\<lambda>i. iv_organization_id i = organization_id) (c_invoices db))))"

definition invoice_of :: "uid \<Rightarrow> uid \<Rightarrow> invoice cpm" where
  "invoice_of organization_id invoice_id =
     bindM (query (\<lambda>db. tget iv_id (c_invoices db) invoice_id)) (\<lambda>found.
     bindM (the_or (HTTP 404) found) (\<lambda>i.
     bindM (ensure (iv_organization_id i = organization_id) (HTTP 404)) (\<lambda>_.
     ret i)))"

definition get_invoice :: "cp_env \<Rightarrow> crypto \<Rightarrow> string option \<Rightarrow> uid \<Rightarrow> uid \<Rightarrow> (invoice \<times> invoice_line_item list) cpm" where
  "get_invoice env k credentials organization_id invoice_id =
     as_member env k credentials True ''billing:read'' organization_id (\<lambda>_.
     bindM (invoice_of organization_id invoice_id) (\<lambda>i.
     bindM (query (\<lambda>db. filter (\<lambda>l. il_invoice_id l = iv_id i) (c_line_items db))) (\<lambda>items.
     ret (i, items))))"

definition finalized_invoice :: "uid \<Rightarrow> uid \<Rightarrow> invoice cpm" where
  "finalized_invoice organization_id invoice_id =
     bindM (invoice_of organization_id invoice_id) (\<lambda>i.
     bindM (ensure (iv_status i = IV_FINALIZED) (HTTP 409)) (\<lambda>_.
     ret i))"

definition pay_invoice :: "cp_env \<Rightarrow> crypto \<Rightarrow> string option \<Rightarrow> uid \<Rightarrow> uid \<Rightarrow> unit cpm" where
  "pay_invoice env k credentials organization_id invoice_id =
     as_member env k credentials True ''subscription:manage'' organization_id (\<lambda>_.
     bindM (finalized_invoice organization_id invoice_id) (\<lambda>i.
     bindM (pay_invoice_manually env i) (\<lambda>_.
     commit)))"

definition pay_invoice_with_crypto ::
    "cp_env \<Rightarrow> crypto \<Rightarrow> gateways \<Rightarrow> string option \<Rightarrow> uid \<Rightarrow> uid \<Rightarrow> string option \<Rightarrow> payment cpm" where
  "pay_invoice_with_crypto env k g credentials organization_id invoice_id pay_currency =
     as_member env k credentials True ''subscription:manage'' organization_id (\<lambda>_.
     bindM (finalized_invoice organization_id invoice_id) (\<lambda>i.
     bindM (initiate_crypto_payment env g i pay_currency) (\<lambda>payment.
     bindM commit (\<lambda>_.
     ret payment))))"

definition pay_invoice_with_mobile_money ::
    "cp_env \<Rightarrow> crypto \<Rightarrow> gateways \<Rightarrow> string option \<Rightarrow> uid \<Rightarrow> uid \<Rightarrow> string \<Rightarrow> string \<Rightarrow> payment cpm" where
  "pay_invoice_with_mobile_money env k g credentials organization_id invoice_id mode phone_number =
     as_member env k credentials (6 \<le> length phone_number \<and> length phone_number \<le> 20) ''subscription:manage'' organization_id (\<lambda>user.
     bindM (finalized_invoice organization_id invoice_id) (\<lambda>i.
     bindM (initiate_mobile_money_payment env g i mode phone_number (us_email user)) (\<lambda>payment.
     bindM commit (\<lambda>_.
     ret payment))))"

definition list_invoice_payments :: "cp_env \<Rightarrow> crypto \<Rightarrow> string option \<Rightarrow> uid \<Rightarrow> uid \<Rightarrow> payment list cpm" where
  "list_invoice_payments env k credentials organization_id invoice_id =
     as_member env k credentials True ''billing:read'' organization_id (\<lambda>_.
     bindM (invoice_of organization_id invoice_id) (\<lambda>_.
     query (\<lambda>db. rev (filter (\<lambda>p. py_invoice_id p = invoice_id) (c_payments db)))))"

section \<open>The gateways' webhooks\<close>

definition webhook_error :: "cp_exn \<Rightarrow> cp_exn" where
  "webhook_error e = (if e = PaymentWebhook then HTTP 400 else e)"

definition signed :: "string option \<Rightarrow> (string \<Rightarrow> unit cpm) \<Rightarrow> unit cpm" where
  "signed header handler = http_request (
     bindM (the_or (HTTP 400) header) (\<lambda>signature.
     bindM (ensure (signature \<noteq> []) (HTTP 400)) (\<lambda>_.
     bindM (translate webhook_error (handler signature)) (\<lambda>_.
     commit))))"

definition nowpayments_webhook :: "cp_env \<Rightarrow> gateways \<Rightarrow> string option \<Rightarrow> string \<Rightarrow> np_notification \<Rightarrow> unit cpm" where
  "nowpayments_webhook env g header sorted_body n =
     signed header (handle_nowpayments_webhook env g sorted_body n)"

definition fedapay_webhook :: "cp_env \<Rightarrow> gateways \<Rightarrow> string option \<Rightarrow> string \<Rightarrow> string \<Rightarrow> string option \<Rightarrow> unit cpm" where
  "fedapay_webhook env g header body entity_id entity_status =
     signed header (handle_fedapay_webhook env g body entity_id entity_status)"

end
