(* ===== verification/CP_BillingInvariant.thy ===== *)
theory CP_BillingInvariant
  imports CP_BillingApi CP_Contract
begin

text \<open>
  The books of billing stay in order under every operation that touches them, in any order and for
  as long as the service runs: a subscription has at most one unpaid invoice, is past due only while
  it has one, and no stretch of time is charged twice.
\<close>

section \<open>The invariant\<close>

definition known_rows :: "cp_db \<Rightarrow> uid \<Rightarrow> bool" where
  "known_rows db n \<longleftrightarrow> distinct (map sb_id (c_subscriptions db)) \<and> distinct (map iv_id (c_invoices db)) \<and>
     (\<forall>s\<in>set (c_subscriptions db). sb_id s < n) \<and>
     (\<forall>i\<in>set (c_invoices db). iv_id i < n \<and> iv_subscription_id i < n \<and> iv_status i \<in> {IV_FINALIZED, IV_PAID})"

definition one_unpaid :: "cp_db \<Rightarrow> bool" where
  "one_unpaid db \<longleftrightarrow> (\<forall>i\<in>set (c_invoices db). \<forall>j\<in>set (c_invoices db).
     iv_subscription_id i = iv_subscription_id j \<and> iv_status i = IV_FINALIZED \<and> iv_status j = IV_FINALIZED \<longrightarrow> i = j)"

definition charged_once :: "cp_db \<Rightarrow> bool" where
  "charged_once db \<longleftrightarrow> (\<forall>i\<in>set (c_invoices db). \<forall>j\<in>set (c_invoices db).
     iv_subscription_id i = iv_subscription_id j \<and> iv_id i \<noteq> iv_id j \<longrightarrow>
       iv_period_end i \<le> iv_period_start j \<or> iv_period_end j \<le> iv_period_start i)"

definition billed_until :: "cp_db \<Rightarrow> bool" where
  "billed_until db \<longleftrightarrow> (\<forall>s\<in>set (c_subscriptions db). sb_current_period_start s < sb_current_period_end s \<and>
     (\<forall>i\<in>set (c_invoices db). iv_subscription_id i = sb_id s \<longrightarrow> iv_period_end i \<le> sb_current_period_start s))"

text \<open>Every subscription past due owes something; \<open>K\<close> are the ones a payment is being booked on.\<close>

definition owing :: "uid set \<Rightarrow> cp_db \<Rightarrow> bool" where
  "owing K db \<longleftrightarrow> (\<forall>s\<in>set (c_subscriptions db). sb_status s = SB_PAST_DUE \<and> sb_id s \<notin> K \<longrightarrow> unpaid (sb_id s) db \<noteq> [])"

definition books :: "uid set \<Rightarrow> cp_db \<Rightarrow> uid \<Rightarrow> bool" where
  "books K db n \<longleftrightarrow> known_rows db n \<and> one_unpaid db \<and> charged_once db \<and> billed_until db \<and> owing K db"

abbreviation books_ok :: "cp_db \<Rightarrow> uid \<Rightarrow> bool" where
  "books_ok \<equiv> books {}"

lemmas books_defs = books_def known_rows_def one_unpaid_def charged_once_def billed_until_def owing_def

definition same_books :: "cp_db \<Rightarrow> cp_db \<Rightarrow> bool" where
  "same_books db db' \<longleftrightarrow> c_subscriptions db' = c_subscriptions db \<and> c_invoices db' = c_invoices db"

lemma books_cong: "same_books db db' \<Longrightarrow> n \<le> n' \<Longrightarrow> books K db n \<Longrightarrow> books K db' n'"
  unfolding same_books_def books_defs unpaid_def by (simp add: Ball_def) (metis less_le_trans)

text \<open>The frame of everything that is not billing: it may commit, but what it commits of the two
  tables was there before.\<close>

definition apart :: "cp_world \<Rightarrow> cp_world \<Rightarrow> bool" where
  "apart w w' \<longleftrightarrow> same_books (w_db w) (w_db w') \<and> w_next w \<le> w_next w' \<and>
     (same_books (w_committed w) (w_committed w') \<or> same_books (w_db w) (w_committed w'))"

interpretation apart: frame apart
  by unfold_locales (auto simp: apart_def same_books_def)

definition saved :: "cp_world \<Rightarrow> bool" where
  "saved w \<longleftrightarrow> books_ok (w_committed w) (w_next w)"

definition in_order :: "uid set \<Rightarrow> (cp_db \<Rightarrow> bool) \<Rightarrow> cp_world \<Rightarrow> bool" where
  "in_order K D w \<longleftrightarrow> saved w \<and> books K (w_db w) (w_next w) \<and> D (w_db w)"

text \<open>Facts about the two tables only.\<close>

definition about_books :: "(cp_db \<Rightarrow> bool) \<Rightarrow> bool" where
  "about_books D \<longleftrightarrow> (\<forall>db db'. same_books db db' \<longrightarrow> D db \<longrightarrow> D db')"

lemma same_books_sym: "same_books db db' \<Longrightarrow> same_books db' db"
  by (simp add: same_books_def)

definition silent :: "cp_world \<Rightarrow> cp_world \<Rightarrow> bool" where
  "silent w w' \<longleftrightarrow> same_books (w_db w) (w_db w') \<and> w_next w \<le> w_next w' \<and> w_committed w' = w_committed w"

interpretation silent: frame silent
  by unfold_locales (auto simp: silent_def same_books_def)

lemma contract_silent:
  assumes "framed silent m" "about_books D"
  shows "contract saved (in_order K D) m (\<lambda>_. in_order K D)"
proof (rule contract_frame [OF assms(1)])
  fix w w'
  assume o: "in_order K D w" and s: "silent w w'"
  have "same_books (w_committed w) (w_committed w')" using s by (simp add: silent_def same_books_def)
  then show "saved w'" using o s books_cong unfolding in_order_def saved_def silent_def by blast
  then show "in_order K D w'" using o s books_cong assms(2) unfolding in_order_def silent_def about_books_def by metis
qed

lemma contract_apart:
  assumes "framed apart m" "about_books D"
  shows "contract saved (in_order {} D) m (\<lambda>_. in_order {} D)"
proof (rule contract_frame [OF assms(1)])
  fix w w'
  assume o: "in_order {} D w" and s: "apart w w'"
  then show "saved w'" using books_cong unfolding in_order_def saved_def apart_def by blast
  then show "in_order {} D w'" using o s books_cong assms(2) unfolding in_order_def apart_def about_books_def by metis
qed

abbreviation orderly :: "cp_world \<Rightarrow> bool" where
  "orderly \<equiv> in_order {} (\<lambda>_. True)"

lemma in_order_saved: "in_order K D w \<Longrightarrow> saved w"
  by (simp add: in_order_def)

lemma saved_rollback: "saved w \<Longrightarrow> saved (rollback w)"
  by (simp add: saved_def rollback_def)


section \<open>What each write does to the books\<close>

lemma books_put_subscription:
  assumes b: "books K db n" and s: "s0 \<in> set (c_subscriptions db)" "sb_id s = sb_id s0"
    "sb_current_period_start s0 \<le> sb_current_period_start s" "sb_current_period_start s < sb_current_period_end s"
    and owes: "sb_status s = SB_PAST_DUE \<Longrightarrow> sb_id s \<in> K' \<or> unpaid (sb_id s) db \<noteq> []" and K: "K \<subseteq> insert (sb_id s) K'"
  shows "books K' (db\<lparr>c_subscriptions := tset sb_id s (c_subscriptions db)\<rparr>) n"
proof -
  let ?db = "db\<lparr>c_subscriptions := tset sb_id s (c_subscriptions db)\<rparr>"
  have u: "unpaid k ?db = unpaid k db" for k by (simp add: unpaid_def)
  have known: "known_rows ?db n" using b s(1,2) by (auto simp: books_def known_rows_def dest!: in_tset)
  have same: "one_unpaid ?db" "charged_once ?db" using b by (simp_all add: books_def one_unpaid_def charged_once_def)
  have until: "billed_until ?db" using b s unfolding books_def billed_until_def by (fastforce dest!: in_tset)
  have "owing K' ?db" using b owes K unfolding books_def owing_def u by (fastforce dest!: in_tset)
  then show ?thesis using known same until by (simp add: books_def)
qed

lemma unpaid_one:
  assumes "one_unpaid db" "i \<in> set (c_invoices db)" "iv_status i = IV_FINALIZED" "distinct (map iv_id (c_invoices db))"
  shows "unpaid (iv_subscription_id i) (db\<lparr>c_invoices := tset iv_id (i\<lparr>iv_status := IV_PAID, iv_paid_at := paid_at, iv_payment_reference := ref\<rparr>) (c_invoices db)\<rparr>) = []"
  using assms unfolding unpaid_def one_unpaid_def
  by (auto simp: filter_empty_conv dest!: in_tset)

lemma books_put_paid:
  assumes b: "books {} db n" and i: "tget iv_id (c_invoices db) (iv_id i) = Some i" "iv_status i = IV_FINALIZED"
  shows "books {iv_subscription_id i} (db\<lparr>c_invoices := tset iv_id (i\<lparr>iv_status := IV_PAID, iv_paid_at := paid_at, iv_payment_reference := ref\<rparr>) (c_invoices db)\<rparr>) n"
    (is "books _ ?db n")
proof -
  define p where "p = i\<lparr>iv_status := IV_PAID, iv_paid_at := paid_at, iv_payment_reference := ref\<rparr>"
  have p: "iv_id p = iv_id i" "iv_subscription_id p = iv_subscription_id i" "iv_status p = IV_PAID"
    "iv_period_start p = iv_period_start i" "iv_period_end p = iv_period_end i" by (simp_all add: p_def)
  have in_i: "i \<in> set (c_invoices db)" using i(1) by (rule tget_in)
  have x: "x \<in> set (tset iv_id p (c_invoices db)) \<Longrightarrow> x = p \<or> x \<in> set (c_invoices db) \<and> iv_id x \<noteq> iv_id i" for x
    using in_tset [of x iv_id p] p(1) by auto
  have known: "known_rows ?db n" using b in_i p unfolding books_def known_rows_def p_def [symmetric] by (auto dest!: x)
  have open_i: "y \<in> set (c_invoices db)" if "y \<in> set (tset iv_id p (c_invoices db))" "iv_status y = IV_FINALIZED" for y
    using x [OF that(1)] that(2) p(3) by auto
  have one: "one_unpaid ?db" unfolding one_unpaid_def p_def [symmetric]
    using b open_i by (simp add: books_def one_unpaid_def)
  have once: "charged_once ?db" using b p in_i unfolding books_def charged_once_def p_def [symmetric] by (fastforce dest!: x)
  have until: "billed_until ?db" using b p in_i unfolding books_def billed_until_def p_def [symmetric] by (auto dest!: x)
  have "unpaid k ?db = unpaid k db" if "k \<noteq> iv_subscription_id i" for k
    unfolding unpaid_def p_def [symmetric] using that p in_i b
    by (auto simp: books_def known_rows_def distinct_map inj_on_def intro!: filter_tset_absent)
  then have "owing {iv_subscription_id i} ?db" using b unfolding books_def owing_def by fastforce
  then show ?thesis using known one once until by (simp add: books_def)
qed

lemma books_issue:
  assumes b: "books {} db n" and s: "s \<in> set (c_subscriptions db)" "sb_status s \<noteq> SB_PAST_DUE" and paid: "unpaid (sb_id s) db = []"
    and v: "iv_id v = n" "iv_subscription_id v = sb_id s" "iv_period_start v = sb_current_period_start s"
      "iv_period_end v = sb_current_period_end s" "iv_status v = IV_FINALIZED"
  shows "books {} (db\<lparr>c_invoices := c_invoices db @ [v], c_line_items := ls,
           c_subscriptions := tset sb_id (next_period s) (c_subscriptions db)\<rparr>) (Suc n)" (is "books {} ?db _")
proof -
  define s' where "s' = next_period s"
  have s': "sb_id s' = sb_id s" "sb_status s' = sb_status s" "sb_current_period_start s' = sb_current_period_end s"
    "sb_current_period_start s' < sb_current_period_end s'" by (simp_all add: s'_def next_period_def billing_period_def)
  have x: "x \<in> set (tset sb_id s' (c_subscriptions db)) \<Longrightarrow> x = s' \<or> x \<in> set (c_subscriptions db) \<and> sb_id x \<noteq> sb_id s" for x
    using in_tset [of x sb_id s'] s'(1) by auto
  have until0: "iv_period_end i \<le> sb_current_period_start s" if "i \<in> set (c_invoices db)" "iv_subscription_id i = sb_id s" for i
    using b s(1) that by (auto simp: books_def billed_until_def)
  have order: "sb_current_period_start s < sb_current_period_end s" using b s(1) by (auto simp: books_def billed_until_def)
  have known: "known_rows ?db (Suc n)"
    using b s(1) s' v unfolding books_def known_rows_def s'_def [symmetric] by (auto simp: less_Suc_eq dest!: x)
  have "iv_status i \<noteq> IV_FINALIZED" if "i \<in> set (c_invoices db)" "iv_subscription_id i = sb_id s" for i
    using paid that by (auto simp: unpaid_def filter_empty_conv)
  then have one: "one_unpaid ?db" using b v unfolding books_def one_unpaid_def by auto
  have once: "charged_once ?db" using b v until0 unfolding books_def charged_once_def by auto
  have until: "billed_until ?db"
    using b v s' until0 order unfolding books_def billed_until_def s'_def [symmetric] by (fastforce dest!: x)
  have "unpaid k ?db = [] \<Longrightarrow> unpaid k db = []" for k by (auto simp: unpaid_def filter_empty_conv)
  then have "owing {} ?db" using b s' s(2) x unfolding books_def owing_def s'_def [symmetric] by simp metis
  then show ?thesis using known one once until by (simp add: books_def)
qed

lemma books_new_subscription:
  assumes b: "books {} db n" and s: "sb_id s = n" "sb_status s = SB_ACTIVE" "sb_current_period_start s < sb_current_period_end s"
  shows "books {} (db\<lparr>c_subscriptions := c_subscriptions db @ [s]\<rparr>) (Suc n)"
    (is "books {} ?db _")
proof -
  have "known_rows ?db (Suc n)" using b s(1) by (auto simp: books_def known_rows_def less_Suc_eq)
  moreover have "one_unpaid ?db" "charged_once ?db" using b by (simp_all add: books_def one_unpaid_def charged_once_def)
  moreover have "iv_subscription_id i \<noteq> n" if "i \<in> set (c_invoices db)" for i
    using b that by (auto simp: books_def known_rows_def)
  then have "billed_until ?db" using b s unfolding books_def billed_until_def by auto
  moreover have "owing {} ?db" using b s(2) by (simp add: books_def owing_def unpaid_def)
  ultimately show ?thesis by (simp add: books_def)
qed


section \<open>What each operation does to the books\<close>

lemma silentI:
  "silent w (w\<lparr>w_db := f (w_db w)\<rparr>) \<longleftrightarrow> same_books (w_db w) (f (w_db w))"
  "silent w (w\<lparr>w_next := Suc (w_next w)\<rparr>)"
  "silent w (w\<lparr>w_calls := cs\<rparr>)"
  by (auto simp: silent_def same_books_def)

lemma silent_apart: "framed silent m \<Longrightarrow> framed apart m"
  unfolding framed_def silent_def apart_def same_books_def by metis

lemma silent_notify_owner: "framed silent (notify_owner org type data)"
  unfolding notify_owner_def org_owner_def notify_def
  by (intro silent.rules silent.modify) (simp add: silentI same_books_def)

lemma silent_emit_event: "framed silent (emit_event env org event_type data)"
  unfolding framed_def
proof (intro allI impI)
  fix w r w'
  assume run: "emit_event env org event_type data w = (r, w')"
  obtain ds js where "emit_event env org event_type data w =
       (Inr (), w\<lparr>w_next := w_next w + 2 * length ds, w_db := (w_db w)
          \<lparr>c_deliveries := c_deliveries (w_db w) @ ds, c_jobs := c_jobs (w_db w) @ js\<rparr>\<rparr>)"
    by (rule emit_event_result)
  then show "silent w w'" using run by (auto simp: silent_def same_books_def)
qed

lemma silent_put_payment: "framed silent (put_payment p)"
  unfolding put_payment_def by (intro silent.modify) (simp add: silentI same_books_def)

lemma silent_add_payment: "framed silent (add_payment p)"
  unfolding add_payment_def
  by (intro silent.rules silent.modify silent.uuid4) (simp_all add: silentI same_books_def)

lemma silent_fail_payment: "framed silent (fail_payment p provider)"
  unfolding fail_payment_def notify_payment_failed_def
  by (intro silent.rules silent_put_payment silent_notify_owner)

lemma apart_current_user: "framed apart (get_current_user env k c)"
  unfolding get_current_user_def authenticate_api_key_def put_api_key_def
  by (intro apart.rules apart.modify apart.commit) (auto simp: apart_def same_books_def)

lemma apart_membership: "framed apart (get_membership env k c org)"
  unfolding get_membership_def membership_of_def by (intro apart.rules apart_current_user)

text \<open>What a paid invoice leaves behind.\<close>

definition settled :: "uid \<Rightarrow> cp_db \<Rightarrow> bool" where
  "settled k db \<longleftrightarrow> unpaid k db = [] \<and> (\<forall>s\<in>set (c_subscriptions db). sb_id s = k \<longrightarrow> sb_status s \<noteq> SB_PAST_DUE)"

lemma about_settled: "about_books (settled k)" "about_books (\<lambda>db. unpaid k db = [])" "about_books (\<lambda>_. True)"
  by (auto simp: about_books_def settled_def unpaid_def same_books_def)

lemmas silent_contracts =
  contract_silent [OF silent_notify_owner about_settled(1)] contract_silent [OF silent_notify_owner about_settled(2)]
  contract_silent [OF silent_emit_event about_settled(2)]

lemma in_orderD: "in_order K D w \<Longrightarrow> saved w \<and> books K (w_db w) (w_next w) \<and> D (w_db w)"
  by (simp add: in_order_def)

lemma contract_reactivate:
  "contract saved (in_order {iv_subscription_id i} (\<lambda>db. unpaid (iv_subscription_id i) db = []))
     (reactivate_if_current i) (\<lambda>_. in_order {} (settled (iv_subscription_id i)))"
    (is "contract saved (in_order {?k} ?D) _ ?Q")
  unfolding reactivate_if_current_def
proof (intro contract_bind)
  show "contract saved (in_order {?k} ?D) (query (\<lambda>db. tget sb_id (c_subscriptions db) ?k))
      (\<lambda>found. in_order {?k} (\<lambda>db. ?D db \<and> tget sb_id (c_subscriptions db) ?k = found))"
    by (rule contract_query) (simp add: in_order_def)
  fix found
  have over: "in_order {} (settled ?k) w"
    if o: "in_order {?k} (\<lambda>db. ?D db \<and> tget sb_id (c_subscriptions db) ?k = found) w"
      and f: "found = None \<or> (\<exists>s. found = Some s \<and> sb_status s \<noteq> SB_PAST_DUE)" for w
  proof -
    note d = in_orderD [OF o]
    have "sb_status s \<noteq> SB_PAST_DUE" if "s \<in> set (c_subscriptions (w_db w))" "sb_id s = ?k" for s
    proof -
      have "tget sb_id (c_subscriptions (w_db w)) (sb_id s) = Some s"
        using d that(1) by (intro tget_distinct) (auto simp: books_def known_rows_def)
      then show ?thesis using d f that(2) by auto
    qed
    then show ?thesis using d by (auto simp: in_order_def settled_def books_def owing_def)
  qed
  show "contract saved (in_order {?k} (\<lambda>db. ?D db \<and> tget sb_id (c_subscriptions db) ?k = found))
      (case found of None \<Rightarrow> ret () | Some s \<Rightarrow>
         if sb_status s \<noteq> SB_PAST_DUE then ret ()
         else bindM (query (\<lambda>db. filter (\<lambda>j. iv_id j \<noteq> iv_id i) (unpaid (sb_id s) db))) (\<lambda>still_unpaid.
              if still_unpaid = []
              then bindM (put_subscription (s\<lparr>sb_status := SB_ACTIVE\<rparr>)) (\<lambda>_.
                   notify_subscription_reactivated (iv_organization_id i))
              else ret ())) ?Q"
  proof (intro contract_option contract_if)
    fix s
    assume found: "found = Some s" and due: "\<not> sb_status s \<noteq> SB_PAST_DUE"
    let ?P = "in_order {?k} (\<lambda>db. ?D db \<and> tget sb_id (c_subscriptions db) ?k = found)"
    have put: "contract saved ?P (put_subscription (s\<lparr>sb_status := SB_ACTIVE\<rparr>)) ?Q"
      unfolding put_subscription_def
    proof (rule contract_modify)
      fix w
      assume "?P w"
      note d = in_orderD [OF this]
      have s: "s \<in> set (c_subscriptions (w_db w))" "sb_id s = ?k" using d found tget_SomeD by force+
      have u: "unpaid ?k (w_db w\<lparr>c_subscriptions := tset sb_id (s\<lparr>sb_status := SB_ACTIVE\<rparr>) (c_subscriptions (w_db w))\<rparr>) = []"
        using d by (simp add: unpaid_def)
      have "books {} (w_db w\<lparr>c_subscriptions := tset sb_id (s\<lparr>sb_status := SB_ACTIVE\<rparr>) (c_subscriptions (w_db w))\<rparr>) (w_next w)"
        by (rule books_put_subscription [of "{?k}" _ _ s]) (use d s in \<open>auto simp: books_def billed_until_def\<close>)
      moreover have "settled ?k (w_db w\<lparr>c_subscriptions := tset sb_id (s\<lparr>sb_status := SB_ACTIVE\<rparr>) (c_subscriptions (w_db w))\<rparr>)"
        using u s(2) by (auto simp: settled_def dest!: in_tset)
      ultimately show "?Q () (w\<lparr>w_db := w_db w\<lparr>c_subscriptions := tset sb_id (s\<lparr>sb_status := SB_ACTIVE\<rparr>) (c_subscriptions (w_db w))\<rparr>\<rparr>)"
        using d by (simp add: in_order_def saved_def)
    qed
    have "contract saved ?P (query (\<lambda>db. filter (\<lambda>j. iv_id j \<noteq> iv_id i) (unpaid (sb_id s) db)))
        (\<lambda>still w. still = [] \<and> ?P w)"
      by (rule contract_query) (use found tget_key in \<open>fastforce simp: in_order_def\<close>)
    then show "contract saved ?P (bindM (query (\<lambda>db. filter (\<lambda>j. iv_id j \<noteq> iv_id i) (unpaid (sb_id s) db))) (\<lambda>still_unpaid.
              if still_unpaid = []
              then bindM (put_subscription (s\<lparr>sb_status := SB_ACTIVE\<rparr>)) (\<lambda>_.
                   notify_subscription_reactivated (iv_organization_id i))
              else ret ())) ?Q"
    proof (rule contract_bind)
      fix still
      show "contract saved (\<lambda>w. still = [] \<and> ?P w) (if still = []
              then bindM (put_subscription (s\<lparr>sb_status := SB_ACTIVE\<rparr>)) (\<lambda>_.
                   notify_subscription_reactivated (iv_organization_id i)) else ret ()) ?Q"
        unfolding notify_subscription_reactivated_def
      proof (rule contract_if)
        have "contract saved (\<lambda>w. still = [] \<and> ?P w) (put_subscription (s\<lparr>sb_status := SB_ACTIVE\<rparr>)) ?Q"
          by (rule contract_weaken [OF put]) auto
        then show "contract saved (\<lambda>w. still = [] \<and> ?P w) (bindM (put_subscription (s\<lparr>sb_status := SB_ACTIVE\<rparr>)) (\<lambda>_.
            notify_owner (iv_organization_id i) ''subscription_reactivated'' [])) ?Q"
          by (rule contract_bind) (rule silent_contracts)+
      qed (rule contract_ret, simp)
    qed
  qed (auto intro!: contract_ret over)
qed

lemma contract_mark_paid:
  "contract saved (in_order {} (\<lambda>db. tget iv_id (c_invoices db) (iv_id i) = Some i \<and> iv_status i = IV_FINALIZED))
     (mark_invoice_paid env i provider reference) (\<lambda>_. in_order {} (settled (iv_subscription_id i)))"
  unfolding mark_invoice_paid_def notify_invoice_paid_def
proof (intro contract_bind)
  let ?k = "iv_subscription_id i"
  show "contract saved (in_order {} (\<lambda>db. tget iv_id (c_invoices db) (iv_id i) = Some i \<and> iv_status i = IV_FINALIZED))
      (put_invoice (i\<lparr>iv_status := IV_PAID, iv_paid_at := Some (e_now env), iv_payment_reference := Some reference\<rparr>))
      (\<lambda>_. in_order {?k} (\<lambda>db. unpaid ?k db = []))"
    unfolding put_invoice_def
  proof (rule contract_modify)
    fix w
    assume "in_order {} (\<lambda>db. tget iv_id (c_invoices db) (iv_id i) = Some i \<and> iv_status i = IV_FINALIZED) w"
    note d = in_orderD [OF this]
    have i: "i \<in> set (c_invoices (w_db w))" using d tget_in by fast
    show "in_order {?k} (\<lambda>db. unpaid ?k db = []) (w\<lparr>w_db := (w_db w)\<lparr>c_invoices := tset iv_id
        (i\<lparr>iv_status := IV_PAID, iv_paid_at := Some (e_now env), iv_payment_reference := Some reference\<rparr>) (c_invoices (w_db w))\<rparr>\<rparr>)"
      using d i books_put_paid [of "w_db w" "w_next w" i] unpaid_one [of "w_db w" i]
      by (simp add: in_order_def saved_def books_def known_rows_def)
  qed
qed (rule silent_contracts silent_contracts contract_reactivate)+


section \<open>The scheduler's invoicing\<close>

abbreviation listed :: "subscription list \<Rightarrow> cp_world \<Rightarrow> bool" where
  "listed ss \<equiv> in_order {} (\<lambda>db. set ss \<subseteq> set (c_subscriptions db))"

lemma about_listed: "about_books (\<lambda>db. set ss \<subseteq> set (c_subscriptions db))"
  by (auto simp: about_books_def same_books_def)

definition kept :: "cp_world \<Rightarrow> cp_world \<Rightarrow> bool" where
  "kept w w' \<longleftrightarrow> w_committed w' = w_committed w \<and> w_next w \<le> w_next w'"

interpretation kept: frame kept
  by unfold_locales (auto simp: kept_def)

lemma kept_compute: "framed kept (compute_invoice_for_subscription env s)"
  unfolding compute_invoice_for_subscription_def issue_invoice_def put_subscription_def
  by (intro kept.rules kept.modify kept.uuid4) (simp_all add: kept_def)

lemma saved_kept: "saved w \<Longrightarrow> kept w w' \<Longrightarrow> saved w'"
  unfolding saved_def kept_def by (metis books_cong same_books_def)

lemma set_tset_other: "set ss \<subseteq> set tbl \<Longrightarrow> key s \<notin> key ` set ss \<Longrightarrow> set ss \<subseteq> set (tset key s tbl)"
proof
  fix x
  assume "set ss \<subseteq> set tbl" "key s \<notin> key ` set ss" "x \<in> set ss"
  then have "x \<in> set tbl" "key x \<noteq> key s" by (auto simp: image_iff)
  then show "x \<in> set (tset key s tbl)" by (force simp: tset_def)
qed

lemma contract_compute:
  assumes "sb_id s \<notin> sb_id ` set ss" "sb_status s \<noteq> SB_PAST_DUE"
  shows "contract saved (\<lambda>w. listed (s # ss) w \<and> unpaid (sb_id s) (w_db w) = [])
     (compute_invoice_for_subscription env s) (\<lambda>_. listed ss)"
  unfolding contract_def
proof (intro allI impI)
  fix w r w'
  assume w: "listed (s # ss) w \<and> unpaid (sb_id s) (w_db w) = []" and run: "compute_invoice_for_subscription env s w = (r, w')"
  note d = in_orderD [OF conjunct1 [OF w]]
  have k: "kept w w'" using framedD [OF kept_compute run] .
  then have sv: "saved w'" using saved_kept d by blast
  show "case r of Inl e \<Rightarrow> saved w' | Inr x \<Rightarrow> listed ss w'"
  proof (cases r)
    case (Inr v)
    then obtain items where "issue_invoice env s items w = (Inr v, w')"
      using run compute_invoice_Inr by blast
    note out = issue_invoice_Inr [OF this]
    have "books {} (w_db w') (w_next w')"
      using out d w assms(2) by (auto simp: draft_invoice_def intro!: books_issue)
    moreover have "set ss \<subseteq> set (c_subscriptions (w_db w'))"
      using out d assms(1) by (auto simp: next_period_def intro!: set_tset_other [THEN subsetD, rotated 2])
    ultimately show ?thesis using Inr sv by (simp add: in_order_def)
  qed (use sv in simp)
qed

lemma contract_bill:
  assumes s: "sb_id s \<notin> sb_id ` set ss" "sb_status s = SB_ACTIVE"
  shows "contract saved (listed (s # ss)) (bill_subscription env s) (\<lambda>_. listed ss)"
  unfolding bill_subscription_def notify_subscription_suspended_def notify_invoice_created_def
proof (rule contract_bind)
  show "contract saved (listed (s # ss)) (query (unpaid (sb_id s))) (\<lambda>us w. listed (s # ss) w \<and> unpaid (sb_id s) (w_db w) = us)"
    by (rule contract_query) simp
  fix us
  let ?P = "\<lambda>w. listed (s # ss) w \<and> unpaid (sb_id s) (w_db w) = us"
  have told: "contract saved (listed ss) (notify_owner org type data) (\<lambda>_. listed ss)" for org type data
    by (rule contract_silent [OF silent_notify_owner about_listed])
  show "contract saved ?P (case us of
       i # _ \<Rightarrow> bindM (put_subscription (s\<lparr>sb_status := SB_PAST_DUE\<rparr>)) (\<lambda>_.
         bindM (notify_owner (sb_organization_id s) ''subscription_suspended'' [(''invoice_id'', nat_string (iv_id i))]) (\<lambda>_. ret 0))
     | [] \<Rightarrow> bindM (compute_invoice_for_subscription env s) (\<lambda>invoice.
         bindM (notify_owner (sb_organization_id s) ''invoice_created'' [(''invoice_id'', nat_string (iv_id invoice))]) (\<lambda>_. ret 1)))
     (\<lambda>_. listed ss)"
  proof (cases us)
    case Nil
    have "contract saved ?P (compute_invoice_for_subscription env s) (\<lambda>_. listed ss)"
      using contract_compute [of s ss env] s Nil by simp
    then show ?thesis unfolding Nil list.case
      by (rule contract_bind) (rule contract_bind, rule told, rule contract_ret)
  next
    case (Cons i is')
    have "contract saved ?P (put_subscription (s\<lparr>sb_status := SB_PAST_DUE\<rparr>)) (\<lambda>_. listed ss)"
      unfolding put_subscription_def
    proof (rule contract_modify)
      fix w
      assume w: "?P w"
      note d = in_orderD [OF conjunct1 [OF w]]
      have "books {} (w_db w\<lparr>c_subscriptions := tset sb_id (s\<lparr>sb_status := SB_PAST_DUE\<rparr>) (c_subscriptions (w_db w))\<rparr>) (w_next w)"
        by (rule books_put_subscription [of "{}" _ _ s]) (use d w Cons in \<open>auto simp: books_def billed_until_def\<close>)
      moreover have "set ss \<subseteq> set (tset sb_id (s\<lparr>sb_status := SB_PAST_DUE\<rparr>) (c_subscriptions (w_db w)))"
        using d s(1) by (intro set_tset_other) auto
      ultimately show "listed ss (w\<lparr>w_db := w_db w\<lparr>c_subscriptions := tset sb_id (s\<lparr>sb_status := SB_PAST_DUE\<rparr>) (c_subscriptions (w_db w))\<rparr>\<rparr>)"
        using d by (simp add: in_order_def saved_def)
    qed
    then show ?thesis unfolding Cons list.case
      by (rule contract_bind) (rule contract_bind, rule told, rule contract_ret)
  qed
qed

lemma contract_invoice_loop:
  assumes "distinct (map sb_id ss)" "\<forall>s\<in>set ss. sb_status s = SB_ACTIVE"
  shows "contract saved (listed ss) (invoice_loop env ss) (\<lambda>_. orderly)"
  using assms
proof (induction ss)
  case Nil
  then show ?case by (auto intro!: contract_ret simp: in_order_def)
next
  case (Cons s ss)
  have bill: "contract saved (listed (s # ss)) (bill_subscription env s) (\<lambda>_. listed ss)"
    using Cons.prems by (intro contract_bill) auto
  have "contract saved (listed ss) (invoice_loop env ss) (\<lambda>_. orderly)" using Cons by simp
  then have "contract saved (listed ss) (bindM (invoice_loop env ss) (\<lambda>m. ret (n + m))) (\<lambda>_. orderly)" for n
    by (rule contract_bind) (rule contract_ret)
  then show ?case unfolding invoice_loop.simps by (rule contract_bind [OF bill])
qed

lemma contract_done:
  "contract saved P m (\<lambda>_. orderly) \<Longrightarrow> contract saved P (bindM m (\<lambda>x. bindM commit (\<lambda>_. ret (f x)))) (\<lambda>_. orderly)"
  by (rule contract_bind, assumption, rule contract_bind, rule contract_commit [where Q = "\<lambda>_. orderly"])
     (auto simp: in_order_def saved_def intro!: contract_ret)

lemma contract_invoicing: "contract saved orderly (generate_due_invoices env) (\<lambda>_. orderly)"
  unfolding generate_due_invoices_def
proof (rule contract_http, rule contract_bind)
  show "contract saved orderly (query (due_subscriptions (e_now env)))
      (\<lambda>ss w. listed ss w \<and> distinct (map sb_id ss) \<and> (\<forall>s\<in>set ss. sb_status s = SB_ACTIVE))"
    by (rule contract_query)
       (auto simp: in_order_def due_subscriptions_def books_def known_rows_def intro: distinct_map_filter_key)
  fix ss
  let ?P = "\<lambda>w. listed ss w \<and> distinct (map sb_id ss) \<and> (\<forall>s\<in>set ss. sb_status s = SB_ACTIVE)"
  have "contract saved ?P (invoice_loop env ss) (\<lambda>_. orderly)"
  proof (rule contract_fact)
    show "?P w \<Longrightarrow> distinct (map sb_id ss) \<and> (\<forall>s\<in>set ss. sb_status s = SB_ACTIVE)" for w by blast
    assume "distinct (map sb_id ss) \<and> (\<forall>s\<in>set ss. sb_status s = SB_ACTIVE)"
    then show "contract saved ?P (invoice_loop env ss) (\<lambda>_. orderly)"
      by (intro contract_weaken [OF contract_invoice_loop]) auto
  qed
  then show "contract saved ?P (bindM (invoice_loop env ss) (\<lambda>n. bindM commit (\<lambda>_. ret n))) (\<lambda>_. orderly)"
    by (rule contract_done [where f = "\<lambda>n. n"])
qed (rule saved_rollback)


section \<open>The endpoints\<close>

lemma about_any: "about_books (\<lambda>_. B)"
  by (simp add: about_books_def)

lemma contract_as_member:
  assumes "\<And>user. contract saved orderly (act user) Q"
  shows "contract saved orderly (as_member env k c valid action org act) Q"
  unfolding as_member_def
proof (rule contract_http)
  let ?p = "get_membership env k c org"
  have "contract saved orderly ?p (\<lambda>_. orderly)" by (rule contract_apart [OF apart_membership about_any])
  then show "contract saved orderly (bindM ?p (\<lambda>(user, membership).
     bindM (ensure valid (HTTP 422)) (\<lambda>_. bindM (require_role (mb_role membership) action) (\<lambda>_. act user)))) Q"
  proof (rule contract_bind)
    fix um :: "user \<times> membership"
    obtain user membership where um: "um = (user, membership)" by force
    show "contract saved orderly (case um of (user, membership) \<Rightarrow>
       bindM (ensure valid (HTTP 422)) (\<lambda>_. bindM (require_role (mb_role membership) action) (\<lambda>_. act user))) Q"
      unfolding um prod.case require_role_def
      by (rule contract_bind, rule contract_ensure [where Q = "\<lambda>_. orderly"], erule in_order_saved, assumption,
          rule contract_bind, rule contract_query_exn [where Q = "\<lambda>_. orderly"], erule in_order_saved, assumption, rule assms)
  qed
qed (rule saved_rollback)

text \<open>The unpaid invoice an endpoint has loaded.\<close>

abbreviation loaded :: "invoice \<Rightarrow> cp_world \<Rightarrow> bool" where
  "loaded i \<equiv> in_order {} (\<lambda>db. tget iv_id (c_invoices db) (iv_id i) = Some i \<and> iv_status i = IV_FINALIZED)"

lemma contract_finalized: "contract saved orderly (finalized_invoice org j) loaded"
  unfolding contract_def
proof (intro allI impI)
  fix w r w'
  assume o: "orderly w" and run: "finalized_invoice org j w = (r, w')"
  have "w' = w" using run unfolding finalized_invoice_def invoice_of_def by (elim bind_cases) (simp_all add: effect_simps)
  moreover have "tget iv_id (c_invoices (w_db w)) (iv_id i) = Some i \<and> iv_status i = IV_FINALIZED" if "r = Inr i" for i
    using run that unfolding finalized_invoice_def invoice_of_def
    by (elim bind_cases) (auto simp: effect_simps split: if_splits option.splits dest: tget_key)
  ultimately show "case r of Inl e \<Rightarrow> saved w' | Inr i \<Rightarrow> loaded i w'"
    using o by (auto simp: in_order_def split: sum.split)
qed

lemma loaded_orderly: "loaded i w \<Longrightarrow> orderly w"
  by (simp add: in_order_def)

lemma contract_pay: "contract saved orderly (pay_invoice env k c org j) (\<lambda>_. orderly)"
  unfolding pay_invoice_def pay_invoice_manually_def
proof (rule contract_as_member, rule contract_bind [OF contract_finalized])
  fix i
  have "contract saved (loaded i) (mark_invoice_paid env i ''manual'' (manual_charge (nat_string (iv_id i)))) (\<lambda>_. orderly)"
    by (rule contract_weaken [OF contract_mark_paid]) (auto simp: in_order_def)
  then show "contract saved (loaded i) (bindM (mark_invoice_paid env i ''manual'' (manual_charge (nat_string (iv_id i)))) (\<lambda>_. commit)) (\<lambda>_. orderly)"
    by (rule contract_bind) (rule contract_commit, simp add: in_order_def saved_def)
qed

lemma apart_crypto: "framed apart (initiate_crypto_payment env g i currency)"
  unfolding initiate_crypto_payment_def by (intro apart.rules silent_apart [OF silent_add_payment])

lemma apart_commit: "framed apart commit"
  by (rule apart.commit) (simp add: apart_def same_books_def)

lemma apart_mobile: "framed apart (initiate_mobile_money_payment env g i mode phone email)"
  unfolding initiate_mobile_money_payment_def
  by (intro apart.rules silent_apart [OF silent_add_payment] silent_apart [OF silent_put_payment] apart_commit)
     (auto split: sum.split intro!: apart.rules silent_apart [OF silent_put_payment] apart_commit)

lemma contract_apart_orderly: "framed apart m \<Longrightarrow> contract saved orderly m (\<lambda>_. orderly)"
  by (rule contract_apart [OF _ about_any])

lemma contract_initiated:
  assumes "\<And>i. framed apart (m i)"
  shows "contract saved orderly (bindM (finalized_invoice org j) (\<lambda>i. bindM (m i) (\<lambda>p. bindM commit (\<lambda>_. ret p)))) (\<lambda>_. orderly)"
proof (rule contract_bind [OF contract_finalized])
  fix i
  have "contract saved (loaded i) (m i) (\<lambda>_. orderly)"
    by (rule contract_weaken [OF contract_apart_orderly [OF assms]]) (auto simp: in_order_def)
  then show "contract saved (loaded i) (bindM (m i) (\<lambda>p. bindM commit (\<lambda>_. ret p))) (\<lambda>_. orderly)"
    by (rule contract_done [where f = "\<lambda>p. p"])
qed

lemma contract_crypto: "contract saved orderly (pay_invoice_with_crypto env k g c org j currency) (\<lambda>_. orderly)"
  unfolding pay_invoice_with_crypto_def by (intro contract_as_member contract_initiated apart_crypto)

lemma contract_mobile: "contract saved orderly (pay_invoice_with_mobile_money env k g c org j mode phone) (\<lambda>_. orderly)"
  unfolding pay_invoice_with_mobile_money_def by (intro contract_as_member contract_initiated apart_mobile)


section \<open>The gateways' notifications\<close>

lemma contract_finalize: "contract saved orderly (finalize_payment env p) (\<lambda>_. orderly)"
  unfolding finalize_payment_def
proof (rule contract_if, rule contract_ret, assumption, rule contract_bind)
  show "contract saved orderly (put_payment (p\<lparr>py_status := PY_SUCCEEDED\<rparr>)) (\<lambda>_. orderly)"
    by (rule contract_silent [OF silent_put_payment about_any])
  let ?k = "py_invoice_id p" and ?settle = "\<lambda>i. mark_invoice_paid env i (provider_value (py_provider p)) (nat_string (py_id p))"
  show "contract saved orderly (bindM (query (\<lambda>db. tget iv_id (c_invoices db) ?k)) (\<lambda>found.
        case found of None \<Rightarrow> ret () | Some i \<Rightarrow> if iv_status i = IV_PAID then ret () else ?settle i)) (\<lambda>_. orderly)"
  proof (rule contract_bind)
    show "contract saved orderly (query (\<lambda>db. tget iv_id (c_invoices db) ?k))
        (\<lambda>found. in_order {} (\<lambda>db. tget iv_id (c_invoices db) ?k = found))"
      by (rule contract_query) (simp add: in_order_def)
    fix found
    let ?P = "in_order {} (\<lambda>db. tget iv_id (c_invoices db) ?k = found)"
    show "contract saved ?P (case found of None \<Rightarrow> ret () | Some i \<Rightarrow> if iv_status i = IV_PAID then ret () else ?settle i) (\<lambda>_. orderly)"
    proof (intro contract_option contract_if)
      fix i
      assume i: "found = Some i" "iv_status i \<noteq> IV_PAID"
      have "loaded i w" if "?P w" for w
      proof -
        note d = in_orderD [OF that]
        have "i \<in> set (c_invoices (w_db w))" "iv_id i = ?k" using d i(1) tget_SomeD by force+
        then show ?thesis using d i by (auto simp: in_order_def books_def known_rows_def)
      qed
      then show "contract saved ?P (?settle i) (\<lambda>_. orderly)"
        by (intro contract_weaken [OF contract_mark_paid]) (auto simp: in_order_def)
    qed (auto intro!: contract_ret simp: in_order_def)
  qed
qed

lemma contract_translate: "contract E P m Q \<Longrightarrow> contract E P (translate f m) Q"
  unfolding contract_def by (fastforce simp: translate_def split: sum.splits prod.splits)

lemma contract_signed:
  assumes "\<And>s. contract saved orderly (handler s) (\<lambda>_. orderly)"
  shows "contract saved orderly (signed header handler) (\<lambda>_. orderly)"
  unfolding signed_def
proof (rule contract_http, rule contract_bind)
  show "contract saved orderly (the_or (HTTP 400) header) (\<lambda>_. orderly)"
    by (rule contract_the_or) (simp_all add: in_order_def)
  fix s :: string
  have e: "contract saved orderly (ensure (s \<noteq> []) (HTTP 400)) (\<lambda>_. orderly)"
    by (rule contract_ensure) (simp_all add: in_order_def)
  have h: "contract saved orderly (translate webhook_error (handler s)) (\<lambda>_. orderly)"
    by (rule contract_translate [OF assms])
  have c: "contract saved orderly commit (\<lambda>_. orderly)"
    by (rule contract_commit) (simp add: in_order_def saved_def)
  show "contract saved orderly (bindM (ensure (s \<noteq> []) (HTTP 400)) (\<lambda>_. bindM (translate webhook_error (handler s)) (\<lambda>_. commit))) (\<lambda>_. orderly)"
    by (rule contract_bind [OF e]) (rule contract_bind [OF h c])
qed (rule saved_rollback)

lemma contract_found_payment:
  assumes "\<And>p. contract saved orderly (f p) (\<lambda>_. orderly)"
  shows "contract saved orderly (bindM (query_exn (find_payment provider i)) (\<lambda>found.
     case found of None \<Rightarrow> ret () | Some p \<Rightarrow> if py_status p \<noteq> PY_PENDING then ret () else f p)) (\<lambda>_. orderly)"
proof (rule contract_bind)
  show "contract saved orderly (query_exn (find_payment provider i)) (\<lambda>_. orderly)"
    by (rule contract_query_exn) (simp_all add: in_order_def)
qed (intro contract_option contract_if assms; rule contract_ret, assumption)

lemma contract_put_then:
  "contract saved orderly m (\<lambda>_. orderly) \<Longrightarrow> contract saved orderly (bindM (put_payment p) (\<lambda>_. m)) (\<lambda>_. orderly)"
  by (rule contract_bind [OF contract_silent [OF silent_put_payment about_any]])

lemma contract_fail: "contract saved orderly (fail_payment p provider) (\<lambda>_. orderly)"
  by (rule contract_silent [OF silent_fail_payment about_any])

lemma contract_nowpayments: "contract saved orderly (nowpayments_webhook env g header body n) (\<lambda>_. orderly)"
  unfolding nowpayments_webhook_def handle_nowpayments_webhook_def Let_def
proof (rule contract_signed, rule contract_bind)
  fix s
  show "contract saved orderly (ensure (verify_ipn_signature g body s) PaymentWebhook) (\<lambda>_. orderly)"
    by (rule contract_ensure) (simp_all add: in_order_def)
qed (intro contract_found_payment contract_put_then contract_if contract_finalize contract_fail; rule contract_ret, assumption)

lemma contract_fedapay: "contract saved orderly (fedapay_webhook env g header body i status) (\<lambda>_. orderly)"
  unfolding fedapay_webhook_def handle_fedapay_webhook_def
proof (rule contract_signed, rule contract_bind)
  fix s
  show "contract saved orderly (query_exn (\<lambda>_. verify_webhook_signature env g body s)) (\<lambda>_. orderly)"
    by (rule contract_query_exn) (simp_all add: in_order_def)
next
  fix s valid
  have v: "contract saved orderly (ensure valid PaymentWebhook) (\<lambda>_. orderly)"
    by (rule contract_ensure) (simp_all add: in_order_def)
  show "contract saved orderly (bindM (ensure valid PaymentWebhook) (\<lambda>_.
     bindM (query_exn (find_payment PP_FEDAPAY i)) (\<lambda>found.
     case found of
       None \<Rightarrow> ret ()
     | Some payment \<Rightarrow>
         if py_status payment \<noteq> PY_PENDING then ret ()
         else case payment\<lparr>py_provider_status := status\<rparr> of payment' \<Rightarrow>
           if status = Some ''approved''
           then bindM (put_payment payment') (\<lambda>_. finalize_payment env payment')
           else if status \<in> {Some ''declined'', Some ''canceled''}
           then bindM (put_payment payment') (\<lambda>_. fail_payment payment' ''fedapay'')
           else ret ()))) (\<lambda>_. orderly)"
    by (rule contract_bind [OF v], intro contract_found_payment contract_put_then contract_if contract_finalize contract_fail)
       (rule contract_ret, assumption)
qed

section \<open>Subscriptions\<close>

lemma contract_update: "contract saved orderly (update_subscription env k c org plan_id) (\<lambda>_. orderly)"
  unfolding update_subscription_def notify_subscription_changed_def
proof (rule contract_as_member, rule contract_bind)
  let ?mine = "\<lambda>s. in_order {} (\<lambda>db. s \<in> set (c_subscriptions db))"
  show "contract saved orderly (subscription_of org) ?mine"
    unfolding subscription_of_def contract_def
    by (auto simp: effect_simps in_order_def one_or_none_Inr filter_eq_Cons_iff split: sum.split option.splits elim!: bind_cases)
  fix s
  have q: "contract saved (?mine s) (query (\<lambda>db. tget pl_id (c_plans db) plan_id)) (\<lambda>_. ?mine s)"
    by (rule contract_query)
  have t: "contract saved (?mine s) (the_or (HTTP 404) found) (\<lambda>_. ?mine s)" for found :: "plan option"
    by (rule contract_the_or) (simp_all add: in_order_def)
  have e: "contract saved (?mine s) (ensure b (HTTP 404)) (\<lambda>_. ?mine s)" for b
    by (rule contract_ensure) (simp_all add: in_order_def)
  have p: "contract saved (?mine s) (put_subscription (s\<lparr>sb_plan_id := pl_id plan\<rparr>)) (\<lambda>_. orderly)" for plan
    unfolding put_subscription_def
  proof (rule contract_modify)
    fix w
    assume "?mine s w"
    note d = in_orderD [OF this]
    have "books {} (w_db w\<lparr>c_subscriptions := tset sb_id (s\<lparr>sb_plan_id := pl_id plan\<rparr>) (c_subscriptions (w_db w))\<rparr>) (w_next w)"
      by (rule books_put_subscription [of "{}" _ _ s]) (use d in \<open>auto simp: books_def billed_until_def owing_def\<close>)
    then show "orderly (w\<lparr>w_db := w_db w\<lparr>c_subscriptions := tset sb_id (s\<lparr>sb_plan_id := pl_id plan\<rparr>) (c_subscriptions (w_db w))\<rparr>\<rparr>)"
      using d by (simp add: in_order_def saved_def)
  qed
  show "contract saved (?mine s) (bindM (query (\<lambda>db. tget pl_id (c_plans db) plan_id)) (\<lambda>found.
     bindM (the_or (HTTP 404) found) (\<lambda>plan.
     bindM (ensure (pl_is_active plan) (HTTP 404)) (\<lambda>_.
     bindM (put_subscription (s\<lparr>sb_plan_id := pl_id plan\<rparr>)) (\<lambda>_.
     bindM (notify_owner org ''subscription_changed'' [(''plan_name'', pl_name plan)]) (\<lambda>_.
     bindM commit (\<lambda>_.
     ret (s\<lparr>sb_plan_id := pl_id plan\<rparr>)))))))) (\<lambda>_. orderly)"
    by (rule contract_bind [OF q], rule contract_bind [OF t], rule contract_bind [OF e], rule contract_bind [OF p],
        rule contract_done, rule contract_silent [OF silent_notify_owner about_any])
qed


lemma apart_audit: "framed apart (record_audit a rt ri org u before after ip res)"
  unfolding record_audit_def by (intro apart.modify) (simp add: apart_def same_books_def)

lemma contract_found: "contract saved orderly (found_organization env user name slug) (\<lambda>_. orderly)"
  unfolding contract_def
proof (intro allI impI)
  fix w r w'
  assume o: "orderly w" and run: "found_organization env user name slug w = (r, w')"
  note d = in_orderD [OF o]
  have k: "kept w w'"
    using run unfolding found_organization_def add_membership_def
    by (rule framedD [rotated]) (intro kept.rules kept.modify kept.uuid4, simp_all add: kept_def)
  have "books {} (w_db w') (w_next w')" if "r = Inr org" for org
  proof -
    from run that obtain s where w': "c_subscriptions (w_db w') = c_subscriptions (w_db w) @ [s]"
        "c_invoices (w_db w') = c_invoices (w_db w)" "w_next w' = Suc (w_next w + 2)"
      and s: "sb_id s = w_next w + 2" "sb_status s = SB_ACTIVE" "sb_current_period_start s < sb_current_period_end s"
      unfolding found_organization_def add_membership_def
      by (elim bind_cases) (auto simp: effect_simps billing_period_def split: option.splits)
    have "same_books (w_db w) (w_db w)" by (simp add: same_books_def)
    from books_cong [OF this le_add1] have "books {} (w_db w) (w_next w + 2)" using d by blast
    then have "books {} (w_db w\<lparr>c_subscriptions := c_subscriptions (w_db w) @ [s]\<rparr>) (Suc (w_next w + 2))"
      using s by (rule books_new_subscription)
    then show ?thesis by (rule books_cong [rotated 2]) (simp_all add: same_books_def w')
  qed
  then show "case r of Inl e \<Rightarrow> saved w' | Inr x \<Rightarrow> orderly w'"
    using saved_kept [OF _ k] d by (auto simp: in_order_def split: sum.split)
qed

lemma contract_create_organization: "contract saved orderly (create_organization env k c name slug) (\<lambda>_. orderly)"
  unfolding create_organization_def
proof (rule contract_http)
  have a: "contract saved orderly m (\<lambda>_. orderly)" if "framed apart m" for m :: "'a cpm"
    using that by (rule contract_apart_orderly)
  show "contract saved orderly (bindM (get_current_user env k c) (\<lambda>user.
     bindM (ensure (named_ok name slug) (HTTP 422)) (\<lambda>_.
     bindM (query_exn (\<lambda>db. one_or_none (filter (\<lambda>g. og_slug g = slug) (c_organizations db)))) (\<lambda>existing.
     bindM (ensure (existing = None) (HTTP 409)) (\<lambda>_.
     bindM (found_organization env user name slug) (\<lambda>org.
     bindM (audit_ok ''ORGANIZATION_CREATED'' ''organization'' (Some (og_id org)) (Some (og_id org)) (Some (us_id user)) None
              (Some [(''name'', name), (''slug'', slug)])) (\<lambda>_.
     bindM commit (\<lambda>_.
     ret org)))))))) (\<lambda>_. orderly)"
    by (rule contract_bind [OF contract_apart_orderly [OF apart_current_user]],
        rule contract_bind [OF contract_apart_orderly [OF apart.ensure]],
        rule contract_bind [OF contract_apart_orderly [OF apart.query_exn]],
        rule contract_bind [OF contract_apart_orderly [OF apart.ensure]],
        rule contract_bind [OF contract_found], rule contract_done, rule contract_apart_orderly [OF apart_audit])
qed (rule saved_rollback)

section \<open>The service as a whole\<close>

text \<open>One request or one scheduler tick, in a session of its own.\<close>

definition session_of :: "'a cpm \<Rightarrow> cp_world \<Rightarrow> cp_world" where
  "session_of m w = rollback (snd (m w))"

inductive billing_step :: "cp_world \<Rightarrow> cp_world \<Rightarrow> bool" where
  invoicing: "billing_step w (session_of (generate_due_invoices env) w)"
| manual: "billing_step w (session_of (pay_invoice env k c org j) w)"
| crypto: "billing_step w (session_of (pay_invoice_with_crypto env k g c org j currency) w)"
| mobile: "billing_step w (session_of (pay_invoice_with_mobile_money env k g c org j mode phone) w)"
| nowpayments: "billing_step w (session_of (nowpayments_webhook env g header body n) w)"
| fedapay: "billing_step w (session_of (fedapay_webhook env g header body i status) w)"
| plan_change: "billing_step w (session_of (update_subscription env k c org plan_id) w)"
| founding: "billing_step w (session_of (create_organization env k c name slug) w)"
| elsewhere: "same_books (w_committed w) (w_committed w') \<Longrightarrow> w_next w \<le> w_next w' \<Longrightarrow> w_db w' = w_committed w' \<Longrightarrow> billing_step w w'"

definition before_billing :: "cp_world \<Rightarrow> bool" where
  "before_billing w \<longleftrightarrow> w_db w = w_committed w \<and> c_invoices (w_db w) = [] \<and> distinct (map sb_id (c_subscriptions (w_db w))) \<and>
     list_all (\<lambda>s. sb_id s < w_next w \<and> sb_status s = SB_ACTIVE \<and> sb_current_period_start s < sb_current_period_end s) (c_subscriptions (w_db w))"

definition clean_books :: "cp_world \<Rightarrow> bool" where
  "clean_books w \<longleftrightarrow> w_db w = w_committed w \<and> books {} (w_db w) (w_next w)"

lemma session_clean:
  assumes "contract saved orderly m (\<lambda>_. orderly)" "clean_books w"
  shows "clean_books (session_of m w)"
proof -
  obtain r w' where run: "m w = (r, w')" by fastforce
  have o: "orderly w" using assms(2) by (auto simp: clean_books_def in_order_def saved_def)
  have "saved w'"
    using contract_Inr [OF assms(1) o] contract_Inl [OF assms(1) o] run in_order_saved by (cases r) blast+
  then show ?thesis by (simp add: session_of_def run clean_books_def saved_def rollback_def)
qed

lemma step_clean:
  assumes "billing_step w w'" "clean_books w"
  shows "clean_books w'"
  using assms
proof (cases rule: billing_step.cases)
  case elsewhere
  then show ?thesis using assms(2) books_cong by (auto simp: clean_books_def)
qed (auto intro!: session_clean contract_invoicing contract_pay contract_crypto contract_mobile contract_nowpayments
      contract_fedapay contract_update contract_create_organization)

lemma before_clean: "before_billing w \<Longrightarrow> clean_books w"
  by (auto simp: before_billing_def clean_books_def books_defs unpaid_def list_all_iff)

interpretation billing: invariant_system before_billing billing_step clean_books
  by unfold_locales (auto intro: before_clean step_clean)


text \<open>C6: Whatever requests, payments, webhooks and scheduler ticks come in whatever order: a
  subscription has at most one unpaid invoice, it is past due only while it has one, no two of its
  invoices cover the same moment, and every invoice ends before the current period begins.\<close>

theorem billing_invariant:
  assumes "reach before_billing billing_step w"
  shows "one_unpaid (w_db w) \<and> charged_once (w_db w) \<and> billed_until (w_db w) \<and> owing {} (w_db w)"
  using billing.reach_inv [OF assms] unfolding clean_books_def books_def by blast


text \<open>A subscription whose period is over: billed, suspended a period later, paid.\<close>

definition demo_rows :: "subscription \<Rightarrow> invoice list \<Rightarrow> notification list \<Rightarrow> cp_world" where
  "demo_rows s is' ns = world_of (demo_org\<lparr>c_plans := [\<lparr>pl_id = 5, pl_name = ''free'', pl_quotas = [], pl_pricing = [], pl_is_active = True\<rparr>],
     c_subscriptions := [s], c_invoices := is', c_notifications := ns\<rparr>) (100 + length is')"

definition demo_due :: invoice where
  "demo_due = draft_invoice (calm_env 2000) (demo_subscription SB_ACTIVE) 100 0"

definition demo_notice :: "string \<Rightarrow> notification" where
  "demo_notice type = \<lparr>nt_user_id = 7, nt_type = type, nt_data = [(''invoice_id'', ''100'')]\<rparr>"

definition demo_billed :: cp_world where
  "demo_billed = demo_rows (next_period (demo_subscription SB_ACTIVE)) [demo_due] [demo_notice ''invoice_created'']"

definition demo_overdue :: cp_world where
  "demo_overdue = demo_rows (next_period (demo_subscription SB_PAST_DUE)) [demo_due]
     [demo_notice ''invoice_created'', demo_notice ''subscription_suspended'']"

definition demo_paid :: "(cp_exn + unit) \<times> cp_world" where
  "demo_paid = pay_invoice (calm_env 9000) demo_crypto (Some ''jwt'') 3 100 demo_overdue"

lemma demo_billed_run: "session_of (generate_due_invoices (calm_env 2000)) (demo_rows (demo_subscription SB_ACTIVE) [] []) = demo_billed"
  by code_simp

lemma demo_overdue_run: "session_of (generate_due_invoices (calm_env 2592000003000)) demo_billed = demo_overdue"
  by code_simp

lemma demo_overdue_reached: "reach before_billing billing_step demo_overdue"
proof -
  have "before_billing (demo_rows (demo_subscription SB_ACTIVE) [] [])"
    by (simp add: before_billing_def demo_rows_def world_of_def demo_org_def empty_cp_def demo_subscription_def)
  then have "reach before_billing billing_step (demo_rows (demo_subscription SB_ACTIVE) [] [])" by (rule reach_init)
  then have "reach before_billing billing_step demo_billed"
    unfolding demo_billed_run [symmetric] by (rule reach_step) (rule billing_step.invoicing)
  then show ?thesis unfolding demo_overdue_run [symmetric] by (rule reach_step) (rule billing_step.invoicing)
qed

theorem billing_invariant_witness:
  "one_unpaid (w_db demo_overdue) \<and> map sb_status (c_subscriptions (w_db demo_overdue)) = [SB_PAST_DUE] \<and>
   map iv_status (c_invoices (w_db demo_overdue)) = [IV_FINALIZED]"
proof -
  have "map sb_status (c_subscriptions (w_db demo_overdue)) = [SB_PAST_DUE]" by code_simp
  moreover have "map iv_status (c_invoices (w_db demo_overdue)) = [IV_FINALIZED]" by code_simp
  ultimately show ?thesis using billing_invariant [OF demo_overdue_reached] by blast
qed


end
