(* ===== verification/AG_Model.thy ===== *)
theory AG_Model
  imports Python_Text
begin

text \<open>
  The node agent, \<open>src/agent\<close>: the process that runs on every node and is the only one that talks
  to its PostgreSQL.  The state of a request is what the agent has done so far: the statements it sent
  and on which database, the client tools it ran and the objects it stored.  PostgreSQL, the tools, the
  object store and Fernet are parameters whose answers may depend on everything done before.
\<close>

section \<open>The agent's surroundings\<close>

datatype pg_value = PgNull | PgText string | PgInt int | PgBool bool

type_synonym row = "pg_value list"

datatype pg_error = DuplicateDatabase | DuplicateObject | OtherPg string

datatype ag_exn =
    InvalidIdentifier
  | AG_ValueError
  | AG_Postgres pg_error
  | AG_RuntimeError
  | AG_InvalidToken
  | AG_StorageError
  | AG_HTTP nat

text \<open>\<open>Sql d q ps\<close> is the statement \<open>q\<close> with bind parameters \<open>ps\<close> on a connection to \<open>d\<close>;
  \<open>Run\<close> is a command line with the password in its environment and its standard input.\<close>

datatype deed =
    Sql string string "pg_value list"
  | Run "string list" string "string option"
  | PutObject string string
  | GetObject string
  | DeleteObject string

record agent_settings =
  st_database :: string
  st_admin_user :: string
  st_admin_password :: string
  st_command_prefix :: string
  st_pg_dump_path :: string
  st_pg_restore_path :: string
  st_pg_host :: string
  st_pg_port :: int

record ag_env =
  ag_settings :: agent_settings
  ag_sql :: "deed list \<Rightarrow> string \<Rightarrow> string \<Rightarrow> pg_value list \<Rightarrow> pg_error + row list"
  ag_connect :: "deed list \<Rightarrow> string \<Rightarrow> pg_error option"
  ag_run :: "deed list \<Rightarrow> string list \<Rightarrow> string \<Rightarrow> string option \<Rightarrow> int \<times> string"
  ag_put :: "deed list \<Rightarrow> string \<Rightarrow> string \<Rightarrow> bool"
  ag_get :: "deed list \<Rightarrow> string \<Rightarrow> string option"
  ag_delete :: "deed list \<Rightarrow> string \<Rightarrow> bool"
  ag_encrypt :: "string \<Rightarrow> string"
  ag_decrypt :: "string \<Rightarrow> string option"
  ag_hex :: "deed list \<Rightarrow> string"
  ag_error_text :: "ag_exn \<Rightarrow> string"

type_synonym 'a agm = "deed list \<Rightarrow> (ag_exn + 'a) \<times> deed list"

section \<open>Effects\<close>

abbreviation bindA :: "'a agm \<Rightarrow> ('a \<Rightarrow> 'b agm) \<Rightarrow> 'b agm" where
  "bindA m f \<equiv> (\<lambda>l. case m l of (r, l') \<Rightarrow> (case r of Inl e \<Rightarrow> (Inl e, l') | Inr x \<Rightarrow> f x l'))"

definition done_with :: "'a \<Rightarrow> 'a agm" where
  "done_with x l = (Inr x, l)"

definition fail :: "ag_exn \<Rightarrow> 'a agm" where
  "fail e l = (Inl e, l)"

definition require :: "bool \<Rightarrow> ag_exn \<Rightarrow> unit agm" where
  "require b e l = (if b then Inr () else Inl e, l)"

definition execute :: "ag_env \<Rightarrow> string \<Rightarrow> string \<Rightarrow> pg_value list \<Rightarrow> row list agm" where
  "execute env d q ps l = (case ag_sql env l d q ps of Inl e \<Rightarrow> Inl (AG_Postgres e) | Inr rows \<Rightarrow> Inr rows, l @ [Sql d q ps])"

text \<open>A statement without parameters on the maintenance connection.\<close>

definition admin :: "ag_env \<Rightarrow> string \<Rightarrow> row list agm" where
  "admin env q = execute env (st_database (ag_settings env)) q []"

definition cell :: "nat \<Rightarrow> row \<Rightarrow> pg_value" where
  "cell i r = (if i < length r then r ! i else PgNull)"

text \<open>\<open>fetchval\<close> is the first column of the first row.\<close>

definition first_value :: "row list \<Rightarrow> pg_value" where
  "first_value rows = (case rows of [] \<Rightarrow> PgNull | r # _ \<Rightarrow> cell 0 r)"

definition fetchval :: "ag_env \<Rightarrow> string \<Rightarrow> string \<Rightarrow> pg_value list \<Rightarrow> pg_value agm" where
  "fetchval env d q ps = bindA (execute env d q ps) (\<lambda>rows. done_with (first_value rows))"

text \<open>\<open>str()\<close> of a value, as an f-string interpolates it, and its truth value.\<close>

fun python_str :: "pg_value \<Rightarrow> string" where
  "python_str PgNull = ''None''"
| "python_str (PgText s) = s"
| "python_str (PgInt i) = int_string i"
| "python_str (PgBool b) = (if b then ''True'' else ''False'')"

fun truthy :: "pg_value \<Rightarrow> bool" where
  "truthy PgNull = False"
| "truthy (PgText s) \<longleftrightarrow> s \<noteq> []"
| "truthy (PgInt i) \<longleftrightarrow> i \<noteq> 0"
| "truthy (PgBool b) = b"

definition run_tool :: "ag_env \<Rightarrow> string list \<Rightarrow> string \<Rightarrow> string option \<Rightarrow> string agm" where
  "run_tool env cmd password input l =
     (case ag_run env l cmd password input of (code, out) \<Rightarrow> if code \<noteq> 0 then Inl AG_RuntimeError else Inr out,
      l @ [Run cmd password input])"

definition upload_bytes :: "ag_env \<Rightarrow> string \<Rightarrow> string \<Rightarrow> unit agm" where
  "upload_bytes env key data l = (if ag_put env l key data then Inr () else Inl AG_StorageError, l @ [PutObject key data])"

definition download_bytes :: "ag_env \<Rightarrow> string \<Rightarrow> string agm" where
  "download_bytes env key l =
     (case ag_get env l key of None \<Rightarrow> Inl AG_StorageError | Some data \<Rightarrow> Inr data, l @ [GetObject key])"

definition delete_object :: "ag_env \<Rightarrow> string \<Rightarrow> unit agm" where
  "delete_object env key l = (if ag_delete env l key then Inr () else Inl AG_StorageError, l @ [DeleteObject key])"

text \<open>\<open>try: ... except Exception as e: ...\<close> and \<open>try: ... finally: ...\<close>.\<close>

definition catching :: "'a agm \<Rightarrow> (ag_exn \<Rightarrow> 'a agm) \<Rightarrow> 'a agm" where
  "catching m h l = (case m l of (r, l') \<Rightarrow> (case r of Inl e \<Rightarrow> h e l' | Inr x \<Rightarrow> (Inr x, l')))"

definition finally_do :: "'a agm \<Rightarrow> 'b agm \<Rightarrow> 'a agm" where
  "finally_do m cleanup l = (case m l of (r, l') \<Rightarrow> (case cleanup l' of (Inl e, l'') \<Rightarrow> (Inl e, l'') | (Inr _, l'') \<Rightarrow> (r, l'')))"

section \<open>What a run emits\<close>

text \<open>\<open>emits P Q m\<close>: whatever happens, every deed of a run of \<open>m\<close> satisfies \<open>P\<close>, and a value it
  returns satisfies \<open>Q\<close>.\<close>

definition emits :: "(deed \<Rightarrow> bool) \<Rightarrow> ('a \<Rightarrow> bool) \<Rightarrow> 'a agm \<Rightarrow> bool" where
  "emits P Q m \<longleftrightarrow> (\<forall>l r l'. m l = (r, l') \<longrightarrow> (\<exists>ds. l' = l @ ds \<and> list_all P ds) \<and> (\<forall>x. r = Inr x \<longrightarrow> Q x))"

abbreviation emits_only :: "(deed \<Rightarrow> bool) \<Rightarrow> 'a agm \<Rightarrow> bool" where
  "emits_only P m \<equiv> emits P (\<lambda>_. True) m"

lemma emitsD:
  assumes "emits P Q m" "m l = (r, l')"
  obtains ds where "l' = l @ ds" "list_all P ds" "\<And>x. r = Inr x \<Longrightarrow> Q x"
proof -
  from assms have "(\<exists>ds. l' = l @ ds \<and> list_all P ds) \<and> (\<forall>x. r = Inr x \<longrightarrow> Q x)" unfolding emits_def by simp
  then show thesis using that by blast
qed

lemma emits_done: "Q x \<Longrightarrow> emits P Q (done_with x)"
  by (simp add: emits_def done_with_def)

lemma emits_fail: "emits P Q (fail e)"
  by (simp add: emits_def fail_def)

lemma emits_require: "(b \<Longrightarrow> Q ()) \<Longrightarrow> emits P Q (require b e)"
  by (simp add: emits_def require_def)

lemma emits_execute: "P (Sql d q ps) \<Longrightarrow> (\<And>l rows. ag_sql env l d q ps = Inr rows \<Longrightarrow> Q rows) \<Longrightarrow> emits P Q (execute env d q ps)"
  by (auto simp: emits_def execute_def split: sum.splits)

lemma emits_bind:
  assumes m: "emits P Q m" and f: "\<And>x. Q x \<Longrightarrow> emits P R (f x)"
  shows "emits P R (bindA m f)"
  unfolding emits_def
proof (intro allI impI)
  fix l r l'
  assume run: "bindA m f l = (r, l')"
  obtain a v where v: "m l = (a, v)" by fastforce
  obtain ds where ds: "v = l @ ds" "list_all P ds" and q: "\<And>x. a = Inr x \<Longrightarrow> Q x" using emitsD [OF m v] by blast
  show "(\<exists>ds. l' = l @ ds \<and> list_all P ds) \<and> (\<forall>x. r = Inr x \<longrightarrow> R x)"
  proof (cases a)
    case (Inl e)
    then show ?thesis using run v ds by auto
  next
    case (Inr x)
    then have fx: "f x v = (r, l')" using run v by simp
    obtain ds' where "l' = v @ ds'" "list_all P ds'" "\<And>y. r = Inr y \<Longrightarrow> R y"
      using emitsD [OF f [OF q [OF Inr]] fx] by blast
    then show ?thesis using ds by auto
  qed
qed

lemma emits_then: "emits_only P m \<Longrightarrow> (\<And>x. emits P R (f x)) \<Longrightarrow> emits P R (bindA m f)"
  by (rule emits_bind)

lemma emits_weaken: "emits P Q m \<Longrightarrow> (\<And>d. P d \<Longrightarrow> P' d) \<Longrightarrow> (\<And>x. Q x \<Longrightarrow> Q' x) \<Longrightarrow> emits P' Q' m"
  unfolding emits_def by (metis list.pred_mono_strong)

lemma emits_if: "(b \<Longrightarrow> emits P Q m) \<Longrightarrow> (\<not> b \<Longrightarrow> emits P Q n) \<Longrightarrow> emits P Q (if b then m else n)"
  by simp

lemma emits_option: "(y = None \<Longrightarrow> emits P Q m) \<Longrightarrow> (\<And>x. y = Some x \<Longrightarrow> emits P Q (f x)) \<Longrightarrow> emits P Q (case y of None \<Rightarrow> m | Some x \<Rightarrow> f x)"
  by (simp split: option.split)

lemma emits_catching:
  assumes "emits P Q m" "\<And>e. emits P Q (h e)"
  shows "emits P Q (catching m h)"
  unfolding emits_def
proof (intro allI impI)
  fix l r l'
  assume run: "catching m h l = (r, l')"
  obtain a v where v: "m l = (a, v)" by fastforce
  show "(\<exists>ds. l' = l @ ds \<and> list_all P ds) \<and> (\<forall>x. r = Inr x \<longrightarrow> Q x)"
  proof (cases a)
    case (Inl e)
    then have h: "h e v = (r, l')" using run v by (simp add: catching_def)
    obtain ds where "v = l @ ds" "list_all P ds" using emitsD [OF assms(1) v] by blast
    moreover obtain ds' where "l' = v @ ds'" "list_all P ds'" "\<And>x. r = Inr x \<Longrightarrow> Q x" using emitsD [OF assms(2) h] by blast
    ultimately show ?thesis by auto
  next
    case (Inr x)
    then show ?thesis using run v emitsD [OF assms(1) v] by (auto simp: catching_def)
  qed
qed

lemma emits_finally:
  assumes "emits P Q m" "emits_only P c"
  shows "emits P Q (finally_do m c)"
  unfolding emits_def
proof (intro allI impI)
  fix l r l'
  assume run: "finally_do m c l = (r, l')"
  obtain a v where v: "m l = (a, v)" by fastforce
  obtain b u where u: "c v = (b, u)" by fastforce
  obtain ds where ds: "v = l @ ds" "list_all P ds" "\<And>x. a = Inr x \<Longrightarrow> Q x" using emitsD [OF assms(1) v] by blast
  obtain ds' where ds': "u = v @ ds'" "list_all P ds'" using emitsD [OF assms(2) u] by blast
  have "l' = u \<and> (r = a \<or> (\<exists>e. r = Inl e))" using run v u by (auto simp: finally_do_def split: sum.splits)
  then show "(\<exists>ds. l' = l @ ds \<and> list_all P ds) \<and> (\<forall>x. r = Inr x \<longrightarrow> Q x)" using ds ds' by auto
qed

lemma emits_fetchval: "P (Sql d q ps) \<Longrightarrow> (\<And>l rows. ag_sql env l d q ps = Inr rows \<Longrightarrow> Q (first_value rows)) \<Longrightarrow> emits P Q (fetchval env d q ps)"
  unfolding fetchval_def by (rule emits_bind [OF emits_execute [where Q = "\<lambda>rows. Q (first_value rows)"]]) (auto intro: emits_done)

lemma emits_admin: "P (Sql (st_database (ag_settings env)) q []) \<Longrightarrow> emits_only P (admin env q)"
  unfolding admin_def by (rule emits_execute) simp_all

lemma emits_run: "P (Run cmd pw input) \<Longrightarrow> emits_only P (run_tool env cmd pw input)"
  by (auto simp: emits_def run_tool_def)

lemma emits_store:
  "P (PutObject k x) \<Longrightarrow> emits_only P (upload_bytes env k x)" "P (GetObject k) \<Longrightarrow> emits_only P (download_bytes env k)"
  "P (DeleteObject k) \<Longrightarrow> emits_only P (delete_object env k)"
  by (auto simp: emits_def upload_bytes_def download_bytes_def delete_object_def)

end
