(* ===== verification/AG_Postgres.thy ===== *)
theory AG_Postgres
  imports AG_Model
begin

text \<open>
  The statements the agent sends: \<open>src/agent/app/postgres_admin.py\<close> and \<open>replication.py\<close>.
\<close>

section \<open>Identifiers and literals\<close>

definition validate_identifier :: "string \<Rightarrow> string agm" where
  "validate_identifier name = bindA (require (is_valid_identifier name) InvalidIdentifier) (\<lambda>_. done_with name)"

text \<open>Sorted, as the listing returns them.\<close>

definition allowed_extensions :: "string list" where
  "allowed_extensions = [''citext'', ''hstore'', ''pg_stat_statements'', ''pg_trgm'', ''pgcrypto'', ''uuid-ossp'']"

definition role_scopes :: "string list" where
  "role_scopes = [''app'', ''readonly'']"

definition maintenance :: "ag_env \<Rightarrow> string" where
  "maintenance env = st_database (ag_settings env)"

definition quoted_literal :: "ag_env \<Rightarrow> string \<Rightarrow> string agm" where
  "quoted_literal env v =
     bindA (fetchval env (maintenance env) ''SELECT quote_literal($1)'' [PgText v]) (\<lambda>q.
     done_with (python_str q))"

definition terminate_connections :: "ag_env \<Rightarrow> string \<Rightarrow> row list agm" where
  "terminate_connections env database_name =
     execute env (maintenance env)
       (''SELECT pg_terminate_backend(pid) FROM pg_stat_activity '' @ ''WHERE datname = $1 AND pid <> pg_backend_pid()'')
       [PgText database_name]"

definition connect_to_database :: "ag_env \<Rightarrow> string \<Rightarrow> string agm" where
  "connect_to_database env database_name =
     bindA (validate_identifier database_name) (\<lambda>name.
     (\<lambda>l. (case ag_connect env l name of Some e \<Rightarrow> Inl (AG_Postgres e) | None \<Rightarrow> Inr name, l)))"

section \<open>Databases\<close>

definition create_database :: "ag_env \<Rightarrow> string \<Rightarrow> string \<Rightarrow> string \<Rightarrow> unit agm" where
  "create_database env database_name role_name password =
     bindA (validate_identifier database_name) (\<lambda>database_name.
     bindA (validate_identifier role_name) (\<lambda>role_name.
     bindA (quoted_literal env password) (\<lambda>quoted_password.
     bindA (admin env (''CREATE ROLE \"'' @ role_name @ ''\" WITH LOGIN PASSWORD '' @ quoted_password)) (\<lambda>_.
     bindA (admin env (''CREATE DATABASE \"'' @ database_name @ ''\" OWNER \"'' @ role_name @ ''\"'')) (\<lambda>_.
     done_with ())))))"

definition drop_database :: "ag_env \<Rightarrow> string \<Rightarrow> string \<Rightarrow> unit agm" where
  "drop_database env database_name role_name =
     bindA (validate_identifier database_name) (\<lambda>database_name.
     bindA (validate_identifier role_name) (\<lambda>role_name.
     bindA (terminate_connections env database_name) (\<lambda>_.
     bindA (admin env (''DROP DATABASE IF EXISTS \"'' @ database_name @ ''\"'')) (\<lambda>_.
     bindA (admin env (''DROP ROLE IF EXISTS \"'' @ role_name @ ''\"'')) (\<lambda>_.
     done_with ())))))"

definition set_connection_limit :: "ag_env \<Rightarrow> string \<Rightarrow> int \<Rightarrow> unit agm" where
  "set_connection_limit env database_name limit =
     bindA (validate_identifier database_name) (\<lambda>database_name.
     bindA (require (\<not> limit < - 1) AG_ValueError) (\<lambda>_.
     bindA (admin env (''ALTER DATABASE \"'' @ database_name @ ''\" WITH CONNECTION LIMIT '' @ int_string limit)) (\<lambda>_.
     done_with ())))"

definition quiesce_for_migration :: "ag_env \<Rightarrow> string \<Rightarrow> string \<Rightarrow> unit agm" where
  "quiesce_for_migration env database_name role_name =
     bindA (validate_identifier database_name) (\<lambda>database_name.
     bindA (validate_identifier role_name) (\<lambda>_.
     bindA (fetchval env (maintenance env) ''SELECT current_user'' []) (\<lambda>admin_role.
     bindA (admin env (''ALTER DATABASE \"'' @ database_name @ ''\" OWNER TO \"'' @ python_str admin_role @ ''\"'')) (\<lambda>_.
     bindA (admin env (''REVOKE CONNECT ON DATABASE \"'' @ database_name @ ''\" FROM PUBLIC'')) (\<lambda>_.
     bindA (execute env (maintenance env)
              (''SELECT pg_terminate_backend(a.pid) FROM pg_stat_activity a '' @
               ''JOIN pg_roles r ON r.rolname = a.usename '' @
               ''WHERE a.datname = $1 AND a.pid <> pg_backend_pid() AND NOT r.rolsuper'') [PgText database_name]) (\<lambda>_.
     done_with ()))))))"

definition suspend_database :: "ag_env \<Rightarrow> string \<Rightarrow> unit agm" where
  "suspend_database env database_name =
     bindA (validate_identifier database_name) (\<lambda>database_name.
     bindA (admin env (''ALTER DATABASE \"'' @ database_name @ ''\" WITH ALLOW_CONNECTIONS false'')) (\<lambda>_.
     bindA (terminate_connections env database_name) (\<lambda>_.
     done_with ())))"

definition resume_database :: "ag_env \<Rightarrow> string \<Rightarrow> unit agm" where
  "resume_database env database_name =
     bindA (validate_identifier database_name) (\<lambda>database_name.
     bindA (admin env (''ALTER DATABASE \"'' @ database_name @ ''\" WITH ALLOW_CONNECTIONS true'')) (\<lambda>_.
     done_with ()))"

section \<open>Roles\<close>

definition owner_query :: string where
  "owner_query = ''SELECT pg_get_userbyid(datdba) FROM pg_database WHERE datname = current_database()''"

definition app_grants :: "string \<Rightarrow> string \<Rightarrow> string list" where
  "app_grants role_name owner_name =
     [''GRANT CREATE ON SCHEMA public TO \"'' @ role_name @ ''\"'',
      ''GRANT ALL PRIVILEGES ON ALL TABLES IN SCHEMA public TO \"'' @ role_name @ ''\"'',
      ''GRANT ALL PRIVILEGES ON ALL SEQUENCES IN SCHEMA public TO \"'' @ role_name @ ''\"'',
      ''ALTER DEFAULT PRIVILEGES FOR ROLE \"'' @ owner_name @ ''\" IN SCHEMA public '' @
        ''GRANT ALL PRIVILEGES ON TABLES TO \"'' @ role_name @ ''\"'',
      ''ALTER DEFAULT PRIVILEGES FOR ROLE \"'' @ owner_name @ ''\" IN SCHEMA public '' @
        ''GRANT ALL PRIVILEGES ON SEQUENCES TO \"'' @ role_name @ ''\"'']"

definition readonly_grants :: "string \<Rightarrow> string \<Rightarrow> string list" where
  "readonly_grants role_name owner_name =
     [''GRANT SELECT ON ALL TABLES IN SCHEMA public TO \"'' @ role_name @ ''\"'',
      ''ALTER DEFAULT PRIVILEGES FOR ROLE \"'' @ owner_name @ ''\" IN SCHEMA public '' @
        ''GRANT SELECT ON TABLES TO \"'' @ role_name @ ''\"'']"

definition grants :: "string \<Rightarrow> string \<Rightarrow> string \<Rightarrow> string \<Rightarrow> string list" where
  "grants scope database_name role_name owner_name =
     [''GRANT CONNECT ON DATABASE \"'' @ database_name @ ''\" TO \"'' @ role_name @ ''\"'',
      ''GRANT USAGE ON SCHEMA public TO \"'' @ role_name @ ''\"''] @
     (if scope = ''app'' then app_grants role_name owner_name else readonly_grants role_name owner_name)"

fun execute_all :: "ag_env \<Rightarrow> string \<Rightarrow> string list \<Rightarrow> unit agm" where
  "execute_all env d [] = done_with ()"
| "execute_all env d (q # qs) = bindA (execute env d q []) (\<lambda>_. execute_all env d qs)"

definition create_role_in_database :: "ag_env \<Rightarrow> string \<Rightarrow> string \<Rightarrow> string \<Rightarrow> string \<Rightarrow> unit agm" where
  "create_role_in_database env database_name role_name password scope =
     bindA (validate_identifier database_name) (\<lambda>database_name.
     bindA (validate_identifier role_name) (\<lambda>role_name.
     bindA (require (List.member role_scopes scope) AG_ValueError) (\<lambda>_.
     bindA (quoted_literal env password) (\<lambda>quoted_password.
     bindA (admin env (''CREATE ROLE \"'' @ role_name @ ''\" WITH LOGIN PASSWORD '' @ quoted_password)) (\<lambda>_.
     bindA (connect_to_database env database_name) (\<lambda>target.
     bindA (fetchval env target owner_query []) (\<lambda>owner_name.
     execute_all env target (grants scope database_name role_name (python_str owner_name)))))))))"

definition drop_role_in_database :: "ag_env \<Rightarrow> string \<Rightarrow> string \<Rightarrow> unit agm" where
  "drop_role_in_database env database_name role_name =
     bindA (validate_identifier database_name) (\<lambda>database_name.
     bindA (validate_identifier role_name) (\<lambda>role_name.
     bindA (connect_to_database env database_name) (\<lambda>target.
     bindA (execute env target
              (''SELECT pg_terminate_backend(pid) FROM pg_stat_activity '' @ ''WHERE usename = $1 AND pid <> pg_backend_pid()'')
              [PgText role_name]) (\<lambda>_.
     bindA (execute env target (''DROP OWNED BY \"'' @ role_name @ ''\"'') []) (\<lambda>_.
     bindA (admin env (''DROP ROLE IF EXISTS \"'' @ role_name @ ''\"'')) (\<lambda>_.
     done_with ()))))))"

definition rotate_role_password :: "ag_env \<Rightarrow> string \<Rightarrow> string \<Rightarrow> unit agm" where
  "rotate_role_password env role_name new_password =
     bindA (validate_identifier role_name) (\<lambda>role_name.
     bindA (quoted_literal env new_password) (\<lambda>quoted_password.
     bindA (admin env (''ALTER ROLE \"'' @ role_name @ ''\" WITH PASSWORD '' @ quoted_password)) (\<lambda>_.
     done_with ())))"

section \<open>Extensions, metrics and tables\<close>

definition validate_extension_name :: "string \<Rightarrow> string agm" where
  "validate_extension_name name = bindA (require (List.member allowed_extensions name) AG_ValueError) (\<lambda>_. done_with name)"

text \<open>A later row of the same name would win; the look-up reads the rows from the end.\<close>

definition installed_version :: "row list \<Rightarrow> string \<Rightarrow> pg_value option" where
  "installed_version rows name = map_of (rev (map (\<lambda>r. (cell 0 r, cell 1 r)) rows)) (PgText name)"

definition list_extensions :: "ag_env \<Rightarrow> string \<Rightarrow> (string \<times> bool \<times> pg_value) list agm" where
  "list_extensions env database_name =
     bindA (connect_to_database env database_name) (\<lambda>target.
     bindA (execute env target ''SELECT extname, extversion FROM pg_extension'' []) (\<lambda>installed.
     done_with (map (\<lambda>name. case installed_version installed name of
         None \<Rightarrow> (name, False, PgNull) | Some v \<Rightarrow> (name, True, v)) allowed_extensions)))"

definition install_extension :: "ag_env \<Rightarrow> string \<Rightarrow> string \<Rightarrow> unit agm" where
  "install_extension env database_name extension_name =
     bindA (validate_extension_name extension_name) (\<lambda>extension_name.
     bindA (connect_to_database env database_name) (\<lambda>target.
     bindA (execute env target (''CREATE EXTENSION IF NOT EXISTS \"'' @ extension_name @ ''\"'') []) (\<lambda>_.
     done_with ())))"

definition drop_extension :: "ag_env \<Rightarrow> string \<Rightarrow> string \<Rightarrow> unit agm" where
  "drop_extension env database_name extension_name =
     bindA (validate_extension_name extension_name) (\<lambda>extension_name.
     bindA (connect_to_database env database_name) (\<lambda>target.
     bindA (execute env target (''DROP EXTENSION IF EXISTS \"'' @ extension_name @ ''\"'') []) (\<lambda>_.
     done_with ())))"

definition to_int :: "pg_value \<Rightarrow> int option" where
  "to_int v = (case v of PgText s \<Rightarrow> python_int s | PgInt i \<Rightarrow> Some i | PgBool b \<Rightarrow> Some (if b then 1 else 0) | PgNull \<Rightarrow> None)"

definition get_database_metrics :: "ag_env \<Rightarrow> string \<Rightarrow> (pg_value \<times> pg_value \<times> int) agm" where
  "get_database_metrics env database_name =
     bindA (validate_identifier database_name) (\<lambda>database_name.
     bindA (fetchval env (maintenance env) ''SELECT pg_database_size($1)'' [PgText database_name]) (\<lambda>size_bytes.
     bindA (fetchval env (maintenance env) ''SELECT count(*) FROM pg_stat_activity WHERE datname = $1'' [PgText database_name]) (\<lambda>active_connections.
     bindA (fetchval env (maintenance env) ''SHOW max_connections'' []) (\<lambda>max_connections.
     case to_int max_connections of None \<Rightarrow> fail AG_ValueError
     | Some n \<Rightarrow> done_with (size_bytes, active_connections, n)))))"

record table_listing =
  tl_name :: pg_value
  tl_columns :: "(pg_value \<times> pg_value \<times> bool) list"
  tl_indexes :: "(pg_value \<times> pg_value) list"

definition tables_query :: string where
  "tables_query = ''SELECT table_name FROM information_schema.tables '' @ ''WHERE table_schema = 'public' ORDER BY table_name''"

definition columns_query :: string where
  "columns_query = ''SELECT column_name, data_type, is_nullable '' @ ''FROM information_schema.columns '' @
     ''WHERE table_schema = 'public' AND table_name = $1 '' @ ''ORDER BY ordinal_position''"

definition indexes_query :: string where
  "indexes_query = ''SELECT indexname, indexdef FROM pg_indexes '' @ ''WHERE schemaname = 'public' AND tablename = $1''"

fun describe_tables :: "ag_env \<Rightarrow> string \<Rightarrow> row list \<Rightarrow> table_listing list agm" where
  "describe_tables env target [] = done_with []"
| "describe_tables env target (table # tables) =
     bindA (execute env target columns_query [cell 0 table]) (\<lambda>columns.
     bindA (execute env target indexes_query [cell 0 table]) (\<lambda>indexes.
     bindA (describe_tables env target tables) (\<lambda>rest.
     done_with (\<lparr>tl_name = cell 0 table, tl_columns = map (\<lambda>c. (cell 0 c, cell 1 c, cell 2 c = PgText ''YES'')) columns,
                 tl_indexes = map (\<lambda>i. (cell 0 i, cell 1 i)) indexes\<rparr> # rest))))"

definition list_tables :: "ag_env \<Rightarrow> string \<Rightarrow> table_listing list agm" where
  "list_tables env database_name =
     bindA (connect_to_database env database_name) (\<lambda>target.
     bindA (execute env target tables_query []) (\<lambda>tables.
     describe_tables env target tables))"

section \<open>Replication\<close>

datatype replication_status =
    Primary "(pg_value \<times> pg_value \<times> pg_value \<times> pg_value \<times> int option) list"
  | Standby bool pg_value "int option"

text \<open>\<open>int()\<close> of a lag that is not null; a value that is no number raises.\<close>

definition lag_of :: "pg_value \<Rightarrow> int option agm" where
  "lag_of v = (if v = PgNull then done_with None
     else case to_int v of None \<Rightarrow> fail AG_ValueError | Some i \<Rightarrow> done_with (Some i))"

fun replicas_of :: "row list \<Rightarrow> (pg_value \<times> pg_value \<times> pg_value \<times> pg_value \<times> int option) list agm" where
  "replicas_of [] = done_with []"
| "replicas_of (r # rs) =
     bindA (lag_of (cell 4 r)) (\<lambda>lag.
     bindA (replicas_of rs) (\<lambda>rest.
     done_with ((cell 0 r, cell 1 r, cell 2 r, cell 3 r, lag) # rest)))"

definition replicas_query :: string where
  "replicas_query = ''SELECT application_name, client_addr::text AS client_addr, state, sync_state, '' @
     ''pg_wal_lsn_diff(pg_current_wal_lsn(), replay_lsn) AS lag_bytes '' @ ''FROM pg_stat_replication''"

definition get_replication_status :: "ag_env \<Rightarrow> replication_status agm" where
  "get_replication_status env =
     bindA (fetchval env (maintenance env) ''SELECT pg_is_in_recovery()'' []) (\<lambda>in_recovery.
     if \<not> truthy in_recovery then
       bindA (admin env replicas_query) (\<lambda>rows.
       bindA (replicas_of rows) (\<lambda>replicas.
       done_with (Primary replicas)))
     else
       bindA (admin env ''SELECT status, sender_host, sender_port FROM pg_stat_wal_receiver'') (\<lambda>receiver.
       bindA (fetchval env (maintenance env) ''SELECT pg_last_wal_receive_lsn()'' []) (\<lambda>last_receive_lsn.
       bindA (fetchval env (maintenance env) ''SELECT pg_last_wal_replay_lsn()'' []) (\<lambda>last_replay_lsn.
       bindA (if last_receive_lsn \<noteq> PgNull \<and> last_replay_lsn \<noteq> PgNull
              then bindA (fetchval env (maintenance env) ''SELECT pg_wal_lsn_diff($1, $2)'' [last_receive_lsn, last_replay_lsn]) lag_of
              else done_with None) (\<lambda>lag_bytes.
       done_with (Standby (receiver \<noteq> []) (case receiver of [] \<Rightarrow> PgNull | r # _ \<Rightarrow> cell 1 r) lag_bytes))))))"

text \<open>The polling loop of \<open>promote\<close>; its half seconds are exact in binary floating point.\<close>

definition polls_left :: "rat \<Rightarrow> rat \<Rightarrow> nat" where
  "polls_left wait_seconds elapsed = nat \<lceil>(wait_seconds - elapsed) * 2\<rceil>"

lemma polls_left_less: "elapsed < wait_seconds \<Longrightarrow> polls_left wait_seconds (elapsed + 1 / 2) < polls_left wait_seconds elapsed"
proof -
  assume "elapsed < wait_seconds"
  then have "0 < \<lceil>(wait_seconds - elapsed) * 2\<rceil>" by simp
  moreover have "(wait_seconds - (elapsed + 1 / 2)) * 2 = (wait_seconds - elapsed) * 2 - 1" by (simp add: algebra_simps)
  then have "\<lceil>(wait_seconds - (elapsed + 1 / 2)) * 2\<rceil> = \<lceil>(wait_seconds - elapsed) * 2\<rceil> - 1" by (simp only: ceiling_diff_one)
  ultimately show ?thesis by (simp add: polls_left_def)
qed

function await_promotion :: "ag_env \<Rightarrow> rat \<Rightarrow> rat \<Rightarrow> unit agm" where
  "await_promotion env wait_seconds elapsed =
     (if elapsed < wait_seconds
      then bindA (fetchval env (maintenance env) ''SELECT pg_is_in_recovery()'' []) (\<lambda>in_recovery.
           if \<not> truthy in_recovery then done_with () else await_promotion env wait_seconds (elapsed + 1 / 2))
      else fail AG_RuntimeError)"
  by pat_completeness auto

termination
  by (relation "measure (\<lambda>(env, wait_seconds, elapsed). polls_left wait_seconds elapsed)") (simp_all add: polls_left_less)

declare await_promotion.simps [simp del]

definition promote :: "ag_env \<Rightarrow> unit agm" where
  "promote env =
     bindA (admin env ''SELECT pg_promote(wait := false)'') (\<lambda>_.
     await_promotion env 15 0)"

end
