(* ===== verification/AG_Backup.thy ===== *)
theory AG_Backup
  imports AG_Postgres
begin

text \<open>
  Dumps, restores and the verification of backups: \<open>src/agent/app/backup.py\<close> and the settings of
  \<open>config.py\<close> it reads.
\<close>

definition dump_command_prefix :: "agent_settings \<Rightarrow> string list" where
  "dump_command_prefix s = filter (\<lambda>p. p \<noteq> []) (split_on (CHR '','') (st_command_prefix s))"

definition dump_command :: "agent_settings \<Rightarrow> string \<Rightarrow> string list" where
  "dump_command s database_name = dump_command_prefix s @
     [st_pg_dump_path s, ''-h'', st_pg_host s, ''-p'', int_string (st_pg_port s), ''-U'', st_admin_user s, ''-Fc'', database_name]"

definition dump_database :: "ag_env \<Rightarrow> string \<Rightarrow> string agm" where
  "dump_database env database_name =
     bindA (validate_identifier database_name) (\<lambda>database_name.
     run_tool env (dump_command (ag_settings env) database_name) (st_admin_password (ag_settings env)) None)"

definition restore_command :: "agent_settings \<Rightarrow> string \<Rightarrow> string option \<Rightarrow> string list" where
  "restore_command s database_name owner_role = dump_command_prefix s @
     [st_pg_restore_path s, ''-h'', st_pg_host s, ''-p'', int_string (st_pg_port s), ''-U'', st_admin_user s,
      ''-d'', database_name, ''--no-owner'',
      ''--role='' @ (case owner_role of None \<Rightarrow> st_admin_user s | Some r \<Rightarrow> if r = [] then st_admin_user s else r)]"

definition restore_dump :: "ag_env \<Rightarrow> string \<Rightarrow> string \<Rightarrow> string option \<Rightarrow> unit agm" where
  "restore_dump env database_name dump_bytes owner_role =
     bindA (validate_identifier database_name) (\<lambda>database_name.
     bindA (run_tool env (restore_command (ag_settings env) database_name owner_role)
              (st_admin_password (ag_settings env)) (Some dump_bytes)) (\<lambda>_.
     done_with ()))"

definition create_encrypted_backup :: "ag_env \<Rightarrow> string \<Rightarrow> string agm" where
  "create_encrypted_backup env database_name =
     bindA (dump_database env database_name) (\<lambda>raw.
     done_with (ag_encrypt env raw))"

definition fernet_decrypt :: "ag_env \<Rightarrow> string \<Rightarrow> string agm" where
  "fernet_decrypt env token = (case ag_decrypt env token of None \<Rightarrow> fail AG_InvalidToken | Some raw \<Rightarrow> done_with raw)"

definition restore_encrypted_backup :: "ag_env \<Rightarrow> string \<Rightarrow> string \<Rightarrow> string option \<Rightarrow> unit agm" where
  "restore_encrypted_backup env database_name encrypted_bytes owner_role =
     bindA (fernet_decrypt env encrypted_bytes) (\<lambda>raw.
     restore_dump env database_name raw owner_role)"

definition count_query :: string where
  "count_query = ''SELECT count(*) FROM information_schema.tables WHERE table_schema = 'public'' @ [CHR 0x27]"

definition check_restored :: "ag_env \<Rightarrow> string \<Rightarrow> string \<Rightarrow> (bool \<times> string) agm" where
  "check_restored env temp_db encrypted_bytes =
     bindA (fernet_decrypt env encrypted_bytes) (\<lambda>raw.
     bindA (restore_dump env temp_db raw None) (\<lambda>_.
     bindA (connect_to_database env temp_db) (\<lambda>check_conn.
     bindA (fetchval env check_conn count_query []) (\<lambda>table_count.
     done_with (True, ''Restored successfully; '' @ python_str table_count @ '' table(s) found'')))))"

definition verify_in :: "ag_env \<Rightarrow> string \<Rightarrow> string \<Rightarrow> (bool \<times> string) agm" where
  "verify_in env temp_db encrypted_bytes =
     bindA (admin env (''CREATE DATABASE \"'' @ temp_db @ ''\"'')) (\<lambda>_.
     finally_do
       (catching (check_restored env temp_db encrypted_bytes) (\<lambda>e. done_with (False, take 2000 (ag_error_text env e))))
       (admin env (''DROP DATABASE IF EXISTS \"'' @ temp_db @ ''\" WITH (FORCE)'')))"

definition verify_encrypted_backup :: "ag_env \<Rightarrow> string \<Rightarrow> (bool \<times> string) agm" where
  "verify_encrypted_backup env encrypted_bytes l =
     verify_in env (''verify_'' @ take 16 (ag_hex env l)) encrypted_bytes l"

end
