(* ===== verification/AG_Api.thy ===== *)
theory AG_Api
  imports AG_Backup
begin

text \<open>
  The agent's HTTP surface, \<open>src/agent/app/main.py\<close>, with the bodies of \<open>schemas.py\<close>.
  An exception no handler names is answered with status 500.
\<close>

definition length_between :: "nat \<Rightarrow> nat \<Rightarrow> string \<Rightarrow> bool" where
  "length_between lo hi s \<longleftrightarrow> lo \<le> length s \<and> length s \<le> hi"

definition name_ok :: "string \<Rightarrow> bool" where "name_ok s = length_between 3 63 s"
definition password_ok :: "string \<Rightarrow> bool" where "password_ok s \<longleftrightarrow> 8 \<le> length s"
definition storage_key_ok :: "string \<Rightarrow> bool" where "storage_key_ok s = length_between 1 512 s"

definition answering :: "bool \<Rightarrow> (ag_exn \<Rightarrow> nat) \<Rightarrow> 'a agm \<Rightarrow> 'a agm" where
  "answering valid code m = bindA (require valid (AG_HTTP 422)) (\<lambda>_. catching m (\<lambda>e. fail (AG_HTTP (code e))))"

definition identifier_400 :: "ag_exn \<Rightarrow> nat" where
  "identifier_400 e = (if e = InvalidIdentifier then 400 else 500)"

definition value_400 :: "ag_exn \<Rightarrow> nat" where
  "value_400 e = (if e = InvalidIdentifier \<or> e = AG_ValueError then 400 else 500)"

definition backup_400 :: "ag_exn \<Rightarrow> nat" where
  "backup_400 e = (if e = InvalidIdentifier \<or> e = AG_RuntimeError then 400 else 500)"

definition restore_502 :: "ag_exn \<Rightarrow> nat" where
  "restore_502 e = (if e = InvalidIdentifier then 400 else if e = AG_RuntimeError then 502 else 500)"

definition no_handler :: "ag_exn \<Rightarrow> nat" where "no_handler e = 500"

definition forgiving :: "unit agm \<Rightarrow> unit agm" where
  "forgiving m = catching m (\<lambda>e. if e = AG_Postgres DuplicateDatabase then done_with () else fail e)"

definition provision_database :: "ag_env \<Rightarrow> string \<Rightarrow> string \<Rightarrow> string \<Rightarrow> string agm" where
  "provision_database env database_name role_name password =
     answering (name_ok database_name \<and> name_ok role_name \<and> password_ok password) identifier_400
       (bindA (forgiving (create_database env database_name role_name password)) (\<lambda>_. done_with ''created''))"

definition delete_database_endpoint :: "ag_env \<Rightarrow> string \<Rightarrow> string \<Rightarrow> string agm" where
  "delete_database_endpoint env database_name role_name =
     answering True identifier_400 (bindA (drop_database env database_name role_name) (\<lambda>_. done_with ''deleted''))"

definition suspend_database_endpoint :: "ag_env \<Rightarrow> string \<Rightarrow> string agm" where
  "suspend_database_endpoint env database_name =
     answering True identifier_400
       (bindA (validate_identifier database_name) (\<lambda>_. bindA (suspend_database env database_name) (\<lambda>_. done_with ''suspended'')))"

definition resume_database_endpoint :: "ag_env \<Rightarrow> string \<Rightarrow> string agm" where
  "resume_database_endpoint env database_name =
     answering True identifier_400
       (bindA (validate_identifier database_name) (\<lambda>_. bindA (resume_database env database_name) (\<lambda>_. done_with ''running'')))"

definition set_connection_limit_endpoint :: "ag_env \<Rightarrow> string \<Rightarrow> int \<Rightarrow> string agm" where
  "set_connection_limit_endpoint env database_name limit =
     answering (- 1 \<le> limit) value_400 (bindA (set_connection_limit env database_name limit) (\<lambda>_. done_with ''resized''))"

definition quiesce_endpoint :: "ag_env \<Rightarrow> string \<Rightarrow> string \<Rightarrow> string agm" where
  "quiesce_endpoint env database_name role_name =
     answering (name_ok role_name) identifier_400
       (bindA (quiesce_for_migration env database_name role_name) (\<lambda>_. done_with ''quiesced''))"

text \<open>The pattern of \<open>CreateRoleRequest.scope\<close> is pydantic's, whose \<open>$\<close> matches at the end only.\<close>

definition create_role_endpoint :: "ag_env \<Rightarrow> string \<Rightarrow> string \<Rightarrow> string \<Rightarrow> string \<Rightarrow> string agm" where
  "create_role_endpoint env database_name role_name password scope =
     answering (name_ok role_name \<and> password_ok password \<and> List.member role_scopes scope) value_400
       (bindA (create_role_in_database env database_name role_name password scope) (\<lambda>_. done_with ''created''))"

definition delete_role_endpoint :: "ag_env \<Rightarrow> string \<Rightarrow> string \<Rightarrow> string agm" where
  "delete_role_endpoint env database_name role_name =
     answering True identifier_400 (bindA (drop_role_in_database env database_name role_name) (\<lambda>_. done_with ''deleted''))"

definition rotate_role_endpoint :: "ag_env \<Rightarrow> string \<Rightarrow> string \<Rightarrow> string \<Rightarrow> string agm" where
  "rotate_role_endpoint env database_name role_name password =
     answering (password_ok password) identifier_400
       (bindA (validate_identifier database_name) (\<lambda>_. bindA (rotate_role_password env role_name password) (\<lambda>_. done_with ''rotated'')))"

definition list_extensions_endpoint :: "ag_env \<Rightarrow> string \<Rightarrow> (string \<times> bool \<times> pg_value) list agm" where
  "list_extensions_endpoint env database_name = answering True identifier_400 (list_extensions env database_name)"

definition install_extension_endpoint :: "ag_env \<Rightarrow> string \<Rightarrow> string \<Rightarrow> string agm" where
  "install_extension_endpoint env database_name name =
     answering (length_between 2 63 name) value_400 (bindA (install_extension env database_name name) (\<lambda>_. done_with ''installed''))"

definition drop_extension_endpoint :: "ag_env \<Rightarrow> string \<Rightarrow> string \<Rightarrow> string agm" where
  "drop_extension_endpoint env database_name extension_name =
     answering True value_400 (bindA (drop_extension env database_name extension_name) (\<lambda>_. done_with ''dropped''))"

definition metrics_endpoint :: "ag_env \<Rightarrow> string \<Rightarrow> (pg_value \<times> pg_value \<times> int) agm" where
  "metrics_endpoint env database_name = answering True identifier_400 (get_database_metrics env database_name)"

definition tables_endpoint :: "ag_env \<Rightarrow> string \<Rightarrow> table_listing list agm" where
  "tables_endpoint env database_name = answering True identifier_400 (list_tables env database_name)"

text \<open>The upload is outside of the handler's \<open>try\<close>.\<close>

definition backup_endpoint :: "ag_env \<Rightarrow> string \<Rightarrow> string \<Rightarrow> nat agm" where
  "backup_endpoint env database_name storage_key =
     bindA (answering (storage_key_ok storage_key) backup_400 (create_encrypted_backup env database_name)) (\<lambda>encrypted.
     answering True no_handler (bindA (upload_bytes env storage_key encrypted) (\<lambda>_. done_with (length encrypted))))"

definition restore_endpoint :: "ag_env \<Rightarrow> string \<Rightarrow> string \<Rightarrow> string \<Rightarrow> string \<Rightarrow> string agm" where
  "restore_endpoint env database_name storage_key role_name password =
     answering (storage_key_ok storage_key \<and> name_ok role_name \<and> password_ok password) restore_502
       (bindA (forgiving
          (bindA (create_database env database_name role_name password) (\<lambda>_.
           bindA (download_bytes env storage_key) (\<lambda>encrypted.
           restore_encrypted_backup env database_name encrypted (Some role_name))))) (\<lambda>_.
        done_with ''restored''))"

definition verify_backup_endpoint :: "ag_env \<Rightarrow> string \<Rightarrow> (bool \<times> string) agm" where
  "verify_backup_endpoint env storage_key =
     answering (storage_key_ok storage_key) no_handler
       (bindA (download_bytes env storage_key) (\<lambda>encrypted. verify_encrypted_backup env encrypted))"

definition delete_backup_object_endpoint :: "ag_env \<Rightarrow> string \<Rightarrow> string agm" where
  "delete_backup_object_endpoint env storage_key =
     answering True no_handler (bindA (delete_object env storage_key) (\<lambda>_. done_with ''deleted''))"

definition replication_status_endpoint :: "ag_env \<Rightarrow> replication_status agm" where
  "replication_status_endpoint env = answering True no_handler (get_replication_status env)"

definition promote_endpoint :: "ag_env \<Rightarrow> string agm" where
  "promote_endpoint env = answering True no_handler (bindA (promote env) (\<lambda>_. done_with ''promoted''))"

section \<open>Every request\<close>

datatype agent_request =
    ProvisionRequest string string string
  | DeleteRequest string string
  | SuspendDb string
  | ResumeDb string
  | LimitRequest string int
  | QuiesceDb string string
  | CreateRoleRequest string string string string
  | DeleteRoleRequest string string
  | RotateRoleRequest string string string
  | ExtensionsRequest string
  | InstallRequest string string
  | DropExtensionRequest string string
  | MetricsRequest string
  | TablesRequest string
  | BackupDb string string
  | RestoreDb string string string string
  | VerifyDb string
  | DeleteObjectRequest string
  | ReplicationRequest
  | PromoteRequest

definition ignoring :: "'a agm \<Rightarrow> unit agm" where
  "ignoring m = bindA m (\<lambda>_. done_with ())"

fun agent_endpoint :: "ag_env \<Rightarrow> agent_request \<Rightarrow> unit agm" where
  "agent_endpoint env (ProvisionRequest d r p) = ignoring (provision_database env d r p)"
| "agent_endpoint env (DeleteRequest d r) = ignoring (delete_database_endpoint env d r)"
| "agent_endpoint env (SuspendDb d) = ignoring (suspend_database_endpoint env d)"
| "agent_endpoint env (ResumeDb d) = ignoring (resume_database_endpoint env d)"
| "agent_endpoint env (LimitRequest d n) = ignoring (set_connection_limit_endpoint env d n)"
| "agent_endpoint env (QuiesceDb d r) = ignoring (quiesce_endpoint env d r)"
| "agent_endpoint env (CreateRoleRequest d r p s) = ignoring (create_role_endpoint env d r p s)"
| "agent_endpoint env (DeleteRoleRequest d r) = ignoring (delete_role_endpoint env d r)"
| "agent_endpoint env (RotateRoleRequest d r p) = ignoring (rotate_role_endpoint env d r p)"
| "agent_endpoint env (ExtensionsRequest d) = ignoring (list_extensions_endpoint env d)"
| "agent_endpoint env (InstallRequest d n) = ignoring (install_extension_endpoint env d n)"
| "agent_endpoint env (DropExtensionRequest d n) = ignoring (drop_extension_endpoint env d n)"
| "agent_endpoint env (MetricsRequest d) = ignoring (metrics_endpoint env d)"
| "agent_endpoint env (TablesRequest d) = ignoring (tables_endpoint env d)"
| "agent_endpoint env (BackupDb d k) = ignoring (backup_endpoint env d k)"
| "agent_endpoint env (RestoreDb d k r p) = ignoring (restore_endpoint env d k r p)"
| "agent_endpoint env (VerifyDb k) = ignoring (verify_backup_endpoint env k)"
| "agent_endpoint env (DeleteObjectRequest k) = ignoring (delete_backup_object_endpoint env k)"
| "agent_endpoint env ReplicationRequest = ignoring (replication_status_endpoint env)"
| "agent_endpoint env PromoteRequest = ignoring (promote_endpoint env)"

end
