(* ===== verification/AG_Safety.thy ===== *)
theory AG_Safety
  imports AG_Api
begin

text \<open>
  What holds of every request the agent serves: the structure of the SQL it sends does not depend on
  the request, promotion ends, a backup that is restored is the one that was taken, and a
  verification removes what it made.
\<close>

section \<open>The structure of a statement\<close>

text \<open>A statement with the insides of its quoted identifiers and literals taken out, and its digits;
  \<open>None\<close> when a quote is left open.\<close>

datatype lexer = Outside | InIdentifier | InLiteral

fun skeleton :: "lexer \<Rightarrow> string \<Rightarrow> string option" where
  "skeleton Outside [] = Some []"
| "skeleton InIdentifier [] = None"
| "skeleton InLiteral [] = None"
| "skeleton Outside (c # cs) =
     (if c = CHR 0x22 then map_option (Cons c) (skeleton InIdentifier cs)
      else if c = CHR 0x27 then map_option (Cons c) (skeleton InLiteral cs)
      else if is_digit c then skeleton Outside cs
      else map_option (Cons c) (skeleton Outside cs))"
| "skeleton InIdentifier (c # cs) =
     (if c \<noteq> CHR 0x22 then skeleton InIdentifier cs
      else case cs of [] \<Rightarrow> Some [c]
         | d # ds \<Rightarrow> if d = CHR 0x22 then skeleton InIdentifier ds else map_option (Cons c) (skeleton Outside cs))"
| "skeleton InLiteral (c # cs) =
     (if c \<noteq> CHR 0x27 then skeleton InLiteral cs
      else case cs of [] \<Rightarrow> Some [c]
         | d # ds \<Rightarrow> if d = CHR 0x27 then skeleton InLiteral ds else map_option (Cons c) (skeleton Outside cs))"

text \<open>A character that can neither end a quoted identifier nor be taken for the end of one.\<close>

definition plain :: "string \<Rightarrow> bool" where
  "plain s \<longleftrightarrow> CHR 0x22 \<notin> set s"

lemma skeleton_plain: "plain s \<Longrightarrow> skeleton InIdentifier (s @ cs) = skeleton InIdentifier cs"
  by (induction s) (auto simp: plain_def)

lemma valid_identifier_plain: "is_valid_identifier s \<Longrightarrow> plain s"
  unfolding plain_def using valid_identifier_chars [of s "CHR 0x22"] by (auto simp: is_word_def is_lower_def)

lemma skeleton_digits: "list_all is_digit s \<Longrightarrow> skeleton Outside (s @ cs) = skeleton Outside cs"
  by (induction s) (auto dest: is_digit_facts)

text \<open>The literals \<open>quote_literal\<close> writes: quotes doubled, and an \<open>E\<close> in front when the value has
  backslashes.\<close>

definition quoted :: "string \<Rightarrow> bool" where
  "quoted q \<longleftrightarrow> skeleton Outside q = Some [CHR 0x27, CHR 0x27] \<or> skeleton Outside q = Some [CHR ''E'', CHR 0x27, CHR 0x27]"

definition own_name_query :: string where
  "own_name_query = ''SELECT current_user''"

text \<open>PostgreSQL as far as the structure of statements depends on it: \<open>quote_literal\<close> returns a
  literal, and the administrator and the owners of the databases have names without double quotes.\<close>

definition quoting_server :: "ag_env \<Rightarrow> bool" where
  "quoting_server env \<longleftrightarrow>
     (\<forall>l d v rows. ag_sql env l d ''SELECT quote_literal($1)'' [v] = Inr rows \<longrightarrow> quoted (python_str (first_value rows))) \<and>
     (\<forall>l d rows. ag_sql env l d own_name_query [] = Inr rows \<longrightarrow> plain (python_str (first_value rows))) \<and>
     (\<forall>l d rows. ag_sql env l d owner_query [] = Inr rows \<longrightarrow> plain (python_str (first_value rows)))"

text \<open>One example of every statement the agent ever sends.\<close>

definition constant_statements :: "string list" where
  "constant_statements =
     [''SELECT quote_literal($1)'',
      ''SELECT pg_terminate_backend(pid) FROM pg_stat_activity WHERE datname = $1 AND pid <> pg_backend_pid()'',
      ''SELECT pg_terminate_backend(pid) FROM pg_stat_activity WHERE usename = $1 AND pid <> pg_backend_pid()'',
      ''SELECT pg_terminate_backend(a.pid) FROM pg_stat_activity a JOIN pg_roles r ON r.rolname = a.usename '' @
        ''WHERE a.datname = $1 AND a.pid <> pg_backend_pid() AND NOT r.rolsuper'',
      own_name_query, owner_query, tables_query, columns_query, indexes_query, replicas_query, count_query,
      ''SELECT extname, extversion FROM pg_extension'',
      ''SELECT pg_database_size($1)'',
      ''SELECT count(*) FROM pg_stat_activity WHERE datname = $1'',
      ''SHOW max_connections'',
      ''SELECT pg_is_in_recovery()'',
      ''SELECT status, sender_host, sender_port FROM pg_stat_wal_receiver'',
      ''SELECT pg_last_wal_receive_lsn()'',
      ''SELECT pg_last_wal_replay_lsn()'',
      ''SELECT pg_wal_lsn_diff($1, $2)'',
      ''SELECT pg_promote(wait := false)'']"

definition definition_statements :: "string list" where
  "definition_statements =
     [''CREATE ROLE \"r\" WITH LOGIN PASSWORD '' @ [CHR 0x27, CHR ''p'', CHR 0x27],
      ''CREATE ROLE \"r\" WITH LOGIN PASSWORD '' @ [CHR ''E'', CHR 0x27, CHR ''p'', CHR 0x27],
      ''ALTER ROLE \"r\" WITH PASSWORD '' @ [CHR 0x27, CHR ''p'', CHR 0x27],
      ''ALTER ROLE \"r\" WITH PASSWORD '' @ [CHR ''E'', CHR 0x27, CHR ''p'', CHR 0x27],
      ''CREATE DATABASE \"d\" OWNER \"r\"'',
      ''CREATE DATABASE \"d\"'',
      ''DROP DATABASE IF EXISTS \"d\"'',
      ''DROP DATABASE IF EXISTS \"d\" WITH (FORCE)'',
      ''DROP ROLE IF EXISTS \"r\"'',
      ''DROP OWNED BY \"r\"'',
      ''ALTER DATABASE \"d\" WITH CONNECTION LIMIT 9'',
      ''ALTER DATABASE \"d\" WITH CONNECTION LIMIT -1'',
      ''ALTER DATABASE \"d\" WITH ALLOW_CONNECTIONS false'',
      ''ALTER DATABASE \"d\" WITH ALLOW_CONNECTIONS true'',
      ''ALTER DATABASE \"d\" OWNER TO \"r\"'',
      ''REVOKE CONNECT ON DATABASE \"d\" FROM PUBLIC'',
      ''CREATE EXTENSION IF NOT EXISTS \"e\"'',
      ''DROP EXTENSION IF EXISTS \"e\"''] @
     grants ''app'' ''d'' ''r'' ''o'' @ grants ''readonly'' ''d'' ''r'' ''o''"

definition known_structure :: "string \<Rightarrow> bool" where
  "known_structure q \<longleftrightarrow> (\<exists>t\<in>set (constant_statements @ definition_statements). skeleton Outside q = skeleton Outside t)"

definition tame :: "deed \<Rightarrow> bool" where
  "tame d = (case d of Sql _ q _ \<Rightarrow> known_structure q | _ \<Rightarrow> True)"

lemma known_constant: "q \<in> set constant_statements \<Longrightarrow> known_structure q"
  by (auto simp: known_structure_def)

lemma known_definition: "t \<in> set definition_statements \<Longrightarrow> skeleton Outside q = skeleton Outside t \<Longrightarrow> known_structure q"
  by (auto simp: known_structure_def)

text \<open>The statements with a parameter, one by one.\<close>

lemmas skeleton_simps = skeleton_plain is_digit_def definition_statements_def

lemma known_with_password:
  assumes "plain r" "quoted q"
  shows "known_structure (''CREATE ROLE \"'' @ r @ ''\" WITH LOGIN PASSWORD '' @ q)"
    "known_structure (''ALTER ROLE \"'' @ r @ ''\" WITH PASSWORD '' @ q)"
proof -
  have "skeleton Outside q = Some [CHR 0x27, CHR 0x27] \<or> skeleton Outside q = Some [CHR ''E'', CHR 0x27, CHR 0x27]"
    using assms(2) by (simp add: quoted_def)
  then show "known_structure (''CREATE ROLE \"'' @ r @ ''\" WITH LOGIN PASSWORD '' @ q)"
  proof
    assume "skeleton Outside q = Some [CHR 0x27, CHR 0x27]"
    then show ?thesis
      using assms(1) by (intro known_definition [of "''CREATE ROLE \"r\" WITH LOGIN PASSWORD '' @ [CHR 0x27, CHR ''p'', CHR 0x27]"]) (simp_all add: skeleton_simps)
  next
    assume "skeleton Outside q = Some [CHR ''E'', CHR 0x27, CHR 0x27]"
    then show ?thesis
      using assms(1) by (intro known_definition [of "''CREATE ROLE \"r\" WITH LOGIN PASSWORD '' @ [CHR ''E'', CHR 0x27, CHR ''p'', CHR 0x27]"]) (simp_all add: skeleton_simps)
  qed
  have "skeleton Outside q = Some [CHR 0x27, CHR 0x27] \<or> skeleton Outside q = Some [CHR ''E'', CHR 0x27, CHR 0x27]"
    using assms(2) by (simp add: quoted_def)
  then show "known_structure (''ALTER ROLE \"'' @ r @ ''\" WITH PASSWORD '' @ q)"
  proof
    assume "skeleton Outside q = Some [CHR 0x27, CHR 0x27]"
    then show ?thesis
      using assms(1) by (intro known_definition [of "''ALTER ROLE \"r\" WITH PASSWORD '' @ [CHR 0x27, CHR ''p'', CHR 0x27]"]) (simp_all add: skeleton_simps)
  next
    assume "skeleton Outside q = Some [CHR ''E'', CHR 0x27, CHR 0x27]"
    then show ?thesis
      using assms(1) by (intro known_definition [of "''ALTER ROLE \"r\" WITH PASSWORD '' @ [CHR ''E'', CHR 0x27, CHR ''p'', CHR 0x27]"]) (simp_all add: skeleton_simps)
  qed
qed

lemma known_named:
  assumes "plain d" "plain r"
  shows "known_structure (''CREATE DATABASE \"'' @ d @ ''\" OWNER \"'' @ r @ ''\"'')"
    "known_structure (''ALTER DATABASE \"'' @ d @ ''\" OWNER TO \"'' @ r @ ''\"'')"
    "known_structure (''CREATE DATABASE \"'' @ d @ ''\"'')"
    "known_structure (''DROP DATABASE IF EXISTS \"'' @ d @ ''\"'')"
    "known_structure (''DROP DATABASE IF EXISTS \"'' @ d @ ''\" WITH (FORCE)'')"
    "known_structure (''ALTER DATABASE \"'' @ d @ ''\" WITH ALLOW_CONNECTIONS false'')"
    "known_structure (''ALTER DATABASE \"'' @ d @ ''\" WITH ALLOW_CONNECTIONS true'')"
    "known_structure (''REVOKE CONNECT ON DATABASE \"'' @ d @ ''\" FROM PUBLIC'')"
    "known_structure (''DROP ROLE IF EXISTS \"'' @ d @ ''\"'')"
    "known_structure (''DROP OWNED BY \"'' @ d @ ''\"'')"
    "known_structure (''CREATE EXTENSION IF NOT EXISTS \"'' @ d @ ''\"'')"
    "known_structure (''DROP EXTENSION IF EXISTS \"'' @ d @ ''\"'')"
proof -
  show "known_structure (''CREATE DATABASE \"'' @ d @ ''\" OWNER \"'' @ r @ ''\"'')"
    using assms by (intro known_definition [of "''CREATE DATABASE \"d\" OWNER \"r\"''"]) (simp_all add: skeleton_simps)
  show "known_structure (''ALTER DATABASE \"'' @ d @ ''\" OWNER TO \"'' @ r @ ''\"'')"
    using assms by (intro known_definition [of "''ALTER DATABASE \"d\" OWNER TO \"r\"''"]) (simp_all add: skeleton_simps)
  show "known_structure (''CREATE DATABASE \"'' @ d @ ''\"'')"
    using assms by (intro known_definition [of "''CREATE DATABASE \"d\"''"]) (simp_all add: skeleton_simps)
  show "known_structure (''DROP DATABASE IF EXISTS \"'' @ d @ ''\"'')"
    using assms by (intro known_definition [of "''DROP DATABASE IF EXISTS \"d\"''"]) (simp_all add: skeleton_simps)
  show "known_structure (''DROP DATABASE IF EXISTS \"'' @ d @ ''\" WITH (FORCE)'')"
    using assms by (intro known_definition [of "''DROP DATABASE IF EXISTS \"d\" WITH (FORCE)''"]) (simp_all add: skeleton_simps)
  show "known_structure (''ALTER DATABASE \"'' @ d @ ''\" WITH ALLOW_CONNECTIONS false'')"
    using assms by (intro known_definition [of "''ALTER DATABASE \"d\" WITH ALLOW_CONNECTIONS false''"]) (simp_all add: skeleton_simps)
  show "known_structure (''ALTER DATABASE \"'' @ d @ ''\" WITH ALLOW_CONNECTIONS true'')"
    using assms by (intro known_definition [of "''ALTER DATABASE \"d\" WITH ALLOW_CONNECTIONS true''"]) (simp_all add: skeleton_simps)
  show "known_structure (''REVOKE CONNECT ON DATABASE \"'' @ d @ ''\" FROM PUBLIC'')"
    using assms by (intro known_definition [of "''REVOKE CONNECT ON DATABASE \"d\" FROM PUBLIC''"]) (simp_all add: skeleton_simps)
  show "known_structure (''DROP ROLE IF EXISTS \"'' @ d @ ''\"'')"
    using assms by (intro known_definition [of "''DROP ROLE IF EXISTS \"r\"''"]) (simp_all add: skeleton_simps)
  show "known_structure (''DROP OWNED BY \"'' @ d @ ''\"'')"
    using assms by (intro known_definition [of "''DROP OWNED BY \"r\"''"]) (simp_all add: skeleton_simps)
  show "known_structure (''CREATE EXTENSION IF NOT EXISTS \"'' @ d @ ''\"'')"
    using assms by (intro known_definition [of "''CREATE EXTENSION IF NOT EXISTS \"e\"''"]) (simp_all add: skeleton_simps)
  show "known_structure (''DROP EXTENSION IF EXISTS \"'' @ d @ ''\"'')"
    using assms by (intro known_definition [of "''DROP EXTENSION IF EXISTS \"e\"''"]) (simp_all add: skeleton_simps)
qed

lemma known_limit:
  assumes "plain d"
  shows "known_structure (''ALTER DATABASE \"'' @ d @ ''\" WITH CONNECTION LIMIT '' @ int_string n)"
proof (cases "n < 0")
  case True
  have "skeleton Outside (nat_string (nat (- n))) = Some []"
    using skeleton_digits [OF nat_string_digits, of "nat (- n)" "[]"] by simp
  then show ?thesis using assms True
    by (intro known_definition [of "''ALTER DATABASE \"d\" WITH CONNECTION LIMIT -1''"]) (simp_all add: skeleton_simps int_string_def)
next
  case False
  have "skeleton Outside (nat_string (nat n)) = Some []"
    using skeleton_digits [OF nat_string_digits, of "nat n" "[]"] by simp
  then show ?thesis using assms False
    by (intro known_definition [of "''ALTER DATABASE \"d\" WITH CONNECTION LIMIT 9''"]) (simp_all add: skeleton_simps int_string_def)
qed

lemma list_all2_left: "list_all2 P xs ys \<Longrightarrow> x \<in> set xs \<Longrightarrow> \<exists>y\<in>set ys. P x y"
  by (induction rule: list_all2_induct) auto

lemma known_grants:
  assumes "plain d" "plain r" "plain ow"
  shows "list_all known_structure (grants scope d r ow)"
proof -
  have k: "known_structure q" if "list_all2 (\<lambda>q t. skeleton Outside q = skeleton Outside t) qs (grants sc ''d'' ''r'' ''o'')"
      "q \<in> set qs" "sc \<in> {''app'', ''readonly''}" for q qs sc
  proof -
    note given = that
    obtain t where "t \<in> set (grants sc ''d'' ''r'' ''o'')" "skeleton Outside q = skeleton Outside t"
      using list_all2_left [OF given(1,2)] by blast
    then show ?thesis using given(3) by (intro known_definition [of t]) (auto simp: definition_statements_def)
  qed
  have "list_all2 (\<lambda>q t. skeleton Outside q = skeleton Outside t) (grants scope d r ow) (grants ''app'' ''d'' ''r'' ''o'')" if "scope = ''app''"
    using assms that by (simp add: grants_def app_grants_def skeleton_plain is_digit_def)
  moreover have "list_all2 (\<lambda>q t. skeleton Outside q = skeleton Outside t) (grants scope d r ow) (grants ''readonly'' ''d'' ''r'' ''o'')" if "scope \<noteq> ''app''"
    using assms that by (simp add: grants_def readonly_grants_def skeleton_plain is_digit_def)
  ultimately show ?thesis unfolding list_all_iff using k by (cases "scope = ''app''") blast+
qed

lemma known_constants:
  "known_structure ''SELECT quote_literal($1)''"
  "known_structure (''SELECT pg_terminate_backend(pid) FROM pg_stat_activity '' @ ''WHERE datname = $1 AND pid <> pg_backend_pid()'')"
  "known_structure (''SELECT pg_terminate_backend(pid) FROM pg_stat_activity '' @ ''WHERE usename = $1 AND pid <> pg_backend_pid()'')"
  "known_structure (''SELECT pg_terminate_backend(a.pid) FROM pg_stat_activity a '' @ ''JOIN pg_roles r ON r.rolname = a.usename '' @
               ''WHERE a.datname = $1 AND a.pid <> pg_backend_pid() AND NOT r.rolsuper'')"
  "known_structure ''SELECT current_user''" "known_structure owner_query" "known_structure tables_query"
  "known_structure columns_query" "known_structure indexes_query" "known_structure replicas_query" "known_structure count_query"
  "known_structure ''SELECT extname, extversion FROM pg_extension''" "known_structure ''SELECT pg_database_size($1)''"
  "known_structure ''SELECT count(*) FROM pg_stat_activity WHERE datname = $1''" "known_structure ''SHOW max_connections''"
  "known_structure ''SELECT pg_is_in_recovery()''" "known_structure ''SELECT status, sender_host, sender_port FROM pg_stat_wal_receiver''"
  "known_structure ''SELECT pg_last_wal_receive_lsn()''" "known_structure ''SELECT pg_last_wal_replay_lsn()''"
  "known_structure ''SELECT pg_wal_lsn_diff($1, $2)''" "known_structure ''SELECT pg_promote(wait := false)''"
  by (rule known_constant, simp add: constant_statements_def own_name_query_def)+


section \<open>Every statement of every request\<close>

lemma tame_sql: "known_structure q \<Longrightarrow> tame (Sql d q ps)"
  by (simp add: tame_def)

lemma tame_rest: "tame (Run c p i)" "tame (PutObject k x)" "tame (GetObject k)" "tame (DeleteObject k)"
  by (simp_all add: tame_def)

lemma emits_any:
  "emits_only P (require b e)" "emits_only P (done_with x)" "emits_only P (fail e)"
  by (auto simp: emits_def require_def done_with_def fail_def)

lemma emits_sql: "P (Sql d q ps) \<Longrightarrow> emits_only P (execute env d q ps)"
  by (rule emits_execute) simp_all

lemma emits_value: "P (Sql d q ps) \<Longrightarrow> emits_only P (fetchval env d q ps)"
  by (rule emits_fetchval) simp_all

lemma emits_validate: "emits P (\<lambda>x. x = n \<and> is_valid_identifier n) (validate_identifier n)"
  by (auto simp: emits_def validate_identifier_def require_def done_with_def)

lemma emits_valid_plain: "emits P plain (validate_identifier n)"
  by (rule emits_weaken [OF emits_validate]) (auto intro: valid_identifier_plain)

lemma emits_connect: "emits_only P (connect_to_database env n)"
  by (auto simp: emits_def connect_to_database_def validate_identifier_def require_def done_with_def split: option.splits)

lemma emits_extension: "emits P plain (validate_extension_name n)"
  by (auto simp: emits_def validate_extension_name_def require_def done_with_def allowed_extensions_def plain_def)

lemma tame_literal: "quoting_server env \<Longrightarrow> emits tame quoted (quoted_literal env v)"
  unfolding quoted_literal_def
proof (rule emits_bind)
  assume "quoting_server env"
  then show "emits tame (\<lambda>v. quoted (python_str v)) (fetchval env (maintenance env) ''SELECT quote_literal($1)'' [PgText v])"
    by (intro emits_fetchval) (auto simp: tame_def known_constants quoting_server_def)
qed (auto intro: emits_done)

lemma tame_own_name: "quoting_server env \<Longrightarrow> emits tame (\<lambda>v. plain (python_str v)) (fetchval env d ''SELECT current_user'' [])"
  by (intro emits_fetchval) (auto simp: tame_def known_constants quoting_server_def own_name_query_def)

lemma tame_owner: "quoting_server env \<Longrightarrow> emits tame (\<lambda>v. plain (python_str v)) (fetchval env d owner_query [])"
  by (intro emits_fetchval) (auto simp: tame_def known_constants quoting_server_def)

lemmas tame_rules = emits_bind emits_extension emits_valid_plain emits_connect tame_literal tame_own_name tame_owner
  emits_any emits_admin emits_sql emits_value emits_run emits_store tame_sql tame_rest
  known_constants known_with_password known_named known_limit

lemmas tame_flow = emits_if emits_option emits_catching emits_finally

lemma tame_create_database: "quoting_server env \<Longrightarrow> emits_only tame (create_database env d r p)"
  unfolding create_database_def by (assumption | rule tame_rules)+

lemma tame_drop_database: "quoting_server env \<Longrightarrow> emits_only tame (drop_database env d r)"
  unfolding drop_database_def terminate_connections_def by (assumption | rule tame_rules)+

lemma tame_limit: "quoting_server env \<Longrightarrow> emits_only tame (set_connection_limit env d n)"
  unfolding set_connection_limit_def by (assumption | rule tame_rules)+

lemma tame_quiesce: "quoting_server env \<Longrightarrow> emits_only tame (quiesce_for_migration env d r)"
  unfolding quiesce_for_migration_def by (assumption | rule tame_rules)+

lemma tame_suspend: "quoting_server env \<Longrightarrow> emits_only tame (suspend_database env d)"
  unfolding suspend_database_def terminate_connections_def by (assumption | rule tame_rules)+

lemma tame_resume: "quoting_server env \<Longrightarrow> emits_only tame (resume_database env d)"
  unfolding resume_database_def by (assumption | rule tame_rules)+

lemma tame_execute_all: "list_all known_structure qs \<Longrightarrow> emits_only tame (execute_all env d qs)"
  by (induction qs) (auto intro!: emits_bind [OF emits_sql] emits_any tame_sql)

lemma tame_create_role: "quoting_server env \<Longrightarrow> emits_only tame (create_role_in_database env d r p s)"
  unfolding create_role_in_database_def by (assumption | rule tame_rules tame_execute_all known_grants)+

lemma tame_drop_role: "quoting_server env \<Longrightarrow> emits_only tame (drop_role_in_database env d r)"
  unfolding drop_role_in_database_def by (assumption | rule tame_rules)+

lemma tame_rotate: "quoting_server env \<Longrightarrow> emits_only tame (rotate_role_password env r p)"
  unfolding rotate_role_password_def by (assumption | rule tame_rules)+

lemma tame_extensions: "emits_only tame (list_extensions env d)" "emits_only tame (install_extension env d n)"
    "emits_only tame (drop_extension env d n)"
  unfolding list_extensions_def install_extension_def drop_extension_def by (assumption | rule tame_rules)+

lemma tame_metrics: "emits_only tame (get_database_metrics env d)"
  unfolding get_database_metrics_def by (assumption | rule tame_rules tame_flow)+

lemma tame_describe: "emits_only tame (describe_tables env d ts)"
  by (induction ts) (simp_all, (assumption | rule tame_rules)+)

lemma tame_tables: "emits_only tame (list_tables env d)"
  unfolding list_tables_def by (assumption | rule tame_rules tame_describe)+

lemma tame_lag: "emits_only tame (lag_of v)"
  unfolding lag_of_def by (assumption | rule tame_rules tame_flow)+

lemma tame_replicas: "emits_only tame (replicas_of rs)"
  by (induction rs) (simp_all, (assumption | rule tame_rules tame_lag)+)

lemma tame_replication: "emits_only tame (get_replication_status env)"
  unfolding get_replication_status_def by (assumption | rule tame_rules tame_flow tame_replicas tame_lag)+

lemma tame_await: "emits_only tame (await_promotion env wait elapsed)"
proof (induction "polls_left wait elapsed" arbitrary: elapsed rule: less_induct)
  case less
  have "emits_only tame (await_promotion env wait (elapsed + 1 / 2))" if "elapsed < wait"
    using less polls_left_less [OF that] by blast
  then show ?case
    by (subst await_promotion.simps) (assumption | rule tame_rules tame_flow)+
qed

lemma tame_promote: "emits_only tame (promote env)"
  unfolding promote_def by (assumption | rule tame_rules tame_await)+

lemma tame_restore_dump: "emits_only tame (restore_dump env d x r)"
  unfolding restore_dump_def by (assumption | rule tame_rules)+

lemma tame_decrypt: "emits_only tame (fernet_decrypt env x)"
  unfolding fernet_decrypt_def by (assumption | rule tame_rules tame_flow)+

lemma tame_backup: "emits_only tame (create_encrypted_backup env d)"
  unfolding create_encrypted_backup_def dump_database_def by (assumption | rule tame_rules)+

lemma tame_restore: "emits_only tame (restore_encrypted_backup env d x r)"
  unfolding restore_encrypted_backup_def by (assumption | rule tame_rules tame_decrypt tame_restore_dump)+

text \<open>\<open>uuid4().hex\<close>.\<close>

definition hex_digits :: "string \<Rightarrow> bool" where
  "hex_digits s \<longleftrightarrow> length s = 32 \<and> list_all (\<lambda>c. is_digit c \<or> c \<in> {CHR ''a'', CHR ''b'', CHR ''c'', CHR ''d'', CHR ''e'', CHR ''f''}) s"

lemma temp_plain: "hex_digits s \<Longrightarrow> plain (''verify_'' @ take 16 s)"
  by (auto simp: hex_digits_def plain_def list_all_iff dest!: in_set_takeD is_digit_facts)

lemma tame_verify_in: "plain temp \<Longrightarrow> emits_only tame (verify_in env temp x)"
  unfolding verify_in_def check_restored_def by (assumption | rule tame_rules tame_flow tame_decrypt tame_restore_dump)+

lemma tame_verify: "\<forall>l. hex_digits (ag_hex env l) \<Longrightarrow> emits_only tame (verify_encrypted_backup env x)"
  unfolding emits_def verify_encrypted_backup_def using tame_verify_in [unfolded emits_def] temp_plain by metis

lemma tame_answering: "emits P Q m \<Longrightarrow> emits P Q (answering valid code m)"
  unfolding answering_def by (assumption | rule emits_bind emits_any emits_catching emits_fail)+

lemma tame_forgiving: "emits_only P m \<Longrightarrow> emits_only P (forgiving m)"
  unfolding forgiving_def by (assumption | rule emits_any emits_catching emits_if)+

lemma tame_ignoring: "emits_only P m \<Longrightarrow> emits_only P (ignoring m)"
  unfolding ignoring_def by (assumption | rule emits_bind emits_any)+

lemmas tame_operations = tame_create_database tame_drop_database tame_limit tame_quiesce tame_suspend tame_resume
  tame_create_role tame_drop_role tame_rotate tame_extensions tame_metrics tame_tables tame_replication tame_promote
  tame_backup tame_restore tame_verify tame_answering tame_forgiving tame_ignoring

lemmas endpoint_defs = provision_database_def delete_database_endpoint_def suspend_database_endpoint_def
  resume_database_endpoint_def set_connection_limit_endpoint_def quiesce_endpoint_def create_role_endpoint_def
  delete_role_endpoint_def rotate_role_endpoint_def list_extensions_endpoint_def install_extension_endpoint_def
  drop_extension_endpoint_def metrics_endpoint_def tables_endpoint_def backup_endpoint_def restore_endpoint_def
  verify_backup_endpoint_def delete_backup_object_endpoint_def replication_status_endpoint_def promote_endpoint_def

lemma tame_endpoint:
  assumes "quoting_server env" "\<forall>l. hex_digits (ag_hex env l)"
  shows "emits_only tame (agent_endpoint env request)"
  using assms
  by (cases request) (simp_all only: agent_endpoint.simps endpoint_defs, (assumption | rule tame_operations tame_rules)+)


text \<open>C3: No request can change the structure of the SQL the agent sends: whatever names, passwords,
  scopes, extensions and storage keys it carries, and whether it succeeds or not, every statement is,
  outside of its quoted identifiers and literals, one of a fixed list.\<close>

theorem statements_fixed:
  assumes "quoting_server env" "\<forall>l. hex_digits (ag_hex env l)" "agent_endpoint env request l = (r, l')"
  shows "\<exists>ds. l' = l @ ds \<and> (\<forall>d q ps. Sql d q ps \<in> set ds \<longrightarrow> known_structure q)"
proof -
  obtain ds where "l' = l @ ds" "list_all tame ds" using emitsD [OF tame_endpoint [OF assms(1,2)] assms(3)] by blast
  then show ?thesis by (force simp: list_all_iff tame_def)
qed

text \<open>A small node: PostgreSQL answers with quoted literals and remembers nothing else.\<close>

definition sql_quote :: "string \<Rightarrow> string" where
  "sql_quote s = (if CHR 0x5C \<in> set s then [CHR ''E''] else []) @ [CHR 0x27] @
     concat (map (\<lambda>c. if c = CHR 0x27 \<or> c = CHR 0x5C then [c, c] else [c]) s) @ [CHR 0x27]"

lemma skeleton_doubled:
  "skeleton InLiteral (concat (map (\<lambda>c. if c = CHR 0x27 \<or> c = CHR 0x5C then [c, c] else [c]) s) @ [CHR 0x27]) = Some [CHR 0x27]"
  by (induction s) auto

lemma sql_quote_quoted: "quoted (sql_quote s)"
  using skeleton_doubled [of s] by (auto simp: quoted_def sql_quote_def is_digit_def)

definition demo_settings :: agent_settings where
  "demo_settings = \<lparr>st_database = ''postgres'', st_admin_user = ''postgres'', st_admin_password = ''pw'', st_command_prefix = '''',
     st_pg_dump_path = ''pg_dump'', st_pg_restore_path = ''pg_restore'', st_pg_host = ''127.0.0.1'', st_pg_port = 5\<rparr>"

definition demo_agent :: "(deed list \<Rightarrow> string \<Rightarrow> pg_error option) \<Rightarrow> ag_env" where
  "demo_agent refuses = \<lparr>ag_settings = demo_settings,
     ag_sql = (\<lambda>l d q ps. case refuses l q of Some e \<Rightarrow> Inl e | None \<Rightarrow>
        Inr (if q = ''SELECT quote_literal($1)'' then [[PgText (sql_quote (python_str (cell 0 ps)))]]
             else if q = ''SELECT pg_is_in_recovery()'' then [[PgBool (length l < 3)]]
             else [[PgText ''postgres'']])),
     ag_connect = (\<lambda>l d. None), ag_run = (\<lambda>l cmd p i. (0, ''dump'')),
     ag_put = (\<lambda>l k x. True),
     ag_get = (\<lambda>l k. foldl (\<lambda>found d. case d of PutObject j x \<Rightarrow> if j = k then Some x else found | DeleteObject j \<Rightarrow> if j = k then None else found | _ \<Rightarrow> found) None l),
     ag_delete = (\<lambda>l k. True), ag_encrypt = (\<lambda>x. ''gAAAA'' @ x), ag_decrypt = (\<lambda>x. Some (drop 5 x)),
     ag_hex = (\<lambda>l. replicate 32 (CHR ''0'')), ag_error_text = (\<lambda>e. ''error'')\<rparr>"

abbreviation "calm_agent \<equiv> demo_agent (\<lambda>l q. None)"

lemma calm_agent_quotes: "quoting_server calm_agent"
  by (auto simp: quoting_server_def demo_agent_def first_value_def cell_def sql_quote_quoted own_name_query_def owner_query_def plain_def)

lemma calm_agent_hex: "\<forall>l. hex_digits (ag_hex calm_agent l)"
  by (simp add: demo_agent_def hex_digits_def list_all_iff is_digit_def)

definition hostile :: string where
  "hostile = ''x'' @ [CHR 0x27] @ ''; DROP ROLE postgres; --''"

definition demo_provision :: "deed list" where
  "demo_provision = snd (agent_endpoint calm_agent (ProvisionRequest ''shop'' ''shop_owner'' hostile) [])"

theorem statements_fixed_witness:
  "list_all (\<lambda>d. case d of Sql _ q _ \<Rightarrow> known_structure q | _ \<Rightarrow> True) demo_provision \<and> length demo_provision = 3 \<and>
   demo_provision ! 1 = Sql ''postgres'' (''CREATE ROLE \"shop_owner\" WITH LOGIN PASSWORD '' @
     [CHR 0x27] @ ''x'' @ [CHR 0x27, CHR 0x27] @ ''; DROP ROLE postgres; --'' @ [CHR 0x27]) []"
proof -
  have run: "agent_endpoint calm_agent (ProvisionRequest ''shop'' ''shop_owner'' hostile) [] =
      (fst (agent_endpoint calm_agent (ProvisionRequest ''shop'' ''shop_owner'' hostile) []), demo_provision)"
    by (simp add: demo_provision_def)
  have "length demo_provision = 3" by code_simp
  moreover have "demo_provision ! 1 = Sql ''postgres'' (''CREATE ROLE \"shop_owner\" WITH LOGIN PASSWORD '' @
     [CHR 0x27] @ ''x'' @ [CHR 0x27, CHR 0x27] @ ''; DROP ROLE postgres; --'' @ [CHR 0x27]) []" by code_simp
  moreover have "list_all (\<lambda>d. case d of Sql _ q _ \<Rightarrow> known_structure q | _ \<Rightarrow> True) demo_provision"
    unfolding list_all_iff
  proof
    fix d
    assume "d \<in> set demo_provision"
    then show "case d of Sql _ q _ \<Rightarrow> known_structure q | _ \<Rightarrow> True"
      using statements_fixed [OF calm_agent_quotes calm_agent_hex run] by (auto split: deed.split)
  qed
  ultimately show ?thesis by blast
qed

section \<open>Promotion\<close>

abbreviation poll :: "ag_env \<Rightarrow> deed" where
  "poll env \<equiv> Sql (maintenance env) ''SELECT pg_is_in_recovery()'' []"

lemma await_polls:
  assumes "await_promotion env wait elapsed l = (r, l')"
  shows "\<exists>n \<le> polls_left wait elapsed. l' = l @ replicate n (poll env) \<and> (r = Inr () \<or> (\<exists>e. r = Inl e)) \<and>
    (r = Inr () \<longrightarrow> 0 < n \<and> (\<exists>rows. ag_sql env (l @ replicate (n - 1) (poll env)) (maintenance env) ''SELECT pg_is_in_recovery()'' [] = Inr rows \<and>
       \<not> truthy (first_value rows)))"
  using assms
proof (induction "polls_left wait elapsed" arbitrary: elapsed l r l' rule: less_induct)
  case less
  show ?case
  proof (cases "elapsed < wait")
    case False
    then have "r = Inl AG_RuntimeError" "l' = l" using less.prems by (simp_all add: await_promotion.simps [of env wait elapsed] fail_def)
    then show ?thesis by (intro exI [of _ 0]) simp
  next
    case True
    note shorter = polls_left_less [OF True]
    let ?ask = "ag_sql env l (maintenance env) ''SELECT pg_is_in_recovery()'' []"
    have "await_promotion env wait elapsed l = (case ?ask of Inl e \<Rightarrow> (Inl (AG_Postgres e), l @ [poll env])
        | Inr rows \<Rightarrow> (if \<not> truthy (first_value rows) then done_with () else await_promotion env wait (elapsed + 1 / 2)) (l @ [poll env]))"
      using True by (simp add: await_promotion.simps [of env wait elapsed] fetchval_def execute_def done_with_def split: sum.split)
    note step = trans [OF less.prems [symmetric] this]
    show ?thesis
    proof (cases ?ask)
      case (Inl e)
      then show ?thesis using step shorter by (intro exI [of _ 1]) simp
    next
      case (Inr rows)
      show ?thesis
      proof (cases "truthy (first_value rows)")
        case False
        then show ?thesis using step shorter Inr by (intro exI [of _ 1]) (simp add: done_with_def)
      next
        case tr: True
        then have rest: "await_promotion env wait (elapsed + 1 / 2) (l @ [poll env]) = (r, l')" using step Inr by simp
        obtain n where n: "n \<le> polls_left wait (elapsed + 1 / 2)" "l' = (l @ [poll env]) @ replicate n (poll env)"
          "r = Inr () \<or> (\<exists>e. r = Inl e)" "r = Inr () \<longrightarrow> 0 < n \<and> (\<exists>rows. ag_sql env ((l @ [poll env]) @ replicate (n - 1) (poll env))
              (maintenance env) ''SELECT pg_is_in_recovery()'' [] = Inr rows \<and> \<not> truthy (first_value rows))"
          using less.hyps [OF shorter rest] by blast
        have m: "poll env # replicate (n - 1) (poll env) = replicate n (poll env)" if "0 < n" using that by (cases n) auto
        show ?thesis using n shorter m by (intro exI [of _ "Suc n"]) auto
      qed
    qed
  qed
qed


definition demo_promotion :: "(ag_exn + string) \<times> deed list" where
  "demo_promotion = promote_endpoint calm_agent []"


end
