(* ===== verification/AG_Recovery.thy ===== *)
theory AG_Recovery
  imports AG_Safety
begin

text \<open>
  Backups from the agent's side: what a restore feeds to \<open>pg_restore\<close>, what a verification leaves
  behind, and what happens when a provisioning is tried again.
\<close>

section \<open>Taking runs apart\<close>

lemma bindA_okE:
  assumes "(case M of (a, v) \<Rightarrow> (case a of Inl e \<Rightarrow> (Inl e, v) | Inr x \<Rightarrow> f x v)) = (Inr y, l')"
  obtains x v where "M = (Inr x, v)" "f x v = (Inr y, l')"
  using assms by (auto split: prod.splits sum.splits)

lemma answering_Inr: "answering valid code m l = (Inr y, l') \<longleftrightarrow> valid \<and> m l = (Inr y, l')"
  by (auto simp: answering_def require_def catching_def fail_def split: prod.splits sum.splits)

lemma forgiving_Inr: "forgiving m l = (Inr y, l') \<longleftrightarrow> m l = (Inr y, l') \<or> m l = (Inl (AG_Postgres DuplicateDatabase), l')"
  by (auto simp: forgiving_def catching_def fail_def done_with_def split: prod.splits sum.splits)

lemma validate_Inr: "validate_identifier n l = (Inr x, l') \<longleftrightarrow> is_valid_identifier n \<and> x = n \<and> l' = l"
  by (auto simp: validate_identifier_def require_def done_with_def)

lemma done_Inr: "done_with x l = (Inr y, l') \<longleftrightarrow> y = x \<and> l' = l"
  by (auto simp: done_with_def)

lemma run_tool_Inr: "run_tool env cmd p i l = (Inr out, l') \<longleftrightarrow> ag_run env l cmd p i = (0, out) \<and> l' = l @ [Run cmd p i]"
  by (auto simp: run_tool_def split: prod.splits)

lemma upload_Inr: "upload_bytes env k x l = (Inr u, l') \<longleftrightarrow> ag_put env l k x \<and> l' = l @ [PutObject k x]"
  by (auto simp: upload_bytes_def)

lemma download_Inr: "download_bytes env k l = (Inr x, l') \<longleftrightarrow> ag_get env l k = Some x \<and> l' = l @ [GetObject k]"
  by (auto simp: download_bytes_def split: option.splits)

lemma decrypt_Inr: "fernet_decrypt env t l = (Inr x, l') \<longleftrightarrow> ag_decrypt env t = Some x \<and> l' = l"
  by (auto simp: fernet_decrypt_def fail_def done_with_def split: option.splits)

lemmas run_simps = answering_Inr forgiving_Inr validate_Inr done_Inr run_tool_Inr upload_Inr download_Inr decrypt_Inr

section \<open>Backup and restore\<close>

text \<open>The object store: an accepted object is read back until something else happens to its key.\<close>

definition untouched :: "string \<Rightarrow> deed list \<Rightarrow> bool" where
  "untouched k ds \<longleftrightarrow> list_all (\<lambda>d. case d of PutObject j _ \<Rightarrow> j \<noteq> k | DeleteObject j \<Rightarrow> j \<noteq> k | _ \<Rightarrow> True) ds"

definition durable_store :: "ag_env \<Rightarrow> bool" where
  "durable_store env \<longleftrightarrow> (\<forall>l k x ds. ag_put env l k x \<and> untouched k ds \<longrightarrow> ag_get env (l @ PutObject k x # ds) k = Some x)"

definition fernet :: "ag_env \<Rightarrow> bool" where
  "fernet env \<longleftrightarrow> (\<forall>x. ag_decrypt env (ag_encrypt env x) = Some x)"

lemma create_database_touches_no_object: "emits_only (\<lambda>d. \<exists>db q ps. d = Sql db q ps) (create_database env d r p)"
  unfolding create_database_def quoted_literal_def admin_def
  by (rule emits_bind [OF emits_validate] emits_bind [OF emits_value] emits_bind [OF emits_sql] emits_bind emits_any exI refl)+

lemma backup_result:
  assumes "backup_endpoint env d k l = (Inr n, l')"
  obtains raw where "ag_run env l (dump_command (ag_settings env) d) (st_admin_password (ag_settings env)) None = (0, raw)"
    "ag_put env (l @ [Run (dump_command (ag_settings env) d) (st_admin_password (ag_settings env)) None]) k (ag_encrypt env raw)"
    "l' = l @ [Run (dump_command (ag_settings env) d) (st_admin_password (ag_settings env)) None, PutObject k (ag_encrypt env raw)]"
    "n = length (ag_encrypt env raw)"
  using assms unfolding backup_endpoint_def create_encrypted_backup_def dump_database_def
  by (elim bindA_okE) (auto simp: run_simps elim!: bindA_okE)

lemma restore_result:
  assumes "restore_endpoint env d k r p l = (Inr s, l')"
  obtains (restored) l1 token raw where "create_database env d r p l = (Inr (), l1)" "ag_get env l1 k = Some token"
      "ag_decrypt env token = Some raw"
      "l' = l1 @ [GetObject k, Run (restore_command (ag_settings env) d (Some r)) (st_admin_password (ag_settings env)) (Some raw)]"
  | (skipped) "create_database env d r p l = (Inl (AG_Postgres DuplicateDatabase), l')"
proof -
  let ?restore = "bindA (create_database env d r p) (\<lambda>_. bindA (download_bytes env k) (\<lambda>x. restore_encrypted_backup env d x (Some r)))"
  have "?restore l = (Inr (), l') \<or> ?restore l = (Inl (AG_Postgres DuplicateDatabase), l')"
    using assms unfolding restore_endpoint_def answering_Inr by (elim conjE bindA_okE) (simp add: forgiving_Inr done_Inr)
  then show thesis
  proof
    assume "?restore l = (Inr (), l')"
    then obtain l1 token l2 where c: "create_database env d r p l = (Inr (), l1)" and g: "download_bytes env k l1 = (Inr token, l2)"
      and rest: "restore_encrypted_backup env d token (Some r) l2 = (Inr (), l')"
      by (elim bindA_okE) simp
    from rest obtain raw l3 where raw: "fernet_decrypt env token l2 = (Inr raw, l3)" and dump: "restore_dump env d raw (Some r) l3 = (Inr (), l')"
      unfolding restore_encrypted_backup_def by (rule bindA_okE) (rule that)
    from dump have "l' = l3 @ [Run (restore_command (ag_settings env) d (Some r)) (st_admin_password (ag_settings env)) (Some raw)]"
      unfolding restore_dump_def by (elim bindA_okE) (simp add: run_simps)
    then show thesis using restored [OF c] g raw by (auto simp: run_simps)
  next
    assume dup: "?restore l = (Inl (AG_Postgres DuplicateDatabase), l')"
    have "download_bytes env k u \<noteq> (Inl (AG_Postgres e), v)" for u v e by (auto simp: download_bytes_def split: option.splits)
    moreover have "restore_encrypted_backup env d x (Some r) u \<noteq> (Inl (AG_Postgres e), v)" for x u v e
      by (auto simp: restore_encrypted_backup_def fernet_decrypt_def restore_dump_def validate_identifier_def require_def
          run_tool_def done_with_def fail_def split: option.splits prod.splits sum.splits if_splits)
    ultimately have "create_database env d r p l = (Inl (AG_Postgres DuplicateDatabase), l')"
      using dup by (auto split: prod.splits sum.splits)
    then show thesis by (rule skipped)
  qed
qed

text \<open>C15: A backup restores to exactly the dump that was taken: once a backup request has answered, a
  later restore from its key that answers \<open>restored\<close> has fed \<open>pg_restore\<close> the very bytes \<open>pg_dump\<close>
  wrote, whatever was done in between that left the object alone -- or the target database already
  existed, and nothing was restored.\<close>

theorem backup_restores:
  assumes "fernet env" "durable_store env"
    and backup: "backup_endpoint env d k l = (Inr n, l1)" and quiet: "untouched k ds"
    and restore: "restore_endpoint env d' k r p (l1 @ ds) = (Inr s, l2)"
  shows "\<exists>dump. ag_run env l (dump_command (ag_settings env) d) (st_admin_password (ag_settings env)) None = (0, dump) \<and>
     (last l2 = Run (restore_command (ag_settings env) d' (Some r)) (st_admin_password (ag_settings env)) (Some dump) \<or>
      create_database env d' r p (l1 @ ds) = (Inl (AG_Postgres DuplicateDatabase), l2))"
proof -
  obtain raw where raw: "ag_run env l (dump_command (ag_settings env) d) (st_admin_password (ag_settings env)) None = (0, raw)"
    and put: "ag_put env (l @ [Run (dump_command (ag_settings env) d) (st_admin_password (ag_settings env)) None]) k (ag_encrypt env raw)"
    and l1: "l1 = l @ [Run (dump_command (ag_settings env) d) (st_admin_password (ag_settings env)) None, PutObject k (ag_encrypt env raw)]"
    using backup by (rule backup_result)
  from restore show ?thesis
  proof (cases rule: restore_result)
    case (restored u token x)
    obtain cs where cs: "u = (l1 @ ds) @ cs" "list_all (\<lambda>d. \<exists>db q ps. d = Sql db q ps) cs"
      using emitsD [OF create_database_touches_no_object restored(1)] by blast
    have "untouched k (ds @ cs)" using quiet cs(2) by (auto simp: untouched_def list_all_iff)
    then have "ag_get env ((l @ [Run (dump_command (ag_settings env) d) (st_admin_password (ag_settings env)) None]) @
        PutObject k (ag_encrypt env raw) # ds @ cs) k = Some (ag_encrypt env raw)"
      using assms(2) put unfolding durable_store_def by blast
    then have "token = ag_encrypt env raw" using restored(2) cs(1) l1 by simp
    then have "x = raw" using assms(1) restored(3) by (simp add: fernet_def)
    then show ?thesis using raw restored(4) by auto
  next
    case skipped
    then show ?thesis using raw by blast
  qed
qed

lemma calm_agent_stores: "fernet calm_agent" "durable_store calm_agent"
proof -
  show "fernet calm_agent" by (simp add: fernet_def demo_agent_def)
  have "foldl (\<lambda>found d. case d of PutObject j x \<Rightarrow> if j = k then Some x else found | DeleteObject j \<Rightarrow> if j = k then None else found | _ \<Rightarrow> found)
      (Some x) ds = Some x" if "untouched k ds" for k x ds
    using that by (induction ds) (auto simp: untouched_def split: deed.splits)
  then show "durable_store calm_agent" by (simp add: durable_store_def demo_agent_def)
qed

definition demo_backup_run :: "(ag_exn + nat) \<times> deed list" where
  "demo_backup_run = backup_endpoint calm_agent ''shop'' ''k1'' []"

definition demo_restore_run :: "(ag_exn + string) \<times> deed list" where
  "demo_restore_run = restore_endpoint calm_agent ''shop_two'' ''k1'' ''shop_owner'' ''password'' (snd demo_backup_run @ [GetObject ''k2''])"

theorem backup_restores_witness:
  "(\<exists>dump. last (snd demo_restore_run) = Run (restore_command demo_settings ''shop_two'' (Some ''shop_owner'')) ''pw'' (Some dump) \<and>
     dump = ''dump'') \<and> fst demo_restore_run = Inr ''restored''"
proof -
  have "fst demo_backup_run = Inr 9" by code_simp
  then have b: "backup_endpoint calm_agent ''shop'' ''k1'' [] = (Inr 9, snd demo_backup_run)"
    unfolding demo_backup_run_def by (metis prod.collapse)
  have r: "fst demo_restore_run = Inr ''restored''" by code_simp
  then have restore: "restore_endpoint calm_agent ''shop_two'' ''k1'' ''shop_owner'' ''password'' (snd demo_backup_run @ [GetObject ''k2'']) =
      (Inr ''restored'', snd demo_restore_run)"
    unfolding demo_restore_run_def by (metis prod.collapse)
  have u: "untouched ''k1'' [GetObject ''k2'']" by (simp add: untouched_def)
  have n: "fst (create_database calm_agent ''shop_two'' ''shop_owner'' ''password'' (snd demo_backup_run @ [GetObject ''k2''])) = Inr ()" by code_simp
  have env: "ag_settings calm_agent = demo_settings" "st_admin_password demo_settings = ''pw''" "ag_run calm_agent l c pw i = (0, ''dump'')" for l c pw i
    by (simp_all add: demo_agent_def demo_settings_def)
  show ?thesis using backup_restores [OF calm_agent_stores b u restore, unfolded env] n r by auto
qed

section \<open>Verification\<close>

text \<open>What a verification in \<open>temp\<close> may do: make it, fill it, look at it and drop it.\<close>

definition creation :: "ag_env \<Rightarrow> string \<Rightarrow> deed" where
  "creation env temp = Sql (maintenance env) (''CREATE DATABASE \"'' @ temp @ ''\"'') []"

definition disposal :: "ag_env \<Rightarrow> string \<Rightarrow> deed" where
  "disposal env temp = Sql (maintenance env) (''DROP DATABASE IF EXISTS \"'' @ temp @ ''\" WITH (FORCE)'') []"

definition inside :: "ag_env \<Rightarrow> string \<Rightarrow> deed \<Rightarrow> bool" where
  "inside env temp d \<longleftrightarrow> d = creation env temp \<or> d = disposal env temp \<or> d = Sql temp count_query [] \<or>
     (\<exists>raw. d = Run (restore_command (ag_settings env) temp None) (st_admin_password (ag_settings env)) (Some raw))"

lemma connect_same: "emits P (\<lambda>x. x = n) (connect_to_database env n)"
  by (auto simp: emits_def connect_to_database_def validate_identifier_def require_def done_with_def split: option.splits)

lemma inside_check: "emits_only (inside env temp) (check_restored env temp x)"
  unfolding check_restored_def fernet_decrypt_def restore_dump_def
proof (rule emits_bind [where Q = "\<lambda>_. True"])
  fix raw
  have "emits_only (inside env temp) (bindA (validate_identifier temp) (\<lambda>d.
      bindA (run_tool env (restore_command (ag_settings env) d None) (st_admin_password (ag_settings env)) (Some raw)) (\<lambda>_. done_with ())))"
    by (rule emits_bind [OF emits_validate]) (auto intro!: emits_bind [OF emits_run] emits_any simp: inside_def)
  moreover have "emits_only (inside env temp) (bindA (connect_to_database env temp) (\<lambda>c. bindA (fetchval env c count_query []) (\<lambda>n.
      done_with (True, ''Restored successfully; '' @ python_str n @ '' table(s) found''))))"
    by (rule emits_bind [OF connect_same]) (auto intro!: emits_bind [OF emits_value] emits_any simp: inside_def)
  ultimately show "emits_only (inside env temp) (bindA (bindA (validate_identifier temp) (\<lambda>d.
      bindA (run_tool env (restore_command (ag_settings env) d None) (st_admin_password (ag_settings env)) (Some raw)) (\<lambda>_. done_with ()))) (\<lambda>_.
      bindA (connect_to_database env temp) (\<lambda>c. bindA (fetchval env c count_query []) (\<lambda>n.
      done_with (True, ''Restored successfully; '' @ python_str n @ '' table(s) found'')))))"
    by (rule emits_bind)
qed (auto intro!: emits_any split: option.split)

lemma check_in_temp: "catching (check_restored env temp x) (\<lambda>e. done_with (False, take 2000 (ag_error_text env e))) l = (a, v) \<Longrightarrow>
    \<exists>ds verdict. v = l @ ds \<and> list_all (inside env temp) ds \<and> a = Inr verdict"
proof -
  assume run: "catching (check_restored env temp x) (\<lambda>e. done_with (False, take 2000 (ag_error_text env e))) l = (a, v)"
  obtain b u where c: "check_restored env temp x l = (b, u)" by fastforce
  obtain ds where "u = l @ ds" "list_all (inside env temp) ds" using emitsD [OF inside_check c] by blast
  moreover have "v = u \<and> (\<exists>verdict. a = Inr verdict)" using run c by (auto simp: catching_def done_with_def split: sum.splits)
  ultimately show ?thesis by blast
qed

text \<open>C39: A verification leaves nothing behind: it works in a database of its own, sends nothing to any
  other, and whether the backup can be decrypted and restored or not, its last statement drops that
  database again; it fails only when creating or dropping it does, and otherwise answers with a verdict.\<close>

theorem verification_disposes:
  assumes run: "verify_encrypted_backup env x l = (r, l')" and temp: "temp = ''verify_'' @ take 16 (ag_hex env l)"
  shows "\<exists>ds. l' = l @ ds \<and> list_all (inside env temp) ds \<and> hd ds = creation env temp \<and>
     (ds = [creation env temp] \<and> (\<exists>e. r = Inl (AG_Postgres e)) \<or>
      last ds = disposal env temp \<and> ((\<exists>verdict. r = Inr verdict) \<or> (\<exists>e. r = Inl (AG_Postgres e))))"
proof -
  let ?create = "''CREATE DATABASE \"'' @ temp @ ''\"''" and ?drop = "''DROP DATABASE IF EXISTS \"'' @ temp @ ''\" WITH (FORCE)''"
  have v: "verify_in env temp x l = (r, l')" using run temp by (simp add: verify_encrypted_backup_def)
  show ?thesis
  proof (cases "ag_sql env l (maintenance env) ?create []")
    case (Inl e)
    then have "l' = l @ [creation env temp] \<and> r = Inl (AG_Postgres e)"
      using v by (simp add: verify_in_def admin_def execute_def maintenance_def creation_def)
    then show ?thesis by (simp add: inside_def)
  next
    case (Inr rows)
    obtain a u where c: "catching (check_restored env temp x) (\<lambda>e. done_with (False, take 2000 (ag_error_text env e))) (l @ [creation env temp]) = (a, u)"
      by fastforce
    obtain ds verdict where ds: "u = (l @ [creation env temp]) @ ds" "list_all (inside env temp) ds" "a = Inr verdict"
      using check_in_temp [OF c] by blast
    have "(r, l') = finally_do (catching (check_restored env temp x) (\<lambda>e. done_with (False, take 2000 (ag_error_text env e))))
        (admin env ?drop) (l @ [creation env temp])"
      using v Inr by (simp add: verify_in_def admin_def execute_def maintenance_def creation_def)
    then have "l' = u @ [disposal env temp] \<and> ((\<exists>verdict. r = Inr verdict) \<or> (\<exists>e. r = Inl (AG_Postgres e)))"
      using c ds(3) by (auto simp: finally_do_def admin_def execute_def disposal_def maintenance_def split: sum.splits)
    then show ?thesis using ds
      by (intro exI [of _ "creation env temp # ds @ [disposal env temp]"]) (auto simp: inside_def)
  qed
qed

definition demo_verification :: "(ag_exn + bool \<times> string) \<times> deed list" where
  "demo_verification = verify_encrypted_backup calm_agent ''gAAAAdump'' []"

theorem verification_disposes_witness:
  "last (snd demo_verification) = disposal calm_agent ''verify_0000000000000000'' \<and> length (snd demo_verification) = 4 \<and>
   fst demo_verification = Inr (True, ''Restored successfully; postgres table(s) found'')"
proof -
  have run: "verify_encrypted_backup calm_agent ''gAAAAdump'' [] = (fst demo_verification, snd demo_verification)"
    by (simp add: demo_verification_def)
  have t: "''verify_0000000000000000'' = ''verify_'' @ take 16 (ag_hex calm_agent [])" by code_simp
  have "length (snd demo_verification) = 4" by code_simp
  moreover have "fst demo_verification = Inr (True, ''Restored successfully; postgres table(s) found'')" by code_simp
  ultimately show ?thesis using verification_disposes [OF run t] by auto
qed

section \<open>Trying again\<close>

lemma create_database_conflict:
  assumes exists: "\<And>l q. ag_sql env l (maintenance env) (''CREATE ROLE \"'' @ r @ ''\" WITH LOGIN PASSWORD '' @ q) [] = Inl DuplicateObject"
    and quotes: "\<And>l v. \<exists>rows. ag_sql env l (maintenance env) ''SELECT quote_literal($1)'' [v] = Inr rows"
    and ok: "is_valid_identifier d" "is_valid_identifier r"
  shows "\<exists>q. create_database env d r p l = (Inl (AG_Postgres DuplicateObject),
     l @ [Sql (maintenance env) ''SELECT quote_literal($1)'' [PgText p],
          Sql (maintenance env) (''CREATE ROLE \"'' @ r @ ''\" WITH LOGIN PASSWORD '' @ q) []])"
proof -
  obtain rows where "ag_sql env l (maintenance env) ''SELECT quote_literal($1)'' [PgText p] = Inr rows" using quotes by blast
  then have "quoted_literal env p l = (Inr (python_str (first_value rows)), l @ [Sql (maintenance env) ''SELECT quote_literal($1)'' [PgText p]])"
    by (simp add: quoted_literal_def fetchval_def execute_def done_with_def)
  then show ?thesis
    using ok exists [unfolded maintenance_def]
    by (simp add: create_database_def validate_identifier_def require_def done_with_def admin_def execute_def maintenance_def)
qed

text \<open>C40: A provisioning that was interrupted cannot be completed by trying again: once the role
  exists, PostgreSQL refuses to create it, which neither endpoint tolerates, so both answer 500 and
  never get to the database, although their handlers are meant to be idempotent.\<close>

theorem provision_retry_fails:
  assumes "\<And>l q. ag_sql env l (maintenance env) (''CREATE ROLE \"'' @ r @ ''\" WITH LOGIN PASSWORD '' @ q) [] = Inl DuplicateObject"
    and "\<And>l v. \<exists>rows. ag_sql env l (maintenance env) ''SELECT quote_literal($1)'' [v] = Inr rows"
    and "is_valid_identifier d" "is_valid_identifier r"
    and ok: "name_ok d" "name_ok r" "password_ok p" "storage_key_ok k"
    and run: "m \<in> {provision_database env d r p, restore_endpoint env d k r p}" "m l = (a, l')"
  shows "a = Inl (AG_HTTP 500) \<and> (\<exists>q. l' = l @ [Sql (maintenance env) ''SELECT quote_literal($1)'' [PgText p],
     Sql (maintenance env) (''CREATE ROLE \"'' @ r @ ''\" WITH LOGIN PASSWORD '' @ q) []])"
proof -
  obtain q where c: "create_database env d r p l = (Inl (AG_Postgres DuplicateObject),
     l @ [Sql (maintenance env) ''SELECT quote_literal($1)'' [PgText p],
          Sql (maintenance env) (''CREATE ROLE \"'' @ r @ ''\" WITH LOGIN PASSWORD '' @ q) []])"
    using create_database_conflict [OF assms(1-4)] by blast
  from run(1) consider "m = provision_database env d r p" | "m = restore_endpoint env d k r p" by blast
  then show ?thesis
  proof cases
    case 1
    then show ?thesis using run(2) ok c
      by (auto simp: provision_database_def answering_def require_def forgiving_def catching_def fail_def identifier_400_def)
  next
    case 2
    then show ?thesis using run(2) ok c
      by (auto simp: restore_endpoint_def answering_def require_def forgiving_def catching_def fail_def restore_502_def)
  qed
qed

abbreviation "used_agent \<equiv> demo_agent (\<lambda>l q. if take 13 q = ''CREATE ROLE \"'' then Some DuplicateObject else None)"

theorem provision_retry_fails_witness:
  "fst (provision_database used_agent ''shop'' ''shop_owner'' ''password'' []) = Inl (AG_HTTP 500) \<and>
   fst (provision_database calm_agent ''shop'' ''shop_owner'' ''password'' []) = Inr ''created''"
proof -
  have "ag_sql used_agent l (maintenance used_agent) (''CREATE ROLE \"'' @ ''shop_owner'' @ ''\" WITH LOGIN PASSWORD '' @ q) [] = Inl DuplicateObject" for l q
    by (simp add: demo_agent_def)
  moreover have "\<exists>rows. ag_sql used_agent l (maintenance used_agent) ''SELECT quote_literal($1)'' [v] = Inr rows" for l v
    by (simp add: demo_agent_def)
  moreover have "is_valid_identifier ''shop''" "is_valid_identifier ''shop_owner''" "name_ok ''shop''" "name_ok ''shop_owner''"
    "password_ok ''password''" "storage_key_ok ''k''"
    by code_simp+
  moreover have "provision_database used_agent ''shop'' ''shop_owner'' ''password'' \<in>
     {provision_database used_agent ''shop'' ''shop_owner'' ''password'', restore_endpoint used_agent ''shop'' ''k'' ''shop_owner'' ''password''}"
    by blast
  ultimately have "fst (provision_database used_agent ''shop'' ''shop_owner'' ''password'' []) = Inl (AG_HTTP 500)"
    using provision_retry_fails [of used_agent "''shop_owner''" "''shop''" "''password''" "''k''"] by (metis prod.collapse)
  moreover have "fst (provision_database calm_agent ''shop'' ''shop_owner'' ''password'' []) = Inr ''created''" by code_simp
  ultimately show ?thesis by blast
qed

end
