(* ===== verification/Spec2Isabelle.thy ===== *)
theory Spec2Isabelle
  imports MF_Whole MF_Platform MF_Bootstrap SDK_CLI CP_RateLimit CP_Scheduler CP_Worker CP_Tenancy CP_Lifecycle
    CP_InfraApi CP_BillingInvariant AG_Recovery
begin

text \<open>
  A model of the eminidatabase platform and the properties that make it correct.

  \<^bold>\<open>The program.\<close>  The Control Plane (\<open>src/backend/app\<close>) sells PostgreSQL databases to organizations: a
  metadata database, an HTTP API, a worker that executes jobs, a scheduler that creates them, and billing.
  On each node an agent (\<open>src/agent/app\<close>) is the only process that talks to PostgreSQL; the Control Plane
  calls it over HTTP.  A client library and a command line (\<open>src/sdk/eminidatabase_sdk\<close>) are built on the
  public API.  The microfinance service (\<open>src/microfinance/mf_app\<close>) is a client of the platform: it keeps
  its institutions and staff in a database of its own, gets a database for every institution through the
  client library, and runs that institution's ledger, savings and loans in it.

  \<^bold>\<open>How code is represented.\<close>  A model class is a record whose fields are the columns, a table the list of
  its rows in insertion order, an enumeration a datatype.  Python integers are \<open>int\<close>; \<open>Decimal\<close> and
  \<open>float\<close> values are the rationals they denote and every arithmetic operation rounds as the context or
  the processor does (\<open>Decimal_Arith\<close>), so nothing overflows silently and what \<open>quantize\<close> refuses is an
  error.  Instants are integers in microseconds.  Exceptions are values of a datatype of their own, and an
  operation returns \<open>exception + result\<close>.  The Control Plane's operations pass a world that holds the
  session, what is committed and the calls sent to agents, and what was done before an exception stays
  done (\<open>CP_Model\<close>); the clients and the microfinance control database use the same idea over an
  arbitrary state (\<open>Effects\<close>).  A request that raises falls back to what it had committed; a worker commits what its
  failing handler did, as the code does.  PostgreSQL, the command line tools, hashes, tokens, ciphers,
  clocks, payment providers and the HTTP transport are arguments of the definitions.

  \<^bold>\<open>Shared theories.\<close>
    \<^item> \<open>Prelude\<close>: tables and their look-ups, results, reachability, the locale \<open>invariant_system\<close>.
    \<^item> \<open>Decimal_Arith\<close>: the \<open>decimal\<close> context, \<open>ROUND_HALF_UP\<close>, powers, binary floating point, stored money.
    \<^item> \<open>Python_Text\<close>: what is used of Python's strings.
    \<^item> \<open>Retry_Queue\<close>: the locale \<open>retry_queue\<close>, a job table with bounded attempts and delays.
    \<^item> \<open>Rbac_Spec\<close>: the locale \<open>rbac_matrix\<close>, a permission table and its guard.
    \<^item> \<open>Effects\<close>: effects over an arbitrary state, the contracts \<open>holds E P m Q\<close> and what an effect \<open>stays\<close> in.
    \<^item> \<open>CP_Frame\<close>: the locale \<open>frame\<close>, relations every operation of a handler stays in; \<open>CP_Contract\<close>:
      pre- and postconditions of the Control Plane's operations.

  \<^bold>\<open>Microfinance.\<close>
    \<^item> \<open>MF_Model\<close> the tenant schema; \<open>MF_Ledger\<close> \<open>services/ledger.py\<close>, with the effect of a posting on every
      account and its idempotent replay; \<open>MF_Savings\<close>, \<open>MF_Amortization\<close>, \<open>MF_Loans\<close>, \<open>MF_Reports\<close>,
      \<open>MF_Rbac\<close> the services of the same names; \<open>MF_Api\<close> the tenant endpoints with their schemas and errors.
    \<^item> \<open>MF_Invariant\<close>: the books balance, cached balances are what the entries add up to, no overdraft,
      schedules well formed and loans on the edges of their life cycle, in every reachable tenant state
      (interpretation \<open>tenant_sys\<close>).
    \<^item> \<open>MF_Control\<close>: institutions, staff, tokens, the dependencies of a request, the service's own endpoints.
    \<^item> \<open>MF_Onboarding\<close>: the service's job queue (interpretation \<open>mf_queue\<close>), the onboarding job and the worker.
    \<^item> \<open>MF_Bootstrap\<close>: the script that makes the service a client of the platform, at most once.
    \<^item> \<open>MF_Service\<close>, \<open>MF_Whole\<close>: the service as one system (interpretation \<open>service\<close>): its rows stay well
      formed, the books of every institution balance, a request reaches the database of the
      institution its token names and no other, and a login is good for one institution.

  \<^bold>\<open>Control Plane.\<close>
    \<^item> \<open>CP_Model\<close> the metadata schema, the world and the agent's calls; \<open>CP_Jobs\<close> \<open>services/jobs.py\<close>
      (interpretation \<open>cp_queue\<close>: polling brings every job to an end); \<open>CP_Events\<close> audit, webhooks and
      notifications; \<open>CP_Rbac\<close> roles (interpretation \<open>cp_rbac\<close>); \<open>CP_Placement\<close> node health, quotas and placement.
    \<^item> \<open>CP_Orchestrator\<close>, \<open>CP_Backups\<close>, \<open>CP_HA\<close>: the job handlers; a migration never loses the source before
      the copy is in use, a failover leaves exactly one primary.
    \<^item> \<open>CP_Auth\<close> \<open>core/security.py\<close>, sessions, API keys, OAuth; \<open>CP_RateLimit\<close> the rate limiter, equal to a
      sliding window specification, and the identifier check.
    \<^item> \<open>CP_OrgApi\<close>, \<open>CP_DatabaseApi\<close>, \<open>CP_InfraApi\<close>, \<open>CP_BillingApi\<close>: the endpoints, their guards in the order of the
      code.  \<open>CP_Tenancy\<close>: a request reaches only rows and physical databases of its organization and only
      with the permission; \<open>CP_Lifecycle\<close>: quotas, and what a late retry does.
    \<^item> \<open>CP_Billing\<close>, \<open>CP_Payments\<close>, \<open>CP_Scheduler\<close>, \<open>CP_BillingInvariant\<close>: metering, invoices and payments; no stretch of time is
      charged twice and no subscription has two unpaid invoices (interpretation \<open>billing\<close>).
    \<^item> \<open>CP_Worker\<close>: the worker process refines the abstract queue.

  \<^bold>\<open>Agent.\<close>  \<open>AG_Model\<close>, \<open>AG_Postgres\<close>, \<open>AG_Backup\<close>, \<open>AG_Api\<close> translate \<open>postgres_admin.py\<close>, \<open>replication.py\<close>,
  \<open>backup.py\<close>, \<open>object_storage.py\<close> and the endpoints of \<open>main.py\<close>; \<open>AG_Safety\<close> and \<open>AG_Recovery\<close> show that no
  request changes the structure of the SQL that is sent, that a promotion ends, that a restore feeds
  back the bytes that were dumped, and that a verification disposes of its copy.

  \<^bold>\<open>Clients and composition.\<close>  \<open>SDK_Client\<close> is every method of \<open>PlatformClient\<close>; \<open>SDK_CLI\<close> every command of the
  command line and its credentials file.  \<open>Platform_API\<close> puts the Control Plane's endpoints behind routes
  and response schemas, as a network the client can be run on, and shows that each method does what its
  endpoint does.  \<open>MF_Platform\<close> runs the microfinance worker over the client on that platform; what a failed
  onboarding leaves there stops every later attempt.

  \<^bold>\<open>Loops and bounds.\<close>  There is no fuel: recursions are structural or have a measure.
  \<open>wait_for_job\<close> is a \<open>partial_function\<close> whose \<open>None\<close> is a wait that never ends, and is shown to end whenever
  the clock runs; a promotion polls at most thirty times; the \<open>while True\<close> of the worker, the scheduler and
  the microfinance worker are given one round at a time and, where a property speaks of more, as a list
  of rounds.

  \<^bold>\<open>Not modelled.\<close>  The TypeScript client and the dashboard; the database migrations (\<open>alembic\<close>), whose schema is
  that of the model classes; the HTML and the sending of e-mail; the HTTP calls of the payment and OAuth
  providers, whose answers are parameters; configuration, sessions and logging; the notification inbox
  endpoints; the agent's registration loop, resource figures and start-up; parsing of requests and
  arguments by FastAPI, pydantic and typer, other than the checks the schemas state.  Requests are atomic
  with respect to each other: two requests that interleave inside one handler are not represented, except
  for the calls of agents, whose answers may depend on everything sent before.
\<close>

end
